(* ===== verification/Prelude.thy ===== *)
theory Prelude
  imports Main "HOL-Library.State_Monad" "HOL-Library.List_Lexorder" "HOL-Library.Char_ord"
    "HOL-Library.Product_Lexorder" "HOL-Library.Sublist"
begin

text \<open>
  What every component shares: the types that stand for Go's \<open>uuid.UUID\<close>, \<open>time.Time\<close> and
  \<open>error\<close>, the combinators that read like Go's \<open>if err != nil\<close> over the library's state monad,
  the calculus of preserved state predicates (\<open>keeps\<close>), table updates in the style of SQL's
  \<open>UPDATE .. WHERE\<close>, decimal rendering, and the theorem collections of the development.
\<close>

section \<open>Types\<close>

text \<open>
  A \<open>uuid.UUID\<close> is its canonical text (36 lower-case characters, \<open>String()\<close>), whose
  lexicographic order is the order PostgreSQL gives to the type. Times are nanoseconds. An error is
  its message.
\<close>

type_synonym uuid = string
type_synonym time = int
type_synonym go_error = string

definition uuid_Nil :: uuid where
  "uuid_Nil = ''00000000-0000-0000-0000-000000000000''"

definition seconds :: "int \<Rightarrow> time" where
  "seconds n = n * 1000000000"

definition minutes :: "int \<Rightarrow> time" where
  "minutes n = n * 60 * 1000000000"

definition hours :: "int \<Rightarrow> time" where
  "hours n = n * 3600 * 1000000000"

lemmas duration_defs = seconds_def minutes_def hours_def

section \<open>Theorem collections\<close>

named_theorems keeps_intros \<open>rules that reduce \<open>keeps I m\<close> to the statements of \<open>m\<close>\<close>
named_theorems reads_intros \<open>computations that only read\<close>
named_theorems table_simps \<open>membership and key facts of table updates\<close>

section \<open>Errors in the state monad\<close>

text \<open>
  A Go function that returns \<open>(T, error)\<close> and works on state \<open>'s\<close> is a computation of type
  \<open>('s, go_error + T) state\<close>. \<open>attempt m k\<close> is \<open>x, err := m; if err != nil { return err }; k x\<close> and
  \<open>wrap_err\<close> is \<open>fmt.Errorf("prefix: %w", err)\<close>.
\<close>

definition attempt :: "('s, 'e + 'a) state \<Rightarrow> ('a \<Rightarrow> ('s, 'e + 'b) state) \<Rightarrow> ('s, 'e + 'b) state" where
  "attempt m k = do { r \<leftarrow> m; case r of Inl e \<Rightarrow> State_Monad.return (Inl e) | Inr x \<Rightarrow> k x }"

definition wrap_err :: "string \<Rightarrow> ('s, go_error + 'a) state \<Rightarrow> ('s, go_error + 'a) state" where
  "wrap_err p m = do { r \<leftarrow> m; State_Monad.return (case r of Inl e \<Rightarrow> Inl (p @ e) | Inr x \<Rightarrow> Inr x) }"

definition ok :: "'a \<Rightarrow> ('s, 'e + 'a) state" where
  "ok x = State_Monad.return (Inr x)"

definition fail :: "'e \<Rightarrow> ('s, 'e + 'a) state" where
  "fail e = State_Monad.return (Inl e)"

text \<open>\<open>for _, x := range xs { body }\<close> where the body never leaves the loop.\<close>

fun for_each :: "'x list \<Rightarrow> ('x \<Rightarrow> ('s, unit) state) \<Rightarrow> ('s, unit) state" where
  "for_each [] body = State_Monad.return ()"
| "for_each (x # xs) body = do { _ \<leftarrow> body x; for_each xs body }"

text \<open>The same loop where the body may \<open>return err\<close>.\<close>

fun for_each_try :: "'x list \<Rightarrow> ('x \<Rightarrow> ('s, 'e + unit) state) \<Rightarrow> ('s, 'e + unit) state" where
  "for_each_try [] body = ok ()"
| "for_each_try (x # xs) body = attempt (body x) (\<lambda>_. for_each_try xs body)"

text \<open>\<open>_ = m\<close>: run for its effect, drop the error.\<close>

definition ignore :: "('s, 'a) state \<Rightarrow> ('s, unit) state" where
  "ignore m = do { _ \<leftarrow> m; State_Monad.return () }"

lemma run_attempt [simp]:
  "run_state (attempt m k) s =
     (case run_state m s of (Inl e, s') \<Rightarrow> (Inl e, s') | (Inr x, s') \<Rightarrow> run_state (k x) s')"
  by (auto simp: attempt_def split: prod.splits sum.splits)

lemma run_wrap_err [simp]:
  "run_state (wrap_err p m) s =
     (case run_state m s of (Inl e, s') \<Rightarrow> (Inl (p @ e), s') | (Inr x, s') \<Rightarrow> (Inr x, s'))"
  by (auto simp: wrap_err_def split: prod.splits sum.splits)

lemma run_ok [simp]: "run_state (ok x) s = (Inr x, s)"
  by (simp add: ok_def)

lemma run_fail [simp]: "run_state (fail e) s = (Inl e, s)"
  by (simp add: fail_def)

lemma run_ignore [simp]: "run_state (ignore m) s = ((), snd (run_state m s))"
  by (auto simp: ignore_def split: prod.splits)

section \<open>Preserved predicates\<close>

text \<open>\<open>keeps I m\<close>: whatever \<open>m\<close> returns, it leaves \<open>I\<close> true if \<open>I\<close> was true.\<close>

definition keeps :: "('s \<Rightarrow> bool) \<Rightarrow> ('s, 'a) state \<Rightarrow> bool" where
  "keeps I m \<longleftrightarrow> (\<forall>s. I s \<longrightarrow> I (snd (run_state m s)))"

lemma keepsI: "(\<And>s. I s \<Longrightarrow> I (snd (run_state m s))) \<Longrightarrow> keeps I m"
  by (simp add: keeps_def)

lemma keepsD: "keeps I m \<Longrightarrow> I s \<Longrightarrow> I (snd (run_state m s))"
  by (simp add: keeps_def)

lemma keepsE: "keeps I m \<Longrightarrow> I s \<Longrightarrow> run_state m s = (r, s') \<Longrightarrow> I s'"
  by (auto simp: keeps_def dest: spec [of _ s])

lemma keeps_return [keeps_intros, intro]: "keeps I (State_Monad.return x)"
  by (simp add: keeps_def)

lemma keeps_ok [keeps_intros, intro]: "keeps I (ok x)"
  by (simp add: keeps_def)

lemma keeps_fail [keeps_intros, intro]: "keeps I (fail e)"
  by (simp add: keeps_def)

lemma keeps_get [keeps_intros, intro]: "keeps I State_Monad.get"
  by (simp add: keeps_def)

lemma keeps_bind [keeps_intros]:
  "keeps I m \<Longrightarrow> (\<And>x. keeps I (f x)) \<Longrightarrow> keeps I (State_Monad.bind m f)"
  by (auto simp: keeps_def split: prod.splits)

lemma keeps_attempt [keeps_intros]:
  "keeps I m \<Longrightarrow> (\<And>x. keeps I (k x)) \<Longrightarrow> keeps I (attempt m k)"
  unfolding attempt_def by (intro keeps_bind) (auto split: sum.splits)

lemma keeps_wrap_err [keeps_intros]: "keeps I m \<Longrightarrow> keeps I (wrap_err p m)"
  unfolding wrap_err_def by (intro keeps_bind keeps_return)

lemma keeps_ignore [keeps_intros]: "keeps I m \<Longrightarrow> keeps I (ignore m)"
  unfolding ignore_def by (intro keeps_bind keeps_return)

lemma keeps_if [keeps_intros]:
  "(b \<Longrightarrow> keeps I m) \<Longrightarrow> (\<not> b \<Longrightarrow> keeps I n) \<Longrightarrow> keeps I (if b then m else n)"
  by simp

lemma keeps_case_sum [keeps_intros]:
  "(\<And>a. x = Inl a \<Longrightarrow> keeps I (f a)) \<Longrightarrow> (\<And>b. x = Inr b \<Longrightarrow> keeps I (g b)) \<Longrightarrow>
   keeps I (case x of Inl a \<Rightarrow> f a | Inr b \<Rightarrow> g b)"
  by (auto split: sum.splits)

lemma keeps_case_option [keeps_intros]:
  "(x = None \<Longrightarrow> keeps I f) \<Longrightarrow> (\<And>b. x = Some b \<Longrightarrow> keeps I (g b)) \<Longrightarrow>
   keeps I (case x of None \<Rightarrow> f | Some b \<Rightarrow> g b)"
  by (auto split: option.splits)

lemma keeps_case_list [keeps_intros]:
  "(x = [] \<Longrightarrow> keeps I f) \<Longrightarrow> (\<And>y ys. x = y # ys \<Longrightarrow> keeps I (g y ys)) \<Longrightarrow>
   keeps I (case x of [] \<Rightarrow> f | y # ys \<Rightarrow> g y ys)"
  by (auto split: list.splits)

lemma keeps_case_prod [keeps_intros]:
  "(\<And>a b. x = (a, b) \<Longrightarrow> keeps I (f a b)) \<Longrightarrow> keeps I (case x of (a, b) \<Rightarrow> f a b)"
  by (auto split: prod.splits)

lemma keeps_let [keeps_intros]: "(\<And>x. keeps I (f x)) \<Longrightarrow> keeps I (let x = v in f x)"
  by simp

lemma keeps_for_each [keeps_intros]:
  "(\<And>x. x \<in> set xs \<Longrightarrow> keeps I (body x)) \<Longrightarrow> keeps I (for_each xs body)"
  by (induction xs) (auto intro!: keeps_bind)

lemma keeps_for_each_try [keeps_intros]:
  "(\<And>x. keeps I (body x)) \<Longrightarrow> keeps I (for_each_try xs body)"
  by (induction xs) (auto intro!: keeps_attempt)

section \<open>Triples\<close>

text \<open>\<open>valid P m Q\<close>: from a state with \<open>P\<close>, the result and the state after \<open>m\<close> satisfy \<open>Q\<close>.\<close>

definition valid :: "('s \<Rightarrow> bool) \<Rightarrow> ('s, 'a) state \<Rightarrow> ('a \<Rightarrow> 's \<Rightarrow> bool) \<Rightarrow> bool" where
  "valid P m Q \<longleftrightarrow> (\<forall>s r s'. P s \<longrightarrow> run_state m s = (r, s') \<longrightarrow> Q r s')"

lemma validI: "(\<And>s r s'. P s \<Longrightarrow> run_state m s = (r, s') \<Longrightarrow> Q r s') \<Longrightarrow> valid P m Q"
  by (simp add: valid_def)

lemma validD: "valid P m Q \<Longrightarrow> P s \<Longrightarrow> run_state m s = (r, s') \<Longrightarrow> Q r s'"
  by (simp add: valid_def)

lemma valid_keeps: "keeps I m \<Longrightarrow> valid I m (\<lambda>_. I)"
  by (auto simp: valid_def dest: keepsE)

lemma keeps_valid: "valid I m (\<lambda>_. I) \<Longrightarrow> keeps I m"
  unfolding valid_def keeps_def by (metis prod.collapse)

lemma valid_weaken:
  "valid P m Q \<Longrightarrow> (\<And>s. P' s \<Longrightarrow> P s) \<Longrightarrow> (\<And>r s. Q r s \<Longrightarrow> Q' r s) \<Longrightarrow> valid P' m Q'"
  unfolding valid_def by blast

lemma valid_pre: "valid P m Q \<Longrightarrow> (\<And>s. P' s \<Longrightarrow> P s) \<Longrightarrow> valid P' m Q"
  unfolding valid_def by blast

lemma valid_return: "(\<And>s. P s \<Longrightarrow> Q x s) \<Longrightarrow> valid P (State_Monad.return x) Q"
  by (simp add: valid_def)

lemma valid_ok: "(\<And>s. P s \<Longrightarrow> Q (Inr x) s) \<Longrightarrow> valid P (ok x) Q"
  by (simp add: valid_def)

lemma valid_fail: "(\<And>s. P s \<Longrightarrow> Q (Inl e) s) \<Longrightarrow> valid P (fail e) Q"
  by (simp add: valid_def)

lemma valid_bind:
  "valid P m R \<Longrightarrow> (\<And>x. valid (R x) (f x) Q) \<Longrightarrow> valid P (State_Monad.bind m f) Q"
  by (auto simp: valid_def split: prod.splits)

lemma valid_bind_keeps:
  "keeps P m \<Longrightarrow> (\<And>x. valid P (f x) Q) \<Longrightarrow> valid P (State_Monad.bind m f) Q"
  by (rule valid_bind [OF valid_keeps])

lemma valid_attempt:
  "valid P m R \<Longrightarrow> (\<And>e s. R (Inl e) s \<Longrightarrow> Q (Inl e) s) \<Longrightarrow> (\<And>x. valid (R (Inr x)) (k x) Q) \<Longrightarrow>
   valid P (attempt m k) Q"
  unfolding attempt_def
  by (rule valid_bind) (auto split: sum.splits intro: valid_return)

lemma valid_attempt_keeps:
  "keeps P m \<Longrightarrow> (\<And>e s. P s \<Longrightarrow> Q (Inl e) s) \<Longrightarrow> (\<And>x. valid P (k x) Q) \<Longrightarrow>
   valid P (attempt m k) Q"
  by (rule valid_attempt [OF valid_keeps])

lemma valid_wrap_err:
  "valid P m (\<lambda>r s. case r of Inl e \<Rightarrow> Q (Inl (p @ e)) s | Inr x \<Rightarrow> Q (Inr x) s) \<Longrightarrow>
   valid P (wrap_err p m) Q"
  by (fastforce simp: valid_def split: prod.splits sum.splits)

lemma valid_if:
  "(b \<Longrightarrow> valid P m Q) \<Longrightarrow> (\<not> b \<Longrightarrow> valid P n Q) \<Longrightarrow> valid P (if b then m else n) Q"
  by simp

lemma valid_assume: "(\<And>s. P s \<Longrightarrow> A) \<Longrightarrow> (A \<Longrightarrow> valid P m Q) \<Longrightarrow> valid P m Q"
  by (auto simp: valid_def)

section \<open>Tables\<close>

text \<open>A table is the list of its rows; \<open>upd_where P f\<close> is \<open>UPDATE .. SET f WHERE P\<close>.\<close>

definition upd_where :: "('r \<Rightarrow> bool) \<Rightarrow> ('r \<Rightarrow> 'r) \<Rightarrow> 'r list \<Rightarrow> 'r list" where
  "upd_where P f rs = map (\<lambda>r. if P r then f r else r) rs"

lemma length_upd_where [simp]: "length (upd_where P f rs) = length rs"
  by (simp add: upd_where_def)

lemma upd_where_Nil [simp]: "upd_where P f [] = []"
  by (simp add: upd_where_def)

lemma upd_where_Cons [simp]:
  "upd_where P f (r # rs) = (if P r then f r else r) # upd_where P f rs"
  by (simp add: upd_where_def)

lemma upd_where_append [simp]: "upd_where P f (xs @ ys) = upd_where P f xs @ upd_where P f ys"
  by (simp add: upd_where_def)

lemma set_upd_where [table_simps]:
  "x \<in> set (upd_where P f rs) \<longleftrightarrow> (\<exists>r \<in> set rs. x = (if P r then f r else r))"
  by (auto simp: upd_where_def)

lemma map_upd_where [table_simps]:
  "(\<And>r. k (f r) = k r) \<Longrightarrow> map k (upd_where P f rs) = map k rs"
  by (auto simp: upd_where_def)

lemma upd_where_none: "(\<And>r. r \<in> set rs \<Longrightarrow> \<not> P r) \<Longrightarrow> upd_where P f rs = rs"
  by (induction rs) (auto simp: upd_where_def)

text \<open>The first row that satisfies a condition: \<open>SELECT .. WHERE\<close> on a key.\<close>

lemma find_Some_mem: "find P xs = Some x \<Longrightarrow> x \<in> set xs \<and> P x"
  by (induction xs) (auto split: if_splits)

lemma find_None_all: "find P xs = None \<Longrightarrow> x \<in> set xs \<Longrightarrow> \<not> P x"
  by (induction xs) (auto split: if_splits)

lemma find_upd_where:
  "(\<And>r. P (f r) = P r) \<Longrightarrow> (\<And>r. P r \<Longrightarrow> r \<in> set rs \<Longrightarrow> Q r) \<Longrightarrow>
   find P (upd_where Q f rs) = map_option f (find P rs)"
  by (induction rs) auto

lemma filter_upd_where_out:
  "(\<And>r. r \<in> set rs \<Longrightarrow> P r \<Longrightarrow> \<not> Q (f r)) \<Longrightarrow>
   filter Q (upd_where P f rs) = filter (\<lambda>r. Q r \<and> \<not> P r) rs"
  by (induction rs) auto

lemma filter_upd_where_untouched:
  "(\<And>r. r \<in> set rs \<Longrightarrow> P r \<Longrightarrow> \<not> Q r \<and> \<not> Q (f r)) \<Longrightarrow>
   filter Q (upd_where P f rs) = filter Q rs"
  by (induction rs) auto

lemma filter_map_untouched:
  "(\<And>x. x \<in> set xs \<Longrightarrow> f x = x \<or> (\<not> P x \<and> \<not> P (f x))) \<Longrightarrow> filter P (map f xs) = filter P xs"
  by (induction xs) fastforce+

lemma map_filter_key:
  "distinct (map k xs) \<Longrightarrow> map k (filter (\<lambda>x. k x = i) xs) = (if i \<in> k ` set xs then [i] else [])"
  by (induction xs) (auto simp: filter_empty_conv)

lemma filter_upd_where_same:
  "(\<And>r. P (f r) = P r) \<Longrightarrow> filter P (upd_where Q f rs) = upd_where Q f (filter P rs)"
  by (induction rs) auto

section \<open>Decimal rendering\<close>

definition digit_char :: "nat \<Rightarrow> char" where
  "digit_char n = char_of (48 + n mod 10)"

fun show_nat :: "nat \<Rightarrow> string" where
  "show_nat n = (if n < 10 then [digit_char n] else show_nat (n div 10) @ [digit_char (n mod 10)])"

declare show_nat.simps [simp del]

definition show_int :: "int \<Rightarrow> string" where
  "show_int i = (if i < 0 then CHR ''-'' # show_nat (nat (- i)) else show_nat (nat i))"

lemma show_nat_nonempty [simp]: "show_nat n \<noteq> []"
  by (subst show_nat.simps) simp

text \<open>The number a digit string denotes.\<close>

definition read_nat :: "string \<Rightarrow> nat" where
  "read_nat cs = foldl (\<lambda>n c. 10 * n + (of_char c - 48)) 0 cs"

lemma read_nat_snoc: "read_nat (cs @ [c]) = 10 * read_nat cs + (of_char c - 48)"
  by (simp add: read_nat_def)

lemma digit_char_value: "(of_char (digit_char n) :: nat) = 48 + n mod 10"
proof -
  have "48 + n mod 10 < 256" using mod_less_divisor [of 10 n] by linarith
  then show ?thesis by (simp add: digit_char_def)
qed

lemma read_show_nat [simp]: "read_nat (show_nat n) = n"
proof (induction n rule: show_nat.induct)
  case (1 n)
  show ?case
  proof (cases "n < 10")
    case True
    then show ?thesis by (subst show_nat.simps) (simp add: read_nat_def digit_char_value)
  next
    case False
    then have "read_nat (show_nat n) = 10 * read_nat (show_nat (n div 10)) + n mod 10"
      by (subst show_nat.simps) (simp add: read_nat_snoc digit_char_value)
    then show ?thesis using 1 False by simp
  qed
qed

lemma show_nat_inj [simp]: "show_nat a = show_nat b \<longleftrightarrow> a = b"
  by (metis read_show_nat)

section \<open>Optional values\<close>

text \<open>A Go pointer compared to another by the value it points at; \<open>nil\<close> is \<open>None\<close>.\<close>

definition opt_or :: "'a \<Rightarrow> 'a option \<Rightarrow> 'a" where
  "opt_or d x = (case x of None \<Rightarrow> d | Some v \<Rightarrow> v)"

lemma opt_or_simps [simp]: "opt_or d None = d" "opt_or d (Some v) = v"
  by (simp_all add: opt_or_def)

end
