(* ===== verification/Store_Types.thy ===== *)
theory Store_Types
  imports Prelude
begin

text \<open>
  The rows of the control plane's database (internal/store/models.go) and the database itself: one
  list of rows per table that the modelled code reads or writes, the clock behind \<open>NOW()\<close> and
  \<open>time.Now()\<close>, the supply of \<open>uuid.New()\<close>, and the outcomes of the statements still to be run
  (\<open>db_faults\<close>: \<open>None\<close> lets the next statement run, \<open>Some e\<close> makes it fail with \<open>e\<close> and change
  nothing, the empty list lets every further statement run). Columns that only decorate a page
  (branding, description, owner display) are left out of the project row.
\<close>

section \<open>Rows\<close>

text \<open>\<open>ProjectType\<close>: the named constants, and any other text a request may carry.\<close>

datatype project_type =
  PT_Deployment | PT_DomainOnly | PT_Compose | PT_Image | PT_Build | PT_Other string

datatype deployment_status =
  DS_Pending | DS_Building | DS_Deploying | DS_Running | DS_Failed | DS_Stopped
| DS_Queued | DS_Superseded

datatype node_role = RoleBuilder | RoleDeploy

datatype mount_mode = MountDependency | MountReadWrite

datatype task_type =
  TT_Build | TT_Deploy | TT_Cleanup | TT_RuntimeLogs | TT_Restart | TT_Env | TT_Describe
| TT_Pause | TT_Unpause

text \<open>\<open>TaskStatus\<close>: \<open>TS_Other\<close> is any text outside the column's \<open>CHECK\<close>.\<close>

datatype task_status = TS_Pending | TS_Running | TS_Completed | TS_Failed | TS_Other string

text \<open>
  \<open>Project.GitSource\<close> (a request may carry any text, and a \<open>domain_only\<close> project carries none) and
  the \<open>git_auth_type\<close> column.
\<close>

datatype git_source = GS_External | GS_Hosted | GS_Other string

datatype git_auth = GA_None | GA_HttpsToken | GA_SSHKey

record project =
  p_id :: uuid
  p_name :: string
  p_type :: project_type
  p_git_url :: string
  p_git_branch :: string
  p_git_source :: git_source
  p_domain_prefix :: string
  p_dockerfile_path :: string
  p_owner :: uuid
  p_auth_required :: bool
  p_auth_allowed_domains :: string
  p_auth_bypass_paths :: string
  p_container_port :: int
  p_memory_limit :: string
  p_volume_mount_path :: string
  p_compose_file_path :: string
  p_expose_service :: string
  p_expose_port :: int
  p_pinned_node :: "uuid option"
  p_image_ref :: string
  p_auto_deploy :: bool
  p_paused :: bool
  p_last_image_tag :: string
  p_triggers :: string
  p_last_commit :: string
  p_last_digests :: string
  p_access_mode :: string
  p_fixed_port :: "int option"
  p_fixed_node :: "uuid option"
  p_tcp_prefix :: "string option"
  p_tcp_port :: "int option"
  p_icon :: string
  p_enabled_providers :: string
  p_sms_login :: bool
  p_git_auth :: git_auth
  p_git_auth_user :: string
  p_git_auth_enc :: string
  p_created :: time
  p_updated :: time

record deployment =
  d_id :: uuid
  d_project :: uuid
  d_image_tag :: string
  d_commit_sha :: string
  d_status :: deployment_status
  d_node :: "uuid option"
  d_host_port :: int
  d_logs :: string
  d_restart_count :: int
  d_oom_killed :: bool
  d_created :: time
  d_updated :: time

record node =
  n_id :: uuid
  n_hostname :: string
  n_role :: node_role
  n_host_ip :: string
  n_max_storage :: int
  n_used_storage :: int
  n_last_seen :: time
  n_created :: time

record node_dataset =
  nd_node :: uuid
  nd_dataset :: uuid
  nd_last_used :: time
  nd_size :: int

record dataset =
  ds_id :: uuid
  ds_name :: string
  ds_nfs_path :: string
  ds_size :: int
  ds_checksum :: string
  ds_version :: int
  ds_owner :: uuid
  ds_created :: time
  ds_updated :: time

record project_dataset =
  pd_project :: uuid
  pd_dataset :: uuid
  pd_mode :: mount_mode

record env_var =
  ev_project :: uuid
  ev_key :: string
  ev_runtime :: bool
  ev_build :: bool
  ev_enc :: string

record registry_secret =
  rs_user :: uuid
  rs_addr :: string
  rs_username :: string
  rs_enc :: string

record registry_auth =
  ra_addr :: string
  ra_username :: string
  ra_password :: string

text \<open>
  A task's payload is a JSON object. Its values are those the dispatchers put there; a Go map is an
  association list. The result column is text: what an agent sent, the JSON object
  \<open>{"image_tag": ..}\<close> that \<open>completeTask\<close> writes for a build, or a result that the build watcher
  has marked with the suffix \<open>_dispatched\<close>.
\<close>

type_synonym str_map = "(string \<times> string) list"

datatype payload_value =
  PStr string | PInt int | PBool bool | PMap str_map | PMaps "str_map list"
| PDatasets "(dataset \<times> mount_mode) list"

type_synonym payload = "(string \<times> payload_value) list"

datatype task_result = RText string | RImageTag string | RDispatched task_result

record task =
  t_id :: uuid
  t_type :: task_type
  t_node :: "uuid option"
  t_deployment :: uuid
  t_payload :: payload
  t_status :: task_status
  t_result :: task_result
  t_created :: time
  t_updated :: time

text \<open>Calls of \<open>projectevents.Push\<close>, in order: project, type, severity, message.\<close>

datatype event_type = DeployStarted | DeployCompleted | DeployFailed
datatype severity = SevInfo | SevError

type_synonym event_push = "uuid \<times> event_type \<times> severity \<times> string"

text \<open>
  Accounts: \<open>UserRole\<close>, a user, its row on the admin plane (\<open>platform_members\<close>), the binding of an
  identity provider's subject, the members of a project, the allow-list and the request inbox of a
  private project, the request inbox of the platform, invitations by address and by link, the uses
  of a link, custom-domain aliases and visit counters. A nullable column is an option.
\<close>

datatype user_role = RoleAdmin | RoleMember

record user =
  u_id :: uuid
  u_email :: "string option"
  u_name :: string
  u_avatar :: string
  u_role :: user_role
  u_authorized :: bool
  u_created :: time
  u_name_overridden :: bool
  u_avatar_overridden :: bool

record platform_member =
  pm_user :: uuid
  pm_role :: user_role
  pm_authorized :: bool
  pm_created :: time

record oauth_account =
  oa_provider :: string
  oa_subject :: string
  oa_user :: uuid

record access_user =
  au_project :: uuid
  au_user :: uuid
  au_added_by :: "uuid option"
  au_added :: time

datatype request_status = RQ_Pending | RQ_Approved | RQ_Denied | RQ_Other string

record access_request =
  ar_id :: uuid
  ar_project :: uuid
  ar_user :: uuid
  ar_reason :: string
  ar_status :: request_status
  ar_requested :: time
  ar_decided :: "time option"
  ar_decided_by :: "uuid option"

datatype auth_request_status = AQ_Pending | AQ_Approved | AQ_Rejected

record auth_request =
  aq_id :: uuid
  aq_user :: uuid
  aq_status :: auth_request_status
  aq_reviewed_by :: "uuid option"
  aq_created :: time

record invitation =
  iv_id :: uuid
  iv_email :: string
  iv_invited_by :: uuid
  iv_created :: time

record invitation_link =
  il_id :: uuid
  il_token_hash :: string
  il_invited_by :: "uuid option"
  il_project :: "uuid option"
  il_max_uses :: "int option"
  il_expires :: "time option"
  il_used_at :: "time option"
  il_used_by :: "uuid option"
  il_created :: time

record link_use =
  lu_id :: uuid
  lu_link :: uuid
  lu_user :: uuid
  lu_at :: time

record project_alias =
  pa_id :: uuid
  pa_project :: uuid
  pa_host :: string
  pa_created :: time

record project_visit =
  pv_project :: uuid
  pv_user :: uuid
  pv_first_seen :: time
  pv_last_seen :: time
  pv_count :: int

section \<open>The database\<close>

record db =
  db_now :: time
  db_faults :: "go_error option list"
  db_uuid :: "nat \<Rightarrow> uuid"
  db_next :: nat
  projects :: "project list"
  deployments :: "deployment list"
  tasks :: "task list"
  nodes :: "node list"
  node_datasets :: "node_dataset list"
  datasets :: "dataset list"
  project_datasets :: "project_dataset list"
  env_vars :: "env_var list"
  registry_secrets :: "registry_secret list"
  users :: "user list"
  platform_members :: "platform_member list"
  oauth_accounts :: "oauth_account list"
  project_members :: "(uuid \<times> uuid) list"
  access_users :: "access_user list"
  access_requests :: "access_request list"
  auth_requests :: "auth_request list"
  invitations :: "invitation list"
  invitation_links :: "invitation_link list"
  link_uses :: "link_use list"
  aliases :: "project_alias list"
  visits :: "project_visit list"
  settings :: "(string \<times> string) list"
  pushed :: "event_push list"

type_synonym 'a store = "(db, go_error + 'a) state"

section \<open>Statements\<close>

text \<open>
  One SQL statement: it consumes the next scheduled outcome, fails without effect when that is a
  fault or when \<open>f\<close> reports a violated constraint, and otherwise applies \<open>f\<close>.
\<close>

definition next_fault :: "db \<Rightarrow> go_error option" where
  "next_fault s = (case db_faults s of [] \<Rightarrow> None | f # _ \<Rightarrow> f)"

definition popped :: "db \<Rightarrow> db" where
  "popped s = s\<lparr>db_faults := tl (db_faults s)\<rparr>"

definition sql :: "(db \<Rightarrow> go_error + ('a \<times> db)) \<Rightarrow> 'a store" where
  "sql f = State (\<lambda>s. case next_fault s of
       Some e \<Rightarrow> (Inl e, popped s)
     | None \<Rightarrow> (case f (popped s) of Inl e \<Rightarrow> (Inl e, popped s) | Inr (x, s2) \<Rightarrow> (Inr x, s2)))"

definition query :: "(db \<Rightarrow> 'a) \<Rightarrow> 'a store" where
  "query f = sql (\<lambda>s. Inr (f s, s))"

definition exec :: "(db \<Rightarrow> db) \<Rightarrow> unit store" where
  "exec f = sql (\<lambda>s. Inr ((), f s))"

text \<open>\<open>UPDATE .. RETURNING\<close>: what \<open>f\<close> returns is computed from the state before the update.\<close>

definition exec_returning :: "(db \<Rightarrow> 'a) \<Rightarrow> (db \<Rightarrow> db) \<Rightarrow> 'a store" where
  "exec_returning g f = sql (\<lambda>s. Inr (g s, f s))"

definition time_Now :: "(db, time) state" where
  "time_Now = State (\<lambda>s. (db_now s, s))"

definition uuid_New :: "(db, uuid) state" where
  "uuid_New = State (\<lambda>s. (db_uuid s (db_next s), s\<lparr>db_next := Suc (db_next s)\<rparr>))"

definition push_event :: "uuid \<Rightarrow> event_type \<Rightarrow> severity \<Rightarrow> string \<Rightarrow> (db, unit) state" where
  "push_event p ty sev msg = State (\<lambda>s. ((), s\<lparr>pushed := pushed s @ [(p, ty, sev, msg)]\<rparr>))"

text \<open>
  A transaction: \<open>defer tx.Rollback\<close> undoes the statements of a body that returns an error, and an
  error of the commit itself does the same.
\<close>

definition restore :: "db \<Rightarrow> db \<Rightarrow> db" where
  "restore s0 s = s0\<lparr>db_faults := db_faults s, db_next := db_next s\<rparr>"

definition transaction :: "'a store \<Rightarrow> 'a store" where
  "transaction body = State (\<lambda>s0. case run_state (query (\<lambda>_. ())) s0 of
       (Inl e, s1) \<Rightarrow> (Inl e, s1)
     | (Inr _, s1) \<Rightarrow> (case run_state body s1 of
          (Inl e, s2) \<Rightarrow> (Inl e, restore s1 s2)
        | (Inr x, s2) \<Rightarrow> (case run_state (query (\<lambda>_. ())) s2 of
             (Inl e, s3) \<Rightarrow> (Inl e, restore s1 s3)
           | (Inr _, s3) \<Rightarrow> (Inr x, s3))))"

section \<open>Evaluation and invariants of statements\<close>

lemma faults_same [simp]: "db_faults s = fs \<Longrightarrow> s\<lparr>db_faults := fs\<rparr> = s"
  by auto

lemma next_fault_empty [simp]: "db_faults s = [] \<Longrightarrow> next_fault s = None"
  by (simp add: next_fault_def)

lemma popped_empty [simp]: "db_faults s = [] \<Longrightarrow> popped s = s"
  by (simp add: popped_def)

lemma popped_frame [simp]:
  "db_now (popped s) = db_now s" "db_uuid (popped s) = db_uuid s" "db_next (popped s) = db_next s"
  "projects (popped s) = projects s" "deployments (popped s) = deployments s"
  "tasks (popped s) = tasks s" "nodes (popped s) = nodes s"
  "node_datasets (popped s) = node_datasets s" "datasets (popped s) = datasets s"
  "project_datasets (popped s) = project_datasets s" "env_vars (popped s) = env_vars s"
  "registry_secrets (popped s) = registry_secrets s" "pushed (popped s) = pushed s"
  "users (popped s) = users s"
  "platform_members (popped s) = platform_members s"
  "oauth_accounts (popped s) = oauth_accounts s"
  "project_members (popped s) = project_members s"
  "access_users (popped s) = access_users s"
  "access_requests (popped s) = access_requests s"
  "auth_requests (popped s) = auth_requests s"
  "invitations (popped s) = invitations s"
  "invitation_links (popped s) = invitation_links s"
  "link_uses (popped s) = link_uses s"
  "aliases (popped s) = aliases s"
  "visits (popped s) = visits s"
  "settings (popped s) = settings s"
  "db_faults (popped s) = tl (db_faults s)"
  by (simp_all add: popped_def)

lemma run_sql:
  "run_state (sql f) s = (case next_fault s of
       Some e \<Rightarrow> (Inl e, popped s)
     | None \<Rightarrow> (case f (popped s) of Inl e \<Rightarrow> (Inl e, popped s) | Inr (x, s2) \<Rightarrow> (Inr x, s2)))"
  by (simp add: sql_def)

lemma run_sql_nofault [simp]:
  "db_faults s = [] \<Longrightarrow> run_state (sql f) s =
     (case f s of Inl e \<Rightarrow> (Inl e, s) | Inr (x, s2) \<Rightarrow> (Inr x, s2))"
  by (simp add: run_sql split: sum.splits)

lemma run_query_nofault [simp]: "db_faults s = [] \<Longrightarrow> run_state (query f) s = (Inr (f s), s)"
  by (simp add: query_def)

lemma run_exec_nofault [simp]: "db_faults s = [] \<Longrightarrow> run_state (exec f) s = (Inr (), f s)"
  by (simp add: exec_def)

lemma run_exec_returning_nofault [simp]:
  "db_faults s = [] \<Longrightarrow> run_state (exec_returning g f) s = (Inr (g s), f s)"
  by (simp add: exec_returning_def)

lemma run_time_Now [simp]: "run_state time_Now s = (db_now s, s)"
  by (simp add: time_Now_def)

lemma run_uuid_New [simp]:
  "run_state uuid_New s = (db_uuid s (db_next s), s\<lparr>db_next := Suc (db_next s)\<rparr>)"
  by (simp add: uuid_New_def)

lemma run_push_event [simp]:
  "run_state (push_event p ty sev msg) s = ((), s\<lparr>pushed := pushed s @ [(p, ty, sev, msg)]\<rparr>)"
  by (simp add: push_event_def)

lemma run_query:
  "run_state (query f) s = (case next_fault s of
     Some e \<Rightarrow> (Inl e, popped s) | None \<Rightarrow> (Inr (f (popped s)), popped s))"
  by (simp add: query_def run_sql split: option.splits)

lemma run_exec:
  "run_state (exec f) s = (case next_fault s of
     Some e \<Rightarrow> (Inl e, popped s) | None \<Rightarrow> (Inr (), f (popped s)))"
  by (simp add: exec_def run_sql split: option.splits)

lemma run_exec_returning:
  "run_state (exec_returning g f) s = (case next_fault s of
     Some e \<Rightarrow> (Inl e, popped s) | None \<Rightarrow> (Inr (g (popped s)), f (popped s)))"
  by (simp add: exec_returning_def run_sql split: option.splits)

text \<open>Reads change nothing but the schedule of outcomes.\<close>

definition reads_only :: "(db, 'a) state \<Rightarrow> bool" where
  "reads_only m \<longleftrightarrow> (\<forall>s. \<exists>fs. snd (run_state m s) = s\<lparr>db_faults := fs\<rparr>)"

lemma reads_onlyE:
  assumes "reads_only m" and "run_state m s = (x, s')"
  obtains fs where "s' = s\<lparr>db_faults := fs\<rparr>"
  using assms unfolding reads_only_def by (metis snd_conv)

lemma reads_only_query [reads_intros]: "reads_only (query f)"
  by (auto simp: reads_only_def run_query popped_def split: option.splits)

lemma reads_only_sql [reads_intros]:
  "(\<And>s x s'. f s = Inr (x, s') \<Longrightarrow> s' = s) \<Longrightarrow> reads_only (sql f)"
  unfolding reads_only_def run_sql popped_def
  by (auto split: option.splits sum.splits)

lemma reads_only_return [reads_intros]: "reads_only (State_Monad.return x)"
  unfolding reads_only_def by (metis faults_same run_state_return snd_conv)

lemma reads_only_ok [reads_intros]: "reads_only (ok x)" and reads_only_fail [reads_intros]: "reads_only (fail e)"
  unfolding ok_def fail_def by (rule reads_only_return)+

lemma reads_only_time_Now [reads_intros]: "reads_only time_Now"
  unfolding reads_only_def by (metis faults_same run_time_Now snd_conv)

lemma reads_only_bind [reads_intros]:
  assumes "reads_only m" and "\<And>x. reads_only (f x)"
  shows "reads_only (State_Monad.bind m f)"
  unfolding reads_only_def
proof
  fix s
  obtain x s1 where m: "run_state m s = (x, s1)" by (cases "run_state m s")
  obtain fs where s1: "s1 = s\<lparr>db_faults := fs\<rparr>" using assms(1) m by (rule reads_onlyE)
  obtain gs where "snd (run_state (f x) s1) = s1\<lparr>db_faults := gs\<rparr>"
    using assms(2) unfolding reads_only_def by blast
  then show "\<exists>fs. snd (run_state (State_Monad.bind m f) s) = s\<lparr>db_faults := fs\<rparr>"
    using m s1 by auto
qed

lemma reads_only_attempt [reads_intros]:
  "reads_only m \<Longrightarrow> (\<And>x. reads_only (k x)) \<Longrightarrow> reads_only (attempt m k)"
  unfolding attempt_def by (intro reads_only_bind) (auto intro: reads_only_return split: sum.splits)

lemma reads_only_wrap_err [reads_intros]: "reads_only m \<Longrightarrow> reads_only (wrap_err p m)"
  unfolding wrap_err_def by (intro reads_only_bind reads_only_return)

lemma reads_only_if [reads_intros]:
  "(b \<Longrightarrow> reads_only m) \<Longrightarrow> (\<not> b \<Longrightarrow> reads_only n) \<Longrightarrow> reads_only (if b then m else n)"
  by simp

lemma reads_only_case_option [reads_intros]:
  "(x = None \<Longrightarrow> reads_only f) \<Longrightarrow> (\<And>b. x = Some b \<Longrightarrow> reads_only (g b)) \<Longrightarrow>
   reads_only (case x of None \<Rightarrow> f | Some b \<Rightarrow> g b)"
  by (auto split: option.splits)

lemma reads_only_case_sum [reads_intros]:
  "(\<And>a. x = Inl a \<Longrightarrow> reads_only (f a)) \<Longrightarrow> (\<And>b. x = Inr b \<Longrightarrow> reads_only (g b)) \<Longrightarrow>
   reads_only (case x of Inl a \<Rightarrow> f a | Inr b \<Rightarrow> g b)"
  by (auto split: sum.splits)

lemma reads_only_case_prod [reads_intros]:
  "(\<And>a b. reads_only (f a b)) \<Longrightarrow> reads_only (case x of (a, b) \<Rightarrow> f a b)"
  by (auto split: prod.splits)

text \<open>
  A predicate of the database that reads neither the scheduled outcomes nor the supply of
  identifiers nor the pushed events. Every invariant of the store is one; the rules say what a
  statement has to be checked for.
\<close>

locale store_predicate =
  fixes I :: "db \<Rightarrow> bool"
  assumes I_faults: "I (s\<lparr>db_faults := fs\<rparr>) = I s"
    and I_next: "I (s\<lparr>db_next := n\<rparr>) = I s"
    and I_pushed: "I (s\<lparr>pushed := es\<rparr>) = I s"
begin

lemma I_popped [simp]: "I (popped s) = I s"
  by (simp add: popped_def I_faults)

lemma I_restore: "I (restore s0 s) = I s0"
  by (simp add: restore_def I_faults I_next)

lemma keeps_sql:
  assumes "\<And>s x s'. I s \<Longrightarrow> f s = Inr (x, s') \<Longrightarrow> I s'"
  shows "keeps I (sql f)"
proof (rule keepsI)
  fix s assume "I s"
  then have "I (popped s)" by simp
  then show "I (snd (run_state (sql f) s))"
    using assms [of "popped s"]
    by (auto simp: run_sql split: prod.splits option.splits sum.splits)
qed

lemma keeps_query: "keeps I (query f)"
  unfolding query_def by (rule keeps_sql) auto

lemma keeps_exec: "(\<And>s. I s \<Longrightarrow> I (f s)) \<Longrightarrow> keeps I (exec f)"
  unfolding exec_def by (rule keeps_sql) auto

lemma keeps_exec_returning: "(\<And>s. I s \<Longrightarrow> I (f s)) \<Longrightarrow> keeps I (exec_returning g f)"
  unfolding exec_returning_def by (rule keeps_sql) auto

lemma keeps_reads_only: "reads_only m \<Longrightarrow> keeps I m"
  by (metis I_faults keepsI prod.collapse reads_onlyE)

lemma keeps_time_Now: "keeps I time_Now"
  by (rule keepsI) simp

lemma keeps_uuid_New: "keeps I uuid_New"
  by (rule keepsI) (simp add: I_next)

lemma keeps_push_event: "keeps I (push_event p ty sev msg)"
  by (rule keepsI) (simp add: I_pushed)

lemma keeps_transaction:
  assumes "keeps I body"
  shows "keeps I (transaction body)"
proof (rule keepsI)
  fix s assume I: "I s"
  have q: "I (snd (run_state (query (\<lambda>_. ())) u))" if "I u" for u
    using keeps_query that by (rule keepsD)
  show "I (snd (run_state (transaction body) s))"
    using q [OF I] assms q
    by (auto simp: transaction_def I_restore keeps_def split: prod.splits sum.splits)
      (metis snd_conv)+
qed

lemmas store_keeps = keeps_query keeps_time_Now keeps_uuid_New keeps_push_event

end

text \<open>A transaction that reports an error from its body or its commit has changed no table.\<close>

lemma query_faults_only [simp]: "snd (run_state (query f) s) = popped s"
  by (simp add: run_query split: option.splits)

lemma transaction_atomic:
  assumes "run_state (transaction body) s = (Inl e, s')"
  shows "\<exists>fs n. s' = s\<lparr>db_faults := fs, db_next := n\<rparr>"
proof -
  obtain r where r: "run_state (query (\<lambda>_. ())) s = (r, popped s)"
    by (metis prod.collapse query_faults_only)
  have same: "s\<lparr>db_faults := fs\<rparr> = s\<lparr>db_faults := fs, db_next := db_next s\<rparr>" for fs
    by simp
  show ?thesis
    using assms r
    by (auto simp: transaction_def restore_def popped_def split: prod.splits sum.splits) (metis same)
qed

text \<open>Inversion of the runs that return no error.\<close>

lemmas run_statements = run_query run_exec run_exec_returning

lemma attempt_InrE:
  assumes "run_state (attempt m k) s = (Inr x, s')"
  obtains y s1 where "run_state m s = (Inr y, s1)" and "run_state (k y) s1 = (Inr x, s')"
  using assms by (auto split: prod.splits sum.splits)

lemma query_InrE:
  assumes "run_state (query f) s = (Inr x, s')"
  obtains fs where "s' = s\<lparr>db_faults := fs\<rparr>" and "x = f s'"
  using assms by (auto simp: run_query popped_def split: option.splits)

lemma exec_InrE:
  assumes "run_state (exec f) s = (Inr x, s')"
  obtains fs where "s' = f (s\<lparr>db_faults := fs\<rparr>)"
  using assms by (auto simp: run_exec popped_def split: option.splits)

lemma exec_returning_InrE:
  assumes "run_state (exec_returning g f) s = (Inr x, s')"
  obtains fs where "s' = f (s\<lparr>db_faults := fs\<rparr>)" and "x = g (s\<lparr>db_faults := fs\<rparr>)"
  using assms by (auto simp: run_exec_returning popped_def split: option.splits)

lemma wrap_err_InrE:
  assumes "run_state (wrap_err p m) s = (Inr x, s')"
  obtains "run_state m s = (Inr x, s')"
  using assms by (auto split: prod.splits sum.splits)

lemma transaction_InrE:
  assumes "run_state (transaction body) s = (Inr x, s')"
  obtains fs fs' s2 where "run_state body (s\<lparr>db_faults := fs\<rparr>) = (Inr x, s2)"
    and "s' = s2\<lparr>db_faults := fs'\<rparr>"
  using assms
  by (auto simp: transaction_def run_query popped_def split: prod.splits sum.splits option.splits)

end
