(* ===== verification/Deploy_Store.thy ===== *)
theory Deploy_Store
  imports Store_Types
begin

text \<open>
  The store operations behind the deployment lifecycle (internal/store/store.go): deployments,
  nodes, cached datasets, tasks, and the reads the dispatchers need. Each definition is one method
  of \<open>Store\<close>; its statements are those of the method's SQL, with the constraints of
  db/migrations (primary keys, foreign keys, the status \<open>CHECK\<close>) reported as errors. The rows of
  a \<open>SELECT\<close> without \<open>ORDER BY\<close> come in insertion order.
\<close>

section \<open>Updates of one table\<close>

definition update_deployments :: "(deployment \<Rightarrow> bool) \<Rightarrow> (deployment \<Rightarrow> deployment) \<Rightarrow> db \<Rightarrow> db" where
  "update_deployments P f s = s\<lparr>deployments := upd_where P (\<lambda>d. (f d)\<lparr>d_updated := db_now s\<rparr>) (deployments s)\<rparr>"

definition update_tasks :: "(task \<Rightarrow> bool) \<Rightarrow> (task \<Rightarrow> task) \<Rightarrow> db \<Rightarrow> db" where
  "update_tasks P f s = s\<lparr>tasks := upd_where P (\<lambda>t. (f t)\<lparr>t_updated := db_now s\<rparr>) (tasks s)\<rparr>"

definition update_nodes :: "(node \<Rightarrow> bool) \<Rightarrow> (node \<Rightarrow> node) \<Rightarrow> db \<Rightarrow> db" where
  "update_nodes P f s = s\<lparr>nodes := upd_where P f (nodes s)\<rparr>"

definition update_projects :: "(project \<Rightarrow> bool) \<Rightarrow> (project \<Rightarrow> project) \<Rightarrow> db \<Rightarrow> db" where
  "update_projects P f s = s\<lparr>projects := upd_where P (\<lambda>p. (f p)\<lparr>p_updated := db_now s\<rparr>) (projects s)\<rparr>"

definition project_by :: "db \<Rightarrow> uuid \<Rightarrow> project option" where
  "project_by s i = find (\<lambda>p. p_id p = i) (projects s)"

definition deployment_by :: "db \<Rightarrow> uuid \<Rightarrow> deployment option" where
  "deployment_by s i = find (\<lambda>d. d_id d = i) (deployments s)"

definition task_by :: "db \<Rightarrow> uuid \<Rightarrow> task option" where
  "task_by s i = find (\<lambda>t. t_id t = i) (tasks s)"

definition node_by :: "db \<Rightarrow> uuid \<Rightarrow> node option" where
  "node_by s i = find (\<lambda>n. n_id n = i) (nodes s)"

text \<open>\<open>node_id\<close> as a join key: the row of an optional node.\<close>

definition node_of :: "db \<Rightarrow> uuid option \<Rightarrow> node option" where
  "node_of s i = (case i of None \<Rightarrow> None | Some j \<Rightarrow> node_by s j)"

definition project_of_prefix :: "db \<Rightarrow> uuid \<Rightarrow> string \<Rightarrow> bool" where
  "project_of_prefix s i pfx \<longleftrightarrow> (\<exists>p \<in> set (projects s). p_id p = i \<and> p_domain_prefix p = pfx)"

section \<open>Projects\<close>

definition GetProject :: "uuid \<Rightarrow> project option store" where
  "GetProject i = query (\<lambda>s. project_by s i)"

definition SetProjectLastImageTag :: "uuid \<Rightarrow> string \<Rightarrow> unit store" where
  "SetProjectLastImageTag i tag =
     exec (update_projects (\<lambda>p. p_id p = i) (\<lambda>p. p\<lparr>p_last_image_tag := tag\<rparr>))"

definition SetProjectLastTrackedCommitSHA :: "uuid \<Rightarrow> string \<Rightarrow> unit store" where
  "SetProjectLastTrackedCommitSHA i sha =
     exec (update_projects (\<lambda>p. p_id p = i) (\<lambda>p. p\<lparr>p_last_commit := sha\<rparr>))"

definition SetProjectLastTrackedImageDigests :: "uuid \<Rightarrow> string \<Rightarrow> unit store" where
  "SetProjectLastTrackedImageDigests i digests =
     (let digests = (if digests = '''' then ''{}'' else digests)
      in exec (update_projects (\<lambda>p. p_id p = i) (\<lambda>p. p\<lparr>p_last_digests := digests\<rparr>)))"

definition SetProjectPaused :: "uuid \<Rightarrow> bool \<Rightarrow> unit store" where
  "SetProjectPaused i b = exec (update_projects (\<lambda>p. p_id p = i) (\<lambda>p. p\<lparr>p_paused := b\<rparr>))"

definition SetProjectPinnedNode :: "uuid \<Rightarrow> uuid \<Rightarrow> unit store" where
  "SetProjectPinnedNode i n = sql (\<lambda>s.
     if (\<exists>p \<in> set (projects s). p_id p = i) \<and> node_by s n = None
     then Inl ''violates foreign key constraint projects_pinned_node_id_fkey''
     else Inr ((), update_projects (\<lambda>p. p_id p = i) (\<lambda>p. p\<lparr>p_pinned_node := Some n\<rparr>) s))"

definition IsFixedPortInUse :: "uuid \<Rightarrow> int \<Rightarrow> uuid \<Rightarrow> bool store" where
  "IsFixedPortInUse n port exclude = query (\<lambda>s.
     0 < length (filter (\<lambda>p. p_fixed_node p = Some n \<and> p_fixed_port p = Some port \<and> p_id p \<noteq> exclude)
       (projects s)))"

definition IsTCPDomainPrefixTaken :: "string \<Rightarrow> uuid \<Rightarrow> bool store" where
  "IsTCPDomainPrefixTaken pfx exclude = query (\<lambda>s.
     0 < length (filter (\<lambda>p. p_id p \<noteq> exclude \<and> (p_domain_prefix p = pfx \<or> p_tcp_prefix p = Some pfx))
       (projects s)))"

definition ListAutoDeployProjects :: "git_source option \<Rightarrow> project list store" where
  "ListAutoDeployProjects src = query (\<lambda>s. filter (\<lambda>p. p_auto_deploy p \<and> \<not> p_paused p \<and>
     p_type p \<in> {PT_Deployment, PT_Compose, PT_Image, PT_Build} \<and>
     (case src of None \<Rightarrow> True | Some g \<Rightarrow> p_git_source p = g)) (projects s))"

definition GetProjectDatasets :: "uuid \<Rightarrow> project_dataset list store" where
  "GetProjectDatasets i = query (\<lambda>s. filter (\<lambda>pd. pd_project pd = i) (project_datasets s))"

definition GetDataset :: "uuid \<Rightarrow> dataset option store" where
  "GetDataset i = query (\<lambda>s. find (\<lambda>ds. ds_id ds = i) (datasets s))"

section \<open>Deployments\<close>

text \<open>\<open>CreateDeployment\<close>: the caller's literal gives the project, the status (\<open>None\<close> for the empty
  one), the image tag and the commit; the other columns are zero.\<close>

definition CreateDeployment ::
  "uuid \<Rightarrow> deployment_status option \<Rightarrow> string \<Rightarrow> string \<Rightarrow> deployment store" where
  "CreateDeployment pid st img sha = do {
     i \<leftarrow> uuid_New;
     now \<leftarrow> time_Now;
     let d = \<lparr>d_id = i, d_project = pid, d_image_tag = img, d_commit_sha = sha,
              d_status = (case st of None \<Rightarrow> DS_Pending | Some x \<Rightarrow> x), d_node = None,
              d_host_port = 0, d_logs = '''', d_restart_count = 0, d_oom_killed = False,
              d_created = now, d_updated = now\<rparr>;
     sql (\<lambda>s. if deployment_by s i \<noteq> None then Inl ''duplicate key value deployments_pkey''
               else if project_by s pid = None
               then Inl ''violates foreign key constraint deployments_project_id_fkey''
               else Inr (d, s\<lparr>deployments := deployments s @ [d]\<rparr>)) }"

definition GetDeployment :: "uuid \<Rightarrow> deployment option store" where
  "GetDeployment i = query (\<lambda>s. deployment_by s i)"

definition ListDeployments :: "uuid \<Rightarrow> deployment list store" where
  "ListDeployments pid = query (\<lambda>s.
     take 50 (sort_key (\<lambda>d. - d_created d) (filter (\<lambda>d. d_project d = pid) (deployments s))))"

definition SetDeploymentImageTag :: "uuid \<Rightarrow> string \<Rightarrow> unit store" where
  "SetDeploymentImageTag i tag =
     exec (update_deployments (\<lambda>d. d_id d = i) (\<lambda>d. d\<lparr>d_image_tag := tag\<rparr>))"

definition SetDeploymentHostPort :: "uuid \<Rightarrow> int \<Rightarrow> unit store" where
  "SetDeploymentHostPort i port =
     exec (update_deployments (\<lambda>d. d_id d = i) (\<lambda>d. d\<lparr>d_host_port := port, d_status := DS_Running\<rparr>))"

definition StopProjectDeployments :: "uuid \<Rightarrow> uuid \<Rightarrow> deployment list store" where
  "StopProjectDeployments pid except =
     (let P = (\<lambda>d. d_project d = pid \<and> d_id d \<noteq> except \<and> d_status d = DS_Running)
      in exec_returning
           (\<lambda>s. map (\<lambda>d. d\<lparr>d_status := DS_Stopped, d_updated := db_now s\<rparr>) (filter P (deployments s)))
           (update_deployments P (\<lambda>d. d\<lparr>d_status := DS_Stopped\<rparr>)))"

definition GetRunningDeploymentsByNode :: "uuid \<Rightarrow> deployment list store" where
  "GetRunningDeploymentsByNode n = query (\<lambda>s.
     filter (\<lambda>d. d_node d = Some n \<and> d_status d = DS_Running) (deployments s))"

definition UpdateDeploymentHostPortByDomainPrefix :: "string \<Rightarrow> int \<Rightarrow> unit store" where
  "UpdateDeploymentHostPortByDomainPrefix pfx port = exec (\<lambda>s. update_deployments
     (\<lambda>d. project_of_prefix s (d_project d) pfx \<and> d_status d = DS_Running \<and> d_host_port d \<noteq> port)
     (\<lambda>d. d\<lparr>d_host_port := port\<rparr>) s)"

definition UpdateDeploymentRuntimeStatus :: "string \<Rightarrow> int \<Rightarrow> bool \<Rightarrow> unit store" where
  "UpdateDeploymentRuntimeStatus pfx restarts oom = exec (\<lambda>s. update_deployments
     (\<lambda>d. project_of_prefix s (d_project d) pfx \<and> d_status d = DS_Running)
     (\<lambda>d. d\<lparr>d_restart_count := max (d_restart_count d) restarts, d_oom_killed := d_oom_killed d \<or> oom\<rparr>) s)"

definition UpdateDeploymentStatus :: "uuid \<Rightarrow> deployment_status \<Rightarrow> string \<Rightarrow> unit store" where
  "UpdateDeploymentStatus i st errMsg =
     (if errMsg \<noteq> '''' then
        exec (update_deployments (\<lambda>d. d_id d = i)
          (\<lambda>d. d\<lparr>d_status := st, d_logs := d_logs d @ errMsg @ ''\<newline>''\<rparr>))
      else exec (update_deployments (\<lambda>d. d_id d = i) (\<lambda>d. d\<lparr>d_status := st\<rparr>)))"

definition AppendDeploymentLog :: "uuid \<Rightarrow> string \<Rightarrow> unit store" where
  "AppendDeploymentLog i line =
     exec (update_deployments (\<lambda>d. d_id d = i) (\<lambda>d. d\<lparr>d_logs := d_logs d @ line @ ''\<newline>''\<rparr>))"

definition SetDeploymentNode :: "uuid \<Rightarrow> uuid \<Rightarrow> unit store" where
  "SetDeploymentNode i n = sql (\<lambda>s.
     if deployment_by s i \<noteq> None \<and> node_by s n = None
     then Inl ''violates foreign key constraint deployments_node_id_fkey''
     else Inr ((), update_deployments (\<lambda>d. d_id d = i) (\<lambda>d. d\<lparr>d_node := Some n\<rparr>) s))"

text \<open>\<open>RunningDeploymentInfo\<close>: the join that routing is computed from.\<close>

record running_info =
  ri_deployment :: uuid
  ri_project :: uuid
  ri_domain_prefix :: string
  ri_auth_required :: bool
  ri_auth_allowed_domains :: string
  ri_auth_bypass_paths :: string
  ri_access_mode :: string
  ri_host_ip :: string
  ri_host_port :: int
  ri_tcp_prefix :: string
  ri_tcp_port :: "int option"
  ri_node :: "uuid option"

definition running_info_of :: "deployment \<Rightarrow> project \<Rightarrow> node \<Rightarrow> running_info" where
  "running_info_of d p n = \<lparr>ri_deployment = d_id d, ri_project = d_project d,
     ri_domain_prefix = p_domain_prefix p, ri_auth_required = p_auth_required p,
     ri_auth_allowed_domains = p_auth_allowed_domains p, ri_auth_bypass_paths = p_auth_bypass_paths p,
     ri_access_mode = p_access_mode p, ri_host_ip = n_host_ip n, ri_host_port = d_host_port d,
     ri_tcp_prefix = opt_or '''' (p_tcp_prefix p), ri_tcp_port = p_tcp_port p, ri_node = None\<rparr>"

text \<open>The row of the join for one deployment, when its project and node exist and qualify.\<close>

definition running_row :: "db \<Rightarrow> deployment \<Rightarrow> running_info option" where
  "running_row s d = (case (project_by s (d_project d), node_of s (d_node d)) of
       (Some p, Some n) \<Rightarrow>
         if d_status d = DS_Running \<and> 0 < d_host_port d \<and> n_host_ip n \<noteq> '''' \<and> \<not> p_paused p
         then Some (running_info_of d p n) else None
     | _ \<Rightarrow> None)"

definition GetRunningDeployments :: "running_info list store" where
  "GetRunningDeployments = query (\<lambda>s. List.map_filter (running_row s) (deployments s))"

definition GetRunningDeploymentByProject :: "uuid \<Rightarrow> running_info option store" where
  "GetRunningDeploymentByProject pid = query (\<lambda>s.
     let hits = List.map_filter (\<lambda>d. case (project_by s (d_project d), node_of s (d_node d)) of
           (Some p, Some n) \<Rightarrow>
             if d_project d = pid \<and> d_status d = DS_Running \<and> 0 < d_host_port d \<and> n_host_ip n \<noteq> ''''
             then Some (d, (running_info_of d p n)\<lparr>ri_tcp_prefix := '''', ri_tcp_port := None,
                                                    ri_node := d_node d\<rparr>)
             else None
         | _ \<Rightarrow> None) (deployments s)
     in case sort_key (\<lambda>(d, _). - d_created d) hits of [] \<Rightarrow> None | (_, r) # _ \<Rightarrow> Some r)"

section \<open>Nodes\<close>

text \<open>\<open>UpsertNode\<close> works on the node an agent reports; an existing (hostname, role) keeps its identity,
  its used storage and its creation time.\<close>

definition UpsertNode :: "node \<Rightarrow> node store" where
  "UpsertNode n0 = do {
     now \<leftarrow> time_Now;
     let n = n0\<lparr>n_last_seen := now\<rparr>;
     attempt (query (\<lambda>s. map_option n_id
         (find (\<lambda>m. n_hostname m = n_hostname n \<and> n_role m = n_role n) (nodes s)))) (\<lambda>existing.
       case existing of
         None \<Rightarrow> do {
           i \<leftarrow> uuid_New;
           let n = n\<lparr>n_id := i, n_created := now\<rparr>;
           sql (\<lambda>s. if node_by s i \<noteq> None then Inl ''duplicate key value nodes_pkey''
                     else Inr (n, s\<lparr>nodes := nodes s @ [n]\<rparr>)) }
       | Some i \<Rightarrow>
           (let n = n\<lparr>n_id := i\<rparr>
            in sql (\<lambda>s. Inr (n, update_nodes (\<lambda>m. n_id m = i)
                 (\<lambda>m. m\<lparr>n_host_ip := n_host_ip n, n_max_storage := n_max_storage n, n_last_seen := n_last_seen n\<rparr>) s)))) }"

definition GetNode :: "uuid \<Rightarrow> node option store" where
  "GetNode i = query (\<lambda>s. node_by s i)"

definition ListNodes :: "node list store" where
  "ListNodes = query (\<lambda>s. sort_key n_created (nodes s))"

definition GetDeployNodes :: "node list store" where
  "GetDeployNodes = query (\<lambda>s. sort_key n_created (filter (\<lambda>n. n_role n = RoleDeploy) (nodes s)))"

definition TouchNode :: "uuid \<Rightarrow> unit store" where
  "TouchNode i = attempt
     (exec_returning (\<lambda>s. length (filter (\<lambda>n. n_id n = i) (nodes s)))
        (\<lambda>s. update_nodes (\<lambda>n. n_id n = i) (\<lambda>n. n\<lparr>n_last_seen := db_now s\<rparr>) s))
     (\<lambda>affected. if affected = 0 then fail (''node '' @ i @ '' not found'') else ok ())"

text \<open>\<open>DELETE FROM nodes\<close> with the schema's \<open>ON DELETE\<close> clauses.\<close>

definition delete_node :: "uuid \<Rightarrow> db \<Rightarrow> db" where
  "delete_node i s =
    (let unset = (\<lambda>x. if x = Some i then None else x) in
     s\<lparr>nodes := filter (\<lambda>n. n_id n \<noteq> i) (nodes s),
       deployments := map (\<lambda>d. d\<lparr>d_node := unset (d_node d)\<rparr>) (deployments s),
       tasks := map (\<lambda>t. t\<lparr>t_node := unset (t_node t)\<rparr>) (tasks s),
       projects := map (\<lambda>p. p\<lparr>p_pinned_node := unset (p_pinned_node p),
                              p_fixed_node := unset (p_fixed_node p)\<rparr>) (projects s),
       node_datasets := filter (\<lambda>nd. nd_node nd \<noteq> i) (node_datasets s)\<rparr>)"

definition DeleteNode :: "uuid \<Rightarrow> unit store" where
  "DeleteNode i = exec (delete_node i)"

section \<open>Cached datasets of a node\<close>

definition GetNodeDatasets :: "uuid \<Rightarrow> node_dataset list store" where
  "GetNodeDatasets n = query (\<lambda>s. filter (\<lambda>nd. nd_node nd = n) (node_datasets s))"

definition TouchNodeDataset :: "uuid \<Rightarrow> uuid \<Rightarrow> int \<Rightarrow> unit store" where
  "TouchNodeDataset n ds bytes = sql (\<lambda>s.
     let hit = (\<lambda>nd. nd_node nd = n \<and> nd_dataset nd = ds) in
     if \<exists>nd \<in> set (node_datasets s). hit nd
     then Inr ((), s\<lparr>node_datasets :=
            upd_where hit (\<lambda>nd. nd\<lparr>nd_last_used := db_now s, nd_size := bytes\<rparr>) (node_datasets s)\<rparr>)
     else if node_by s n = None \<or> find (\<lambda>d. ds_id d = ds) (datasets s) = None
     then Inl ''violates a foreign key constraint of node_datasets''
     else Inr ((), s\<lparr>node_datasets := node_datasets s @
              [\<lparr>nd_node = n, nd_dataset = ds, nd_last_used = db_now s, nd_size = bytes\<rparr>]\<rparr>))"

definition RemoveNodeDataset :: "uuid \<Rightarrow> uuid \<Rightarrow> unit store" where
  "RemoveNodeDataset n ds = exec (\<lambda>s. s\<lparr>node_datasets :=
     filter (\<lambda>nd. \<not> (nd_node nd = n \<and> nd_dataset nd = ds)) (node_datasets s)\<rparr>)"

text \<open>The scan loop \<open>for rows.Next() && freed < needed\<close>.\<close>

fun take_until_freed :: "int \<Rightarrow> int \<Rightarrow> node_dataset list \<Rightarrow> node_dataset list" where
  "take_until_freed freed needed [] = []"
| "take_until_freed freed needed (nd # rows) =
     (if freed < needed then nd # take_until_freed (freed + nd_size nd) needed rows else [])"

definition GetLRUDatasetsForNode :: "uuid \<Rightarrow> int \<Rightarrow> node_dataset list store" where
  "GetLRUDatasetsForNode n needed = query (\<lambda>s. take_until_freed 0 needed
     (sort_key nd_last_used (filter (\<lambda>nd. nd_node nd = n) (node_datasets s))))"

section \<open>Tasks\<close>

definition CreateTask :: "task_type \<Rightarrow> uuid option \<Rightarrow> uuid \<Rightarrow> payload \<Rightarrow> task store" where
  "CreateTask ty n dep pl = do {
     i \<leftarrow> uuid_New;
     now \<leftarrow> time_Now;
     let t = \<lparr>t_id = i, t_type = ty, t_node = n, t_deployment = dep, t_payload = pl,
              t_status = TS_Pending, t_result = RText '''', t_created = now, t_updated = now\<rparr>;
     sql (\<lambda>s. if task_by s i \<noteq> None then Inl ''duplicate key value tasks_pkey''
               else if deployment_by s dep = None
               then Inl ''violates foreign key constraint tasks_deployment_id_fkey''
               else if n \<noteq> None \<and> node_of s n = None
               then Inl ''violates foreign key constraint tasks_node_id_fkey''
               else Inr (t, s\<lparr>tasks := tasks s @ [t]\<rparr>)) }"

definition GetTask :: "uuid \<Rightarrow> task option store" where
  "GetTask i = query (\<lambda>s. task_by s i)"

definition PollTasksForNode :: "uuid \<Rightarrow> task list store" where
  "PollTasksForNode n = query (\<lambda>s.
     take 10 (sort_key t_created (filter (\<lambda>t. t_node t = Some n \<and> t_status t = TS_Pending) (tasks s))))"

definition valid_task_status :: "task_status \<Rightarrow> bool" where
  "valid_task_status st \<longleftrightarrow> (case st of TS_Other _ \<Rightarrow> False | _ \<Rightarrow> True)"

definition UpdateTaskStatus :: "uuid \<Rightarrow> task_status \<Rightarrow> task_result \<Rightarrow> unit store" where
  "UpdateTaskStatus i st res = sql (\<lambda>s.
     if task_by s i \<noteq> None \<and> \<not> valid_task_status st
     then Inl ''violates check constraint tasks_status_check''
     else Inr ((), update_tasks (\<lambda>t. t_id t = i) (\<lambda>t. t\<lparr>t_status := st, t_result := res\<rparr>) s))"

section \<open>Reads\<close>

lemma reads_only_store [reads_intros]:
  "reads_only (GetProject i)" "reads_only (IsFixedPortInUse n port exclude)"
  "reads_only (IsTCPDomainPrefixTaken pfx exclude)" "reads_only (ListAutoDeployProjects src)"
  "reads_only (GetProjectDatasets i)" "reads_only (GetDataset i)" "reads_only (GetDeployment i)"
  "reads_only (ListDeployments i)" "reads_only (GetRunningDeploymentsByNode i)"
  "reads_only GetRunningDeployments" "reads_only (GetRunningDeploymentByProject i)"
  "reads_only (GetNode i)" "reads_only ListNodes" "reads_only GetDeployNodes"
  "reads_only (GetNodeDatasets i)" "reads_only (GetLRUDatasetsForNode i needed)"
  "reads_only (GetTask i)" "reads_only (PollTasksForNode i)"
  by (simp_all add: GetProject_def IsFixedPortInUse_def IsTCPDomainPrefixTaken_def
      ListAutoDeployProjects_def GetProjectDatasets_def GetDataset_def GetDeployment_def
      ListDeployments_def GetRunningDeploymentsByNode_def GetRunningDeployments_def
      GetRunningDeploymentByProject_def GetNode_def ListNodes_def GetDeployNodes_def
      GetNodeDatasets_def GetLRUDatasetsForNode_def GetTask_def PollTasksForNode_def reads_only_query)

end
