(* ===== verification/Placement.thy ===== *)
theory Placement
  imports Complex_Main Deploy_Store "HOL-Library.Multiset"
begin

text \<open>
  Where a deployment runs (internal/scheduler/scheduler.go): the scoring \<open>PickDeployNode\<close> with its
  eviction of cached datasets, \<open>PickBuilderNode\<close>, the admin's fixed node and the pinned node of
  compose and image projects. \<open>float64\<close> arithmetic is exact arithmetic followed by the rounding
  \<open>round64\<close>, a parameter; \<open>sort.Slice\<close>, which promises no order among equal elements, is the
  parameter \<open>sort_scores\<close>.
\<close>

section \<open>Configuration and scores\<close>

record node_score =
  ns_node :: node
  ns_score :: rat
  ns_missing :: int
  ns_cached :: "uuid list"

record sched_cfg =
  agent_secret :: string
  encryption_on :: bool
  decrypt :: "string \<Rightarrow> go_error + string"
  round64 :: "rat \<Rightarrow> rat"
  sort_scores :: "node_score list \<Rightarrow> node_score list"

definition float_score :: "(rat \<Rightarrow> rat) \<Rightarrow> int \<Rightarrow> int \<Rightarrow> int \<Rightarrow> rat" where
  "float_score fl cacheHits missingBytes freeBytes =
     (let hits = fl (fl (of_int cacheHits) * fl 10);
          missing = fl (fl (of_int missingBytes) * fl (1 / 1000000));
          free = fl (fl (of_int freeBytes) * fl (1 / 10000000))
      in fl (fl (hits - missing) + free))"

definition online :: "time \<Rightarrow> node \<Rightarrow> bool" where
  "online now n \<longleftrightarrow> now - n_last_seen n < minutes 2"

definition free_bytes :: "node \<Rightarrow> int" where
  "free_bytes n = n_max_storage n - n_used_storage n"

text \<open>The loop that fills \<open>datasetSizes\<close>: a dataset that cannot be read is skipped.\<close>

fun collect_sizes :: "uuid list \<Rightarrow> (uuid \<rightharpoonup> int) \<Rightarrow> (db, uuid \<rightharpoonup> int) state" where
  "collect_sizes [] m = State_Monad.return m"
| "collect_sizes (i # is) m = do {
     r \<leftarrow> GetDataset i;
     collect_sizes is (case r of Inr (Some d) \<Rightarrow> m(i \<mapsto> ds_size d) | _ \<Rightarrow> m) }"

fun count_hits :: "uuid list \<Rightarrow> uuid list \<Rightarrow> int" where
  "count_hits cached [] = 0"
| "count_hits cached (i # is) = (if i \<in> set cached then 1 else 0) + count_hits cached is"

fun missing_bytes :: "uuid list \<Rightarrow> (uuid \<rightharpoonup> int) \<Rightarrow> uuid list \<Rightarrow> int" where
  "missing_bytes cached sizes [] = 0"
| "missing_bytes cached sizes (i # is) =
     (if i \<in> set cached then 0 else opt_or 0 (sizes i)) + missing_bytes cached sizes is"

definition score_of :: "sched_cfg \<Rightarrow> uuid list \<Rightarrow> (uuid \<rightharpoonup> int) \<Rightarrow> node \<Rightarrow> node_dataset list \<Rightarrow> node_score" where
  "score_of cfg ids sizes n nds =
     (let cached = map nd_dataset nds; missing = missing_bytes cached sizes ids in
      \<lparr>ns_node = n, ns_score = float_score (round64 cfg) (count_hits cached ids) missing (free_bytes n),
       ns_missing = missing, ns_cached = cached\<rparr>)"

text \<open>The loop over the active nodes: a node whose datasets cannot be read is skipped.\<close>

fun score_nodes :: "sched_cfg \<Rightarrow> uuid list \<Rightarrow> (uuid \<rightharpoonup> int) \<Rightarrow> node list \<Rightarrow> (db, node_score list) state" where
  "score_nodes cfg ids sizes [] = State_Monad.return []"
| "score_nodes cfg ids sizes (n # ns) = do {
     r \<leftarrow> GetNodeDatasets (n_id n);
     rest \<leftarrow> score_nodes cfg ids sizes ns;
     State_Monad.return (case r of Inl _ \<Rightarrow> rest | Inr nds \<Rightarrow> score_of cfg ids sizes n nds # rest) }"

definition make_room :: "node_score \<Rightarrow> node store" where
  "make_room best =
     (let n = ns_node best in
      if free_bytes n < ns_missing best then
        attempt (wrap_err ''get LRU datasets: ''
          (GetLRUDatasetsForNode (n_id n) (ns_missing best - free_bytes n))) (\<lambda>evictList.
        attempt (for_each_try evictList (\<lambda>nd. RemoveNodeDataset (nd_node nd) (nd_dataset nd))) (\<lambda>_.
        ok n))
      else ok n)"

definition PickDeployNode :: "sched_cfg \<Rightarrow> uuid list \<Rightarrow> node store" where
  "PickDeployNode cfg datasetIDs =
     attempt GetDeployNodes (\<lambda>nodes.
     if nodes = [] then fail ''no deploy nodes available'' else do {
       now \<leftarrow> time_Now;
       let activeNodes = filter (online now) nodes;
       if activeNodes = [] then fail ''no active deploy nodes'' else do {
         datasetSizes \<leftarrow> collect_sizes datasetIDs Map.empty;
         scores \<leftarrow> score_nodes cfg datasetIDs datasetSizes activeNodes;
         case sort_scores cfg scores of
           [] \<Rightarrow> fail ''no scorable nodes''
         | best # _ \<Rightarrow> make_room best } })"

definition PickBuilderNode :: "node store" where
  "PickBuilderNode = attempt ListNodes (\<lambda>nodes. do {
     now \<leftarrow> time_Now;
     case find (\<lambda>n. n_role n = RoleBuilder \<and> online now n) nodes of
       None \<Rightarrow> fail ''no active builder nodes''
     | Some n \<Rightarrow> ok n })"

text \<open>\<open>%q\<close> on ASCII text.\<close>

definition hex_digit :: "nat \<Rightarrow> char" where
  "hex_digit n = (if n < 10 then char_of (48 + n) else char_of (87 + n))"

definition quote_char :: "char \<Rightarrow> string" where
  "quote_char c =
     (if c = CHR 0x22 then [CHR 0x5C, CHR 0x22] else if c = CHR 0x5C then [CHR 0x5C, CHR 0x5C]
      else if c = CHR 0x07 then [CHR 0x5C, CHR ''a''] else if c = CHR 0x08 then [CHR 0x5C, CHR ''b'']
      else if c = CHR 0x0C then [CHR 0x5C, CHR ''f''] else if c = CHR 0x0A then [CHR 0x5C, CHR ''n'']
      else if c = CHR 0x0D then [CHR 0x5C, CHR ''r''] else if c = CHR 0x09 then [CHR 0x5C, CHR ''t'']
      else if c = CHR 0x0B then [CHR 0x5C, CHR ''v'']
      else if (of_char c :: nat) < 32 \<or> (of_char c :: nat) = 127
      then [CHR 0x5C, CHR ''x'', hex_digit (of_char c div 16), hex_digit (of_char c mod 16)]
      else [c])"

definition go_quote :: "string \<Rightarrow> string" where
  "go_quote s = [CHR 0x22] @ concat (map quote_char s) @ [CHR 0x22]"

text \<open>\<open>(nil, nil)\<close> is \<open>ok None\<close>: the project is not bound to a node.\<close>

definition resolveFixedDeployNode :: "project \<Rightarrow> node option store" where
  "resolveFixedDeployNode project = (case p_fixed_node project of
       None \<Rightarrow> ok None
     | Some i \<Rightarrow> attempt (wrap_err ''get fixed deploy node: '' (GetNode i)) (\<lambda>node. do {
         now \<leftarrow> time_Now;
         case node of
           None \<Rightarrow> fail (''project's fixed deploy node '' @ i @ '' no longer exists'')
         | Some n \<Rightarrow>
             if minutes 2 < now - n_last_seen n
             then fail (''project's fixed deploy node '' @ go_quote (n_hostname n)
                          @ '' is offline; refusing to dispatch'')
             else ok (Some n) }))"

definition pickOrReusePinnedNode :: "sched_cfg \<Rightarrow> project \<Rightarrow> node store" where
  "pickOrReusePinnedNode cfg project = (case p_pinned_node project of
       Some i \<Rightarrow> attempt (wrap_err ''get pinned node: '' (GetNode i)) (\<lambda>node. do {
         now \<leftarrow> time_Now;
         case node of
           None \<Rightarrow> fail ''compose project's pinned deploy node no longer exists''
         | Some n \<Rightarrow>
             if minutes 2 < now - n_last_seen n
             then fail (''compose project's pinned deploy node '' @ go_quote (n_hostname n)
                          @ '' is offline; data is on that node, refusing to migrate'')
             else ok n })
     | None \<Rightarrow>
         attempt (PickDeployNode cfg []) (\<lambda>node.
         attempt (wrap_err ''pin project to node: '' (SetProjectPinnedNode (p_id project) (n_id node))) (\<lambda>_.
         ok node)))"

section \<open>Reads\<close>

lemma reads_only_collect_sizes [reads_intros]: "reads_only (collect_sizes ids m)"
  by (induction ids arbitrary: m) (auto intro!: reads_intros)

lemma reads_only_score_nodes [reads_intros]: "reads_only (score_nodes cfg ids sizes ns)"
  by (induction ns) (auto intro!: reads_intros)

section \<open>Scoring\<close>

text \<open>What \<open>sort.Slice\<close> promises: the same elements, no later one scoring above an earlier one.\<close>

definition sorts_by_score :: "(node_score list \<Rightarrow> node_score list) \<Rightarrow> bool" where
  "sorts_by_score f \<longleftrightarrow> (\<forall>xs. mset (f xs) = mset xs \<and> sorted_wrt (\<lambda>a b. ns_score b \<le> ns_score a) (f xs))"

lemma sorts_by_scoreD:
  assumes "sorts_by_score f" and "f xs = best # rest"
  shows "best \<in> set xs" and "\<And>x. x \<in> set xs \<Longrightarrow> ns_score x \<le> ns_score best"
proof -
  have eq: "set (f xs) = set xs"
    using assms(1) unfolding sorts_by_score_def by (metis set_mset_mset)
  then show "best \<in> set xs" using assms(2) by auto
  show "\<And>x. x \<in> set xs \<Longrightarrow> ns_score x \<le> ns_score best"
    using assms eq unfolding sorts_by_score_def by (metis order_refl set_ConsD sorted_wrt.simps(2))
qed

lemma score_nodes_from:
  "run_state (score_nodes cfg ids sizes ns) s = (scores, s') \<Longrightarrow> sc \<in> set scores \<Longrightarrow> ns_node sc \<in> set ns"
proof (induction ns arbitrary: s scores s')
  case (Cons n ns)
  then show ?case
    by (fastforce simp: score_of_def Let_def split: prod.splits sum.splits)
qed simp

lemma score_nodes_nofault:
  assumes "db_faults s = []"
  shows "run_state (score_nodes cfg ids sizes ns) s =
    (map (\<lambda>n. score_of cfg ids sizes n (filter (\<lambda>nd. nd_node nd = n_id n) (node_datasets s))) ns, s)"
  using assms by (induction ns) (simp_all add: GetNodeDatasets_def)

lemma collect_sizes_nofault:
  assumes "db_faults s = []"
  shows "\<exists>sizes. run_state (collect_sizes ids m) s = (sizes, s)"
  using assms by (induction ids arbitrary: m) (auto simp: GetDataset_def)

text \<open>Monotone rounding, as IEEE 754 requires of every rounding mode.\<close>

lemma float_score_mono:
  assumes "mono fl" and "0 \<le> fl 10" and "0 \<le> fl (1 / 1000000)" and "0 \<le> fl (1 / 10000000)"
    and "h \<le> h'" and "m' \<le> m" and "f \<le> f'"
  shows "float_score fl h m f \<le> float_score fl h' m' f'"
proof -
  have fl: "fl x \<le> fl y" if "x \<le> y" for x y using assms(1) that by (rule monoD)
  have scaled: "fl (fl (of_int x) * c) \<le> fl (fl (of_int y) * c)" if "x \<le> y" and "0 \<le> c" for x y c
    using that by (intro fl mult_right_mono) auto
  have "fl (fl (fl (of_int h) * fl 10) - fl (fl (of_int m) * fl (1 / 1000000)))
      \<le> fl (fl (fl (of_int h') * fl 10) - fl (fl (of_int m') * fl (1 / 1000000)))"
    using assms(2,3,5,6) by (intro fl diff_mono scaled)
  then show ?thesis
    unfolding float_score_def Let_def
    by (rule fl [OF add_mono [OF _ scaled [OF assms(7,4)]]])
qed

section \<open>Properties\<close>

lemma take_until_freed_prefix:
  "\<exists>k. take_until_freed freed needed rows = take k rows \<and>
     (needed \<le> freed + sum_list (map nd_size (take k rows)) \<or> k = length rows) \<and>
     (\<forall>j < k. freed + sum_list (map nd_size (take j rows)) < needed)"
proof (induction rows arbitrary: freed)
  case (Cons nd rows)
  show ?case
  proof (cases "freed < needed")
    case False
    then show ?thesis by (intro exI [of _ 0]) auto
  next
    case True
    from Cons.IH [of "freed + nd_size nd"] obtain k
      where k: "take_until_freed (freed + nd_size nd) needed rows = take k rows"
        "needed \<le> freed + nd_size nd + sum_list (map nd_size (take k rows)) \<or> k = length rows"
        "\<forall>j < k. freed + nd_size nd + sum_list (map nd_size (take j rows)) < needed" by blast
    show ?thesis
    proof (intro exI [of _ "Suc k"] conjI allI impI)
      show "freed + sum_list (map nd_size (take j (nd # rows))) < needed" if "j < Suc k" for j
        using that True k(3) by (cases j) (auto simp: add.assoc)
    qed (use True k in auto)
  qed
next
  case Nil
  show ?case by (intro exI [of _ 0]) simp
qed

lemma make_room_node:
  "run_state (make_room best) s = (Inr n, s') \<Longrightarrow> n = ns_node best"
  by (auto simp: make_room_def Let_def split: if_splits prod.splits sum.splits)

lemma PickDeployNode_InrE:
  assumes "run_state (PickDeployNode cfg ids) s = (Inr n, s')"
  obtains sizes scores best rest s1 s2 s3 fs
  where "run_state (collect_sizes ids Map.empty) s1 = (sizes, s2)" and "s1 = s\<lparr>db_faults := fs\<rparr>"
    and "run_state (score_nodes cfg ids sizes
      (filter (online (db_now s)) (sort_key n_created (filter (\<lambda>n. n_role n = RoleDeploy) (nodes s))))) s2 = (scores, s3)"
    and "sort_scores cfg scores = best # rest" and "run_state (make_room best) s3 = (Inr n, s')"
  using assms
  by (auto simp: PickDeployNode_def GetDeployNodes_def run_query popped_def Let_def
      split: option.splits if_splits prod.splits list.splits)

lemma PickDeployNode_is_active:
  assumes "sorts_by_score (sort_scores cfg)" and "run_state (PickDeployNode cfg ids) s = (Inr n, s')"
  shows "n \<in> set (nodes s) \<and> n_role n = RoleDeploy \<and> db_now s - n_last_seen n < minutes 2"
proof -
  from assms(2) obtain sizes scores best rest s2 s3
    where sc: "run_state (score_nodes cfg ids sizes (filter (online (db_now s))
        (sort_key n_created (filter (\<lambda>n. n_role n = RoleDeploy) (nodes s))))) s2 = (scores, s3)"
      and best: "sort_scores cfg scores = best # rest" and mr: "run_state (make_room best) s3 = (Inr n, s')"
    by (rule PickDeployNode_InrE)
  have "n = ns_node best" using mr by (rule make_room_node)
  moreover have "best \<in> set scores" by (rule sorts_by_scoreD(1) [OF assms(1) best])
  ultimately show ?thesis
    using score_nodes_from [OF sc, of best] by (auto simp: online_def)
qed

text \<open>
  Whatever statements fail on the way, a node that \<open>PickDeployNode\<close> returns is a registered
  deploy node that has been heard from within the last two minutes.
\<close>

theorem PickDeployNode_active:
  assumes "sorts_by_score (sort_scores cfg)" and "run_state (PickDeployNode cfg ids) s = (Inr n, s')"
  shows "n \<in> set (nodes s) \<and> n_role n = RoleDeploy \<and> db_now s - n_last_seen n < minutes 2"
  using assms by (rule PickDeployNode_is_active)


text \<open>
  Eviction is the shortest least-recently-used prefix that makes room: on the chosen node the
  rows removed are the first \<open>k\<close> in order of last use, every shorter prefix would leave the missing
  bytes short of space, and the \<open>k\<close> rows free enough unless nothing is left to evict. Rows of other
  nodes stay.
\<close>

theorem make_room_evicts_lru_prefix:
  assumes "db_faults s = []" and "free_bytes n < ns_missing best" and "n = ns_node best"
  defines "rows \<equiv> sort_key nd_last_used (filter (\<lambda>nd. nd_node nd = n_id n) (node_datasets s))"
    and "needed \<equiv> ns_missing best - free_bytes n"
  shows "\<exists>k s'. run_state (make_room best) s = (Inr n, s')
    \<and> node_datasets s' = filter (\<lambda>nd. \<not> (nd_node nd = n_id n \<and> nd_dataset nd \<in> nd_dataset ` set (take k rows))) (node_datasets s)
    \<and> (needed \<le> sum_list (map nd_size (take k rows)) \<or> k = length rows)
    \<and> (\<forall>j < k. sum_list (map nd_size (take j rows)) < needed)"
proof -
  from take_until_freed_prefix [of 0 needed rows] obtain k
    where k: "take_until_freed 0 needed rows = take k rows"
      "needed \<le> sum_list (map nd_size (take k rows)) \<or> k = length rows"
      "\<forall>j < k. sum_list (map nd_size (take j rows)) < needed" by auto
  have evict: "\<exists>u'. run_state (for_each_try xs (\<lambda>nd. RemoveNodeDataset (nd_node nd) (nd_dataset nd))) u = (Inr (), u')
      \<and> db_faults u' = [] \<and> node_datasets u' =
        filter (\<lambda>nd. \<not> (nd_node nd = i \<and> nd_dataset nd \<in> nd_dataset ` set xs)) (node_datasets u)"
    if "db_faults u = []" "\<forall>nd \<in> set xs. nd_node nd = i" for xs u i
    using that
  proof (induction xs arbitrary: u)
    case (Cons nd xs)
    let ?u = "u\<lparr>node_datasets := filter (\<lambda>x. \<not> (nd_node x = nd_node nd \<and> nd_dataset x = nd_dataset nd)) (node_datasets u)\<rparr>"
    obtain u' where u': "run_state (for_each_try xs (\<lambda>nd. RemoveNodeDataset (nd_node nd) (nd_dataset nd))) ?u = (Inr (), u')"
      "db_faults u' = []" "node_datasets u' =
        filter (\<lambda>x. \<not> (nd_node x = i \<and> nd_dataset x \<in> nd_dataset ` set xs)) (node_datasets ?u)"
      using Cons.IH [of ?u] Cons.prems by auto
    have "node_datasets u' = filter (\<lambda>x. \<not> (nd_node x = i \<and> nd_dataset x \<in> nd_dataset ` set (nd # xs))) (node_datasets u)"
      using u'(3) Cons.prems(2) by (auto intro!: filter_cong)
    then show ?case using u' Cons.prems(1) by (auto simp: RemoveNodeDataset_def)
  qed auto
  have mem: "\<forall>nd \<in> set (take k rows). nd_node nd = n_id n"
    using set_take_subset [of k rows] by (auto simp: rows_def)
  from evict [OF assms(1) mem] obtain u'
    where "run_state (for_each_try (take k rows) (\<lambda>nd. RemoveNodeDataset (nd_node nd) (nd_dataset nd))) s = (Inr (), u')"
      "node_datasets u' = filter (\<lambda>nd. \<not> (nd_node nd = n_id n \<and> nd_dataset nd \<in> nd_dataset ` set (take k rows))) (node_datasets s)"
    by blast
  moreover have "run_state (GetLRUDatasetsForNode (n_id n) needed) s = (Inr (take k rows), s)"
    using assms(1) k(1) by (simp add: GetLRUDatasetsForNode_def rows_def)
  ultimately have "run_state (make_room best) s = (Inr n, u')"
    using assms(2,3) by (simp add: make_room_def Let_def needed_def)
  then show ?thesis using k(2,3) \<open>node_datasets u' = _\<close> by blast
qed

end
