(* ===== verification/Deploy_Queue.thy ===== *)
theory Deploy_Queue
  imports Deploy_Store
begin

text \<open>
  The per-project deploy queue (\<open>AdvanceDeployQueue\<close>, \<open>FailOrphanedTasksForNode\<close> and
  \<open>ListProjectsWithQueuedDeployments\<close> of internal/store/store.go): the transactions as they are
  written, the tables they compute, an abstract queue of one project and the refinement between
  the two, atomicity, single flight, idempotence and progress.
\<close>

section \<open>The transactions\<close>

definition in_flight :: "deployment_status \<Rightarrow> bool" where
  "in_flight st \<longleftrightarrow> st \<in> {DS_Pending, DS_Building, DS_Deploying}"

record queue_policy =
  grace :: time
  hard_timeout :: time

definition is_chain_task :: "task \<Rightarrow> bool" where
  "is_chain_task t \<longleftrightarrow> t_type t \<in> {TT_Build, TT_Deploy}"

definition unfinished :: "task \<Rightarrow> bool" where
  "unfinished t \<longleftrightarrow> t_status t \<in> {TS_Pending, TS_Running}"

text \<open>The row condition of the \<open>NOT EXISTS\<close> subquery.\<close>

definition keeps_alive :: "queue_policy \<Rightarrow> db \<Rightarrow> deployment \<Rightarrow> task \<Rightarrow> bool" where
  "keeps_alive pol s d t \<longleftrightarrow> t_deployment t = d_id d \<and> is_chain_task t \<and>
     ((unfinished t \<and> (case node_of s (t_node t) of None \<Rightarrow> False
                        | Some n \<Rightarrow> db_now s - grace pol < n_last_seen n))
      \<or> (t_type t = TT_Build \<and> t_status t = TS_Completed \<and> d_status d = DS_Building))"

definition presumed_lost :: "queue_policy \<Rightarrow> db \<Rightarrow> deployment \<Rightarrow> bool" where
  "presumed_lost pol s d \<longleftrightarrow> in_flight (d_status d) \<and>
     (d_updated d < db_now s - hard_timeout pol \<or>
      (d_updated d < db_now s - grace pol \<and> \<not> (\<exists>t \<in> set (tasks s). keeps_alive pol s d t)))"

definition lost_message :: string where
  "lost_message = ''marked failed: agent task presumed lost (no live build/deploy task); unblocking the deploy queue\<newline>''"

definition lost_ids :: "uuid \<Rightarrow> queue_policy \<Rightarrow> db \<Rightarrow> uuid list" where
  "lost_ids pid pol s = map d_id (filter (\<lambda>d. d_project d = pid \<and> presumed_lost pol s d) (deployments s))"

definition reap_lost :: "uuid \<Rightarrow> queue_policy \<Rightarrow> db \<Rightarrow> db" where
  "reap_lost pid pol s = update_deployments (\<lambda>d. d_project d = pid \<and> presumed_lost pol s d)
     (\<lambda>d. d\<lparr>d_status := DS_Failed, d_logs := d_logs d @ lost_message\<rparr>) s"

definition fail_tasks_of :: "uuid list \<Rightarrow> db \<Rightarrow> db" where
  "fail_tasks_of ids = update_tasks (\<lambda>t. t_deployment t \<in> set ids \<and> is_chain_task t \<and> unfinished t)
     (\<lambda>t. t\<lparr>t_status := TS_Failed, t_result := RText ''deployment presumed lost''\<rparr>)"

definition in_flight_of :: "uuid \<Rightarrow> db \<Rightarrow> deployment list" where
  "in_flight_of pid s = filter (\<lambda>d. d_project d = pid \<and> in_flight (d_status d)) (deployments s)"

text \<open>\<open>ORDER BY created_at DESC, id DESC\<close>.\<close>

definition newest_first :: "deployment list \<Rightarrow> deployment list" where
  "newest_first ds = rev (sort_key (\<lambda>d. (d_created d, d_id d)) ds)"

definition queued_of :: "uuid \<Rightarrow> db \<Rightarrow> deployment list" where
  "queued_of pid s = newest_first (filter (\<lambda>d. d_project d = pid \<and> d_status d = DS_Queued) (deployments s))"

definition superseded_message :: "uuid \<Rightarrow> string" where
  "superseded_message newest = ''superseded by newer deployment '' @ newest @ ''; not executed\<newline>''"

definition set_pending :: "uuid \<Rightarrow> db \<Rightarrow> db" where
  "set_pending i = update_deployments (\<lambda>d. d_id d = i) (\<lambda>d. d\<lparr>d_status := DS_Pending\<rparr>)"

definition set_superseded :: "uuid list \<Rightarrow> uuid \<Rightarrow> db \<Rightarrow> db" where
  "set_superseded ids newest = update_deployments (\<lambda>d. d_id d \<in> set ids)
     (\<lambda>d. d\<lparr>d_status := DS_Superseded, d_logs := d_logs d @ superseded_message newest\<rparr>)"

record queue_advance =
  qa_dispatch :: "deployment option"
  qa_superseded :: "uuid list"
  qa_reaped :: "uuid list"

definition advance_body :: "uuid \<Rightarrow> queue_policy \<Rightarrow> (uuid option \<times> uuid list \<times> uuid list) store" where
  "advance_body pid pol =
     attempt (wrap_err ''lock deploy queue: '' (query (\<lambda>_. ()))) (\<lambda>_.
     attempt (wrap_err ''reap lost deployments: ''
       (exec_returning (lost_ids pid pol) (reap_lost pid pol))) (\<lambda>reaped.
     attempt (if reaped \<noteq> [] then wrap_err ''fail lost tasks: '' (exec (fail_tasks_of reaped)) else ok ()) (\<lambda>_.
     attempt (query (\<lambda>s. length (in_flight_of pid s))) (\<lambda>inFlight.
     if 0 < inFlight then ok (None, [], reaped) else
     attempt (query (\<lambda>s. map d_id (queued_of pid s))) (\<lambda>queued.
     case queued of
       [] \<Rightarrow> ok (None, [], reaped)
     | newest # older \<Rightarrow>
         attempt (exec (set_pending newest)) (\<lambda>_.
         attempt (if older \<noteq> [] then exec (set_superseded older newest) else ok ()) (\<lambda>_.
         ok (Some newest, older, reaped))))))))"

definition store_AdvanceDeployQueue :: "uuid \<Rightarrow> queue_policy \<Rightarrow> queue_advance store" where
  "store_AdvanceDeployQueue pid pol =
     attempt (transaction (advance_body pid pol)) (\<lambda>(newest, superseded, reaped).
     case newest of
       None \<Rightarrow> ok \<lparr>qa_dispatch = None, qa_superseded = superseded, qa_reaped = reaped\<rparr>
     | Some i \<Rightarrow> attempt (GetDeployment i) (\<lambda>d.
         ok \<lparr>qa_dispatch = d, qa_superseded = superseded, qa_reaped = reaped\<rparr>))"

definition ListProjectsWithQueuedDeployments :: "uuid list store" where
  "ListProjectsWithQueuedDeployments = query (\<lambda>s.
     remdups (map d_project (filter (\<lambda>d. d_status d = DS_Queued) (deployments s))))"

definition orphaned :: "uuid \<Rightarrow> task \<Rightarrow> bool" where
  "orphaned n t \<longleftrightarrow> t_node t = Some n \<and> t_status t = TS_Running \<and> is_chain_task t"

definition orphan_deployment :: "uuid list \<Rightarrow> deployment \<Rightarrow> bool" where
  "orphan_deployment ids d \<longleftrightarrow> d_id d \<in> set ids \<and> in_flight (d_status d)"

definition fail_deployments :: "uuid list \<Rightarrow> string \<Rightarrow> db \<Rightarrow> db" where
  "fail_deployments ids reason = update_deployments (orphan_deployment ids)
     (\<lambda>d. d\<lparr>d_status := DS_Failed, d_logs := d_logs d @ reason @ ''\<newline>''\<rparr>)"

text \<open>The loop over \<open>seen\<close> keeps the first occurrence of every project.\<close>

fun first_occurrences :: "uuid list \<Rightarrow> uuid list \<Rightarrow> uuid list" where
  "first_occurrences seen [] = []"
| "first_occurrences seen (i # is) =
     (if i \<in> set seen then first_occurrences seen is else i # first_occurrences (i # seen) is)"

definition FailOrphanedTasksForNode :: "uuid \<Rightarrow> string \<Rightarrow> uuid list store" where
  "FailOrphanedTasksForNode n reason = transaction (
     attempt (exec_returning (\<lambda>s. map t_deployment (filter (orphaned n) (tasks s)))
       (update_tasks (orphaned n) (\<lambda>t. t\<lparr>t_status := TS_Failed, t_result := RText reason\<rparr>))) (\<lambda>depIDs.
     if depIDs = [] then ok [] else
     attempt (exec_returning (\<lambda>s. map d_project (filter (orphan_deployment depIDs) (deployments s)))
       (fail_deployments depIDs reason)) (\<lambda>pids.
     ok (first_occurrences [] pids))))"

section \<open>The tables one call computes\<close>

definition reaped_state :: "uuid \<Rightarrow> queue_policy \<Rightarrow> db \<Rightarrow> db" where
  "reaped_state pid pol s =
     (if lost_ids pid pol s = [] then reap_lost pid pol s
      else fail_tasks_of (lost_ids pid pol s) (reap_lost pid pol s))"

definition promote :: "uuid \<Rightarrow> db \<Rightarrow> db" where
  "promote pid s = (case map d_id (queued_of pid s) of
       [] \<Rightarrow> s
     | newest # older \<Rightarrow> (if older \<noteq> [] then set_superseded older newest (set_pending newest s)
                          else set_pending newest s))"

definition advance_state :: "uuid \<Rightarrow> queue_policy \<Rightarrow> db \<Rightarrow> db" where
  "advance_state pid pol s = (let s1 = reaped_state pid pol s in
     if in_flight_of pid s1 \<noteq> [] then s1 else promote pid s1)"

definition advance_newest :: "uuid \<Rightarrow> queue_policy \<Rightarrow> db \<Rightarrow> uuid option" where
  "advance_newest pid pol s = (let s1 = reaped_state pid pol s in
     if in_flight_of pid s1 \<noteq> [] then None
     else case queued_of pid s1 of [] \<Rightarrow> None | d # _ \<Rightarrow> Some (d_id d))"

lemma faults_commute:
  "update_deployments P f (s\<lparr>db_faults := fs\<rparr>) = (update_deployments P f s)\<lparr>db_faults := fs\<rparr>"
  "update_tasks Q g (s\<lparr>db_faults := fs\<rparr>) = (update_tasks Q g s)\<lparr>db_faults := fs\<rparr>"
  by (simp_all add: update_deployments_def update_tasks_def)

lemma node_of_faults [simp]: "node_of (s\<lparr>db_faults := fs\<rparr>) = node_of s"
  by (rule ext) (simp add: node_of_def node_by_def split: option.splits)

lemma presumed_lost_faults [simp]: "presumed_lost pol (s\<lparr>db_faults := fs\<rparr>) = presumed_lost pol s"
  by (rule ext) (simp add: presumed_lost_def keeps_alive_def cong: option.case_cong)

lemma queue_reads_faults [simp]:
  "lost_ids pid pol (s\<lparr>db_faults := fs\<rparr>) = lost_ids pid pol s"
  "in_flight_of pid (s\<lparr>db_faults := fs\<rparr>) = in_flight_of pid s"
  "queued_of pid (s\<lparr>db_faults := fs\<rparr>) = queued_of pid s"
  by (simp_all add: lost_ids_def in_flight_of_def queued_of_def)

lemma queue_writes_faults [simp]:
  "reap_lost pid pol (s\<lparr>db_faults := fs\<rparr>) = (reap_lost pid pol s)\<lparr>db_faults := fs\<rparr>"
  "fail_tasks_of ids (s\<lparr>db_faults := fs\<rparr>) = (fail_tasks_of ids s)\<lparr>db_faults := fs\<rparr>"
  "set_pending i (s\<lparr>db_faults := fs\<rparr>) = (set_pending i s)\<lparr>db_faults := fs\<rparr>"
  "set_superseded ids i (s\<lparr>db_faults := fs\<rparr>) = (set_superseded ids i s)\<lparr>db_faults := fs\<rparr>"
  by (simp_all add: reap_lost_def fail_tasks_of_def set_pending_def set_superseded_def faults_commute)

text \<open>A transaction that succeeds has computed the tables of \<open>advance_state\<close>.\<close>

lemma advance_body_InrD:
  assumes "run_state (advance_body pid pol) s = (Inr (newest, superseded, reaped), s')"
  shows "(\<exists>fs. s' = (advance_state pid pol s)\<lparr>db_faults := fs\<rparr>) \<and> newest = advance_newest pid pol s
    \<and> reaped = lost_ids pid pol s
    \<and> superseded = (case newest of None \<Rightarrow> [] | Some i \<Rightarrow> tl (map d_id (queued_of pid (reaped_state pid pol s))))"
  using assms unfolding advance_body_def
  by (auto simp: run_statements popped_def advance_state_def advance_newest_def reaped_state_def
      promote_def Let_def split: option.splits list.splits if_splits sum.splits)


lemma advance_InrD:
  assumes "run_state (store_AdvanceDeployQueue pid pol) s = (Inr res, s')"
  shows "(\<exists>fs. s' = (advance_state pid pol s)\<lparr>db_faults := fs\<rparr>)"
    and "qa_dispatch res = (case advance_newest pid pol s of None \<Rightarrow> None
           | Some i \<Rightarrow> deployment_by (advance_state pid pol s) i)"
    and "qa_reaped res = lost_ids pid pol s"
    and "qa_superseded res = (case advance_newest pid pol s of None \<Rightarrow> []
           | Some _ \<Rightarrow> tl (map d_id (queued_of pid (reaped_state pid pol s))))"
proof -
  from assms obtain newest superseded reaped s1
    where t: "run_state (transaction (advance_body pid pol)) s = (Inr (newest, superseded, reaped), s1)"
      and k: "run_state (case newest of None \<Rightarrow> ok \<lparr>qa_dispatch = None, qa_superseded = superseded, qa_reaped = reaped\<rparr>
         | Some i \<Rightarrow> attempt (GetDeployment i) (\<lambda>d.
             ok \<lparr>qa_dispatch = d, qa_superseded = superseded, qa_reaped = reaped\<rparr>)) s1 = (Inr res, s')"
    unfolding store_AdvanceDeployQueue_def by (elim attempt_InrE) auto
  from t obtain fs fs' s2
    where b: "run_state (advance_body pid pol) (s\<lparr>db_faults := fs\<rparr>) = (Inr (newest, superseded, reaped), s2)"
      and s1: "s1 = s2\<lparr>db_faults := fs'\<rparr>"
    by (rule transaction_InrE)
  have adv: "advance_state pid pol (s\<lparr>db_faults := fs\<rparr>) = (advance_state pid pol s)\<lparr>db_faults := fs\<rparr>"
    and rp: "reaped_state pid pol (s\<lparr>db_faults := fs\<rparr>) = (reaped_state pid pol s)\<lparr>db_faults := fs\<rparr>"
    by (simp_all add: advance_state_def reaped_state_def promote_def Let_def split: list.splits)
  have nw: "advance_newest pid pol (s\<lparr>db_faults := fs\<rparr>) = advance_newest pid pol s"
    by (simp add: advance_newest_def rp Let_def)
  note d = advance_body_InrD [OF b, unfolded adv nw rp queue_reads_faults]
  from d obtain fs2 where s2: "s2 = (advance_state pid pol s)\<lparr>db_faults := fs2\<rparr>" by auto
  have dep [simp]: "deployment_by (u\<lparr>db_faults := gs\<rparr>) i = deployment_by u i" for u gs i
    by (simp add: deployment_by_def)
  show "\<exists>fs. s' = (advance_state pid pol s)\<lparr>db_faults := fs\<rparr>"
    and "qa_dispatch res = (case advance_newest pid pol s of None \<Rightarrow> None
           | Some i \<Rightarrow> deployment_by (advance_state pid pol s) i)"
    and "qa_reaped res = lost_ids pid pol s"
    and "qa_superseded res = (case advance_newest pid pol s of None \<Rightarrow> []
           | Some _ \<Rightarrow> tl (map d_id (queued_of pid (reaped_state pid pol s))))"
    using k d s1 s2
    by (auto simp: GetDeployment_def run_query popped_def split: option.splits)
qed

section \<open>What one call does to the rows\<close>

text \<open>The rows of a project that are in flight, and those that are queued, newest first.\<close>

definition single_flight :: "db \<Rightarrow> bool" where
  "single_flight s \<longleftrightarrow> (\<forall>pid. length (in_flight_of pid s) \<le> 1)"

definition distinct_ids :: "db \<Rightarrow> bool" where
  "distinct_ids s \<longleftrightarrow> distinct (map d_id (deployments s)) \<and> distinct (map t_id (tasks s))"

lemma deployments_update [simp]:
  "deployments (update_deployments P f s) = upd_where P (\<lambda>d. (f d)\<lparr>d_updated := db_now s\<rparr>) (deployments s)"
  by (simp add: update_deployments_def)

lemma update_frame [simp]:
  "tasks (update_deployments P f s) = tasks s" "nodes (update_deployments P f s) = nodes s"
  "projects (update_deployments P f s) = projects s" "db_now (update_deployments P f s) = db_now s"
  "deployments (update_tasks Q g s) = deployments s" "nodes (update_tasks Q g s) = nodes s"
  "projects (update_tasks Q g s) = projects s" "db_now (update_tasks Q g s) = db_now s"
  "db_faults (update_deployments P f s) = db_faults s" "db_faults (update_tasks Q g s) = db_faults s"
  "tasks (update_tasks Q g s) = upd_where Q (\<lambda>t. (g t)\<lparr>t_updated := db_now s\<rparr>) (tasks s)"
  by (simp_all add: update_deployments_def update_tasks_def)

lemmas queue_write_defs = reap_lost_def fail_tasks_of_def set_pending_def set_superseded_def

lemma deployments_reaped_state:
  "deployments (reaped_state pid pol s) = upd_where (\<lambda>d. d_project d = pid \<and> presumed_lost pol s d)
     (\<lambda>d. d\<lparr>d_status := DS_Failed, d_logs := d_logs d @ lost_message, d_updated := db_now s\<rparr>) (deployments s)"
  by (simp add: reaped_state_def queue_write_defs)

lemma reaped_frame [simp]:
  "db_now (reaped_state pid pol s) = db_now s" "nodes (reaped_state pid pol s) = nodes s"
  "projects (reaped_state pid pol s) = projects s"
  by (simp_all add: reaped_state_def queue_write_defs)

lemma node_of_reaped [simp]: "node_of (reaped_state pid pol s) = node_of s"
  by (rule ext) (simp add: node_of_def node_by_def split: option.splits)

lemma in_flight_simps [simp]:
  "in_flight DS_Pending" "in_flight DS_Building" "in_flight DS_Deploying" "\<not> in_flight DS_Failed"
  "\<not> in_flight DS_Running" "\<not> in_flight DS_Stopped" "\<not> in_flight DS_Queued" "\<not> in_flight DS_Superseded"
  by (simp_all add: in_flight_def)

text \<open>Reaping takes the lost rows out of flight and touches no queued row.\<close>

lemma in_flight_of_reaped:
  "in_flight_of p (reaped_state pid pol s) =
     filter (\<lambda>d. \<not> (p = pid \<and> presumed_lost pol s d)) (in_flight_of p s)"
  unfolding in_flight_of_def deployments_reaped_state
  by (subst filter_upd_where_out) (auto intro!: filter_cong)

lemma queued_filter_reaped:
  "filter (\<lambda>d. d_project d = p \<and> d_status d = DS_Queued) (deployments (reaped_state pid pol s)) =
   filter (\<lambda>d. d_project d = p \<and> d_status d = DS_Queued) (deployments s)"
  unfolding deployments_reaped_state
  by (rule filter_upd_where_untouched) (auto simp: presumed_lost_def)

lemma queued_of_reaped [simp]: "queued_of p (reaped_state pid pol s) = queued_of p s"
  by (simp add: queued_of_def queued_filter_reaped)


text \<open>
  Promotion, on distinct identifiers: the newest queued row is pending, the older ones are
  superseded, every other row is as it was.
\<close>

definition promoted_row :: "uuid \<Rightarrow> uuid list \<Rightarrow> time \<Rightarrow> deployment \<Rightarrow> deployment" where
  "promoted_row newest older now d =
     (if d_id d = newest then d\<lparr>d_status := DS_Pending, d_updated := now\<rparr>
      else if d_id d \<in> set older
      then d\<lparr>d_status := DS_Superseded, d_logs := d_logs d @ superseded_message newest, d_updated := now\<rparr>
      else d)"

lemma set_newest_first [simp]: "set (newest_first ds) = set ds"
  by (simp add: newest_first_def)

lemma length_newest_first [simp]: "length (newest_first ds) = length ds"
  by (simp add: newest_first_def)

lemma set_queued_of: "d \<in> set (queued_of pid s) \<longleftrightarrow> d \<in> set (deployments s) \<and> d_project d = pid \<and> d_status d = DS_Queued"
  by (auto simp: queued_of_def)

lemma distinct_queued_ids:
  "distinct_ids s \<Longrightarrow> distinct (map d_id (queued_of pid s))"
  by (auto simp: distinct_ids_def queued_of_def newest_first_def distinct_map rev_map [symmetric]
      intro: inj_on_subset)

lemma deployments_promote:
  assumes "distinct_ids s" and "map d_id (queued_of pid s) = newest # older"
  shows "deployments (promote pid s) = map (promoted_row newest older (db_now s)) (deployments s)"
proof -
  have "newest \<notin> set older"
    using distinct_queued_ids [OF assms(1), of pid] assms(2) by simp
  then show ?thesis
    using assms(2)
    by (auto simp: promote_def queue_write_defs upd_where_def promoted_row_def)
qed

lemma promote_frame [simp]:
  "tasks (promote pid s) = tasks s" "nodes (promote pid s) = nodes s" "db_now (promote pid s) = db_now s"
  "projects (promote pid s) = projects s"
  by (simp_all add: promote_def queue_write_defs split: list.splits)

lemma promoted_row_key [simp]:
  "d_id (promoted_row n os t d) = d_id d" "d_project (promoted_row n os t d) = d_project d"
  by (simp_all add: promoted_row_def)

lemma id_unique:
  "distinct_ids s \<Longrightarrow> d \<in> set (deployments s) \<Longrightarrow> e \<in> set (deployments s) \<Longrightarrow> d_id d = d_id e \<Longrightarrow> d = e"
  by (auto simp: distinct_ids_def distinct_map dest: inj_onD)

lemma in_flight_of_promote_other:
  assumes "distinct_ids s" and "p \<noteq> pid"
  shows "in_flight_of p (promote pid s) = in_flight_of p s"
proof (cases "map d_id (queued_of pid s)")
  case Nil
  then show ?thesis by (simp add: promote_def)
next
  case (Cons newest older)
  have row: "promoted_row newest older (db_now s) d = d"
    if "d \<in> set (deployments s)" "d_project d = p" for d
  proof -
    have "d_id d \<notin> set (map d_id (queued_of pid s))"
    proof
      assume "d_id d \<in> set (map d_id (queued_of pid s))"
      then obtain e where "e \<in> set (queued_of pid s)" "d_id e = d_id d" by auto
      then show False
        using id_unique [OF assms(1), of e d] that assms(2) by (auto simp: set_queued_of)
    qed
    then show ?thesis by (auto simp: promoted_row_def Cons)
  qed
  show ?thesis
    unfolding in_flight_of_def deployments_promote [OF assms(1) Cons]
    by (rule filter_map_untouched) (metis row promoted_row_key(2))
qed

lemma in_flight_of_promote:
  assumes "distinct_ids s" and "in_flight_of pid s = []"
    and "map d_id (queued_of pid s) = newest # older"
  shows "map d_id (in_flight_of pid (promote pid s)) = [newest]"
proof -
  let ?row = "promoted_row newest older (db_now s)"
  have "newest \<in> set (map d_id (queued_of pid s))" unfolding assms(3) by simp
  then obtain d0 where d0: "d0 \<in> set (deployments s)" "d_id d0 = newest" "d_project d0 = pid"
    by (auto simp: set_queued_of)
  have none: "\<not> in_flight (d_status d)" if "d \<in> set (deployments s)" "d_project d = pid" for d
    using assms(2) that by (auto simp: in_flight_of_def filter_empty_conv)
  have pt: "(d_project (?row d) = pid \<and> in_flight (d_status (?row d))) = (d_id d = newest)"
    if "d \<in> set (deployments s)" for d
  proof (cases "d_id d = newest")
    case True
    then have "d = d0" using id_unique [OF assms(1) that d0(1)] d0(2) by simp
    then show ?thesis using d0 by (simp add: promoted_row_def)
  next
    case False
    then show ?thesis using none [OF that] by (simp add: promoted_row_def)
  qed
  have "in_flight_of pid (promote pid s) = map ?row (filter (\<lambda>d. d_id d = newest) (deployments s))"
    unfolding in_flight_of_def deployments_promote [OF assms(1,3)] filter_map o_def
    by (rule arg_cong [where f = "map ?row"], rule filter_cong) (simp_all only: pt)
  then have "map d_id (in_flight_of pid (promote pid s)) = map d_id (filter (\<lambda>d. d_id d = newest) (deployments s))"
    by (simp add: o_def)
  moreover have "newest \<in> d_id ` set (deployments s)" using d0 by blast
  ultimately show ?thesis
    using map_filter_key [of d_id "deployments s" newest] assms(1) by (simp add: distinct_ids_def)
qed

lemma distinct_ids_reaped [simp]: "distinct_ids (reaped_state pid pol s) = distinct_ids s"
proof -
  have "map d_id (deployments (reaped_state pid pol s)) = map d_id (deployments s)"
    by (simp add: deployments_reaped_state map_upd_where)
  moreover have "map t_id (tasks (reaped_state pid pol s)) = map t_id (tasks s)"
    by (simp add: reaped_state_def queue_write_defs map_upd_where)
  ultimately show ?thesis by (simp add: distinct_ids_def)
qed

lemma distinct_ids_promote [simp]: "distinct_ids (promote pid s) = distinct_ids s"
proof -
  have "map d_id (deployments (promote pid s)) = map d_id (deployments s)"
    by (simp add: promote_def queue_write_defs map_upd_where split: list.splits)
  then show ?thesis by (simp add: distinct_ids_def)
qed

lemma distinct_ids_advance [simp]: "distinct_ids (advance_state pid pol s) = distinct_ids s"
  by (simp add: advance_state_def Let_def)

lemma single_flight_advance:
  assumes "distinct_ids s" and "single_flight s"
  shows "single_flight (advance_state pid pol s)"
proof -
  let ?s1 = "reaped_state pid pol s"
  have s1: "single_flight ?s1"
    unfolding single_flight_def in_flight_of_reaped
    by (meson assms(2) length_filter_le le_trans single_flight_def)
  show ?thesis
  proof (cases "in_flight_of pid ?s1 = []")
    case False
    then show ?thesis using s1 by (simp add: advance_state_def)
  next
    case True
    have "length (in_flight_of p (promote pid ?s1)) \<le> 1" for p
    proof (cases "p = pid")
      case p: True
      show ?thesis
      proof (cases "map d_id (queued_of pid ?s1)")
        case Nil
        then show ?thesis using True p by (simp add: promote_def)
      next
        case (Cons newest older)
        then have "map d_id (in_flight_of pid (promote pid ?s1)) = [newest]"
          using in_flight_of_promote [OF _ True Cons] assms(1) by simp
        then have "length (in_flight_of pid (promote pid ?s1)) = 1"
          by (metis One_nat_def length_Cons length_map list.size(3))
        then show ?thesis using p by simp
      qed
    next
      case False
      then show ?thesis
        using in_flight_of_promote_other [of ?s1 p pid] assms(1) s1 by (simp add: single_flight_def)
    qed
    then show ?thesis using True by (simp add: advance_state_def single_flight_def)
  qed
qed

section \<open>The abstract queue of one project\<close>

text \<open>
  What is promised of one project's queue: the identifiers in flight and those waiting, newest
  first. An advance drops the lost ones; while something is still in flight nothing else happens,
  otherwise the newest waiting one flies and the waiting list is empty.
\<close>

type_synonym abs_queue = "uuid list \<times> uuid list"

fun aq_advance :: "uuid set \<Rightarrow> abs_queue \<Rightarrow> abs_queue" where
  "aq_advance lost (flying, waiting) =
     (let left = filter (\<lambda>i. i \<notin> lost) flying in
      if left \<noteq> [] then (left, waiting)
      else case waiting of [] \<Rightarrow> ([], []) | newest # _ \<Rightarrow> ([newest], []))"

definition abs_queue :: "uuid \<Rightarrow> db \<Rightarrow> abs_queue" where
  "abs_queue pid s = (map d_id (in_flight_of pid s), map d_id (queued_of pid s))"

lemma abs_queue_faults [simp]: "abs_queue pid (s\<lparr>db_faults := fs\<rparr>) = abs_queue pid s"
  by (simp add: abs_queue_def)

lemma queued_filter_promote_other:
  assumes "distinct_ids s" and "p \<noteq> pid"
  shows "queued_of p (promote pid s) = queued_of p s"
proof (cases "map d_id (queued_of pid s)")
  case Nil
  then show ?thesis by (simp add: promote_def)
next
  case (Cons newest older)
  have row: "promoted_row newest older (db_now s) d = d"
    if "d \<in> set (deployments s)" "d_project d = p" for d
  proof -
    have "d_id d \<notin> set (map d_id (queued_of pid s))"
      using id_unique [OF assms(1) _ that(1)] that(2) assms(2) by (auto simp: set_queued_of)
    then show ?thesis by (auto simp: promoted_row_def Cons)
  qed
  show ?thesis
    unfolding queued_of_def deployments_promote [OF assms(1) Cons]
    by (rule arg_cong [where f = newest_first], rule filter_map_untouched) (metis row promoted_row_key(2))
qed

lemma queued_of_promote:
  assumes "distinct_ids s"
  shows "queued_of pid (promote pid s) = []"
proof (cases "map d_id (queued_of pid s)")
  case Nil
  then show ?thesis by (simp add: promote_def)
next
  case (Cons newest older)
  have "d_status (promoted_row newest older (db_now s) d) \<noteq> DS_Queued"
    if "d \<in> set (deployments s)" "d_project d = pid" for d
  proof (cases "d_status d = DS_Queued")
    case True
    then have "d_id d \<in> set (map d_id (queued_of pid s))" using that by (auto simp: set_queued_of)
    then show ?thesis by (auto simp: promoted_row_def Cons)
  next
    case False
    then show ?thesis by (simp add: promoted_row_def)
  qed
  then show ?thesis
    by (auto simp: queued_of_def deployments_promote [OF assms Cons] filter_empty_conv newest_first_def)
qed

lemma abs_queue_reaped_own:
  assumes "distinct_ids s"
  shows "map d_id (in_flight_of pid (reaped_state pid pol s)) =
    filter (\<lambda>i. i \<notin> set (lost_ids pid pol s)) (map d_id (in_flight_of pid s))"
proof -
  have "d_id d \<in> set (lost_ids pid pol s) \<longleftrightarrow> presumed_lost pol s d" if "d \<in> set (in_flight_of pid s)" for d
    using that id_unique [OF assms, of d] by (auto simp: in_flight_of_def lost_ids_def)
  then show ?thesis
    unfolding in_flight_of_reaped filter_map o_def
    by (intro arg_cong [where f = "map d_id"] filter_cong) auto
qed

lemma abs_queue_advance_own:
  assumes "distinct_ids s"
  shows "abs_queue pid (advance_state pid pol s) = aq_advance (set (lost_ids pid pol s)) (abs_queue pid s)"
proof (cases "in_flight_of pid (reaped_state pid pol s) = []")
  case False
  then have "filter (\<lambda>i. i \<notin> set (lost_ids pid pol s)) (map d_id (in_flight_of pid s)) \<noteq> []"
    using abs_queue_reaped_own [OF assms, of pid pol] by (metis map_is_Nil_conv)
  with False show ?thesis
    by (simp add: advance_state_def abs_queue_def Let_def abs_queue_reaped_own [OF assms])
next
  case True
  then have none: "filter (\<lambda>i. i \<notin> set (lost_ids pid pol s)) (map d_id (in_flight_of pid s)) = []"
    using abs_queue_reaped_own [OF assms, of pid pol] by (metis map_is_Nil_conv)
  have d1: "distinct_ids (reaped_state pid pol s)" using assms by simp
  show ?thesis
  proof (cases "map d_id (queued_of pid s)")
    case Nil
    then show ?thesis
      using True none by (simp add: advance_state_def abs_queue_def Let_def promote_def)
  next
    case (Cons newest older)
    then have "map d_id (in_flight_of pid (promote pid (reaped_state pid pol s))) = [newest]"
      using in_flight_of_promote [OF d1 True, of newest older] by simp
    then show ?thesis
      using True none Cons queued_of_promote [OF d1, of pid]
      by (simp add: advance_state_def abs_queue_def Let_def)
  qed
qed

lemma abs_queue_advance_other:
  assumes "distinct_ids s" and "p \<noteq> pid"
  shows "abs_queue p (advance_state pid pol s) = abs_queue p s"
  using assms
  by (simp add: advance_state_def abs_queue_def Let_def in_flight_of_promote_other
      queued_filter_promote_other in_flight_of_reaped)

lemma newest_first_head:
  assumes "newest_first ds = d # rest" and "e \<in> set ds"
  shows "(d_created e, d_id e) \<le> (d_created d, d_id d)"
proof -
  let ?k = "\<lambda>d. (d_created d, d_id d)"
  have "sorted (map ?k (rev (d # rest)))"
    using assms(1) by (metis newest_first_def rev_rev_ident sorted_sort_key)
  moreover have "e = d \<or> e \<in> set rest"
    using assms by (metis set_ConsD set_newest_first)
  ultimately show ?thesis
    by (auto simp: sorted_append)
qed

section \<open>Properties\<close>

text \<open>
  C3: A successful \<open>AdvanceDeployQueue\<close> implements one advance of the project's abstract queue
  (lost deployments leave, and only when nothing is left in flight does the newest queued one start
  and every older one go) and leaves the queue of every other project as it was.
\<close>

theorem AdvanceDeployQueue_refines_abs:
  assumes "distinct_ids s" and "run_state (store_AdvanceDeployQueue pid pol) s = (Inr res, s')"
  shows "abs_queue pid s' = aq_advance (set (qa_reaped res)) (abs_queue pid s)
    \<and> (p = pid \<or> abs_queue p s' = abs_queue p s)"
proof -
  from advance_InrD [OF assms(2)] obtain fs
    where "s' = (advance_state pid pol s)\<lparr>db_faults := fs\<rparr>" and "qa_reaped res = lost_ids pid pol s"
    by auto
  then show ?thesis
    using abs_queue_advance_own [OF assms(1)] abs_queue_advance_other [OF assms(1), of p pid pol]
    by (cases "p = pid") simp_all
qed

text \<open>The outcomes of a call: the tables of an advance, or none of them changed.\<close>

lemma advance_outcome:
  assumes "run_state (store_AdvanceDeployQueue pid pol) s = (r, s')"
  shows "(\<exists>fs n. s' = s\<lparr>db_faults := fs, db_next := n\<rparr>) \<or>
    (\<exists>fs. s' = (advance_state pid pol s)\<lparr>db_faults := fs\<rparr> \<and> (\<forall>e. r = Inl e \<longrightarrow> advance_newest pid pol s \<noteq> None))"
proof (cases r)
  case (Inr res)
  then show ?thesis using advance_InrD(1) assms by blast
next
  case (Inl e)
  show ?thesis
  proof (cases "run_state (transaction (advance_body pid pol)) s")
    case (Pair q s1)
    show ?thesis
    proof (cases q)
      case (Inl e')
      have "s' = s1" and t: "run_state (transaction (advance_body pid pol)) s = (Inl e', s1)"
        using assms Pair Inl by (auto simp: store_AdvanceDeployQueue_def)
      then show ?thesis using transaction_atomic [OF t] by simp
    next
      case q: (Inr x)
      obtain newest superseded reaped where x: "x = (newest, superseded, reaped)" by (cases x) auto
      from Pair q obtain fs fs' s2
        where b: "run_state (advance_body pid pol) (s\<lparr>db_faults := fs\<rparr>) = (Inr x, s2)"
          and s1: "s1 = s2\<lparr>db_faults := fs'\<rparr>"
        by (auto elim: transaction_InrE)
      have c: "advance_state pid pol (s\<lparr>db_faults := fs\<rparr>) = (advance_state pid pol s)\<lparr>db_faults := fs\<rparr>"
        "advance_newest pid pol (s\<lparr>db_faults := fs\<rparr>) = advance_newest pid pol s"
        by (simp_all add: advance_state_def advance_newest_def reaped_state_def promote_def Let_def
            split: list.splits)
      from advance_body_InrD [OF b [unfolded x]] c
      have "\<exists>fs. s2 = (advance_state pid pol s)\<lparr>db_faults := fs\<rparr>" and nw: "newest = advance_newest pid pol s"
        by auto
      moreover from assms Pair q x \<open>r = Inl e\<close> obtain i where "newest = Some i"
        by (cases newest) (auto simp: store_AdvanceDeployQueue_def)
      moreover have "s' = popped s1"
        using assms Pair q x \<open>newest = Some i\<close>
        by (auto simp: store_AdvanceDeployQueue_def GetDeployment_def run_query split: option.splits)
      ultimately show ?thesis using s1 by (auto simp: popped_def)
    qed
  qed
qed

lemma queue_invariants_faults [simp]:
  "single_flight (s\<lparr>db_faults := fs\<rparr>) = single_flight s" "single_flight (s\<lparr>db_next := n\<rparr>) = single_flight s"
  "distinct_ids (s\<lparr>db_faults := fs\<rparr>) = distinct_ids s" "distinct_ids (s\<lparr>db_next := n\<rparr>) = distinct_ids s"
  by (simp_all add: single_flight_def distinct_ids_def in_flight_of_def)

text \<open>
  Whatever \<open>AdvanceDeployQueue\<close> returns, and whichever of its statements fail, it keeps the
  promise of its comment: at most one deployment of each project is in flight.
\<close>

theorem AdvanceDeployQueue_single_flight:
  assumes "distinct_ids s" and "single_flight s"
    and "run_state (store_AdvanceDeployQueue pid pol) s = (r, s')"
  shows "single_flight s'"
  using advance_outcome [OF assms(3)] single_flight_advance [OF assms(1,2), of pid pol] assms(2)
  by auto

text \<open>
  An error of \<open>AdvanceDeployQueue\<close> means that no table changed (the transaction rolled back),
  with one exception: when the read of the promoted row fails after the commit, the advance is in
  the tables although the caller sees an error and will dispatch nothing for it.
\<close>

theorem AdvanceDeployQueue_error_atomic:
  assumes "run_state (store_AdvanceDeployQueue pid pol) s = (Inl e, s')"
  shows "(deployments s' = deployments s \<and> tasks s' = tasks s \<and> projects s' = projects s \<and> nodes s' = nodes s)
    \<or> (deployments s' = deployments (advance_state pid pol s) \<and> advance_newest pid pol s \<noteq> None)"
  using advance_outcome [OF assms] by auto

section \<open>Repeated advances\<close>

lemma queue_writes_no_faults [simp]:
  "db_faults (reap_lost pid pol s) = db_faults s" "db_faults (fail_tasks_of ids s) = db_faults s"
  "db_faults (set_pending i s) = db_faults s" "db_faults (set_superseded ids i s) = db_faults s"
  by (simp_all add: queue_write_defs)

lemma advance_state_no_faults [simp]: "db_faults (advance_state pid pol s) = db_faults s"
  by (simp add: advance_state_def reaped_state_def promote_def Let_def split: list.splits)

lemma advance_runs:
  assumes "db_faults s = []"
  shows "\<exists>res. run_state (store_AdvanceDeployQueue pid pol) s = (Inr res, advance_state pid pol s)"
proof -
  have "\<exists>x. run_state (advance_body pid pol) s = (Inr x, advance_state pid pol s)"
    using assms
    by (auto simp: advance_body_def advance_state_def reaped_state_def promote_def Let_def
        split: list.splits)
  then obtain newest sup rp
    where b: "run_state (advance_body pid pol) s = (Inr (newest, sup, rp), advance_state pid pol s)"
    by (metis prod.collapse)
  then have "run_state (transaction (advance_body pid pol)) s = (Inr (newest, sup, rp), advance_state pid pol s)"
    using assms by (simp add: transaction_def)
  then show ?thesis
    using assms by (auto simp: store_AdvanceDeployQueue_def GetDeployment_def split: option.splits)
qed

lemma keeps_alive_reaped:
  assumes "distinct_ids s" and "d \<in> set (in_flight_of pid s)" and "\<not> presumed_lost pol s d"
    and "t \<in> set (tasks s)" and "keeps_alive pol s d t"
  shows "\<exists>t' \<in> set (tasks (reaped_state pid pol s)). keeps_alive pol (reaped_state pid pol s) d t'"
proof -
  have "d_id d \<notin> set (lost_ids pid pol s)"
    using assms(2,3) id_unique [OF assms(1)] by (auto simp: lost_ids_def in_flight_of_def)
  then have "t_deployment t \<notin> set (lost_ids pid pol s)"
    using assms(5) by (simp add: keeps_alive_def)
  then have "t \<in> set (tasks (reaped_state pid pol s))"
    using assms(4) by (auto simp: reaped_state_def queue_write_defs set_upd_where)
  moreover have "keeps_alive pol (reaped_state pid pol s) d t"
    using assms(5) by (simp add: keeps_alive_def cong: option.case_cong)
  ultimately show ?thesis by blast
qed

lemma not_lost_after_advance:
  assumes "distinct_ids s" and "0 \<le> grace pol" and "0 \<le> hard_timeout pol"
    and d: "d \<in> set (in_flight_of pid (advance_state pid pol s))"
  shows "\<not> presumed_lost pol (advance_state pid pol s) d"
proof (cases "in_flight_of pid (reaped_state pid pol s) = []")
  case False
  then have adv: "advance_state pid pol s = reaped_state pid pol s"
    by (simp add: advance_state_def)
  with d have m: "d \<in> set (in_flight_of pid s)" and n: "\<not> presumed_lost pol s d"
    by (auto simp: in_flight_of_reaped)
  show ?thesis
    using n keeps_alive_reaped [OF assms(1) m n] unfolding adv by (fastforce simp: presumed_lost_def)
next
  case True
  let ?s1 = "reaped_state pid pol s"
  have adv: "advance_state pid pol s = promote pid ?s1"
    using True by (simp add: advance_state_def)
  have d1: "distinct_ids ?s1" using assms(1) by simp
  show ?thesis
  proof (cases "map d_id (queued_of pid ?s1)")
    case Nil
    then show ?thesis using d True by (simp add: adv promote_def)
  next
    case (Cons newest older)
    have "d_id d \<in> set (map d_id (in_flight_of pid (promote pid ?s1)))" using d adv by auto
    then have "d_id d = newest" unfolding in_flight_of_promote [OF d1 True Cons] by simp
    have "d \<in> promoted_row newest older (db_now s) ` set (deployments ?s1)"
      using d unfolding adv in_flight_of_def deployments_promote [OF d1 Cons] by simp
    then obtain e where e: "d = promoted_row newest older (db_now s) e" ..
    then have "d_id e = newest" using \<open>d_id d = newest\<close> by simp
    then have "d_updated d = db_now s" using e by (simp add: promoted_row_def)
    then show ?thesis using assms(2,3) by (simp add: presumed_lost_def adv)
  qed
qed

lemma advance_state_idem:
  assumes "distinct_ids s" and "0 \<le> grace pol" and "0 \<le> hard_timeout pol"
  shows "lost_ids pid pol (advance_state pid pol s) = []"
    and "advance_newest pid pol (advance_state pid pol s) = None"
    and "advance_state pid pol (advance_state pid pol s) = advance_state pid pol s"
proof -
  let ?a = "advance_state pid pol s"
  have none: "\<not> (d_project d = pid \<and> presumed_lost pol ?a d)" if "d \<in> set (deployments ?a)" for d
    using not_lost_after_advance [OF assms, of d pid] that by (auto simp: in_flight_of_def presumed_lost_def)
  then show lost: "lost_ids pid pol ?a = []"
    by (auto simp: lost_ids_def filter_empty_conv)
  have "reap_lost pid pol ?a = ?a"
    using upd_where_none [of "deployments ?a", OF none] by (simp add: reap_lost_def update_deployments_def)
  then have reaped: "reaped_state pid pol ?a = ?a"
    by (simp add: reaped_state_def lost)
  have quiet: "queued_of pid ?a = []" if "in_flight_of pid ?a = []"
  proof -
    have "in_flight_of pid (reaped_state pid pol s) = []"
      using that by (auto simp: advance_state_def Let_def split: if_splits)
    then show ?thesis
      using queued_of_promote [of "reaped_state pid pol s" pid] assms(1) by (simp add: advance_state_def)
  qed
  show "advance_newest pid pol ?a = None"
    using quiet by (auto simp: advance_newest_def reaped Let_def)
  show "advance_state pid pol ?a = ?a"
    using quiet by (auto simp: advance_state_def [of pid pol ?a] reaped Let_def promote_def)
qed

text \<open>
  \<open>AdvanceDeployQueue\<close> is idempotent, as its comment claims: run again at the same instant after
  a success it dispatches nothing, supersedes nothing, reaps nothing and changes nothing.
\<close>

theorem AdvanceDeployQueue_idempotent:
  assumes "distinct_ids s" and "0 \<le> grace pol" and "0 \<le> hard_timeout pol"
    and "run_state (store_AdvanceDeployQueue pid pol) s = (Inr res, s')" and "db_faults s' = []"
  shows "run_state (store_AdvanceDeployQueue pid pol) s' =
    (Inr \<lparr>qa_dispatch = None, qa_superseded = [], qa_reaped = []\<rparr>, s')"
proof -
  from advance_InrD(1) [OF assms(4)] obtain fs where s': "s' = (advance_state pid pol s)\<lparr>db_faults := fs\<rparr>" ..
  let ?a = "advance_state pid pol s"
  have s'2: "s' = ?a\<lparr>db_faults := []\<rparr>" using s' assms(5) by simp
  have f: "advance_state pid pol (?a\<lparr>db_faults := []\<rparr>) = (advance_state pid pol ?a)\<lparr>db_faults := []\<rparr>"
    "advance_newest pid pol (?a\<lparr>db_faults := []\<rparr>) = advance_newest pid pol ?a"
    by (simp_all add: advance_state_def [of pid pol "_\<lparr>db_faults := []\<rparr>"] advance_state_def [of pid pol ?a]
        advance_newest_def reaped_state_def promote_def Let_def split: list.splits)
  obtain res' where r: "run_state (store_AdvanceDeployQueue pid pol) s' = (Inr res', advance_state pid pol s')"
    using advance_runs [OF assms(5)] by blast
  note idem = advance_state_idem [OF assms(1-3), of pid]
  have "qa_dispatch res' = None" "qa_superseded res' = []" "qa_reaped res' = []"
    using advance_InrD(2-4) [OF r] idem f by (simp_all add: s'2)
  moreover have "advance_state pid pol s' = s'"
    unfolding s'2 f idem ..
  ultimately show ?thesis using r by simp
qed

text \<open>
  C16: The queue moves: if every in-flight deployment of a project is lost and one is queued, a call
  whose statements all run dispatches the newest queued one, now \<open>pending\<close>, and supersedes every
  other queued one, so that nothing of the project waits any more.
\<close>

theorem AdvanceDeployQueue_progress:
  assumes "distinct_ids s" and "db_faults s = []"
    and "\<And>d. d \<in> set (in_flight_of pid s) \<Longrightarrow> presumed_lost pol s d"
    and "queued_of pid s \<noteq> []"
  shows "\<exists>res s' d. run_state (store_AdvanceDeployQueue pid pol) s = (Inr res, s')
    \<and> qa_dispatch res = Some d \<and> d_status d = DS_Pending \<and> d_project d = pid
    \<and> (\<forall>e \<in> set (queued_of pid s). (d_created e, d_id e) \<le> (d_created d, d_id d))
    \<and> set (qa_superseded res) = d_id ` set (queued_of pid s) - {d_id d}
    \<and> queued_of pid s' = []"
proof -
  let ?s1 = "reaped_state pid pol s" and ?a = "advance_state pid pol s"
  from advance_runs [OF assms(2)] obtain res
    where r: "run_state (store_AdvanceDeployQueue pid pol) s = (Inr res, ?a)" by blast
  have d1: "distinct_ids ?s1" using assms(1) by simp
  have none: "in_flight_of pid ?s1 = []"
    using assms(3) by (simp add: in_flight_of_reaped filter_empty_conv)
  then have adv: "?a = promote pid ?s1" by (simp add: advance_state_def)
  from assms(4) obtain q rest where q: "queued_of pid s = q # rest" by (cases "queued_of pid s") auto
  then have ids: "map d_id (queued_of pid ?s1) = d_id q # map d_id rest" by simp
  have nw: "advance_newest pid pol s = Some (d_id q)"
    using none q by (simp add: advance_newest_def)
  let ?row = "promoted_row (d_id q) (map d_id rest) (db_now s)"
  have qin: "q \<in> set (deployments ?s1)" and qp: "d_project q = pid"
    using q set_queued_of [of q pid ?s1] by auto
  have dep: "deployments ?a = map ?row (deployments ?s1)"
    using deployments_promote [OF d1 ids] by (simp add: adv)
  obtain d where d: "deployment_by ?a (d_id q) = Some d"
  proof (cases "deployment_by ?a (d_id q)")
    case None
    have "?row q \<in> set (deployments ?a)" using qin dep by simp
    from find_None_all [OF None [unfolded deployment_by_def] this] show ?thesis by simp
  qed
  then obtain d' where d': "d' \<in> set (deployments ?s1)" "d = ?row d'" "d_id d' = d_id q"
    using find_Some_mem [of "\<lambda>d. d_id d = d_id q" "deployments ?a" d] dep
    by (auto simp: deployment_by_def)
  then have "d' = q" using id_unique [OF d1 _ qin] by simp
  then have dq: "d = q\<lparr>d_status := DS_Pending, d_updated := db_now s\<rparr>"
    using d' by (simp add: promoted_row_def)
  have best: "\<forall>e \<in> set (queued_of pid s). (d_created e, d_id e) \<le> (d_created q, d_id q)"
    using newest_first_head [of _ q rest] q by (metis queued_of_def set_newest_first)
  have "distinct (d_id q # map d_id rest)" using distinct_queued_ids [OF d1, of pid] ids by simp
  then have "set (map d_id rest) = d_id ` set (queued_of pid s) - {d_id d}"
    using q dq by auto
  moreover have "qa_dispatch res = Some d" and "qa_superseded res = map d_id rest"
    using advance_InrD(2,4) [OF r] nw d ids by simp_all
  moreover have "queued_of pid ?a = []" unfolding adv by (rule queued_of_promote [OF d1])
  ultimately show ?thesis using r dq best qp by auto
qed

end
