(* ===== verification/Dispatch.thy ===== *)
theory Dispatch
  imports Placement Deploy_Queue
begin

text \<open>
  The dispatchers of internal/scheduler/scheduler.go: each turns a deployment into one task on one
  node, with the payload the agent works from; and the reads of decrypted secrets they use
  (internal/store/store.go). Decryption and the agent secret are fields of \<open>sched_cfg\<close>.
\<close>

section \<open>Decrypted secrets\<close>

fun decrypt_registry :: "(string \<Rightarrow> go_error + string) \<Rightarrow> registry_secret list \<Rightarrow> go_error + registry_auth list" where
  "decrypt_registry dec [] = Inr []"
| "decrypt_registry dec (r # rs) = (case dec (rs_enc r) of
       Inl e \<Rightarrow> Inl (''decrypt registry secret: '' @ e)
     | Inr password \<Rightarrow> (case decrypt_registry dec rs of
           Inl e \<Rightarrow> Inl e
         | Inr auths \<Rightarrow> Inr (\<lparr>ra_addr = rs_addr r, ra_username = rs_username r, ra_password = password\<rparr> # auths)))"

definition GetUserRegistrySecretsDecrypted :: "sched_cfg \<Rightarrow> uuid \<Rightarrow> registry_auth list store" where
  "GetUserRegistrySecretsDecrypted cfg u =
     (if \<not> encryption_on cfg then ok []
      else attempt (query (\<lambda>s. filter (\<lambda>r. rs_user r = u) (registry_secrets s))) (\<lambda>rows.
        State_Monad.return (decrypt_registry (decrypt cfg) rows)))"

record decrypted_env =
  de_key :: string
  de_runtime :: bool
  de_build :: bool
  de_value :: string

fun decrypt_env :: "(string \<Rightarrow> go_error + string) \<Rightarrow> env_var list \<Rightarrow> go_error + decrypted_env list" where
  "decrypt_env dec [] = Inr []"
| "decrypt_env dec (v # vs) = (case dec (ev_enc v) of
       Inl e \<Rightarrow> Inl (''decrypt env var '' @ ev_key v @ '': '' @ e)
     | Inr plain \<Rightarrow> (case decrypt_env dec vs of
           Inl e \<Rightarrow> Inl e
         | Inr ds \<Rightarrow> Inr (\<lparr>de_key = ev_key v, de_runtime = ev_runtime v, de_build = ev_build v, de_value = plain\<rparr> # ds)))"

definition GetProjectEnvDecrypted :: "sched_cfg \<Rightarrow> uuid \<Rightarrow> decrypted_env list store" where
  "GetProjectEnvDecrypted cfg pid =
     (if \<not> encryption_on cfg then ok []
      else attempt (query (\<lambda>s. filter (\<lambda>v. ev_project v = pid) (env_vars s))) (\<lambda>rows.
        State_Monad.return (decrypt_env (decrypt cfg) rows)))"

text \<open>The three results are the user name, the token and the SSH key.\<close>

definition GetProjectGitCredential :: "sched_cfg \<Rightarrow> uuid \<Rightarrow> (string \<times> string \<times> string) store" where
  "GetProjectGitCredential cfg pid =
     attempt (sql (\<lambda>s. case project_by s pid of
         None \<Rightarrow> Inl ''no rows in result set''
       | Some p \<Rightarrow> Inr ((p_git_auth p, p_git_auth_user p, p_git_auth_enc p), s))) (\<lambda>(typ, user, enc).
     if typ = GA_None \<or> enc = '''' \<or> \<not> encryption_on cfg then ok ('''', '''', '''')
     else (case decrypt cfg enc of
         Inl e \<Rightarrow> fail (''decrypt git credential: '' @ e)
       | Inr plain \<Rightarrow> if typ = GA_SSHKey then ok ('''', '''', plain) else ok (user, plain, '''')))"

text \<open>\<open>x, _ := m\<close>: on an error the result is the zero value.\<close>

definition or_zero :: "'a \<Rightarrow> (db, go_error + 'a) state \<Rightarrow> (db, 'a) state" where
  "or_zero z m = do { r \<leftarrow> m; State_Monad.return (case r of Inl _ \<Rightarrow> z | Inr x \<Rightarrow> x) }"

lemma run_or_zero [simp]:
  "run_state (or_zero z m) s = (case run_state m s of (Inl _, s') \<Rightarrow> (z, s') | (Inr x, s') \<Rightarrow> (x, s'))"
  by (auto simp: or_zero_def split: prod.splits sum.splits)

lemma keeps_or_zero [keeps_intros]: "keeps I m \<Longrightarrow> keeps I (or_zero z m)"
  unfolding or_zero_def by (intro keeps_bind keeps_return)

text \<open>\<open>m[k] = v\<close> on an association list.\<close>

fun map_put :: "'k \<Rightarrow> 'v \<Rightarrow> ('k \<times> 'v) list \<Rightarrow> ('k \<times> 'v) list" where
  "map_put k v [] = [(k, v)]"
| "map_put k v ((k', v') # m) = (if k' = k then (k, v) # m else (k', v') # map_put k v m)"

text \<open>The two loops over a project's variables.\<close>

fun runtime_env :: "decrypted_env list \<Rightarrow> str_map \<Rightarrow> str_map" where
  "runtime_env [] m = m"
| "runtime_env (v # vs) m = runtime_env vs (if de_runtime v then map_put (de_key v) (de_value v) m else m)"

fun build_secrets :: "decrypted_env list \<Rightarrow> str_map \<Rightarrow> str_map" where
  "build_secrets [] m = m"
| "build_secrets (v # vs) m = build_secrets vs (if de_build v then map_put (de_key v) (de_value v) m else m)"

definition projectRuntimeEnv :: "sched_cfg \<Rightarrow> uuid \<Rightarrow> (db, str_map) state" where
  "projectRuntimeEnv cfg pid = do {
     vars \<leftarrow> or_zero [] (GetProjectEnvDecrypted cfg pid);
     State_Monad.return (runtime_env vars []) }"

section \<open>Tasks on the node of a container\<close>

text \<open>\<open>created, err := CreateTask(..); return created.ID, err\<close>.\<close>

definition new_task :: "task_type \<Rightarrow> uuid option \<Rightarrow> uuid \<Rightarrow> payload \<Rightarrow> uuid store" where
  "new_task ty n dep pl = attempt (CreateTask ty n dep pl) (\<lambda>created. ok (t_id created))"

definition DispatchCleanup :: "uuid \<Rightarrow> deployment \<Rightarrow> string \<Rightarrow> uuid store" where
  "DispatchCleanup n d pfx = new_task TT_Cleanup (Some n) (d_id d) [(''domain_prefix'', PStr pfx)]"

definition DispatchRuntimeLogs :: "uuid \<Rightarrow> deployment \<Rightarrow> string \<Rightarrow> int \<Rightarrow> string \<Rightarrow> uuid store" where
  "DispatchRuntimeLogs n d pfx tail since = new_task TT_RuntimeLogs (Some n) (d_id d)
     ([(''domain_prefix'', PStr pfx)]
      @ (if 0 < tail then [(''tail'', PInt tail)] else [])
      @ (if since \<noteq> '''' then [(''since'', PStr since)] else []))"

definition DispatchRestart :: "uuid \<Rightarrow> deployment \<Rightarrow> string \<Rightarrow> uuid store" where
  "DispatchRestart n d pfx = new_task TT_Restart (Some n) (d_id d) [(''domain_prefix'', PStr pfx)]"

definition DispatchPause :: "uuid \<Rightarrow> deployment \<Rightarrow> string \<Rightarrow> uuid store" where
  "DispatchPause n d pfx = new_task TT_Pause (Some n) (d_id d) [(''domain_prefix'', PStr pfx)]"

definition DispatchUnpause :: "uuid \<Rightarrow> deployment \<Rightarrow> string \<Rightarrow> uuid store" where
  "DispatchUnpause n d pfx = new_task TT_Unpause (Some n) (d_id d) [(''domain_prefix'', PStr pfx)]"

definition DispatchEnv :: "uuid \<Rightarrow> deployment \<Rightarrow> string \<Rightarrow> uuid store" where
  "DispatchEnv n d pfx = new_task TT_Env (Some n) (d_id d) [(''domain_prefix'', PStr pfx)]"

definition DispatchDescribe :: "uuid \<Rightarrow> deployment \<Rightarrow> string \<Rightarrow> uuid store" where
  "DispatchDescribe n d pfx = new_task TT_Describe (Some n) (d_id d) [(''domain_prefix'', PStr pfx)]"

definition DispatchComposeCleanup :: "project \<Rightarrow> uuid \<Rightarrow> uuid store" where
  "DispatchComposeCleanup project dep = (case p_pinned_node project of
       None \<Rightarrow> ok uuid_Nil
     | Some n \<Rightarrow> new_task TT_Cleanup (Some n) dep
         [(''mode'', PStr ''compose''), (''project_id'', PStr (p_id project)),
          (''domain_prefix'', PStr (p_domain_prefix project)),
          (''compose_file_path'', PStr (p_compose_file_path project))])"

section \<open>Build and deploy tasks\<close>

text \<open>The source of a hosted repository replaces whatever was read from the project.\<close>

definition git_payload :: "sched_cfg \<Rightarrow> project \<Rightarrow> string \<times> string \<times> string \<Rightarrow> string \<times> string \<times> string \<times> string \<times> string" where
  "git_payload cfg project cred = (case cred of (gitUsername, gitToken, gitSSHKey) \<Rightarrow>
     if p_git_source project = GS_Hosted
     then (''/git/'' @ p_id project @ ''.git'',
           if p_git_branch project = '''' then ''main'' else p_git_branch project,
           ''agent'', agent_secret cfg, '''')
     else (p_git_url project, p_git_branch project, gitUsername, gitToken, gitSSHKey))"

definition credential_payload :: "string \<Rightarrow> string \<Rightarrow> string \<Rightarrow> payload" where
  "credential_payload gitUsername gitToken gitSSHKey =
     (if gitSSHKey \<noteq> '''' then [(''git_ssh_key'', PStr gitSSHKey)] else [])
     @ (if gitUsername \<noteq> '''' \<and> gitToken \<noteq> ''''
        then [(''git_username'', PStr gitUsername), (''git_token'', PStr gitToken)] else [])"

definition fixed_port_payload :: "project \<Rightarrow> payload" where
  "fixed_port_payload project =
     (case p_fixed_port project of None \<Rightarrow> [] | Some port \<Rightarrow> [(''fixed_host_port'', PInt port)])"

definition DispatchBuild :: "sched_cfg \<Rightarrow> deployment \<Rightarrow> project \<Rightarrow> unit store" where
  "DispatchBuild cfg deployment project =
     (if p_type project = PT_DomainOnly then fail ''cannot dispatch build for domain_only project''
      else if p_type project = PT_Compose
      then fail ''cannot dispatch build for compose project (compose deploys must use image: only)''
      else if p_type project = PT_Image
      then fail ''cannot dispatch build for image project (pulls a pre-built image)''
      else attempt PickBuilderNode (\<lambda>builderNode. do {
        cred \<leftarrow> or_zero ('''', '''', '''') (GetProjectGitCredential cfg (p_id project));
        vars \<leftarrow> or_zero [] (GetProjectEnvDecrypted cfg (p_id project));
        let secrets = build_secrets vars [];
        let (gitURL, gitBranch, gitUsername, gitToken, gitSSHKey) = git_payload cfg project cred;
        attempt (CreateTask TT_Build (Some (n_id builderNode)) (d_id deployment)
          ([(''git_url'', PStr gitURL), (''git_branch'', PStr gitBranch),
            (''dockerfile_path'', PStr (p_dockerfile_path project)),
            (''deployment_id'', PStr (d_id deployment)), (''project_id'', PStr (p_id project)),
            (''domain_prefix'', PStr (p_domain_prefix project))]
           @ credential_payload gitUsername gitToken gitSSHKey
           @ (if secrets \<noteq> [] then [(''build_secrets'', PMap secrets)] else []))) (\<lambda>_. ok ()) }))"

definition buildRegistryAuthsPayload :: "registry_auth list \<Rightarrow> str_map list" where
  "buildRegistryAuthsPayload auths =
     map (\<lambda>a. [(''addr'', ra_addr a), (''username'', ra_username a), (''password'', ra_password a)])
       (filter (\<lambda>a. ra_addr a \<noteq> '''') auths)"

definition registry_auths_payload :: "str_map list \<Rightarrow> payload" where
  "registry_auths_payload auths = (if auths \<noteq> [] then [(''registry_auths'', PMaps auths)] else [])"

text \<open>\<open>resolveFixedDeployNode\<close>, and the picker when it returns no node.\<close>

definition choose_node :: "project \<Rightarrow> node store \<Rightarrow> node store" where
  "choose_node project picker = attempt (resolveFixedDeployNode project) (\<lambda>fixed.
     case fixed of Some n \<Rightarrow> ok n | None \<Rightarrow> picker)"

definition dispatchComposeDeploy :: "sched_cfg \<Rightarrow> deployment \<Rightarrow> project \<Rightarrow> unit store" where
  "dispatchComposeDeploy cfg deployment project =
     (if p_git_source project \<noteq> GS_Hosted \<and> p_git_url project = '''' then fail ''compose project has no git_url''
      else if p_expose_service project = '''' \<or> p_expose_port project = 0
      then fail ''compose project must declare expose_service and expose_port''
      else attempt (choose_node project (pickOrReusePinnedNode cfg project)) (\<lambda>deployNode.
        attempt (SetDeploymentNode (d_id deployment) (n_id deployNode)) (\<lambda>_. do {
        cred \<leftarrow> or_zero ('''', '''', '''') (GetProjectGitCredential cfg (p_id project));
        envVars \<leftarrow> projectRuntimeEnv cfg (p_id project);
        ownerAuths \<leftarrow> or_zero [] (GetUserRegistrySecretsDecrypted cfg (p_owner project));
        let (gitURL, gitBranch, gitUsername, gitToken, gitSSHKey) = git_payload cfg project cred;
        attempt (CreateTask TT_Deploy (Some (n_id deployNode)) (d_id deployment)
          ([(''mode'', PStr ''compose''), (''deployment_id'', PStr (d_id deployment)),
            (''project_id'', PStr (p_id project)), (''domain_prefix'', PStr (p_domain_prefix project)),
            (''git_url'', PStr gitURL), (''git_branch'', PStr gitBranch),
            (''compose_file_path'', PStr (p_compose_file_path project)),
            (''expose_service'', PStr (p_expose_service project)),
            (''expose_port'', PInt (p_expose_port project)),
            (''memory_limit'', PStr (p_memory_limit project)), (''env_vars'', PMap envVars)]
           @ fixed_port_payload project
           @ credential_payload gitUsername gitToken gitSSHKey
           @ registry_auths_payload (buildRegistryAuthsPayload ownerAuths))) (\<lambda>_. ok ()) })))"

definition buildInlineComposeYAML :: "string \<Rightarrow> string" where
  "buildInlineComposeYAML imageRef =
     ''services:\<newline>'' @ ''  app:\<newline>'' @ ''    image: '' @ imageRef @ ''\<newline>''
     @ ''    restart: unless-stopped\<newline>'' @ ''    env_file:\<newline>'' @ ''      - .env\<newline>''"

definition buildImageDeployPayload :: "deployment \<Rightarrow> project \<Rightarrow> str_map \<Rightarrow> str_map list \<Rightarrow> payload" where
  "buildImageDeployPayload deployment project envVars auths =
     [(''mode'', PStr ''compose''), (''deployment_id'', PStr (d_id deployment)),
      (''project_id'', PStr (p_id project)), (''domain_prefix'', PStr (p_domain_prefix project)),
      (''inline_compose_yaml'', PStr (buildInlineComposeYAML (p_image_ref project))),
      (''expose_service'', PStr ''app''), (''expose_port'', PInt (p_container_port project)),
      (''volume_mount_path'', PStr (p_volume_mount_path project)),
      (''memory_limit'', PStr (p_memory_limit project)), (''env_vars'', PMap envVars)]
     @ fixed_port_payload project @ registry_auths_payload auths"

definition dispatchImageDeploy :: "sched_cfg \<Rightarrow> deployment \<Rightarrow> project \<Rightarrow> unit store" where
  "dispatchImageDeploy cfg deployment project =
     (if p_image_ref project = '''' then fail ''image project has no image_ref''
      else if p_container_port project \<le> 0 then fail ''image project has no container_port''
      else attempt (choose_node project (pickOrReusePinnedNode cfg project)) (\<lambda>deployNode.
        attempt (SetDeploymentNode (d_id deployment) (n_id deployNode)) (\<lambda>_. do {
        envVars \<leftarrow> projectRuntimeEnv cfg (p_id project);
        ownerAuths \<leftarrow> or_zero [] (GetUserRegistrySecretsDecrypted cfg (p_owner project));
        attempt (CreateTask TT_Deploy (Some (n_id deployNode)) (d_id deployment)
          (buildImageDeployPayload deployment project envVars (buildRegistryAuthsPayload ownerAuths)))
          (\<lambda>_. ok ()) })))"

text \<open>The loop that builds the mount list skips a dataset that cannot be read.\<close>

fun mount_list :: "project_dataset list \<Rightarrow> (db, (dataset \<times> mount_mode) list) state" where
  "mount_list [] = State_Monad.return []"
| "mount_list (pd # pds) = do {
     r \<leftarrow> GetDataset (pd_dataset pd);
     rest \<leftarrow> mount_list pds;
     State_Monad.return (case r of Inr (Some ds) \<Rightarrow> (ds, pd_mode pd) # rest | _ \<Rightarrow> rest) }"

definition DispatchDeploy :: "sched_cfg \<Rightarrow> deployment \<Rightarrow> project \<Rightarrow> string \<Rightarrow> unit store" where
  "DispatchDeploy cfg deployment project imageTag =
     (if p_type project = PT_DomainOnly then fail ''cannot dispatch deploy for domain_only project''
      else if p_type project = PT_Compose then dispatchComposeDeploy cfg deployment project
      else if p_type project = PT_Image then dispatchImageDeploy cfg deployment project
      else attempt (GetProjectDatasets (p_id project)) (\<lambda>pds.
        let depDatasetIDs = map pd_dataset (filter (\<lambda>pd. pd_mode pd = MountDependency) pds) in
        attempt (choose_node project (PickDeployNode cfg depDatasetIDs)) (\<lambda>deployNode.
        attempt (SetDeploymentNode (d_id deployment) (n_id deployNode)) (\<lambda>_. do {
        mounts \<leftarrow> mount_list pds;
        envVars \<leftarrow> projectRuntimeEnv cfg (p_id project);
        attempt (CreateTask TT_Deploy (Some (n_id deployNode)) (d_id deployment)
          ([(''image_tag'', PStr imageTag), (''deployment_id'', PStr (d_id deployment)),
            (''project_id'', PStr (p_id project)), (''domain_prefix'', PStr (p_domain_prefix project)),
            (''auth_required'', PBool (p_auth_required project)),
            (''auth_domains'', PStr (p_auth_allowed_domains project)),
            (''container_port'', PInt (p_container_port project)),
            (''memory_limit'', PStr (p_memory_limit project)),
            (''volume_mount_path'', PStr (p_volume_mount_path project)),
            (''datasets'', PDatasets mounts), (''env_vars'', PMap envVars)]
           @ fixed_port_payload project)) (\<lambda>_. ok ()) }))))"

section \<open>What a dispatch leaves alone\<close>

text \<open>
  Up to the task it creates, a dispatch writes only the deployment's node, the project's pin and the
  cached datasets of the node it picked: tasks, nodes, variables and the clock are as before.
\<close>

record frame =
  fr_now :: time
  fr_tasks :: "task list"
  fr_nodes :: "node list"
  fr_env :: "env_var list"

definition frame_of :: "db \<Rightarrow> frame" where
  "frame_of s = \<lparr>fr_now = db_now s, fr_tasks = tasks s, fr_nodes = nodes s, fr_env = env_vars s\<rparr>"

lemma frame_of_iff:
  "frame_of s = fr \<longleftrightarrow> db_now s = fr_now fr \<and> tasks s = fr_tasks fr \<and> nodes s = fr_nodes fr \<and> env_vars s = fr_env fr"
  by (cases fr) (auto simp: frame_of_def)

interpretation frames: store_predicate "\<lambda>s. frame_of s = fr" for fr
  by unfold_locales (simp_all add: frame_of_def)

lemma reads_only_or_zero [reads_intros]: "reads_only m \<Longrightarrow> reads_only (or_zero z m)"
  unfolding or_zero_def by (intro reads_intros)

lemma reads_only_secrets [reads_intros]:
  "reads_only (GetProjectEnvDecrypted cfg pid)" "reads_only (GetUserRegistrySecretsDecrypted cfg u)"
  "reads_only (projectRuntimeEnv cfg pid)" "reads_only (GetProjectGitCredential cfg pid)"
  unfolding GetProjectEnvDecrypted_def GetUserRegistrySecretsDecrypted_def projectRuntimeEnv_def
    GetProjectGitCredential_def
  by (intro reads_intros; auto split: option.splits)+

lemma reads_only_mount_list [reads_intros]: "reads_only (mount_list pds)"
  by (induction pds) (auto intro!: reads_intros)

lemma reads_only_nodes [reads_intros]:
  "reads_only PickBuilderNode" "reads_only (resolveFixedDeployNode project)"
  unfolding PickBuilderNode_def resolveFixedDeployNode_def by (intro reads_intros)+

lemma framed_make_room: "keeps (\<lambda>s. frame_of s = fr) (make_room best)"
  unfolding make_room_def Let_def RemoveNodeDataset_def
  by (intro keeps_intros frames.keeps_exec frames.keeps_reads_only reads_intros) (simp add: frame_of_def)

lemma framed_PickDeployNode: "keeps (\<lambda>s. frame_of s = fr) (PickDeployNode cfg ids)"
  unfolding PickDeployNode_def Let_def
  by (intro keeps_intros framed_make_room; intro frames.keeps_reads_only reads_intros)

lemma framed_pickOrReusePinnedNode: "keeps (\<lambda>s. frame_of s = fr) (pickOrReusePinnedNode cfg project)"
  unfolding pickOrReusePinnedNode_def SetProjectPinnedNode_def
  by (intro keeps_intros framed_PickDeployNode frames.keeps_sql; (intro frames.keeps_reads_only reads_intros)?)
    (auto simp: frame_of_def update_projects_def split: if_splits)

lemma framed_SetDeploymentNode: "keeps (\<lambda>s. frame_of s = fr) (SetDeploymentNode i n)"
  unfolding SetDeploymentNode_def
  by (intro frames.keeps_sql) (auto simp: frame_of_def update_deployments_def split: if_splits)

text \<open>\<open>CreateTask\<close>, whatever fails: on success one new pending task on an existing node.\<close>

lemma CreateTask_InrE:
  assumes "run_state (CreateTask ty n dep pl) s = (Inr t, s')"
  shows "tasks s' = tasks s @ [t] \<and> t_type t = ty \<and> t_node t = n \<and> t_deployment t = dep
    \<and> t_payload t = pl \<and> t_status t = TS_Pending \<and> deployments s' = deployments s \<and> nodes s' = nodes s
    \<and> db_now s' = db_now s"
  using assms by (auto simp: CreateTask_def Let_def run_sql split: option.splits if_splits)

lemma CreateTask_InlE:
  assumes "run_state (CreateTask ty n dep pl) s = (Inl e, s')"
  shows "tasks s' = tasks s"
  using assms by (auto simp: CreateTask_def Let_def run_sql split: option.splits if_splits)

section \<open>What a dispatch does\<close>

text \<open>A node of the frame that has been heard from in the last two minutes.\<close>

definition heard :: "frame \<Rightarrow> node \<Rightarrow> bool" where
  "heard fr n \<longleftrightarrow> n \<in> set (fr_nodes fr) \<and> fr_now fr - n_last_seen n \<le> minutes 2"

definition chooses :: "frame \<Rightarrow> go_error + node \<Rightarrow> db \<Rightarrow> bool" where
  "chooses fr r s \<longleftrightarrow> frame_of s = fr \<and> (case r of Inl _ \<Rightarrow> True | Inr n \<Rightarrow> heard fr n)"

lemma choosesI: "frame_of s = fr \<Longrightarrow> (\<And>n. r = Inr n \<Longrightarrow> heard fr n) \<Longrightarrow> chooses fr r s"
  by (auto simp: chooses_def split: sum.splits)

lemma PickDeployNode_chooses:
  assumes "sorts_by_score (sort_scores cfg)"
  shows "valid (\<lambda>s. frame_of s = fr) (PickDeployNode cfg ids) (chooses fr)"
proof (rule validI, rule choosesI)
  fix s r s' assume fr: "frame_of s = fr" and run: "run_state (PickDeployNode cfg ids) s = (r, s')"
  show "frame_of s' = fr" using framed_PickDeployNode fr run by (rule keepsE)
  show "heard fr n" if "r = Inr n" for n
    using PickDeployNode_is_active [OF assms, of ids s n s'] run that fr
    by (auto simp: heard_def frame_of_iff)
qed

lemma GetNode_in_frame:
  "valid (\<lambda>s. frame_of s = fr) (GetNode i) (\<lambda>r s. frame_of s = fr
     \<and> (\<forall>n. r = Inr (Some n) \<longrightarrow> n \<in> set (fr_nodes fr)))"
  by (rule validI) (auto simp: GetNode_def run_query frame_of_iff node_by_def dest: find_Some_mem
      split: option.splits)

lemma get_wrapped_node:
  "valid (\<lambda>s. frame_of s = fr) (wrap_err p (GetNode i)) (\<lambda>r s. frame_of s = fr
     \<and> (\<forall>n. r = Inr (Some n) \<longrightarrow> n \<in> set (fr_nodes fr)))"
  by (rule valid_wrap_err, rule valid_weaken [OF GetNode_in_frame]) (auto split: sum.splits)

lemma pickOrReusePinnedNode_chooses:
  assumes "sorts_by_score (sort_scores cfg)"
  shows "valid (\<lambda>s. frame_of s = fr) (pickOrReusePinnedNode cfg project) (chooses fr)"
proof (cases "p_pinned_node project")
  case None
  have pin: "valid (\<lambda>s. frame_of s = fr \<and> heard fr n)
      (attempt (wrap_err ''pin project to node: '' (SetProjectPinnedNode (p_id project) (n_id n))) (\<lambda>_. ok n))
      (chooses fr)" for n
    unfolding SetProjectPinnedNode_def
    by (rule validI) (auto simp: run_sql chooses_def frame_of_iff update_projects_def
        split: option.splits if_splits sum.splits)
  show ?thesis
    unfolding pickOrReusePinnedNode_def None option.case
  proof (rule valid_attempt [OF PickDeployNode_chooses [OF assms]])
    fix e s assume "chooses fr (Inl e) s"
    then show "chooses fr (Inl e) s" .
  next
    fix n
    show "valid (chooses fr (Inr n))
        (attempt (wrap_err ''pin project to node: '' (SetProjectPinnedNode (p_id project) (n_id n))) (\<lambda>_. ok n))
        (chooses fr)"
      by (rule valid_weaken [OF pin]) (auto simp: chooses_def)
  qed
next
  case (Some i)
  show ?thesis
    unfolding pickOrReusePinnedNode_def Some option.case
  proof (rule valid_attempt [OF get_wrapped_node], goal_cases)
    case (2 x)
    then show ?case
      by (intro validI) (auto simp: chooses_def heard_def frame_of_iff split: option.splits if_splits)
  qed (simp add: chooses_def)
qed

lemma choose_node_chooses:
  assumes "valid (\<lambda>s. frame_of s = fr) picker (chooses fr)"
  shows "valid (\<lambda>s. frame_of s = fr) (choose_node project picker) (chooses fr)"
proof -
  have fixed: "valid (\<lambda>s. frame_of s = fr) (resolveFixedDeployNode project)
      (\<lambda>r s. frame_of s = fr \<and> (\<forall>n. r = Inr (Some n) \<longrightarrow> heard fr n))"
  proof (cases "p_fixed_node project")
    case None
    then show ?thesis by (auto simp: resolveFixedDeployNode_def intro!: valid_ok)
  next
    case (Some i)
    show ?thesis
      unfolding resolveFixedDeployNode_def Some option.case
    proof (rule valid_attempt [OF get_wrapped_node], goal_cases)
      case (2 x)
      then show ?case
        by (intro validI) (auto simp: heard_def frame_of_iff split: option.splits if_splits)
    qed simp
  qed
  show ?thesis
    unfolding choose_node_def
  proof (rule valid_attempt [OF fixed])
    fix x
    show "valid (\<lambda>s. frame_of s = fr \<and> (\<forall>n. (Inr x :: go_error + node option) = Inr (Some n) \<longrightarrow> heard fr n))
        (case x of None \<Rightarrow> picker | Some n \<Rightarrow> ok n) (chooses fr)"
      by (cases x) (auto simp: chooses_def intro!: valid_ok valid_weaken [OF assms])
  qed (auto simp: chooses_def)
qed

text \<open>The deployment is bound to the node its task will run on.\<close>

definition bound :: "uuid \<Rightarrow> uuid \<Rightarrow> db \<Rightarrow> bool" where
  "bound dep n s \<longleftrightarrow> (\<forall>d \<in> set (deployments s). d_id d = dep \<longrightarrow> d_node d = Some n)"

interpretation bounds: store_predicate "\<lambda>s. frame_of s = fr \<and> bound dep n s" for fr dep n
  by unfold_locales (simp_all add: frame_of_def bound_def)

text \<open>Which variables may stand in a payload: those of the project with the right mark.\<close>

definition vars_from :: "sched_cfg \<Rightarrow> frame \<Rightarrow> uuid \<Rightarrow> (env_var \<Rightarrow> bool) \<Rightarrow> str_map \<Rightarrow> bool" where
  "vars_from cfg fr pid mark m \<longleftrightarrow> (\<forall>k v. map_of m k = Some v \<longrightarrow>
     (\<exists>e \<in> set (fr_env fr). ev_project e = pid \<and> ev_key e = k \<and> mark e \<and> decrypt cfg (ev_enc e) = Inr v))"

definition deploy_payload_ok :: "sched_cfg \<Rightarrow> frame \<Rightarrow> uuid \<Rightarrow> payload \<Rightarrow> bool" where
  "deploy_payload_ok cfg fr pid pl \<longleftrightarrow> map_of pl ''build_secrets'' = None \<and>
     (\<forall>m. map_of pl ''env_vars'' = Some (PMap m) \<longrightarrow> vars_from cfg fr pid ev_runtime m)"

definition build_payload_ok :: "sched_cfg \<Rightarrow> frame \<Rightarrow> uuid \<Rightarrow> payload \<Rightarrow> bool" where
  "build_payload_ok cfg fr pid pl \<longleftrightarrow> map_of pl ''env_vars'' = None \<and>
     (\<forall>m. map_of pl ''build_secrets'' = Some (PMap m) \<longrightarrow> vars_from cfg fr pid ev_build m)"

text \<open>
  The contract of a dispatch of \<open>dep\<close>: an error leaves the tasks as they were; success appends one
  pending task on a node heard from, to which the deployment is bound, with a payload that is \<open>Pl\<close>.
\<close>

definition dispatches :: "task_type \<Rightarrow> (payload \<Rightarrow> bool) \<Rightarrow> uuid \<Rightarrow> frame \<Rightarrow> go_error + unit \<Rightarrow> db \<Rightarrow> bool" where
  "dispatches ty Pl dep fr r s \<longleftrightarrow> (case r of
       Inl _ \<Rightarrow> tasks s = fr_tasks fr
     | Inr _ \<Rightarrow> (\<exists>t n. tasks s = fr_tasks fr @ [t] \<and> t_type t = ty \<and> t_status t = TS_Pending
         \<and> t_deployment t = dep \<and> t_node t = Some (n_id n) \<and> heard fr n \<and> Pl (t_payload t)
         \<and> (ty = TT_Deploy \<longrightarrow> bound dep (n_id n) s)))"

lemma dispatches_Inl: "frame_of s = fr \<Longrightarrow> dispatches ty Pl dep fr (Inl e) s"
  by (simp add: dispatches_def frame_of_iff)

lemma create_dispatches:
  assumes "heard fr n" and "Pl pl"
    and "\<And>s. P s \<Longrightarrow> frame_of s = fr \<and> (ty = TT_Deploy \<longrightarrow> bound dep (n_id n) s)"
  shows "valid P (attempt (CreateTask ty (Some (n_id n)) dep pl) (\<lambda>_. ok ())) (dispatches ty Pl dep fr)"
proof (rule validI)
  fix s r s'
  assume P: "P s" and run: "run_state (attempt (CreateTask ty (Some (n_id n)) dep pl) (\<lambda>_. ok ())) s = (r, s')"
  show "dispatches ty Pl dep fr r s'"
  proof (cases r)
    case (Inl e)
    with run have "tasks s' = tasks s" by (auto dest: CreateTask_InlE split: prod.splits sum.splits)
    then show ?thesis using assms(3) [OF P] Inl by (simp add: dispatches_def frame_of_iff)
  next
    case (Inr u)
    with run obtain t where "run_state (CreateTask ty (Some (n_id n)) dep pl) s = (Inr t, s')"
      by (auto split: prod.splits sum.splits)
    from CreateTask_InrE [OF this] show ?thesis
      using assms(1,2) assms(3) [OF P] Inr by (auto simp: dispatches_def frame_of_iff bound_def)
  qed
qed

lemma SetDeploymentNode_binds:
  "valid (\<lambda>s. frame_of s = fr) (SetDeploymentNode dep n)
     (\<lambda>r s. frame_of s = fr \<and> (r = Inr () \<longrightarrow> bound dep n s))"
proof (rule validI)
  fix s r s' assume fr: "frame_of s = fr" and run: "run_state (SetDeploymentNode dep n) s = (r, s')"
  have "frame_of s' = fr" using framed_SetDeploymentNode fr run by (rule keepsE)
  moreover have "bound dep n s'" if "r = Inr ()"
  proof -
    from run that have "s' = update_deployments (\<lambda>d. d_id d = dep) (\<lambda>d. d\<lparr>d_node := Some n\<rparr>) (popped s)"
      by (simp add: SetDeploymentNode_def run_sql split: option.splits if_splits sum.splits prod.splits)
    then have "deployments s' = upd_where (\<lambda>d. d_id d = dep)
        (\<lambda>d. d\<lparr>d_node := Some n, d_updated := db_now s\<rparr>) (deployments s)" by simp
    then show ?thesis by (simp add: bound_def upd_where_def ball_Un)
  qed
  ultimately show "frame_of s' = fr \<and> (r = Inr () \<longrightarrow> bound dep n s')" by blast
qed

text \<open>The shape the three deploy dispatchers share: choose, bind, collect, create.\<close>

lemma deploy_dispatches:
  assumes "valid (\<lambda>s. frame_of s = fr) picker (chooses fr)"
    and "\<And>n. heard fr n \<Longrightarrow> valid (\<lambda>s. frame_of s = fr \<and> bound dep (n_id n) s) (rest n) (dispatches TT_Deploy Pl dep fr)"
  shows "valid (\<lambda>s. frame_of s = fr)
    (attempt (choose_node project picker) (\<lambda>n. attempt (SetDeploymentNode dep (n_id n)) (\<lambda>_. rest n)))
    (dispatches TT_Deploy Pl dep fr)"
proof (rule valid_attempt [OF choose_node_chooses [OF assms(1)]])
  fix n
  show "valid (chooses fr (Inr n)) (attempt (SetDeploymentNode dep (n_id n)) (\<lambda>_. rest n)) (dispatches TT_Deploy Pl dep fr)"
  proof (rule valid_assume [of _ "heard fr n"])
    assume h: "heard fr n"
    have "valid (\<lambda>s. frame_of s = fr) (attempt (SetDeploymentNode dep (n_id n)) (\<lambda>_. rest n)) (dispatches TT_Deploy Pl dep fr)"
      by (rule valid_attempt [OF SetDeploymentNode_binds])
        (auto intro: dispatches_Inl valid_weaken [OF assms(2) [OF h]])
    then show "valid (chooses fr (Inr n)) (attempt (SetDeploymentNode dep (n_id n)) (\<lambda>_. rest n)) (dispatches TT_Deploy Pl dep fr)"
      by (rule valid_weaken) (auto simp: chooses_def)
  qed (simp add: chooses_def)
qed (auto simp: chooses_def intro: dispatches_Inl)

lemma read_then:
  "reads_only m \<Longrightarrow> (\<And>x. valid (\<lambda>s. frame_of s = fr \<and> bound dep n s) (f x) Q) \<Longrightarrow>
   valid (\<lambda>s. frame_of s = fr \<and> bound dep n s) (State_Monad.bind m f) Q"
  by (rule valid_bind_keeps [OF bounds.keeps_reads_only])

lemma case_split_valid:
  "(\<And>a b c d e. valid P (f a b c d e) Q) \<Longrightarrow> valid P (case v of (a, b, c, d, e) \<Rightarrow> f a b c d e) Q"
  by (simp split: prod.splits)

lemma let_split_valid: "(\<And>a b c d e. valid P (f a b c d e) Q) \<Longrightarrow> valid P (let (a, b, c, d, e) = v in f a b c d e) Q"
  by (simp split: prod.splits)

text \<open>What the loops over the decrypted variables collect.\<close>

lemma map_of_map_put: "map_of (map_put k v m) = (map_of m)(k \<mapsto> v)"
  by (induction m rule: map_put.induct) auto

lemma map_of_runtime_env:
  "map_of (runtime_env vs m) k = Some v \<Longrightarrow>
   map_of m k = Some v \<or> (\<exists>d \<in> set vs. de_runtime d \<and> de_key d = k \<and> de_value d = v)"
  by (induction vs m rule: runtime_env.induct) (auto simp: map_of_map_put split: if_splits)

lemma map_of_build_secrets:
  "map_of (build_secrets vs m) k = Some v \<Longrightarrow>
   map_of m k = Some v \<or> (\<exists>d \<in> set vs. de_build d \<and> de_key d = k \<and> de_value d = v)"
  by (induction vs m rule: build_secrets.induct) (auto simp: map_of_map_put split: if_splits)

definition decrypts :: "(string \<Rightarrow> go_error + string) \<Rightarrow> decrypted_env \<Rightarrow> env_var \<Rightarrow> bool" where
  "decrypts dec d e \<longleftrightarrow> ev_key e = de_key d \<and> ev_runtime e = de_runtime d \<and> ev_build e = de_build d
     \<and> dec (ev_enc e) = Inr (de_value d)"

lemma decrypt_env_mem:
  "decrypt_env dec rows = Inr ds \<Longrightarrow> d \<in> set ds \<Longrightarrow> \<exists>e \<in> set rows. decrypts dec d e"
proof (induction rows arbitrary: ds)
  case (Cons v vs)
  from Cons.prems(1) obtain plain rest where plain: "dec (ev_enc v) = Inr plain"
    and rest: "decrypt_env dec vs = Inr rest"
    and ds: "ds = \<lparr>de_key = ev_key v, de_runtime = ev_runtime v, de_build = ev_build v, de_value = plain\<rparr> # rest"
    by (auto split: sum.splits)
  show ?case
  proof (cases "d \<in> set rest")
    case True
    then show ?thesis using Cons.IH [OF rest] by auto
  next
    case False
    then show ?thesis using Cons.prems(2) ds plain by (auto simp: decrypts_def)
  qed
qed simp

lemma env_rows:
  "valid (\<lambda>s. frame_of s = fr) (or_zero [] (GetProjectEnvDecrypted cfg pid))
     (\<lambda>vars s. frame_of s = fr \<and> (\<forall>d \<in> set vars. \<exists>e \<in> set (fr_env fr). ev_project e = pid
        \<and> decrypts (decrypt cfg) d e))"
proof (rule validI, rule conjI)
  fix s vars s'
  assume fr: "frame_of s = fr" and run: "run_state (or_zero [] (GetProjectEnvDecrypted cfg pid)) s = (vars, s')"
  have "keeps (\<lambda>s. frame_of s = fr) (or_zero [] (GetProjectEnvDecrypted cfg pid))"
    by (intro frames.keeps_reads_only reads_intros)
  then show "frame_of s' = fr" using fr run by (rule keepsE)
  have "vars = [] \<or> decrypt_env (decrypt cfg) (filter (\<lambda>v. ev_project v = pid) (env_vars s)) = Inr vars"
    using run by (auto simp: GetProjectEnvDecrypted_def run_query split: if_splits option.splits sum.splits prod.splits)
  then show "\<forall>d \<in> set vars. \<exists>e \<in> set (fr_env fr). ev_project e = pid \<and> decrypts (decrypt cfg) d e"
    using fr by (auto simp: frame_of_iff dest!: decrypt_env_mem)
qed

lemma runtime_env_from:
  "valid (\<lambda>s. frame_of s = fr) (projectRuntimeEnv cfg pid)
     (\<lambda>m s. frame_of s = fr \<and> vars_from cfg fr pid ev_runtime m)"
  unfolding projectRuntimeEnv_def
  by (rule valid_bind [OF env_rows], rule valid_return)
    (fastforce simp: vars_from_def decrypts_def dest!: map_of_runtime_env)

lemma valid_conj_keeps:
  "valid P m Q \<Longrightarrow> keeps I m \<Longrightarrow> valid (\<lambda>s. P s \<and> I s) m (\<lambda>r s. Q r s \<and> I s)"
  by (auto simp: valid_def dest: keepsE)

interpretation bound_only: store_predicate "bound dep n" for dep n
  by unfold_locales (simp_all add: bound_def)

lemma env_then:
  assumes "\<And>m. vars_from cfg fr pid ev_runtime m \<Longrightarrow> valid (\<lambda>s. frame_of s = fr \<and> bound dep n s) (f m) Q"
  shows "valid (\<lambda>s. frame_of s = fr \<and> bound dep n s) (State_Monad.bind (projectRuntimeEnv cfg pid) f) Q"
proof (rule valid_bind)
  show "valid (\<lambda>s. frame_of s = fr \<and> bound dep n s) (projectRuntimeEnv cfg pid)
      (\<lambda>m s. (frame_of s = fr \<and> vars_from cfg fr pid ev_runtime m) \<and> bound dep n s)"
    by (intro valid_conj_keeps runtime_env_from bound_only.keeps_reads_only reads_intros)
  show "valid (\<lambda>s. (frame_of s = fr \<and> vars_from cfg fr pid ev_runtime m) \<and> bound dep n s) (f m) Q" for m
    using assms [of m] by (auto simp: valid_def)
qed

lemmas payload_defs = deploy_payload_ok_def build_payload_ok_def fixed_port_payload_def
  credential_payload_def registry_auths_payload_def buildImageDeployPayload_def

lemma deploy_payloadI:
  "vars_from cfg fr pid ev_runtime m \<Longrightarrow> map_of pl ''build_secrets'' = None \<Longrightarrow>
   map_of pl ''env_vars'' = Some (PMap m) \<Longrightarrow> deploy_payload_ok cfg fr pid pl"
  by (simp add: deploy_payload_ok_def)

lemma DispatchDeploy_dispatches:
  assumes "sorts_by_score (sort_scores cfg)"
  shows "valid (\<lambda>s. frame_of s = fr) (DispatchDeploy cfg d project img)
    (dispatches TT_Deploy (deploy_payload_ok cfg fr (p_id project)) (d_id d) fr)"
proof -
  let ?Q = "dispatches TT_Deploy (deploy_payload_ok cfg fr (p_id project)) (d_id d) fr"
  have compose: "valid (\<lambda>s. frame_of s = fr) (dispatchComposeDeploy cfg d project) ?Q"
    unfolding dispatchComposeDeploy_def
    by (intro valid_if valid_fail deploy_dispatches pickOrReusePinnedNode_chooses assms env_then read_then
        reads_intros let_split_valid create_dispatches deploy_payloadI)
      (auto intro: dispatches_Inl simp: payload_defs map_add_def split: option.splits)
  have image: "valid (\<lambda>s. frame_of s = fr) (dispatchImageDeploy cfg d project) ?Q"
    unfolding dispatchImageDeploy_def
    by (intro valid_if valid_fail deploy_dispatches pickOrReusePinnedNode_chooses assms env_then read_then
        reads_intros create_dispatches deploy_payloadI)
      (auto intro: dispatches_Inl simp: payload_defs map_add_def split: option.splits)
  have pds: "keeps (\<lambda>s. frame_of s = fr) (GetProjectDatasets i)" for i
    by (intro frames.keeps_reads_only reads_intros)
  show ?thesis
    unfolding DispatchDeploy_def Let_def
    by (intro valid_if valid_fail compose image valid_attempt_keeps [OF pds] deploy_dispatches
        PickDeployNode_chooses assms env_then read_then reads_intros create_dispatches deploy_payloadI)
      (auto intro: dispatches_Inl simp: payload_defs map_add_def split: option.splits)
qed

lemma PickBuilderNode_heard:
  "valid (\<lambda>s. frame_of s = fr) PickBuilderNode
     (\<lambda>r s. frame_of s = fr \<and> (\<forall>n. r = Inr n \<longrightarrow> heard fr n \<and> n_role n = RoleBuilder))"
proof (rule validI, intro conjI allI impI)
  fix s r s' assume fr: "frame_of s = fr" and run: "run_state PickBuilderNode s = (r, s')"
  have "keeps (\<lambda>s. frame_of s = fr) PickBuilderNode"
    by (intro frames.keeps_reads_only reads_intros)
  then show "frame_of s' = fr" using fr run by (rule keepsE)
  fix n assume "r = Inr n"
  with run have "find (\<lambda>n. n_role n = RoleBuilder \<and> online (db_now s) n) (sort_key n_created (nodes s)) = Some n"
    by (auto simp: PickBuilderNode_def ListNodes_def run_query split: option.splits)
  from find_Some_mem [OF this] show "heard fr n" and "n_role n = RoleBuilder"
    using fr by (auto simp: heard_def frame_of_iff online_def)
qed

lemma build_payloadI:
  "vars_from cfg fr pid ev_build (build_secrets vars []) \<Longrightarrow> map_of pl ''env_vars'' = None \<Longrightarrow>
   map_of pl ''build_secrets'' \<in> {None, Some (PMap (build_secrets vars []))} \<Longrightarrow> build_payload_ok cfg fr pid pl"
  by (auto simp: build_payload_ok_def)

lemma frame_read_then:
  "reads_only m \<Longrightarrow> (\<And>x. valid (\<lambda>s. frame_of s = fr) (f x) Q) \<Longrightarrow>
   valid (\<lambda>s. frame_of s = fr) (State_Monad.bind m f) Q"
  by (rule valid_bind_keeps [OF frames.keeps_reads_only])

lemma build_env_then:
  assumes "\<And>vars. vars_from cfg fr pid ev_build (build_secrets vars []) \<Longrightarrow> valid (\<lambda>s. frame_of s = fr) (f vars) Q"
  shows "valid (\<lambda>s. frame_of s = fr) (State_Monad.bind (or_zero [] (GetProjectEnvDecrypted cfg pid)) f) Q"
proof (rule valid_bind [OF env_rows])
  fix vars
  let ?P = "\<lambda>s. frame_of s = fr \<and> (\<forall>d \<in> set vars. \<exists>e \<in> set (fr_env fr). ev_project e = pid
     \<and> decrypts (decrypt cfg) d e)"
  show "valid ?P (f vars) Q"
  proof (rule valid_assume)
    fix s assume "?P s"
    then show "vars_from cfg fr pid ev_build (build_secrets vars [])"
      by (fastforce simp: vars_from_def decrypts_def dest!: map_of_build_secrets)
  next
    assume "vars_from cfg fr pid ev_build (build_secrets vars [])"
    from assms [OF this] show "valid ?P (f vars) Q" by (rule valid_weaken) auto
  qed
qed

lemma DispatchBuild_dispatches:
  "valid (\<lambda>s. frame_of s = fr) (DispatchBuild cfg d project)
    (dispatches TT_Build (build_payload_ok cfg fr (p_id project)) (d_id d) fr)"
proof -
  let ?Q = "dispatches TT_Build (build_payload_ok cfg fr (p_id project)) (d_id d) fr"
  have create: "valid (\<lambda>s. frame_of s = fr) (attempt (CreateTask TT_Build (Some (n_id n)) (d_id d)
      ([(''git_url'', PStr a), (''git_branch'', PStr b),
        (''dockerfile_path'', PStr (p_dockerfile_path project)),
        (''deployment_id'', PStr (d_id d)), (''project_id'', PStr (p_id project)),
        (''domain_prefix'', PStr (p_domain_prefix project))]
       @ credential_payload x y z
       @ (if build_secrets vars [] \<noteq> [] then [(''build_secrets'', PMap (build_secrets vars []))] else []))) (\<lambda>_. ok ())) ?Q"
    if "heard fr n" "vars_from cfg fr (p_id project) ev_build (build_secrets vars [])" for n a b x y z vars
    using that
    by (intro create_dispatches build_payloadI) (auto simp: credential_payload_def map_add_def)
  show ?thesis
    unfolding DispatchBuild_def Let_def
  proof (intro valid_if valid_fail, goal_cases)
    case 4
    show ?case
    proof (rule valid_attempt [OF PickBuilderNode_heard], goal_cases)
      case (2 n)
      show ?case
      proof (rule valid_assume [of _ "heard fr n"], goal_cases)
        case 2
        show ?case
          by (rule valid_pre [of "\<lambda>s. frame_of s = fr"], intro build_env_then frame_read_then
              reads_intros case_split_valid create [OF 2]) simp_all
      qed auto
    qed (auto intro: dispatches_Inl)
  qed (auto intro: dispatches_Inl)
qed

section \<open>Properties\<close>

text \<open>
  C17: \<open>DispatchDeploy\<close>, for every type of project and whatever statements fail: an error leaves the
  task table as it was; success appends exactly one pending deploy task of this deployment, on a
  registered node heard from in the last two minutes, and the deployment row names that node.
\<close>

theorem DispatchDeploy_creates_task:
  assumes "sorts_by_score (sort_scores cfg)"
    and "run_state (DispatchDeploy cfg d project img) s = (r, s')"
  shows "case r of Inl _ \<Rightarrow> tasks s' = tasks s
    | Inr _ \<Rightarrow> \<exists>t n. tasks s' = tasks s @ [t] \<and> t_type t = TT_Deploy \<and> t_status t = TS_Pending
        \<and> t_deployment t = d_id d \<and> t_node t = Some (n_id n)
        \<and> n \<in> set (nodes s) \<and> db_now s - n_last_seen n \<le> minutes 2
        \<and> (\<forall>x \<in> set (deployments s'). d_id x = d_id d \<longrightarrow> d_node x = Some (n_id n))"
  using validD [OF DispatchDeploy_dispatches [OF assms(1)] refl assms(2)]
  by (auto simp: dispatches_def heard_def bound_def frame_of_def split: sum.splits)


end
