(* ===== verification/Lifecycle.thy ===== *)
theory Lifecycle
  imports Dispatch
begin

text \<open>
  The deployment lifecycle: the entry points of the scheduler (internal/scheduler/scheduler.go), the
  agent endpoints of the control plane (internal/api/server.go) and the background loops of
  cmd/muvee/server.go. One definition per handler. A handler runs at one instant of the database
  clock; an HTTP reply is its status code with the value sent.
\<close>

section \<open>The scheduler's entry points\<close>

definition defaultDeployQueuePolicy :: queue_policy where
  "defaultDeployQueuePolicy = \<lparr>grace = minutes 10, hard_timeout = hours 6\<rparr>"

definition dispatchChain :: "sched_cfg \<Rightarrow> deployment \<Rightarrow> unit store" where
  "dispatchChain cfg dep = attempt (wrap_err ''get project: '' (GetProject (d_project dep))) (\<lambda>r.
     case r of
       None \<Rightarrow> fail (''project '' @ d_project dep @ '' not found'')
     | Some project \<Rightarrow>
         if p_paused project then fail (''project '' @ p_id project @ '' is paused'')
         else if p_type project = PT_Compose \<or> p_type project = PT_Image
         then wrap_err ''dispatch deploy: '' (DispatchDeploy cfg dep project '''')
         else wrap_err ''dispatch build: '' (DispatchBuild cfg dep project))"

text \<open>The result is the dispatched deployment (\<open>None\<close> for \<open>uuid.Nil\<close>) and the error.\<close>

definition sched_AdvanceDeployQueue :: "sched_cfg \<Rightarrow> uuid \<Rightarrow> (db, uuid option \<times> go_error option) state" where
  "sched_AdvanceDeployQueue cfg pid = do {
     adv \<leftarrow> store_AdvanceDeployQueue pid defaultDeployQueuePolicy;
     case adv of
       Inl _ \<Rightarrow> State_Monad.return (None, None)
     | Inr a \<Rightarrow> (case qa_dispatch a of
           None \<Rightarrow> State_Monad.return (None, None)
         | Some dep \<Rightarrow> do {
             r \<leftarrow> dispatchChain cfg dep;
             case r of
               Inl e \<Rightarrow> do {
                 _ \<leftarrow> ignore (UpdateDeploymentStatus (d_id dep) DS_Failed e);
                 State_Monad.return (Some (d_id dep), Some e) }
             | Inr _ \<Rightarrow> State_Monad.return (Some (d_id dep), None) }) }"

definition TriggerDeployment :: "sched_cfg \<Rightarrow> uuid \<Rightarrow> deployment store" where
  "TriggerDeployment cfg pid = attempt (wrap_err ''get project: '' (GetProject pid)) (\<lambda>r.
     case r of
       None \<Rightarrow> fail (''project '' @ pid @ '' not found'')
     | Some project \<Rightarrow>
         if p_type project = PT_DomainOnly then fail ''domain_only projects cannot be deployed''
         else if p_paused project then fail (''project '' @ pid @ '' is paused'')
         else attempt (wrap_err ''create deployment: '' (CreateDeployment pid (Some DS_Queued) '''' '''')) (\<lambda>d. do {
           (dispatched, dispatchErr) \<leftarrow> sched_AdvanceDeployQueue cfg pid;
           case (dispatched = Some (d_id d), dispatchErr) of
             (True, Some e) \<Rightarrow> fail e
           | _ \<Rightarrow> do {
               d' \<leftarrow> GetDeployment (d_id d);
               ok (case d' of Inr (Some x) \<Rightarrow> x | _ \<Rightarrow> d) } }))"

definition AdvanceDeployQueueFor :: "sched_cfg \<Rightarrow> uuid \<Rightarrow> (db, unit) state" where
  "AdvanceDeployQueueFor cfg i = do {
     r \<leftarrow> GetDeployment i;
     case r of
       Inr (Some dep) \<Rightarrow> ignore (sched_AdvanceDeployQueue cfg (d_project dep))
     | _ \<Rightarrow> State_Monad.return () }"

definition SweepDeployQueues :: "sched_cfg \<Rightarrow> (db, unit) state" where
  "SweepDeployQueues cfg = do {
     r \<leftarrow> ListProjectsWithQueuedDeployments;
     case r of
       Inl _ \<Rightarrow> State_Monad.return ()
     | Inr ids \<Rightarrow> for_each ids (\<lambda>i. ignore (sched_AdvanceDeployQueue cfg i)) }"

definition RecoverAgentRestart :: "sched_cfg \<Rightarrow> uuid \<Rightarrow> (db, unit) state" where
  "RecoverAgentRestart cfg n = do {
     r \<leftarrow> FailOrphanedTasksForNode n ''agent restarted; task lost'';
     case r of
       Inl _ \<Rightarrow> State_Monad.return ()
     | Inr ids \<Rightarrow> for_each ids (\<lambda>i. ignore (sched_AdvanceDeployQueue cfg i)) }"

section \<open>Agent endpoints\<close>

datatype reply = Reply_Err nat go_error | Reply_Ok | Reply_Node node | Reply_Tasks "task list"

text \<open>What the server needs beside the scheduler: \<open>uuid.Parse\<close> and the two JSON decodings.\<close>

record server_cfg =
  sched :: sched_cfg
  uuid_Parse :: "string \<Rightarrow> go_error + uuid"
  json_image_tag :: "string \<Rightarrow> string"
  json_strings :: "string \<Rightarrow> go_error + string list"

text \<open>A request body is what \<open>json.Decode\<close> makes of it: an error, or the decoded value.\<close>

definition registerNode :: "server_cfg \<Rightarrow> go_error + node \<Rightarrow> (db, reply) state" where
  "registerNode cfg body = (case body of
       Inl e \<Rightarrow> State_Monad.return (Reply_Err 400 e)
     | Inr n \<Rightarrow> do {
         r \<leftarrow> UpsertNode n;
         case r of
           Inl e \<Rightarrow> State_Monad.return (Reply_Err 500 e)
         | Inr registered \<Rightarrow> do {
             _ \<leftarrow> RecoverAgentRestart (sched cfg) (n_id registered);
             State_Monad.return (Reply_Node registered) } })"

definition pollTasks :: "server_cfg \<Rightarrow> string \<Rightarrow> (db, reply) state" where
  "pollTasks cfg nodeIDStr = (case uuid_Parse cfg nodeIDStr of
       Inl e \<Rightarrow> State_Monad.return (Reply_Err 400 e)
     | Inr nodeID \<Rightarrow> do {
         r \<leftarrow> TouchNode nodeID;
         case r of
           Inl e \<Rightarrow> State_Monad.return (Reply_Err 500 e)
         | Inr _ \<Rightarrow> do {
             ts \<leftarrow> PollTasksForNode nodeID;
             State_Monad.return (case ts of Inl e \<Rightarrow> Reply_Err 500 e | Inr xs \<Rightarrow> Reply_Tasks xs) } })"

record completion =
  c_status :: task_status
  c_result :: string
  c_image_tag :: string
  c_host_port :: int

definition task_type_name :: "task_type \<Rightarrow> string" where
  "task_type_name ty = (case ty of TT_Build \<Rightarrow> ''build'' | TT_Deploy \<Rightarrow> ''deploy'' | TT_Cleanup \<Rightarrow> ''cleanup''
     | TT_RuntimeLogs \<Rightarrow> ''runtime_logs'' | TT_Restart \<Rightarrow> ''restart'' | TT_Env \<Rightarrow> ''env''
     | TT_Describe \<Rightarrow> ''describe'' | TT_Pause \<Rightarrow> ''pause'' | TT_Unpause \<Rightarrow> ''unpause'')"

text \<open>\<open>if dep, derr := GetDeployment(..); derr == nil && dep != nil { Push(..) }\<close>.\<close>

definition push_for :: "uuid \<Rightarrow> event_type \<Rightarrow> severity \<Rightarrow> string \<Rightarrow> (db, unit) state" where
  "push_for i ty sev msg = do {
     r \<leftarrow> GetDeployment i;
     case r of Inr (Some dep) \<Rightarrow> push_event (d_project dep) ty sev msg | _ \<Rightarrow> State_Monad.return () }"

definition found_task :: "uuid \<Rightarrow> (task \<Rightarrow> (db, unit) state) \<Rightarrow> (db, unit) state" where
  "found_task i k = do {
     r \<leftarrow> GetTask i;
     case r of Inr (Some task) \<Rightarrow> k task | _ \<Rightarrow> State_Monad.return () }"

definition on_running :: "task \<Rightarrow> (db, unit) state" where
  "on_running task =
     (if t_type task = TT_Build then do {
        _ \<leftarrow> ignore (UpdateDeploymentStatus (t_deployment task) DS_Building '''');
        push_for (t_deployment task) DeployStarted SevInfo
          (''build started (deployment '' @ t_deployment task @ '')'') }
      else State_Monad.return ())"

definition on_failed :: "sched_cfg \<Rightarrow> string \<Rightarrow> task \<Rightarrow> (db, unit) state" where
  "on_failed cfg result task =
     (let errMsg = (if result = '''' then ''task failed'' else result) in
      if t_type task = TT_Build \<or> t_type task = TT_Deploy then do {
        _ \<leftarrow> ignore (UpdateDeploymentStatus (t_deployment task) DS_Failed errMsg);
        _ \<leftarrow> push_for (t_deployment task) DeployFailed SevError
          (task_type_name (t_type task) @ '' task failed: '' @ errMsg);
        AdvanceDeployQueueFor cfg (t_deployment task) }
      else State_Monad.return ())"

text \<open>Retire the running deployments the new one replaces, and clean up those on another node.\<close>

definition retire_previous :: "task \<Rightarrow> (db, unit) state" where
  "retire_previous task = do {
     r \<leftarrow> GetDeployment (t_deployment task);
     case r of
       Inr (Some dep) \<Rightarrow> do {
         rp \<leftarrow> GetProject (d_project dep);
         case rp of
           Inr (Some project) \<Rightarrow> do {
             stopped \<leftarrow> StopProjectDeployments (d_project dep) (t_deployment task);
             case stopped of
               Inl _ \<Rightarrow> State_Monad.return ()
             | Inr olds \<Rightarrow> for_each olds (\<lambda>old.
                 case (d_node old, t_node task) of
                   (Some n, Some m) \<Rightarrow>
                     if n \<noteq> m then ignore (DispatchCleanup n old (p_domain_prefix project))
                     else State_Monad.return ()
                 | _ \<Rightarrow> State_Monad.return ()) }
         | _ \<Rightarrow> State_Monad.return () }
     | _ \<Rightarrow> State_Monad.return () }"

definition on_completed :: "sched_cfg \<Rightarrow> int \<Rightarrow> task \<Rightarrow> (db, unit) state" where
  "on_completed cfg port task =
     (if t_type task = TT_Deploy then do {
        _ \<leftarrow> (if 0 < port then do {
               _ \<leftarrow> ignore (SetDeploymentHostPort (t_deployment task) port);
               _ \<leftarrow> push_for (t_deployment task) DeployCompleted SevInfo
                 (''deployed on host port '' @ show_int port);
               retire_previous task }
             else do {
               _ \<leftarrow> ignore (UpdateDeploymentStatus (t_deployment task) DS_Failed
                 ''deploy completed but no host_port reported'');
               push_for (t_deployment task) DeployFailed SevError
                 ''deploy completed but no host_port reported'' });
        AdvanceDeployQueueFor cfg (t_deployment task) }
      else State_Monad.return ())"

definition completeTask :: "server_cfg \<Rightarrow> string \<Rightarrow> go_error + completion \<Rightarrow> (db, reply) state" where
  "completeTask cfg idStr body = (case uuid_Parse cfg idStr of
       Inl e \<Rightarrow> State_Monad.return (Reply_Err 400 e)
     | Inr taskID \<Rightarrow> (case body of
         Inl e \<Rightarrow> State_Monad.return (Reply_Err 400 e)
       | Inr c \<Rightarrow> do {
           let result = (if c_image_tag c \<noteq> '''' then RImageTag (c_image_tag c) else RText (c_result c));
           r \<leftarrow> UpdateTaskStatus taskID (c_status c) result;
           case r of
             Inl e \<Rightarrow> State_Monad.return (Reply_Err 500 e)
           | Inr _ \<Rightarrow> do {
               _ \<leftarrow> (if c_status c = TS_Running then found_task taskID on_running
                     else if c_status c = TS_Failed then found_task taskID (on_failed (sched cfg) (c_result c))
                     else if c_status c \<noteq> TS_Completed then State_Monad.return ()
                     else found_task taskID (on_completed (sched cfg) (c_host_port c)));
               State_Monad.return Reply_Ok } }))"

definition api_appendDeploymentLog :: "server_cfg \<Rightarrow> string \<Rightarrow> go_error + string \<Rightarrow> (db, reply) state" where
  "api_appendDeploymentLog cfg idStr body = (case uuid_Parse cfg idStr of
       Inl e \<Rightarrow> State_Monad.return (Reply_Err 400 e)
     | Inr i \<Rightarrow> (case body of
         Inl e \<Rightarrow> State_Monad.return (Reply_Err 400 e)
       | Inr line \<Rightarrow> do {
           r \<leftarrow> AppendDeploymentLog i line;
           State_Monad.return (case r of Inl e \<Rightarrow> Reply_Err 500 e | Inr _ \<Rightarrow> Reply_Ok) }))"

section \<open>Background loops\<close>

text \<open>The body of the loop over the running deployments of a dead node.\<close>

definition evict :: "sched_cfg \<Rightarrow> node \<Rightarrow> deployment \<Rightarrow> (db, unit) state" where
  "evict cfg node dep = do {
     r \<leftarrow> GetProject (d_project dep);
     case r of
       Inr (Some project) \<Rightarrow>
         if p_paused project then State_Monad.return ()
         else if d_image_tag dep = '''' then State_Monad.return ()
         else do {
           _ \<leftarrow> ignore (UpdateDeploymentStatus (d_id dep) DS_Stopped
             (''evicted: node '' @ n_hostname node @ '' ('' @ n_id node @ '') offline''));
           c \<leftarrow> CreateDeployment (d_project dep) None (d_image_tag dep) (d_commit_sha dep);
           case c of
             Inl _ \<Rightarrow> State_Monad.return ()
           | Inr newDep \<Rightarrow> do {
               _ \<leftarrow> ignore (UpdateDeploymentStatus (d_id newDep) DS_Deploying '''');
               x \<leftarrow> DispatchDeploy cfg newDep project (d_image_tag newDep);
               case x of
                 Inl e \<Rightarrow> do {
                   _ \<leftarrow> ignore (UpdateDeploymentStatus (d_id newDep) DS_Failed e);
                   ignore (sched_AdvanceDeployQueue cfg (p_id project)) }
               | Inr _ \<Rightarrow> State_Monad.return () } }
     | _ \<Rightarrow> State_Monad.return () }"

definition checkNodeFailovers :: "sched_cfg \<Rightarrow> time \<Rightarrow> (db, unit) state" where
  "checkNodeFailovers cfg threshold = do {
     r \<leftarrow> ListNodes;
     case r of
       Inl _ \<Rightarrow> State_Monad.return ()
     | Inr ns \<Rightarrow> for_each ns (\<lambda>node.
         if n_role node \<noteq> RoleDeploy then State_Monad.return ()
         else do {
           now \<leftarrow> time_Now;
           if now - n_last_seen node < threshold then State_Monad.return ()
           else do {
             deps \<leftarrow> GetRunningDeploymentsByNode (n_id node);
             case deps of
               Inl _ \<Rightarrow> State_Monad.return ()
             | Inr ds \<Rightarrow> for_each ds (evict cfg node) } }) }"

definition autoTriggerDownstreamRedeploys :: "server_cfg \<Rightarrow> project \<Rightarrow> (db, unit) state" where
  "autoTriggerDownstreamRedeploys cfg project =
     (if p_triggers project = '''' \<or> p_triggers project = ''[]'' then State_Monad.return ()
      else case json_strings cfg (p_triggers project) of
        Inl _ \<Rightarrow> State_Monad.return ()
      | Inr ids \<Rightarrow> for_each ids (\<lambda>idStr. case uuid_Parse cfg idStr of
            Inl _ \<Rightarrow> State_Monad.return ()
          | Inr i \<Rightarrow> ignore (TriggerDeployment (sched cfg) i)))"

text \<open>
  \<open>json.Unmarshal\<close> of a task result into \<open>{image_tag}\<close>: the object the server wrote gives its tag, a
  text gives what the decoder makes of it, and a text with the suffix \<open>_dispatched\<close> is no JSON.
\<close>

definition result_image_tag :: "server_cfg \<Rightarrow> task_result \<Rightarrow> string" where
  "result_image_tag cfg r = (case r of RImageTag tag \<Rightarrow> tag | RText x \<Rightarrow> json_image_tag cfg x | RDispatched _ \<Rightarrow> '''')"

definition completed_builds :: "db \<Rightarrow> task list" where
  "completed_builds s = take 20 (filter (\<lambda>t. t_type t = TT_Build \<and> t_status t = TS_Completed \<and>
     (case deployment_by s (t_deployment t) of None \<Rightarrow> False | Some d \<Rightarrow> d_status d = DS_Building)) (tasks s))"

definition build_completed :: "server_cfg \<Rightarrow> task \<Rightarrow> (db, unit) state" where
  "build_completed cfg row =
     (let tag = result_image_tag cfg (t_result row); dep = t_deployment row;
          mark = ignore (UpdateTaskStatus (t_id row) TS_Completed (RDispatched (t_result row))) in
      if tag = '''' then State_Monad.return () else do {
        rd \<leftarrow> GetDeployment dep;
        case rd of
          Inr (Some d) \<Rightarrow> do {
            rp \<leftarrow> GetProject (d_project d);
            case rp of
              Inr (Some project) \<Rightarrow> do {
                _ \<leftarrow> ignore (SetDeploymentImageTag dep tag);
                if p_type project = PT_Build then do {
                  _ \<leftarrow> ignore (SetProjectLastImageTag (p_id project) tag);
                  _ \<leftarrow> ignore (UpdateDeploymentStatus dep DS_Running '''');
                  _ \<leftarrow> ignore (SetDeploymentHostPort dep 0);
                  _ \<leftarrow> mark;
                  _ \<leftarrow> ignore (sched_AdvanceDeployQueue (sched cfg) (p_id project));
                  autoTriggerDownstreamRedeploys cfg project }
                else do {
                  _ \<leftarrow> ignore (UpdateDeploymentStatus dep DS_Deploying '''');
                  x \<leftarrow> DispatchDeploy (sched cfg) d project tag;
                  case x of
                    Inl e \<Rightarrow> do {
                      _ \<leftarrow> ignore (UpdateDeploymentStatus dep DS_Failed e);
                      _ \<leftarrow> mark;
                      ignore (sched_AdvanceDeployQueue (sched cfg) (p_id project)) }
                  | Inr _ \<Rightarrow> mark } }
            | _ \<Rightarrow> State_Monad.return () }
        | _ \<Rightarrow> State_Monad.return () })"

definition checkBuildCompletions :: "server_cfg \<Rightarrow> (db, unit) state" where
  "checkBuildCompletions cfg = do {
     r \<leftarrow> query completed_builds;
     case r of
       Inl _ \<Rightarrow> State_Monad.return ()
     | Inr rows \<Rightarrow> for_each rows (build_completed cfg) }"

end
