(* ===== verification/Sample.thy ===== *)
theory Sample
  imports Lifecycle
begin

text \<open>
  Concrete rows and databases on which the development's theorems are instantiated and its runs
  evaluated: one project, its deployments, a live node and a dead one.
\<close>

definition sample_project :: project where
  "sample_project = \<lparr>p_id = ''p'', p_name = ''app'', p_type = PT_Deployment, p_git_url = ''u'',
     p_git_branch = ''main'', p_git_source = GS_External, p_domain_prefix = ''app'',
     p_dockerfile_path = ''Dockerfile'', p_owner = ''o'', p_auth_required = False,
     p_auth_allowed_domains = '''', p_auth_bypass_paths = '''', p_container_port = 80,
     p_memory_limit = '''', p_volume_mount_path = '''', p_compose_file_path = '''',
     p_expose_service = '''', p_expose_port = 0, p_pinned_node = None, p_image_ref = '''',
     p_auto_deploy = False, p_paused = False, p_last_image_tag = '''', p_triggers = '''',
     p_last_commit = '''', p_last_digests = '''', p_access_mode = ''private'', p_fixed_port = None,
     p_fixed_node = None, p_tcp_prefix = None, p_tcp_port = None, p_icon = '''', p_enabled_providers = '''', p_sms_login = False,
     p_git_auth = GA_None,
     p_git_auth_user = '''', p_git_auth_enc = '''', p_created = 0, p_updated = 0\<rparr>"

definition sample_deployment :: "uuid \<Rightarrow> deployment_status \<Rightarrow> uuid option \<Rightarrow> time \<Rightarrow> deployment" where
  "sample_deployment i st n now = \<lparr>d_id = i, d_project = ''p'', d_image_tag = ''img'', d_commit_sha = '''',
     d_status = st, d_node = n, d_host_port = 0, d_logs = '''', d_restart_count = 0, d_oom_killed = False,
     d_created = now, d_updated = now\<rparr>"

definition sample_node :: "uuid \<Rightarrow> node_role \<Rightarrow> time \<Rightarrow> node" where
  "sample_node i role seen = \<lparr>n_id = i, n_hostname = i, n_role = role, n_host_ip = ''10.0.0.1'',
     n_max_storage = 1000, n_used_storage = 0, n_last_seen = seen, n_created = 0\<rparr>"

definition sample_task :: "uuid \<Rightarrow> task_type \<Rightarrow> task_status \<Rightarrow> uuid \<Rightarrow> uuid \<Rightarrow> time \<Rightarrow> task" where
  "sample_task i ty st n d now = \<lparr>t_id = i, t_type = ty, t_node = Some n, t_deployment = d, t_payload = [],
     t_status = st, t_result = RText '''', t_created = now, t_updated = now\<rparr>"

definition sample_db :: "time \<Rightarrow> deployment list \<Rightarrow> task list \<Rightarrow> node list \<Rightarrow> db" where
  "sample_db now ds ts ns = \<lparr>db_now = now, db_faults = [], db_uuid = (\<lambda>n. CHR ''#'' # show_nat n), db_next = 0,
     projects = [sample_project], deployments = ds, tasks = ts, nodes = ns, node_datasets = [],
     datasets = [], project_datasets = [], env_vars = [], registry_secrets = [],
     users = [], platform_members = [], oauth_accounts = [], project_members = [], access_users = [], access_requests = [],
     auth_requests = [], invitations = [], invitation_links = [], link_uses = [], aliases = [], visits = [], settings = [], pushed = []\<rparr>"

text \<open>An insertion sort by falling score is an instance of \<open>sort_scores\<close>; arithmetic without rounding.\<close>

definition sample_cfg :: sched_cfg where
  "sample_cfg = \<lparr>agent_secret = ''s'', encryption_on = False, decrypt = (\<lambda>x. Inr x), round64 = (\<lambda>x. x),
     sort_scores = sort_key (\<lambda>x. - ns_score x)\<rparr>"

definition sample_server :: server_cfg where
  "sample_server = \<lparr>sched = sample_cfg, uuid_Parse = (\<lambda>x. Inr x), json_image_tag = (\<lambda>_. ''''),
     json_strings = (\<lambda>_. Inr [])\<rparr>"

lemma sample_sorts: "sorts_by_score (sort_scores sample_cfg)"
  unfolding sorts_by_score_def sample_cfg_def
proof (intro allI conjI)
  fix xs :: "node_score list"
  have "sorted (map (\<lambda>x. - ns_score x) (sort_key (\<lambda>x. - ns_score x) xs))" by (rule sorted_sort_key)
  then show "sorted_wrt (\<lambda>a b. ns_score b \<le> ns_score a)
      (sort_scores \<lparr>agent_secret = ''s'', encryption_on = False, decrypt = Inr, round64 = (\<lambda>x. x),
        sort_scores = sort_key (\<lambda>x. - ns_score x)\<rparr> xs)"
    by (simp add: sorted_wrt_map)
qed simp

text \<open>A dead node runs the live deployment while a newer one builds.\<close>

definition failover_db :: db where
  "failover_db = sample_db (hours 1)
     [sample_deployment ''a'' DS_Running (Some ''dead'') 0, sample_deployment ''b'' DS_Building None (hours 1)]
     [sample_task ''t'' TT_Build TS_Running ''builder'' ''b'' (hours 1)]
     [sample_node ''dead'' RoleDeploy 0, sample_node ''live'' RoleDeploy (hours 1),
      sample_node ''builder'' RoleBuilder (hours 1)]"

end
