(* ===== verification/Handlers_Inv.thy ===== *)
theory Handlers_Inv
  imports Lifecycle
begin

text \<open>
  The contract between the handlers of the lifecycle and a predicate of the database.
  \<open>handler_invariant\<close> states the changes of the tables the handlers are made of, with the status
  changes \<open>R\<close> a deployment row may undergo and the condition \<open>C\<close> under which a deployment may get a
  build or deploy task; its lemmas carry the predicate through every handler that neither starts a
  deployment outside the queue nor reports a build as started, whatever statements fail.
\<close>

section \<open>The changes of the tables\<close>

text \<open>One deployment row may change like this in a statement.\<close>

definition row_step ::
  "(deployment_status \<Rightarrow> deployment_status \<Rightarrow> bool) \<Rightarrow> db \<Rightarrow> deployment \<Rightarrow> deployment \<Rightarrow> bool" where
  "row_step R s d d' \<longleftrightarrow> d_id d' = d_id d \<and> d_project d' = d_project d \<and> d_commit_sha d' = d_commit_sha d
     \<and> d_created d' = d_created d \<and> prefix (d_logs d) (d_logs d')
     \<and> (d_node d' = d_node d \<or> (\<exists>n. d_node d' = Some n \<and> n \<in> n_id ` set (nodes s)))
     \<and> R (d_status d) (d_status d')"

definition same_task :: "task \<Rightarrow> task \<Rightarrow> bool" where
  "same_task t t' \<longleftrightarrow> t_id t' = t_id t \<and> t_type t' = t_type t \<and> t_deployment t' = t_deployment t
     \<and> t_node t' = t_node t"

locale handler_invariant = store_predicate I for I :: "db \<Rightarrow> bool" +
  fixes R :: "deployment_status \<Rightarrow> deployment_status \<Rightarrow> bool"
    and C :: "uuid \<Rightarrow> db \<Rightarrow> bool"
  assumes I_distinct: "I s \<Longrightarrow> distinct_ids s"
    and R_refl: "R a a"
    and R_lost: "in_flight a \<Longrightarrow> R a DS_Failed"
    and R_stop: "R DS_Running DS_Stopped"
    and C_final: "I s \<Longrightarrow> C (d_id d) s \<Longrightarrow> d \<in> set (deployments s) \<Longrightarrow> st \<in> {DS_Failed, DS_Running} \<Longrightarrow>
       R (d_status d) st"
    and C_chain: "I s \<Longrightarrow> t \<in> set (tasks s) \<Longrightarrow> is_chain_task t \<Longrightarrow> C (t_deployment t) s"
    and C_frame: "deployments s = deployments u \<Longrightarrow> C i s = C i u"
    and C_update: "I s \<Longrightarrow> C i s \<Longrightarrow> (\<And>d. d \<in> set (deployments s) \<Longrightarrow> P d \<Longrightarrow> row_step R s d (f d)) \<Longrightarrow>
       C i (update_deployments P f s)"
    and C_new: "C i s \<Longrightarrow> C i (s\<lparr>deployments := deployments s @ [d]\<rparr>)"
    and C_delete_node: "C i s \<Longrightarrow> C i (delete_node j s)"
    and C_advance: "I s \<Longrightarrow> C i s \<Longrightarrow> C i (advance_state pid pol s)"
    and C_newest: "I s \<Longrightarrow> advance_newest pid pol s = Some i \<Longrightarrow> C i (advance_state pid pol s)"
    and I_advance: "I s \<Longrightarrow> I (advance_state pid pol s)"
    and I_now: "I s \<Longrightarrow> I (s\<lparr>db_now := now\<rparr>)"
    and I_node_datasets: "I s \<Longrightarrow> I (s\<lparr>node_datasets := nds\<rparr>)"
    and I_update_deployments:
      "I s \<Longrightarrow> (\<And>d. d \<in> set (deployments s) \<Longrightarrow> P d \<Longrightarrow> row_step R s d (f d)) \<Longrightarrow> I (update_deployments P f s)"
    and I_new_queued:
      "I s \<Longrightarrow> d_id d \<notin> d_id ` set (deployments s) \<Longrightarrow> d_project d \<in> p_id ` set (projects s) \<Longrightarrow>
       d_node d = None \<Longrightarrow> d_status d = DS_Queued \<Longrightarrow> I (s\<lparr>deployments := deployments s @ [d]\<rparr>)"
    and I_update_tasks: "I s \<Longrightarrow> (\<And>t. same_task t (g t)) \<Longrightarrow> I (update_tasks Q g s)"
    and I_new_task:
      "I s \<Longrightarrow> t_id t \<notin> t_id ` set (tasks s) \<Longrightarrow> t_deployment t \<in> d_id ` set (deployments s) \<Longrightarrow>
       (is_chain_task t \<Longrightarrow> C (t_deployment t) s) \<Longrightarrow>
       (\<And>n. t_node t = Some n \<Longrightarrow> n \<in> n_id ` set (nodes s)) \<Longrightarrow> I (s\<lparr>tasks := tasks s @ [t]\<rparr>)"
    and I_update_nodes: "I s \<Longrightarrow> (\<And>n. n_id (h n) = n_id n) \<Longrightarrow> I (update_nodes P' h s)"
    and I_new_node: "I s \<Longrightarrow> n_id n \<notin> n_id ` set (nodes s) \<Longrightarrow> I (s\<lparr>nodes := nodes s @ [n]\<rparr>)"
    and I_update_projects: "I s \<Longrightarrow> (\<And>p. p_id (k p) = p_id p) \<Longrightarrow> I (update_projects S k s)"
    and I_new_project: "I s \<Longrightarrow> p_id p \<notin> p_id ` set (projects s) \<Longrightarrow> I (s\<lparr>projects := projects s @ [p]\<rparr>)"
    and I_delete_node: "I s \<Longrightarrow> I (delete_node j s)"
begin

lemma I_schedule: "I (s\<lparr>db_faults := fs, db_next := n\<rparr>) = I s"
  by (simp only: I_next I_faults)

text \<open>What the scheduler is handed may be dispatched.\<close>

lemma advance_valid:
  "valid I (store_AdvanceDeployQueue pid pol) (\<lambda>r s. I s \<and>
     (\<forall>a dep. r = Inr a \<longrightarrow> qa_dispatch a = Some dep \<longrightarrow> C (d_id dep) s))"
proof (rule validI, intro conjI allI impI)
  fix s r s' assume I: "I s" and run: "run_state (store_AdvanceDeployQueue pid pol) s = (r, s')"
  show "I s'"
    using advance_outcome [OF run] I_advance [OF I, of pid pol] I by (auto simp: I_schedule I_faults)
  fix a dep assume r: "r = Inr a" and dep: "qa_dispatch a = Some dep"
  note adv = advance_InrD [OF run [unfolded r]]
  from adv(2) dep obtain i where nw: "advance_newest pid pol s = Some i"
    and by_i: "deployment_by (advance_state pid pol s) i = Some dep"
    by (auto split: option.splits)
  have "d_id dep = i" using by_i by (auto simp: deployment_by_def dest: find_Some_mem)
  moreover have "C i s'"
    using C_newest [OF I nw] adv(1) C_frame [of s' "advance_state pid pol s"] by auto
  ultimately show "C (d_id dep) s'" by simp
qed

section \<open>Operations\<close>

lemma keeps_reads [keeps_intros]: "reads_only m \<Longrightarrow> keeps I m"
  by (rule keeps_reads_only)

lemma keeps_status_kept:
  "(\<And>d. d_id (f d) = d_id d \<and> d_project (f d) = d_project d \<and> d_commit_sha (f d) = d_commit_sha d
     \<and> d_created (f d) = d_created d \<and> prefix (d_logs d) (d_logs (f d)) \<and> d_node (f d) = d_node d
     \<and> d_status (f d) = d_status d) \<Longrightarrow> keeps I (exec (update_deployments P f))"
  by (rule keeps_exec) (auto intro!: I_update_deployments simp: row_step_def R_refl)

lemma keeps_SetDeploymentImageTag: "keeps I (SetDeploymentImageTag i tag)"
  unfolding SetDeploymentImageTag_def by (rule keeps_status_kept) simp

lemma keeps_AppendDeploymentLog: "keeps I (AppendDeploymentLog i line)"
  unfolding AppendDeploymentLog_def by (rule keeps_status_kept) simp

lemma keeps_SetDeploymentNode: "keeps I (SetDeploymentNode i n)"
  unfolding SetDeploymentNode_def
proof (rule keeps_sql, goal_cases)
  case (1 s x s')
  then have s': "s' = update_deployments (\<lambda>d. d_id d = i) (\<lambda>d. d\<lparr>d_node := Some n\<rparr>) s"
    and node: "\<not> (deployment_by s i \<noteq> None \<and> node_by s n = None)" by (auto split: if_splits)
  show ?case unfolding s'
  proof (rule I_update_deployments [OF 1(1)])
    fix d assume "d \<in> set (deployments s)" "d_id d = i"
    with node have "node_by s n \<noteq> None"
      by (auto simp: deployment_by_def dest: find_None_all)
    then have "n \<in> n_id ` set (nodes s)"
      by (auto simp: node_by_def dest: find_Some_mem)
    then show "row_step R s d (d\<lparr>d_node := Some n\<rparr>)" by (simp add: row_step_def R_refl)
  qed
qed

lemma keeps_StopProjectDeployments: "keeps I (StopProjectDeployments pid except)"
  unfolding StopProjectDeployments_def Let_def
  by (rule keeps_exec_returning) (auto intro!: I_update_deployments simp: row_step_def R_stop)

lemma keeps_FailOrphanedTasksForNode: "keeps I (FailOrphanedTasksForNode n reason)"
  unfolding FailOrphanedTasksForNode_def
  by (intro keeps_transaction keeps_attempt keeps_if keeps_ok keeps_exec_returning)
    (auto intro!: I_update_deployments I_update_tasks R_lost
      simp: row_step_def same_task_def fail_deployments_def orphan_deployment_def)

lemma keeps_UpdateTaskStatus: "keeps I (UpdateTaskStatus i st res)"
  unfolding UpdateTaskStatus_def
  by (rule keeps_sql) (auto intro!: I_update_tasks simp: same_task_def split: if_splits)

lemma keeps_project_updates:
  "keeps I (SetProjectLastImageTag i tag)" "keeps I (SetProjectLastTrackedCommitSHA i sha)"
  "keeps I (SetProjectLastTrackedImageDigests i dig)" "keeps I (SetProjectPaused i b)"
  "keeps I (SetProjectPinnedNode i n)"
  unfolding SetProjectLastImageTag_def SetProjectLastTrackedCommitSHA_def
    SetProjectLastTrackedImageDigests_def SetProjectPaused_def SetProjectPinnedNode_def Let_def
  by (auto intro!: keeps_exec keeps_sql I_update_projects split: if_splits)

lemma keeps_TouchNode: "keeps I (TouchNode i)"
  unfolding TouchNode_def
  by (intro keeps_attempt keeps_exec_returning keeps_if keeps_ok keeps_fail) (auto intro: I_update_nodes)

lemma keeps_UpsertNode: "keeps I (UpsertNode n)"
  unfolding UpsertNode_def Let_def
  by (intro keeps_bind keeps_attempt keeps_case_option keeps_query keeps_time_Now keeps_uuid_New keeps_sql)
    (auto split: if_splits intro!: I_update_nodes I_new_node simp: node_by_def dest: find_None_all)

lemma keeps_RemoveNodeDataset: "keeps I (RemoveNodeDataset n ds)"
  unfolding RemoveNodeDataset_def by (intro keeps_exec) (rule I_node_datasets)

lemma keeps_DeleteNode: "keeps I (DeleteNode n)"
  unfolding DeleteNode_def by (intro keeps_exec) (rule I_delete_node)

lemma keeps_enqueue: "keeps I (CreateDeployment pid (Some DS_Queued) img sha)"
  unfolding CreateDeployment_def Let_def
proof (intro keeps_bind keeps_uuid_New keeps_time_Now keeps_sql, goal_cases)
  case (1 i now s x s')
  then show ?case
    by (auto intro!: I_new_queued simp: deployment_by_def project_by_def dest: find_None_all find_Some_mem
        split: if_splits)
qed

lemma created_task:
  assumes "\<And>s. I s \<Longrightarrow> ty \<in> {TT_Build, TT_Deploy} \<Longrightarrow> C dep s"
  shows "keeps I (CreateTask ty n dep pl)"
  unfolding CreateTask_def Let_def
proof (intro keeps_bind keeps_uuid_New keeps_time_Now keeps_sql, goal_cases)
  case (1 i now s x s')
  let ?t = "\<lparr>t_id = i, t_type = ty, t_node = n, t_deployment = dep, t_payload = pl,
              t_status = TS_Pending, t_result = RText '''', t_created = now, t_updated = now\<rparr>"
  from 1(2) have s': "s' = s\<lparr>tasks := tasks s @ [?t]\<rparr>" and dup: "task_by s i = None"
    and dp: "deployment_by s dep \<noteq> None" and nd: "\<not> (n \<noteq> None \<and> node_of s n = None)"
    by (auto split: if_splits)
  show ?case unfolding s'
  proof (rule I_new_task [OF 1(1)])
    show "t_id ?t \<notin> t_id ` set (tasks s)" using dup by (auto simp: task_by_def dest: find_None_all)
    show "t_deployment ?t \<in> d_id ` set (deployments s)"
      using dp by (auto simp: deployment_by_def dest: find_Some_mem)
    show "C (t_deployment ?t) s" if "is_chain_task ?t"
      using assms [OF 1(1)] that by (simp add: is_chain_task_def)
    show "m \<in> n_id ` set (nodes s)" if "t_node ?t = Some m" for m
      using nd that by (auto simp: node_of_def node_by_def dest: find_Some_mem)
  qed
qed

lemma keeps_DispatchCleanup: "keeps I (DispatchCleanup n d pfx)"
  unfolding DispatchCleanup_def new_task_def
  by (intro keeps_attempt created_task keeps_ok) auto

text \<open>The condition can be carried along for any set of deployments.\<close>

lemma with_C: "handler_invariant (\<lambda>s. I s \<and> (\<forall>i \<in> D. C i s)) R C"
proof
  show "I (s\<lparr>deployments := deployments s @ [d]\<rparr>) \<and> (\<forall>i \<in> D. C i (s\<lparr>deployments := deployments s @ [d]\<rparr>))"
    if "I s \<and> (\<forall>i \<in> D. C i s)" "d_id d \<notin> d_id ` set (deployments s)"
      "d_project d \<in> p_id ` set (projects s)" "d_node d = None" "d_status d = DS_Queued" for s d
    using that I_new_queued [of s d] C_new by auto
  show "I (update_tasks Q g s) \<and> (\<forall>i \<in> D. C i (update_tasks Q g s))"
    if "I s \<and> (\<forall>i \<in> D. C i s)" "\<And>t. same_task t (g t)" for s Q g
    using that I_update_tasks [of s g Q] C_frame [of s "update_tasks Q g s"] by auto
  show "I (update_nodes Q g s) \<and> (\<forall>i \<in> D. C i (update_nodes Q g s))"
    if "I s \<and> (\<forall>i \<in> D. C i s)" "\<And>n. n_id (g n) = n_id n" for s Q g
    using that I_update_nodes [of s g Q] C_frame [of s "update_nodes Q g s"] by (auto simp: update_nodes_def)
  show "I (update_projects Q g s) \<and> (\<forall>i \<in> D. C i (update_projects Q g s))"
    if "I s \<and> (\<forall>i \<in> D. C i s)" "\<And>p. p_id (g p) = p_id p" for s Q g
    using that I_update_projects [of s g Q] C_frame [of s "update_projects Q g s"] by (auto simp: update_projects_def)
  have fr: "C i (s\<lparr>db_faults := fs\<rparr>) = C i s" "C i (s\<lparr>db_next := n\<rparr>) = C i s" "C i (s\<lparr>pushed := es\<rparr>) = C i s"
    "C i (s\<lparr>db_now := now\<rparr>) = C i s" "C i (s\<lparr>node_datasets := nds\<rparr>) = C i s" "C i (s\<lparr>tasks := ts\<rparr>) = C i s"
    "C i (s\<lparr>nodes := ns\<rparr>) = C i s" "C i (s\<lparr>projects := ps\<rparr>) = C i s" for i s fs n es now nds ts ns ps
    by (rule C_frame; simp)+
  show "(I (s\<lparr>db_faults := fs\<rparr>) \<and> (\<forall>i \<in> D. C i (s\<lparr>db_faults := fs\<rparr>))) = (I s \<and> (\<forall>i \<in> D. C i s))" for s fs
    by (simp add: fr I_faults)
  show "(I (s\<lparr>db_next := n\<rparr>) \<and> (\<forall>i \<in> D. C i (s\<lparr>db_next := n\<rparr>))) = (I s \<and> (\<forall>i \<in> D. C i s))" for s n
    by (simp add: fr I_next)
  show "(I (s\<lparr>pushed := es\<rparr>) \<and> (\<forall>i \<in> D. C i (s\<lparr>pushed := es\<rparr>))) = (I s \<and> (\<forall>i \<in> D. C i s))" for s es
    by (simp add: fr I_pushed)
  show "C i s = C i u" if "deployments s = deployments u" for s u i
    using that by (rule C_frame)
  show "I (s\<lparr>tasks := tasks s @ [t]\<rparr>) \<and> (\<forall>i \<in> D. C i (s\<lparr>tasks := tasks s @ [t]\<rparr>))"
    if "I s \<and> (\<forall>i \<in> D. C i s)" "t_id t \<notin> t_id ` set (tasks s)"
      "t_deployment t \<in> d_id ` set (deployments s)" "is_chain_task t \<Longrightarrow> C (t_deployment t) s"
      "\<And>n. t_node t = Some n \<Longrightarrow> n \<in> n_id ` set (nodes s)" for s t
    using that I_new_task [of s t] by (auto simp: fr)
  show "I (s\<lparr>nodes := nodes s @ [n]\<rparr>) \<and> (\<forall>i \<in> D. C i (s\<lparr>nodes := nodes s @ [n]\<rparr>))"
    if "I s \<and> (\<forall>i \<in> D. C i s)" "n_id n \<notin> n_id ` set (nodes s)" for s n
    using that I_new_node [of s n] by (auto simp: fr)
  show "I (s\<lparr>projects := projects s @ [p]\<rparr>) \<and> (\<forall>i \<in> D. C i (s\<lparr>projects := projects s @ [p]\<rparr>))"
    if "I s \<and> (\<forall>i \<in> D. C i s)" "p_id p \<notin> p_id ` set (projects s)" for s p
    using that I_new_project [of s p] by (auto simp: fr)
  show "I (s\<lparr>db_now := now\<rparr>) \<and> (\<forall>i \<in> D. C i (s\<lparr>db_now := now\<rparr>))" if "I s \<and> (\<forall>i \<in> D. C i s)" for s now
    using that by (simp add: fr I_now)
  show "I (s\<lparr>node_datasets := nds\<rparr>) \<and> (\<forall>i \<in> D. C i (s\<lparr>node_datasets := nds\<rparr>))"
    if "I s \<and> (\<forall>i \<in> D. C i s)" for s nds
    using that by (simp add: fr I_node_datasets)
qed (auto simp: I_distinct R_refl R_lost R_stop C_delete_node C_advance C_newest I_advance I_delete_node C_new
    I_update_deployments C_update intro: C_final C_chain)

lemma keeps_with_C:
  assumes "keeps (\<lambda>s. I s \<and> (\<forall>i \<in> D. C i s)) m"
    and "\<And>s. P s \<Longrightarrow> I s \<and> (\<forall>i \<in> D. C i s)"
  shows "valid P m (\<lambda>_. I)"
  using assms by (fastforce simp: valid_def dest: keepsE)

lemma query_C:
  assumes "\<And>s i. I s \<Longrightarrow> i \<in> D (f s) \<Longrightarrow> C i s"
  shows "valid I (query f) (\<lambda>r s. I s \<and> (\<forall>x. r = Inr x \<longrightarrow> (\<forall>i \<in> D x. C i s)))"
  by (rule validI) (auto simp: run_query intro: assms split: option.splits)

text \<open>A row that may be dispatched may fail or run.\<close>

lemma keeps_final_status:
  assumes "\<And>s. I s \<Longrightarrow> C i s" and "st \<in> {DS_Failed, DS_Running}"
  shows "keeps I (UpdateDeploymentStatus i st msg)"
  unfolding UpdateDeploymentStatus_def
  using assms by (intro keeps_if keeps_exec I_update_deployments)
    (auto simp: row_step_def intro!: C_final)

lemma keeps_SetDeploymentHostPort:
  assumes "\<And>s. I s \<Longrightarrow> C i s"
  shows "keeps I (SetDeploymentHostPort i port)"
  unfolding SetDeploymentHostPort_def
  using assms by (intro keeps_exec I_update_deployments) (auto simp: row_step_def intro!: C_final)

section \<open>Dispatch\<close>

lemma keeps_make_room: "keeps I (make_room best)"
  unfolding make_room_def Let_def
  by (intro keeps_intros keeps_RemoveNodeDataset reads_intros)

lemma keeps_PickDeployNode: "keeps I (PickDeployNode cfg ids)"
  unfolding PickDeployNode_def Let_def
  by (intro keeps_attempt keeps_bind keeps_if keeps_fail keeps_case_list keeps_make_room keeps_reads reads_intros)

lemma keeps_pickOrReusePinnedNode: "keeps I (pickOrReusePinnedNode cfg project)"
  unfolding pickOrReusePinnedNode_def
  by (intro keeps_case_option keeps_attempt keeps_wrap_err keeps_PickDeployNode keeps_project_updates
      keeps_bind keeps_if keeps_ok keeps_fail keeps_reads reads_intros)

lemma keeps_choose_node:
  assumes "keeps I picker"
  shows "keeps I (choose_node project picker)"
  unfolding choose_node_def
  by (intro keeps_attempt keeps_case_option keeps_ok assms keeps_reads reads_intros)

lemma keeps_deploy:
  assumes "keeps I picker" and "\<And>n. keeps I (rest n)"
  shows "keeps I (attempt (choose_node project picker) (\<lambda>n. attempt (SetDeploymentNode dep (n_id n)) (\<lambda>_. rest n)))"
  using assms by (intro keeps_attempt keeps_choose_node keeps_SetDeploymentNode)

lemma keeps_read_then: "reads_only m \<Longrightarrow> (\<And>x. keeps I (f x)) \<Longrightarrow> keeps I (State_Monad.bind m f)"
  by (rule keeps_bind [OF keeps_reads])

lemma keeps_case_tuple:
  "(\<And>a b c d e. keeps I (f a b c d e)) \<Longrightarrow> keeps I (case v of (a, b, c, d, e) \<Rightarrow> f a b c d e)"
  by (simp split: prod.splits)

lemma keeps_DispatchDeploy:
  assumes "\<And>s. I s \<Longrightarrow> C (d_id d) s"
  shows "keeps I (DispatchDeploy cfg d project img)"
  unfolding DispatchDeploy_def dispatchComposeDeploy_def dispatchImageDeploy_def Let_def
  by (intro keeps_if keeps_fail keeps_deploy keeps_pickOrReusePinnedNode keeps_PickDeployNode
      keeps_read_then keeps_case_tuple keeps_attempt keeps_ok created_task assms keeps_reads reads_intros)

lemma keeps_DispatchBuild:
  assumes "\<And>s. I s \<Longrightarrow> C (d_id d) s"
  shows "keeps I (DispatchBuild cfg d project)"
  unfolding DispatchBuild_def Let_def
  by (intro keeps_if keeps_fail keeps_read_then keeps_case_tuple keeps_attempt keeps_ok created_task assms
      keeps_reads reads_intros)

lemma keeps_dispatchChain:
  assumes "\<And>s. I s \<Longrightarrow> C (d_id d) s"
  shows "keeps I (dispatchChain cfg d)"
  unfolding dispatchChain_def
  by (intro keeps_attempt keeps_wrap_err keeps_case_option keeps_if keeps_fail
      keeps_DispatchDeploy keeps_DispatchBuild assms keeps_reads reads_intros)

end

context handler_invariant
begin

section \<open>Handlers\<close>

lemma keeps_sched_AdvanceDeployQueue: "keeps I (sched_AdvanceDeployQueue cfg pid)"
  unfolding sched_AdvanceDeployQueue_def
proof (rule keeps_valid, rule valid_bind [OF advance_valid], goal_cases)
  case (1 r)
  have go: "valid (\<lambda>s. I s \<and> C (d_id dep) s) (do {
       r \<leftarrow> dispatchChain cfg dep;
       case r of
         Inl e \<Rightarrow> do {
           _ \<leftarrow> ignore (UpdateDeploymentStatus (d_id dep) DS_Failed e);
           State_Monad.return (Some (d_id dep), Some e) }
       | Inr _ \<Rightarrow> State_Monad.return (Some (d_id dep), None) }) (\<lambda>_. I)" for dep
  proof (rule keeps_with_C [of "{d_id dep}"])
    show "keeps (\<lambda>s. I s \<and> (\<forall>i \<in> {d_id dep}. C i s)) (do {
       r \<leftarrow> dispatchChain cfg dep;
       case r of
         Inl e \<Rightarrow> do {
           _ \<leftarrow> ignore (UpdateDeploymentStatus (d_id dep) DS_Failed e);
           State_Monad.return (Some (d_id dep), Some e) }
       | Inr _ \<Rightarrow> State_Monad.return (Some (d_id dep), None) })"
      by (intro keeps_bind keeps_case_sum keeps_return keeps_ignore
          handler_invariant.keeps_dispatchChain [OF with_C]
          handler_invariant.keeps_final_status [OF with_C]) auto
  qed auto
  show ?case
    by (cases r)
      (auto split: option.splits intro!: valid_return valid_pre [OF go])
qed

lemma keeps_TriggerDeployment: "keeps I (TriggerDeployment cfg pid)"
  unfolding TriggerDeployment_def
  by (intro keeps_attempt keeps_wrap_err keeps_case_option keeps_if keeps_fail keeps_enqueue
      keeps_bind keeps_case_prod keeps_sched_AdvanceDeployQueue keeps_ok keeps_reads reads_intros)
    (auto split: option.splits bool.splits intro!: keeps_bind keeps_ok keeps_fail keeps_reads reads_intros)

lemma keeps_AdvanceDeployQueueFor: "keeps I (AdvanceDeployQueueFor cfg i)"
  unfolding AdvanceDeployQueueFor_def
  by (intro keeps_bind keeps_case_sum keeps_case_option keeps_return keeps_ignore
      keeps_sched_AdvanceDeployQueue keeps_reads reads_intros)

lemma keeps_SweepDeployQueues: "keeps I (SweepDeployQueues cfg)"
  unfolding SweepDeployQueues_def ListProjectsWithQueuedDeployments_def
  by (intro keeps_bind keeps_case_sum keeps_return keeps_for_each keeps_ignore
      keeps_sched_AdvanceDeployQueue keeps_query)

lemma keeps_RecoverAgentRestart: "keeps I (RecoverAgentRestart cfg n)"
  unfolding RecoverAgentRestart_def
  by (intro keeps_bind keeps_case_sum keeps_return keeps_for_each keeps_ignore
      keeps_sched_AdvanceDeployQueue keeps_FailOrphanedTasksForNode)

lemma keeps_registerNode: "keeps I (registerNode cfg body)"
  unfolding registerNode_def
  by (intro keeps_case_sum keeps_return keeps_bind keeps_UpsertNode keeps_RecoverAgentRestart)

lemma keeps_pollTasks: "keeps I (pollTasks cfg str)"
  unfolding pollTasks_def
  by (intro keeps_case_sum keeps_return keeps_bind keeps_TouchNode keeps_reads reads_intros)

lemma keeps_appendDeploymentLog: "keeps I (api_appendDeploymentLog cfg str body)"
  unfolding api_appendDeploymentLog_def
  by (intro keeps_case_sum keeps_return keeps_bind keeps_AppendDeploymentLog)

lemma keeps_push_for: "keeps I (push_for i ty sev msg)"
  unfolding push_for_def
  by (intro keeps_bind keeps_case_sum keeps_case_option keeps_return keeps_push_event keeps_reads reads_intros)

lemma keeps_found_task:
  assumes "\<And>t. \<not> is_chain_task t \<Longrightarrow> keeps I (k t)"
    and "\<And>t. is_chain_task t \<Longrightarrow> keeps (\<lambda>s. I s \<and> (\<forall>i \<in> {t_deployment t}. C i s)) (k t)"
  shows "keeps I (found_task i k)"
  unfolding found_task_def GetTask_def
proof (rule keeps_valid, rule valid_bind)
  show "valid I (query (\<lambda>s. task_by s i)) (\<lambda>r s. I s \<and> (\<forall>x. r = Inr x \<longrightarrow>
      (\<forall>j \<in> (case x of Some t \<Rightarrow> if is_chain_task t then {t_deployment t} else {} | None \<Rightarrow> {}). C j s)))"
    by (rule query_C)
      (auto simp: task_by_def split: option.splits if_splits dest!: find_Some_mem intro: C_chain)
next
  fix r
  show "valid (\<lambda>s. I s \<and> (\<forall>x. r = Inr x \<longrightarrow>
      (\<forall>j \<in> (case x of Some t \<Rightarrow> if is_chain_task t then {t_deployment t} else {} | None \<Rightarrow> {}). C j s)))
    (case r of Inr (Some task) \<Rightarrow> k task | _ \<Rightarrow> State_Monad.return ()) (\<lambda>_. I)"
  proof (cases "\<exists>t. r = Inr (Some t)")
    case True
    then obtain t where r: "r = Inr (Some t)" by blast
    show ?thesis
    proof (cases "is_chain_task t")
      case True
      then show ?thesis using r by (auto intro!: keeps_with_C [OF assms(2)])
    next
      case False
      then show ?thesis using r by (auto intro!: valid_pre [OF valid_keeps [OF assms(1)]])
    qed
  qed (auto split: sum.splits option.splits intro!: valid_return)
qed

end

context handler_invariant
begin

lemma keeps_on_failed:
  assumes "\<And>s. I s \<Longrightarrow> is_chain_task t \<Longrightarrow> C (t_deployment t) s"
  shows "keeps I (on_failed cfg res t)"
  unfolding on_failed_def Let_def
  by (intro keeps_if keeps_bind keeps_ignore keeps_final_status keeps_push_for keeps_return
      keeps_AdvanceDeployQueueFor)
    (auto simp: is_chain_task_def intro: assms)

lemma keeps_retire_previous: "keeps I (retire_previous t)"
  unfolding retire_previous_def
  by (intro keeps_bind keeps_case_sum keeps_case_option keeps_return keeps_StopProjectDeployments
      keeps_for_each keeps_case_prod keeps_if keeps_ignore keeps_DispatchCleanup keeps_reads reads_intros)

lemma keeps_on_completed:
  assumes "\<And>s. I s \<Longrightarrow> is_chain_task t \<Longrightarrow> C (t_deployment t) s"
  shows "keeps I (on_completed cfg port t)"
  unfolding on_completed_def
  by (intro keeps_if keeps_bind keeps_ignore keeps_final_status keeps_SetDeploymentHostPort
      keeps_push_for keeps_return keeps_retire_previous keeps_AdvanceDeployQueueFor)
    (auto simp: is_chain_task_def intro: assms)

end

context handler_invariant
begin

text \<open>\<open>completeTask\<close>, up to what a report that a build has started does.\<close>

lemma keeps_completeTask:
  assumes "\<And>c t. body = Inr c \<Longrightarrow> c_status c = TS_Running \<Longrightarrow> is_chain_task t \<Longrightarrow>
    keeps (\<lambda>s. I s \<and> (\<forall>i \<in> {t_deployment t}. C i s)) (on_running t)"
  shows "keeps I (completeTask cfg str body)"
proof -
  have other: "keeps I (on_running t)" if "\<not> is_chain_task t" for t
    using that by (auto simp: on_running_def is_chain_task_def)
  show ?thesis
    unfolding completeTask_def Let_def
    by (intro keeps_case_sum keeps_return keeps_bind keeps_UpdateTaskStatus keeps_if keeps_found_task
        other assms keeps_on_failed keeps_on_completed
        handler_invariant.keeps_on_failed [OF with_C]
        handler_invariant.keeps_on_completed [OF with_C]) auto
qed

lemma keeps_autoTriggerDownstreamRedeploys: "keeps I (autoTriggerDownstreamRedeploys cfg project)"
  unfolding autoTriggerDownstreamRedeploys_def
  by (intro keeps_if keeps_return keeps_case_sum keeps_for_each keeps_ignore keeps_TriggerDeployment)

end

end
