(* ===== verification/Lifecycle_Inv.thy ===== *)
theory Lifecycle_Inv
  imports Handlers_Inv
begin

text \<open>
  What every handler of the lifecycle preserves, the build watcher and the failover of a dead node
  included. \<open>lifecycle_invariant\<close> is a predicate closed under the changes of the tables; it is a
  \<open>handler_invariant\<close> whose deployments have been dispatched (\<open>started\<close>). It is interpreted on the
  integrity of the schema together with the rule that no build or deploy task exists for a
  deployment still queued or superseded, and on the history of a single deployment row. The
  handlers and the environment make up the step relation at the end.
\<close>

section \<open>Invariants\<close>

definition undispatched :: "deployment_status \<Rightarrow> bool" where
  "undispatched st \<longleftrightarrow> st \<in> {DS_Queued, DS_Superseded}"

text \<open>Primary and foreign keys.\<close>

definition keys_ok :: "db \<Rightarrow> bool" where
  "keys_ok s \<longleftrightarrow> distinct (map d_id (deployments s)) \<and> distinct (map t_id (tasks s))
     \<and> distinct (map n_id (nodes s)) \<and> distinct (map p_id (projects s))"

definition refs_ok :: "db \<Rightarrow> bool" where
  "refs_ok s \<longleftrightarrow> (\<forall>d \<in> set (deployments s). d_project d \<in> p_id ` set (projects s))
     \<and> (\<forall>t \<in> set (tasks s). t_deployment t \<in> d_id ` set (deployments s))
     \<and> (\<forall>d \<in> set (deployments s). \<forall>n. d_node d = Some n \<longrightarrow> n \<in> n_id ` set (nodes s))
     \<and> (\<forall>t \<in> set (tasks s). \<forall>n. t_node t = Some n \<longrightarrow> n \<in> n_id ` set (nodes s))"

definition chain_ok :: "db \<Rightarrow> bool" where
  "chain_ok s \<longleftrightarrow> (\<forall>t \<in> set (tasks s). \<forall>d \<in> set (deployments s).
     is_chain_task t \<longrightarrow> d_id d = t_deployment t \<longrightarrow> \<not> undispatched (d_status d))"

definition lifecycle_ok :: "db \<Rightarrow> bool" where
  "lifecycle_ok s \<longleftrightarrow> keys_ok s \<and> refs_ok s \<and> chain_ok s"

definition started :: "uuid \<Rightarrow> db \<Rightarrow> bool" where
  "started i s \<longleftrightarrow> (\<exists>d \<in> set (deployments s). d_id d = i \<and> \<not> undispatched (d_status d))"

lemma undispatched_simps [simp]:
  "undispatched DS_Queued" "undispatched DS_Superseded" "\<not> undispatched DS_Pending"
  "\<not> undispatched DS_Building" "\<not> undispatched DS_Deploying" "\<not> undispatched DS_Running"
  "\<not> undispatched DS_Failed" "\<not> undispatched DS_Stopped"
  by (simp_all add: undispatched_def)

lemma in_flight_started: "in_flight st \<Longrightarrow> \<not> undispatched st"
  by (auto simp: in_flight_def)

section \<open>The changes of the tables\<close>

definition status_step :: "deployment_status \<Rightarrow> deployment_status \<Rightarrow> bool" where
  "status_step a b \<longleftrightarrow> a = b \<or> (\<not> undispatched a \<and> \<not> undispatched b)
     \<or> (a = DS_Queued \<and> b \<in> {DS_Pending, DS_Superseded})"

lemma status_step_refl [simp]: "status_step a a"
  by (simp add: status_step_def)

lemma status_step_started: "status_step a b \<Longrightarrow> \<not> undispatched a \<Longrightarrow> \<not> undispatched b"
  by (auto simp: status_step_def)

lemma started_update:
  assumes "started i s" and "\<And>d. d \<in> set (deployments s) \<Longrightarrow> P d \<Longrightarrow> row_step status_step s d (f d)"
  shows "started i (update_deployments P f s)"
proof -
  from assms(1) obtain d where d: "d \<in> set (deployments s)" "d_id d = i" "\<not> undispatched (d_status d)"
    by (auto simp: started_def)
  let ?d = "if P d then (f d)\<lparr>d_updated := db_now s\<rparr> else d"
  have "?d \<in> set (deployments (update_deployments P f s))" using d(1) by (auto simp: set_upd_where)
  moreover have "d_id ?d = i \<and> \<not> undispatched (d_status ?d)"
    using d assms(2) [OF d(1)] by (auto simp: row_step_def dest: status_step_started)
  ultimately show ?thesis by (auto simp: started_def)
qed

lemma started_frame [simp]:
  "started i (s\<lparr>db_faults := fs\<rparr>) = started i s" "started i (delete_node j s) = started i s"
  by (auto simp: started_def delete_node_def Let_def)

lemma started_new: "started i s \<Longrightarrow> started i (s\<lparr>deployments := deployments s @ [d]\<rparr>)"
  by (auto simp: started_def)

locale lifecycle_invariant = store_predicate I for I :: "db \<Rightarrow> bool" +
  assumes I_ok: "I s \<Longrightarrow> lifecycle_ok s"
    and I_now: "I s \<Longrightarrow> I (s\<lparr>db_now := now\<rparr>)"
    and I_node_datasets: "I s \<Longrightarrow> I (s\<lparr>node_datasets := nds\<rparr>)"
    and I_update_deployments:
      "I s \<Longrightarrow> (\<And>d. d \<in> set (deployments s) \<Longrightarrow> P d \<Longrightarrow> row_step status_step s d (f d)) \<Longrightarrow> I (update_deployments P f s)"
    and I_new_deployment:
      "I s \<Longrightarrow> d_id d \<notin> d_id ` set (deployments s) \<Longrightarrow> d_project d \<in> p_id ` set (projects s) \<Longrightarrow>
       d_node d = None \<Longrightarrow> I (s\<lparr>deployments := deployments s @ [d]\<rparr>)"
    and I_update_tasks: "I s \<Longrightarrow> (\<And>t. same_task t (g t)) \<Longrightarrow> I (update_tasks Q g s)"
    and I_new_task:
      "I s \<Longrightarrow> t_id t \<notin> t_id ` set (tasks s) \<Longrightarrow> t_deployment t \<in> d_id ` set (deployments s) \<Longrightarrow>
       (is_chain_task t \<Longrightarrow> started (t_deployment t) s) \<Longrightarrow>
       (\<And>n. t_node t = Some n \<Longrightarrow> n \<in> n_id ` set (nodes s)) \<Longrightarrow> I (s\<lparr>tasks := tasks s @ [t]\<rparr>)"
    and I_update_nodes: "I s \<Longrightarrow> (\<And>n. n_id (h n) = n_id n) \<Longrightarrow> I (update_nodes R h s)"
    and I_new_node: "I s \<Longrightarrow> n_id n \<notin> n_id ` set (nodes s) \<Longrightarrow> I (s\<lparr>nodes := nodes s @ [n]\<rparr>)"
    and I_update_projects: "I s \<Longrightarrow> (\<And>p. p_id (k p) = p_id p) \<Longrightarrow> I (update_projects S k s)"
    and I_new_project: "I s \<Longrightarrow> p_id p \<notin> p_id ` set (projects s) \<Longrightarrow> I (s\<lparr>projects := projects s @ [p]\<rparr>)"
    and I_delete_node: "I s \<Longrightarrow> I (delete_node i s)"
begin

lemma I_distinct: "I s \<Longrightarrow> distinct_ids s"
  using I_ok by (auto simp: lifecycle_ok_def keys_ok_def distinct_ids_def)

lemma started_rows:
  "I s \<Longrightarrow> started i s \<Longrightarrow> d \<in> set (deployments s) \<Longrightarrow> d_id d = i \<Longrightarrow> \<not> undispatched (d_status d)"
  using id_unique [OF I_distinct, of s] by (auto simp: started_def)

lemma chain_started:
  assumes "I s" and "t \<in> set (tasks s)" and "is_chain_task t"
  shows "started (t_deployment t) s"
proof -
  from I_ok [OF assms(1)] have c: "chain_ok s" and r: "refs_ok s" by (auto simp: lifecycle_ok_def)
  from r assms(2) obtain d where "d \<in> set (deployments s)" "d_id d = t_deployment t"
    by (auto simp: refs_ok_def)
  with c assms(2,3) show ?thesis by (auto simp: chain_ok_def started_def)
qed

lemma I_reaped: "I s \<Longrightarrow> I (reaped_state pid pol s)"
  unfolding reaped_state_def reap_lost_def fail_tasks_of_def
  by (auto intro!: I_update_deployments I_update_tasks
      simp: row_step_def same_task_def presumed_lost_def status_step_def dest: in_flight_started)

text \<open>The rows an advance promotes or supersedes are the queued ones.\<close>

lemma queued_id_row:
  assumes "I s" and "d \<in> set (deployments s)" and "d_id d \<in> set (map d_id (queued_of pid s))"
  shows "d_status d = DS_Queued"
proof -
  from assms(3) obtain e where e: "e \<in> set (queued_of pid s)" "d_id e = d_id d" by auto
  then have "e = d" using id_unique [OF I_distinct [OF assms(1)], of e d] assms(2) by (auto simp: set_queued_of)
  then show ?thesis using e(1) by (simp add: set_queued_of)
qed

lemma I_promote:
  assumes "I s"
  shows "I (promote pid s)"
proof (cases "map d_id (queued_of pid s)")
  case Nil
  then show ?thesis using assms by (simp add: promote_def)
next
  case (Cons newest older)
  have queued: "d_status d = DS_Queued" if "d \<in> set (deployments s)" "d_id d \<in> set (newest # older)" for d
    using queued_id_row [OF assms that(1), of pid] that(2) unfolding Cons .
  have "newest \<notin> set older"
    using distinct_queued_ids [OF I_distinct [OF assms], of pid] Cons by simp
  have I1: "I (set_pending newest s)"
    unfolding set_pending_def
    by (rule I_update_deployments [OF assms]) (auto simp: row_step_def status_step_def dest: queued)
  have "I (set_superseded older newest (set_pending newest s))"
    unfolding set_superseded_def
  proof (rule I_update_deployments [OF I1])
    fix d assume d: "d \<in> set (deployments (set_pending newest s))" "d_id d \<in> set older"
    then obtain e where e: "e \<in> set (deployments s)"
      "d = (if d_id e = newest then e\<lparr>d_status := DS_Pending, d_updated := db_now s\<rparr> else e)"
      by (auto simp: set_pending_def set_upd_where)
    have "d = e" using e d(2) \<open>newest \<notin> set older\<close> by (auto split: if_splits)
    then have "d_status d = DS_Queued" using queued [OF e(1)] d(2) by simp
    then show "row_step status_step (set_pending newest s) d
        (d\<lparr>d_status := DS_Superseded, d_logs := d_logs d @ superseded_message newest\<rparr>)"
      by (simp add: row_step_def status_step_def)
  qed
  with I1 show ?thesis by (simp add: promote_def Cons)
qed

lemma I_advance: "I s \<Longrightarrow> I (advance_state pid pol s)"
  by (simp add: advance_state_def Let_def I_reaped I_promote)

text \<open>A deployment that has been dispatched stays dispatched, the promoted one is.\<close>

lemma started_promote:
  assumes "I s" and "started i s"
  shows "started i (promote pid s)"
proof (cases "map d_id (queued_of pid s)")
  case Nil
  then show ?thesis using assms by (simp add: promote_def)
next
  case (Cons newest older)
  from assms(2) obtain d where d: "d \<in> set (deployments s)" "d_id d = i" "\<not> undispatched (d_status d)"
    by (auto simp: started_def)
  have "d_id d \<notin> set (newest # older)"
    using queued_id_row [OF assms(1) d(1), of pid] d(3) unfolding Cons by auto
  then have "promoted_row newest older (db_now s) d = d" by (auto simp: promoted_row_def)
  then have "d \<in> set (deployments (promote pid s))"
    unfolding deployments_promote [OF I_distinct [OF assms(1)] Cons] using d(1) by (metis image_eqI set_map)
  then show ?thesis using d by (auto simp: started_def)
qed

lemma started_reaped:
  assumes "started i s"
  shows "started i (reaped_state pid pol s)"
proof -
  have "started i (reap_lost pid pol s)"
    unfolding reap_lost_def
    by (rule started_update [OF assms])
      (auto simp: row_step_def presumed_lost_def status_step_def dest: in_flight_started)
  then show ?thesis by (simp add: reaped_state_def started_def fail_tasks_of_def)
qed

lemma started_advance: "I s \<Longrightarrow> started i s \<Longrightarrow> started i (advance_state pid pol s)"
  by (simp add: advance_state_def Let_def started_reaped started_promote I_reaped)

lemma started_newest:
  assumes "I s" and "advance_newest pid pol s = Some i"
  shows "started i (advance_state pid pol s)"
proof -
  let ?s1 = "reaped_state pid pol s"
  from assms(2) obtain d rest where q: "queued_of pid ?s1 = d # rest" "i = d_id d" "in_flight_of pid ?s1 = []"
    by (auto simp: advance_newest_def Let_def split: if_splits list.splits)
  have "map d_id (in_flight_of pid (promote pid ?s1)) = [i]"
    using in_flight_of_promote [OF _ q(3)] I_distinct [OF assms(1)] q by simp
  then obtain e where "e \<in> set (in_flight_of pid (promote pid ?s1))" "d_id e = i"
    by (metis imageE list.set_intros(1) list.set_map)
  then show ?thesis
    using q(3) by (auto simp: started_def in_flight_of_def advance_state_def Let_def dest: in_flight_started)
qed

end

sublocale lifecycle_invariant \<subseteq> h: handler_invariant I status_step started
proof
  show "started i s = started i u" if "deployments s = deployments u" for i s u
    using that by (simp add: started_def)
qed (auto simp: I_distinct I_advance I_now I_node_datasets I_update_deployments I_new_deployment I_update_tasks
    I_new_task I_update_nodes I_new_node I_update_projects I_new_project I_delete_node started_new
    started_advance started_newest started_update
    intro: chain_started simp: status_step_def dest: started_rows in_flight_started)

context lifecycle_invariant
begin

text \<open>A row that has been dispatched may take any status but \<open>queued\<close> and \<open>superseded\<close>.\<close>

lemma I_update_started:
  assumes "I s" and "started i s" and "\<And>d. \<not> undispatched (d_status d) \<Longrightarrow> row_step status_step s d (f d)"
  shows "I (update_deployments (\<lambda>d. d_id d = i) f s)"
  using assms by (intro I_update_deployments) (auto dest: started_rows)

lemma keeps_UpdateDeploymentStatus:
  assumes "\<And>s. I s \<Longrightarrow> started i s" and "\<not> undispatched st"
  shows "keeps I (UpdateDeploymentStatus i st msg)"
  unfolding UpdateDeploymentStatus_def
  by (intro keeps_if keeps_exec I_update_started assms(1))
    (auto simp: row_step_def status_step_def assms(2))

lemma new_deployment:
  "valid I (CreateDeployment pid st img sha) (\<lambda>r s. I s \<and>
     (\<forall>d. r = Inr d \<longrightarrow> st = None \<longrightarrow> started (d_id d) s))"
  unfolding CreateDeployment_def Let_def
proof (intro valid_bind_keeps keeps_uuid_New keeps_time_Now validI, goal_cases)
  case (1 i now s r s')
  let ?d = "\<lparr>d_id = i, d_project = pid, d_image_tag = img, d_commit_sha = sha,
              d_status = (case st of None \<Rightarrow> DS_Pending | Some x \<Rightarrow> x), d_node = None,
              d_host_port = 0, d_logs = '''', d_restart_count = 0, d_oom_killed = False,
              d_created = now, d_updated = now\<rparr>"
  show ?case
  proof (cases r)
    case (Inl e)
    with 1(2) have "s' = popped s"
      by (auto simp: run_sql split: option.splits if_splits)
    then show ?thesis using 1(1) Inl by simp
  next
    case (Inr d)
    with 1(2) have s': "s' = (popped s)\<lparr>deployments := deployments s @ [?d]\<rparr>" and d: "d = ?d"
      and dup: "deployment_by (popped s) i = None" and pr: "project_by (popped s) pid \<noteq> None"
      by (auto simp: run_sql split: option.splits if_splits)
    have "I (popped s)" using 1(1) by simp
    then have "I ((popped s)\<lparr>deployments := deployments (popped s) @ [?d]\<rparr>)"
    proof (rule I_new_deployment)
      show "d_id ?d \<notin> d_id ` set (deployments (popped s))"
        using dup by (auto simp: deployment_by_def dest: find_None_all)
      show "d_project ?d \<in> p_id ` set (projects (popped s))"
        using pr by (auto simp: project_by_def dest: find_Some_mem)
    qed simp
    then show ?thesis using Inr d by (auto simp: s' started_def)
  qed
qed

lemma keeps_on_running:
  assumes "\<And>s. I s \<Longrightarrow> is_chain_task t \<Longrightarrow> started (t_deployment t) s"
  shows "keeps I (on_running t)"
  unfolding on_running_def
  by (intro keeps_if keeps_bind keeps_ignore keeps_UpdateDeploymentStatus h.keeps_push_for keeps_return)
    (auto simp: is_chain_task_def intro: assms)

text \<open>The rows of a set of deployments that have been dispatched can be carried along.\<close>

lemma with_started: "lifecycle_invariant (\<lambda>s. I s \<and> (\<forall>i \<in> D. started i s))"
proof -
  note J = h.with_C [of D]
  note laws = handler_invariant.I_now [OF J] handler_invariant.I_node_datasets [OF J]
    handler_invariant.I_update_deployments [OF J] handler_invariant.I_update_tasks [OF J]
    handler_invariant.I_new_task [OF J] handler_invariant.I_update_nodes [OF J] handler_invariant.I_new_node [OF J]
    handler_invariant.I_update_projects [OF J] handler_invariant.I_new_project [OF J]
    handler_invariant.I_delete_node [OF J]
  show ?thesis
  proof (intro lifecycle_invariant.intro lifecycle_invariant_axioms.intro, goal_cases)
    case 1 show ?case using J by (rule handler_invariant.axioms(1))
  next
    case (2 s) then show ?case using I_ok by blast
  next
    case (3 s now) then show ?case by (rule laws(1))
  next
    case (4 s nds) then show ?case by (rule laws(2))
  next
    case (5 s P f) then show ?case by (rule laws(3))
  next
    case (6 s d) then show ?case using I_new_deployment [of s d] started_new by blast
  next
    case (7 s g Q) then show ?case by (rule laws(4))
  next
    case (8 s t) then show ?case by (rule laws(5))
  next
    case (9 s h' R') then show ?case by (rule laws(6))
  next
    case (10 s n) then show ?case by (rule laws(7))
  next
    case (11 s k S) then show ?case by (rule laws(8))
  next
    case (12 s p) then show ?case by (rule laws(9))
  next
    case (13 s i) then show ?case by (rule laws(10))
  qed
qed

end

context lifecycle_invariant
begin

lemma keeps_completeTask: "keeps I (completeTask cfg str body)"
  by (intro h.keeps_completeTask lifecycle_invariant.keeps_on_running [OF with_started]) auto

lemma keeps_evict:
  assumes "\<And>s. I s \<Longrightarrow> started (d_id dep) s"
  shows "keeps I (evict cfg node dep)"
proof -
  have replace: "keeps I (do {
      c \<leftarrow> CreateDeployment (d_project dep) None (d_image_tag dep) (d_commit_sha dep);
      case c of
        Inl _ \<Rightarrow> State_Monad.return ()
      | Inr newDep \<Rightarrow> do {
          _ \<leftarrow> ignore (UpdateDeploymentStatus (d_id newDep) DS_Deploying '''');
          x \<leftarrow> DispatchDeploy cfg newDep project (d_image_tag newDep);
          case x of
            Inl e \<Rightarrow> do {
              _ \<leftarrow> ignore (UpdateDeploymentStatus (d_id newDep) DS_Failed e);
              ignore (sched_AdvanceDeployQueue cfg (p_id project)) }
          | Inr _ \<Rightarrow> State_Monad.return () } })" for project
  proof (rule keeps_valid, rule valid_bind [OF new_deployment], goal_cases)
    case (1 c)
    show ?case
    proof (cases c)
      case (Inr newDep)
      have k: "keeps (\<lambda>s. I s \<and> (\<forall>i \<in> {d_id newDep}. started i s)) (do {
          _ \<leftarrow> ignore (UpdateDeploymentStatus (d_id newDep) DS_Deploying '''');
          x \<leftarrow> DispatchDeploy cfg newDep project (d_image_tag newDep);
          case x of
            Inl e \<Rightarrow> do {
              _ \<leftarrow> ignore (UpdateDeploymentStatus (d_id newDep) DS_Failed e);
              ignore (sched_AdvanceDeployQueue cfg (p_id project)) }
          | Inr _ \<Rightarrow> State_Monad.return () })"
        by (intro keeps_bind keeps_case_sum keeps_return keeps_ignore
            lifecycle_invariant.keeps_UpdateDeploymentStatus [OF with_started]
            handler_invariant.keeps_DispatchDeploy [OF h.with_C]
            handler_invariant.keeps_sched_AdvanceDeployQueue [OF h.with_C]) auto
      show ?thesis unfolding Inr sum.case by (rule h.keeps_with_C [OF k]) auto
    qed (auto intro!: valid_return)
  qed
  show ?thesis
    unfolding evict_def
    by (intro keeps_bind [OF h.keeps_reads] keeps_case_sum keeps_case_option keeps_return keeps_if
        keeps_bind [OF keeps_ignore] keeps_UpdateDeploymentStatus assms replace reads_intros) auto
qed

lemma keeps_evict_all:
  "keeps I (do {
     deps \<leftarrow> GetRunningDeploymentsByNode n;
     case deps of Inl _ \<Rightarrow> State_Monad.return () | Inr ds \<Rightarrow> for_each ds (evict cfg node) })"
proof (rule keeps_valid, rule valid_bind)
  show "valid I (GetRunningDeploymentsByNode n)
    (\<lambda>r s. I s \<and> (\<forall>x. r = Inr x \<longrightarrow> (\<forall>i \<in> d_id ` set x. started i s)))"
    unfolding GetRunningDeploymentsByNode_def
    by (rule h.query_C) (auto simp: started_def)
  show "valid (\<lambda>s. I s \<and> (\<forall>x. deps = Inr x \<longrightarrow> (\<forall>i \<in> d_id ` set x. started i s)))
     (case deps of Inl _ \<Rightarrow> State_Monad.return () | Inr ds \<Rightarrow> for_each ds (evict cfg node)) (\<lambda>_. I)" for deps
  proof (cases deps)
    case (Inr ds)
    have k: "keeps (\<lambda>s. I s \<and> (\<forall>i \<in> d_id ` set ds. started i s)) (for_each ds (evict cfg node))"
      by (intro keeps_for_each lifecycle_invariant.keeps_evict [OF with_started]) auto
    show ?thesis unfolding Inr sum.case by (rule h.keeps_with_C [OF k]) auto
  qed (auto intro!: valid_return)
qed

lemma keeps_checkNodeFailovers: "keeps I (checkNodeFailovers cfg threshold)"
  unfolding checkNodeFailovers_def
  by (intro keeps_evict_all keeps_bind [OF h.keeps_reads] keeps_case_sum keeps_return keeps_for_each keeps_if
      reads_intros)

lemma keeps_build_completed:
  assumes "\<And>s. I s \<Longrightarrow> started (t_deployment row) s"
  shows "keeps I (build_completed cfg row)"
proof -
  have d: "keeps I (DispatchDeploy (sched cfg) d project tag)" if "d_id d = t_deployment row" for d project tag
    using assms that by (intro h.keeps_DispatchDeploy) simp
  have fetched: "valid I (GetDeployment i) (\<lambda>r s. I s \<and> (\<forall>d. r = Inr (Some d) \<longrightarrow> d_id d = i))" for i
  proof -
    have "valid I (GetDeployment i) (\<lambda>r. I)" by (intro valid_keeps h.keeps_reads reads_intros)
    then show ?thesis
      by (auto simp: valid_def GetDeployment_def run_query deployment_by_def dest: find_Some_mem
          split: option.splits)
  qed
  show ?thesis
    unfolding build_completed_def Let_def
  proof (intro keeps_if keeps_return, rule keeps_valid, rule valid_bind [OF fetched], goal_cases)
    case (1 r)
    show ?case
    proof (cases "\<exists>d. r = Inr (Some d)")
      case True
      then obtain d' where r: "r = Inr (Some d')" by blast
      show ?thesis unfolding r sum.case option.case
        apply (rule valid_assume [of _ "d_id d' = t_deployment row"])
         apply simp
        apply (rule valid_pre [of I])
         apply (intro valid_keeps keeps_bind keeps_case_sum keeps_case_option keeps_if keeps_return keeps_ignore
            h.keeps_SetDeploymentImageTag h.keeps_project_updates keeps_UpdateDeploymentStatus
            h.keeps_SetDeploymentHostPort h.keeps_UpdateTaskStatus h.keeps_sched_AdvanceDeployQueue
            h.keeps_autoTriggerDownstreamRedeploys d assms h.keeps_reads reads_intros)
          apply auto
        done
    qed (auto split: sum.splits option.splits intro!: valid_return)
  qed
qed

lemma keeps_checkBuildCompletions: "keeps I (checkBuildCompletions cfg)"
  unfolding checkBuildCompletions_def
proof (rule keeps_valid, rule valid_bind)
  show "valid I (query completed_builds)
    (\<lambda>r s. I s \<and> (\<forall>x. r = Inr x \<longrightarrow> (\<forall>i \<in> t_deployment ` set x. started i s)))"
    by (rule h.query_C)
      (auto simp: completed_builds_def is_chain_task_def dest!: in_set_takeD intro: chain_started)
  show "valid (\<lambda>s. I s \<and> (\<forall>x. r = Inr x \<longrightarrow> (\<forall>i \<in> t_deployment ` set x. started i s)))
     (case r of Inl _ \<Rightarrow> State_Monad.return () | Inr rows \<Rightarrow> for_each rows (build_completed cfg)) (\<lambda>_. I)" for r
  proof (cases r)
    case (Inr rows)
    have k: "keeps (\<lambda>s. I s \<and> (\<forall>i \<in> t_deployment ` set rows. started i s)) (for_each rows (build_completed cfg))"
      by (intro keeps_for_each lifecycle_invariant.keeps_build_completed [OF with_started]) auto
    show ?thesis unfolding Inr sum.case by (rule h.keeps_with_C [OF k]) auto
  qed (auto intro!: valid_return)
qed

end

section \<open>Schema and chain rule\<close>

lemma map_upd_where_in:
  "(\<And>r. r \<in> set rs \<Longrightarrow> P r \<Longrightarrow> k (f r) = k r) \<Longrightarrow> map k (upd_where P f rs) = map k rs"
  by (induction rs) auto

text \<open>What the schema sees of a changed row.\<close>

definition kept :: "db \<Rightarrow> deployment \<Rightarrow> deployment \<Rightarrow> bool" where
  "kept s e d \<longleftrightarrow> d_id d = d_id e \<and> d_project d = d_project e
     \<and> (d_node d = d_node e \<or> (\<exists>n. d_node d = Some n \<and> n \<in> n_id ` set (nodes s)))
     \<and> (\<not> undispatched (d_status e) \<longrightarrow> \<not> undispatched (d_status d))"

lemma lifecycle_ok_update_deployments:
  assumes ok: "lifecycle_ok s" and step: "\<And>d. d \<in> set (deployments s) \<Longrightarrow> P d \<Longrightarrow> row_step status_step s d (f d)"
  shows "lifecycle_ok (update_deployments P f s)"
proof -
  let ?f = "\<lambda>d. (f d)\<lparr>d_updated := db_now s\<rparr>"
  have ids: "map d_id (upd_where P ?f (deployments s)) = map d_id (deployments s)"
    using step by (intro map_upd_where_in) (simp add: row_step_def)
  then have idset: "d_id ` set (upd_where P ?f (deployments s)) = d_id ` set (deployments s)"
    by (metis set_map)
  have rows: "\<exists>e. e \<in> set (deployments s) \<and> kept s e d"
    if d: "d \<in> set (deployments (update_deployments P f s))" for d
  proof -
    from d obtain e where e: "e \<in> set (deployments s)" "d = (if P e then ?f e else e)"
      by (auto simp: set_upd_where)
    have "kept s e d"
      using step [OF e(1)] e(2) by (auto simp: kept_def row_step_def dest: status_step_started)
    then show ?thesis using e(1) by blast
  qed
  have "keys_ok (update_deployments P f s)" using ok ids by (simp add: lifecycle_ok_def keys_ok_def)
  moreover have "refs_ok (update_deployments P f s)"
    unfolding refs_ok_def
  proof (intro conjI ballI allI impI)
    fix d assume "d \<in> set (deployments (update_deployments P f s))"
    from rows [OF this] obtain e where e: "e \<in> set (deployments s)" "kept s e d" by blast
    show "d_project d \<in> p_id ` set (projects (update_deployments P f s))"
      using e ok by (auto simp: lifecycle_ok_def refs_ok_def kept_def)
    show "n \<in> n_id ` set (nodes (update_deployments P f s))" if "d_node d = Some n" for n
      using e that ok by (auto simp: lifecycle_ok_def refs_ok_def kept_def)
  qed (use ok idset in \<open>auto simp: lifecycle_ok_def refs_ok_def\<close>)
  moreover have "chain_ok (update_deployments P f s)"
    unfolding chain_ok_def
  proof (intro ballI impI)
    fix t d
    assume t: "t \<in> set (tasks (update_deployments P f s))" "is_chain_task t"
      and d: "d \<in> set (deployments (update_deployments P f s))" "d_id d = t_deployment t"
    from rows [OF d(1)] obtain e where "e \<in> set (deployments s)" "kept s e d" by blast
    then show "\<not> undispatched (d_status d)"
      using ok t d(2) by (auto simp: lifecycle_ok_def chain_ok_def kept_def)
  qed
  ultimately show ?thesis by (simp add: lifecycle_ok_def)
qed

lemma lifecycle_ok_update_tasks:
  assumes ok: "lifecycle_ok s" and same: "\<And>t. same_task t (g t)"
  shows "lifecycle_ok (update_tasks Q g s)"
proof -
  let ?g = "\<lambda>t. (g t)\<lparr>t_updated := db_now s\<rparr>"
  have ids: "map t_id (upd_where Q ?g (tasks s)) = map t_id (tasks s)"
    using same by (intro map_upd_where_in) (simp add: same_task_def)
  have rows: "\<exists>u \<in> set (tasks s). t_deployment t = t_deployment u \<and> t_node t = t_node u
      \<and> is_chain_task t = is_chain_task u" if t: "t \<in> set (upd_where Q ?g (tasks s))" for t
  proof -
    from t obtain u where u: "u \<in> set (tasks s)" "t = (if Q u then ?g u else u)"
      by (auto simp: set_upd_where)
    then show ?thesis using same [of u] by (intro bexI [of _ u]) (auto simp: same_task_def is_chain_task_def)
  qed
  have "keys_ok (update_tasks Q g s)" using ok ids by (simp add: lifecycle_ok_def keys_ok_def)
  moreover have "refs_ok (update_tasks Q g s)"
    using ok rows unfolding lifecycle_ok_def refs_ok_def by simp metis
  moreover have "chain_ok (update_tasks Q g s)"
    using ok rows unfolding lifecycle_ok_def chain_ok_def by simp metis
  ultimately show ?thesis by (simp add: lifecycle_ok_def)
qed

lemma lifecycle_ok_new_deployment:
  assumes "lifecycle_ok s" and "d_id d \<notin> d_id ` set (deployments s)" and "d_project d \<in> p_id ` set (projects s)"
    and "d_node d = None"
  shows "lifecycle_ok (s\<lparr>deployments := deployments s @ [d]\<rparr>)"
proof -
  have "keys_ok (s\<lparr>deployments := deployments s @ [d]\<rparr>)" and "refs_ok (s\<lparr>deployments := deployments s @ [d]\<rparr>)"
    using assms by (auto simp: lifecycle_ok_def keys_ok_def refs_ok_def)
  moreover have "chain_ok (s\<lparr>deployments := deployments s @ [d]\<rparr>)"
    using assms(1,2) unfolding lifecycle_ok_def refs_ok_def chain_ok_def by auto
  ultimately show ?thesis by (simp add: lifecycle_ok_def)
qed

lemma lifecycle_ok_new_task:
  assumes "lifecycle_ok s" and "t_id t \<notin> t_id ` set (tasks s)" and "t_deployment t \<in> d_id ` set (deployments s)"
    and "is_chain_task t \<Longrightarrow> started (t_deployment t) s" and "\<And>n. t_node t = Some n \<Longrightarrow> n \<in> n_id ` set (nodes s)"
  shows "lifecycle_ok (s\<lparr>tasks := tasks s @ [t]\<rparr>)"
proof -
  have "\<not> undispatched (d_status d)"
    if c: "is_chain_task t" and d: "d \<in> set (deployments s)" "d_id d = t_deployment t" for d
  proof -
    from assms(4) [OF c] obtain e where e: "e \<in> set (deployments s)" "d_id e = t_deployment t"
      "\<not> undispatched (d_status e)" by (auto simp: started_def)
    have "inj_on d_id (set (deployments s))"
      using assms(1) by (auto simp: lifecycle_ok_def keys_ok_def distinct_map)
    then have "d = e" using d e by (metis inj_onD)
    then show ?thesis using e(3) by simp
  qed
  then show ?thesis using assms(1-3,5) by (fastforce simp: lifecycle_ok_def keys_ok_def refs_ok_def chain_ok_def)
qed

lemma lifecycle_ok_nodes:
  "lifecycle_ok s \<Longrightarrow> (\<And>n. n_id (h n) = n_id n) \<Longrightarrow> lifecycle_ok (update_nodes R h s)"
  "lifecycle_ok s \<Longrightarrow> n_id n \<notin> n_id ` set (nodes s) \<Longrightarrow> lifecycle_ok (s\<lparr>nodes := nodes s @ [n]\<rparr>)"
proof -
  assume ok: "lifecycle_ok s" and h: "\<And>n. n_id (h n) = n_id n"
  have ids: "map n_id (upd_where R h (nodes s)) = map n_id (nodes s)"
    using h by (simp add: map_upd_where)
  then have "n_id ` set (upd_where R h (nodes s)) = n_id ` set (nodes s)" by (metis set_map)
  with ok ids show "lifecycle_ok (update_nodes R h s)"
    by (simp add: lifecycle_ok_def keys_ok_def refs_ok_def chain_ok_def update_nodes_def)
next
  assume "lifecycle_ok s" and "n_id n \<notin> n_id ` set (nodes s)"
  then show "lifecycle_ok (s\<lparr>nodes := nodes s @ [n]\<rparr>)"
    by (fastforce simp: lifecycle_ok_def keys_ok_def refs_ok_def chain_ok_def)
qed

lemma lifecycle_ok_projects:
  "lifecycle_ok s \<Longrightarrow> (\<And>p. p_id (k p) = p_id p) \<Longrightarrow> lifecycle_ok (update_projects S k s)"
  "lifecycle_ok s \<Longrightarrow> p_id p \<notin> p_id ` set (projects s) \<Longrightarrow> lifecycle_ok (s\<lparr>projects := projects s @ [p]\<rparr>)"
proof -
  assume ok: "lifecycle_ok s" and k: "\<And>p. p_id (k p) = p_id p"
  have ids: "map p_id (upd_where S (\<lambda>p. (k p)\<lparr>p_updated := db_now s\<rparr>) (projects s)) = map p_id (projects s)"
    using k by (simp add: map_upd_where)
  then have "p_id ` set (upd_where S (\<lambda>p. (k p)\<lparr>p_updated := db_now s\<rparr>) (projects s)) = p_id ` set (projects s)"
    by (metis set_map)
  with ok ids show "lifecycle_ok (update_projects S k s)"
    by (simp add: lifecycle_ok_def keys_ok_def refs_ok_def chain_ok_def update_projects_def)
next
  assume "lifecycle_ok s" and "p_id p \<notin> p_id ` set (projects s)"
  then show "lifecycle_ok (s\<lparr>projects := projects s @ [p]\<rparr>)"
    by (fastforce simp: lifecycle_ok_def keys_ok_def refs_ok_def chain_ok_def)
qed

lemma lifecycle_ok_delete_node:
  assumes "lifecycle_ok s"
  shows "lifecycle_ok (delete_node i s)"
proof -
  have k: "keys_ok (delete_node i s)"
    using assms by (auto simp: lifecycle_ok_def keys_ok_def delete_node_def Let_def o_def
        intro: distinct_map_filter)
  have r: "refs_ok (delete_node i s)"
    using assms by (fastforce simp: lifecycle_ok_def refs_ok_def delete_node_def Let_def image_iff split: if_splits)
  have c: "chain_ok (delete_node i s)"
    using assms by (auto simp: lifecycle_ok_def chain_ok_def delete_node_def Let_def is_chain_task_def)
  from k r c show ?thesis by (simp add: lifecycle_ok_def)
qed

lemma lifecycle_ok_frame:
  "lifecycle_ok (s\<lparr>db_faults := fs\<rparr>) = lifecycle_ok s" "lifecycle_ok (s\<lparr>db_next := n\<rparr>) = lifecycle_ok s"
  "lifecycle_ok (s\<lparr>pushed := es\<rparr>) = lifecycle_ok s" "lifecycle_ok (s\<lparr>db_now := now\<rparr>) = lifecycle_ok s"
  "lifecycle_ok (s\<lparr>node_datasets := nds\<rparr>) = lifecycle_ok s"
  by (simp_all add: lifecycle_ok_def keys_ok_def refs_ok_def chain_ok_def)

lemmas lifecycle_ok_changes = lifecycle_ok_update_deployments lifecycle_ok_update_tasks
  lifecycle_ok_new_deployment lifecycle_ok_new_task lifecycle_ok_nodes lifecycle_ok_projects
  lifecycle_ok_delete_node

interpretation ok_inv: lifecycle_invariant lifecycle_ok
  by unfold_locales (auto simp: lifecycle_ok_frame intro: lifecycle_ok_changes)

section \<open>The history of one deployment\<close>

text \<open>What may become of a deployment row.\<close>

definition evolves :: "deployment \<Rightarrow> deployment \<Rightarrow> bool" where
  "evolves d0 d \<longleftrightarrow> d_id d = d_id d0 \<and> d_project d = d_project d0 \<and> d_commit_sha d = d_commit_sha d0
     \<and> d_created d = d_created d0 \<and> prefix (d_logs d0) (d_logs d)
     \<and> (d_status d0 = DS_Superseded \<longrightarrow> d_status d = DS_Superseded)
     \<and> (\<not> undispatched (d_status d0) \<longrightarrow> \<not> undispatched (d_status d))"

definition tracks :: "deployment \<Rightarrow> db \<Rightarrow> bool" where
  "tracks d0 s \<longleftrightarrow> lifecycle_ok s \<and> (\<exists>d \<in> set (deployments s). evolves d0 d)"

lemma evolves_refl [simp]: "evolves d d"
  by (simp add: evolves_def)

lemma evolves_step:
  "evolves d0 d \<Longrightarrow> row_step status_step s d d' \<Longrightarrow> evolves d0 (d'\<lparr>d_updated := now\<rparr>)"
  by (auto simp: evolves_def row_step_def status_step_def undispatched_def)

lemma tracks_update:
  assumes "tracks d0 s" and "\<And>d. d \<in> set (deployments s) \<Longrightarrow> P d \<Longrightarrow> row_step status_step s d (f d)"
  shows "tracks d0 (update_deployments P f s)"
proof -
  from assms(1) obtain d where d: "d \<in> set (deployments s)" "evolves d0 d" by (auto simp: tracks_def)
  let ?d = "if P d then (f d)\<lparr>d_updated := db_now s\<rparr> else d"
  have "?d \<in> set (deployments (update_deployments P f s))" using d(1) by (auto simp: set_upd_where)
  moreover have "evolves d0 ?d"
    using d evolves_step [OF d(2) assms(2) [OF d(1)]] by simp
  ultimately show ?thesis
    using lifecycle_ok_update_deployments assms unfolding tracks_def by blast
qed

lemma tracks_delete_node: "tracks d0 s \<Longrightarrow> tracks d0 (delete_node i s)"
  unfolding tracks_def
  by (auto simp: delete_node_def Let_def evolves_def intro!: lifecycle_ok_delete_node [unfolded delete_node_def Let_def])

interpretation track_inv: lifecycle_invariant "tracks d0" for d0
proof unfold_locales
  show "tracks d0 (update_nodes R h s)" if "tracks d0 s" "\<And>n. n_id (h n) = n_id n" for s R h
    using that lifecycle_ok_nodes(1) [of s h R] by (simp add: tracks_def update_nodes_def)
  show "tracks d0 (update_projects S k s)" if "tracks d0 s" "\<And>p. p_id (k p) = p_id p" for s S k
    using that lifecycle_ok_projects(1) [of s k S] by (simp add: tracks_def update_projects_def)
  show "tracks d0 (update_tasks Q g s)" if "tracks d0 s" "\<And>t. same_task t (g t)" for s Q g
    using that lifecycle_ok_update_tasks [of s g Q] by (simp add: tracks_def)
  show "tracks d0 (s\<lparr>deployments := deployments s @ [d]\<rparr>)"
    if "tracks d0 s" "d_id d \<notin> d_id ` set (deployments s)" "d_project d \<in> p_id ` set (projects s)"
      "d_node d = None" for s d
    using that lifecycle_ok_new_deployment [of s d] by (auto simp: tracks_def)
  show "tracks d0 (s\<lparr>tasks := tasks s @ [t]\<rparr>)"
    if "tracks d0 s" "t_id t \<notin> t_id ` set (tasks s)" "t_deployment t \<in> d_id ` set (deployments s)"
      "is_chain_task t \<Longrightarrow> started (t_deployment t) s" "\<And>n. t_node t = Some n \<Longrightarrow> n \<in> n_id ` set (nodes s)" for s t
    using that lifecycle_ok_new_task [of s t] by (simp add: tracks_def)
  show "tracks d0 (s\<lparr>nodes := nodes s @ [n]\<rparr>)" if "tracks d0 s" "n_id n \<notin> n_id ` set (nodes s)" for s n
    using that lifecycle_ok_nodes(2) [of s n] by (simp add: tracks_def)
  show "tracks d0 (s\<lparr>projects := projects s @ [p]\<rparr>)" if "tracks d0 s" "p_id p \<notin> p_id ` set (projects s)" for s p
    using that lifecycle_ok_projects(2) [of s p] by (simp add: tracks_def)
  show "tracks d0 (update_deployments P f s)"
    if "tracks d0 s" "\<And>d. d \<in> set (deployments s) \<Longrightarrow> P d \<Longrightarrow> row_step status_step s d (f d)" for s P f
    using that by (rule tracks_update)
  show "tracks d0 (delete_node i s)" if "tracks d0 s" for s i
    using that by (rule tracks_delete_node)
qed (simp_all add: tracks_def lifecycle_ok_frame)

end
