(* ===== verification/Lifecycle_Steps.thy ===== *)
theory Lifecycle_Steps
  imports Lifecycle_Inv
begin

text \<open>
  The lifecycle as a transition system. \<open>queue_step\<close> has the handlers that go through the deploy queue
  and the environment (the clock, the outcomes of statements still to come, projects created or
  paused, nodes deleted); \<open>lifecycle_step\<close> adds the three that move a deployment outside the queue:
  a report that a build has started, the build watcher and the failover of dead nodes. The reachable
  states, the history of a deployment, and single flight: kept by every \<open>queue_step\<close>, and lost in the
  two runs at the end.
\<close>

section \<open>Steps\<close>

inductive queue_step :: "server_cfg \<Rightarrow> db \<Rightarrow> db \<Rightarrow> bool" for cfg where
  Trigger: "run_state (TriggerDeployment (sched cfg) pid) s = (r, s') \<Longrightarrow> queue_step cfg s s'"
| Sweep: "run_state (SweepDeployQueues (sched cfg)) s = (u, s') \<Longrightarrow> queue_step cfg s s'"
| Register: "run_state (registerNode cfg node_body) s = (reply, s') \<Longrightarrow> queue_step cfg s s'"
| Poll: "run_state (pollTasks cfg node_id) s = (reply, s') \<Longrightarrow> queue_step cfg s s'"
| Append_log: "run_state (api_appendDeploymentLog cfg dep line) s = (reply, s') \<Longrightarrow> queue_step cfg s s'"
| Complete: "run_state (completeTask cfg task_id body) s = (reply, s') \<Longrightarrow>
    (\<And>c. body = Inr c \<Longrightarrow> c_status c \<noteq> TS_Running) \<Longrightarrow> queue_step cfg s s'"
| Pause: "run_state (SetProjectPaused pid b) s = (e, s') \<Longrightarrow> queue_step cfg s s'"
| New_project: "p_id p \<notin> p_id ` set (projects s) \<Longrightarrow> queue_step cfg s (s\<lparr>projects := projects s @ [p]\<rparr>)"
| Delete_node: "run_state (DeleteNode n) s = (e, s') \<Longrightarrow> queue_step cfg s s'"
| Clock: "db_now s \<le> now \<Longrightarrow> queue_step cfg s (s\<lparr>db_now := now\<rparr>)"
| Outcomes: "queue_step cfg s (s\<lparr>db_faults := fs\<rparr>)"

inductive lifecycle_step :: "server_cfg \<Rightarrow> db \<Rightarrow> db \<Rightarrow> bool" for cfg where
  Queue: "queue_step cfg s s' \<Longrightarrow> lifecycle_step cfg s s'"
| Report: "run_state (completeTask cfg task_id body) s = (reply, s') \<Longrightarrow> lifecycle_step cfg s s'"
| Builds: "run_state (checkBuildCompletions cfg) s = (u, s') \<Longrightarrow> lifecycle_step cfg s s'"
| Failover: "run_state (checkNodeFailovers (sched cfg) threshold) s = (u, s') \<Longrightarrow> lifecycle_step cfg s s'"

inductive_cases queue_stepE: "queue_step cfg s s'"
inductive_cases lifecycle_stepE: "lifecycle_step cfg s s'"

definition initial :: "db \<Rightarrow> bool" where
  "initial s \<longleftrightarrow> deployments s = [] \<and> tasks s = [] \<and> nodes s = [] \<and> projects s = []"

inductive reachable :: "server_cfg \<Rightarrow> db \<Rightarrow> bool" for cfg where
  Start: "initial s \<Longrightarrow> reachable cfg s"
| Step: "reachable cfg s \<Longrightarrow> lifecycle_step cfg s s' \<Longrightarrow> reachable cfg s'"

context handler_invariant
begin

lemma I_queue_step:
  assumes "queue_step cfg s s'" and "I s"
  shows "I s'"
  using assms
proof (cases rule: queue_step.cases)
  case (Complete task_id body reply)
  have "keeps I (completeTask cfg task_id body)"
    using Complete(2) by (intro keeps_completeTask) auto
  then show ?thesis using assms(2) Complete(1) by (rule keepsE)
qed (auto intro: I_now I_new_project simp: I_faults
      dest: keepsE [OF keeps_TriggerDeployment] keepsE [OF keeps_SweepDeployQueues] keepsE [OF keeps_registerNode]
        keepsE [OF keeps_pollTasks] keepsE [OF keeps_appendDeploymentLog] keepsE [OF keeps_project_updates(4)]
        keepsE [OF keeps_DeleteNode])

end

context lifecycle_invariant
begin

lemma I_lifecycle_step:
  assumes "lifecycle_step cfg s s'" and "I s"
  shows "I s'"
  using assms
  by (cases rule: lifecycle_step.cases)
    (auto dest: h.I_queue_step keepsE [OF keeps_completeTask] keepsE [OF keeps_checkBuildCompletions]
      keepsE [OF keeps_checkNodeFailovers])

lemma I_lifecycle_steps: "(lifecycle_step cfg)\<^sup>*\<^sup>* s s' \<Longrightarrow> I s \<Longrightarrow> I s'"
  by (induction rule: rtranclp_induct) (auto dest: I_lifecycle_step)

end

section \<open>Reachable states\<close>

lemma reachable_ok: "reachable cfg s \<Longrightarrow> lifecycle_ok s"
proof (induction rule: reachable.induct)
  case (Start s)
  then show ?case by (simp add: initial_def lifecycle_ok_def keys_ok_def refs_ok_def chain_ok_def)
next
  case (Step s s')
  then show ?case by (blast intro: ok_inv.I_lifecycle_step)
qed

text \<open>
  C1: In every reachable state, whatever statements fail on the way: keys are unique and references
  resolve, and no build or deploy task exists for a deployment that is still queued or has been
  superseded. What the queue has not dispatched never runs on an agent.
\<close>

theorem reachable_queue_not_executed:
  assumes "reachable cfg s"
  shows "keys_ok s \<and> refs_ok s \<and> (\<forall>t \<in> set (tasks s). \<forall>d \<in> set (deployments s).
    t_type t \<in> {TT_Build, TT_Deploy} \<and> d_id d = t_deployment t \<longrightarrow> d_status d \<notin> {DS_Queued, DS_Superseded})"
  using reachable_ok [OF assms]
  by (auto simp: lifecycle_ok_def chain_ok_def is_chain_task_def undispatched_def)


section \<open>Single flight\<close>

definition flight_ok :: "db \<Rightarrow> bool" where
  "flight_ok s \<longleftrightarrow> distinct_ids s \<and> single_flight s"

lemma length_filter_map_le:
  "(\<And>x. x \<in> set xs \<Longrightarrow> P (f x) \<Longrightarrow> P x) \<Longrightarrow> length (filter P (map f xs)) \<le> length (filter P xs)"
  by (induction xs) auto

lemma single_flight_mono:
  assumes "single_flight s" and "deployments s' = map f (deployments s)"
    and "\<And>d. d \<in> set (deployments s) \<Longrightarrow> d_project (f d) = d_project d \<and> (in_flight (d_status (f d)) \<longrightarrow> in_flight (d_status d))"
  shows "single_flight s'"
  unfolding single_flight_def
proof
  fix pid
  have "length (in_flight_of pid s') \<le> length (in_flight_of pid s)"
    unfolding in_flight_of_def assms(2) by (rule length_filter_map_le) (use assms(3) in auto)
  then show "length (in_flight_of pid s') \<le> 1"
    using assms(1) unfolding single_flight_def by (metis order_trans)
qed

lemma flight_ok_update_deployments:
  assumes "flight_ok s"
    and "\<And>d. d \<in> set (deployments s) \<Longrightarrow> P d \<Longrightarrow> row_step (\<lambda>a b. in_flight b \<longrightarrow> in_flight a) s d (f d)"
  shows "flight_ok (update_deployments P f s)"
proof -
  let ?f = "\<lambda>d. if P d then (f d)\<lparr>d_updated := db_now s\<rparr> else d"
  have "single_flight (update_deployments P f s)"
    by (rule single_flight_mono [of s _ ?f])
      (use assms in \<open>auto simp: flight_ok_def upd_where_def row_step_def\<close>)
  moreover have "map d_id (upd_where P (\<lambda>d. (f d)\<lparr>d_updated := db_now s\<rparr>) (deployments s)) = map d_id (deployments s)"
    using assms(2) by (intro map_upd_where_in) (simp add: row_step_def)
  ultimately show ?thesis using assms(1) by (simp add: flight_ok_def distinct_ids_def)
qed

lemma flight_ok_tasks:
  "flight_ok s \<Longrightarrow> (\<And>t. same_task t (g t)) \<Longrightarrow> flight_ok (update_tasks Q g s)"
  "flight_ok s \<Longrightarrow> t_id t \<notin> t_id ` set (tasks s) \<Longrightarrow> flight_ok (s\<lparr>tasks := tasks s @ [t]\<rparr>)"
  by (simp_all add: flight_ok_def distinct_ids_def single_flight_def in_flight_of_def map_upd_where same_task_def)

lemma flight_ok_new:
  "flight_ok s \<Longrightarrow> d_id d \<notin> d_id ` set (deployments s) \<Longrightarrow> d_status d = DS_Queued \<Longrightarrow>
   flight_ok (s\<lparr>deployments := deployments s @ [d]\<rparr>)"
  by (simp add: flight_ok_def distinct_ids_def single_flight_def in_flight_of_def)

lemma flight_ok_delete_node:
  assumes "flight_ok s"
  shows "flight_ok (delete_node i s)"
proof -
  have "single_flight (delete_node i s)"
    by (rule single_flight_mono [of s _ "\<lambda>d. d\<lparr>d_node := if d_node d = Some i then None else d_node d\<rparr>"])
      (use assms in \<open>auto simp: flight_ok_def delete_node_def Let_def\<close>)
  then show ?thesis using assms by (simp add: flight_ok_def distinct_ids_def delete_node_def Let_def o_def)
qed

lemma flight_ok_frame:
  "flight_ok (s\<lparr>db_faults := fs\<rparr>) = flight_ok s" "flight_ok (s\<lparr>db_next := n\<rparr>) = flight_ok s"
  "flight_ok (s\<lparr>pushed := es\<rparr>) = flight_ok s" "flight_ok (s\<lparr>db_now := now\<rparr>) = flight_ok s"
  "flight_ok (s\<lparr>node_datasets := nds\<rparr>) = flight_ok s" "flight_ok (s\<lparr>nodes := ns\<rparr>) = flight_ok s"
  "flight_ok (s\<lparr>projects := ps\<rparr>) = flight_ok s" "flight_ok (update_nodes R h s) = flight_ok s"
  "flight_ok (update_projects S k s) = flight_ok s"
  by (simp_all add: flight_ok_def distinct_ids_def single_flight_def in_flight_of_def update_nodes_def update_projects_def)

interpretation flight_inv: handler_invariant flight_ok "\<lambda>a b. in_flight b \<longrightarrow> in_flight a" "\<lambda>_ _. True"
proof unfold_locales
  show "flight_ok (update_deployments P f s)"
    if "flight_ok s" "\<And>d. d \<in> set (deployments s) \<Longrightarrow> P d \<Longrightarrow> row_step (\<lambda>a b. in_flight b \<longrightarrow> in_flight a) s d (f d)"
    for s P f
    using that by (rule flight_ok_update_deployments)
  show "flight_ok (advance_state pid pol s)" if "flight_ok s" for s pid pol
    using that single_flight_advance by (auto simp: flight_ok_def)
  show "distinct_ids s" if "flight_ok s" for s
    using that by (simp add: flight_ok_def)
qed (auto simp: flight_ok_frame intro: flight_ok_tasks flight_ok_new flight_ok_delete_node)

text \<open>
  Single flight is an invariant of the queue: every step that goes through it, with any
  statements failing, keeps at most one deployment of each project in flight.
\<close>

theorem queue_step_single_flight:
  assumes "queue_step cfg s s'" and "distinct_ids s" and "single_flight s"
  shows "distinct_ids s' \<and> single_flight s'"
  using flight_inv.I_queue_step [OF assms(1)] assms(2,3) by (simp add: flight_ok_def)

section \<open>Entry and completion\<close>

text \<open>
  The gate of every deployment path: for a project that does not exist, is paused or only holds a
  domain, \<open>TriggerDeployment\<close> returns an error and changes no table, whatever statements fail.
\<close>

theorem TriggerDeployment_gate:
  assumes "\<forall>p. project_by s pid = Some p \<longrightarrow> p_paused p \<or> p_type p = PT_DomainOnly"
    and "run_state (TriggerDeployment cfg pid) s = (r, s')"
  shows "(\<exists>e. r = Inl e) \<and> deployments s' = deployments s \<and> tasks s' = tasks s \<and> projects s' = projects s
    \<and> nodes s' = nodes s"
proof -
  have same: "project_by (popped s) pid = project_by s pid" by (simp add: project_by_def)
  show ?thesis
    using assms same
    by (auto simp: TriggerDeployment_def GetProject_def run_query split: option.splits if_splits)
qed

text \<open>The supply of identifiers yields no task identifier twice.\<close>

definition fresh_supply :: "db \<Rightarrow> bool" where
  "fresh_supply s \<longleftrightarrow> inj (db_uuid s) \<and> (\<forall>n \<ge> db_next s. db_uuid s n \<notin> t_id ` set (tasks s))"

definition moved_from :: "task \<Rightarrow> deployment \<Rightarrow> bool" where
  "moved_from t old \<longleftrightarrow> (case (d_node old, t_node t) of (Some n, Some m) \<Rightarrow> n \<noteq> m | _ \<Rightarrow> False)"

lemma find_key: "x \<in> set xs \<Longrightarrow> find (\<lambda>y. k y = k x) xs \<noteq> None"
  by (auto simp: find_None_iff)

lemma cleanup_loop:
  assumes "db_faults s = []" and "fresh_supply s"
    and "\<forall>old \<in> set olds. d_id old \<in> d_id ` set (deployments s)
      \<and> (\<forall>n. d_node old = Some n \<longrightarrow> n \<in> n_id ` set (nodes s))"
  shows "\<exists>s' new. run_state (for_each olds (\<lambda>old. case (d_node old, t_node task) of
        (Some n, Some m) \<Rightarrow> if n \<noteq> m then ignore (DispatchCleanup n old pfx) else State_Monad.return ()
      | _ \<Rightarrow> State_Monad.return ())) s = ((), s')
    \<and> tasks s' = tasks s @ new \<and> deployments s' = deployments s
    \<and> map (\<lambda>t. (t_type t, t_node t, t_deployment t, t_status t)) new
      = map (\<lambda>old. (TT_Cleanup, d_node old, d_id old, TS_Pending)) (filter (moved_from task) olds)"
  using assms
proof (induction olds arbitrary: s)
  case Nil
  then show ?case by (intro exI [of _ s] exI [of _ "[]"]) simp
next
  case (Cons old olds)
  show ?case
  proof (cases "moved_from task old")
    case False
    then have "(case (d_node old, t_node task) of
        (Some n, Some m) \<Rightarrow> if n \<noteq> m then ignore (DispatchCleanup n old pfx) else State_Monad.return ()
      | _ \<Rightarrow> State_Monad.return ()) = State_Monad.return ()"
      by (auto simp: moved_from_def split: option.splits)
    then show ?thesis using Cons.IH [of s] Cons.prems False by simp
  next
    case True
    then obtain n m where nm: "d_node old = Some n" "t_node task = Some m" "n \<noteq> m"
      by (auto simp: moved_from_def split: option.splits)
    let ?i = "db_uuid s (db_next s)"
    let ?t = "\<lparr>t_id = ?i, t_type = TT_Cleanup, t_node = Some n, t_deployment = d_id old,
      t_payload = [(''domain_prefix'', PStr pfx)], t_status = TS_Pending, t_result = RText '''',
      t_created = db_now s, t_updated = db_now s\<rparr>"
    let ?s = "s\<lparr>db_next := Suc (db_next s), tasks := tasks s @ [?t]\<rparr>"
    have "?i \<notin> t_id ` set (tasks s)"
      using Cons.prems(2) unfolding fresh_supply_def by blast
    then have "task_by s ?i = None" unfolding task_by_def find_None_iff by (metis image_eqI)
    moreover have "deployment_by s (d_id old) \<noteq> None"
      using Cons.prems(3) by (auto simp: deployment_by_def find_None_iff)
    moreover have "node_of s (Some n) \<noteq> None"
      using Cons.prems(3) nm(1) by (auto simp: node_of_def node_by_def find_None_iff)
    ultimately have run: "run_state (DispatchCleanup n old pfx) s = (Inr ?i, ?s)"
      using Cons.prems(1)
      by (auto simp: DispatchCleanup_def new_task_def CreateTask_def Let_def task_by_def deployment_by_def
          node_of_def node_by_def)
    have fresh: "fresh_supply ?s"
      using Cons.prems(2) by (auto simp: fresh_supply_def inj_eq)
    have "\<forall>old \<in> set olds. d_id old \<in> d_id ` set (deployments ?s)
      \<and> (\<forall>n. d_node old = Some n \<longrightarrow> n \<in> n_id ` set (nodes ?s))" using Cons.prems(3) by simp
    from Cons.IH [OF _ fresh this] Cons.prems(1) obtain s' new
      where IH: "run_state (for_each olds (\<lambda>old. case (d_node old, t_node task) of
        (Some n, Some m) \<Rightarrow> if n \<noteq> m then ignore (DispatchCleanup n old pfx) else State_Monad.return ()
      | _ \<Rightarrow> State_Monad.return ())) ?s = ((), s')"
        "tasks s' = tasks ?s @ new" "deployments s' = deployments ?s"
        "map (\<lambda>t. (t_type t, t_node t, t_deployment t, t_status t)) new
          = map (\<lambda>old. (TT_Cleanup, d_node old, d_id old, TS_Pending)) (filter (moved_from task) olds)"
      by auto
    show ?thesis
      using IH run nm True by (intro exI [of _ s'] exI [of _ "?t # new"]) simp
  qed
qed

text \<open>
  When a deploy task has completed, with no failing statement, every other running deployment of
  the project is stopped, no other row changes, and exactly one pending cleanup task is created for
  each stopped deployment whose container ran on another node than the task's, in order.
\<close>

theorem retire_previous_result:
  assumes "db_faults s = []" and "lifecycle_ok s" and "fresh_supply s"
    and "deployment_by s (t_deployment task) = Some d" and "project_by s (d_project d) = Some p"
  defines "old \<equiv> \<lambda>x. d_project x = d_project d \<and> d_id x \<noteq> d_id d \<and> d_status x = DS_Running"
  shows "\<exists>s' new. run_state (retire_previous task) s = ((), s')
    \<and> deployments s' = map (\<lambda>x. if old x then x\<lparr>d_status := DS_Stopped, d_updated := db_now s\<rparr> else x) (deployments s)
    \<and> tasks s' = tasks s @ new
    \<and> map (\<lambda>t. (t_type t, t_node t, t_deployment t, t_status t)) new
      = map (\<lambda>x. (TT_Cleanup, d_node x, d_id x, TS_Pending)) (filter (moved_from task) (filter old (deployments s)))"
proof -
  have id: "d_id d = t_deployment task"
    using assms(4) by (auto simp: deployment_by_def dest: find_Some_mem)
  let ?stop = "\<lambda>x. x\<lparr>d_status := DS_Stopped, d_updated := db_now s\<rparr>"
  let ?olds = "map ?stop (filter old (deployments s))"
  let ?s = "update_deployments old (\<lambda>x. x\<lparr>d_status := DS_Stopped\<rparr>) s"
  have ids: "d_id ` set (deployments ?s) = d_id ` set (deployments s)"
  proof -
    have "map d_id (deployments ?s) = map d_id (deployments s)" by (simp add: map_upd_where)
    then show ?thesis by (metis set_map)
  qed
  have "\<forall>x \<in> set ?olds. d_id x \<in> d_id ` set (deployments ?s)
      \<and> (\<forall>n. d_node x = Some n \<longrightarrow> n \<in> n_id ` set (nodes ?s))"
    unfolding ids using assms(2) by (auto simp: lifecycle_ok_def refs_ok_def)
  moreover have "fresh_supply ?s" using assms(3) by (simp add: fresh_supply_def update_deployments_def)
  ultimately obtain s' new where
    loop: "run_state (for_each ?olds (\<lambda>old. case (d_node old, t_node task) of
        (Some n, Some m) \<Rightarrow> if n \<noteq> m then ignore (DispatchCleanup n old (p_domain_prefix p)) else State_Monad.return ()
      | _ \<Rightarrow> State_Monad.return ())) ?s = ((), s')"
      "tasks s' = tasks ?s @ new" "deployments s' = deployments ?s"
      "map (\<lambda>t. (t_type t, t_node t, t_deployment t, t_status t)) new
        = map (\<lambda>old. (TT_Cleanup, d_node old, d_id old, TS_Pending)) (filter (moved_from task) ?olds)"
    using cleanup_loop [where s = ?s and olds = ?olds and task = task and pfx = "p_domain_prefix p"] assms(1) by auto
  have "run_state (retire_previous task) s = ((), s')"
    using assms(1,4,5) loop(1)
    by (simp add: retire_previous_def GetDeployment_def GetProject_def StopProjectDeployments_def Let_def
        old_def id cong: option.case_cong)
  moreover have "map (\<lambda>x. (TT_Cleanup, d_node x, d_id x, TS_Pending)) (filter (moved_from task) ?olds)
      = map (\<lambda>x. (TT_Cleanup, d_node x, d_id x, TS_Pending)) (filter (moved_from task) (filter old (deployments s)))"
    by (simp add: filter_map o_def moved_from_def)
  ultimately show ?thesis
    using loop by (intro exI [of _ s'] exI [of _ new]) (simp add: upd_where_def)
qed

end
