(* ===== verification/Lifecycle_Runs.thy ===== *)
theory Lifecycle_Runs
  imports Sample Lifecycle_Steps
begin

text \<open>
  The theorems on the deploy queue, placement, dispatch and the lifecycle at concrete databases, and
  the two runs in which a handler that bypasses the queue puts a second deployment of a project in
  flight.
\<close>

section \<open>Concrete databases\<close>

lemma single_flight_code [code]:
  "single_flight s \<longleftrightarrow> (\<forall>d \<in> set (deployments s). length (in_flight_of (d_project d) s) \<le> 1)"
proof
  assume *: "\<forall>d \<in> set (deployments s). length (in_flight_of (d_project d) s) \<le> 1"
  show "single_flight s"
    unfolding single_flight_def
  proof
    fix pid
    show "length (in_flight_of pid s) \<le> 1"
    proof (cases "in_flight_of pid s")
      case (Cons d ds)
      then have "d \<in> set (in_flight_of pid s)" by simp
      then have "d \<in> set (deployments s)" "d_project d = pid" by (auto simp: in_flight_of_def)
      then show ?thesis using * by auto
    qed simp
  qed
qed (simp add: single_flight_def)

lemma refs_ok_code [code]:
  "refs_ok s \<longleftrightarrow> (\<forall>d \<in> set (deployments s). d_project d \<in> set (map p_id (projects s)))
     \<and> (\<forall>t \<in> set (tasks s). t_deployment t \<in> set (map d_id (deployments s)))
     \<and> (\<forall>d \<in> set (deployments s). (case d_node d of None \<Rightarrow> True | Some n \<Rightarrow> n \<in> set (map n_id (nodes s))))
     \<and> (\<forall>t \<in> set (tasks s). (case t_node t of None \<Rightarrow> True | Some n \<Rightarrow> n \<in> set (map n_id (nodes s))))"
  by (auto simp: refs_ok_def split: option.splits)

lemma trigger_step:
  "queue_step sample_server s (snd (run_state (TriggerDeployment sample_cfg pid) s))"
  using queue_step.Trigger [where cfg = sample_server and pid = pid and s = s, OF prod.collapse [symmetric]]
  by (simp add: sample_server_def)

text \<open>One deployment runs, one has been building for too long, two wait.\<close>

definition stale_db :: db where
  "stale_db = sample_db (hours 7)
     [sample_deployment ''a'' DS_Running (Some ''live'') 0, sample_deployment ''x'' DS_Building None 0,
      sample_deployment ''b'' DS_Queued None (hours 6), sample_deployment ''c'' DS_Queued None (hours 6 + 1)]
     [sample_task ''t'' TT_Build TS_Running ''dead'' ''x'' 0]
     [sample_node ''dead'' RoleBuilder 0, sample_node ''live'' RoleDeploy (hours 7),
      sample_node ''builder'' RoleBuilder (hours 7)]"

lemma stale_ok: "distinct_ids stale_db" "single_flight stale_db" "lifecycle_ok stale_db"
  "db_faults stale_db = []"
  by code_simp+

lemma stale_run:
  obtains res s' where "run_state (store_AdvanceDeployQueue ''p'' defaultDeployQueuePolicy) stale_db = (Inr res, s')"
    and "qa_reaped res = [''x'']" and "db_faults s' = []"
proof -
  from advance_runs [OF stale_ok(4)] obtain res
    where run: "run_state (store_AdvanceDeployQueue ''p'' defaultDeployQueuePolicy) stale_db
      = (Inr res, advance_state ''p'' defaultDeployQueuePolicy stale_db)" by blast
  have "map_sum id qa_reaped (fst (run_state (store_AdvanceDeployQueue ''p'' defaultDeployQueuePolicy) stale_db))
      = Inr [''x'']" by code_simp
  then show thesis using that run stale_ok(4) by simp
qed

section \<open>The queue\<close>

theorem AdvanceDeployQueue_refines_abs_witness:
  "\<exists>res s'. run_state (store_AdvanceDeployQueue ''p'' defaultDeployQueuePolicy) stale_db = (Inr res, s')
     \<and> abs_queue ''p'' stale_db = ([''x''], [''c'', ''b'']) \<and> abs_queue ''p'' s' = ([''c''], [])"
proof -
  obtain res s' where run: "run_state (store_AdvanceDeployQueue ''p'' defaultDeployQueuePolicy) stale_db = (Inr res, s')"
    and reaped: "qa_reaped res = [''x'']" by (rule stale_run)
  have before: "abs_queue ''p'' stale_db = ([''x''], [''c'', ''b''])" by code_simp
  have "abs_queue ''p'' s' = ([''c''], [])"
    using AdvanceDeployQueue_refines_abs [OF stale_ok(1) run, of "''p''"] reaped before by simp
  then show ?thesis using run before by blast
qed

theorem AdvanceDeployQueue_single_flight_witness:
  "single_flight (snd (run_state (store_AdvanceDeployQueue ''p'' defaultDeployQueuePolicy) stale_db))"
  using AdvanceDeployQueue_single_flight [OF stale_ok(1,2) prod.collapse [symmetric]] .

theorem AdvanceDeployQueue_error_atomic_witness:
  "deployments (snd (run_state (store_AdvanceDeployQueue ''p'' defaultDeployQueuePolicy)
     (stale_db\<lparr>db_faults := [None, None, None, Some ''gone'']\<rparr>))) = deployments stale_db"
proof -
  let ?s = "stale_db\<lparr>db_faults := [None, None, None, Some ''gone'']\<rparr>"
  let ?r = "run_state (store_AdvanceDeployQueue ''p'' defaultDeployQueuePolicy) ?s"
  have "fst ?r = Inl ''fail lost tasks: gone''" by code_simp
  then have run: "?r = (Inl ''fail lost tasks: gone'', snd ?r)" by (metis prod.collapse)
  have "deployments (snd ?r) \<noteq> deployments (advance_state ''p'' defaultDeployQueuePolicy ?s)" by code_simp
  then show ?thesis using AdvanceDeployQueue_error_atomic [OF run] by simp
qed

theorem AdvanceDeployQueue_idempotent_witness:
  "\<exists>s'. snd (run_state (store_AdvanceDeployQueue ''p'' defaultDeployQueuePolicy) stale_db) = s'
     \<and> run_state (store_AdvanceDeployQueue ''p'' defaultDeployQueuePolicy) s'
       = (Inr \<lparr>qa_dispatch = None, qa_superseded = [], qa_reaped = []\<rparr>, s')"
proof -
  have pol: "0 \<le> grace defaultDeployQueuePolicy" "0 \<le> hard_timeout defaultDeployQueuePolicy" by code_simp+
  obtain res s' where run: "run_state (store_AdvanceDeployQueue ''p'' defaultDeployQueuePolicy) stale_db = (Inr res, s')"
    and "db_faults s' = []" by (rule stale_run)
  then show ?thesis using AdvanceDeployQueue_idempotent [OF stale_ok(1) pol run] by auto
qed

theorem AdvanceDeployQueue_progress_witness:
  "\<exists>res s' d. run_state (store_AdvanceDeployQueue ''p'' defaultDeployQueuePolicy) stale_db = (Inr res, s')
     \<and> qa_dispatch res = Some d \<and> d_id d = ''c''"
proof -
  have "\<forall>d \<in> set (in_flight_of ''p'' stale_db). presumed_lost defaultDeployQueuePolicy stale_db d" by code_simp
  then have lost: "\<And>d. d \<in> set (in_flight_of ''p'' stale_db) \<Longrightarrow> presumed_lost defaultDeployQueuePolicy stale_db d" by blast
  have q: "queued_of ''p'' stale_db \<noteq> []" by code_simp
  from AdvanceDeployQueue_progress [OF stale_ok(1,4) lost q] obtain res s' d
    where run: "run_state (store_AdvanceDeployQueue ''p'' defaultDeployQueuePolicy) stale_db = (Inr res, s')"
      "qa_dispatch res = Some d" by blast
  have "map_sum id (map_option d_id \<circ> qa_dispatch)
      (fst (run_state (store_AdvanceDeployQueue ''p'' defaultDeployQueuePolicy) stale_db)) = Inr (Some ''c'')"
    by code_simp
  then show ?thesis using run by auto
qed

section \<open>Placement and dispatch\<close>

theorem PickDeployNode_active_witness:
  "\<exists>n s'. run_state (PickDeployNode sample_cfg []) failover_db = (Inr n, s') \<and> n \<in> set (nodes failover_db)
     \<and> db_now failover_db - n_last_seen n < minutes 2"
proof -
  let ?r = "run_state (PickDeployNode sample_cfg []) failover_db"
  have "map_sum id n_id (fst ?r) = Inr ''live''" by code_simp
  then obtain n where "?r = (Inr n, snd ?r)" by (cases "fst ?r") (auto, metis prod.collapse)
  with PickDeployNode_active [OF sample_sorts this] show ?thesis by blast
qed


theorem make_room_evicts_lru_prefix_witness:
  "\<exists>k s'. run_state (make_room \<lparr>ns_node = sample_node ''live'' RoleDeploy 0, ns_score = 0, ns_missing = 1200, ns_cached = []\<rparr>)
       (stale_db\<lparr>node_datasets := [\<lparr>nd_node = ''live'', nd_dataset = ''d1'', nd_last_used = 2, nd_size = 500\<rparr>,
          \<lparr>nd_node = ''live'', nd_dataset = ''d2'', nd_last_used = 1, nd_size = 500\<rparr>]\<rparr>)
     = (Inr (sample_node ''live'' RoleDeploy 0), s') \<and> map nd_dataset (node_datasets s') = [''d1''] \<and> k = (1::nat)"
proof -
  let ?s = "stale_db\<lparr>node_datasets := [\<lparr>nd_node = ''live'', nd_dataset = ''d1'', nd_last_used = 2, nd_size = 500\<rparr>,
          \<lparr>nd_node = ''live'', nd_dataset = ''d2'', nd_last_used = 1, nd_size = 500\<rparr>]\<rparr>"
  let ?n = "sample_node ''live'' RoleDeploy 0"
  let ?b = "\<lparr>ns_node = ?n, ns_score = 0, ns_missing = 1200, ns_cached = []\<rparr>"
  have h: "db_faults ?s = []" "free_bytes ?n < ns_missing ?b" "?n = ns_node ?b" by code_simp+
  from make_room_evicts_lru_prefix [OF h] obtain s' where run: "run_state (make_room ?b) ?s = (Inr ?n, s')" by blast
  have "map nd_dataset (node_datasets (snd (run_state (make_room ?b) ?s))) = [''d1'']" by code_simp
  then show ?thesis using run by auto
qed

lemma dispatch_run:
  obtains s' where "run_state (DispatchDeploy sample_cfg (sample_deployment ''b'' DS_Building None 0) sample_project ''img'')
    failover_db = (Inr (), s')"
proof -
  let ?r = "run_state (DispatchDeploy sample_cfg (sample_deployment ''b'' DS_Building None 0) sample_project ''img'') failover_db"
  have "fst ?r = Inr ()" by code_simp
  then show thesis using that by (metis prod.collapse)
qed

theorem DispatchDeploy_creates_task_witness:
  "\<exists>s' t. run_state (DispatchDeploy sample_cfg (sample_deployment ''b'' DS_Building None 0) sample_project ''img'') failover_db
       = (Inr (), s') \<and> tasks s' = tasks failover_db @ [t] \<and> t_type t = TT_Deploy \<and> t_deployment t = ''b''"
proof -
  obtain s' where run: "run_state (DispatchDeploy sample_cfg (sample_deployment ''b'' DS_Building None 0) sample_project ''img'')
    failover_db = (Inr (), s')" by (rule dispatch_run)
  from DispatchDeploy_creates_task [OF sample_sorts run] show ?thesis
    using run by (auto simp: sample_deployment_def)
qed


section \<open>The lifecycle\<close>

definition empty_db :: db where
  "empty_db = (sample_db 0 [] [] [])\<lparr>projects := []\<rparr>"

lemma empty_reachable: "reachable sample_server empty_db"
  by (rule reachable.Start) code_simp

text \<open>A project is created and a deployment of it triggered; no node is there to build it.\<close>

definition first_db :: db where
  "first_db = snd (run_state (TriggerDeployment sample_cfg ''p'') (empty_db\<lparr>projects := [sample_project]\<rparr>))"

lemma first_reachable: "reachable sample_server first_db"
proof -
  have "queue_step sample_server empty_db (empty_db\<lparr>projects := projects empty_db @ [sample_project]\<rparr>)"
    by (rule queue_step.New_project) code_simp
  then have "reachable sample_server (empty_db\<lparr>projects := [sample_project]\<rparr>)"
    using reachable.Step [OF empty_reachable lifecycle_step.Queue] by (simp add: empty_db_def)
  moreover have "queue_step sample_server (empty_db\<lparr>projects := [sample_project]\<rparr>) first_db"
    unfolding first_db_def by (rule trigger_step)
  ultimately show ?thesis by (blast intro: reachable.Step lifecycle_step.Queue)
qed

theorem reachable_queue_not_executed_witness:
  "keys_ok first_db \<and> refs_ok first_db \<and> map d_status (deployments first_db) = [DS_Failed]"
proof -
  have "map d_status (deployments first_db) = [DS_Failed]" by code_simp
  then show ?thesis using reachable_queue_not_executed [OF first_reachable] by blast
qed


theorem queue_step_single_flight_witness:
  "single_flight (snd (run_state (TriggerDeployment sample_cfg ''p'') stale_db))"
proof -
  from queue_step_single_flight [OF trigger_step stale_ok(1,2)] show ?thesis by blast
qed

theorem TriggerDeployment_gate_witness:
  "\<exists>e s'. run_state (TriggerDeployment sample_cfg ''nobody'') stale_db = (Inl e, s') \<and> tasks s' = tasks stale_db"
proof -
  have gate: "\<forall>p. project_by stale_db ''nobody'' = Some p \<longrightarrow> p_paused p \<or> p_type p = PT_DomainOnly"
  proof -
    have "project_by stale_db ''nobody'' = None" by code_simp
    then show ?thesis by simp
  qed
  from TriggerDeployment_gate [OF gate prod.collapse [symmetric]] show ?thesis by (metis prod.collapse)
qed

theorem retire_previous_result_witness:
  "\<exists>s'. run_state (retire_previous (sample_task ''t2'' TT_Deploy TS_Completed ''builder'' ''x'' 0)) stale_db = ((), s')
     \<and> map d_status (deployments s') = [DS_Stopped, DS_Building, DS_Queued, DS_Queued]"
proof -
  let ?t = "sample_task ''t2'' TT_Deploy TS_Completed ''builder'' ''x'' 0"
  have by_d: "deployment_by stale_db (t_deployment ?t) = Some (sample_deployment ''x'' DS_Building None 0)" by code_simp
  have by_p: "project_by stale_db (d_project (sample_deployment ''x'' DS_Building None 0)) = Some sample_project" by code_simp
  have inj: "inj (\<lambda>n::nat. CHR ''#'' # show_nat n)"
  proof (rule injI)
    fix a b :: nat
    assume "CHR ''#'' # show_nat a = CHR ''#'' # show_nat b"
    then show "a = b" by (simp add: show_nat_inj)
  qed
  have "fresh_supply stale_db"
    using inj by (simp add: fresh_supply_def stale_db_def sample_db_def sample_task_def)
  from retire_previous_result [OF stale_ok(4,3) this by_d by_p] obtain s'
    where run: "run_state (retire_previous ?t) stale_db = ((), s')" by blast
  have "map d_status (deployments (snd (run_state (retire_previous ?t) stale_db)))
      = [DS_Stopped, DS_Building, DS_Queued, DS_Queued]" by code_simp
  then show ?thesis using run by simp
qed

section \<open>Where single flight is lost\<close>

text \<open>A build was reaped as lost and the next deployment promoted; then its agent reports it running.\<close>

definition late_db :: db where
  "late_db = sample_db (hours 7)
     [sample_deployment ''x'' DS_Failed None 0, sample_deployment ''c'' DS_Building None (hours 6)]
     [sample_task ''t'' TT_Build TS_Failed ''builder'' ''x'' 0, sample_task ''t2'' TT_Build TS_Running ''builder'' ''c'' (hours 6)]
     [sample_node ''builder'' RoleBuilder (hours 7)]"

text \<open>
  The two handlers that bypass the queue break single flight. The failover of a dead node starts
  a replacement while another deployment of the project is building; a late report that a build has
  started puts a deployment the queue has given up back in flight beside its successor.
\<close>

theorem single_flight_lost:
  "lifecycle_ok failover_db \<and> single_flight failover_db
     \<and> \<not> single_flight (snd (run_state (checkNodeFailovers sample_cfg (minutes 3)) failover_db))
   \<and> lifecycle_ok late_db \<and> single_flight late_db
     \<and> \<not> single_flight (snd (run_state (completeTask sample_server ''t''
         (Inr \<lparr>c_status = TS_Running, c_result = '''', c_image_tag = '''', c_host_port = 0\<rparr>)) late_db))"
proof (intro conjI)
  show "lifecycle_ok failover_db" by code_simp
  show "single_flight failover_db" by code_simp
  show "\<not> single_flight (snd (run_state (checkNodeFailovers sample_cfg (minutes 3)) failover_db))" by code_simp
  show "lifecycle_ok late_db" by code_simp
  show "single_flight late_db" by code_simp
  show "\<not> single_flight (snd (run_state (completeTask sample_server ''t''
         (Inr \<lparr>c_status = TS_Running, c_result = '''', c_image_tag = '''', c_host_port = 0\<rparr>)) late_db))" by code_simp
qed

end
