(* ===== verification/Go_Strings.thy ===== *)
theory Go_Strings
  imports Prelude
begin

text \<open>
  Go's string functions on ASCII text, as the program uses them: \<open>strings.TrimSpace\<close>,
  \<open>ToLower\<close>, \<open>Split\<close> on one byte, \<open>Join\<close>, \<open>HasPrefix\<close>, \<open>HasSuffix\<close>, \<open>TrimPrefix\<close>, \<open>TrimSuffix\<close>,
  \<open>Contains\<close>, and the search for a first or last byte.
\<close>

section \<open>Definitions\<close>

definition is_space :: "char \<Rightarrow> bool" where
  "is_space c \<longleftrightarrow> c \<in> {CHR 0x09, CHR 0x0A, CHR 0x0B, CHR 0x0C, CHR 0x0D, CHR 0x20}"

definition TrimSpace :: "string \<Rightarrow> string" where
  "TrimSpace s = rev (dropWhile is_space (rev (dropWhile is_space s)))"

definition lower_char :: "char \<Rightarrow> char" where
  "lower_char c = (if CHR ''A'' \<le> c \<and> c \<le> CHR ''Z'' then char_of ((of_char c :: nat) + 32) else c)"

definition ToLower :: "string \<Rightarrow> string" where
  "ToLower s = map lower_char s"

fun Split :: "char \<Rightarrow> string \<Rightarrow> string list" where
  "Split sep [] = [[]]"
| "Split sep (c # cs) = (if c = sep then [] # Split sep cs
     else (case Split sep cs of [] \<Rightarrow> [[c]] | p # ps \<Rightarrow> (c # p) # ps))"

fun Join :: "string list \<Rightarrow> string \<Rightarrow> string" where
  "Join [] sep = []"
| "Join [p] sep = p"
| "Join (p # ps) sep = p @ sep @ Join ps sep"

definition HasPrefix :: "string \<Rightarrow> string \<Rightarrow> bool" where
  "HasPrefix s p \<longleftrightarrow> take (length p) s = p"

definition HasSuffix :: "string \<Rightarrow> string \<Rightarrow> bool" where
  "HasSuffix s p \<longleftrightarrow> length p \<le> length s \<and> drop (length s - length p) s = p"

definition TrimPrefix :: "string \<Rightarrow> string \<Rightarrow> string" where
  "TrimPrefix s p = (if HasPrefix s p then drop (length p) s else s)"

definition TrimSuffix :: "string \<Rightarrow> string \<Rightarrow> string" where
  "TrimSuffix s p = (if HasSuffix s p then take (length s - length p) s else s)"

fun Contains :: "string \<Rightarrow> string \<Rightarrow> bool" where
  "Contains [] p = (p = [])"
| "Contains (c # cs) p = (HasPrefix (c # cs) p \<or> Contains cs p)"

text \<open>\<open>IndexByte\<close> and \<open>LastIndexByte\<close>; \<open>None\<close> for -1.\<close>

fun IndexByte :: "string \<Rightarrow> char \<Rightarrow> nat option" where
  "IndexByte [] c = None"
| "IndexByte (x # xs) c = (if x = c then Some 0 else map_option Suc (IndexByte xs c))"

fun LastIndexByte :: "string \<Rightarrow> char \<Rightarrow> nat option" where
  "LastIndexByte [] c = None"
| "LastIndexByte (x # xs) c = (case LastIndexByte xs c of
       Some i \<Rightarrow> Some (Suc i) | None \<Rightarrow> (if x = c then Some 0 else None))"

section \<open>Facts\<close>

lemma HasPrefix_iff: "HasPrefix s p \<longleftrightarrow> (\<exists>t. s = p @ t)"
  unfolding HasPrefix_def by (metis append_eq_conv_conj append_take_drop_id)

lemma HasSuffix_iff: "HasSuffix s p \<longleftrightarrow> (\<exists>t. s = t @ p)"
proof
  assume "HasSuffix s p"
  then have "s = take (length s - length p) s @ p" unfolding HasSuffix_def by (metis append_take_drop_id)
  then show "\<exists>t. s = t @ p" by blast
qed (auto simp: HasSuffix_def)

lemma TrimPrefix_append [simp]: "TrimPrefix (p @ t) p = t"
  by (simp add: TrimPrefix_def HasPrefix_def)

lemma TrimSuffix_append [simp]: "TrimSuffix (t @ p) p = t"
  by (simp add: TrimSuffix_def HasSuffix_def)

lemma Split_nonempty [simp]: "Split sep s \<noteq> []"
  by (induction s) (auto split: list.splits)

lemma Join_Cons: "ps \<noteq> [] \<Longrightarrow> Join (p # ps) sep = p @ sep @ Join ps sep"
  by (cases ps) auto

lemma Join_Split: "Join (Split c s) [c] = s"
proof (induction s)
  case (Cons x xs)
  obtain p ps where sp: "Split c xs = p # ps" by (cases "Split c xs") auto
  with Cons show ?case by (cases ps) (auto simp: Join_Cons)
qed simp

lemma Split_no_sep: "p \<in> set (Split c s) \<Longrightarrow> c \<notin> set p"
proof (induction s arbitrary: p)
  case (Cons x xs)
  obtain q qs where sp: "Split c xs = q # qs" by (cases "Split c xs") auto
  with Cons show ?case by (auto split: if_splits)
qed simp

lemma Split_Join:
  "ps \<noteq> [] \<Longrightarrow> (\<And>p. p \<in> set ps \<Longrightarrow> c \<notin> set p) \<Longrightarrow> Split c (Join ps [c]) = ps"
proof (induction ps)
  case (Cons p ps)
  have single: "c \<notin> set q \<Longrightarrow> Split c q = [q]" for q by (induction q) auto
  have more: "c \<notin> set q \<Longrightarrow> Split c (q @ c # r) = q # Split c r" for q r by (induction q) auto
  show ?case
  proof (cases "ps = []")
    case True
    then show ?thesis using Cons.prems(2) single by simp
  next
    case False
    then show ?thesis using Cons more by (simp add: Join_Cons)
  qed
qed simp

lemma dropWhile_fixed: "(xs \<noteq> [] \<Longrightarrow> \<not> P (hd xs)) \<Longrightarrow> dropWhile P xs = xs"
  by (cases xs) auto

lemma TrimSpace_edges:
  "TrimSpace s \<noteq> [] \<Longrightarrow> \<not> is_space (hd (TrimSpace s)) \<and> \<not> is_space (last (TrimSpace s))"
proof -
  let ?u = "dropWhile is_space s"
  assume ne: "TrimSpace s \<noteq> []"
  then have rne: "dropWhile is_space (rev ?u) \<noteq> []" by (simp add: TrimSpace_def)
  have l: "last (TrimSpace s) = hd (dropWhile is_space (rev ?u))"
    using rne by (simp add: TrimSpace_def last_rev)
  have lt: "\<not> is_space (last (TrimSpace s))" unfolding l using hd_dropWhile [OF rne] .
  obtain t where t: "?u = TrimSpace s @ t"
    unfolding TrimSpace_def
    by (metis append_self_conv2 rev_append rev_rev_ident takeWhile_dropWhile_id)
  then have "hd (TrimSpace s) = hd ?u" and "?u \<noteq> []" using ne by (simp_all add: hd_append)
  then show ?thesis using lt hd_dropWhile [of is_space s] by simp
qed

lemma TrimSpace_fixed:
  "(s \<noteq> [] \<Longrightarrow> \<not> is_space (hd s) \<and> \<not> is_space (last s)) \<Longrightarrow> TrimSpace s = s"
proof (cases "s = []")
  case False
  moreover assume "s \<noteq> [] \<Longrightarrow> \<not> is_space (hd s) \<and> \<not> is_space (last s)"
  ultimately have "dropWhile is_space s = s" and "dropWhile is_space (rev s) = rev s"
    by (auto intro!: dropWhile_fixed simp: hd_rev)
  then show ?thesis by (simp add: TrimSpace_def)
qed (simp add: TrimSpace_def)

lemma TrimSpace_idem [simp]: "TrimSpace (TrimSpace s) = TrimSpace s"
  by (rule TrimSpace_fixed) (rule TrimSpace_edges)

lemma lower_char_cases:
  "lower_char c = (if 65 \<le> (of_char c :: nat) \<and> (of_char c :: nat) \<le> 90 then char_of ((of_char c :: nat) + 32) else c)"
  by (simp add: lower_char_def less_eq_char_def)

lemma lower_char_idem [simp]: "lower_char (lower_char c) = lower_char c"
proof (cases "65 \<le> (of_char c :: nat) \<and> (of_char c :: nat) \<le> 90")
  case True
  then have "(of_char (lower_char c) :: nat) = of_char c + 32" by (simp add: lower_char_cases)
  with True show ?thesis by (subst lower_char_cases) simp
next
  case False
  then have "lower_char c = c" by (simp only: lower_char_cases if_False)
  then show ?thesis by simp
qed

lemma ToLower_idem [simp]: "ToLower (ToLower s) = ToLower s"
  by (simp add: ToLower_def)

lemma is_space_lower [simp]: "is_space (lower_char c) = is_space c"
proof (cases "65 \<le> (of_char c :: nat) \<and> (of_char c :: nat) \<le> 90")
  case True
  then have "97 \<le> (of_char (lower_char c) :: nat)" by (simp add: lower_char_cases)
  moreover have "is_space d \<Longrightarrow> (of_char d :: nat) \<le> 32" for d by (auto simp: is_space_def)
  ultimately show ?thesis using True by fastforce
next
  case False
  then have "lower_char c = c" by (simp only: lower_char_cases if_False)
  then show ?thesis by simp
qed

lemma TrimSpace_ToLower: "TrimSpace (ToLower s) = ToLower (TrimSpace s)"
  by (simp add: TrimSpace_def ToLower_def dropWhile_map rev_map o_def)

lemma LastIndexByte_None [simp]: "LastIndexByte s c = None \<longleftrightarrow> c \<notin> set s"
  by (induction s) (auto split: option.splits)

lemma LastIndexByte_Some:
  "LastIndexByte s c = Some i \<Longrightarrow> i < length s \<and> s ! i = c \<and> c \<notin> set (drop (Suc i) s)"
  by (induction s arbitrary: i) (auto split: option.splits if_splits simp: nth_Cons split: nat.splits)

lemma LastIndexByte_absent: "c \<notin> set s \<Longrightarrow> LastIndexByte s c = None"
  by simp

lemma LastIndexByte_append: "c \<notin> set t \<Longrightarrow> LastIndexByte (s @ c # t) c = Some (length s)"
  by (induction s) (simp_all add: LastIndexByte_absent del: LastIndexByte_None)

end
