(* ===== verification/Domains.thy ===== *)
theory Domains
  imports Go_Strings
begin

text \<open>
  The platform's base domains (internal/domains/domains.go): the configured list, the base a host
  belongs to, and the rewriting of a URL onto another base. \<open>url.Parse\<close> and \<open>URL.String\<close> are the
  parameters of \<open>url_api\<close>.
\<close>

section \<open>The code\<close>

text \<open>The closure \<open>add\<close>; the set \<open>seen\<close> is the set of the elements of \<open>out\<close>.\<close>

definition add_domain :: "string list \<Rightarrow> string \<Rightarrow> string list" where
  "add_domain out d = (let d = ToLower (TrimSpace d) in
     if d = '''' then out else if d \<in> set out then out else out @ [d])"

definition domains_Parse :: "string \<Rightarrow> string \<Rightarrow> string list" where
  "domains_Parse baseDomain baseDomains =
     foldl add_domain (add_domain [] baseDomain) (Split (CHR '','') baseDomains)"

text \<open>The error carries the entry and the bases, as the message does.\<close>

fun subset_loop :: "string set \<Rightarrow> string list \<Rightarrow> string list \<Rightarrow> string list \<Rightarrow> (string \<times> string list) + string list" where
  "subset_loop known bases out [] = Inr out"
| "subset_loop known bases out (d # ds) =
     (if d \<notin> known then Inl (d, bases) else subset_loop known bases (out @ [d]) ds)"

definition ParseSubset :: "string \<Rightarrow> string list \<Rightarrow> (string \<times> string list) + string list" where
  "ParseSubset raw bases =
     subset_loop (set (map (\<lambda>b. ToLower (TrimSpace b)) bases)) bases [] (domains_Parse '''' raw)"

definition NormalizeHost :: "string \<Rightarrow> string" where
  "NormalizeHost host =
     (let host = ToLower (TrimSpace host); host = TrimSuffix host ''.'' in
      case LastIndexByte host (CHR '':'') of
        None \<Rightarrow> host
      | Some i \<Rightarrow> if Contains (drop i host) '']'' then host else take i host)"

fun match_loop :: "string \<Rightarrow> string \<Rightarrow> string list \<Rightarrow> string" where
  "match_loop host best [] = best"
| "match_loop host best (b # bs) =
     (let b = ToLower (TrimSpace b) in
      if b = '''' then match_loop host best bs
      else if host = b \<or> HasSuffix host (''.'' @ b)
      then match_loop host (if length best < length b then b else best) bs
      else match_loop host best bs)"

text \<open>\<open>("", false)\<close> is \<open>None\<close>.\<close>

definition Match :: "string \<Rightarrow> string list \<Rightarrow> string option" where
  "Match host bases = (let host = NormalizeHost host in
     if host = '''' then None
     else (let best = match_loop host '''' bases in if best = '''' then None else Some best))"

record url_api =
  url_Parse :: "string \<Rightarrow> (string \<times> string) option"
  url_with_host :: "string \<Rightarrow> string \<Rightarrow> string"

text \<open>
  \<open>url_Parse raw\<close> is the \<open>Host\<close> and the \<open>Port()\<close> of the parsed URL (\<open>None\<close> for an error), and
  \<open>url_with_host raw h\<close> is \<open>String()\<close> of it with the host replaced by \<open>h\<close>.
\<close>

definition RebaseHost :: "url_api \<Rightarrow> string \<Rightarrow> string list \<Rightarrow> string \<Rightarrow> string" where
  "RebaseHost api rawURL bases targetBase =
     (let targetBase = ToLower (TrimSpace targetBase) in
      if targetBase = '''' then rawURL else
      case url_Parse api rawURL of
        None \<Rightarrow> rawURL
      | Some (uhost, port) \<Rightarrow>
          if uhost = '''' then rawURL else
          (let host = NormalizeHost uhost in
           case Match host bases of
             None \<Rightarrow> rawURL
           | Some cur \<Rightarrow>
               if cur = targetBase then rawURL else
               (let prefix = TrimSuffix host cur;
                    newHost = prefix @ targetBase;
                    newHost = (if port \<noteq> '''' then newHost @ '':'' @ port else newHost)
                in url_with_host api rawURL newHost)))"

section \<open>Parse\<close>

definition canonical :: "string \<Rightarrow> string" where
  "canonical d = ToLower (TrimSpace d)"

lemma add_domain_set: "set (add_domain out d) = set out \<union> ({canonical d} - {''''})"
  by (auto simp: add_domain_def canonical_def Let_def)

lemma add_domain_distinct: "distinct out \<Longrightarrow> distinct (add_domain out d)"
  by (simp add: add_domain_def Let_def)

lemma fold_add_set: "set (foldl add_domain out ds) = set out \<union> (canonical ` set ds - {''''})"
  by (induction ds arbitrary: out) (auto simp: add_domain_set)

lemma fold_add_distinct: "distinct out \<Longrightarrow> distinct (foldl add_domain out ds)"
  by (induction ds arbitrary: out) (auto simp: add_domain_distinct)

lemma add_domain_prefix: "\<exists>t. add_domain out d = out @ t"
  by (auto simp: add_domain_def Let_def)

lemma fold_add_prefix: "\<exists>t. foldl add_domain out ds = out @ t"
proof (induction ds arbitrary: out)
  case (Cons d ds)
  obtain t where "foldl add_domain (add_domain out d) ds = add_domain out d @ t" using Cons.IH by blast
  then show ?case using add_domain_prefix [of out d] by auto
qed simp

lemma Parse_set:
  "set (domains_Parse b bs) = canonical ` set (b # Split (CHR '','') bs) - {''''}"
  by (auto simp: domains_Parse_def fold_add_set add_domain_set)

lemma Parse_distinct: "distinct (domains_Parse b bs)"
  by (simp add: domains_Parse_def fold_add_distinct add_domain_distinct)

lemma Parse_first: "canonical b \<noteq> '''' \<Longrightarrow> \<exists>t. domains_Parse b bs = canonical b # t"
  using fold_add_prefix [of "add_domain [] b" "Split (CHR '','') bs"]
  by (auto simp: domains_Parse_def add_domain_def canonical_def Let_def)

text \<open>
  The configured base domains: exactly the trimmed, lower-cased, non-empty entries of
  \<open>BASE_DOMAIN\<close> and of the comma-separated \<open>BASE_DOMAINS\<close>, each once, the canonical one first.
  \<open>ParseSubset\<close> accepts a list exactly when every entry is one of the bases, and then returns it.
\<close>

theorem Parse_and_ParseSubset:
  "set (domains_Parse b bs) = {ToLower (TrimSpace d) | d. d = b \<or> d \<in> set (Split (CHR '','') bs)} - {''''}
   \<and> distinct (domains_Parse b bs)
   \<and> (ToLower (TrimSpace b) = '''' \<or> hd (domains_Parse b bs) = ToLower (TrimSpace b))
   \<and> ParseSubset raw bases =
      (case find (\<lambda>d. d \<notin> (\<lambda>x. ToLower (TrimSpace x)) ` set bases) (domains_Parse '''' raw) of
         Some d \<Rightarrow> Inl (d, bases) | None \<Rightarrow> Inr (domains_Parse '''' raw))"
proof (intro conjI)
  show "set (domains_Parse b bs) = {ToLower (TrimSpace d) | d. d = b \<or> d \<in> set (Split (CHR '','') bs)} - {''''}"
    unfolding Parse_set canonical_def by auto
  show "distinct (domains_Parse b bs)" by (rule Parse_distinct)
  show "ToLower (TrimSpace b) = '''' \<or> hd (domains_Parse b bs) = ToLower (TrimSpace b)"
    using Parse_first [of b bs] by (metis canonical_def list.sel(1))
  have "subset_loop known bases out ds = (case find (\<lambda>d. d \<notin> known) ds of
      Some d \<Rightarrow> Inl (d, bases) | None \<Rightarrow> Inr (out @ ds))" for known out ds
    by (induction ds arbitrary: out) (auto split: option.splits)
  then show "ParseSubset raw bases =
      (case find (\<lambda>d. d \<notin> (\<lambda>x. ToLower (TrimSpace x)) ` set bases) (domains_Parse '''' raw) of
         Some d \<Rightarrow> Inl (d, bases) | None \<Rightarrow> Inr (domains_Parse '''' raw))"
    by (simp add: ParseSubset_def split: option.split)
qed

section \<open>Match\<close>

text \<open>A host belongs to a base that it equals or whose subdomain it is.\<close>

definition under :: "string \<Rightarrow> string \<Rightarrow> bool" where
  "under host b \<longleftrightarrow> b \<noteq> '''' \<and> (host = b \<or> (\<exists>sub. host = sub @ ''.'' @ b))"

lemma under_code: "under host b \<longleftrightarrow> b \<noteq> '''' \<and> (host = b \<or> HasSuffix host (''.'' @ b))"
  by (auto simp: under_def HasSuffix_iff)

lemma under_suffix: "under h a \<Longrightarrow> \<exists>t. h = t @ a"
  unfolding under_def by (metis append_Nil append.assoc)

lemma under_same_length: "under h a \<Longrightarrow> under h b \<Longrightarrow> length a = length b \<Longrightarrow> a = b"
  by (metis under_suffix append_eq_append_conv)

lemma under_Nil [simp]: "\<not> under h ''''"
  by (simp add: under_def)

lemma match_loop_Cons:
  "match_loop host best (b # bs) =
   match_loop host (if under host (canonical b) \<and> length best < length (canonical b)
                    then canonical b else best) bs"
  by (auto simp: under_code canonical_def Let_def)

lemma match_loop_under:
  "best = '''' \<or> under host best \<Longrightarrow> match_loop host best bs = '''' \<or> under host (match_loop host best bs)"
  by (induction bs arbitrary: best) (simp_all add: match_loop_Cons del: match_loop.simps(2))

lemma match_loop_mem: "match_loop host best bs = best \<or> match_loop host best bs \<in> canonical ` set bs"
proof (induction bs arbitrary: best)
  case (Cons b bs)
  show ?case using Cons.IH [of "if under host (canonical b) \<and> length best < length (canonical b)
    then canonical b else best"] unfolding match_loop_Cons by (auto split: if_splits)
qed simp

lemma match_loop_grows: "length best \<le> length (match_loop host best bs)"
proof (induction bs arbitrary: best)
  case (Cons b bs)
  show ?case using Cons.IH [of "if under host (canonical b) \<and> length best < length (canonical b)
    then canonical b else best"] unfolding match_loop_Cons by (auto split: if_splits)
qed simp

lemma match_loop_longest:
  "b \<in> set bs \<Longrightarrow> under host (canonical b) \<Longrightarrow> length (canonical b) \<le> length (match_loop host best bs)"
proof (induction bs arbitrary: best)
  case (Cons a bs)
  let ?best = "if under host (canonical a) \<and> length best < length (canonical a) then canonical a else best"
  show ?case
  proof (cases "b = a")
    case True
    then have "length (canonical b) \<le> length ?best" using Cons.prems by auto
    then show ?thesis using match_loop_grows [of ?best host bs] unfolding match_loop_Cons by linarith
  next
    case False
    then show ?thesis using Cons.IH [of ?best] Cons.prems unfolding match_loop_Cons by simp
  qed
qed simp

lemma Match_Some:
  assumes "Match host bases = Some r"
  shows "under (NormalizeHost host) r" "r \<in> canonical ` set bases"
    "\<And>b. b \<in> set bases \<Longrightarrow> under (NormalizeHost host) (canonical b) \<Longrightarrow> length (canonical b) \<le> length r"
proof -
  have r: "r = match_loop (NormalizeHost host) '''' bases" and ne: "r \<noteq> ''''"
    using assms by (auto simp: Match_def Let_def split: if_splits)
  show "under (NormalizeHost host) r" using match_loop_under [of "''''"] ne r by metis
  show "r \<in> canonical ` set bases" using match_loop_mem ne r by metis
  show "\<And>b. b \<in> set bases \<Longrightarrow> under (NormalizeHost host) (canonical b) \<Longrightarrow> length (canonical b) \<le> length r"
    unfolding r by (rule match_loop_longest)
qed

lemma Match_None:
  assumes "Match host bases = None" and "b \<in> set bases"
  shows "\<not> under (NormalizeHost host) (canonical b)"
proof
  assume u: "under (NormalizeHost host) (canonical b)"
  then have "match_loop (NormalizeHost host) '''' bases \<noteq> ''''"
    using match_loop_longest [OF assms(2) u, of "''''"] by (auto simp: under_def)
  moreover have "NormalizeHost host \<noteq> ''''" using u by (auto simp: under_def)
  ultimately show False using assms(1) by (simp add: Match_def Let_def)
qed

text \<open>
  C31: \<open>Match\<close> returns the most specific configured base a host belongs to: the result is one of the
  bases, the host is it or a subdomain of it, and no other base the host belongs to is as long;
  without such a base there is no result.
\<close>

theorem Match_most_specific:
  "case Match host bases of
     None \<Rightarrow> \<not> (\<exists>b \<in> set bases. under (NormalizeHost host) (ToLower (TrimSpace b)))
   | Some r \<Rightarrow> r \<in> (\<lambda>b. ToLower (TrimSpace b)) ` set bases \<and> under (NormalizeHost host) r
       \<and> \<not> (\<exists>b \<in> set bases. under (NormalizeHost host) (ToLower (TrimSpace b))
             \<and> length r \<le> length (ToLower (TrimSpace b)) \<and> ToLower (TrimSpace b) \<noteq> r)"
proof (cases "Match host bases")
  case None
  then show ?thesis using Match_None [OF None] by (auto simp: canonical_def)
next
  case (Some r)
  have "\<not> (\<exists>b \<in> set bases. under (NormalizeHost host) (canonical b)
      \<and> length r \<le> length (canonical b) \<and> canonical b \<noteq> r)"
    using Match_Some(1,3) [OF Some] under_same_length by (metis le_antisym)
  then show ?thesis using Match_Some(1,2) [OF Some] Some unfolding canonical_def by auto
qed

section \<open>RebaseHost\<close>

lemma under_split: "under host b \<Longrightarrow> host = TrimSuffix host b @ b"
  by (metis under_suffix TrimSuffix_append)

text \<open>
  A URL that \<open>RebaseHost\<close> rewrites keeps its subdomain labels: its host is \<open>prefix @ base\<close> for the
  most specific base it belongs to, and becomes \<open>prefix @ target\<close> with the port kept; in every
  other case the URL is returned as it is. The hypothesis asks that normalising the host once is
  enough, which \<open>RebaseHost_root_dot\<close> shows is needed.
\<close>

theorem RebaseHost_keeps_labels:
  assumes "url_Parse api raw = Some (uhost, port)"
    and "NormalizeHost (NormalizeHost uhost) = NormalizeHost uhost"
  shows "RebaseHost api raw bases target = raw \<or>
    (\<exists>prefix base. NormalizeHost uhost = prefix @ base \<and> Match uhost bases = Some base
       \<and> RebaseHost api raw bases target = url_with_host api raw
           (prefix @ ToLower (TrimSpace target) @ (if port = '''' then '''' else '':'' @ port)))"
proof (cases "RebaseHost api raw bases target = raw")
  case False
  let ?t = "ToLower (TrimSpace target)"
  have Meq: "Match (NormalizeHost uhost) bases = Match uhost bases"
    unfolding Match_def assms(2) ..
  obtain cur where m: "Match (NormalizeHost uhost) bases = Some cur" and t: "?t \<noteq> ''''" "uhost \<noteq> ''''" "cur \<noteq> ?t"
    using False assms(1) by (auto simp: RebaseHost_def Let_def split: option.splits if_splits)
  have r: "RebaseHost api raw bases target = url_with_host api raw
      (TrimSuffix (NormalizeHost uhost) cur @ ?t @ (if port = '''' then '''' else '':'' @ port))"
    using assms(1) m t by (auto simp: RebaseHost_def Let_def)
  have "under (NormalizeHost uhost) cur" using Match_Some(1) [OF m] assms(2) by simp
  then show ?thesis using m r Meq under_split by metis
qed simp

text \<open>A stand-in for \<open>net/url\<close> on URLs that are only a host, to evaluate the rewriting with.\<close>

definition sample_url :: url_api where
  "sample_url = \<lparr>url_Parse = (\<lambda>raw. Some (raw, case LastIndexByte raw (CHR '':'') of
       None \<Rightarrow> '''' | Some i \<Rightarrow> drop (Suc i) raw)), url_with_host = (\<lambda>raw h. h)\<rparr>"

lemma RebaseHost_keeps_labels_witness:
  "RebaseHost sample_url ''app.a.com:443'' [''a.com''] ''b.com'' = ''app.a.com:443'' \<or>
    (\<exists>prefix base. NormalizeHost ''app.a.com:443'' = prefix @ base \<and> Match ''app.a.com:443'' [''a.com''] = Some base
       \<and> RebaseHost sample_url ''app.a.com:443'' [''a.com''] ''b.com'' = url_with_host sample_url ''app.a.com:443''
           (prefix @ ToLower (TrimSpace ''b.com'') @ (if ''443'' = '''' then '''' else '':'' @ ''443'')))"
  by (rule RebaseHost_keeps_labels; code_simp)

text \<open>
  \<open>NormalizeHost\<close> trims the root dot before it strips the port, so it is not idempotent on
  \<open>app.a.com.:443\<close>: \<open>Match\<close> normalises a second time and finds the base, but the host that \<open>RebaseHost\<close> then
  cuts still ends in the dot, and the rewritten URL has the old host inside the new one.
\<close>

theorem RebaseHost_root_dot:
  "NormalizeHost ''app.a.com.:443'' = ''app.a.com.''
   \<and> RebaseHost sample_url ''app.a.com.:443'' [''a.com'', ''b.com''] ''b.com'' = ''app.a.com.b.com:443''
   \<and> RebaseHost sample_url ''app.a.com:443'' [''a.com'', ''b.com''] ''b.com'' = ''app.b.com:443''"
  by code_simp

end
