(* ===== verification/Tunnel_Streams.thy ===== *)
theory Tunnel_Streams
  imports Prelude "HOL-Library.Word"
begin

text \<open>
  The tunnel's frame protocol and its streams (internal/api/tunnel.go and cmd/muveectl/tunnel.go).
  One WebSocket carries many streams. The server's read loop (\<open>serveConn\<close>) hands data frames to the
  inboxes of the streams, and the handler of each hijacked connection empties its inbox into the
  browser's socket; muveectl does the same towards the local service. Each endpoint is a step
  relation whose steps are the goroutines' atomic actions, so every interleaving is a run.
\<close>

unbundle bit_operations_syntax

section \<open>Frames\<close>

type_synonym byte = "8 word"
type_synonym bytes = "byte list"

definition frameOpen :: byte where "frameOpen = 1"
definition frameData :: byte where "frameData = 2"
definition frameClose :: byte where "frameClose = 3"

text \<open>\<open>binary.BigEndian\<close>.\<close>

definition PutUint32 :: "32 word \<Rightarrow> bytes" where
  "PutUint32 x = [ucast (drop_bit 24 x), ucast (drop_bit 16 x), ucast (drop_bit 8 x), ucast x]"

definition Uint32 :: "bytes \<Rightarrow> 32 word" where
  "Uint32 b = ucast (b ! 3) OR push_bit 8 (ucast (b ! 2)) OR push_bit 16 (ucast (b ! 1))
     OR push_bit 24 (ucast (b ! 0))"

text \<open>The message \<open>writeFrame\<close> sends, and what a read loop makes of one (\<open>None\<close>: ignored).\<close>

definition frame_bytes :: "byte \<Rightarrow> 32 word \<Rightarrow> bytes \<Rightarrow> bytes" where
  "frame_bytes ty sid payload = ty # PutUint32 sid @ payload"

definition read_frame :: "bool \<Rightarrow> bytes \<Rightarrow> (byte \<times> 32 word \<times> bytes) option" where
  "read_frame binary raw = (if \<not> binary \<or> length raw < 5 then None
     else Some (raw ! 0, Uint32 (take 4 (drop 1 raw)), drop 5 raw))"

text \<open>The request goes out in chunks of 16 KiB: \<open>for off := 0; off < reqBuf.Len(); { .. off = end }\<close>.\<close>

function send_chunks :: "nat \<Rightarrow> 'a list \<Rightarrow> 'a list list" where
  "send_chunks off buf =
     (if off < length buf
      then (let e = (if off + 16 * 1024 > length buf then length buf else off + 16 * 1024)
            in take (e - off) (drop off buf) # send_chunks e buf)
      else [])"
  by pat_completeness auto
termination
  by (relation "measure (\<lambda>(off, buf). length buf - off)") (auto simp: Let_def)

declare send_chunks.simps [simp del]

lemma bit_Uint32:
  "n < 32 \<Longrightarrow> bit (Uint32 b) n \<longleftrightarrow>
     (if n < 8 then bit (b ! 3) n else if n < 16 then bit (b ! 2) (n - 8)
      else if n < 24 then bit (b ! 1) (n - 16) else bit (b ! 0) (n - 24))"
  by (auto simp: Uint32_def bit_simps dest: bit_imp_le_length)

lemma Uint32_PutUint32 [simp]: "Uint32 (PutUint32 x) = x"
proof (rule bit_word_eqI)
  fix n :: nat
  assume "n < LENGTH(32)"
  then have n: "n < 32" by simp
  show "bit (Uint32 (PutUint32 x)) n = bit x n"
    unfolding bit_Uint32 [OF n] using n by (auto simp: PutUint32_def bit_simps)
qed

lemma PutUint32_Uint32:
  assumes "length b = 4"
  shows "PutUint32 (Uint32 b) = b"
proof -
  obtain b0 b1 b2 b3 where b: "b = [b0, b1, b2, b3]"
    using assms by (auto simp: length_Suc_conv numeral_eq_Suc)
  show ?thesis
    unfolding b PutUint32_def by (auto intro!: bit_word_eqI simp: bit_simps bit_Uint32)
qed

lemma length_PutUint32 [simp]: "length (PutUint32 x) = 4"
  by (simp add: PutUint32_def)

lemma read_frame_bytes [simp]: "read_frame True (frame_bytes ty sid p) = Some (ty, sid, p)"
  by (simp add: read_frame_def frame_bytes_def)

lemma frame_bytes_read: "read_frame True raw = Some (ty, sid, p) \<Longrightarrow> frame_bytes ty sid p = raw"
proof -
  assume r: "read_frame True raw = Some (ty, sid, p)"
  then have "5 \<le> length raw" by (simp add: read_frame_def split: if_splits)
  then obtain t rest where raw: "raw = t # rest" "4 \<le> length rest" by (cases raw) auto
  then show ?thesis using r PutUint32_Uint32 [of "take 4 rest"]
    by (auto simp: read_frame_def frame_bytes_def min_absorb2)
qed

text \<open>
  C32: The frame format is a bijection between frames and messages of at least five bytes: either
  end's read loop recovers exactly the type, stream and payload the other end's \<open>writeFrame\<close> was
  given, and no two frames share a message.
\<close>

theorem frame_roundtrip:
  "read_frame True (frame_bytes ty sid p) = Some (ty, sid, p)
   \<and> (read_frame True raw = Some (ty, sid, p)) = (raw = frame_bytes ty sid p)"
  using frame_bytes_read by auto

lemma send_chunks_concat: "concat (send_chunks off buf) = drop off buf"
proof (induction off buf rule: send_chunks.induct)
  case (1 off buf)
  let ?e = "if off + 16 * 1024 > length buf then length buf else off + 16 * 1024"
  show ?case
  proof (cases "off < length buf")
    case True
    then have "drop ?e buf = drop (?e - off) (drop off buf)" by simp
    then have "take (?e - off) (drop off buf) @ drop ?e buf = drop off buf"
      by (metis append_take_drop_id)
    then show ?thesis using True 1 [OF True refl] by (subst send_chunks.simps) (simp only: Let_def concat.simps if_True)
  qed (simp add: send_chunks.simps)
qed

lemma send_chunks_bounds: "c \<in> set (send_chunks off buf) \<Longrightarrow> 0 < length c \<and> length c \<le> 16384"
proof (induction off buf rule: send_chunks.induct)
  case (1 off buf)
  let ?e = "if off + 16 * 1024 > length buf then length buf else off + 16 * 1024"
  show ?case
  proof (cases "off < length buf")
    case True
    then have "c = take (?e - off) (drop off buf) \<or> c \<in> set (send_chunks ?e buf)"
      using 1(2) by (subst (asm) send_chunks.simps) (simp only: Let_def if_True set_simps insert_iff)
    then show ?thesis
    proof
      assume "c = take (?e - off) (drop off buf)"
      then show ?thesis using True by (simp split: if_splits)
    next
      assume "c \<in> set (send_chunks ?e buf)"
      then show ?thesis by (rule 1(1) [OF True refl])
    qed
  next
    case False
    then show ?thesis using 1(2) by (simp add: send_chunks.simps)
  qed
qed

text \<open>
  Replaying a request through the tunnel neither loses, reorders nor repeats a byte: the chunks
  put together are the request, none is empty and none is over 16 KiB.
\<close>

theorem send_chunks_whole:
  "concat (send_chunks 0 buf) = buf
   \<and> \<not> (\<exists>c \<in> set (send_chunks 0 buf). c = [] \<or> 16 * 1024 < length c)"
  using send_chunks_concat [of 0 buf] send_chunks_bounds [of _ 0 buf] by fastforce

section \<open>What an endpoint promises\<close>

text \<open>
  The contract of an endpoint of the tunnel, over its steps: each stream has the data it accepted
  from the WebSocket, what it wrote to its socket, what a failed write cost, and what waits in the
  inbox. Nothing is reordered, repeated or invented, and what was written stays written.
\<close>

locale stream_endpoint =
  fixes step :: "'c \<Rightarrow> 'c \<Rightarrow> bool" and init :: 'c and inv :: "'c \<Rightarrow> bool"
    and streams :: "'c \<Rightarrow> nat" and accepted delivered lost inbox :: "'c \<Rightarrow> nat \<Rightarrow> bytes list"
  assumes inv_init: "inv init"
    and inv_step: "inv c \<Longrightarrow> step c d \<Longrightarrow> inv d"
    and flow: "inv c \<Longrightarrow> k < streams c \<Longrightarrow> accepted c k = delivered c k @ lost c k @ inbox c k"
    and grows: "inv c \<Longrightarrow> step c d \<Longrightarrow> k < streams c \<Longrightarrow> k < streams d \<and> prefix (delivered c k) (delivered d k)"
begin

lemma reach_inv: "step\<^sup>*\<^sup>* init c \<Longrightarrow> inv c"
  by (induction rule: rtranclp_induct) (auto intro: inv_init inv_step)

lemma run_grows:
  "step\<^sup>*\<^sup>* c d \<Longrightarrow> inv c \<Longrightarrow> k < streams c \<Longrightarrow> inv d \<and> k < streams d \<and> prefix (delivered c k) (delivered d k)"
proof (induction rule: rtranclp_induct)
  case (step y z)
  then show ?case by (meson inv_step grows prefix_order.order_trans)
qed simp

lemma delivered_prefix: "step\<^sup>*\<^sup>* init c \<Longrightarrow> k < streams c \<Longrightarrow> prefix (delivered c k) (accepted c k)"
  using flow [OF reach_inv] by (simp add: prefix_def)

end

section \<open>The server\<close>

text \<open>
  The loop of \<open>handleTunnelTraffic\<close> for one stream: still selecting, draining after the close
  signal, and the ways it returns (the drain is done; the browser went away or a frame could not be
  sent; a write to the browser failed).
\<close>

datatype loop_state = Selecting | Draining | Drained | ClientGone | WriteFailed

text \<open>
  \<open>tunnelStream\<close>, with the loop that reads it and, for the statements, the history of what the
  inbox accepted, what was written and what a failed write lost.
\<close>

record tunnel_stream =
  st_id :: "32 word"
  st_inbox :: "bytes list"
  st_closed :: bool
  st_loop :: loop_state
  st_accepted :: "bytes list"
  st_delivered :: "bytes list"
  st_lost :: "bytes list"

text \<open>\<open>serveConn\<close> between two reads, inside the \<open>select\<close> for a data frame, or returned.\<close>

datatype reader = Reading | Pushing nat bytes | Returned

text \<open>The streams of a \<open>tunnelConn\<close>; a pointer to a stream is its index in \<open>tc_objs\<close>.\<close>

record tunnel_streams =
  tc_next :: "32 word"
  tc_map :: "(32 word \<times> nat) list"
  tc_objs :: "tunnel_stream list"
  tc_reader :: reader

definition no_streams :: tunnel_streams where
  "no_streams = \<lparr>tc_next = 0, tc_map = [], tc_objs = [], tc_reader = Reading\<rparr>"

definition put_obj :: "nat \<Rightarrow> (tunnel_stream \<Rightarrow> tunnel_stream) \<Rightarrow> tunnel_streams \<Rightarrow> tunnel_streams" where
  "put_obj k f c = c\<lparr>tc_objs := (tc_objs c)[k := f (tc_objs c ! k)]\<rparr>"

definition newStream :: "tunnel_streams \<Rightarrow> tunnel_streams" where
  "newStream c = (let i = tc_next c + 1 in
     c\<lparr>tc_next := i,
       tc_objs := tc_objs c @ [\<lparr>st_id = i, st_inbox = [], st_closed = False, st_loop = Selecting,
          st_accepted = [], st_delivered = [], st_lost = []\<rparr>],
       tc_map := (i, length (tc_objs c)) # filter (\<lambda>e. fst e \<noteq> i) (tc_map c)\<rparr>)"

definition getStream :: "tunnel_streams \<Rightarrow> 32 word \<Rightarrow> nat option" where
  "getStream c i = map_of (tc_map c) i"

text \<open>\<open>close\<close> is idempotent through \<open>closeOnce\<close>.\<close>

definition removeStream :: "32 word \<Rightarrow> tunnel_streams \<Rightarrow> tunnel_streams" where
  "removeStream i c = (case getStream c i of
       None \<Rightarrow> c
     | Some k \<Rightarrow> put_obj k (\<lambda>st. st\<lparr>st_closed := True\<rparr>) (c\<lparr>tc_map := filter (\<lambda>e. fst e \<noteq> i) (tc_map c)\<rparr>))"

definition closeAllStreams :: "tunnel_streams \<Rightarrow> tunnel_streams" where
  "closeAllStreams c = c\<lparr>tc_map := [],
     tc_objs := map (\<lambda>(k, st). if k \<in> snd ` set (tc_map c) then st\<lparr>st_closed := True\<rparr> else st)
       (enumerate 0 (tc_objs c))\<rparr>"

text \<open>One turn of \<open>serveConn\<close> on the message \<open>ReadMessage\<close> returned, up to its \<open>select\<close>.\<close>

definition serve_message :: "bool \<Rightarrow> bytes \<Rightarrow> tunnel_streams \<Rightarrow> tunnel_streams" where
  "serve_message binary raw c = (case read_frame binary raw of
       None \<Rightarrow> c
     | Some (ty, sid, payload) \<Rightarrow> (case getStream c sid of
          None \<Rightarrow> c
        | Some k \<Rightarrow>
            if ty = frameData then c\<lparr>tc_reader := Pushing k payload\<rparr>
            else if ty = frameClose then removeStream sid c
            else c))"

definition accept_data :: "bytes \<Rightarrow> tunnel_stream \<Rightarrow> tunnel_stream" where
  "accept_data d st = st\<lparr>st_inbox := st_inbox st @ [d], st_accepted := st_accepted st @ [d]\<rparr>"

definition write_next :: "tunnel_stream \<Rightarrow> tunnel_stream" where
  "write_next st = st\<lparr>st_inbox := tl (st_inbox st), st_delivered := st_delivered st @ [hd (st_inbox st)]\<rparr>"

definition lose_next :: "tunnel_stream \<Rightarrow> tunnel_stream" where
  "lose_next st = st\<lparr>st_inbox := tl (st_inbox st), st_lost := st_lost st @ [hd (st_inbox st)],
     st_loop := WriteFailed\<rparr>"

text \<open>
  The actions: a request opens a stream; the read loop takes a message, puts a chunk into an inbox
  that has room or gives up on a closed stream, or ends on a read error; the handler of a stream
  writes the next chunk, sees the close signal, drains, and returns, which removes its stream
  (\<open>defer tc.removeStream(stream.id)\<close>). When several cases of a \<open>select\<close> are ready, each is a step.
\<close>

inductive server_step :: "tunnel_streams \<Rightarrow> tunnel_streams \<Rightarrow> bool" where
  step_open: "server_step c (newStream c)"
| step_read: "tc_reader c = Reading \<Longrightarrow> server_step c (serve_message binary raw c)"
| step_push: "tc_reader c = Pushing k d \<Longrightarrow> length (st_inbox (tc_objs c ! k)) < 1024 \<Longrightarrow>
    server_step c (put_obj k (accept_data d) (c\<lparr>tc_reader := Reading\<rparr>))"
| step_skip: "tc_reader c = Pushing k d \<Longrightarrow> st_closed (tc_objs c ! k) \<Longrightarrow>
    server_step c (c\<lparr>tc_reader := Reading\<rparr>)"
| step_read_error: "tc_reader c = Reading \<Longrightarrow>
    server_step c (closeAllStreams (c\<lparr>tc_reader := Returned\<rparr>))"
| step_write: "k < length (tc_objs c) \<Longrightarrow> st_loop (tc_objs c ! k) \<in> {Selecting, Draining} \<Longrightarrow>
    st_inbox (tc_objs c ! k) \<noteq> [] \<Longrightarrow> server_step c (put_obj k write_next c)"
| step_write_error: "k < length (tc_objs c) \<Longrightarrow> st_loop (tc_objs c ! k) \<in> {Selecting, Draining} \<Longrightarrow>
    st_inbox (tc_objs c ! k) \<noteq> [] \<Longrightarrow>
    server_step c (removeStream (st_id (tc_objs c ! k)) (put_obj k lose_next c))"
| step_closed: "k < length (tc_objs c) \<Longrightarrow> st_loop (tc_objs c ! k) = Selecting \<Longrightarrow>
    st_closed (tc_objs c ! k) \<Longrightarrow> server_step c (put_obj k (\<lambda>st. st\<lparr>st_loop := Draining\<rparr>) c)"
| step_drained: "k < length (tc_objs c) \<Longrightarrow> st_loop (tc_objs c ! k) = Draining \<Longrightarrow>
    st_inbox (tc_objs c ! k) = [] \<Longrightarrow>
    server_step c (removeStream (st_id (tc_objs c ! k)) (put_obj k (\<lambda>st. st\<lparr>st_loop := Drained\<rparr>) c))"
| step_client_gone: "k < length (tc_objs c) \<Longrightarrow> st_loop (tc_objs c ! k) = Selecting \<Longrightarrow>
    server_step c (removeStream (st_id (tc_objs c ! k)) (put_obj k (\<lambda>st. st\<lparr>st_loop := ClientGone\<rparr>) c))"

inductive_cases server_stepE: "server_step c d"

section \<open>The server keeps its promise\<close>

lemma put_obj_simps [simp]:
  "length (tc_objs (put_obj k f c)) = length (tc_objs c)"
  "tc_map (put_obj k f c) = tc_map c" "tc_next (put_obj k f c) = tc_next c"
  "tc_reader (put_obj k f c) = tc_reader c"
  by (simp_all add: put_obj_def)

lemma put_obj_nth: "k < length (tc_objs c) \<Longrightarrow>
  tc_objs (put_obj k f c) ! j = (if j = k then f (tc_objs c ! k) else tc_objs c ! j)"
  by (simp add: put_obj_def nth_list_update)

text \<open>What holds of one stream whatever happens around it.\<close>

definition flow_ok :: "tunnel_stream \<Rightarrow> bool" where
  "flow_ok st \<longleftrightarrow> st_accepted st = st_delivered st @ st_lost st @ st_inbox st
     \<and> length (st_inbox st) \<le> 1024 \<and> (st_loop st = WriteFailed \<or> st_lost st = [])"

lemma flow_ok_ops:
  "flow_ok st \<Longrightarrow> flow_ok (st\<lparr>st_closed := b\<rparr>)"
  "flow_ok st \<Longrightarrow> length (st_inbox st) < 1024 \<Longrightarrow> flow_ok (accept_data d st)"
  "flow_ok st \<Longrightarrow> st_loop st \<in> {Selecting, Draining} \<Longrightarrow> st_inbox st \<noteq> [] \<Longrightarrow> flow_ok (write_next st)"
  "flow_ok st \<Longrightarrow> st_inbox st \<noteq> [] \<Longrightarrow> flow_ok (lose_next st)"
  "flow_ok st \<Longrightarrow> st_loop st \<in> {Selecting, Draining} \<Longrightarrow> flow_ok (st\<lparr>st_loop := l\<rparr>)"
  by (auto simp: flow_ok_def accept_data_def write_next_def lose_next_def)

text \<open>Pointers stay valid and every stream is in order.\<close>

definition objs_ok :: "tunnel_streams \<Rightarrow> bool" where
  "objs_ok c \<longleftrightarrow> (\<forall>e \<in> set (tc_map c). snd e < length (tc_objs c))
     \<and> (\<forall>k d. tc_reader c = Pushing k d \<longrightarrow> k < length (tc_objs c))
     \<and> (\<forall>k < length (tc_objs c). flow_ok (tc_objs c ! k))"

lemma objs_ok_put: "objs_ok c \<Longrightarrow> (k < length (tc_objs c) \<Longrightarrow> flow_ok (f (tc_objs c ! k))) \<Longrightarrow> objs_ok (put_obj k f c)"
  unfolding objs_ok_def put_obj_def
  by (cases "k < length (tc_objs c)") (auto simp: nth_list_update list_update_beyond)

lemma objs_ok_remove: "objs_ok c \<Longrightarrow> objs_ok (removeStream i c)"
  unfolding removeStream_def
  by (auto split: option.split intro!: objs_ok_put flow_ok_ops) (auto simp: objs_ok_def)

lemma getStream_lt: "objs_ok c \<Longrightarrow> getStream c i = Some k \<Longrightarrow> k < length (tc_objs c)"
  unfolding objs_ok_def getStream_def by (metis map_of_SomeD snd_conv)

lemma objs_ok_serve: "objs_ok c \<Longrightarrow> tc_reader c = Reading \<Longrightarrow> objs_ok (serve_message b raw c)"
  unfolding serve_message_def
  using getStream_lt [of c]
  by (auto split: option.split prod.split intro: objs_ok_remove) (auto simp: objs_ok_def)

lemma objs_ok_new: "objs_ok c \<Longrightarrow> objs_ok (newStream c)"
  unfolding newStream_def Let_def objs_ok_def
  by (auto simp: nth_append flow_ok_def less_Suc_eq)

lemma objs_ok_close_all: "objs_ok c \<Longrightarrow> objs_ok (closeAllStreams (c\<lparr>tc_reader := Returned\<rparr>))"
  unfolding closeAllStreams_def objs_ok_def
  by (auto simp: nth_enumerate_eq intro: flow_ok_ops)

lemma objs_ok_idle: "objs_ok c \<Longrightarrow> objs_ok (c\<lparr>tc_reader := Reading\<rparr>)"
  by (simp add: objs_ok_def)

lemma objs_ok_nth: "objs_ok c \<Longrightarrow> k < length (tc_objs c) \<Longrightarrow> flow_ok (tc_objs c ! k)"
  by (simp add: objs_ok_def)

lemma objs_ok_step: "server_step c d \<Longrightarrow> objs_ok c \<Longrightarrow> objs_ok d"
proof (induction rule: server_step.induct)
  case (step_push c k d)
  have "objs_ok (put_obj k (accept_data d) (c\<lparr>tc_reader := Reading\<rparr>))"
    using step_push by (intro objs_ok_put objs_ok_idle flow_ok_ops) (auto simp: objs_ok_def)
  then show ?case .
qed (auto intro!: objs_ok_new objs_ok_serve objs_ok_close_all objs_ok_idle objs_ok_remove objs_ok_put
       intro: flow_ok_ops dest: objs_ok_nth)

text \<open>The life of one stream: a draining handler has seen the close signal, a drained inbox is empty.\<close>

definition life_ok :: "tunnel_stream \<Rightarrow> bool" where
  "life_ok st \<longleftrightarrow> (st_loop st = Drained \<longrightarrow> st_inbox st = [])
     \<and> (st_loop st \<in> {Draining, Drained} \<longrightarrow> st_closed st)"

definition handler_gone :: "tunnel_stream \<Rightarrow> bool" where
  "handler_gone st \<longleftrightarrow> st_loop st \<in> {ClientGone, WriteFailed}"

text \<open>
  While fewer than \<open>2 ^ 32\<close> streams have been opened, the numbers of streams are distinct; a stream
  in the map is open, and the read loop only gives up on a stream whose handler has left.
\<close>

definition ids_ok :: "tunnel_streams \<Rightarrow> bool" where
  "ids_ok c \<longleftrightarrow> tc_next c = of_nat (length (tc_objs c))
     \<and> (\<forall>k < length (tc_objs c). st_id (tc_objs c ! k) = of_nat (Suc k) \<and> life_ok (tc_objs c ! k))
     \<and> (\<forall>e \<in> set (tc_map c). fst e = of_nat (Suc (snd e)) \<and> \<not> st_closed (tc_objs c ! snd e))
     \<and> (\<forall>k d. tc_reader c = Pushing k d \<longrightarrow> st_closed (tc_objs c ! k) \<longrightarrow> handler_gone (tc_objs c ! k))"

lemma of_nat_Suc_inject:
  assumes "j < 2 ^ 32 - 1" "k < 2 ^ 32 - 1" "(of_nat (Suc j) :: 32 word) = of_nat (Suc k)"
  shows "j = k"
proof -
  have "unat (of_nat (Suc j) :: 32 word) = Suc j" "unat (of_nat (Suc k) :: 32 word) = Suc k"
    using assms(1,2) by (auto simp: unat_of_nat take_bit_nat_eq_self simp del: of_nat_Suc)
  then show ?thesis using assms(3) by (metis nat.inject)
qed

lemma ids_ok_put:
  assumes "ids_ok c" "k < length (tc_objs c)"
    and "st_id (f (tc_objs c ! k)) = st_id (tc_objs c ! k)" "life_ok (f (tc_objs c ! k))"
    and "\<And>e. e \<in> set (tc_map c) \<Longrightarrow> snd e = k \<Longrightarrow> \<not> st_closed (f (tc_objs c ! k))"
    and "\<And>d. tc_reader c = Pushing k d \<Longrightarrow> st_closed (f (tc_objs c ! k)) \<Longrightarrow> handler_gone (f (tc_objs c ! k))"
  shows "ids_ok (put_obj k f c)"
  using assms(1) unfolding ids_ok_def
  by (auto simp: put_obj_nth [OF assms(2)] assms(3,4,6) dest: assms(5) split: if_splits)

lemma ids_ok_put_open:
  assumes "ids_ok c" "k < length (tc_objs c)"
    and "st_id (f (tc_objs c ! k)) = st_id (tc_objs c ! k)" "life_ok (f (tc_objs c ! k))"
    and "st_closed (f (tc_objs c ! k)) = st_closed (tc_objs c ! k)"
    and "handler_gone (tc_objs c ! k) \<Longrightarrow> handler_gone (f (tc_objs c ! k))"
  shows "ids_ok (put_obj k f c)"
  using assms(1) by (intro ids_ok_put assms(1-4)) (auto simp: assms(5) ids_ok_def intro: assms(6))

lemma getStream_mem: "getStream c i = Some k \<Longrightarrow> (i, k) \<in> set (tc_map c)"
  unfolding getStream_def by (rule map_of_SomeD)

lemma getStream_id:
  assumes "ids_ok c" "objs_ok c" "length (tc_objs c) < 2 ^ 32" "k < length (tc_objs c)"
    and "getStream c (st_id (tc_objs c ! k)) = Some j"
  shows "j = k"
proof -
  have m: "(st_id (tc_objs c ! k), j) \<in> set (tc_map c)" by (rule getStream_mem [OF assms(5)])
  then have j: "j < length (tc_objs c)" using assms(2) by (auto simp: objs_ok_def)
  have "(of_nat (Suc j) :: 32 word) = of_nat (Suc k)"
    using m assms(1,4) unfolding ids_ok_def by (metis fst_conv snd_conv)
  then show ?thesis using j assms(3,4) by (intro of_nat_Suc_inject) auto
qed

lemma ids_ok_remove:
  assumes "ids_ok c" "objs_ok c"
    and push: "\<And>k d. getStream c i = Some k \<Longrightarrow> tc_reader c = Pushing k d \<Longrightarrow> handler_gone (tc_objs c ! k)"
  shows "ids_ok (removeStream i c)"
proof (cases "getStream c i")
  case (Some k)
  let ?c = "c\<lparr>tc_map := filter (\<lambda>e. fst e \<noteq> i) (tc_map c)\<rparr>"
  have k: "k < length (tc_objs c)" by (rule getStream_lt [OF assms(2) Some])
  have i: "i = of_nat (Suc k)" "\<not> st_closed (tc_objs c ! k)"
    using getStream_mem [OF Some] assms(1) unfolding ids_ok_def by (metis fst_conv snd_conv)+
  have "ids_ok ?c" using assms(1) by (simp add: ids_ok_def)
  then have "ids_ok (put_obj k (\<lambda>st. st\<lparr>st_closed := True\<rparr>) ?c)"
  proof (rule ids_ok_put)
    show "life_ok ((tc_objs ?c ! k)\<lparr>st_closed := True\<rparr>)"
      using assms(1) k by (simp add: ids_ok_def life_ok_def)
    show "\<And>e. e \<in> set (tc_map ?c) \<Longrightarrow> snd e = k \<Longrightarrow> \<not> st_closed ((tc_objs ?c ! k)\<lparr>st_closed := True\<rparr>)"
      using assms(1) i(1) by (auto simp: ids_ok_def)
    show "\<And>d. tc_reader ?c = Pushing k d \<Longrightarrow> handler_gone ((tc_objs ?c ! k)\<lparr>st_closed := True\<rparr>)"
      using push [OF Some] by (simp add: handler_gone_def)
  qed (use k in auto)
  then show ?thesis by (simp add: removeStream_def Some)
qed (use assms(1) in \<open>simp add: removeStream_def\<close>)

lemma ids_ok_leave:
  assumes "ids_ok c" "objs_ok c" "length (tc_objs c) < 2 ^ 32" "k < length (tc_objs c)"
    and f: "st_id (f (tc_objs c ! k)) = st_id (tc_objs c ! k)" "handler_gone (f (tc_objs c ! k))"
      "st_closed (f (tc_objs c ! k)) = st_closed (tc_objs c ! k)" "flow_ok (f (tc_objs c ! k))"
  shows "ids_ok (removeStream (st_id (tc_objs c ! k)) (put_obj k f c))"
proof (rule ids_ok_remove)
  show ids: "ids_ok (put_obj k f c)"
    using assms(1,4) f by (intro ids_ok_put_open) (auto simp: life_ok_def handler_gone_def)
  show objs: "objs_ok (put_obj k f c)" using assms(2) f(4) by (rule objs_ok_put)
  fix j d
  assume g: "getStream (put_obj k f c) (st_id (tc_objs c ! k)) = Some j"
  have "j = k"
    using getStream_id [OF ids objs, of k j] assms(3,4) f(1) g by (simp add: put_obj_nth)
  then show "handler_gone (tc_objs (put_obj k f c) ! j)" using f(2) assms(4) by (simp add: put_obj_nth)
qed

lemma ids_ok_serve:
  assumes "ids_ok c" "objs_ok c" "tc_reader c = Reading"
  shows "ids_ok (serve_message b raw c)"
proof (cases "read_frame b raw")
  case (Some fr)
  obtain ty sid p where fr: "fr = (ty, sid, p)" by (cases fr)
  show ?thesis
  proof (cases "getStream c sid")
    case g: (Some k)
    have "\<not> st_closed (tc_objs c ! k)"
      using getStream_mem [OF g] assms(1) unfolding ids_ok_def by (metis snd_conv)
    then have "ids_ok (c\<lparr>tc_reader := Pushing k p\<rparr>)" using assms(1) by (simp add: ids_ok_def)
    moreover have "ids_ok (removeStream sid c)" using assms by (intro ids_ok_remove) auto
    ultimately show ?thesis using assms(1) by (simp add: serve_message_def Some fr g)
  qed (simp add: serve_message_def Some fr assms(1))
qed (simp add: serve_message_def assms(1))

lemma ids_ok_new:
  assumes "ids_ok c" "objs_ok c" "length (tc_objs c) < 2 ^ 32 - 1"
  shows "ids_ok (newStream c)"
proof -
  have lt: "snd e < length (tc_objs c)" if "e \<in> set (tc_map c)" for e
    using assms(2) that by (simp add: objs_ok_def)
  have pl: "k < length (tc_objs c)" if "tc_reader c = Pushing k d" for k d
    using assms(2) that by (simp add: objs_ok_def)
  have i: "tc_next c + 1 = of_nat (Suc (length (tc_objs c)))" using assms(1) by (simp add: ids_ok_def)
  show ?thesis
    using assms(1) i unfolding newStream_def Let_def ids_ok_def
    by (auto simp: nth_append less_Suc_eq life_ok_def dest: lt pl)
qed

lemma ids_ok_idle: "ids_ok c \<Longrightarrow> ids_ok (c\<lparr>tc_reader := Reading\<rparr>)"
  by (simp add: ids_ok_def)

lemma ids_ok_close_all: "ids_ok c \<Longrightarrow> ids_ok (closeAllStreams (c\<lparr>tc_reader := Returned\<rparr>))"
  unfolding closeAllStreams_def ids_ok_def by (auto simp: nth_enumerate_eq life_ok_def)

lemma ids_ok_life: "ids_ok c \<Longrightarrow> k < length (tc_objs c) \<Longrightarrow> life_ok (tc_objs c ! k)"
  by (simp add: ids_ok_def)

lemma ids_ok_drained:
  assumes "ids_ok c" "objs_ok c" "length (tc_objs c) < 2 ^ 32" "k < length (tc_objs c)"
    and "st_loop (tc_objs c ! k) = Draining" "st_inbox (tc_objs c ! k) = []"
  shows "ids_ok (removeStream (st_id (tc_objs c ! k)) (put_obj k (\<lambda>st. st\<lparr>st_loop := Drained\<rparr>) c))"
proof -
  let ?d = "put_obj k (\<lambda>st. st\<lparr>st_loop := Drained\<rparr>) c"
  have closed: "st_closed (tc_objs c ! k)" using ids_ok_life [OF assms(1,4)] assms(5) by (simp add: life_ok_def)
  have "getStream c (st_id (tc_objs c ! k)) = None"
  proof (cases "getStream c (st_id (tc_objs c ! k))")
    case (Some j)
    then have "j = k" by (rule getStream_id [OF assms(1-4)])
    then show ?thesis using getStream_mem [OF Some] closed assms(1) unfolding ids_ok_def by (metis snd_conv)
  qed
  then have "removeStream (st_id (tc_objs c ! k)) ?d = ?d" by (simp add: removeStream_def getStream_def)
  moreover have "ids_ok ?d"
    using assms(1,4-6) closed by (intro ids_ok_put_open) (auto simp: life_ok_def handler_gone_def)
  ultimately show ?thesis by simp
qed

lemma ids_ok_push:
  assumes "ids_ok c" "objs_ok c" "tc_reader c = Pushing k d"
  shows "ids_ok (put_obj k (accept_data d) (c\<lparr>tc_reader := Reading\<rparr>))"
proof (rule ids_ok_put_open)
  have k: "k < length (tc_objs c)" using assms(2,3) by (simp add: objs_ok_def)
  then show "k < length (tc_objs (c\<lparr>tc_reader := Reading\<rparr>))" by simp
  have "st_closed (tc_objs c ! k) \<Longrightarrow> handler_gone (tc_objs c ! k)" using assms(1,3) by (auto simp: ids_ok_def)
  then show "life_ok (accept_data d (tc_objs (c\<lparr>tc_reader := Reading\<rparr>) ! k))"
    using ids_ok_life [OF assms(1) k] by (auto simp: life_ok_def accept_data_def handler_gone_def)
qed (use assms(1) in \<open>auto simp: ids_ok_idle accept_data_def handler_gone_def\<close>)

lemma length_removeStream [simp]: "length (tc_objs (removeStream i c)) = length (tc_objs c)"
  by (simp add: removeStream_def split: option.split)

lemma length_serve_message [simp]: "length (tc_objs (serve_message b raw c)) = length (tc_objs c)"
  by (simp add: serve_message_def split: option.split prod.split)

lemma step_length: "server_step c d \<Longrightarrow> length (tc_objs c) \<le> length (tc_objs d)"
  by (induction rule: server_step.induct) (auto simp: newStream_def Let_def closeAllStreams_def)

lemma ids_ok_step:
  "server_step c d \<Longrightarrow> length (tc_objs d) < 2 ^ 32 \<Longrightarrow> objs_ok c \<Longrightarrow> ids_ok c \<Longrightarrow> ids_ok d"
proof (induction rule: server_step.induct)
  case (step_open c)
  then show ?case by (intro ids_ok_new) (auto simp: newStream_def Let_def)
next
  case (step_push c k d)
  then show ?case by (intro ids_ok_push)
next
  case (step_write k c)
  then show ?case using ids_ok_life [of c k]
    by (intro ids_ok_put_open) (auto simp: write_next_def life_ok_def handler_gone_def)
next
  case (step_write_error k c)
  then show ?case using objs_ok_nth [of c k]
    by (intro ids_ok_leave flow_ok_ops) (auto simp: lose_next_def handler_gone_def)
next
  case (step_closed k c)
  then show ?case by (intro ids_ok_put_open) (auto simp: life_ok_def handler_gone_def)
next
  case (step_drained k c)
  then show ?case by (intro ids_ok_drained) auto
next
  case (step_client_gone k c)
  then show ?case using objs_ok_nth [of c k]
    by (intro ids_ok_leave flow_ok_ops) (auto simp: handler_gone_def)
qed (auto intro: ids_ok_serve ids_ok_idle ids_ok_close_all)

definition server_inv :: "tunnel_streams \<Rightarrow> bool" where
  "server_inv c \<longleftrightarrow> objs_ok c \<and> (length (tc_objs c) < 2 ^ 32 \<longrightarrow> ids_ok c)"

lemma delivered_put:
  "prefix (st_delivered (tc_objs c ! j)) (st_delivered (f (tc_objs c ! j))) \<Longrightarrow>
   prefix (st_delivered (tc_objs c ! k)) (st_delivered (tc_objs (put_obj j f c) ! k))"
  unfolding put_obj_def by (cases "j = k"; cases "j < length (tc_objs c)") (auto simp: list_update_beyond)

lemma delivered_close: "st_delivered (tc_objs (put_obj j (\<lambda>st. st\<lparr>st_closed := True\<rparr>) c) ! k) = st_delivered (tc_objs c ! k)"
  unfolding put_obj_def by (cases "j = k"; cases "j < length (tc_objs c)") (auto simp: list_update_beyond)

lemma delivered_remove [simp]: "st_delivered (tc_objs (removeStream i c) ! k) = st_delivered (tc_objs c ! k)"
  by (simp add: removeStream_def delivered_close split: option.split)

lemma delivered_serve [simp]: "st_delivered (tc_objs (serve_message b raw c) ! k) = st_delivered (tc_objs c ! k)"
  by (simp add: serve_message_def split: option.split prod.split)

lemma server_grows:
  "server_step c d \<Longrightarrow> k < length (tc_objs c) \<Longrightarrow> prefix (st_delivered (tc_objs c ! k)) (st_delivered (tc_objs d ! k))"
proof (induction rule: server_step.induct)
  case (step_open c)
  then show ?case by (simp add: newStream_def Let_def nth_append)
next
  case (step_push c j d)
  show ?case using delivered_put [of "c\<lparr>tc_reader := Reading\<rparr>" j "accept_data d" k] by (simp add: accept_data_def)
next
  case (step_read_error c)
  then show ?case by (simp add: closeAllStreams_def nth_enumerate_eq)
qed (simp_all add: delivered_put write_next_def lose_next_def)

interpretation server_end: stream_endpoint server_step no_streams server_inv "\<lambda>c. length (tc_objs c)"
  "\<lambda>c k. st_accepted (tc_objs c ! k)" "\<lambda>c k. st_delivered (tc_objs c ! k)" "\<lambda>c k. st_lost (tc_objs c ! k)"
  "\<lambda>c k. st_inbox (tc_objs c ! k)"
proof
  show "server_inv no_streams" by (simp add: server_inv_def objs_ok_def ids_ok_def no_streams_def)
  show "server_inv d" if "server_inv c" "server_step c d" for c d
    using that step_length [OF that(2)] unfolding server_inv_def by (auto intro: objs_ok_step ids_ok_step)
  show "st_accepted (tc_objs c ! k) = st_delivered (tc_objs c ! k) @ st_lost (tc_objs c ! k) @ st_inbox (tc_objs c ! k)"
    if "server_inv c" "k < length (tc_objs c)" for c k
    using that by (simp add: server_inv_def objs_ok_def flow_ok_def)
  show "k < length (tc_objs d) \<and> prefix (st_delivered (tc_objs c ! k)) (st_delivered (tc_objs d ! k))"
    if "server_inv c" "server_step c d" "k < length (tc_objs c)" for c d k
    using that step_length [OF that(2)] server_grows [OF that(2,3)] by simp
qed

text \<open>
  C19: In every interleaving of the server's read loop and its request handlers, what a browser has
  been sent is a prefix of the data its stream accepted, in order and without repetition, and no
  inbox holds more than 1024 chunks. While fewer than \<open>2 ^ 32\<close> streams have been opened on the
  connection, a response that ends with the CLI's close frame is complete when its handler returns
  (nothing is lost to the race between the last data and the close signal), and the read loop drops
  a chunk only when the stream's handler has already left.
\<close>

theorem server_delivers_in_order:
  assumes "server_step\<^sup>*\<^sup>* no_streams c" and "k < length (tc_objs c)"
  shows "prefix (concat (st_delivered (tc_objs c ! k))) (concat (st_accepted (tc_objs c ! k)))
    \<and> length (st_inbox (tc_objs c ! k)) \<le> 1024
    \<and> (2 ^ 32 \<le> length (tc_objs c) \<or>
        (st_loop (tc_objs c ! k) \<noteq> Drained \<or> st_delivered (tc_objs c ! k) = st_accepted (tc_objs c ! k))
        \<and> (\<nexists>d. tc_reader c = Pushing k d \<and> st_closed (tc_objs c ! k)
               \<and> st_loop (tc_objs c ! k) \<in> {Selecting, Draining, Drained}))"
proof -
  have inv: "server_inv c" by (rule server_end.reach_inv [OF assms(1)])
  have fl: "flow_ok (tc_objs c ! k)" using inv assms(2) by (simp add: server_inv_def objs_ok_def)
  have "prefix (st_delivered (tc_objs c ! k)) (st_accepted (tc_objs c ! k))"
    by (rule server_end.delivered_prefix [OF assms])
  then have 1: "prefix (concat (st_delivered (tc_objs c ! k))) (concat (st_accepted (tc_objs c ! k)))"
    by (auto simp: prefix_def)
  show ?thesis
  proof (cases "length (tc_objs c) < 2 ^ 32")
    case True
    then have ids: "ids_ok c" using inv by (simp add: server_inv_def)
    have "st_loop (tc_objs c ! k) \<noteq> Drained \<or> st_delivered (tc_objs c ! k) = st_accepted (tc_objs c ! k)"
      using fl ids_ok_life [OF ids assms(2)] by (auto simp: flow_ok_def life_ok_def)
    moreover have "tc_reader c = Pushing k d \<Longrightarrow> st_closed (tc_objs c ! k) \<Longrightarrow> handler_gone (tc_objs c ! k)" for d
      using ids by (simp add: ids_ok_def)
    ultimately show ?thesis using 1 fl by (auto simp: flow_ok_def handler_gone_def)
  qed (use 1 fl in \<open>auto simp: flow_ok_def\<close>)
qed

end
