(* ===== verification/Tunnel_Client.thy ===== *)
theory Tunnel_Client
  imports Tunnel_Streams
begin

text \<open>
  muveectl's end of the tunnel (\<open>tunnelSession\<close> in cmd/muveectl/tunnel.go): the read loop opens a
  connection to the local service for each open frame and feeds its inbox; one goroutine per stream
  writes the inbox to that connection, another sends back what the connection returns. \<open>closeS\<close>
  closes the stream's \<open>done\<close> channel and the connection together, so one flag stands for both.
\<close>

datatype cli_loop = Writing | CliDraining | Exited

record cli_stream =
  cs_sid :: "32 word"
  cs_inbox :: "bytes list"
  cs_done :: bool
  cs_loop :: cli_loop
  cs_local :: bool
  cs_accepted :: "bytes list"
  cs_delivered :: "bytes list"
  cs_lost :: "bytes list"

text \<open>\<open>cs_local\<close>: the goroutine that reads the local connection still runs.\<close>

record cli_streams =
  cl_map :: "(32 word \<times> nat) list"
  cl_objs :: "cli_stream list"
  cl_reader :: reader

definition no_cli_streams :: cli_streams where
  "no_cli_streams = \<lparr>cl_map = [], cl_objs = [], cl_reader = Reading\<rparr>"

definition put_cli :: "nat \<Rightarrow> (cli_stream \<Rightarrow> cli_stream) \<Rightarrow> cli_streams \<Rightarrow> cli_streams" where
  "put_cli k f c = c\<lparr>cl_objs := (cl_objs c)[k := f (cl_objs c ! k)]\<rparr>"

definition closeStream :: "32 word \<Rightarrow> cli_streams \<Rightarrow> cli_streams" where
  "closeStream sid c = (case map_of (cl_map c) sid of
       None \<Rightarrow> c
     | Some k \<Rightarrow> put_cli k (\<lambda>st. st\<lparr>cs_done := True\<rparr>) (c\<lparr>cl_map := filter (\<lambda>e. fst e \<noteq> sid) (cl_map c)\<rparr>))"

definition open_stream :: "32 word \<Rightarrow> cli_streams \<Rightarrow> cli_streams" where
  "open_stream sid c = c\<lparr>
     cl_objs := cl_objs c @ [\<lparr>cs_sid = sid, cs_inbox = [], cs_done = False, cs_loop = Writing,
       cs_local = True, cs_accepted = [], cs_delivered = [], cs_lost = []\<rparr>],
     cl_map := (sid, length (cl_objs c)) # filter (\<lambda>e. fst e \<noteq> sid) (cl_map c)\<rparr>"

text \<open>One turn of the read loop; \<open>dial\<close> says whether \<open>net.Dial\<close> succeeds.\<close>

definition cli_message :: "bool \<Rightarrow> bool \<Rightarrow> bytes \<Rightarrow> cli_streams \<Rightarrow> cli_streams" where
  "cli_message dial binary raw c = (case read_frame binary raw of
       None \<Rightarrow> c
     | Some (ty, sid, payload) \<Rightarrow>
         if ty = frameOpen then (if dial then open_stream sid c else c)
         else if ty = frameData then
           (case map_of (cl_map c) sid of
              None \<Rightarrow> c | Some k \<Rightarrow> c\<lparr>cl_reader := Pushing k payload\<rparr>)
         else if ty = frameClose then closeStream sid c
         else c)"

definition cli_accept :: "bytes \<Rightarrow> cli_stream \<Rightarrow> cli_stream" where
  "cli_accept d st = st\<lparr>cs_inbox := cs_inbox st @ [d], cs_accepted := cs_accepted st @ [d]\<rparr>"

definition cli_write_next :: "cli_stream \<Rightarrow> cli_stream" where
  "cli_write_next st = st\<lparr>cs_inbox := tl (cs_inbox st), cs_delivered := cs_delivered st @ [hd (cs_inbox st)]\<rparr>"

definition cli_lose_next :: "cli_stream \<Rightarrow> cli_stream" where
  "cli_lose_next st = st\<lparr>cs_inbox := tl (cs_inbox st), cs_lost := cs_lost st @ [hd (cs_inbox st)],
     cs_loop := Exited\<rparr>"

text \<open>
  A write to the local connection can succeed only while the connection is open; after \<open>closeS\<close> it
  fails. A chunk for a full inbox aborts the stream.
\<close>

inductive cli_step :: "cli_streams \<Rightarrow> cli_streams \<Rightarrow> bool" where
  cli_read: "cl_reader c = Reading \<Longrightarrow> cli_step c (cli_message dial binary raw c)"
| cli_push: "cl_reader c = Pushing k d \<Longrightarrow> length (cs_inbox (cl_objs c ! k)) < 1024 \<Longrightarrow>
    cli_step c (put_cli k (cli_accept d) (c\<lparr>cl_reader := Reading\<rparr>))"
| cli_skip: "cl_reader c = Pushing k d \<Longrightarrow> cs_done (cl_objs c ! k) \<Longrightarrow>
    cli_step c (c\<lparr>cl_reader := Reading\<rparr>)"
| cli_full: "cl_reader c = Pushing k d \<Longrightarrow> \<not> length (cs_inbox (cl_objs c ! k)) < 1024 \<Longrightarrow>
    \<not> cs_done (cl_objs c ! k) \<Longrightarrow>
    cli_step c (closeStream (cs_sid (cl_objs c ! k)) (c\<lparr>cl_reader := Reading\<rparr>))"
| cli_read_error: "cl_reader c = Reading \<Longrightarrow>
    cli_step c (c\<lparr>cl_reader := Returned, cl_map := [],
      cl_objs := map (\<lambda>(k, st). if k \<in> snd ` set (cl_map c) then st\<lparr>cs_done := True\<rparr> else st)
        (enumerate 0 (cl_objs c))\<rparr>)"
| cli_write: "k < length (cl_objs c) \<Longrightarrow> cs_loop (cl_objs c ! k) = Writing \<Longrightarrow>
    cs_inbox (cl_objs c ! k) \<noteq> [] \<Longrightarrow> \<not> cs_done (cl_objs c ! k) \<Longrightarrow>
    cli_step c (put_cli k cli_write_next c)"
| cli_write_error: "k < length (cl_objs c) \<Longrightarrow> cs_loop (cl_objs c ! k) = Writing \<Longrightarrow>
    cs_inbox (cl_objs c ! k) \<noteq> [] \<Longrightarrow>
    cli_step c (closeStream (cs_sid (cl_objs c ! k)) (put_cli k cli_lose_next c))"
| cli_done: "k < length (cl_objs c) \<Longrightarrow> cs_loop (cl_objs c ! k) = Writing \<Longrightarrow>
    cs_done (cl_objs c ! k) \<Longrightarrow> cli_step c (put_cli k (\<lambda>st. st\<lparr>cs_loop := CliDraining\<rparr>) c)"
| cli_drain_error: "k < length (cl_objs c) \<Longrightarrow> cs_loop (cl_objs c ! k) = CliDraining \<Longrightarrow>
    cs_inbox (cl_objs c ! k) \<noteq> [] \<Longrightarrow> cli_step c (put_cli k cli_lose_next c)"
| cli_drained: "k < length (cl_objs c) \<Longrightarrow> cs_loop (cl_objs c ! k) = CliDraining \<Longrightarrow>
    cs_inbox (cl_objs c ! k) = [] \<Longrightarrow> cli_step c (put_cli k (\<lambda>st. st\<lparr>cs_loop := Exited\<rparr>) c)"
| cli_local_end: "k < length (cl_objs c) \<Longrightarrow> cs_local (cl_objs c ! k) \<Longrightarrow>
    cli_step c (closeStream (cs_sid (cl_objs c ! k)) (put_cli k (\<lambda>st. st\<lparr>cs_local := False\<rparr>) c))"

section \<open>The client keeps the same promise\<close>

lemma put_cli_simps [simp]:
  "length (cl_objs (put_cli k f c)) = length (cl_objs c)"
  "cl_map (put_cli k f c) = cl_map c" "cl_reader (put_cli k f c) = cl_reader c"
  by (simp_all add: put_cli_def)

definition cli_flow :: "cli_stream \<Rightarrow> bool" where
  "cli_flow st \<longleftrightarrow> cs_accepted st = cs_delivered st @ cs_lost st @ cs_inbox st
     \<and> length (cs_inbox st) \<le> 1024 \<and> (cs_lost st = [] \<or> cs_loop st = Exited)"

definition cli_inv :: "cli_streams \<Rightarrow> bool" where
  "cli_inv c \<longleftrightarrow> (\<forall>e \<in> set (cl_map c). snd e < length (cl_objs c))
     \<and> (\<forall>k d. cl_reader c = Pushing k d \<longrightarrow> k < length (cl_objs c))
     \<and> (\<forall>k < length (cl_objs c). cli_flow (cl_objs c ! k))"

lemma cli_flow_ops:
  "cli_flow st \<Longrightarrow> cli_flow (st\<lparr>cs_done := b\<rparr>)"
  "cli_flow st \<Longrightarrow> cli_flow (st\<lparr>cs_local := b\<rparr>)"
  "cli_flow st \<Longrightarrow> cs_loop st \<noteq> Exited \<Longrightarrow> cli_flow (st\<lparr>cs_loop := l\<rparr>)"
  "cli_flow st \<Longrightarrow> length (cs_inbox st) < 1024 \<Longrightarrow> cli_flow (cli_accept d st)"
  "cli_flow st \<Longrightarrow> cs_loop st = Writing \<Longrightarrow> cs_inbox st \<noteq> [] \<Longrightarrow> cli_flow (cli_write_next st)"
  "cli_flow st \<Longrightarrow> cs_inbox st \<noteq> [] \<Longrightarrow> cli_flow (cli_lose_next st)"
  by (auto simp: cli_flow_def cli_accept_def cli_write_next_def cli_lose_next_def)

lemma cli_inv_put: "cli_inv c \<Longrightarrow> (k < length (cl_objs c) \<Longrightarrow> cli_flow (f (cl_objs c ! k))) \<Longrightarrow> cli_inv (put_cli k f c)"
  unfolding cli_inv_def put_cli_def
  by (cases "k < length (cl_objs c)") (auto simp: nth_list_update list_update_beyond)

lemma cli_inv_close: "cli_inv c \<Longrightarrow> cli_inv (closeStream sid c)"
  unfolding closeStream_def
  by (auto split: option.split intro!: cli_inv_put cli_flow_ops) (auto simp: cli_inv_def)

lemma cli_inv_reading: "cli_inv c \<Longrightarrow> cli_inv (c\<lparr>cl_reader := Reading\<rparr>)"
  by (simp add: cli_inv_def)

lemma cli_inv_nth: "cli_inv c \<Longrightarrow> k < length (cl_objs c) \<Longrightarrow> cli_flow (cl_objs c ! k)"
  by (simp add: cli_inv_def)

lemma cli_inv_message:
  assumes "cli_inv c" "cl_reader c = Reading"
  shows "cli_inv (cli_message dial b raw c)"
proof -
  have lt: "map_of (cl_map c) sid = Some k \<Longrightarrow> k < length (cl_objs c)" for sid k
    using assms(1) unfolding cli_inv_def by (metis map_of_SomeD snd_conv)
  have "cli_inv (open_stream sid c)" for sid
    using assms unfolding open_stream_def cli_inv_def by (auto simp: nth_append cli_flow_def less_Suc_eq)
  moreover have "map_of (cl_map c) sid = Some k \<Longrightarrow> cli_inv (c\<lparr>cl_reader := Pushing k p\<rparr>)" for sid k p
    using assms lt by (simp add: cli_inv_def)
  ultimately show ?thesis
    using assms(1) cli_inv_close by (auto simp: cli_message_def split: option.split prod.split)
qed

lemma cli_inv_step: "cli_step c d \<Longrightarrow> cli_inv c \<Longrightarrow> cli_inv d"
proof (induction rule: cli_step.induct)
  case (cli_push c k d)
  then have "cli_inv (put_cli k (cli_accept d) (c\<lparr>cl_reader := Reading\<rparr>))"
    by (intro cli_inv_put cli_inv_reading cli_flow_ops) (auto simp: cli_inv_def)
  then show ?case .
next
  case (cli_read_error c)
  then show ?case by (auto simp: cli_inv_def nth_enumerate_eq intro: cli_flow_ops)
qed (auto intro!: cli_inv_message cli_inv_reading cli_inv_close cli_inv_put
       intro: cli_flow_ops dest: cli_inv_nth)

text \<open>What one step does to what the local service has received.\<close>

lemma cli_delivered_put:
  "cs_delivered (f (cl_objs c ! j)) = cs_delivered (cl_objs c ! j) \<Longrightarrow>
   cs_delivered (cl_objs (put_cli j f c) ! k) = cs_delivered (cl_objs c ! k)"
  unfolding put_cli_def by (cases "j = k"; cases "j < length (cl_objs c)") (auto simp: list_update_beyond)

lemma cli_delivered_close [simp]: "cs_delivered (cl_objs (closeStream i c) ! k) = cs_delivered (cl_objs c ! k)"
  by (simp add: closeStream_def cli_delivered_put split: option.split)

lemma cli_done_put:
  "cs_done (f (cl_objs c ! j)) = cs_done (cl_objs c ! j) \<or> cs_done (f (cl_objs c ! j)) \<Longrightarrow>
   cs_done (cl_objs c ! k) \<Longrightarrow> cs_done (cl_objs (put_cli j f c) ! k)"
  unfolding put_cli_def by (cases "j = k"; cases "j < length (cl_objs c)") (auto simp: list_update_beyond)

lemma cli_done_close: "cs_done (cl_objs c ! k) \<Longrightarrow> cs_done (cl_objs (closeStream i c) ! k)"
  by (simp add: closeStream_def cli_done_put split: option.split)

lemma length_cli_close [simp]: "length (cl_objs (closeStream i c)) = length (cl_objs c)"
  by (simp add: closeStream_def split: option.split)

lemma cli_message_objs:
  "k < length (cl_objs c) \<Longrightarrow> k < length (cl_objs (cli_message dial b raw c))
     \<and> cs_delivered (cl_objs (cli_message dial b raw c) ! k) = cs_delivered (cl_objs c ! k)
     \<and> (cs_done (cl_objs c ! k) \<longrightarrow> cs_done (cl_objs (cli_message dial b raw c) ! k))"
  by (auto simp: cli_message_def open_stream_def nth_append cli_done_close split: option.split prod.split)

lemma cli_step_objs:
  "cli_step c d \<Longrightarrow> k < length (cl_objs c) \<Longrightarrow> k < length (cl_objs d)
     \<and> (cs_delivered (cl_objs d ! k) = cs_delivered (cl_objs c ! k) \<or>
         \<not> cs_done (cl_objs c ! k) \<and> d = put_cli k cli_write_next c)
     \<and> (cs_done (cl_objs c ! k) \<longrightarrow> cs_done (cl_objs d ! k))"
proof (induction rule: cli_step.induct)
  case (cli_write j c)
  then show ?case
    by (cases "j = k") (auto simp: put_cli_def cli_write_next_def)
next
  case (cli_push c j d)
  have "cs_delivered (cl_objs (put_cli j (cli_accept d) (c\<lparr>cl_reader := Reading\<rparr>)) ! k) = cs_delivered (cl_objs c ! k)"
    by (subst cli_delivered_put) (simp_all add: cli_accept_def)
  moreover have "cs_done (cl_objs c ! k) \<Longrightarrow> cs_done (cl_objs (put_cli j (cli_accept d) (c\<lparr>cl_reader := Reading\<rparr>)) ! k)"
    by (rule cli_done_put) (simp_all add: cli_accept_def)
  ultimately show ?case using cli_push by simp
next
  case (cli_read_error c)
  then show ?case by (simp add: nth_enumerate_eq)
qed (simp_all add: cli_message_objs cli_delivered_put cli_done_put cli_done_close cli_lose_next_def)

interpretation client_end: stream_endpoint cli_step no_cli_streams cli_inv "\<lambda>c. length (cl_objs c)"
  "\<lambda>c k. cs_accepted (cl_objs c ! k)" "\<lambda>c k. cs_delivered (cl_objs c ! k)" "\<lambda>c k. cs_lost (cl_objs c ! k)"
  "\<lambda>c k. cs_inbox (cl_objs c ! k)"
proof
  show "cli_inv no_cli_streams" by (simp add: cli_inv_def no_cli_streams_def)
  show "cli_inv d" if "cli_inv c" "cli_step c d" for c d
    by (rule cli_inv_step [OF that(2,1)])
  show "cs_accepted (cl_objs c ! k) = cs_delivered (cl_objs c ! k) @ cs_lost (cl_objs c ! k) @ cs_inbox (cl_objs c ! k)"
    if "cli_inv c" "k < length (cl_objs c)" for c k
    using that by (simp add: cli_inv_def cli_flow_def)
  show "k < length (cl_objs d) \<and> prefix (cs_delivered (cl_objs c ! k)) (cs_delivered (cl_objs d ! k))"
    if "cli_inv c" "cli_step c d" "k < length (cl_objs c)" for c d k
    using cli_step_objs [OF that(2,3)] that(3) by (auto simp: put_cli_def cli_write_next_def)
qed

lemma cli_closed_run:
  "cli_step\<^sup>*\<^sup>* c d \<Longrightarrow> k < length (cl_objs c) \<Longrightarrow> cs_done (cl_objs c ! k) \<Longrightarrow>
   k < length (cl_objs d) \<and> cs_done (cl_objs d ! k) \<and> cs_delivered (cl_objs d ! k) = cs_delivered (cl_objs c ! k)"
proof (induction rule: rtranclp_induct)
  case (step y z)
  then show ?case using cli_step_objs [OF step.hyps(2), of k] by auto
qed simp


section \<open>Runs\<close>

text \<open>One stream of each endpoint, in the states of the two runs below.\<close>

definition one_stream :: "bytes list \<Rightarrow> bytes list \<Rightarrow> bytes list \<Rightarrow> bool \<Rightarrow> loop_state \<Rightarrow> reader \<Rightarrow> tunnel_streams" where
  "one_stream inb acc del closed loop r = \<lparr>tc_next = 1, tc_map = (if closed then [] else [(1, 0)]),
     tc_objs = [\<lparr>st_id = 1, st_inbox = inb, st_closed = closed, st_loop = loop, st_accepted = acc,
       st_delivered = del, st_lost = []\<rparr>], tc_reader = r\<rparr>"

definition one_cli :: "bytes list \<Rightarrow> bytes list \<Rightarrow> bytes list \<Rightarrow> bool \<Rightarrow> cli_loop \<Rightarrow> reader \<Rightarrow> cli_streams" where
  "one_cli inb acc lost closed loop r = \<lparr>cl_map = (if closed then [] else [(1, 0)]),
     cl_objs = [\<lparr>cs_sid = 1, cs_inbox = inb, cs_done = closed, cs_loop = loop, cs_local = True,
       cs_accepted = acc, cs_delivered = [], cs_lost = lost\<rparr>], cl_reader = r\<rparr>"

text \<open>The CLI answers with one chunk and closes; the handler sees the close signal first.\<close>

lemma server_run: "server_step\<^sup>*\<^sup>* no_streams (one_stream [] [[104]] [[104]] True Drained Reading)"
proof -
  have 1: "server_step no_streams (one_stream [] [] [] False Selecting Reading)"
    using server_step.step_open [of no_streams] by (simp add: newStream_def no_streams_def one_stream_def)
  have 2: "server_step (one_stream [] [] [] False Selecting Reading) (one_stream [] [] [] False Selecting (Pushing 0 [104]))"
    using server_step.step_read [of "one_stream [] [] [] False Selecting Reading" True "frame_bytes frameData 1 [104]"]
    by (simp add: one_stream_def serve_message_def getStream_def)
  have 3: "server_step (one_stream [] [] [] False Selecting (Pushing 0 [104])) (one_stream [[104]] [[104]] [] False Selecting Reading)"
    using server_step.step_push [of "one_stream [] [] [] False Selecting (Pushing 0 [104])" 0 "[104]"]
    by (simp add: one_stream_def put_obj_def accept_data_def)
  have 4: "server_step (one_stream [[104]] [[104]] [] False Selecting Reading) (one_stream [[104]] [[104]] [] True Selecting Reading)"
    using server_step.step_read [of "one_stream [[104]] [[104]] [] False Selecting Reading" True "frame_bytes frameClose 1 []"]
    by (simp add: one_stream_def serve_message_def getStream_def removeStream_def put_obj_def frameClose_def frameData_def)
  have 5: "server_step (one_stream [[104]] [[104]] [] True Selecting Reading) (one_stream [[104]] [[104]] [] True Draining Reading)"
    using server_step.step_closed [of 0 "one_stream [[104]] [[104]] [] True Selecting Reading"]
    by (simp add: one_stream_def put_obj_def)
  have 6: "server_step (one_stream [[104]] [[104]] [] True Draining Reading) (one_stream [] [[104]] [[104]] True Draining Reading)"
    using server_step.step_write [of 0 "one_stream [[104]] [[104]] [] True Draining Reading"]
    by (simp add: one_stream_def put_obj_def write_next_def)
  have 7: "server_step (one_stream [] [[104]] [[104]] True Draining Reading) (one_stream [] [[104]] [[104]] True Drained Reading)"
    using server_step.step_drained [of 0 "one_stream [] [[104]] [[104]] True Draining Reading"]
    by (simp add: one_stream_def put_obj_def removeStream_def getStream_def)
  show ?thesis by (rule converse_rtranclp_into_rtranclp [of server_step, OF 1 converse_rtranclp_into_rtranclp [of server_step, OF 2 converse_rtranclp_into_rtranclp [of server_step, OF 3 converse_rtranclp_into_rtranclp [of server_step, OF 4 converse_rtranclp_into_rtranclp [of server_step, OF 5 converse_rtranclp_into_rtranclp [of server_step, OF 6 r_into_rtranclp [of server_step, OF 7]]]]]]])
qed

lemma server_delivers_in_order_witness:
  "let c = one_stream [] [[104]] [[104]] True Drained Reading in
    prefix (concat (st_delivered (tc_objs c ! 0))) (concat (st_accepted (tc_objs c ! 0)))
    \<and> length (st_inbox (tc_objs c ! 0)) \<le> 1024
    \<and> (2 ^ 32 \<le> length (tc_objs c) \<or>
        (st_loop (tc_objs c ! 0) \<noteq> Drained \<or> st_delivered (tc_objs c ! 0) = st_accepted (tc_objs c ! 0))
        \<and> (\<nexists>d. tc_reader c = Pushing 0 d \<and> st_closed (tc_objs c ! 0)
               \<and> st_loop (tc_objs c ! 0) \<in> {Selecting, Draining, Drained}))"
  unfolding Let_def by (rule server_delivers_in_order [OF server_run]) (simp add: one_stream_def)

text \<open>The server sends one chunk and closes; the writer goroutine sees \<open>done\<close> first.\<close>

lemma cli_run_closed: "cli_step\<^sup>*\<^sup>* no_cli_streams (one_cli [[104]] [[104]] [] True Writing Reading)"
proof -
  have 1: "cli_step no_cli_streams (one_cli [] [] [] False Writing Reading)"
    using cli_step.cli_read [of no_cli_streams True True "frame_bytes frameOpen 1 []"]
    by (simp add: no_cli_streams_def one_cli_def cli_message_def open_stream_def)
  have 2: "cli_step (one_cli [] [] [] False Writing Reading) (one_cli [] [] [] False Writing (Pushing 0 [104]))"
    using cli_step.cli_read [of "one_cli [] [] [] False Writing Reading" True True "frame_bytes frameData 1 [104]"]
    by (simp add: one_cli_def cli_message_def frameOpen_def frameData_def)
  have 3: "cli_step (one_cli [] [] [] False Writing (Pushing 0 [104])) (one_cli [[104]] [[104]] [] False Writing Reading)"
    using cli_step.cli_push [of "one_cli [] [] [] False Writing (Pushing 0 [104])" 0 "[104]"]
    by (simp add: one_cli_def put_cli_def cli_accept_def)
  have 4: "cli_step (one_cli [[104]] [[104]] [] False Writing Reading) (one_cli [[104]] [[104]] [] True Writing Reading)"
    using cli_step.cli_read [of "one_cli [[104]] [[104]] [] False Writing Reading" True True "frame_bytes frameClose 1 []"]
    by (simp add: one_cli_def cli_message_def closeStream_def put_cli_def frameOpen_def frameData_def frameClose_def)
  show ?thesis by (rule converse_rtranclp_into_rtranclp [of cli_step, OF 1 converse_rtranclp_into_rtranclp [of cli_step, OF 2 converse_rtranclp_into_rtranclp [of cli_step, OF 3 r_into_rtranclp [of cli_step, OF 4]]]])
qed

lemma cli_run_lost:
  "cli_step\<^sup>*\<^sup>* (one_cli [[104]] [[104]] [] True Writing Reading) (one_cli [] [[104]] [[104]] True Exited Reading)"
proof -
  have 1: "cli_step (one_cli [[104]] [[104]] [] True Writing Reading) (one_cli [[104]] [[104]] [] True CliDraining Reading)"
    using cli_step.cli_done [of 0 "one_cli [[104]] [[104]] [] True Writing Reading"]
    by (simp add: one_cli_def put_cli_def)
  have 2: "cli_step (one_cli [[104]] [[104]] [] True CliDraining Reading) (one_cli [] [[104]] [[104]] True Exited Reading)"
    using cli_step.cli_drain_error [of 0 "one_cli [[104]] [[104]] [] True CliDraining Reading"]
    by (simp add: one_cli_def put_cli_def cli_lose_next_def)
  show ?thesis by (rule converse_rtranclp_into_rtranclp [of cli_step, OF 1 r_into_rtranclp [of cli_step, OF 2]])
qed


text \<open>
  muveectl can truncate a request: there is a run in which the read loop accepts a chunk and then
  the close frame, and the writer goroutine, which drains the inbox after the close signal so that
  the service sees the complete request, finds the connection already closed and exits without
  having delivered anything. The server's handler has no such run (\<open>server_delivers_in_order\<close>).
\<close>

theorem client_close_truncates:
  "\<exists>c. cli_step\<^sup>*\<^sup>* no_cli_streams c \<and> length (cl_objs c) = 1
     \<and> cs_loop (cl_objs c ! 0) = Exited \<and> cs_accepted (cl_objs c ! 0) = [[104]]
     \<and> cs_delivered (cl_objs c ! 0) = [] \<and> cs_inbox (cl_objs c ! 0) = []"
proof (intro exI conjI)
  show "cli_step\<^sup>*\<^sup>* no_cli_streams (one_cli [] [[104]] [[104]] True Exited Reading)"
    using cli_run_closed cli_run_lost by (rule rtranclp_trans)
qed (simp_all add: one_cli_def)

end
