(* ===== verification/Tunnel.thy ===== *)
theory Tunnel
  imports Domains Deploy_Store
begin

text \<open>
  Tunnels on the server (internal/api/tunnel.go): the registry of live connections, who may connect
  under which domain, and which requests are forwarded to which tunnel. A connection is a record
  with an identity (the pointer); its streams are modelled in \<open>Tunnel_Streams\<close>.
\<close>

section \<open>The registry\<close>

record tunnel_conn =
  tn_id :: nat
  tn_email :: string
  tn_auth_required :: bool
  tn_connected_at :: time
  tn_project :: string

record tunnel_info =
  ti_domain :: string
  ti_user_email :: string
  ti_auth_required :: bool
  ti_connected_at :: time
  ti_project :: string

type_synonym tunnel_registry = "(string \<times> tunnel_conn) list"

definition newTunnelRegistry :: tunnel_registry where
  "newTunnelRegistry = []"

definition tunnel_get :: "tunnel_registry \<Rightarrow> string \<Rightarrow> tunnel_conn option" where
  "tunnel_get tr domain = map_of tr domain"

definition tunnel_register :: "tunnel_registry \<Rightarrow> string \<Rightarrow> tunnel_conn \<Rightarrow> bool \<times> tunnel_registry" where
  "tunnel_register tr domain tc =
     (if tunnel_get tr domain \<noteq> None then (False, tr) else (True, (domain, tc) # tr))"

definition tunnel_unregister :: "tunnel_registry \<Rightarrow> string \<Rightarrow> tunnel_conn \<Rightarrow> tunnel_registry" where
  "tunnel_unregister tr domain tc = (case tunnel_get tr domain of
       None \<Rightarrow> tr
     | Some cur \<Rightarrow> if tn_id cur = tn_id tc then filter (\<lambda>e. fst e \<noteq> domain) tr else tr)"

definition dumpKeys :: "tunnel_registry \<Rightarrow> string list" where
  "dumpKeys tr = map fst tr"

text \<open>A Go map is read in no particular order; here it is the order of the list.\<close>

definition activeTunnels :: "tunnel_registry \<Rightarrow> tunnel_info list" where
  "activeTunnels tr = map (\<lambda>(d, tc). \<lparr>ti_domain = d, ti_user_email = tn_email tc,
     ti_auth_required = tn_auth_required tc, ti_connected_at = tn_connected_at tc,
     ti_project = tn_project tc\<rparr>) tr"

section \<open>Connecting\<close>

definition is_lower_alnum :: "char \<Rightarrow> bool" where
  "is_lower_alnum c \<longleftrightarrow> (CHR ''a'' \<le> c \<and> c \<le> CHR ''z'') \<or> (CHR ''0'' \<le> c \<and> c \<le> CHR ''9'')"

definition isValidTunnelDomain :: "string \<Rightarrow> bool" where
  "isValidTunnelDomain domain =
     (if \<not> HasPrefix domain ''t-'' then False
      else (let parts = Split (CHR ''-'') (drop 2 domain)
            in if length parts < 2 then False
               else list_all (\<lambda>p. length p \<noteq> 0 \<and> list_all is_lower_alnum p) parts))"

definition GetProjectByOwnerAndName :: "uuid \<Rightarrow> string \<Rightarrow> project option store" where
  "GetProjectByOwnerAndName owner name =
     query (\<lambda>s. find (\<lambda>p. p_owner p = owner \<and> p_name p = name) (projects s))"

text \<open>
  \<open>handleTunnelConnect\<close> up to the upgrade, for the query parameters \<open>domain\<close>, \<open>project\<close> and
  \<open>noauth\<close>: an HTTP error, or the domain, the bound project and whether requests need a login.
\<close>

definition resolve_tunnel_domain ::
  "user \<Rightarrow> string \<Rightarrow> string \<Rightarrow> (db, (nat \<times> string) + (string \<times> string)) state" where
  "resolve_tunnel_domain user rawDomain projectName =
     (if projectName \<noteq> '''' then do {
        r \<leftarrow> GetProjectByOwnerAndName (u_id user) projectName;
        State_Monad.return (case r of
          Inl _ \<Rightarrow> Inl (500, ''project lookup failed'')
        | Inr None \<Rightarrow> Inl (404, ''project not found'')
        | Inr (Some proj) \<Rightarrow>
            if p_type proj \<noteq> PT_DomainOnly then Inl (409, ''project is not a domain_only project'')
            else Inr (p_domain_prefix proj, p_name proj)) }
      else if rawDomain \<noteq> '''' then
        (if \<not> isValidTunnelDomain rawDomain then fail (400, ''invalid domain parameter'')
         else ok (rawDomain, ''''))
      else fail (400, ''domain or project parameter is required''))"

definition connect_check ::
  "tunnel_registry \<Rightarrow> user \<Rightarrow> string \<Rightarrow> string \<Rightarrow> string \<Rightarrow>
   (db, (nat \<times> string) + (string \<times> string \<times> bool)) state" where
  "connect_check tr user rawDomain projectName noauth =
     (if rawDomain \<noteq> '''' \<and> projectName \<noteq> ''''
      then fail (400, ''domain and project parameters are mutually exclusive'')
      else attempt (resolve_tunnel_domain user rawDomain projectName) (\<lambda>(domain, boundProject).
        let authRequired = (noauth \<noteq> ''1'') in
        if \<not> authRequired \<and> boundProject = '''' \<and> u_role user \<noteq> RoleAdmin
        then fail (403, ''noauth ephemeral tunnels require admin role'')
        else if tunnel_get tr domain \<noteq> None
        then fail (409, ''a tunnel is already connected to this domain'')
        else ok (domain, boundProject, authRequired)))"

text \<open>
  The rest of the handler is three moments, between which other requests run: the registration
  after the upgrade (it may lose the race), the session, and the deferred \<open>unregister\<close>.
\<close>

definition new_tunnel_conn :: "nat \<Rightarrow> user \<Rightarrow> time \<Rightarrow> string \<Rightarrow> bool \<Rightarrow> tunnel_conn" where
  "new_tunnel_conn i user now boundProject authRequired =
     \<lparr>tn_id = i, tn_email = (case u_email user of None \<Rightarrow> '''' | Some e \<Rightarrow> e),
      tn_auth_required = authRequired, tn_connected_at = now, tn_project = boundProject\<rparr>"

section \<open>Requests\<close>

definition strip_port :: "string \<Rightarrow> string" where
  "strip_port host = (case LastIndexByte host (CHR '':'') of None \<Rightarrow> host | Some i \<Rightarrow> take i host)"

text \<open>\<open>isTunnelRequest\<close>: the server's \<open>baseDomain\<close> and its cache of reserved prefixes.\<close>

definition isTunnelRequest :: "string \<Rightarrow> string list \<Rightarrow> string \<Rightarrow> bool" where
  "isTunnelRequest baseDomain domainOnly rhost =
     (let host = strip_port rhost; suffix = ''.'' @ baseDomain in
      if \<not> HasSuffix host suffix then False
      else (let pfx = TrimSuffix host suffix in
            if HasPrefix pfx ''t-'' then True else pfx \<in> set domainOnly))"

datatype tunnel_route = RejectSuffix | OfflinePage string | NotConnected | ForwardTo tunnel_conn

definition route_tunnel_traffic :: "string \<Rightarrow> string list \<Rightarrow> tunnel_registry \<Rightarrow> string \<Rightarrow> tunnel_route" where
  "route_tunnel_traffic baseDomain domainOnly tr rhost =
     (let host = strip_port rhost; suffix = ''.'' @ baseDomain in
      if \<not> HasSuffix host suffix then RejectSuffix
      else (let domain = TrimSuffix host suffix in
            case tunnel_get tr domain of
              None \<Rightarrow> if domain \<in> set domainOnly then OfflinePage domain else NotConnected
            | Some tc \<Rightarrow> ForwardTo tc))"

text \<open>
  The request that is replayed to the local service. A header map is a list of names with their
  values, in the order the map yields them.
\<close>

type_synonym headers = "(string \<times> string list) list"

definition crlf :: string where "crlf = [CHR 0x0D, CHR 0x0A]"

definition EqualFold :: "string \<Rightarrow> string \<Rightarrow> bool" where
  "EqualFold a b \<longleftrightarrow> ToLower a = ToLower b"

definition forwards_header :: "bool \<Rightarrow> string \<Rightarrow> bool" where
  "forwards_header isUpgrade k =
     (if EqualFold k ''Host'' \<or> EqualFold k ''Content-Length'' \<or> EqualFold k ''Transfer-Encoding'' then False
      else if \<not> isUpgrade \<and> (EqualFold k ''Connection'' \<or> EqualFold k ''Keep-Alive'' \<or> EqualFold k ''Proxy-Connection'')
      then False else True)"

definition header_lines :: "bool \<Rightarrow> headers \<Rightarrow> string" where
  "header_lines isUpgrade hs = concat (map (\<lambda>(k, vv).
     if forwards_header isUpgrade k then concat (map (\<lambda>v. k @ '': '' @ v @ crlf) vv) else '''') hs)"

definition forwarded_request ::
  "string \<Rightarrow> string \<Rightarrow> string \<Rightarrow> bool \<Rightarrow> headers \<Rightarrow> string \<Rightarrow> string" where
  "forwarded_request method uri rhost isUpgrade hs body =
     method @ '' '' @ uri @ '' HTTP/1.1'' @ crlf @ ''Host: '' @ rhost @ crlf
     @ header_lines isUpgrade hs
     @ (if \<not> isUpgrade then ''Connection: close'' @ crlf else '''')
     @ (if length body > 0 then ''Content-Length: '' @ show_nat (length body) @ crlf else '''')
     @ crlf @ body"

text \<open>\<open>TunnelAwareHandler\<close>: the tunnel for its requests, the application for the others.\<close>

definition TunnelAwareHandler :: "string \<Rightarrow> string list \<Rightarrow> tunnel_registry \<Rightarrow> string \<Rightarrow> tunnel_route option" where
  "TunnelAwareHandler baseDomain domainOnly tr rhost =
     (if isTunnelRequest baseDomain domainOnly rhost
      then Some (route_tunnel_traffic baseDomain domainOnly tr rhost) else None)"

section \<open>Domains\<close>

lemma dash_not_alnum [simp]: "\<not> is_lower_alnum (CHR ''-'')"
  by code_simp

text \<open>
  \<open>isValidTunnelDomain\<close> accepts exactly the names \<open>t-word-..-word\<close> of at least two non-empty words
  of lower-case letters and digits.
\<close>

theorem isValidTunnelDomain_iff:
  "isValidTunnelDomain d = (\<exists>words. d = ''t-'' @ Join words ''-'' \<and> 2 \<le> length words
     \<and> list_all (\<lambda>p. p \<noteq> [] \<and> list_all is_lower_alnum p) words)"
proof
  assume v: "isValidTunnelDomain d"
  let ?parts = "Split (CHR ''-'') (drop 2 d)"
  have "d = ''t-'' @ drop 2 d" using v
    by (auto simp: isValidTunnelDomain_def HasPrefix_iff split: if_splits)
  moreover have "Join ?parts ''-'' = drop 2 d" by (rule Join_Split)
  ultimately have "d = ''t-'' @ Join ?parts ''-''" by simp
  then show "\<exists>words. d = ''t-'' @ Join words ''-'' \<and> 2 \<le> length words
     \<and> list_all (\<lambda>p. p \<noteq> [] \<and> list_all is_lower_alnum p) words"
    using v by (intro exI [of _ ?parts]) (auto simp: isValidTunnelDomain_def Let_def split: if_splits)
next
  assume "\<exists>words. d = ''t-'' @ Join words ''-'' \<and> 2 \<le> length words
     \<and> list_all (\<lambda>p. p \<noteq> [] \<and> list_all is_lower_alnum p) words"
  then obtain words where d: "d = ''t-'' @ Join words ''-''" and len: "2 \<le> length words"
    and ok: "list_all (\<lambda>p. p \<noteq> [] \<and> list_all is_lower_alnum p) words" by blast
  have "CHR ''-'' \<notin> set p" if "p \<in> set words" for p
    using ok that dash_not_alnum by (metis list_all_iff)
  then have "Split (CHR ''-'') (Join words ''-'') = words"
    using len by (intro Split_Join) auto
  then show "isValidTunnelDomain d"
    using ok len by (simp add: d isValidTunnelDomain_def Let_def HasPrefix_def)
qed

section \<open>Who may connect\<close>

text \<open>
  A tunnel is only admitted to a domain its user is entitled to: either an ephemeral name of the
  \<open>t-word-word\<close> form, public only for a platform admin, or the prefix of a \<open>domain_only\<close> project the
  user owns; and no live tunnel holds the domain. Nothing in the database changes on the way.
\<close>

theorem connect_check_entitled:
  assumes "run_state (connect_check tr user rawDomain projectName noauth) s = (Inr (domain, bound, needsAuth), s')"
  shows "tunnel_get tr domain = None \<and> needsAuth = (noauth \<noteq> ''1'')
    \<and> (isValidTunnelDomain domain \<and> domain = rawDomain \<and> bound = '''' \<and> (needsAuth \<or> u_role user = RoleAdmin)
       \<or> (\<exists>p \<in> set (projects s). p_owner p = u_id user \<and> p_name p = projectName \<and> p_type p = PT_DomainOnly
            \<and> domain = p_domain_prefix p \<and> bound = projectName \<and> projectName \<noteq> ''''))
    \<and> (\<exists>fs. s' = s\<lparr>db_faults := fs\<rparr>)"
proof (cases "projectName = ''''")
  case True
  then show ?thesis using assms
    by (auto simp: connect_check_def resolve_tunnel_domain_def Let_def split: if_splits intro: exI [of _ "db_faults s"])
next
  case False
  obtain r s1 where r: "run_state (GetProjectByOwnerAndName (u_id user) projectName) s = (r, s1)"
    by fastforce
  from False assms r obtain p where p: "r = Inr (Some p)" "p_type p = PT_DomainOnly"
    and eq: "domain = p_domain_prefix p" "bound = p_name p" "s' = s1" "needsAuth = (noauth \<noteq> ''1'')"
      "tunnel_get tr domain = None"
    by (auto simp: connect_check_def resolve_tunnel_domain_def Let_def split: if_splits sum.splits option.splits)
  have f: "find (\<lambda>q. p_owner q = u_id user \<and> p_name q = projectName) (projects s) = Some p"
    and s1: "s1 = popped s"
    using r p(1) by (auto simp: GetProjectByOwnerAndName_def run_query split: option.splits)
  have "p \<in> set (projects s)" "p_owner p = u_id user" "p_name p = projectName"
    using f by (auto simp: find_Some_iff)
  then show ?thesis using p(2) eq False s1 by (auto simp: popped_def)
qed

definition sample_user :: "user_role \<Rightarrow> user" where
  "sample_user r = \<lparr>u_id = ''o'', u_email = Some ''o@x'', u_name = ''o'', u_avatar = '''', u_role = r,
     u_authorized = True, u_created = 0, u_name_overridden = False, u_avatar_overridden = False\<rparr>"

section \<open>The registry over time\<close>

text \<open>
  Sessions in any order: each has registered its connection under a domain and not yet run its
  deferred \<open>unregister\<close>. A connection that loses the race never becomes a session, and its handler
  returns before the \<open>defer\<close>.
\<close>

record tunnel_world =
  tw_registry :: tunnel_registry
  tw_sessions :: "(string \<times> tunnel_conn) set"
  tw_used :: "nat set"

inductive registry_step :: "tunnel_world \<Rightarrow> tunnel_world \<Rightarrow> bool" where
  registry_connect: "tn_id tc \<notin> tw_used w \<Longrightarrow> tunnel_register (tw_registry w) d tc = (won, reg) \<Longrightarrow>
    registry_step w \<lparr>tw_registry = reg,
      tw_sessions = (if won then insert (d, tc) (tw_sessions w) else tw_sessions w),
      tw_used = insert (tn_id tc) (tw_used w)\<rparr>"
| registry_disconnect: "(d, tc) \<in> tw_sessions w \<Longrightarrow>
    registry_step w (w\<lparr>tw_registry := tunnel_unregister (tw_registry w) d tc,
      tw_sessions := tw_sessions w - {(d, tc)}\<rparr>)"

definition registry_init :: tunnel_world where
  "registry_init = \<lparr>tw_registry = newTunnelRegistry, tw_sessions = {}, tw_used = {}\<rparr>"

definition registry_inv :: "tunnel_world \<Rightarrow> bool" where
  "registry_inv w \<longleftrightarrow> set (tw_registry w) = tw_sessions w \<and> distinct (map fst (tw_registry w))"

lemma registry_inv_step: "registry_step w v \<Longrightarrow> registry_inv w \<Longrightarrow> registry_inv v"
proof (induction rule: registry_step.induct)
  case (registry_connect tc w d won reg)
  then show ?case
    by (auto simp: registry_inv_def tunnel_register_def tunnel_get_def map_of_eq_None_iff split: if_splits)
next
  case (registry_disconnect d tc w)
  then have get: "tunnel_get (tw_registry w) d = Some tc"
    by (simp add: registry_inv_def tunnel_get_def map_of_eq_Some_iff)
  have "{e \<in> set (tw_registry w). fst e \<noteq> d} = set (tw_registry w) - {(d, tc)}"
    using get registry_disconnect.prems
    by (auto simp: registry_inv_def tunnel_get_def map_of_eq_Some_iff) (metis eq_key_imp_eq_value)
  then show ?case using registry_disconnect.prems get
    by (auto simp: registry_inv_def tunnel_unregister_def distinct_map_filter)
qed

lemma registry_inv_init: "registry_inv registry_init"
  by (simp add: registry_init_def registry_inv_def newTunnelRegistry_def)

text \<open>
  Whatever connects and disconnects, in any order, the registry lists exactly the live sessions,
  each under its own domain: a second connection never displaces the first, and the end of one
  session never removes another's entry.
\<close>

theorem registry_lists_sessions:
  assumes "registry_step\<^sup>*\<^sup>* registry_init w"
  shows "set (tw_registry w) = tw_sessions w \<and> distinct (map fst (tw_registry w))
    \<and> (tunnel_get (tw_registry w) d = Some tc) = ((d, tc) \<in> tw_sessions w)"
proof -
  have "registry_inv w" using assms
    by (induction rule: rtranclp_induct) (auto simp: registry_inv_init intro: registry_inv_step)
  then show ?thesis by (auto simp: registry_inv_def tunnel_get_def map_of_eq_Some_iff)
qed

section \<open>Routing of requests\<close>

lemma strip_port_absent: "CHR '':'' \<notin> set h \<Longrightarrow> strip_port h = h"
  by (simp add: strip_port_def LastIndexByte_absent)

lemma strip_port_port: "CHR '':'' \<notin> set port \<Longrightarrow> strip_port (h @ '':'' @ port) = h"
  by (simp add: strip_port_def LastIndexByte_append)

text \<open>
  A request for \<open>prefix.base\<close>, with or without a port, reaches the tunnel registered under that
  very prefix and no other; without one it is answered with the offline page exactly when the prefix
  is reserved by a \<open>domain_only\<close> project.
\<close>

theorem tunnel_routing:
  assumes "CHR '':'' \<notin> set (pfx @ base)" and "host = pfx @ ''.'' @ base \<or> (\<exists>port. CHR '':'' \<notin> set port \<and> host = (pfx @ ''.'' @ base) @ '':'' @ port)"
  shows "TunnelAwareHandler base domainOnly tr host =
    (if HasPrefix pfx ''t-'' \<or> pfx \<in> set domainOnly
     then Some (case tunnel_get tr pfx of
         Some tc \<Rightarrow> ForwardTo tc
       | None \<Rightarrow> if pfx \<in> set domainOnly then OfflinePage pfx else NotConnected)
     else None)"
proof -
  have h: "strip_port host = pfx @ ''.'' @ base"
    using assms(2)
  proof
    assume "host = pfx @ ''.'' @ base"
    then show ?thesis using assms(1) by (simp add: strip_port_absent)
  next
    assume "\<exists>port. CHR '':'' \<notin> set port \<and> host = (pfx @ ''.'' @ base) @ '':'' @ port"
    then show ?thesis using strip_port_port [of _ "pfx @ ''.'' @ base"] by fastforce
  qed
  have "HasSuffix (pfx @ ''.'' @ base) (''.'' @ base)" "TrimSuffix (pfx @ ''.'' @ base) (''.'' @ base) = pfx"
    by (auto simp: HasSuffix_iff simp del: append.simps)
  then show ?thesis
    by (simp add: TunnelAwareHandler_def isTunnelRequest_def route_tunnel_traffic_def Let_def h)
qed

lemma tunnel_routing_witness:
  "TunnelAwareHandler ''a.com'' [''demo''] [] ''demo.a.com:443'' =
    (if HasPrefix ''demo'' ''t-'' \<or> ''demo'' \<in> set [''demo'']
     then Some (case tunnel_get [] ''demo'' of
         Some tc \<Rightarrow> ForwardTo tc
       | None \<Rightarrow> if ''demo'' \<in> set [''demo''] then OfflinePage ''demo'' else NotConnected)
     else None)"
  by (rule tunnel_routing) (auto intro: exI [of _ "''443''"])

text \<open>
  The head of a replayed request never repeats the client's framing: of the client's headers, those
  that name the host, the length or the transfer encoding are dropped in any letter case, and so are
  the connection-level ones unless the request is an upgrade.
\<close>

lemma forwards_header_lower:
  "forwards_header up k = (ToLower k \<notin> {''host'', ''content-length'', ''transfer-encoding''}
     \<and> (up \<or> ToLower k \<notin> {''connection'', ''keep-alive'', ''proxy-connection''}))"
proof -
  have l: "ToLower ''Host'' = ''host''" "ToLower ''Content-Length'' = ''content-length''"
    "ToLower ''Transfer-Encoding'' = ''transfer-encoding''" "ToLower ''Connection'' = ''connection''"
    "ToLower ''Keep-Alive'' = ''keep-alive''" "ToLower ''Proxy-Connection'' = ''proxy-connection''"
    by code_simp+
  show ?thesis by (simp add: forwards_header_def EqualFold_def l)
qed

end
