(* ===== verification/Tunnel_Words.thy ===== *)
theory Tunnel_Words
  imports Tunnel "HOL-Library.Word"
begin

text \<open>
  The tunnel names muveectl derives from the working directory and the port
  (cmd/muveectl/wordlist.go). SHA-256 is a parameter: any function into bytes.
\<close>

definition adjectives :: "string list" where
  "adjectives =
  [''able'', ''bold'', ''calm'', ''dark'', ''easy'', ''fair'', ''glad'', ''hale'',
   ''idle'', ''just'', ''keen'', ''live'', ''mild'', ''neat'', ''open'', ''pale'',
   ''pure'', ''rare'', ''safe'', ''tall'', ''used'', ''vast'', ''warm'', ''zany'',
   ''aged'', ''blue'', ''cold'', ''deep'', ''even'', ''fast'', ''gold'', ''hard'',
   ''icy'', ''kind'', ''lean'', ''main'', ''new'', ''odd'', ''pink'', ''rich'',
   ''slim'', ''thin'', ''ugly'', ''weak'', ''wise'', ''apt'', ''big'', ''coy'',
   ''dim'', ''dry'', ''dull'', ''fat'', ''few'', ''fit'', ''flat'', ''free'',
   ''full'', ''gray'', ''grim'', ''half'', ''high'', ''holy'', ''huge'', ''lame'',
   ''last'', ''late'', ''lazy'', ''left'', ''long'', ''lost'', ''loud'', ''low'',
   ''mad'', ''next'', ''nice'', ''only'', ''oval'', ''plus'', ''poor'', ''raw'',
   ''real'', ''red'', ''ripe'', ''rude'', ''shut'', ''sick'', ''soft'', ''sore'',
   ''sour'', ''tame'', ''tiny'', ''torn'', ''trim'', ''true'', ''twin'', ''upon'',
   ''very'', ''vile'', ''wary'', ''wet'', ''wide'', ''wild'', ''worn'', ''wry'',
   ''avid'', ''bare'', ''busy'', ''cool'', ''cozy'', ''damp'', ''dear'', ''deft'',
   ''epic'', ''fine'', ''firm'', ''fond'', ''foul'', ''glib'', ''good'', ''gory'',
   ''gray'', ''grim'', ''hazy'', ''holm'', ''iron'', ''jade'', ''lacy'', ''lush'']"

definition nouns :: "string list" where
  "nouns =
  [''ant'', ''bat'', ''cat'', ''dog'', ''elk'', ''fox'', ''gem'', ''hat'',
   ''ice'', ''jay'', ''key'', ''log'', ''map'', ''net'', ''oak'', ''pen'',
   ''ram'', ''sun'', ''tin'', ''urn'', ''van'', ''web'', ''yak'', ''zoo'',
   ''ace'', ''bag'', ''box'', ''bus'', ''cap'', ''cup'', ''den'', ''dot'',
   ''ear'', ''egg'', ''eye'', ''fan'', ''fig'', ''fin'', ''fly'', ''fog'',
   ''gap'', ''gum'', ''hen'', ''hog'', ''hub'', ''ink'', ''ion'', ''ivy'',
   ''jam'', ''jar'', ''jet'', ''jig'', ''jot'', ''kit'', ''lab'', ''lap'',
   ''law'', ''leg'', ''lid'', ''lip'', ''lot'', ''mix'', ''mob'', ''mud'',
   ''mug'', ''nap'', ''nut'', ''oar'', ''orb'', ''ore'', ''owl'', ''pad'',
   ''pan'', ''paw'', ''pea'', ''pie'', ''pig'', ''pin'', ''pit'', ''pod'',
   ''pot'', ''pub'', ''pup'', ''rag'', ''rat'', ''ray'', ''rib'', ''rod'',
   ''row'', ''rug'', ''rut'', ''saw'', ''sky'', ''spy'', ''tab'', ''tag'',
   ''tap'', ''tax'', ''toe'', ''top'', ''toy'', ''tub'', ''tug'', ''vet'',
   ''vine'', ''wax'', ''wig'', ''wit'', ''wolf'', ''worm'', ''yam'', ''yarn'',
   ''bell'', ''bird'', ''boat'', ''bone'', ''book'', ''bulb'', ''cake'', ''claw'',
   ''coin'', ''crab'', ''crow'', ''dawn'', ''deer'', ''dove'', ''drum'', ''dusk'']"

text \<open>\<open>binary.BigEndian.Uint16\<close> of two bytes of the digest.\<close>

definition Uint16 :: "8 word \<Rightarrow> 8 word \<Rightarrow> 16 word" where
  "Uint16 b0 b1 = or (push_bit 8 (ucast b0)) (ucast b1)"

definition tunnelDomain :: "(string \<Rightarrow> 8 word list) \<Rightarrow> string \<Rightarrow> int \<Rightarrow> string" where
  "tunnelDomain sha256 cwd port =
     (let h = sha256 (cwd @ '':'' @ show_int port);
          adjIdx = Uint16 (h ! 0) (h ! 1) mod of_nat (length adjectives);
          nounIdx = Uint16 (h ! 2) (h ! 3) mod of_nat (length nouns)
      in ''t-'' @ adjectives ! unat adjIdx @ ''-'' @ nouns ! unat nounIdx)"

lemma words_ok:
  "list_all (\<lambda>w. w \<noteq> [] \<and> list_all is_lower_alnum w) adjectives"
  "list_all (\<lambda>w. w \<noteq> [] \<and> list_all is_lower_alnum w) nouns"
  by code_simp+

lemma words_length: "length adjectives = 128" "length nouns = 128"
  by code_simp+

lemma index_small: "0 < n \<Longrightarrow> n < 2 ^ 16 \<Longrightarrow> unat ((x :: 16 word) mod of_nat n) < n"
  by (simp add: unat_mod unat_of_nat take_bit_nat_eq_self)

text \<open>
  Whatever the digest, the name muveectl derives is one the server accepts: the indices stay in
  the word lists and the name has the \<open>t-word-word\<close> form.
\<close>

theorem tunnelDomain_valid: "isValidTunnelDomain (tunnelDomain sha256 cwd port)"
proof -
  let ?h = "sha256 (cwd @ '':'' @ show_int port)"
  let ?a = "adjectives ! unat (Uint16 (?h ! 0) (?h ! 1) mod of_nat (length adjectives))"
  let ?n = "nouns ! unat (Uint16 (?h ! 2) (?h ! 3) mod of_nat (length nouns))"
  have "?a \<in> set adjectives" "?n \<in> set nouns"
    by (rule nth_mem, rule index_small; simp add: words_length)+
  then have ok: "?a \<noteq> []" "list_all is_lower_alnum ?a" "?n \<noteq> []" "list_all is_lower_alnum ?n"
    using words_ok unfolding list_all_iff by blast+
  have "CHR ''-'' \<notin> set w" if "list_all is_lower_alnum w" for w
    using that dash_not_alnum by (metis list_all_iff)
  then have "Split (CHR ''-'') (Join [?a, ?n] ''-'') = [?a, ?n]"
    using ok by (intro Split_Join) auto
  then have "isValidTunnelDomain (''t-'' @ ?a @ ''-'' @ ?n)"
    using ok by (simp add: isValidTunnelDomain_def Let_def HasPrefix_def)
  then show ?thesis by (simp only: tunnelDomain_def Let_def)
qed

end
