(* ===== verification/Traefik.thy ===== *)
theory Traefik
  imports Tunnel "HOL-Library.AList"
begin

text \<open>
  The dynamic configuration that Traefik polls (internal/api/server.go, \<open>handleTraefikConfig\<close> and
  its helpers) and its rewriting for base domains behind a Cloudflare Tunnel
  (internal/api/cftunnel.go). A Go map from names is an association list with distinct keys,
  updated by \<open>AList.update\<close> and \<open>AList.delete\<close>; a nil map is the empty list.
\<close>

section \<open>The document\<close>

record traefik_tls =
  tls_resolver :: string
  tls_domains :: "string list"

record traefik_router =
  r_rule :: string
  r_entry :: "string list"
  r_service :: string
  r_middlewares :: "string list"
  r_tls :: "traefik_tls option"
  r_priority :: int

record forward_auth =
  fa_address :: string
  fa_headers :: "string list"
  fa_trust :: bool
  fa_cookies :: "string list"

text \<open>A service is the URLs of its servers, a TCP service the addresses.\<close>

record traefik_service =
  sv_urls :: "string list"

record traefik_middleware =
  mw_forward :: "forward_auth option"

record tcp_router =
  tr_rule :: string
  tr_entry :: "string list"
  tr_service :: string
  tr_tls :: "traefik_tls option"

record tcp_service =
  ts_addresses :: "string list"

record traefik_http =
  routers :: "(string \<times> traefik_router) list"
  services :: "(string \<times> traefik_service) list"
  middlewares :: "(string \<times> traefik_middleware) list"

record traefik_tcp =
  tcp_routers :: "(string \<times> tcp_router) list"
  tcp_services :: "(string \<times> tcp_service) list"

record traefik_config =
  c_http :: "traefik_http option"
  c_tcp :: "traefik_tcp option"

text \<open>The fields of \<open>Server\<close> the configuration depends on.\<close>

record route_cfg =
  rc_base :: string
  rc_bases :: "string list"
  rc_cf_domains :: "string list"
  rc_auth_url :: string
  rc_tunnel_url :: string

text \<open>\<open>cfg.HTTP\<close> is never nil while the builders run.\<close>

definition upd_http :: "(traefik_http \<Rightarrow> traefik_http) \<Rightarrow> traefik_config \<Rightarrow> traefik_config" where
  "upd_http f cfg = cfg\<lparr>c_http := map_option f (c_http cfg)\<rparr>"

definition put_router :: "string \<Rightarrow> traefik_router \<Rightarrow> traefik_config \<Rightarrow> traefik_config" where
  "put_router n r = upd_http (\<lambda>h. h\<lparr>routers := AList.update n r (routers h)\<rparr>)"

definition put_service :: "string \<Rightarrow> traefik_service \<Rightarrow> traefik_config \<Rightarrow> traefik_config" where
  "put_service n v = upd_http (\<lambda>h. h\<lparr>services := AList.update n v (services h)\<rparr>)"

definition put_middleware :: "string \<Rightarrow> traefik_middleware \<Rightarrow> traefik_config \<Rightarrow> traefik_config" where
  "put_middleware n v = upd_http (\<lambda>h. h\<lparr>middlewares := AList.update n v (middlewares h)\<rparr>)"

section \<open>Pieces\<close>

definition projectForwardAuth :: "string \<Rightarrow> forward_auth" where
  "projectForwardAuth verifyURL = \<lparr>fa_address = verifyURL,
     fa_headers = [''X-Forwarded-User'', ''X-Forwarded-User-Name'', ''X-Forwarded-User-Avatar'',
       ''X-Forwarded-User-Provider''],
     fa_trust = True, fa_cookies = [''muvee_fwd_session'']\<rparr>"

definition deviceFlowServiceName :: string where
  "deviceFlowServiceName = ''muvee-authservice-device''"

definition embedBridgeMiddlewareRef :: string where
  "embedBridgeMiddlewareRef = ''embed-bridge@file''"

definition attachEmbedBridge :: "traefik_router \<Rightarrow> traefik_router" where
  "attachEmbedBridge r =
     (if embedBridgeMiddlewareRef \<in> set (r_middlewares r) then r
      else r\<lparr>r_middlewares := r_middlewares r @ [embedBridgeMiddlewareRef]\<rparr>)"

definition hostsForPrefix :: "route_cfg \<Rightarrow> string \<Rightarrow> string list" where
  "hostsForPrefix s pfx =
     (let bases = (if rc_bases s = [] then [rc_base s] else rc_bases s)
      in map (\<lambda>b. pfx @ ''.'' @ b) bases)"

text \<open>A backquote, and \<open>Name(`h`)\<close>.\<close>

definition bq :: char where "bq = CHR 0x60"

definition matcher :: "string \<Rightarrow> string \<Rightarrow> string" where
  "matcher name h = name @ ''('' @ [bq] @ h @ [bq] @ '')''"

definition match_rule :: "string \<Rightarrow> string list \<Rightarrow> string" where
  "match_rule name hosts =
     (let parts = map (matcher name) hosts in
      if length parts = 1 then parts ! 0 else ''('' @ Join parts '' || '' @ '')'')"

definition hostMatchRule :: "string list \<Rightarrow> string" where
  "hostMatchRule = match_rule ''Host''"

definition sniMatchRule :: "string list \<Rightarrow> string" where
  "sniMatchRule = match_rule ''HostSNI''"

definition tlsDomainsFor :: "string list \<Rightarrow> string list" where
  "tlsDomainsFor hosts = hosts"

definition addDeviceFlowRouter ::
  "string \<Rightarrow> string list \<Rightarrow> traefik_tls option \<Rightarrow> traefik_config \<Rightarrow> traefik_config" where
  "addDeviceFlowRouter routerName hosts tls = put_router (routerName @ ''-device-flow'')
     \<lparr>r_rule = hostMatchRule hosts @ '' && '' @ matcher ''PathPrefix'' ''/_oauth'',
      r_entry = [''websecure''], r_service = deviceFlowServiceName, r_middlewares = [],
      r_tls = tls, r_priority = 200\<rparr>"

text \<open>\<open>for i, raw := range strings.Split(bypassPaths, "\n")\<close>.\<close>

definition bypass_rule :: "string \<Rightarrow> string" where
  "bypass_rule p = (if HasSuffix p ''*'' then matcher ''PathPrefix'' (TrimSuffix p ''*'')
     else matcher ''Path'' p)"

fun bypass_loop ::
  "string \<Rightarrow> string \<Rightarrow> traefik_tls option \<Rightarrow> nat \<Rightarrow> string list \<Rightarrow> traefik_config \<Rightarrow> traefik_config" where
  "bypass_loop routerName hostRule tls i [] cfg = cfg"
| "bypass_loop routerName hostRule tls i (raw # raws) cfg =
     (let p = TrimSpace raw in
      if p = '''' then bypass_loop routerName hostRule tls (Suc i) raws cfg
      else bypass_loop routerName hostRule tls (Suc i) raws
        (put_router (routerName @ ''-bypass-'' @ show_nat i)
           \<lparr>r_rule = hostRule @ '' && '' @ bypass_rule p, r_entry = [''websecure''],
            r_service = routerName, r_middlewares = [], r_tls = tls, r_priority = 100\<rparr> cfg))"

definition addBypassRouters ::
  "string \<Rightarrow> string list \<Rightarrow> traefik_tls option \<Rightarrow> string \<Rightarrow> traefik_config \<Rightarrow> traefik_config" where
  "addBypassRouters routerName hosts tls bypassPaths =
     bypass_loop routerName (hostMatchRule hosts) tls 0 (Split (CHR 0x0A) bypassPaths)"

definition pruneEmpty :: "traefik_config \<Rightarrow> traefik_config" where
  "pruneEmpty c =
     (let c1 = (case c_http c of None \<Rightarrow> c
        | Some h \<Rightarrow> if length (routers h) = 0 \<and> length (services h) = 0 \<and> length (middlewares h) = 0
                   then c\<lparr>c_http := None\<rparr> else c)
      in case c_tcp c1 of None \<Rightarrow> c1
        | Some t \<Rightarrow> if length (tcp_routers t) = 0 \<and> length (tcp_services t) = 0
                   then c1\<lparr>c_tcp := None\<rparr> else c1)"

section \<open>Rows\<close>

definition ListAllProjectAliases :: "project_alias list store" where
  "ListAllProjectAliases = query (\<lambda>s. sort_key (\<lambda>a. - pa_created a) (aliases s))"

definition ListDomainOnlyProjects :: "project list store" where
  "ListDomainOnlyProjects =
     query (\<lambda>s. sort_key p_domain_prefix (filter (\<lambda>p. p_type p = PT_DomainOnly) (projects s)))"

text \<open>The cache of reserved prefixes is kept when the read fails.\<close>

definition refreshDomainOnlyCache :: "string list \<Rightarrow> (db, string list) state" where
  "refreshDomainOnlyCache old = do {
     r \<leftarrow> ListDomainOnlyProjects;
     State_Monad.return (case r of Inl _ \<Rightarrow> old | Inr ps \<Rightarrow> map p_domain_prefix ps) }"

section \<open>The loops of \<open>handleTraefikConfig\<close>\<close>

definition addTCPRoute :: "route_cfg \<Rightarrow> running_info \<Rightarrow> traefik_config \<Rightarrow> bool \<times> traefik_config" where
  "addTCPRoute s dep cfg = (case ri_tcp_port dep of
       None \<Rightarrow> (False, cfg)
     | Some port \<Rightarrow>
         if ri_tcp_prefix dep = '''' \<or> port \<le> 0 then (False, cfg)
         else
          (let tcp = (case c_tcp cfg of None \<Rightarrow> \<lparr>tcp_routers = [], tcp_services = []\<rparr> | Some t \<Rightarrow> t);
               hosts = hostsForPrefix s (ri_tcp_prefix dep);
               name = ri_tcp_prefix dep @ ''-tcp'';
               tcp = tcp\<lparr>tcp_routers := AList.update name
                   \<lparr>tr_rule = sniMatchRule hosts, tr_entry = [''websecure''], tr_service = name,
                    tr_tls = Some \<lparr>tls_resolver = ''letsencrypt'', tls_domains = tlsDomainsFor hosts\<rparr>\<rparr>
                   (tcp_routers tcp)\<rparr>;
               tcp = tcp\<lparr>tcp_services := AList.update name
                   \<lparr>ts_addresses = [ri_host_ip dep @ '':'' @ show_int port]\<rparr> (tcp_services tcp)\<rparr>
           in (True, cfg\<lparr>c_tcp := Some tcp\<rparr>)))"

definition base_router :: "string list \<Rightarrow> string \<Rightarrow> traefik_router" where
  "base_router hosts name = \<lparr>r_rule = hostMatchRule hosts, r_entry = [''websecure''], r_service = name,
     r_middlewares = [],
     r_tls = Some \<lparr>tls_resolver = ''letsencrypt'', tls_domains = tlsDomainsFor hosts\<rparr>, r_priority = 0\<rparr>"

definition domains_param :: "string \<Rightarrow> string" where
  "domains_param allowed = (if allowed \<noteq> '''' then ''&domains='' @ allowed else '''')"

definition project_verify_url :: "route_cfg \<Rightarrow> uuid \<Rightarrow> string \<Rightarrow> string" where
  "project_verify_url s pid allowed =
     rc_auth_url s @ ''/verify?project_id='' @ pid @ domains_param allowed"

text \<open>The routers of the aliases of one deployment; \<open>mws\<close> are the primary router's middlewares.\<close>

fun alias_loop ::
  "string \<Rightarrow> string list \<Rightarrow> bool \<Rightarrow> string \<Rightarrow> nat \<Rightarrow> project_alias list \<Rightarrow> traefik_config \<Rightarrow> traefik_config" where
  "alias_loop name mws needs bypass i [] cfg = cfg"
| "alias_loop name mws needs bypass i (a # as) cfg =
     (let aliasName = name @ ''-alias-'' @ show_nat i;
          aliasTLS = Some \<lparr>tls_resolver = ''letsencrypt'', tls_domains = [pa_host a]\<rparr>;
          aliasRouter = \<lparr>r_rule = matcher ''Host'' (pa_host a), r_entry = [''websecure''], r_service = name,
            r_middlewares = mws, r_tls = aliasTLS, r_priority = 0\<rparr>;
          cfg = (if needs \<and> bypass \<noteq> '''' then addBypassRouters aliasName [pa_host a] aliasTLS bypass cfg else cfg);
          cfg = addDeviceFlowRouter aliasName [pa_host a] aliasTLS cfg
      in alias_loop name mws needs bypass (Suc i) as (put_router aliasName aliasRouter cfg))"

definition deployment_needs_auth :: "running_info \<Rightarrow> bool" where
  "deployment_needs_auth dep \<longleftrightarrow> ri_auth_required dep \<or> ri_access_mode dep = ''private''"

definition add_deployment ::
  "route_cfg \<Rightarrow> project_alias list \<Rightarrow> running_info \<Rightarrow> traefik_config \<Rightarrow> traefik_config" where
  "add_deployment s allAliases dep cfg =
     (let name = ri_domain_prefix dep;
          hosts = hostsForPrefix s name;
          backendURL = ''http://'' @ ri_host_ip dep @ '':'' @ show_int (ri_host_port dep);
          cfg = snd (addTCPRoute s dep cfg);
          httpsRouter = base_router hosts name;
          needs = deployment_needs_auth dep;
          mwName = name @ ''-auth'';
          httpsRouter = (if needs then httpsRouter\<lparr>r_middlewares := [mwName]\<rparr> else httpsRouter);
          cfg = (if needs then
              put_middleware mwName \<lparr>mw_forward = Some (projectForwardAuth
                (project_verify_url s (ri_project dep) (ri_auth_allowed_domains dep)))\<rparr> cfg else cfg);
          cfg = (if needs \<and> ri_auth_bypass_paths dep \<noteq> '''' then
              addBypassRouters name hosts (r_tls httpsRouter) (ri_auth_bypass_paths dep) cfg else cfg);
          cfg = addDeviceFlowRouter name hosts (r_tls httpsRouter) cfg;
          httpsRouter = attachEmbedBridge httpsRouter;
          cfg = put_service name \<lparr>sv_urls = [backendURL]\<rparr> (put_router name httpsRouter cfg)
      in alias_loop name (r_middlewares httpsRouter) needs (ri_auth_bypass_paths dep) 0
           (filter (\<lambda>a. pa_project a = ri_project dep) allAliases) cfg)"

text \<open>The last row of a prefix wins in \<open>domainOnlyByPrefix\<close>.\<close>

definition domainOnlyByPrefix :: "project list \<Rightarrow> string \<Rightarrow> project option" where
  "domainOnlyByPrefix ps pfx = find (\<lambda>p. p_domain_prefix p = pfx) (rev ps)"

definition tunnel_verify_url :: "route_cfg \<Rightarrow> project option \<Rightarrow> string" where
  "tunnel_verify_url s proj = rc_auth_url s @ ''/verify'' @ (case proj of
       None \<Rightarrow> ''''
     | Some p \<Rightarrow> ''?project_id='' @ p_id p @ domains_param (p_auth_allowed_domains p))"

definition tunnel_needs_auth :: "tunnel_info \<Rightarrow> project option \<Rightarrow> bool" where
  "tunnel_needs_auth t proj \<longleftrightarrow> ti_auth_required t
     \<or> (case proj of None \<Rightarrow> False | Some p \<Rightarrow> p_access_mode p = ''private'')"

definition add_tunnel ::
  "route_cfg \<Rightarrow> project list \<Rightarrow> tunnel_info \<Rightarrow> traefik_config \<Rightarrow> traefik_config" where
  "add_tunnel s domainOnly t cfg =
     (let name = ''tunnel-'' @ ti_domain t;
          hosts = hostsForPrefix s (ti_domain t);
          router = base_router hosts name;
          proj = domainOnlyByPrefix domainOnly (ti_domain t);
          needs = tunnel_needs_auth t proj;
          mwName = name @ ''-auth'';
          router = (if needs then router\<lparr>r_middlewares := [mwName]\<rparr> else router);
          cfg = (if needs then put_middleware mwName
              \<lparr>mw_forward = Some (projectForwardAuth (tunnel_verify_url s proj))\<rparr> cfg else cfg);
          cfg = (case proj of None \<Rightarrow> cfg
            | Some p \<Rightarrow> if needs \<and> p_auth_bypass_paths p \<noteq> ''''
                then addBypassRouters name hosts (r_tls router) (p_auth_bypass_paths p) cfg else cfg);
          cfg = addDeviceFlowRouter name hosts (r_tls router) cfg
      in put_service name \<lparr>sv_urls = [rc_tunnel_url s]\<rparr> (put_router name (attachEmbedBridge router) cfg))"

definition has_router :: "string \<Rightarrow> traefik_config \<Rightarrow> bool" where
  "has_router n cfg = (case c_http cfg of None \<Rightarrow> False | Some h \<Rightarrow> map_of (routers h) n \<noteq> None)"

definition add_domain_only :: "route_cfg \<Rightarrow> project \<Rightarrow> traefik_config \<Rightarrow> traefik_config" where
  "add_domain_only s p cfg =
     (let name = ''domain-'' @ p_domain_prefix p in
      if has_router (p_domain_prefix p) cfg then cfg
      else if has_router (''tunnel-'' @ p_domain_prefix p) cfg then cfg
      else
       (let hosts = hostsForPrefix s (p_domain_prefix p);
            router = base_router hosts name;
            needs = (p_auth_required p \<or> p_access_mode p = ''private'');
            mwName = name @ ''-auth'';
            router = (if needs then router\<lparr>r_middlewares := [mwName]\<rparr> else router);
            cfg = (if needs then put_middleware mwName \<lparr>mw_forward = Some (projectForwardAuth
                (project_verify_url s (p_id p) (p_auth_allowed_domains p)))\<rparr> cfg else cfg);
            cfg = (if needs \<and> p_auth_bypass_paths p \<noteq> ''''
              then addBypassRouters name hosts (r_tls router) (p_auth_bypass_paths p) cfg else cfg);
            cfg = addDeviceFlowRouter name hosts (r_tls router) cfg
        in put_service name \<lparr>sv_urls = [rc_tunnel_url s]\<rparr> (put_router name (attachEmbedBridge router) cfg)))"

definition empty_config :: "route_cfg \<Rightarrow> traefik_config" where
  "empty_config s = put_service deviceFlowServiceName \<lparr>sv_urls = [rc_auth_url s]\<rparr>
     \<lparr>c_http = Some \<lparr>routers = [], services = [], middlewares = []\<rparr>, c_tcp = None\<rparr>"

definition build_config ::
  "route_cfg \<Rightarrow> running_info list \<Rightarrow> project_alias list \<Rightarrow> project list \<Rightarrow> tunnel_info list \<Rightarrow> traefik_config" where
  "build_config s deps allAliases domainOnly tunnels =
     (let cfg = fold (add_deployment s allAliases) deps (empty_config s) in
      if rc_tunnel_url s = '''' then cfg
      else fold (add_domain_only s) domainOnly (fold (add_tunnel s domainOnly) tunnels cfg))"

section \<open>Cloudflare Tunnel domains\<close>

definition cfTunnelEntryPoint :: string where "cfTunnelEntryPoint = ''cftunnel''"
definition cfTunnelRouterSuffix :: string where "cfTunnelRouterSuffix = ''_cf''"
definition cfTunnelPanelService :: string where "cfTunnelPanelService = ''muvee@docker''"

definition isCFTunnelHost :: "route_cfg \<Rightarrow> string \<Rightarrow> bool" where
  "isCFTunnelHost s host = (if length (rc_cf_domains s) = 0 then False
     else (case Match host (rc_bases s) of None \<Rightarrow> False | Some base \<Rightarrow> base \<in> set (rc_cf_domains s)))"

fun splitHosts :: "route_cfg \<Rightarrow> string list \<Rightarrow> string list \<times> string list" where
  "splitHosts s [] = ([], [])"
| "splitHosts s (h # hs) = (let (acme, tunnel) = splitHosts s hs in
     if isCFTunnelHost s h then (acme, h # tunnel) else (h # acme, tunnel))"

text \<open>\<open>hostTokenRe\<close>: the token at the front of a text, and all tokens from left to right.\<close>

definition token_body :: "string \<Rightarrow> (string \<times> string) option" where
  "token_body t = (let h = takeWhile (\<lambda>c. c \<noteq> bq) t; rest = dropWhile (\<lambda>c. c \<noteq> bq) t in
     if h \<noteq> [] \<and> HasPrefix rest [bq, CHR '')''] then Some (h, drop 2 rest) else None)"

definition host_token :: "string \<Rightarrow> (string \<times> string) option" where
  "host_token s =
     (if HasPrefix s (''HostSNI('' @ [bq]) then token_body (TrimPrefix s (''HostSNI('' @ [bq]))
      else if HasPrefix s (''Host('' @ [bq]) then token_body (TrimPrefix s (''Host('' @ [bq]))
      else None)"

lemma token_body_shorter: "token_body t = Some (h, rest) \<Longrightarrow> length rest \<le> length t"
  unfolding token_body_def Let_def
  using length_dropWhile_le [of "\<lambda>c. c \<noteq> bq" t] by (auto split: if_splits)

lemma TrimPrefix_shorter: "HasPrefix s p \<Longrightarrow> p \<noteq> [] \<Longrightarrow> length (TrimPrefix s p) < length s"
  by (auto simp: HasPrefix_iff)

lemma host_token_shorter: "host_token s = Some (h, rest) \<Longrightarrow> length rest < length s"
  unfolding host_token_def
  by (auto split: if_splits dest!: token_body_shorter intro: le_less_trans intro!: TrimPrefix_shorter)

function host_tokens :: "string \<Rightarrow> string list" where
  "host_tokens [] = []"
| "host_tokens (c # cs) = (case host_token (c # cs) of
       Some (h, rest) \<Rightarrow> h # host_tokens rest
     | None \<Rightarrow> host_tokens cs)"
  by pat_completeness auto
termination
  by (relation "measure length") (auto dest: host_token_shorter)

definition splitRule :: "string \<Rightarrow> bool \<Rightarrow> (string list \<times> string) option" where
  "splitRule rule sni = (let hosts = host_tokens rule in
     if hosts = [] then None
     else (let pfx = (if sni then sniMatchRule hosts else hostMatchRule hosts) in
           if \<not> HasPrefix rule pfx then None else Some (hosts, TrimPrefix rule pfx)))"

text \<open>The body of the loop over the HTTP routers, and of the loop over the TCP routers.\<close>

definition retls :: "string list \<Rightarrow> traefik_tls option \<Rightarrow> traefik_tls option" where
  "retls acme tls = map_option (\<lambda>t. t\<lparr>tls_domains := tlsDomainsFor acme\<rparr>) tls"

definition cf_router :: "route_cfg \<Rightarrow> string \<Rightarrow> (string \<times> traefik_router) list \<Rightarrow> (string \<times> traefik_router) list" where
  "cf_router s name rs = (case map_of rs name of None \<Rightarrow> rs | Some r \<Rightarrow>
     (case splitRule (r_rule r) False of None \<Rightarrow> rs | Some (hosts, rest) \<Rightarrow>
       (let (acme, tunnel) = splitHosts s hosts in
        if tunnel = [] then rs
        else
         (let sibling = r\<lparr>r_rule := hostMatchRule tunnel @ rest, r_entry := [cfTunnelEntryPoint], r_tls := None\<rparr>;
              rs = AList.update (name @ cfTunnelRouterSuffix) sibling rs
          in if acme = [] then AList.delete name rs
             else AList.update name (r\<lparr>r_rule := hostMatchRule acme @ rest, r_tls := retls acme (r_tls r)\<rparr>) rs))))"

definition cf_tcp_router :: "route_cfg \<Rightarrow> string \<Rightarrow> traefik_tcp \<Rightarrow> traefik_tcp" where
  "cf_tcp_router s name t = (case map_of (tcp_routers t) name of None \<Rightarrow> t | Some r \<Rightarrow>
     (case splitRule (tr_rule r) True of None \<Rightarrow> t | Some (hosts, rest) \<Rightarrow>
       (let (acme, tunnel) = splitHosts s hosts in
        if tunnel = [] then t
        else if acme = [] then t\<lparr>tcp_routers := AList.delete name (tcp_routers t),
               tcp_services := AList.delete (tr_service r) (tcp_services t)\<rparr>
        else t\<lparr>tcp_routers := AList.update name
               (r\<lparr>tr_rule := sniMatchRule acme @ rest, tr_tls := retls acme (tr_tls r)\<rparr>) (tcp_routers t)\<rparr>)))"

definition addCFTunnelPanelRouters :: "route_cfg \<Rightarrow> traefik_config \<Rightarrow> traefik_config" where
  "addCFTunnelPanelRouters s cfg =
     (let h = (case c_http cfg of None \<Rightarrow> \<lparr>routers = [], services = [], middlewares = []\<rparr> | Some h \<Rightarrow> h);
          hosts = concat (map (\<lambda>d. [d, ''app.'' @ d]) (rc_cf_domains s));
          rule = hostMatchRule hosts;
          h = h\<lparr>routers := AList.update (''panel'' @ cfTunnelRouterSuffix)
              \<lparr>r_rule = rule, r_entry = [cfTunnelEntryPoint], r_service = cfTunnelPanelService,
               r_middlewares = [''strip-internal-key@file'', ''block-internal-api@file''],
               r_tls = None, r_priority = 0\<rparr> (routers h)\<rparr>;
          h = h\<lparr>routers := AList.update (''panel-oauth'' @ cfTunnelRouterSuffix)
              \<lparr>r_rule = rule @ '' && '' @ matcher ''PathPrefix'' ''/_oauth'', r_entry = [cfTunnelEntryPoint],
               r_service = deviceFlowServiceName, r_middlewares = [], r_tls = None, r_priority = 200\<rparr> (routers h)\<rparr>;
          h = (if map_of (services h) deviceFlowServiceName = None
               then h\<lparr>services := AList.update deviceFlowServiceName \<lparr>sv_urls = [rc_auth_url s]\<rparr> (services h)\<rparr> else h)
      in cfg\<lparr>c_http := Some h\<rparr>)"

text \<open>\<open>order\<close> is the order in which \<open>range\<close> yields the keys of a map.\<close>

definition applyCFTunnelDomains ::
  "route_cfg \<Rightarrow> (string list \<Rightarrow> string list) \<Rightarrow> traefik_config \<Rightarrow> traefik_config" where
  "applyCFTunnelDomains s order cfg =
     (if length (rc_cf_domains s) = 0 then cfg
      else addCFTunnelPanelRouters s (cfg\<lparr>
        c_http := map_option (\<lambda>h. h\<lparr>routers := fold (cf_router s) (order (map fst (routers h))) (routers h)\<rparr>) (c_http cfg),
        c_tcp := map_option (\<lambda>t. fold (cf_tcp_router s) (order (map fst (tcp_routers t))) t) (c_tcp cfg)\<rparr>))"

text \<open>The handler: the new cache of reserved prefixes, and an HTTP error or the document.\<close>

definition handleTraefikConfig ::
  "route_cfg \<Rightarrow> (string list \<Rightarrow> string list) \<Rightarrow> tunnel_registry \<Rightarrow> string list \<Rightarrow>
   (db, string list \<times> ((nat \<times> go_error) + traefik_config)) state" where
  "handleTraefikConfig s order tr cache = do {
     cache \<leftarrow> refreshDomainOnlyCache cache;
     deps \<leftarrow> GetRunningDeployments;
     case deps of Inl e \<Rightarrow> State_Monad.return (cache, Inl (500, e)) | Inr deps \<Rightarrow> do {
       als \<leftarrow> ListAllProjectAliases;
       case als of Inl e \<Rightarrow> State_Monad.return (cache, Inl (500, e)) | Inr als \<Rightarrow>
         if rc_tunnel_url s = ''''
         then State_Monad.return (cache, Inr (pruneEmpty (applyCFTunnelDomains s order
                (build_config s deps als [] []))))
         else do {
           dom \<leftarrow> ListDomainOnlyProjects;
           State_Monad.return (cache, Inr (pruneEmpty (applyCFTunnelDomains s order
             (build_config s deps als (case dom of Inl _ \<Rightarrow> [] | Inr ps \<Rightarrow> ps) (activeTunnels tr))))) } } }"

end
