(* ===== verification/Traefik_Facts.thy ===== *)
theory Traefik_Facts
  imports Traefik
begin

text \<open>
  What the Traefik configuration guarantees: no empty section, the login in front of a project that
  needs one, the split of the hosts behind a Cloudflare Tunnel; and where the names and paths a
  project chooses reach beyond the project.
\<close>

section \<open>Sections\<close>

text \<open>
  \<open>pruneEmpty\<close> leaves no section without content, which would make Traefik reject the whole
  document, and changes nothing else.
\<close>

theorem pruneEmpty_sections:
  "(c_http (pruneEmpty c) = None \<or> (\<exists>h. c_http (pruneEmpty c) = Some h
       \<and> \<not> (routers h = [] \<and> services h = [] \<and> middlewares h = []) \<and> c_http c = Some h))
   \<and> (c_tcp (pruneEmpty c) = None \<or> (\<exists>t. c_tcp (pruneEmpty c) = Some t
       \<and> \<not> (tcp_routers t = [] \<and> tcp_services t = []) \<and> c_tcp c = Some t))
   \<and> (c_http (pruneEmpty c) = c_http c \<or> c_http c = Some \<lparr>routers = [], services = [], middlewares = []\<rparr>)
   \<and> (c_tcp (pruneEmpty c) = c_tcp c \<or> c_tcp c = Some \<lparr>tcp_routers = [], tcp_services = []\<rparr>)"
  by (cases c) (auto simp: pruneEmpty_def Let_def split: option.splits)

section \<open>Names\<close>

text \<open>Routers and services of a configuration by name.\<close>

definition router_of :: "traefik_config \<Rightarrow> string \<Rightarrow> traefik_router option" where
  "router_of cfg n = Option.bind (c_http cfg) (\<lambda>h. map_of (routers h) n)"

definition service_of :: "traefik_config \<Rightarrow> string \<Rightarrow> traefik_service option" where
  "service_of cfg n = Option.bind (c_http cfg) (\<lambda>h. map_of (services h) n)"

definition middleware_of :: "traefik_config \<Rightarrow> string \<Rightarrow> traefik_middleware option" where
  "middleware_of cfg n = Option.bind (c_http cfg) (\<lambda>h. map_of (middlewares h) n)"

definition all_routers :: "(traefik_router \<Rightarrow> bool) \<Rightarrow> traefik_config \<Rightarrow> bool" where
  "all_routers Q cfg \<longleftrightarrow> (\<forall>h r n. c_http cfg = Some h \<longrightarrow> (n, r) \<in> set (routers h) \<longrightarrow> Q r)"

named_theorems config_simps \<open>lookups after the configuration's updates\<close>

lemma middleware_put [config_simps]:
  "middleware_of (put_router n r cfg) m = middleware_of cfg m"
  "middleware_of (put_service n v cfg) m = middleware_of cfg m"
  "c_http cfg \<noteq> None \<Longrightarrow> middleware_of (put_middleware n w cfg) m = (if m = n then Some w else middleware_of cfg m)"
  by (auto simp: middleware_of_def put_router_def put_service_def put_middleware_def upd_http_def update_conv
      split: option.splits bind_splits)

lemma service_put [config_simps]:
  "service_of (put_router n r cfg) m = service_of cfg m"
  "service_of (put_middleware n w cfg) m = service_of cfg m"
  "c_http cfg \<noteq> None \<Longrightarrow> service_of (put_service n v cfg) m = (if m = n then Some v else service_of cfg m)"
  by (auto simp: service_of_def put_router_def put_service_def put_middleware_def upd_http_def update_conv
      split: option.splits bind_splits)

lemma http_put [config_simps]:
  "c_http (put_router n r cfg) = None \<longleftrightarrow> c_http cfg = None"
  "c_http (put_service n v cfg) = None \<longleftrightarrow> c_http cfg = None"
  "c_http (put_middleware n w cfg) = None \<longleftrightarrow> c_http cfg = None"
  by (auto simp: put_router_def put_service_def put_middleware_def upd_http_def)

lemma update_subset: "set (AList.update k v xs) \<subseteq> insert (k, v) (set xs)"
  by (induction xs) auto

lemma all_routers_put [config_simps]:
  "all_routers Q (put_service n v cfg) = all_routers Q cfg"
  "all_routers Q (put_middleware n w cfg) = all_routers Q cfg"
  by (cases "c_http cfg"; simp add: all_routers_def put_service_def put_middleware_def upd_http_def)+

lemma all_routers_router: "all_routers Q cfg \<Longrightarrow> Q r \<Longrightarrow> all_routers Q (put_router n r cfg)"
  unfolding all_routers_def put_router_def upd_http_def using update_subset by fastforce

section \<open>The builders one by one\<close>

lemma tcp_route_http [simp]: "c_http (snd (addTCPRoute s dep cfg)) = c_http cfg"
  by (simp add: addTCPRoute_def Let_def split: option.split)

lemma tcp_route_facts [config_simps]:
  "middleware_of (snd (addTCPRoute s dep cfg)) m = middleware_of cfg m"
  "service_of (snd (addTCPRoute s dep cfg)) m = service_of cfg m"
  "all_routers Q (snd (addTCPRoute s dep cfg)) = all_routers Q cfg"
  by (simp_all add: middleware_of_def service_of_def all_routers_def)

lemma device_flow_facts [config_simps]:
  "middleware_of (addDeviceFlowRouter n hs tls cfg) m = middleware_of cfg m"
  "service_of (addDeviceFlowRouter n hs tls cfg) m = service_of cfg m"
  "c_http (addDeviceFlowRouter n hs tls cfg) = None \<longleftrightarrow> c_http cfg = None"
  by (simp_all add: addDeviceFlowRouter_def config_simps)

lemma bypass_loop_facts [config_simps]:
  "middleware_of (bypass_loop n hr tls i ps cfg) m = middleware_of cfg m"
  "service_of (bypass_loop n hr tls i ps cfg) m = service_of cfg m"
  "c_http (bypass_loop n hr tls i ps cfg) = None \<longleftrightarrow> c_http cfg = None"
  by (induction ps arbitrary: i cfg) (auto simp: Let_def config_simps)

lemma bypass_facts [config_simps]:
  "middleware_of (addBypassRouters n hs tls b cfg) m = middleware_of cfg m"
  "service_of (addBypassRouters n hs tls b cfg) m = service_of cfg m"
  "c_http (addBypassRouters n hs tls b cfg) = None \<longleftrightarrow> c_http cfg = None"
  by (simp_all add: addBypassRouters_def config_simps)

lemma alias_loop_facts [config_simps]:
  "middleware_of (alias_loop n mws nd b i as cfg) m = middleware_of cfg m"
  "service_of (alias_loop n mws nd b i as cfg) m = service_of cfg m"
  "c_http (alias_loop n mws nd b i as cfg) = None \<longleftrightarrow> c_http cfg = None"
  by (induction as arbitrary: i cfg) (auto simp: Let_def config_simps)

lemma add_deployment_http [config_simps]: "c_http (add_deployment s als dep cfg) = None \<longleftrightarrow> c_http cfg = None"
  by (simp add: add_deployment_def Let_def config_simps)

lemma add_deployment_middleware:
  "c_http cfg \<noteq> None \<Longrightarrow> middleware_of (add_deployment s als dep cfg) m =
    (if deployment_needs_auth dep \<and> m = ri_domain_prefix dep @ ''-auth''
     then Some \<lparr>mw_forward = Some (projectForwardAuth (project_verify_url s (ri_project dep) (ri_auth_allowed_domains dep)))\<rparr>
     else middleware_of cfg m)"
  by (simp add: add_deployment_def Let_def config_simps)

lemma add_deployment_service:
  "c_http cfg \<noteq> None \<Longrightarrow> service_of (add_deployment s als dep cfg) m =
    (if m = ri_domain_prefix dep then Some \<lparr>sv_urls = [''http://'' @ ri_host_ip dep @ '':'' @ show_int (ri_host_port dep)]\<rparr>
     else service_of cfg m)"
  by (simp add: add_deployment_def Let_def config_simps)

lemma add_tunnel_http [config_simps]: "c_http (add_tunnel s ds t cfg) = None \<longleftrightarrow> c_http cfg = None"
  by (simp add: add_tunnel_def Let_def config_simps split: option.split)

lemma add_tunnel_middleware:
  "c_http cfg \<noteq> None \<Longrightarrow> m \<noteq> ''tunnel-'' @ ti_domain t @ ''-auth'' \<Longrightarrow>
   middleware_of (add_tunnel s ds t cfg) m = middleware_of cfg m"
  by (simp add: add_tunnel_def Let_def config_simps split: option.split)

lemma add_domain_only_http [config_simps]: "c_http (add_domain_only s p cfg) = None \<longleftrightarrow> c_http cfg = None"
  by (simp add: add_domain_only_def Let_def config_simps)

lemma add_domain_only_middleware:
  "c_http cfg \<noteq> None \<Longrightarrow> m \<noteq> ''domain-'' @ p_domain_prefix p @ ''-auth'' \<Longrightarrow>
   middleware_of (add_domain_only s p cfg) m = middleware_of cfg m"
  by (simp add: add_domain_only_def Let_def config_simps)

section \<open>The login in front of a project\<close>

lemma all_routers_device_flow:
  "all_routers Q cfg \<Longrightarrow> (\<And>r. r_service r = deviceFlowServiceName \<Longrightarrow> Q r) \<Longrightarrow>
   all_routers Q (addDeviceFlowRouter n hs tls cfg)"
  unfolding addDeviceFlowRouter_def by (rule all_routers_router) auto

lemma all_routers_bypass_loop:
  "all_routers Q cfg \<Longrightarrow>
   (\<And>raw. raw \<in> set ps \<Longrightarrow> TrimSpace raw \<noteq> '''' \<Longrightarrow>
      Q \<lparr>r_rule = hr @ '' && '' @ bypass_rule (TrimSpace raw), r_entry = [''websecure''], r_service = n,
         r_middlewares = [], r_tls = tls, r_priority = 100\<rparr>) \<Longrightarrow>
   all_routers Q (bypass_loop n hr tls i ps cfg)"
  by (induction ps arbitrary: i cfg) (auto simp: Let_def intro: all_routers_router)

lemma all_routers_bypass:
  "all_routers Q cfg \<Longrightarrow>
   (\<And>raw. raw \<in> set (Split (CHR 0x0A) b) \<Longrightarrow> TrimSpace raw \<noteq> '''' \<Longrightarrow>
      Q \<lparr>r_rule = hostMatchRule hs @ '' && '' @ bypass_rule (TrimSpace raw), r_entry = [''websecure''],
         r_service = n, r_middlewares = [], r_tls = tls, r_priority = 100\<rparr>) \<Longrightarrow>
   all_routers Q (addBypassRouters n hs tls b cfg)"
  unfolding addBypassRouters_def by (rule all_routers_bypass_loop)

lemma all_routers_bypass_other:
  "all_routers Q cfg \<Longrightarrow> (\<And>r. r_service r = n \<Longrightarrow> Q r) \<Longrightarrow> all_routers Q (addBypassRouters n hs tls b cfg)"
  by (rule all_routers_bypass) auto

lemma all_routers_alias_loop:
  "all_routers Q cfg \<Longrightarrow> (\<And>r. r_service r = deviceFlowServiceName \<Longrightarrow> Q r) \<Longrightarrow>
   (\<And>r j. r_service r = n @ ''-alias-'' @ show_nat j \<Longrightarrow> Q r) \<Longrightarrow>
   (\<And>r. r_service r = n \<Longrightarrow> r_middlewares r = mws \<Longrightarrow> Q r) \<Longrightarrow>
   all_routers Q (alias_loop n mws nd b i as cfg)"
proof (induction as arbitrary: i cfg)
  case (Cons a as)
  let ?n = "n @ ''-alias-'' @ show_nat i" and ?tls = "Some \<lparr>tls_resolver = ''letsencrypt'', tls_domains = [pa_host a]\<rparr>"
  have "all_routers Q (addBypassRouters ?n [pa_host a] ?tls b cfg)"
    by (rule all_routers_bypass_other [OF Cons.prems(1)]) (rule Cons.prems(3))
  then have "all_routers Q (if nd \<and> b \<noteq> '''' then addBypassRouters ?n [pa_host a] ?tls b cfg else cfg)"
    using Cons.prems(1) by simp
  then have "all_routers Q (addDeviceFlowRouter ?n [pa_host a] ?tls
      (if nd \<and> b \<noteq> '''' then addBypassRouters ?n [pa_host a] ?tls b cfg else cfg))"
    by (rule all_routers_device_flow) (rule Cons.prems(2))
  then show ?case unfolding alias_loop.simps Let_def
    by (intro Cons.IH [OF all_routers_router]) (auto intro: Cons.prems(2-4))
qed simp

text \<open>A router that a bypass path of the deployment accounts for.\<close>

definition bypass_router :: "running_info \<Rightarrow> traefik_router \<Rightarrow> bool" where
  "bypass_router dep r \<longleftrightarrow> r_priority r = 100 \<and> (\<exists>raw \<in> set (Split (CHR 0x0A) (ri_auth_bypass_paths dep)).
     TrimSpace raw \<noteq> '''' \<and> (\<exists>hosts. r_rule r = hostMatchRule hosts @ '' && '' @ bypass_rule (TrimSpace raw)))"

text \<open>What decides about the login of a deployment.\<close>

definition gate_of :: "running_info \<Rightarrow> uuid \<times> bool \<times> string \<times> string \<times> string" where
  "gate_of d = (ri_project d, ri_auth_required d, ri_auth_allowed_domains d, ri_auth_bypass_paths d, ri_access_mode d)"

definition gated :: "running_info \<Rightarrow> traefik_router \<Rightarrow> bool" where
  "gated dep r \<longleftrightarrow> r_service r \<noteq> ri_domain_prefix dep \<or> r_middlewares r = [ri_domain_prefix dep @ ''-auth'', embedBridgeMiddlewareRef]
     \<or> bypass_router dep r"

text \<open>The names the generator gives to services of its own.\<close>

definition generated_name :: "running_info list \<Rightarrow> string \<Rightarrow> bool" where
  "generated_name deps n \<longleftrightarrow> n = deviceFlowServiceName \<or> HasPrefix n ''tunnel-'' \<or> HasPrefix n ''domain-''
     \<or> (\<exists>d \<in> set deps. \<exists>i. n = ri_domain_prefix d @ ''-alias-'' @ show_nat i)"

lemma needs_auth_gate: "gate_of d = gate_of e \<Longrightarrow> deployment_needs_auth d = deployment_needs_auth e"
  by (simp add: gate_of_def deployment_needs_auth_def)

lemma auth_not_bridge: "n @ ''-auth'' \<noteq> embedBridgeMiddlewareRef"
proof
  assume "n @ ''-auth'' = embedBridgeMiddlewareRef"
  then have "last (n @ ''-auth'') = last embedBridgeMiddlewareRef" by simp
  then show False by (simp add: embedBridgeMiddlewareRef_def)
qed

lemma all_routers_add_deployment:
  assumes cfg: "all_routers Q cfg"
    and dev: "\<And>r. r_service r = deviceFlowServiceName \<Longrightarrow> Q r"
    and ali: "\<And>r j. r_service r = ri_domain_prefix d @ ''-alias-'' @ show_nat j \<Longrightarrow> Q r"
    and byp: "\<And>r. deployment_needs_auth d \<Longrightarrow> r_service r = ri_domain_prefix d \<Longrightarrow> bypass_router d r \<Longrightarrow> Q r"
    and own: "\<And>r. r_service r = ri_domain_prefix d \<Longrightarrow> r_middlewares r =
      (if deployment_needs_auth d then [ri_domain_prefix d @ ''-auth'', embedBridgeMiddlewareRef] else [embedBridgeMiddlewareRef]) \<Longrightarrow> Q r"
  shows "all_routers Q (add_deployment s als d cfg)"
proof -
  let ?c1 = "snd (addTCPRoute s d cfg)"
  let ?c2 = "if deployment_needs_auth d then put_middleware (ri_domain_prefix d @ ''-auth'') \<lparr>mw_forward = Some (projectForwardAuth
      (project_verify_url s (ri_project d) (ri_auth_allowed_domains d)))\<rparr> ?c1 else ?c1"
  let ?hs = "hostsForPrefix s (ri_domain_prefix d)"
  have 2: "all_routers Q ?c2" using cfg by (simp add: config_simps)
  have 3: "deployment_needs_auth d \<Longrightarrow> all_routers Q (addBypassRouters (ri_domain_prefix d) ?hs tls (ri_auth_bypass_paths d) ?c2)" for tls
    by (rule all_routers_bypass [OF 2]) (rule byp, auto simp: bypass_router_def)
  have 4: "all_routers Q (if deployment_needs_auth d \<and> ri_auth_bypass_paths d \<noteq> ''''
      then addBypassRouters (ri_domain_prefix d) ?hs tls (ri_auth_bypass_paths d) ?c2 else ?c2)" for tls
    using 2 3 by simp
  let ?r = "attachEmbedBridge (if deployment_needs_auth d
      then (base_router ?hs (ri_domain_prefix d))\<lparr>r_middlewares := [ri_domain_prefix d @ ''-auth'']\<rparr> else base_router ?hs (ri_domain_prefix d))"
  have r: "r_middlewares ?r = (if deployment_needs_auth d then [ri_domain_prefix d @ ''-auth'', embedBridgeMiddlewareRef]
      else [embedBridgeMiddlewareRef])" "r_service ?r = ri_domain_prefix d"
    by (simp_all add: attachEmbedBridge_def base_router_def auth_not_bridge auth_not_bridge [symmetric])
  have 5: "all_routers Q (put_service n v (put_router (ri_domain_prefix d) ?r (addDeviceFlowRouter (ri_domain_prefix d) ?hs tls
      (if deployment_needs_auth d \<and> ri_auth_bypass_paths d \<noteq> ''''
       then addBypassRouters (ri_domain_prefix d) ?hs tls (ri_auth_bypass_paths d) ?c2 else ?c2))))" for n v tls
    unfolding all_routers_put
    by (intro all_routers_router all_routers_device_flow 4 dev own r)
  show ?thesis
    unfolding add_deployment_def Let_def
  proof (rule all_routers_alias_loop [OF 5 dev ali])
    fix x :: traefik_router
    assume "r_service x = ri_domain_prefix d" "r_middlewares x = r_middlewares ?r"
    then show "Q x" unfolding r(1) by (rule own)
  qed
qed

lemma gated_add_deployment:
  assumes "all_routers (gated dep) cfg" and "deployment_needs_auth dep"
    and "ri_domain_prefix d = ri_domain_prefix dep \<Longrightarrow> gate_of d = gate_of dep"
    and "ri_domain_prefix dep \<noteq> deviceFlowServiceName" and "\<And>i. ri_domain_prefix dep \<noteq> ri_domain_prefix d @ ''-alias-'' @ show_nat i"
  shows "all_routers (gated dep) (add_deployment s als d cfg)"
proof (cases "ri_domain_prefix d = ri_domain_prefix dep")
  case True
  then have gd: "gate_of d = gate_of dep" by (rule assms(3))
  have g: "deployment_needs_auth d" "ri_auth_bypass_paths d = ri_auth_bypass_paths dep"
    using needs_auth_gate [OF gd] assms(2) gd by (simp_all add: gate_of_def)
  show ?thesis
  proof (rule all_routers_add_deployment [OF assms(1)])
    fix r :: traefik_router and j
    assume "r_service r = ri_domain_prefix d @ ''-alias-'' @ show_nat j"
    then have "r_service r \<noteq> ri_domain_prefix dep" using assms(5) [of j] by simp
    then show "gated dep r" by (simp add: gated_def)
  qed (use assms(4) g True in \<open>auto simp: gated_def bypass_router_def\<close>)
next
  case False
  show ?thesis
  proof (rule all_routers_add_deployment [OF assms(1)])
    fix r :: traefik_router and j
    assume "r_service r = ri_domain_prefix d @ ''-alias-'' @ show_nat j"
    then have "r_service r \<noteq> ri_domain_prefix dep" using assms(5) [of j] by simp
    then show "gated dep r" by (simp add: gated_def)
  qed (use assms(4) False in \<open>auto simp: gated_def\<close>)
qed

lemma gated_add_tunnel:
  assumes "all_routers (gated dep) cfg" and "ri_domain_prefix dep \<noteq> deviceFlowServiceName" "\<not> HasPrefix (ri_domain_prefix dep) ''tunnel-''"
  shows "all_routers (gated dep) (add_tunnel s ds t cfg)"
proof -
  have ne: "''tunnel-'' @ x \<noteq> ri_domain_prefix dep" for x using assms(3) unfolding HasPrefix_iff by metis
  show ?thesis unfolding add_tunnel_def Let_def using assms(1,2)
    by (auto intro!: all_routers_router all_routers_device_flow all_routers_bypass_other
        simp: config_simps gated_def attachEmbedBridge_def base_router_def ne [simplified] split: option.split)
qed

lemma gated_add_domain_only:
  assumes "all_routers (gated dep) cfg" and "ri_domain_prefix dep \<noteq> deviceFlowServiceName" "\<not> HasPrefix (ri_domain_prefix dep) ''domain-''"
  shows "all_routers (gated dep) (add_domain_only s p cfg)"
proof -
  have ne: "''domain-'' @ x \<noteq> ri_domain_prefix dep" for x using assms(3) unfolding HasPrefix_iff by metis
  show ?thesis unfolding add_domain_only_def Let_def using assms(1,2)
    by (auto intro!: all_routers_router all_routers_device_flow all_routers_bypass_other
        simp: config_simps gated_def attachEmbedBridge_def base_router_def ne [simplified])
qed

lemma all_routers_fold:
  "all_routers Q cfg \<Longrightarrow> (\<And>x c. x \<in> set xs \<Longrightarrow> all_routers Q c \<Longrightarrow> all_routers Q (f x c)) \<Longrightarrow>
   all_routers Q (fold f xs cfg)"
  by (induction xs arbitrary: cfg) auto

lemma http_fold:
  "c_http cfg \<noteq> None \<Longrightarrow> (\<And>x c. c_http c \<noteq> None \<Longrightarrow> c_http (f x c) \<noteq> None) \<Longrightarrow> c_http (fold f xs cfg) \<noteq> None"
  by (induction xs arbitrary: cfg) auto

lemma middleware_fold:
  assumes "c_http cfg \<noteq> None" and "\<And>x c. c_http c \<noteq> None \<Longrightarrow> c_http (f x c) \<noteq> None"
    and "\<And>x c. x \<in> set xs \<Longrightarrow> c_http c \<noteq> None \<Longrightarrow> middleware_of (f x c) m = middleware_of c m"
  shows "middleware_of (fold f xs cfg) m = middleware_of cfg m"
  using assms by (induction xs arbitrary: cfg) auto

lemma empty_config_http: "c_http (empty_config s) \<noteq> None"
  by (simp add: empty_config_def put_service_def upd_http_def)

lemma empty_config_routers: "all_routers Q (empty_config s)"
  by (simp add: empty_config_def put_service_def upd_http_def all_routers_def)

lemma deployments_http: "c_http (fold (add_deployment s als) deps (empty_config s)) \<noteq> None"
  by (rule http_fold [OF empty_config_http]) (simp add: add_deployment_http)

text \<open>All deployments of a prefix agree, so the middleware is the one of any of them.\<close>

lemma deployments_middleware:
  assumes "dep \<in> set deps" "deployment_needs_auth dep"
    and same: "\<And>d. d \<in> set deps \<Longrightarrow> ri_domain_prefix d = ri_domain_prefix dep \<Longrightarrow> gate_of d = gate_of dep"
  shows "c_http cfg \<noteq> None \<Longrightarrow> middleware_of (fold (add_deployment s als) deps cfg) (ri_domain_prefix dep @ ''-auth'')
    = Some \<lparr>mw_forward = Some (projectForwardAuth (project_verify_url s (ri_project dep) (ri_auth_allowed_domains dep)))\<rparr>"
  using assms
proof (induction deps rule: rev_induct)
  case (snoc d deps)
  let ?c = "fold (add_deployment s als) deps cfg"
  have h: "c_http ?c \<noteq> None" by (rule http_fold [OF snoc.prems(1)]) (simp add: add_deployment_http)
  show ?case
  proof (cases "ri_domain_prefix d = ri_domain_prefix dep")
    case True
    then have g: "gate_of d = gate_of dep" using snoc.prems(4) by simp
    then have "deployment_needs_auth d" using needs_auth_gate snoc.prems(3) by blast
    then show ?thesis using add_deployment_middleware [OF h, of s als d] True g by (simp add: gate_of_def)
  next
    case False
    then have "dep \<in> set deps" using snoc.prems(2) by auto
    then have "middleware_of ?c (ri_domain_prefix dep @ ''-auth'')
      = Some \<lparr>mw_forward = Some (projectForwardAuth (project_verify_url s (ri_project dep) (ri_auth_allowed_domains dep)))\<rparr>"
      by (rule snoc.IH [OF snoc.prems(1) _ snoc.prems(3)]) (rule snoc.prems(4), auto)
    then show ?thesis using add_deployment_middleware [OF h, of s als d] False by simp
  qed
qed simp

lemma same_suffix_prefix: "n @ t = p @ x @ t \<Longrightarrow> HasPrefix n p"
  by (auto simp: HasPrefix_iff simp flip: append_assoc)

lemma map_filter_mem: "y \<in> set (List.map_filter f xs) \<Longrightarrow> \<exists>x \<in> set xs. f x = Some y"
  by (induction xs) (auto simp: List.map_filter_simps split: option.splits)

lemma running_same_gate:
  assumes "run_state GetRunningDeployments s = (Inr deps, s')" "distinct (map p_domain_prefix (projects s))"
    and "d \<in> set deps" "e \<in> set deps" "ri_domain_prefix d = ri_domain_prefix e"
  shows "gate_of d = gate_of e"
proof -
  have row: "\<exists>p \<in> set (projects s). ri_domain_prefix x = p_domain_prefix p
      \<and> gate_of x = (p_id p, p_auth_required p, p_auth_allowed_domains p, p_auth_bypass_paths p, p_access_mode p)"
    if "x \<in> set deps" for x
  proof -
    have "deps = List.map_filter (running_row (popped s)) (deployments s)"
      using assms(1) by (auto simp: GetRunningDeployments_def run_query split: option.splits)
    then have "x \<in> set (List.map_filter (running_row (popped s)) (deployments s))" using that by simp
    then obtain dl where "running_row (popped s) dl = Some x" using map_filter_mem by fast
    then obtain p where f: "project_by s (d_project dl) = Some p"
      and x: "ri_domain_prefix x = p_domain_prefix p" "ri_project x = d_project dl" "ri_auth_required x = p_auth_required p"
        "ri_auth_allowed_domains x = p_auth_allowed_domains p" "ri_auth_bypass_paths x = p_auth_bypass_paths p"
        "ri_access_mode x = p_access_mode p"
      by (auto simp: running_row_def running_info_of_def project_by_def split: option.splits if_splits)
    have "p \<in> set (projects s)" "p_id p = d_project dl"
      using f by (auto simp: project_by_def find_Some_iff)
    then show ?thesis using x by (auto simp: gate_of_def)
  qed
  then show ?thesis using assms(2-5) by (metis (no_types, lifting) distinct_map inj_onD)
qed


section \<open>Names and paths that reach beyond their project\<close>

definition sample_route_cfg :: route_cfg where
  "sample_route_cfg = \<lparr>rc_base = ''a.com'', rc_bases = [''a.com'', ''b.com''], rc_cf_domains = [],
     rc_auth_url = ''http://auth:4181'', rc_tunnel_url = ''http://muvee:8080''\<rparr>"

definition sample_running :: "string \<Rightarrow> bool \<Rightarrow> string \<Rightarrow> running_info" where
  "sample_running pfx auth bypass = \<lparr>ri_deployment = pfx, ri_project = pfx, ri_domain_prefix = pfx, ri_auth_required = auth,
     ri_auth_allowed_domains = '''', ri_auth_bypass_paths = bypass, ri_access_mode = ''public'', ri_host_ip = ''10.0.0.1'',
     ri_host_port = 3000, ri_tcp_prefix = '''', ri_tcp_port = None, ri_node = None\<rparr>"

lemma service_fold_other:
  "c_http cfg \<noteq> None \<Longrightarrow> m \<notin> ri_domain_prefix ` set deps \<Longrightarrow>
   service_of (fold (add_deployment s als) deps cfg) m = service_of cfg m"
  by (induction deps arbitrary: cfg) (simp_all add: add_deployment_http add_deployment_service del: not_None_eq)

text \<open>
  The backend of every \<open>/_oauth\<close> router is the service \<open>muvee-authservice-device\<close>. The name is not
  reserved: a running deployment with this prefix, alone in having it, replaces the authservice by its
  own backend for the whole platform, and nothing else in the document brings it back.
\<close>

theorem device_flow_hijack:
  "service_of (fold (add_deployment s als) (deps @ [dep\<lparr>ri_domain_prefix := deviceFlowServiceName\<rparr>]) (empty_config s)) deviceFlowServiceName
     = Some \<lparr>sv_urls = [''http://'' @ ri_host_ip dep @ '':'' @ show_int (ri_host_port dep)]\<rparr>
   \<and> (deviceFlowServiceName \<in> ri_domain_prefix ` set deps
      \<or> service_of (fold (add_deployment s als) deps (empty_config s)) deviceFlowServiceName = Some \<lparr>sv_urls = [rc_auth_url s]\<rparr>)"
proof -
  have "service_of (empty_config s) deviceFlowServiceName = Some \<lparr>sv_urls = [rc_auth_url s]\<rparr>"
    by (simp add: empty_config_def service_of_def put_service_def upd_http_def)
  then have 2: "deviceFlowServiceName \<in> ri_domain_prefix ` set deps
      \<or> service_of (fold (add_deployment s als) deps (empty_config s)) deviceFlowServiceName = Some \<lparr>sv_urls = [rc_auth_url s]\<rparr>"
    using service_fold_other [OF empty_config_http, of deviceFlowServiceName deps s] by metis
  then show ?thesis using add_deployment_service [OF deployments_http, of s als _ s als deps] by simp
qed

text \<open>
  A bypass path is spliced into Traefik's rule as it stands. One backquote ends the matcher it was
  meant for: with this path the router of \<open>mine\<close> also matches every request for \<open>victim.a.com\<close>, with
  priority 100, and sends it to \<open>mine\<close>.
\<close>

theorem bypass_rule_injection:
  "map_option (\<lambda>r. (r_rule r, r_service r, r_priority r))
     (router_of (build_config (sample_route_cfg\<lparr>rc_bases := [''a.com'']\<rparr>)
        [sample_running ''mine'' True (''/x'' @ [bq] @ '') || Host('' @ [bq] @ ''victim.a.com'' @ [bq] @ '') || Path('' @ [bq] @ ''/y'')] [] [] [])
        ''mine-bypass-0'')
   = Some (''Host('' @ [bq] @ ''mine.a.com'' @ [bq] @ '') && Path('' @ [bq] @ ''/x'' @ [bq] @ '') || Host('' @ [bq]
       @ ''victim.a.com'' @ [bq] @ '') || Path('' @ [bq] @ ''/y'' @ [bq] @ '')'', ''mine'', 100)"
  by code_simp

text \<open>
  The bypass routers of a custom-domain alias name the alias router as their service, and no such
  service is in the document; when another project has taken that name as its prefix, it is that
  project's backend that the bypass exposes, without the login it asks for.
\<close>

theorem alias_bypass_service:
  "(let als = [\<lparr>pa_id = ''i'', pa_project = ''app'', pa_host = ''shop.example'', pa_created = 0\<rparr>];
        app = sample_running ''app'' True ''/health'';
        alone = build_config sample_route_cfg [app] als [] [];
        both = build_config sample_route_cfg [app, sample_running ''app-alias-0'' True ''''] als [] [] in
    map_option r_service (router_of alone ''app-alias-0-bypass-0'') = Some ''app-alias-0''
    \<and> service_of alone ''app-alias-0'' = None
    \<and> map_option (\<lambda>r. (r_rule r, r_service r, r_middlewares r)) (router_of both ''app-alias-0-bypass-0'')
      = Some (''Host('' @ [bq] @ ''shop.example'' @ [bq] @ '') && Path('' @ [bq] @ ''/health'' @ [bq] @ '')'', ''app-alias-0'', [])
    \<and> service_of both ''app-alias-0'' = Some \<lparr>sv_urls = [''http://10.0.0.1:3000'']\<rparr>)"
  by code_simp

text \<open>
  Traefik sends the hosts of a tunnel under every base domain to the server, which recognises only
  those under the canonical one: the request for the second base is not a tunnel request, though the
  router for it exists.
\<close>

theorem tunnel_other_base_lost:
  "hostsForPrefix sample_route_cfg ''t-calm-fox'' = [''t-calm-fox.a.com'', ''t-calm-fox.b.com'']
   \<and> isTunnelRequest (rc_base sample_route_cfg) [] ''t-calm-fox.a.com''
   \<and> \<not> isTunnelRequest (rc_base sample_route_cfg) [] ''t-calm-fox.b.com''
   \<and> map_option r_rule (router_of (build_config sample_route_cfg [] [] []
        [\<lparr>ti_domain = ''t-calm-fox'', ti_user_email = '''', ti_auth_required = True, ti_connected_at = 0, ti_project = ''''\<rparr>])
        ''tunnel-t-calm-fox'')
     = Some (''(Host('' @ [bq] @ ''t-calm-fox.a.com'' @ [bq] @ '') || Host('' @ [bq] @ ''t-calm-fox.b.com'' @ [bq] @ ''))'')"
  by code_simp

end
