(* ===== verification/Traefik_Split.thy ===== *)
theory Traefik_Split
  imports Traefik_Facts
begin

text \<open>
  The rewriting for base domains behind a Cloudflare Tunnel: a generated rule is parsed back into the
  hosts it was built from, each router is split into an ACME part and a tunnel part that together
  serve the same hosts, and no router changes its service, middlewares or priority on the way.
\<close>

section \<open>Parsing a generated rule\<close>

text \<open>A host name the generator can quote: not empty and without a backquote.\<close>

definition quotable :: "string \<Rightarrow> bool" where
  "quotable h \<longleftrightarrow> h \<noteq> [] \<and> bq \<notin> set h"

lemma token_body_quoted: "quotable h \<Longrightarrow> token_body (h @ [bq] @ '')'' @ t) = Some (h, t)"
proof -
  assume q: "quotable h"
  then have "takeWhile (\<lambda>c. c \<noteq> bq) (h @ bq # CHR '')'' # t) = h"
    "dropWhile (\<lambda>c. c \<noteq> bq) (h @ bq # CHR '')'' # t) = bq # CHR '')'' # t"
    by (auto simp: quotable_def takeWhile_append dropWhile_append)
  then show ?thesis using q by (simp add: token_body_def quotable_def HasPrefix_def)
qed

lemma host_tokens_skip: "c \<noteq> CHR ''H'' \<Longrightarrow> host_tokens (c # cs) = host_tokens cs"
  by (simp add: host_token_def HasPrefix_def)

declare host_tokens.simps(2) [simp del]

lemma host_token_matcher:
  "quotable h \<Longrightarrow> n \<in> {''Host'', ''HostSNI''} \<Longrightarrow> host_token (matcher n h @ t) = Some (h, t)"
  using token_body_quoted [of h t]
  by (auto simp: host_token_def matcher_def HasPrefix_def TrimPrefix_def)

lemma host_tokens_matcher:
  "quotable h \<Longrightarrow> n \<in> {''Host'', ''HostSNI''} \<Longrightarrow> host_tokens (matcher n h @ t) = h # host_tokens t"
proof -
  assume q: "quotable h" "n \<in> {''Host'', ''HostSNI''}"
  obtain c cs where "matcher n h @ t = c # cs" by (cases "matcher n h @ t") (auto simp: matcher_def)
  then show ?thesis using host_token_matcher [OF q, of t] by (simp add: host_tokens.simps(2))
qed

lemma host_tokens_join:
  "hosts \<noteq> [] \<Longrightarrow> \<forall>h \<in> set hosts. quotable h \<Longrightarrow> n \<in> {''Host'', ''HostSNI''} \<Longrightarrow>
   host_tokens (Join (map (matcher n) hosts) '' || '' @ t) = hosts @ host_tokens t"
proof (induction hosts)
  case (Cons h hosts)
  show ?case
  proof (cases "hosts = []")
    case True
    then show ?thesis using Cons.prems host_tokens_matcher by simp
  next
    case False
    then have "host_tokens ('' || '' @ Join (map (matcher n) hosts) '' || '' @ t) = hosts @ host_tokens t"
      using Cons by (simp add: host_tokens_skip)
    moreover have "Join (map (matcher n) (h # hosts)) '' || '' @ t
        = matcher n h @ ('' || '' @ Join (map (matcher n) hosts) '' || '' @ t)"
      using False by (simp add: Join_Cons)
    ultimately show ?thesis using Cons.prems host_tokens_matcher [of h n] by simp
  qed
qed simp

lemma host_tokens_rule:
  assumes "hosts \<noteq> []" "\<forall>h \<in> set hosts. quotable h" "n \<in> {''Host'', ''HostSNI''}"
  shows "host_tokens (match_rule n hosts @ t) = hosts @ host_tokens t"
proof (cases "length hosts = 1")
  case True
  then obtain h where "hosts = [h]" by (metis One_nat_def length_0_conv length_Suc_conv)
  then show ?thesis using assms host_tokens_matcher by (simp add: match_rule_def)
next
  case False
  then have "match_rule n hosts @ t = ''('' @ Join (map (matcher n) hosts) '' || '' @ ('')'' @ t)"
    by (simp add: match_rule_def Let_def)
  then show ?thesis using host_tokens_join [OF assms, of "'')'' @ t"] by (simp add: host_tokens_skip)
qed

lemma splitRule_generated:
  assumes "hosts \<noteq> []" "\<forall>h \<in> set hosts. quotable h" "host_tokens rest = []"
  shows "splitRule (match_rule (if sni then ''HostSNI'' else ''Host'') hosts @ rest) sni = Some (hosts, rest)"
  using host_tokens_rule [OF assms(1,2), of "if sni then ''HostSNI'' else ''Host''" rest] assms(1,3)
  by (auto simp: splitRule_def Let_def sniMatchRule_def hostMatchRule_def HasPrefix_def)

text \<open>
  \<open>splitRule\<close> undoes \<open>hostMatchRule\<close> and \<open>sniMatchRule\<close>: from a rule built of host names without a
  backquote, followed by anything that has no host matcher of its own, it recovers exactly those
  hosts, in order, and the rest.
\<close>

theorem splitRule_roundtrip:
  assumes "hosts \<noteq> []" "\<forall>h \<in> set hosts. quotable h" "host_tokens rest = []"
  shows "splitRule (hostMatchRule hosts @ rest) False = Some (hosts, rest)
    \<and> splitRule (sniMatchRule hosts @ rest) True = Some (hosts, rest)"
  using splitRule_generated [OF assms, of False] splitRule_generated [OF assms, of True]
  by (simp add: hostMatchRule_def sniMatchRule_def)

lemma splitRule_roundtrip_witness:
  "splitRule (hostMatchRule [''x.a.com'', ''x.b.com''] @ '' && '' @ matcher ''PathPrefix'' ''/_oauth'') False
     = Some ([''x.a.com'', ''x.b.com''], '' && '' @ matcher ''PathPrefix'' ''/_oauth'')
   \<and> splitRule (sniMatchRule [''x.a.com'', ''x.b.com''] @ '' && '' @ matcher ''PathPrefix'' ''/_oauth'') True
     = Some ([''x.a.com'', ''x.b.com''], '' && '' @ matcher ''PathPrefix'' ''/_oauth'')"
  by (rule splitRule_roundtrip) code_simp+

section \<open>Splitting a router\<close>

lemma splitHosts_filter: "splitHosts s hs = (filter (\<lambda>h. \<not> isCFTunnelHost s h) hs, filter (isCFTunnelHost s) hs)"
  by (induction hs) (auto simp: Let_def)

text \<open>
  A generated router with hosts behind the tunnel becomes two: its sibling serves exactly those
  hosts on the tunnel's entrypoint without TLS, and under its own name it keeps exactly the other
  hosts, with certificates for them only, or disappears when there are none. Both keep the path
  condition, the service, the middlewares and the priority.
\<close>

theorem cf_router_splits:
  assumes "map_of rs name = Some r" and "r_rule r = hostMatchRule hosts @ rest"
    and "hosts \<noteq> []" "\<forall>h \<in> set hosts. quotable h" "host_tokens rest = []"
    and "\<exists>h \<in> set hosts. isCFTunnelHost s h" and "distinct (map fst rs)"
  shows "let acme = filter (\<lambda>h. \<not> isCFTunnelHost s h) hosts; tunnel = filter (isCFTunnelHost s) hosts in
    map_of (cf_router s name rs) (name @ ''_cf'')
      = Some (r\<lparr>r_rule := hostMatchRule tunnel @ rest, r_entry := [''cftunnel''], r_tls := None\<rparr>)
    \<and> map_of (cf_router s name rs) name = (if acme = [] then None
        else Some (r\<lparr>r_rule := hostMatchRule acme @ rest, r_tls := map_option (\<lambda>t. t\<lparr>tls_domains := acme\<rparr>) (r_tls r)\<rparr>))"
proof -
  have "splitRule (r_rule r) False = Some (hosts, rest)"
    using splitRule_generated [OF assms(3-5), of False] assms(2) by (simp add: hostMatchRule_def)
  moreover have "filter (isCFTunnelHost s) hosts \<noteq> []" using assms(6) by (auto simp: filter_empty_conv)
  ultimately show ?thesis
    using assms(1)
    by (auto simp: cf_router_def splitHosts_filter Let_def update_conv delete_conv' cfTunnelRouterSuffix_def
        cfTunnelEntryPoint_def retls_def tlsDomainsFor_def)
qed

section \<open>The document\<close>

text \<open>What decides who may use a router: its service, its middlewares and its priority.\<close>

definition same_gate :: "traefik_router \<Rightarrow> traefik_router \<Rightarrow> bool" where
  "same_gate r q \<longleftrightarrow> r_service r = r_service q \<and> r_middlewares r = r_middlewares q \<and> r_priority r = r_priority q"

lemma same_gate_refl [simp]: "same_gate r r"
  by (simp add: same_gate_def)

lemma same_gate_trans: "same_gate a b \<Longrightarrow> same_gate b c \<Longrightarrow> same_gate a c"
  by (simp add: same_gate_def)

lemma delete_subset: "x \<in> set (AList.delete k xs) \<Longrightarrow> x \<in> set xs"
  by (auto simp: AList.delete_eq)

lemma update_in: "x \<in> set (AList.update k v xs) \<Longrightarrow> x = (k, v) \<or> x \<in> set xs"
  using update_subset [of k v xs] by auto

lemma cf_router_gates:
  assumes "(n, q) \<in> set (cf_router s name rs)"
  shows "\<exists>m r. (m, r) \<in> set rs \<and> same_gate q r"
proof (cases "map_of rs name")
  case (Some r)
  have r: "(name, r) \<in> set rs" by (rule map_of_SomeD [OF Some])
  have "(n, q) \<in> set rs \<or> same_gate q r"
  proof (cases "splitRule (r_rule r) False")
    case (Some p)
    obtain hosts suffix where p: "p = (hosts, suffix)" by (cases p)
    let ?acme = "filter (\<lambda>h. \<not> isCFTunnelHost s h) hosts" and ?tunnel = "filter (isCFTunnelHost s) hosts"
    let ?c = "r\<lparr>r_rule := hostMatchRule ?tunnel @ suffix, r_entry := [cfTunnelEntryPoint], r_tls := None\<rparr>"
    let ?k = "r\<lparr>r_rule := hostMatchRule ?acme @ suffix, r_tls := retls ?acme (r_tls r)\<rparr>"
    have "(n, q) \<in> insert (name, ?k) (insert (name @ cfTunnelRouterSuffix, ?c) (set rs))"
      using assms Some \<open>map_of rs name = Some r\<close> p
      by (auto simp: cf_router_def splitHosts_filter Let_def split: if_splits dest!: delete_subset update_in)
    then show ?thesis by (auto simp: same_gate_def)
  qed (use assms \<open>map_of rs name = Some r\<close> in \<open>auto simp: cf_router_def\<close>)
  then show ?thesis using r by (auto intro: same_gate_refl)
qed (use assms in \<open>auto simp: cf_router_def intro: same_gate_refl\<close>)

lemma cf_routers_gates:
  "(n, q) \<in> set (fold (cf_router s) names rs) \<Longrightarrow> \<exists>m r. (m, r) \<in> set rs \<and> same_gate q r"
proof (induction names arbitrary: rs)
  case (Cons name names)
  from Cons.prems have "(n, q) \<in> set (fold (cf_router s) names (cf_router s name rs))" by simp
  from Cons.IH [OF this] obtain m r where mr: "(m, r) \<in> set (cf_router s name rs)" "same_gate q r" by blast
  from cf_router_gates [OF mr(1)] obtain m' r' where "(m', r') \<in> set rs" "same_gate r r'" by blast
  then show ?case using mr(2) same_gate_trans by blast
qed (auto intro: same_gate_refl)


end
