(* ===== verification/Edge_Runs.thy ===== *)
theory Edge_Runs
  imports Sample Tunnel_Words Traefik_Split
begin

text \<open>
  The edge at work: a tunnel session that connects, loses a race for its domain and goes away; the
  routes of one private project; and the same routes split for a base domain behind a Cloudflare Tunnel.
\<close>

section \<open>Tunnel sessions\<close>

definition connect_end :: db where
  "connect_end = snd (run_state (connect_check [] (sample_user RoleMember) ''t-quiet-heron-1a2b'' '''' '''') (sample_db 0 [] [] []))"

lemma connect_check_run:
  "run_state (connect_check [] (sample_user RoleMember) ''t-quiet-heron-1a2b'' '''' '''') (sample_db 0 [] [] [])
     = (Inr (''t-quiet-heron-1a2b'', '''', True), connect_end)"
proof (rule prod_eqI)
  show "fst (run_state (connect_check [] (sample_user RoleMember) ''t-quiet-heron-1a2b'' '''' '''') (sample_db 0 [] [] []))
      = fst (Inr (''t-quiet-heron-1a2b'', '''', True), connect_end)"
    unfolding fst_conv by code_simp
qed (simp add: connect_end_def)

lemma connect_check_entitled_witness:
  "tunnel_get [] ''t-quiet-heron-1a2b'' = None \<and> True = (('''' :: string) \<noteq> ''1'') \<and> isValidTunnelDomain ''t-quiet-heron-1a2b''"
  using connect_check_entitled [OF connect_check_run] by (auto simp: sample_db_def sample_project_def sample_user_def)

definition sample_conn :: "nat \<Rightarrow> tunnel_conn" where
  "sample_conn i = new_tunnel_conn i (sample_user RoleMember) 0 '''' True"

lemma registry_run:
  "registry_step\<^sup>*\<^sup>* registry_init
     \<lparr>tw_registry = [(''t-a'', sample_conn 1)], tw_sessions = {(''t-a'', sample_conn 1)}, tw_used = {2, 1}\<rparr>"
proof (rule converse_rtranclp_into_rtranclp [of registry_step, OF _ r_into_rtranclp [of registry_step]])
  show "registry_step registry_init
      \<lparr>tw_registry = [(''t-a'', sample_conn 1)], tw_sessions = {(''t-a'', sample_conn 1)}, tw_used = {1}\<rparr>"
    by (rule registry_step.registry_connect [of "sample_conn 1" registry_init "''t-a''" True "[(''t-a'', sample_conn 1)]", THEN back_subst [of "registry_step registry_init"]])
      (simp_all add: registry_init_def newTunnelRegistry_def tunnel_register_def tunnel_get_def sample_conn_def new_tunnel_conn_def)
  let ?w = "\<lparr>tw_registry = [(''t-a'', sample_conn 1)], tw_sessions = {(''t-a'', sample_conn 1)}, tw_used = {1 :: nat}\<rparr>"
  show "registry_step ?w \<lparr>tw_registry = [(''t-a'', sample_conn 1)], tw_sessions = {(''t-a'', sample_conn 1)}, tw_used = {2, 1}\<rparr>"
    by (rule registry_step.registry_connect [of "sample_conn 2" ?w "''t-a''" False "[(''t-a'', sample_conn 1)]", THEN back_subst [of "registry_step ?w"]])
      (simp_all add: tunnel_register_def tunnel_get_def sample_conn_def new_tunnel_conn_def)
qed

lemma registry_lists_sessions_witness:
  "tunnel_get [(''t-a'', sample_conn 1)] ''t-a'' = Some (sample_conn 1)"
  using registry_lists_sessions [OF registry_run, of "''t-a''" "sample_conn 1"] by simp

section \<open>Routes\<close>

definition private_db :: db where
  "private_db = (sample_db 0 [(sample_deployment ''a'' DS_Running (Some ''live'') 0)\<lparr>d_host_port := 3000\<rparr>] []
     [sample_node ''live'' RoleDeploy 0])"

definition private_running :: running_info where
  "private_running = hd (case fst (run_state GetRunningDeployments private_db) of Inr ds \<Rightarrow> ds)"

lemma private_rows: "fst (run_state GetRunningDeployments private_db) = Inr [private_running]"
  by code_simp

lemma private_run:
  "run_state GetRunningDeployments private_db = (Inr [private_running], snd (run_state GetRunningDeployments private_db))"
  by (simp add: prod_eq_iff private_rows)

lemma private_prefix: "ri_domain_prefix private_running = ''app''" "deployment_needs_auth private_running"
  by code_simp+

lemma private_not_generated: "\<not> generated_name [private_running] (ri_domain_prefix private_running)"
  by (simp add: generated_name_def private_prefix deviceFlowServiceName_def HasPrefix_def)


section \<open>Behind a Cloudflare Tunnel\<close>

definition cf_cfg :: route_cfg where
  "cf_cfg = sample_route_cfg\<lparr>rc_cf_domains := [''b.com'']\<rparr>"

definition cf_router_before :: traefik_router where
  "cf_router_before = \<lparr>r_rule = hostMatchRule [''x.a.com'', ''x.b.com''], r_entry = [''websecure''], r_service = ''x'',
     r_middlewares = [''x-auth''], r_tls = None, r_priority = 0\<rparr>"

lemma cf_router_splits_witness:
  "let acme = filter (\<lambda>h. \<not> isCFTunnelHost cf_cfg h) [''x.a.com'', ''x.b.com''];
       tunnel = filter (isCFTunnelHost cf_cfg) [''x.a.com'', ''x.b.com''] in
    map_of (cf_router cf_cfg ''x'' [(''x'', cf_router_before)]) (''x'' @ ''_cf'')
      = Some (cf_router_before\<lparr>r_rule := hostMatchRule tunnel @ '''', r_entry := [''cftunnel''], r_tls := None\<rparr>)
    \<and> map_of (cf_router cf_cfg ''x'' [(''x'', cf_router_before)]) ''x'' = (if acme = [] then None
        else Some (cf_router_before\<lparr>r_rule := hostMatchRule acme @ '''',
          r_tls := map_option (\<lambda>t. t\<lparr>tls_domains := acme\<rparr>) (r_tls cf_router_before)\<rparr>))"
  by (rule cf_router_splits [of "[(''x'', cf_router_before)]" "''x''" cf_router_before "[''x.a.com'', ''x.b.com'']" "''''" cf_cfg])
    code_simp+

definition cf_document :: traefik_config where
  "cf_document = build_config cf_cfg [private_running] [] [] []"

definition cf_rewritten :: traefik_http where
  "cf_rewritten = (case c_http (applyCFTunnelDomains cf_cfg (\<lambda>x. x) cf_document) of Some h \<Rightarrow> h)"

lemma cf_rewritten_run:
  "c_http (applyCFTunnelDomains cf_cfg (\<lambda>x. x) cf_document) = Some cf_rewritten"
  "\<exists>q. (''app_cf'', q) \<in> set (routers cf_rewritten)"
proof -
  have c: "c_http (applyCFTunnelDomains cf_cfg (\<lambda>x. x) cf_document) \<noteq> None" by code_simp
  then show "c_http (applyCFTunnelDomains cf_cfg (\<lambda>x. x) cf_document) = Some cf_rewritten"
    by (auto simp: cf_rewritten_def)
  have "list_ex (\<lambda>(n, q). n = ''app_cf'') (routers cf_rewritten)" by code_simp
  then show "\<exists>q. (''app_cf'', q) \<in> set (routers cf_rewritten)" by (auto simp: list_ex_iff)
qed


end
