(* ===== verification/Project_Rules.thy ===== *)
theory Project_Rules
  imports Tunnel
begin

text \<open>
  What a project may look like (internal/api/server.go, \<open>validateProject\<close> and the rules it calls;
  internal/api/project_types.go). A function that normalises its argument in place returns the
  normalised project; every message of the code is a constructor of \<open>project_error\<close>.
\<close>

section \<open>Errors\<close>

datatype project_error =
  PrefixEmpty | PrefixInvalid string | PrefixReserved string
| NameEmpty | IconDisallowed | AccessModeUnknown | ProjectTypeUnknown
| FixedPortHalf | FixedPortRange | FixedNodeZero | FixedPortDomainOnly
| TCPHalf | TCPPortRange | TCPPrefix project_error | TCPSelfCollision string
| GitSourceUnknown | GitForbidden | GitURLRequired | PrefixRequired | PrefixFromName string project_error
| PrefixTunnelSpace string | ExposeServiceRequired | ExposePortRange
| ImageRefRequired | ContainerPortRange
| BuildContainerPort | BuildExpose | BuildAuth | BuildAuthFields | BuildImageRef | BuildCompose
| BuildMemory | BuildVolume | BuildFixed | BuildAccessMode
| ProviderUnknown string | TypeUnknown string | NoTypes

section \<open>Subdomain prefixes\<close>

definition reservedDomainPrefixes :: "string list" where
  "reservedDomainPrefixes = [''registry'', ''traefik'', ''muvee'']"

text \<open>The regular expression \<open>^[a-z0-9]([a-z0-9-]*[a-z0-9])?$\<close>.\<close>

definition validDomainPrefix :: "string \<Rightarrow> bool" where
  "validDomainPrefix s \<longleftrightarrow> s \<noteq> [] \<and> is_lower_alnum (hd s) \<and> is_lower_alnum (last s)
     \<and> list_all (\<lambda>c. is_lower_alnum c \<or> c = CHR ''-'') s"

definition validateDomainPrefix :: "string \<Rightarrow> project_error + unit" where
  "validateDomainPrefix pfx =
     (if pfx = '''' then Inl PrefixEmpty
      else if \<not> validDomainPrefix pfx then Inl (PrefixInvalid pfx)
      else if pfx \<in> set reservedDomainPrefixes then Inl (PrefixReserved pfx)
      else Inr ())"

section \<open>Fixed ports\<close>

definition validateFixedPort :: "project \<Rightarrow> project_error + unit" where
  "validateFixedPort p =
     (let hasPort = (p_fixed_port p \<noteq> None); hasNode = (p_fixed_node p \<noteq> None) in
      if hasPort \<noteq> hasNode then Inl FixedPortHalf
      else (case (p_fixed_port p, p_fixed_node p) of
        (Some port, Some n) \<Rightarrow>
          if port < 1024 \<or> port > 65535 then Inl FixedPortRange
          else if n = uuid_Nil then Inl FixedNodeZero
          else if p_type p = PT_DomainOnly then Inl FixedPortDomainOnly
          else Inr ()
      | _ \<Rightarrow> Inr ()))"

definition intPtrEq :: "int option \<Rightarrow> int option \<Rightarrow> bool" where
  "intPtrEq a b = (case (a, b) of (Some x, Some y) \<Rightarrow> x = y | (None, None) \<Rightarrow> True | _ \<Rightarrow> False)"

definition uuidPtrEq :: "uuid option \<Rightarrow> uuid option \<Rightarrow> bool" where
  "uuidPtrEq a b = (case (a, b) of (Some x, Some y) \<Rightarrow> x = y | (None, None) \<Rightarrow> True | _ \<Rightarrow> False)"

definition fixedPortChanged :: "project \<Rightarrow> project \<Rightarrow> bool" where
  "fixedPortChanged existing updated \<longleftrightarrow>
     \<not> intPtrEq (p_fixed_port existing) (p_fixed_port updated)
     \<or> \<not> uuidPtrEq (p_fixed_node existing) (p_fixed_node updated)"

section \<open>TCP routes\<close>

definition sameStr :: "string option \<Rightarrow> string option \<Rightarrow> bool" where
  "sameStr a b = (case (a, b) of (Some x, Some y) \<Rightarrow> x = y | _ \<Rightarrow> a = None \<and> b = None)"

definition tcpRouteChanged :: "project \<Rightarrow> project \<Rightarrow> bool" where
  "tcpRouteChanged existing updated \<longleftrightarrow>
     \<not> sameStr (p_tcp_prefix existing) (p_tcp_prefix updated)
     \<or> \<not> intPtrEq (p_tcp_port existing) (p_tcp_port updated)"

definition validateTCPRoute :: "project \<Rightarrow> project_error + project" where
  "validateTCPRoute p =
     (let pfx = (case p_tcp_prefix p of None \<Rightarrow> '''' | Some x \<Rightarrow> TrimSpace x);
          port = opt_or 0 (p_tcp_port p) in
      if pfx = '''' \<and> port = 0 then Inr (p\<lparr>p_tcp_prefix := None, p_tcp_port := None\<rparr>)
      else if pfx = '''' \<or> port = 0 then Inl TCPHalf
      else if port < 1 \<or> port > 65535 then Inl TCPPortRange
      else (case validateDomainPrefix pfx of
          Inl e \<Rightarrow> Inl (TCPPrefix e)
        | Inr _ \<Rightarrow>
            if p_domain_prefix p \<noteq> '''' \<and> pfx = p_domain_prefix p then Inl (TCPSelfCollision pfx)
            else Inr (p\<lparr>p_tcp_prefix := Some pfx, p_tcp_port := Some port\<rparr>)))"

section \<open>Icons\<close>

text \<open>
  \<open>dangerousIconPattern\<close>, case-insensitive: a tag name at a word boundary, an event handler
  \<open>\son[a-z]+\s*=\<close>, \<open>javascript:\<close> or \<open><!--\<close>, anywhere in the text. \<open>icon_hit\<close> tests one position of
  the lower-cased text; \<open>[a-z]+\<close> and \<open>\s*\<close> can only take a maximal run.
\<close>

definition re_space :: "char \<Rightarrow> bool" where
  "re_space c \<longleftrightarrow> c \<in> {CHR 0x09, CHR 0x0A, CHR 0x0C, CHR 0x0D, CHR 0x20}"

definition word_char :: "char \<Rightarrow> bool" where
  "word_char c \<longleftrightarrow> is_lower_alnum c \<or> (CHR ''A'' \<le> c \<and> c \<le> CHR ''Z'') \<or> c = CHR ''_''"

definition tag_hit :: "string \<Rightarrow> string \<Rightarrow> bool" where
  "tag_hit tag s \<longleftrightarrow> HasPrefix s tag
     \<and> (case drop (length tag) s of [] \<Rightarrow> True | c # _ \<Rightarrow> \<not> word_char c)"

definition handler_hit :: "string \<Rightarrow> bool" where
  "handler_hit s = (case s of [] \<Rightarrow> False
     | c # t \<Rightarrow> re_space c \<and> HasPrefix t ''on''
         \<and> (let u = drop 2 t; name = takeWhile (\<lambda>d. CHR ''a'' \<le> d \<and> d \<le> CHR ''z'') u;
                rest = dropWhile re_space (drop (length name) u)
            in name \<noteq> [] \<and> HasPrefix rest ''=''))"

definition icon_hit :: "string \<Rightarrow> bool" where
  "icon_hit s \<longleftrightarrow> tag_hit ''<script'' s \<or> tag_hit ''<iframe'' s \<or> tag_hit ''<object'' s
     \<or> tag_hit ''<embed'' s \<or> tag_hit ''<foreignobject'' s \<or> handler_hit s
     \<or> HasPrefix s ''javascript:'' \<or> HasPrefix s ''<!--''"

fun icon_search :: "string \<Rightarrow> bool" where
  "icon_search [] = icon_hit []"
| "icon_search (c # cs) = (icon_hit (c # cs) \<or> icon_search cs)"

definition validateIcon :: "string \<Rightarrow> project_error + unit" where
  "validateIcon icon = (if icon_search (ToLower icon) then Inl IconDisallowed else Inr ())"

section \<open>Projects\<close>

text \<open>The prefix of a project that is served: its own, or its name.\<close>

definition resolve_prefix :: "project \<Rightarrow> project_error + project" where
  "resolve_prefix p =
     (if p_domain_prefix p = '''' then
        (case validateDomainPrefix (p_name p) of
           Inl e \<Rightarrow> Inl (PrefixFromName (p_name p) e)
         | Inr _ \<Rightarrow> Inr (p\<lparr>p_domain_prefix := p_name p\<rparr>))
      else (case validateDomainPrefix (p_domain_prefix p) of Inl e \<Rightarrow> Inl e | Inr _ \<Rightarrow> Inr p))"

definition default_source :: "project \<Rightarrow> project_error + project" where
  "default_source p =
     (let p = (if p_git_source p = GS_Other '''' then p\<lparr>p_git_source := GS_External\<rparr> else p) in
      if p_git_source p \<noteq> GS_External \<and> p_git_source p \<noteq> GS_Hosted then Inl GitSourceUnknown else Inr p)"

definition default_branch :: "project \<Rightarrow> project" where
  "default_branch p = (if TrimSpace (p_git_branch p) = '''' then p\<lparr>p_git_branch := ''main''\<rparr> else p)"

definition default_dockerfile :: "project \<Rightarrow> project" where
  "default_dockerfile p =
     (if TrimSpace (p_dockerfile_path p) = '''' then p\<lparr>p_dockerfile_path := ''Dockerfile''\<rparr> else p)"

definition validate_deployment :: "project \<Rightarrow> project_error + project" where
  "validate_deployment p = (case default_source p of Inl e \<Rightarrow> Inl e | Inr p \<Rightarrow>
     resolve_prefix (default_branch (default_dockerfile p)))"

definition validate_domain_only :: "project \<Rightarrow> project_error + project" where
  "validate_domain_only p =
     (if p_git_url p \<noteq> '''' \<or> p_git_source p = GS_Hosted then Inl GitForbidden
      else
       (let p = p\<lparr>p_git_url := '''', p_git_branch := '''', p_git_source := GS_Other '''', p_dockerfile_path := '''',
                  p_container_port := 0, p_memory_limit := '''', p_volume_mount_path := ''''\<rparr> in
        if p_domain_prefix p = '''' then Inl PrefixRequired
        else (case validateDomainPrefix (p_domain_prefix p) of
            Inl e \<Rightarrow> Inl e
          | Inr _ \<Rightarrow> if HasPrefix (p_domain_prefix p) ''t-'' then Inl (PrefixTunnelSpace (p_domain_prefix p))
                     else Inr p)))"

definition validate_compose :: "project \<Rightarrow> project_error + project" where
  "validate_compose p = (case default_source p of Inl e \<Rightarrow> Inl e | Inr p \<Rightarrow>
     if p_git_source p = GS_External \<and> p_git_url p = '''' then Inl GitURLRequired
     else
      (let p = (if p_git_source p = GS_Hosted then p\<lparr>p_git_url := ''''\<rparr> else p);
           p = default_branch p;
           p = p\<lparr>p_dockerfile_path := '''', p_memory_limit := '''', p_volume_mount_path := ''''\<rparr>;
           p = (if TrimSpace (p_compose_file_path p) = '''' then p\<lparr>p_compose_file_path := ''docker-compose.yml''\<rparr> else p)
       in if TrimSpace (p_expose_service p) = '''' then Inl ExposeServiceRequired
          else if p_expose_port p \<le> 0 \<or> p_expose_port p > 65535 then Inl ExposePortRange
          else resolve_prefix (p\<lparr>p_container_port := p_expose_port p\<rparr>)))"

definition validate_image :: "project \<Rightarrow> project_error + project" where
  "validate_image p =
     (if TrimSpace (p_image_ref p) = '''' then Inl ImageRefRequired
      else if p_container_port p \<le> 0 \<or> p_container_port p > 65535 then Inl ContainerPortRange
      else resolve_prefix (p\<lparr>p_git_url := '''', p_git_branch := '''', p_git_source := GS_Other '''',
             p_dockerfile_path := '''', p_compose_file_path := '''', p_expose_service := '''', p_expose_port := 0\<rparr>))"

definition validate_build :: "project \<Rightarrow> project_error + project" where
  "validate_build p = (case default_source p of Inl e \<Rightarrow> Inl e | Inr p \<Rightarrow>
     if p_git_source p = GS_External \<and> p_git_url p = '''' then Inl GitURLRequired
     else
      (let p = (if p_git_source p = GS_Hosted then p\<lparr>p_git_url := ''''\<rparr> else p);
           p = default_dockerfile (default_branch p)
       in if p_container_port p \<noteq> 0 then Inl BuildContainerPort
          else if p_expose_port p \<noteq> 0 \<or> p_expose_service p \<noteq> '''' then Inl BuildExpose
          else if p_auth_required p then Inl BuildAuth
          else if p_auth_allowed_domains p \<noteq> '''' \<or> p_auth_bypass_paths p \<noteq> '''' then Inl BuildAuthFields
          else if p_image_ref p \<noteq> '''' then Inl BuildImageRef
          else if p_compose_file_path p \<noteq> '''' then Inl BuildCompose
          else if p_memory_limit p \<noteq> '''' then Inl BuildMemory
          else if p_volume_mount_path p \<noteq> '''' then Inl BuildVolume
          else if p_fixed_port p \<noteq> None \<or> p_fixed_node p \<noteq> None then Inl BuildFixed
          else if p_access_mode p \<noteq> ''public'' then Inl BuildAccessMode
          else resolve_prefix p))"

definition validate_by_type :: "project \<Rightarrow> project_error + project" where
  "validate_by_type p = (case p_type p of
       PT_Deployment \<Rightarrow> validate_deployment p
     | PT_DomainOnly \<Rightarrow> validate_domain_only p
     | PT_Compose \<Rightarrow> validate_compose p
     | PT_Image \<Rightarrow> validate_image p
     | PT_Build \<Rightarrow> validate_build p
     | PT_Other _ \<Rightarrow> Inl ProjectTypeUnknown)"

definition default_type :: "project \<Rightarrow> project" where
  "default_type p = (if p_type p = PT_Other '''' then p\<lparr>p_type := PT_Deployment\<rparr> else p)"

definition default_access :: "project \<Rightarrow> project" where
  "default_access p = (if p_access_mode p = '''' then p\<lparr>p_access_mode := ''public''\<rparr> else p)"

definition validateProject :: "project \<Rightarrow> project_error + project" where
  "validateProject p =
     (if TrimSpace (p_name p) = '''' then Inl NameEmpty
      else case validateIcon (p_icon p) of Inl e \<Rightarrow> Inl e | Inr _ \<Rightarrow>
       (let p = default_access (default_type p) in
        if p_access_mode p \<noteq> ''public'' \<and> p_access_mode p \<noteq> ''private'' then Inl AccessModeUnknown
        else case validateFixedPort p of Inl e \<Rightarrow> Inl e | Inr _ \<Rightarrow>
         (case validateTCPRoute p of Inl e \<Rightarrow> Inl e | Inr p \<Rightarrow> validate_by_type p)))"

section \<open>Sign-in providers\<close>

definition EnabledProvidersNone :: string where "EnabledProvidersNone = ''none''"

fun provider_loop :: "string list \<Rightarrow> string list \<Rightarrow> string list \<Rightarrow> project_error + string list" where
  "provider_loop known [] names = Inr names"
| "provider_loop known (tok # toks) names =
     (let name = ToLower (TrimSpace tok) in
      if name = '''' then provider_loop known toks names
      else if name \<notin> set known then Inl (ProviderUnknown name)
      else if name \<in> set names then provider_loop known toks names
      else provider_loop known toks (names @ [name]))"

definition normaliseEnabledProviders :: "string \<Rightarrow> string list \<Rightarrow> project_error + string" where
  "normaliseEnabledProviders raw known =
     (if TrimSpace raw = '''' then Inr ''''
      else if EqualFold (TrimSpace raw) EnabledProvidersNone then Inr EnabledProvidersNone
      else (case provider_loop known (Split (CHR '','') raw) [] of
          Inl e \<Rightarrow> Inl e
        | Inr names \<Rightarrow> Inr (Join (sort names) '','')))"

section \<open>The platform's whitelist of project types\<close>

definition type_name :: "project_type \<Rightarrow> string" where
  "type_name t = (case t of PT_Deployment \<Rightarrow> ''deployment'' | PT_DomainOnly \<Rightarrow> ''domain_only''
     | PT_Compose \<Rightarrow> ''compose'' | PT_Image \<Rightarrow> ''image'' | PT_Build \<Rightarrow> ''build'' | PT_Other s \<Rightarrow> s)"

text \<open>The conversion \<open>store.ProjectType(name)\<close>.\<close>

definition type_of_name :: "string \<Rightarrow> project_type" where
  "type_of_name s = (if s = ''deployment'' then PT_Deployment else if s = ''domain_only'' then PT_DomainOnly
     else if s = ''compose'' then PT_Compose else if s = ''image'' then PT_Image
     else if s = ''build'' then PT_Build else PT_Other s)"

definition AllProjectTypes :: "project_type list" where
  "AllProjectTypes = [PT_Deployment, PT_Compose, PT_Image, PT_Build, PT_DomainOnly]"

definition IsKnownProjectType :: "project_type \<Rightarrow> bool" where
  "IsKnownProjectType t \<longleftrightarrow> t \<in> set AllProjectTypes"

fun type_loop :: "string list \<Rightarrow> project_type list \<Rightarrow> project_error + project_type list" where
  "type_loop [] seen = Inr seen"
| "type_loop (tok # toks) seen =
     (let name = ToLower (TrimSpace tok) in
      if name = '''' then type_loop toks seen
      else (let t = type_of_name name in
            if \<not> IsKnownProjectType t then Inl (TypeUnknown name) else type_loop toks (t # seen)))"

definition projectTypeNames :: "project_type list \<Rightarrow> string list" where
  "projectTypeNames types = map type_name types"

definition normaliseEnabledProjectTypes :: "string \<Rightarrow> project_error + string" where
  "normaliseEnabledProjectTypes raw =
     (if TrimSpace raw = '''' then Inr ''''
      else (case type_loop (Split (CHR '','') raw) [] of
          Inl e \<Rightarrow> Inl e
        | Inr seen \<Rightarrow>
            if length seen = 0 then Inl NoTypes
            else Inr (Join (projectTypeNames (filter (\<lambda>t. t \<in> set seen) AllProjectTypes)) '','')))"

definition parseEnabledProjectTypes :: "string \<Rightarrow> project_type list" where
  "parseEnabledProjectTypes raw =
     (let seen = filter IsKnownProjectType
            (map (\<lambda>tok. type_of_name (ToLower (TrimSpace tok))) (Split (CHR '','') raw))
      in if length seen = 0 then AllProjectTypes else filter (\<lambda>t. t \<in> set seen) AllProjectTypes)"

end
