(* ===== verification/Project_Admission.thy ===== *)
theory Project_Admission
  imports Project_Rules Traefik
begin

text \<open>
  Creating, updating and handing over projects (internal/api/server.go, \<open>createProject\<close>,
  \<open>updateProject\<close>, \<open>changeProjectOwner\<close>) and their custom domains (internal/api/project_aliases.go), with
  the store methods they call and the constraints of the \<open>projects\<close> and \<open>project_aliases\<close> tables.
  A handler returns the HTTP status and the error, or what it writes as JSON.
\<close>

section \<open>Requests\<close>

text \<open>
  A JSON object decoded into a \<open>store.Project\<close>: its members in order, each a field that it sets; a
  member that is absent, unknown or \<open>null\<close> for a field that is no pointer sets nothing. \<open>Inl\<close> is a
  body that does not decode.
\<close>

datatype project_field =
  F_id uuid | F_name string | F_project_type string | F_git_url string | F_git_branch string
| F_git_source string | F_domain_prefix string | F_dockerfile_path string | F_owner_id uuid
| F_auth_required bool | F_auth_allowed_domains string | F_auth_bypass_paths string
| F_container_port int | F_memory_limit string | F_volume_mount_path string | F_icon string
| F_compose_file_path string | F_expose_service string | F_expose_port int
| F_pinned_node_id "uuid option" | F_image_ref string | F_auto_deploy_enabled bool | F_paused bool
| F_last_image_tag string | F_triggers_redeploy_of string | F_last_tracked_commit_sha string
| F_last_tracked_image_digests string | F_access_mode string | F_fixed_host_port "int option"
| F_fixed_node_id "uuid option" | F_tcp_domain_prefix "string option" | F_tcp_host_port "int option"
| F_created_at time | F_updated_at time | F_enabled_providers string | F_sms_login_enabled bool

type_synonym json_body = "go_error + project_field list"

definition source_of_name :: "string \<Rightarrow> git_source" where
  "source_of_name s = (if s = ''external'' then GS_External else if s = ''hosted'' then GS_Hosted else GS_Other s)"

fun set_field :: "project_field \<Rightarrow> project \<Rightarrow> project" where
  "set_field (F_id v) p = p\<lparr>p_id := v\<rparr>"
| "set_field (F_name v) p = p\<lparr>p_name := v\<rparr>"
| "set_field (F_project_type v) p = p\<lparr>p_type := type_of_name v\<rparr>"
| "set_field (F_git_url v) p = p\<lparr>p_git_url := v\<rparr>"
| "set_field (F_git_branch v) p = p\<lparr>p_git_branch := v\<rparr>"
| "set_field (F_git_source v) p = p\<lparr>p_git_source := source_of_name v\<rparr>"
| "set_field (F_domain_prefix v) p = p\<lparr>p_domain_prefix := v\<rparr>"
| "set_field (F_dockerfile_path v) p = p\<lparr>p_dockerfile_path := v\<rparr>"
| "set_field (F_owner_id v) p = p\<lparr>p_owner := v\<rparr>"
| "set_field (F_auth_required v) p = p\<lparr>p_auth_required := v\<rparr>"
| "set_field (F_auth_allowed_domains v) p = p\<lparr>p_auth_allowed_domains := v\<rparr>"
| "set_field (F_auth_bypass_paths v) p = p\<lparr>p_auth_bypass_paths := v\<rparr>"
| "set_field (F_container_port v) p = p\<lparr>p_container_port := v\<rparr>"
| "set_field (F_memory_limit v) p = p\<lparr>p_memory_limit := v\<rparr>"
| "set_field (F_volume_mount_path v) p = p\<lparr>p_volume_mount_path := v\<rparr>"
| "set_field (F_icon v) p = p\<lparr>p_icon := v\<rparr>"
| "set_field (F_compose_file_path v) p = p\<lparr>p_compose_file_path := v\<rparr>"
| "set_field (F_expose_service v) p = p\<lparr>p_expose_service := v\<rparr>"
| "set_field (F_expose_port v) p = p\<lparr>p_expose_port := v\<rparr>"
| "set_field (F_pinned_node_id v) p = p\<lparr>p_pinned_node := v\<rparr>"
| "set_field (F_image_ref v) p = p\<lparr>p_image_ref := v\<rparr>"
| "set_field (F_auto_deploy_enabled v) p = p\<lparr>p_auto_deploy := v\<rparr>"
| "set_field (F_paused v) p = p\<lparr>p_paused := v\<rparr>"
| "set_field (F_last_image_tag v) p = p\<lparr>p_last_image_tag := v\<rparr>"
| "set_field (F_triggers_redeploy_of v) p = p\<lparr>p_triggers := v\<rparr>"
| "set_field (F_last_tracked_commit_sha v) p = p\<lparr>p_last_commit := v\<rparr>"
| "set_field (F_last_tracked_image_digests v) p = p\<lparr>p_last_digests := v\<rparr>"
| "set_field (F_access_mode v) p = p\<lparr>p_access_mode := v\<rparr>"
| "set_field (F_fixed_host_port v) p = p\<lparr>p_fixed_port := v\<rparr>"
| "set_field (F_fixed_node_id v) p = p\<lparr>p_fixed_node := v\<rparr>"
| "set_field (F_tcp_domain_prefix v) p = p\<lparr>p_tcp_prefix := v\<rparr>"
| "set_field (F_tcp_host_port v) p = p\<lparr>p_tcp_port := v\<rparr>"
| "set_field (F_created_at v) p = p\<lparr>p_created := v\<rparr>"
| "set_field (F_updated_at v) p = p\<lparr>p_updated := v\<rparr>"
| "set_field (F_enabled_providers v) p = p\<lparr>p_enabled_providers := v\<rparr>"
| "set_field (F_sms_login_enabled v) p = p\<lparr>p_sms_login := v\<rparr>"

text \<open>\<open>var p store.Project\<close>; the git credential columns are no fields of the struct.\<close>

definition zero_project :: project where
  "zero_project = \<lparr>p_id = uuid_Nil, p_name = '''', p_type = PT_Other '''', p_git_url = '''', p_git_branch = '''',
     p_git_source = GS_Other '''', p_domain_prefix = '''', p_dockerfile_path = '''', p_owner = uuid_Nil,
     p_auth_required = False, p_auth_allowed_domains = '''', p_auth_bypass_paths = '''', p_container_port = 0,
     p_memory_limit = '''', p_volume_mount_path = '''', p_compose_file_path = '''', p_expose_service = '''',
     p_expose_port = 0, p_pinned_node = None, p_image_ref = '''', p_auto_deploy = False, p_paused = False,
     p_last_image_tag = '''', p_triggers = '''', p_last_commit = '''', p_last_digests = '''', p_access_mode = '''',
     p_fixed_port = None, p_fixed_node = None, p_tcp_prefix = None, p_tcp_port = None, p_icon = '''',
     p_enabled_providers = '''', p_sms_login = False, p_git_auth = GA_None, p_git_auth_user = '''',
     p_git_auth_enc = '''', p_created = 0, p_updated = 0\<rparr>"

definition decode_project :: "json_body \<Rightarrow> project \<Rightarrow> go_error + project" where
  "decode_project body p = (case body of Inl e \<Rightarrow> Inl e | Inr fs \<Rightarrow> Inr (fold set_field fs p))"

text \<open>Values are copied here, so the pointers that the code has to detach are never shared.\<close>

definition mergeProjectUpdate :: "project \<Rightarrow> json_body \<Rightarrow> go_error + project" where
  "mergeProjectUpdate existing body = decode_project body existing"

section \<open>Errors\<close>

datatype api_error =
  AE_Store go_error | AE_None | AE_Body go_error | AE_Rule project_error | AE_TypeDisabled project_type
| AE_PrefixInUse string | AE_PrefixIsAlias string | AE_NameTaken string
| AE_FixedAdmin | AE_TCPAdmin | AE_NodeUnknown uuid | AE_PortPinned int string | AE_TCPTaken string
| AE_HostedDisabled | AE_RepoInit go_error | AE_TypeImmutable | AE_AutoDeployDomainOnly
| AE_OwnerRequired | AE_UserNotFound | AE_OwnerName string
| AE_OwnerOrAdmin | AE_AliasHost alias_error | AE_HostServed string string | AE_HostClaimed string | AE_AliasNotFound
and alias_error =
  HostRequired | HostTooLong | HostDot | HostOneLabel | HostLabel string | HostIsBase string | HostPrefix project_error

type_synonym 'a handler = "(db, (nat \<times> api_error) + 'a) state"

definition or_status :: "nat \<Rightarrow> 'a store \<Rightarrow> 'a handler" where
  "or_status code m = do { r \<leftarrow> m; State_Monad.return (case r of Inl e \<Rightarrow> Inl (code, AE_Store e) | Inr x \<Rightarrow> Inr x) }"

definition require :: "bool \<Rightarrow> nat \<Rightarrow> api_error \<Rightarrow> unit handler" where
  "require b code e = (if b then ok () else fail (code, e))"

definition lift_rule :: "project_error + 'a \<Rightarrow> 'a handler" where
  "lift_rule r = State_Monad.return (case r of Inl e \<Rightarrow> Inl (400, AE_Rule e) | Inr x \<Rightarrow> Inr x)"

section \<open>Store\<close>

definition user_by :: "db \<Rightarrow> uuid \<Rightarrow> user option" where
  "user_by s i = find (\<lambda>u. u_id u = i) (users s)"

definition GetProjectByDomainPrefix :: "string \<Rightarrow> project option store" where
  "GetProjectByDomainPrefix pfx = query (\<lambda>s. find (\<lambda>p. p_domain_prefix p = pfx) (projects s))"

definition GetProjectByAliasHost :: "string \<Rightarrow> project option store" where
  "GetProjectByAliasHost host = query (\<lambda>s. case find (\<lambda>a. pa_host a = host) (aliases s) of
       None \<Rightarrow> None | Some a \<Rightarrow> project_by s (pa_project a))"

definition GetSetting :: "string \<Rightarrow> string store" where
  "GetSetting key = query (\<lambda>s. case map_of (settings s) key of None \<Rightarrow> '''' | Some v \<Rightarrow> v)"

definition CanAccessProject :: "uuid \<Rightarrow> uuid \<Rightarrow> bool \<Rightarrow> bool store" where
  "CanAccessProject userID projectID isAdmin =
     (if isAdmin then ok True
      else query (\<lambda>s. 0 < length (filter (\<lambda>m. m = (projectID, userID)) (project_members s))))"

text \<open>
  The constraints a row of \<open>projects\<close> has to meet beside the other rows \<open>rs\<close>: the unique keys, the
  \<open>CHECK\<close>s, the foreign keys, and the widths of the columns.
\<close>

definition int4 :: "int \<Rightarrow> bool" where
  "int4 n \<longleftrightarrow> - (2 ^ 31) \<le> n \<and> n < 2 ^ 31"

definition unique_key :: "('r \<Rightarrow> 'k option) \<Rightarrow> 'r \<Rightarrow> 'r list \<Rightarrow> bool" where
  "unique_key k r rs \<longleftrightarrow> (case k r of None \<Rightarrow> True | Some v \<Rightarrow> list_all (\<lambda>q. k q \<noteq> Some v) rs)"

definition fixed_key :: "project \<Rightarrow> (uuid \<times> int) option" where
  "fixed_key p = (case (p_fixed_node p, p_fixed_port p) of (Some n, Some port) \<Rightarrow> Some (n, port) | _ \<Rightarrow> None)"

definition tcp_key :: "project \<Rightarrow> string option" where
  "tcp_key p = (case p_tcp_prefix p of Some t \<Rightarrow> if t = '''' then None else Some t | None \<Rightarrow> None)"

definition in_range :: "int \<Rightarrow> int \<Rightarrow> int option \<Rightarrow> bool" where
  "in_range lo hi v = (case v of None \<Rightarrow> True | Some n \<Rightarrow> lo \<le> n \<and> n \<le> hi)"

definition node_exists :: "db \<Rightarrow> uuid option \<Rightarrow> bool" where
  "node_exists s i = (case i of None \<Rightarrow> True | Some n \<Rightarrow> node_by s n \<noteq> None)"

definition project_violation :: "db \<Rightarrow> project list \<Rightarrow> project \<Rightarrow> go_error option" where
  "project_violation s rs p =
     (if \<not> int4 (p_container_port p) \<or> \<not> int4 (p_expose_port p) then Some ''is greater than maximum value for int4''
      else if \<not> length (p_volume_mount_path p) \<le> 512 then Some ''value too long for type character varying(512)''
      else if \<not> IsKnownProjectType (p_type p) then Some ''violates check constraint projects_project_type_check''
      else if p_git_source p \<notin> {GS_External, GS_Hosted, GS_Other ''''} then Some ''violates check constraint projects_git_source_check''
      else if p_access_mode p \<notin> {''public'', ''private''} then Some ''violates check constraint projects_access_mode_check''
      else if \<not> in_range 1024 65535 (p_fixed_port p) then Some ''violates check constraint projects_fixed_port_range_chk''
      else if \<not> in_range 1 65535 (p_tcp_port p) then Some ''violates check constraint projects_tcp_host_port_range_chk''
      else if \<not> unique_key (\<lambda>q. Some (p_id q)) p rs then Some ''duplicate key value projects_pkey (SQLSTATE 23505)''
      else if \<not> unique_key (\<lambda>q. Some (p_domain_prefix q)) p rs then Some ''duplicate key value projects_domain_prefix_key (SQLSTATE 23505)''
      else if \<not> unique_key (\<lambda>q. Some (p_owner q, p_name q)) p rs then Some ''duplicate key value projects_owner_name_key (SQLSTATE 23505)''
      else if \<not> unique_key fixed_key p rs then Some ''duplicate key value projects_fixed_node_port_uq (SQLSTATE 23505)''
      else if \<not> unique_key tcp_key p rs then Some ''duplicate key value projects_tcp_domain_prefix_uq (SQLSTATE 23505)''
      else if user_by s (p_owner p) = None then Some ''violates foreign key constraint projects_owner_id_fkey''
      else if \<not> node_exists s (p_fixed_node p) then Some ''violates foreign key constraint projects_fixed_node_id_fkey''
      else if \<not> node_exists s (p_pinned_node p) then Some ''violates foreign key constraint projects_pinned_node_id_fkey''
      else None)"

text \<open>\<open>INSERT INTO project_members .. ON CONFLICT DO NOTHING\<close>.\<close>

definition insert_member :: "uuid \<Rightarrow> uuid \<Rightarrow> unit store" where
  "insert_member pid uid = sql (\<lambda>s.
     if project_by s pid = None \<or> user_by s uid = None then Inl ''violates foreign key constraint project_members''
     else Inr ((), s\<lparr>project_members := (if (pid, uid) \<in> set (project_members s) then project_members s
                                        else project_members s @ [(pid, uid)])\<rparr>))"

definition runtime_defaults :: "project \<Rightarrow> project" where
  "runtime_defaults p =
     (let p = (if p_container_port p = 0 then p\<lparr>p_container_port := 8080\<rparr> else p)
      in if p_memory_limit p = '''' then p\<lparr>p_memory_limit := ''4g''\<rparr> else p)"

definition deployment_defaults :: "project \<Rightarrow> project" where
  "deployment_defaults p =
     (if p_type p = PT_Deployment then
        (let p = runtime_defaults p
         in if p_git_source p = GS_Other '''' then p\<lparr>p_git_source := GS_External\<rparr> else p)
      else p)"

definition image_defaults :: "project \<Rightarrow> project" where
  "image_defaults p = (if p_type p = PT_Image then runtime_defaults p else p)"

definition digests_default :: "project \<Rightarrow> project" where
  "digests_default p = (if p_last_digests p = '''' then p\<lparr>p_last_digests := ''{}''\<rparr> else p)"

definition triggers_default :: "project \<Rightarrow> project" where
  "triggers_default p = (if p_triggers p = '''' then p\<lparr>p_triggers := ''[]''\<rparr> else p)"

definition create_defaults :: "project \<Rightarrow> project" where
  "create_defaults p =
     triggers_default (default_access (digests_default (image_defaults (deployment_defaults (default_type p)))))"

text \<open>The columns the \<open>INSERT\<close> does not name take their defaults.\<close>

definition inserted_row :: "project \<Rightarrow> project" where
  "inserted_row p = p\<lparr>p_paused := False, p_sms_login := False, p_git_auth := GA_None, p_git_auth_user := '''', p_git_auth_enc := ''''\<rparr>"

definition insert_project :: "project \<Rightarrow> project store" where
  "insert_project p =
     attempt (sql (\<lambda>s. case project_violation s (projects s) (inserted_row p) of
         Some e \<Rightarrow> Inl e
       | None \<Rightarrow> Inr ((), s\<lparr>projects := projects s @ [inserted_row p]\<rparr>)))
       (\<lambda>_. attempt (insert_member (p_id p) (p_owner p)) (\<lambda>_. ok p))"

definition CreateProject :: "project \<Rightarrow> project store" where
  "CreateProject p = do {
     i \<leftarrow> uuid_New;
     created \<leftarrow> time_Now;
     updated \<leftarrow> time_Now;
     insert_project (create_defaults (p\<lparr>p_id := i, p_created := created, p_updated := updated\<rparr>)) }"

text \<open>\<open>UpdateProject\<close> sets the listed columns of the row; it changes its argument too.\<close>

definition port_default :: "project \<Rightarrow> project" where
  "port_default p =
     (if p_type p = PT_Deployment \<and> p_container_port p = 0 then p\<lparr>p_container_port := 8080\<rparr> else p)"

definition update_defaults :: "time \<Rightarrow> project \<Rightarrow> project" where
  "update_defaults now p = triggers_default (default_access (port_default (p\<lparr>p_updated := now\<rparr>)))"

definition updated_row :: "project \<Rightarrow> project \<Rightarrow> project" where
  "updated_row p row = row\<lparr>p_name := p_name p, p_git_url := p_git_url p, p_git_branch := p_git_branch p,
     p_git_source := p_git_source p, p_domain_prefix := p_domain_prefix p, p_dockerfile_path := p_dockerfile_path p,
     p_auth_required := p_auth_required p, p_auth_allowed_domains := p_auth_allowed_domains p,
     p_auth_bypass_paths := p_auth_bypass_paths p, p_container_port := p_container_port p,
     p_memory_limit := p_memory_limit p, p_volume_mount_path := p_volume_mount_path p, p_icon := p_icon p,
     p_compose_file_path := p_compose_file_path p, p_expose_service := p_expose_service p,
     p_expose_port := p_expose_port p, p_image_ref := p_image_ref p, p_auto_deploy := p_auto_deploy p,
     p_access_mode := p_access_mode p, p_fixed_port := p_fixed_port p, p_fixed_node := p_fixed_node p,
     p_updated := p_updated p, p_enabled_providers := p_enabled_providers p, p_triggers := p_triggers p,
     p_sms_login := p_sms_login p, p_tcp_prefix := p_tcp_prefix p, p_tcp_port := p_tcp_port p\<rparr>"

definition others :: "uuid \<Rightarrow> db \<Rightarrow> project list" where
  "others i s = filter (\<lambda>q. p_id q \<noteq> i) (projects s)"

definition write_project :: "project \<Rightarrow> project store" where
  "write_project p = sql (\<lambda>s. case project_by s (p_id p) of
       None \<Rightarrow> Inr (p, s)
     | Some row \<Rightarrow> (case project_violation s (others (p_id p) s) (updated_row p row) of
           Some e \<Rightarrow> Inl e
         | None \<Rightarrow> Inr (p, s\<lparr>projects := upd_where (\<lambda>q. p_id q = p_id p) (updated_row p) (projects s)\<rparr>)))"

definition UpdateProject :: "project \<Rightarrow> project store" where
  "UpdateProject p = do { now \<leftarrow> time_Now; write_project (update_defaults now p) }"

definition set_owner :: "uuid \<Rightarrow> time \<Rightarrow> uuid \<Rightarrow> unit store" where
  "set_owner pid now uid = sql (\<lambda>s. case project_by s pid of
       None \<Rightarrow> Inr ((), s)
     | Some row \<Rightarrow> (case project_violation s (others pid s) (row\<lparr>p_owner := uid, p_updated := now\<rparr>) of
           Some e \<Rightarrow> Inl e
         | None \<Rightarrow> Inr ((), s\<lparr>projects := upd_where (\<lambda>q. p_id q = pid) (\<lambda>q. q\<lparr>p_owner := uid, p_updated := now\<rparr>) (projects s)\<rparr>)))"

definition UpdateProjectOwner :: "uuid \<Rightarrow> uuid \<Rightarrow> unit store" where
  "UpdateProjectOwner pid uid = transaction (do {
     now \<leftarrow> time_Now;
     attempt (set_owner pid now uid) (\<lambda>_. insert_member pid uid) })"

text \<open>\<open>DELETE FROM projects\<close> with the \<open>ON DELETE CASCADE\<close>s of the tables that refer to it.\<close>

definition delete_project :: "uuid \<Rightarrow> db \<Rightarrow> db" where
  "delete_project i s =
     (let ds = map d_id (filter (\<lambda>d. d_project d = i) (deployments s));
          ls = map il_id (filter (\<lambda>l. il_project l = Some i) (invitation_links s)) in
      s\<lparr>projects := filter (\<lambda>p. p_id p \<noteq> i) (projects s),
        deployments := filter (\<lambda>d. d_project d \<noteq> i) (deployments s),
        tasks := filter (\<lambda>t. t_deployment t \<notin> set ds) (tasks s),
        project_datasets := filter (\<lambda>pd. pd_project pd \<noteq> i) (project_datasets s),
        env_vars := filter (\<lambda>v. ev_project v \<noteq> i) (env_vars s),
        project_members := filter (\<lambda>m. fst m \<noteq> i) (project_members s),
        access_users := filter (\<lambda>a. au_project a \<noteq> i) (access_users s),
        access_requests := filter (\<lambda>a. ar_project a \<noteq> i) (access_requests s),
        invitation_links := filter (\<lambda>l. il_project l \<noteq> Some i) (invitation_links s),
        link_uses := filter (\<lambda>u. lu_link u \<notin> set ls) (link_uses s),
        aliases := filter (\<lambda>a. pa_project a \<noteq> i) (aliases s),
        visits := filter (\<lambda>v. pv_project v \<noteq> i) (visits s)\<rparr>)"

definition DeleteProject :: "uuid \<Rightarrow> unit store" where
  "DeleteProject i = exec (delete_project i)"

section \<open>Checks of the handlers\<close>

text \<open>
  The fields of \<open>Server\<close> the handlers read, the identifiers of the sign-in providers registered at
  boot, and the outcome of \<open>gitrepo.InitBareRepo\<close> for a project, which runs git on the disk.
\<close>

record admission_cfg =
  ac_base :: string
  ac_env_providers :: "string list"
  ac_repo_path :: string
  ac_init_repo :: "uuid \<Rightarrow> go_error option"

definition social_providers :: "string list" where
  "social_providers = [''google'', ''discord'', ''apple'', ''facebook'', ''twitter'', ''entra'']"

definition enabled_in :: "(string \<times> string) list \<Rightarrow> string \<Rightarrow> bool" where
  "enabled_in st i \<longleftrightarrow> map_of st (i @ ''_enabled'') = Some ''true''"

definition mergeDownstreamProviders :: "string list \<Rightarrow> (string \<Rightarrow> bool) \<Rightarrow> string list" where
  "mergeDownstreamProviders env enabled = env @ filter (\<lambda>i. enabled i \<and> i \<notin> set env) social_providers"

definition knownProviderIDs :: "admission_cfg \<Rightarrow> (db, string list) state" where
  "knownProviderIDs cfg = do {
     r \<leftarrow> query settings;
     State_Monad.return (case r of
       Inl _ \<Rightarrow> ac_env_providers cfg
     | Inr st \<Rightarrow> mergeDownstreamProviders (ac_env_providers cfg) (enabled_in st)) }"

definition enabledProjectTypes :: "(db, project_type list) state" where
  "enabledProjectTypes = do {
     r \<leftarrow> GetSetting ''enabled_project_types'';
     State_Monad.return (case r of Inl _ \<Rightarrow> AllProjectTypes | Inr v \<Rightarrow> parseEnabledProjectTypes v) }"

definition checkProjectTypeEnabled :: "project_type \<Rightarrow> unit handler" where
  "checkProjectTypeEnabled t = do {
     allowed \<leftarrow> enabledProjectTypes;
     if t \<in> set allowed then ok () else fail (403, AE_TypeDisabled t) }"

definition checkFixedNodeAndPortFree :: "uuid \<Rightarrow> int \<Rightarrow> uuid \<Rightarrow> unit handler" where
  "checkFixedNodeAndPortFree nodeID port excludeID =
     attempt (or_status 500 (GetNode nodeID)) (\<lambda>node. case node of
       None \<Rightarrow> fail (400, AE_NodeUnknown nodeID)
     | Some n \<Rightarrow> attempt (or_status 500 (IsFixedPortInUse nodeID port excludeID)) (\<lambda>inUse.
         require (\<not> inUse) 409 (AE_PortPinned port (n_hostname n))))"

definition checkTCPPrefixFree :: "project \<Rightarrow> uuid \<Rightarrow> unit handler" where
  "checkTCPPrefixFree p excludeID = (case p_tcp_prefix p of
       None \<Rightarrow> ok ()
     | Some t \<Rightarrow> if t = '''' then ok ()
         else attempt (or_status 500 (IsTCPDomainPrefixTaken t excludeID)) (\<lambda>taken.
           require (\<not> taken) 409 (AE_TCPTaken t)))"

text \<open>The checks of both handlers on a prefix; \<open>mine\<close> are the projects that may already hold it.\<close>

definition check_prefix :: "(project \<Rightarrow> bool) \<Rightarrow> string \<Rightarrow> unit handler" where
  "check_prefix mine pfx = attempt (or_status 500 (GetProjectByDomainPrefix pfx)) (\<lambda>r. case r of
       None \<Rightarrow> ok () | Some q \<Rightarrow> require (mine q) 409 (AE_PrefixInUse pfx))"

definition check_alias :: "admission_cfg \<Rightarrow> (project \<Rightarrow> bool) \<Rightarrow> string \<Rightarrow> unit handler" where
  "check_alias cfg mine pfx =
     (if ac_base cfg = '''' then ok ()
      else attempt (or_status 500 (GetProjectByAliasHost (pfx @ ''.'' @ ToLower (ac_base cfg)))) (\<lambda>r. case r of
         None \<Rightarrow> ok () | Some q \<Rightarrow> require (mine q) 409 (AE_PrefixIsAlias pfx)))"

definition check_name :: "(project \<Rightarrow> bool) \<Rightarrow> uuid \<Rightarrow> string \<Rightarrow> unit handler" where
  "check_name mine owner name = attempt (or_status 500 (GetProjectByOwnerAndName owner name)) (\<lambda>r. case r of
       None \<Rightarrow> ok () | Some q \<Rightarrow> require (mine q) 409 (AE_NameTaken name))"

definition check_providers :: "admission_cfg \<Rightarrow> project \<Rightarrow> project handler" where
  "check_providers cfg p = do {
     known \<leftarrow> knownProviderIDs cfg;
     lift_rule (case normaliseEnabledProviders (p_enabled_providers p) known of
       Inl e \<Rightarrow> Inl e | Inr v \<Rightarrow> Inr (p\<lparr>p_enabled_providers := v\<rparr>)) }"

definition is_admin :: "user \<Rightarrow> bool" where
  "is_admin u \<longleftrightarrow> u_role u = RoleAdmin"

section \<open>Handlers\<close>

definition uses_git :: "project \<Rightarrow> bool" where
  "uses_git p \<longleftrightarrow> p_type p \<in> {PT_Deployment, PT_Compose, PT_Build} \<and> p_git_source p = GS_Hosted"

definition check_fixed_new :: "user \<Rightarrow> project \<Rightarrow> unit handler" where
  "check_fixed_new user p = (case (p_fixed_port p, p_fixed_node p) of
       (Some port, Some n) \<Rightarrow>
         attempt (require (is_admin user) 403 AE_FixedAdmin) (\<lambda>_. checkFixedNodeAndPortFree n port uuid_Nil)
     | _ \<Rightarrow> ok ())"

definition check_tcp_new :: "user \<Rightarrow> project \<Rightarrow> unit handler" where
  "check_tcp_new user p = (case p_tcp_prefix p of
       None \<Rightarrow> ok ()
     | Some _ \<Rightarrow> attempt (require (is_admin user) 403 AE_TCPAdmin) (\<lambda>_. checkTCPPrefixFree p uuid_Nil))"

text \<open>The checks of \<open>createProject\<close>, and the project it then inserts.\<close>

definition admit_new :: "admission_cfg \<Rightarrow> user \<Rightarrow> json_body \<Rightarrow> project handler" where
  "admit_new cfg user body =
     attempt (State_Monad.return (case decode_project body zero_project of
         Inl e \<Rightarrow> Inl (400, AE_Body e) | Inr p \<Rightarrow> Inr p)) (\<lambda>p.
     attempt (lift_rule (validateProject p)) (\<lambda>p.
     attempt (checkProjectTypeEnabled (p_type p)) (\<lambda>_.
     attempt (check_providers cfg p) (\<lambda>p.
     attempt (check_prefix (\<lambda>_. False) (p_domain_prefix p)) (\<lambda>_.
     attempt (check_alias cfg (\<lambda>_. False) (p_domain_prefix p)) (\<lambda>_.
     attempt (check_name (\<lambda>_. False) (u_id user) (p_name p)) (\<lambda>_.
     attempt (check_fixed_new user p) (\<lambda>_.
     attempt (check_tcp_new user p) (\<lambda>_.
     attempt (require (uses_git p \<longrightarrow> ac_repo_path cfg \<noteq> '''') 400 AE_HostedDisabled) (\<lambda>_.
     ok (p\<lparr>p_owner := u_id user\<rparr>)))))))))))"

text \<open>After the insert a hosted project gets its repository, or is deleted again.\<close>

definition host_repository :: "admission_cfg \<Rightarrow> project \<Rightarrow> project handler" where
  "host_repository cfg p =
     (if uses_git p then
        (case ac_init_repo cfg (p_id p) of
           Some e \<Rightarrow> do { _ \<leftarrow> DeleteProject (p_id p); fail (500, AE_RepoInit e) }
         | None \<Rightarrow> do {
             now \<leftarrow> time_Now;
             let p = update_defaults now (p\<lparr>p_git_url := ''hosted://'' @ p_id p\<rparr>);
             _ \<leftarrow> UpdateProject p;
             ok p })
      else ok p)"

definition refresh_for :: "string list \<Rightarrow> (nat \<times> api_error) + project \<Rightarrow> (db, string list \<times> ((nat \<times> api_error) + project)) state" where
  "refresh_for cache r = (case r of
       Inr p \<Rightarrow> if p_type p = PT_DomainOnly
                then do { cache \<leftarrow> refreshDomainOnlyCache cache; State_Monad.return (cache, r) }
                else State_Monad.return (cache, r)
     | Inl _ \<Rightarrow> State_Monad.return (cache, r))"

definition create_project :: "admission_cfg \<Rightarrow> user \<Rightarrow> json_body \<Rightarrow> project handler" where
  "create_project cfg user body =
     attempt (admit_new cfg user body) (\<lambda>p.
     attempt (or_status 500 (CreateProject p)) (\<lambda>created. host_repository cfg created))"

text \<open>The handler, with the server's cache of reserved prefixes before and after.\<close>

definition createProject ::
  "admission_cfg \<Rightarrow> user \<Rightarrow> json_body \<Rightarrow> string list \<Rightarrow> (db, string list \<times> ((nat \<times> api_error) + project)) state" where
  "createProject cfg user body cache = do {
     r \<leftarrow> create_project cfg user body;
     refresh_for cache r }"

text \<open>\<open>allowed, _ := CanAccessProject(..)\<close>: an error counts as no.\<close>

definition allowed_to :: "user \<Rightarrow> uuid \<Rightarrow> nat \<Rightarrow> unit handler" where
  "allowed_to user i code = do {
     r \<leftarrow> CanAccessProject (u_id user) i (is_admin user);
     if r = Inr True then ok () else fail (code, AE_None) }"

definition existing_project :: "uuid \<Rightarrow> project handler" where
  "existing_project i = do {
     r \<leftarrow> GetProject i;
     State_Monad.return (case r of
       Inl e \<Rightarrow> Inl (404, AE_Store e) | Inr None \<Rightarrow> Inl (404, AE_None) | Inr (Some p) \<Rightarrow> Inr p) }"

definition check_fixed_update :: "user \<Rightarrow> project \<Rightarrow> project \<Rightarrow> unit handler" where
  "check_fixed_update user existing p =
     (if fixedPortChanged existing p then
        attempt (require (is_admin user) 403 AE_FixedAdmin) (\<lambda>_.
          case (p_fixed_port p, p_fixed_node p) of
            (Some port, Some n) \<Rightarrow> checkFixedNodeAndPortFree n port (p_id existing)
          | _ \<Rightarrow> ok ())
      else ok ())"

definition check_tcp_update :: "user \<Rightarrow> project \<Rightarrow> project \<Rightarrow> unit handler" where
  "check_tcp_update user existing p =
     (if tcpRouteChanged existing p then
        attempt (require (is_admin user) 403 AE_TCPAdmin) (\<lambda>_. checkTCPPrefixFree p (p_id existing))
      else ok ())"

definition frozen_fields :: "project \<Rightarrow> project \<Rightarrow> project" where
  "frozen_fields existing p = p\<lparr>p_type := p_type existing, p_last_commit := p_last_commit existing,
     p_last_digests := p_last_digests existing, p_last_image_tag := p_last_image_tag existing\<rparr>"

text \<open>The checks of \<open>updateProject\<close>, and the project it then stores; \<open>existing\<close> has the path's identity.\<close>

definition admit_update :: "admission_cfg \<Rightarrow> user \<Rightarrow> project \<Rightarrow> json_body \<Rightarrow> project handler" where
  "admit_update cfg user existing body =
     attempt (State_Monad.return (case mergeProjectUpdate existing body of
         Inl e \<Rightarrow> Inl (400, AE_Body e) | Inr p \<Rightarrow> Inr p)) (\<lambda>p.
     attempt (require (p_type p = PT_Other '''' \<or> p_type p = p_type existing) 400 AE_TypeImmutable) (\<lambda>_.
     attempt (require (\<not> (p_auto_deploy p \<and> p_type existing = PT_DomainOnly)) 400 AE_AutoDeployDomainOnly) (\<lambda>_.
     attempt (lift_rule (validateProject (frozen_fields existing p))) (\<lambda>p.
     attempt (check_providers cfg p) (\<lambda>p.
     attempt (check_prefix (\<lambda>q. p_id q = p_id existing) (p_domain_prefix p)) (\<lambda>_.
     attempt (check_alias cfg (\<lambda>q. p_id q = p_id existing) (p_domain_prefix p)) (\<lambda>_.
     attempt (if p_name p \<noteq> p_name existing
              then check_name (\<lambda>q. p_id q = p_id existing) (p_owner existing) (p_name p) else ok ()) (\<lambda>_.
     attempt (check_fixed_update user existing p) (\<lambda>_.
     attempt (check_tcp_update user existing p) (\<lambda>_.
     ok (p\<lparr>p_id := p_id existing, p_owner := p_owner existing\<rparr>)))))))))))"

definition update_project :: "admission_cfg \<Rightarrow> user \<Rightarrow> uuid \<Rightarrow> json_body \<Rightarrow> project handler" where
  "update_project cfg user i body =
     attempt (allowed_to user i 403) (\<lambda>_.
     attempt (existing_project i) (\<lambda>existing.
     attempt (admit_update cfg user existing body) (\<lambda>p. or_status 500 (UpdateProject p))))"

definition updateProject ::
  "admission_cfg \<Rightarrow> user \<Rightarrow> uuid \<Rightarrow> json_body \<Rightarrow> string list \<Rightarrow> (db, string list \<times> ((nat \<times> api_error) + project)) state" where
  "updateProject cfg user i body cache = do {
     r \<leftarrow> update_project cfg user i body;
     refresh_for cache r }"

text \<open>\<open>changeProjectOwner\<close>, for administrators only by its route.\<close>

definition GetUserByID :: "uuid \<Rightarrow> user option store" where
  "GetUserByID i = query (\<lambda>s. user_by s i)"

definition changeProjectOwner :: "uuid \<Rightarrow> uuid \<Rightarrow> project handler" where
  "changeProjectOwner i ownerID =
     attempt (require (ownerID \<noteq> uuid_Nil) 400 AE_OwnerRequired) (\<lambda>_.
     attempt (existing_project i) (\<lambda>existing.
     if p_owner existing = ownerID then ok existing
     else
      attempt (or_status 500 (GetUserByID ownerID)) (\<lambda>newOwner.
      attempt (require (newOwner \<noteq> None) 404 AE_UserNotFound) (\<lambda>_.
      attempt (or_status 500 (GetProjectByOwnerAndName ownerID (p_name existing))) (\<lambda>byName.
      attempt (case byName of None \<Rightarrow> ok ()
               | Some q \<Rightarrow> require (p_id q = i) 409 (AE_OwnerName (p_name existing))) (\<lambda>_.
      attempt (or_status 500 (UpdateProjectOwner i ownerID)) (\<lambda>_.
      do { r \<leftarrow> GetProject i;
           State_Monad.return (case r of
             Inl e \<Rightarrow> Inl (500, AE_Store e) | Inr None \<Rightarrow> Inl (500, AE_None) | Inr (Some p) \<Rightarrow> Inr p) })))))))"

section \<open>Custom domains\<close>

text \<open>The regular expression \<open>^[a-z0-9]([a-z0-9-]{0,61}[a-z0-9])?$\<close>.\<close>

definition hostLabel :: "string \<Rightarrow> bool" where
  "hostLabel l \<longleftrightarrow> validDomainPrefix l \<and> length l \<le> 63"

definition normalizeAliasHost :: "string \<Rightarrow> string" where
  "normalizeAliasHost host = ToLower (TrimSpace host)"

definition baseSubPrefix :: "string \<Rightarrow> string \<Rightarrow> string option" where
  "baseSubPrefix rawHost baseDomain =
     (let host = ToLower (TrimSpace rawHost); base = ToLower (TrimSpace baseDomain) in
      if base = '''' \<or> \<not> HasSuffix host (''.'' @ base) then None
      else (let sub = TrimSuffix host (''.'' @ base) in
            if sub = '''' \<or> CHR ''.'' \<in> set sub then None else Some sub))"

definition validateAliasHost :: "string \<Rightarrow> string \<Rightarrow> alias_error + unit" where
  "validateAliasHost rawHost baseDomain =
     (let host = ToLower (TrimSpace rawHost) in
      if host = '''' then Inl HostRequired
      else if length host > 253 then Inl HostTooLong
      else if HasPrefix host ''.'' \<or> HasSuffix host ''.'' then Inl HostDot
      else
       (let labels = Split (CHR ''.'') host in
        if length labels < 2 then Inl HostOneLabel
        else case find (\<lambda>l. \<not> hostLabel l) labels of
          Some l \<Rightarrow> Inl (HostLabel l)
        | None \<Rightarrow>
           (let base = ToLower (TrimSpace baseDomain) in
            if base = '''' then Inr ()
            else if host = base then Inl (HostIsBase host)
            else (case baseSubPrefix host base of
                None \<Rightarrow> Inr ()
              | Some label \<Rightarrow> (case validateDomainPrefix label of
                    Inl e \<Rightarrow> Inl (HostPrefix e) | Inr _ \<Rightarrow> Inr ())))))"

definition ListProjectAliasesByProject :: "uuid \<Rightarrow> project_alias list store" where
  "ListProjectAliasesByProject pid =
     query (\<lambda>s. sort_key (\<lambda>a. - pa_created a) (filter (\<lambda>a. pa_project a = pid) (aliases s)))"

definition GetProjectAlias :: "uuid \<Rightarrow> project_alias option store" where
  "GetProjectAlias i = query (\<lambda>s. find (\<lambda>a. pa_id a = i) (aliases s))"

definition alias_claimed :: go_error where
  "alias_claimed = ''duplicate key value project_aliases_host_key (SQLSTATE 23505)''"

definition AddProjectAlias :: "uuid \<Rightarrow> string \<Rightarrow> project_alias store" where
  "AddProjectAlias pid host = do {
     i \<leftarrow> uuid_New;
     sql (\<lambda>s. let a = \<lparr>pa_id = i, pa_project = pid, pa_host = host, pa_created = db_now s\<rparr> in
       if ToLower host \<noteq> host then Inl ''violates check constraint project_aliases_host_check''
       else if \<not> unique_key (\<lambda>b. Some (pa_id b)) a (aliases s) then Inl ''duplicate key value project_aliases_pkey (SQLSTATE 23505)''
       else if \<not> unique_key (\<lambda>b. Some (pa_host b)) a (aliases s) then Inl alias_claimed
       else if project_by s pid = None then Inl ''violates foreign key constraint project_aliases_project_id_fkey''
       else Inr (a, s\<lparr>aliases := aliases s @ [a]\<rparr>)) }"

definition RemoveProjectAlias :: "uuid \<Rightarrow> unit store" where
  "RemoveProjectAlias i = exec (\<lambda>s. s\<lparr>aliases := filter (\<lambda>a. pa_id a \<noteq> i) (aliases s)\<rparr>)"

definition owner_or_admin :: "user \<Rightarrow> project \<Rightarrow> unit handler" where
  "owner_or_admin caller proj = require (is_admin caller \<or> p_owner proj = u_id caller) 403 AE_OwnerOrAdmin"

definition listProjectAliases :: "user \<Rightarrow> uuid \<Rightarrow> project_alias list handler" where
  "listProjectAliases caller projectID =
     attempt (existing_project projectID) (\<lambda>proj.
     attempt (owner_or_admin caller proj) (\<lambda>_.
     or_status 500 (ListProjectAliasesByProject projectID)))"

text \<open>\<open>pgErr.Code == "23505"\<close>, a violated unique key, whose message ends in the code.\<close>

definition insert_alias :: "uuid \<Rightarrow> string \<Rightarrow> project_alias handler" where
  "insert_alias projectID host = do {
     r \<leftarrow> AddProjectAlias projectID host;
     State_Monad.return (case r of
       Inl e \<Rightarrow> if HasSuffix e ''(SQLSTATE 23505)'' then Inl (409, AE_HostClaimed host) else Inl (500, AE_Store e)
     | Inr a \<Rightarrow> Inr a) }"

definition createProjectAlias :: "admission_cfg \<Rightarrow> user \<Rightarrow> uuid \<Rightarrow> go_error + string \<Rightarrow> project_alias handler" where
  "createProjectAlias cfg caller projectID body =
     attempt (existing_project projectID) (\<lambda>proj.
     attempt (owner_or_admin caller proj) (\<lambda>_.
     attempt (State_Monad.return (case body of Inl e \<Rightarrow> Inl (400, AE_Body e) | Inr h \<Rightarrow> Inr h)) (\<lambda>rawHost.
     attempt (State_Monad.return (case validateAliasHost rawHost (ac_base cfg) of
         Inl e \<Rightarrow> Inl (400, AE_AliasHost e) | Inr _ \<Rightarrow> Inr ())) (\<lambda>_.
     let host = normalizeAliasHost rawHost in
     attempt (case baseSubPrefix host (ac_base cfg) of
         None \<Rightarrow> ok ()
       | Some label \<Rightarrow> attempt (or_status 500 (GetProjectByDomainPrefix label)) (\<lambda>owner. case owner of
             None \<Rightarrow> ok () | Some q \<Rightarrow> fail (409, AE_HostServed host (p_domain_prefix q)))) (\<lambda>_.
     insert_alias projectID host)))))"

definition deleteProjectAlias :: "user \<Rightarrow> uuid \<Rightarrow> uuid \<Rightarrow> unit handler" where
  "deleteProjectAlias caller projectID aliasID =
     attempt (existing_project projectID) (\<lambda>proj.
     attempt (owner_or_admin caller proj) (\<lambda>_.
     attempt (or_status 500 (GetProjectAlias aliasID)) (\<lambda>alias.
     attempt (case alias of None \<Rightarrow> fail (404, AE_AliasNotFound)
              | Some a \<Rightarrow> require (pa_project a = projectID) 404 AE_AliasNotFound) (\<lambda>_.
     or_status 500 (RemoveProjectAlias aliasID)))))"

end
