(* ===== verification/Project_Rules_Facts.thy ===== *)
theory Project_Rules_Facts
  imports Project_Rules
begin

text \<open>
  What the validation of a project guarantees: an accepted project is well formed, validating it
  again changes nothing, and the normalised lists of providers and project types mean what was
  asked for.
\<close>

section \<open>Accepted projects\<close>

text \<open>The prefix, the fixed port and the TCP route of an accepted project.\<close>

definition prefix_ok :: "string \<Rightarrow> bool" where
  "prefix_ok s \<longleftrightarrow> validDomainPrefix s \<and> s \<notin> set reservedDomainPrefixes"

definition fixed_ok :: "project \<Rightarrow> bool" where
  "fixed_ok p \<longleftrightarrow> (case (p_fixed_port p, p_fixed_node p) of
       (None, None) \<Rightarrow> True
     | (Some port, Some n) \<Rightarrow> 1024 \<le> port \<and> port \<le> 65535 \<and> n \<noteq> uuid_Nil \<and> p_type p \<notin> {PT_DomainOnly, PT_Build}
     | _ \<Rightarrow> False)"

definition tcp_ok :: "project \<Rightarrow> bool" where
  "tcp_ok p \<longleftrightarrow> (case (p_tcp_prefix p, p_tcp_port p) of
       (None, None) \<Rightarrow> True
     | (Some pfx, Some port) \<Rightarrow> prefix_ok pfx \<and> 1 \<le> port \<and> port \<le> 65535
     | _ \<Rightarrow> False)"

definition source_ok :: "project \<Rightarrow> bool" where
  "source_ok p \<longleftrightarrow> p_git_source p = GS_External \<or> p_git_source p = GS_Hosted"

definition no_git :: "project \<Rightarrow> bool" where
  "no_git p \<longleftrightarrow> p_git_url p = '''' \<and> p_git_branch p = '''' \<and> p_git_source p = GS_Other '''' \<and> p_dockerfile_path p = ''''"

definition port_ok :: "int \<Rightarrow> bool" where
  "port_ok n \<longleftrightarrow> 1 \<le> n \<and> n \<le> 65535"

definition url_ok :: "project \<Rightarrow> bool" where
  "url_ok p \<longleftrightarrow> (if p_git_source p = GS_Hosted then p_git_url p = '''' else p_git_url p \<noteq> '''')"

definition type_ok :: "project \<Rightarrow> bool" where
  "type_ok p \<longleftrightarrow> (case p_type p of
       PT_Deployment \<Rightarrow> source_ok p \<and> TrimSpace (p_git_branch p) \<noteq> '''' \<and> TrimSpace (p_dockerfile_path p) \<noteq> ''''
     | PT_DomainOnly \<Rightarrow> no_git p \<and> p_container_port p = 0 \<and> p_memory_limit p = '''' \<and> p_volume_mount_path p = ''''
         \<and> \<not> HasPrefix (p_domain_prefix p) ''t-''
     | PT_Compose \<Rightarrow> source_ok p \<and> url_ok p \<and> TrimSpace (p_git_branch p) \<noteq> '''' \<and> p_dockerfile_path p = ''''
         \<and> p_memory_limit p = '''' \<and> p_volume_mount_path p = '''' \<and> TrimSpace (p_compose_file_path p) \<noteq> ''''
         \<and> TrimSpace (p_expose_service p) \<noteq> '''' \<and> port_ok (p_expose_port p) \<and> p_container_port p = p_expose_port p
     | PT_Image \<Rightarrow> no_git p \<and> TrimSpace (p_image_ref p) \<noteq> '''' \<and> port_ok (p_container_port p)
         \<and> p_compose_file_path p = '''' \<and> p_expose_service p = '''' \<and> p_expose_port p = 0
     | PT_Build \<Rightarrow> source_ok p \<and> url_ok p \<and> TrimSpace (p_git_branch p) \<noteq> '''' \<and> TrimSpace (p_dockerfile_path p) \<noteq> ''''
         \<and> p_container_port p = 0 \<and> p_expose_port p = 0 \<and> p_expose_service p = '''' \<and> \<not> p_auth_required p
         \<and> p_auth_allowed_domains p = '''' \<and> p_auth_bypass_paths p = '''' \<and> p_image_ref p = ''''
         \<and> p_compose_file_path p = '''' \<and> p_memory_limit p = '''' \<and> p_volume_mount_path p = '''' \<and> p_access_mode p = ''public''
     | PT_Other _ \<Rightarrow> False)"

definition project_ok :: "project \<Rightarrow> bool" where
  "project_ok p \<longleftrightarrow> TrimSpace (p_name p) \<noteq> '''' \<and> \<not> icon_search (ToLower (p_icon p))
     \<and> (p_access_mode p = ''public'' \<or> p_access_mode p = ''private'') \<and> prefix_ok (p_domain_prefix p)
     \<and> fixed_ok p \<and> tcp_ok p \<and> type_ok p"

lemma validateDomainPrefix_iff: "validateDomainPrefix s = Inr u \<longleftrightarrow> prefix_ok s"
  by (auto simp: validateDomainPrefix_def prefix_ok_def validDomainPrefix_def)

lemma validateDomainPrefix_Inl: "validateDomainPrefix s = Inl e \<Longrightarrow> \<not> prefix_ok s"
  using validateDomainPrefix_iff [of s "()"] by auto

lemma validateFixedPort_ok:
  "validateFixedPort p = Inr u \<Longrightarrow> p_type p \<noteq> PT_Build \<or> p_fixed_port p = None \<and> p_fixed_node p = None \<Longrightarrow> fixed_ok p"
  by (auto simp: validateFixedPort_def fixed_ok_def Let_def split: option.splits if_splits)

lemma validateTCPRoute_ok:
  assumes "validateTCPRoute p = Inr q"
  shows "tcp_ok q" "\<exists>a b. q = p\<lparr>p_tcp_prefix := a, p_tcp_port := b\<rparr>"
    "p_domain_prefix p \<noteq> '''' \<Longrightarrow> p_tcp_prefix q \<noteq> Some (p_domain_prefix p)"
  using assms
  by (auto simp: validateTCPRoute_def tcp_ok_def Let_def validateDomainPrefix_iff split: option.splits if_splits sum.splits)

lemma resolve_prefix_iff:
  "resolve_prefix p = Inr q \<longleftrightarrow>
     (if p_domain_prefix p = [] then prefix_ok (p_name p) \<and> q = p\<lparr>p_domain_prefix := p_name p\<rparr>
      else prefix_ok (p_domain_prefix p) \<and> q = p)"
  by (auto simp: resolve_prefix_def validateDomainPrefix_iff split: sum.splits dest: validateDomainPrefix_Inl)

lemma default_source_iff:
  "default_source p = Inr q \<longleftrightarrow>
     (if p_git_source p = GS_Other [] then q = p\<lparr>p_git_source := GS_External\<rparr>
      else (p_git_source p = GS_External \<or> p_git_source p = GS_Hosted) \<and> q = p)"
  by (auto simp: default_source_def Let_def)

text \<open>The fields that the rules of a type leave alone.\<close>

definition kept :: "project \<Rightarrow> project \<Rightarrow> bool" where
  "kept p q \<longleftrightarrow> p_id q = p_id p \<and> p_name q = p_name p \<and> p_type q = p_type p \<and> p_owner q = p_owner p
     \<and> p_access_mode q = p_access_mode p \<and> p_auth_required q = p_auth_required p \<and> p_icon q = p_icon p
     \<and> p_fixed_port q = p_fixed_port p \<and> p_fixed_node q = p_fixed_node p
     \<and> p_tcp_prefix q = p_tcp_prefix p \<and> p_tcp_port q = p_tcp_port p
     \<and> (p_domain_prefix p \<noteq> '''' \<longrightarrow> p_domain_prefix q = p_domain_prefix p)"

lemmas type_rules = resolve_prefix_iff default_source_iff default_branch_def default_dockerfile_def source_ok_def url_ok_def no_git_def
  port_ok_def Let_def

lemma not_blank [simp]: "TrimSpace ''main'' \<noteq> []" "TrimSpace ''Dockerfile'' \<noteq> []" "TrimSpace ''docker-compose.yml'' \<noteq> []"
  by code_simp+

lemma validate_deployment_ok:
  "validate_deployment p = Inr q \<Longrightarrow> p_type p = PT_Deployment \<Longrightarrow> type_ok q \<and> prefix_ok (p_domain_prefix q) \<and> kept p q"
  by (auto simp: validate_deployment_def type_ok_def kept_def type_rules split: if_splits sum.splits)

lemma validate_domain_only_ok:
  "validate_domain_only p = Inr q \<Longrightarrow> p_type p = PT_DomainOnly \<Longrightarrow> type_ok q \<and> prefix_ok (p_domain_prefix q) \<and> kept p q"
  by (auto simp: validate_domain_only_def type_ok_def kept_def type_rules validateDomainPrefix_iff split: if_splits sum.splits)

lemma validate_compose_ok:
  "validate_compose p = Inr q \<Longrightarrow> p_type p = PT_Compose \<Longrightarrow> type_ok q \<and> prefix_ok (p_domain_prefix q) \<and> kept p q"
  by (auto simp: validate_compose_def type_ok_def kept_def type_rules split: if_splits sum.splits)

lemma validate_image_ok:
  "validate_image p = Inr q \<Longrightarrow> p_type p = PT_Image \<Longrightarrow> type_ok q \<and> prefix_ok (p_domain_prefix q) \<and> kept p q"
  by (auto simp: validate_image_def type_ok_def kept_def type_rules split: if_splits sum.splits)

lemma validate_build_ok:
  "validate_build p = Inr q \<Longrightarrow> p_type p = PT_Build \<Longrightarrow>
   type_ok q \<and> prefix_ok (p_domain_prefix q) \<and> kept p q \<and> p_fixed_port q = None \<and> p_fixed_node q = None"
  by (auto simp: validate_build_def type_ok_def kept_def type_rules split: if_splits sum.splits)

lemma validate_by_type_ok:
  "validate_by_type p = Inr q \<Longrightarrow> type_ok q \<and> prefix_ok (p_domain_prefix q) \<and> kept p q
     \<and> (p_type p = PT_Build \<longrightarrow> p_fixed_port p = None \<and> p_fixed_node p = None)"
  by (cases "p_type p")
    (auto simp: validate_by_type_def kept_def dest: validate_deployment_ok validate_domain_only_ok validate_compose_ok
      validate_image_ok validate_build_ok)

lemma default_frame: "\<exists>t a. default_access (default_type p) = p\<lparr>p_type := t, p_access_mode := a\<rparr>"
proof -
  have "\<exists>t. default_type p = p\<lparr>p_type := t\<rparr>" unfolding default_type_def
    by (metis project.surjective project.update_convs(3))
  moreover have "\<exists>a. default_access r = r\<lparr>p_access_mode := a\<rparr>" for r unfolding default_access_def
    by (metis project.surjective project.update_convs(27))
  ultimately show ?thesis by metis
qed

lemma validateProject_InrE:
  assumes "validateProject p = Inr q"
  obtains u p2 p3 where "p2 = default_access (default_type p)"
    and "TrimSpace (p_name p) \<noteq> ''''" "validateIcon (p_icon p) = Inr ()"
    and "p_access_mode p2 = ''public'' \<or> p_access_mode p2 = ''private''"
    and "validateFixedPort p2 = Inr u" "validateTCPRoute p2 = Inr p3" "validate_by_type p3 = Inr q"
  using assms by (auto simp: validateProject_def Let_def split: sum.splits if_splits)

lemma validateProject_ok:
  assumes "validateProject p = Inr q"
  shows "project_ok q \<and> p_id q = p_id p \<and> p_name q = p_name p \<and> p_owner q = p_owner p
    \<and> p_fixed_port q = p_fixed_port p \<and> p_fixed_node q = p_fixed_node p
    \<and> (p_domain_prefix p = '''' \<or> p_domain_prefix q = p_domain_prefix p \<and> p_tcp_prefix q \<noteq> Some (p_domain_prefix q))"
proof -
  from assms obtain u p2 p3 where p2: "p2 = default_access (default_type p)"
    and v: "TrimSpace (p_name p) \<noteq> ''''" "validateIcon (p_icon p) = Inr ()"
      "p_access_mode p2 = ''public'' \<or> p_access_mode p2 = ''private''"
      "validateFixedPort p2 = Inr u" "validateTCPRoute p2 = Inr p3" "validate_by_type p3 = Inr q"
    by (rule validateProject_InrE)
  obtain t a where p2: "p2 = p\<lparr>p_type := t, p_access_mode := a\<rparr>" using default_frame p2 by blast
  obtain a b where p3: "p3 = p2\<lparr>p_tcp_prefix := a, p_tcp_port := b\<rparr>" using validateTCPRoute_ok(2) [OF v(5)] by blast
  have t: "type_ok q" "prefix_ok (p_domain_prefix q)" "kept p3 q"
      "p_type p3 = PT_Build \<longrightarrow> p_fixed_port p3 = None \<and> p_fixed_node p3 = None"
    using validate_by_type_ok [OF v(6)] by blast+
  have f: "fixed_ok p2" by (rule validateFixedPort_ok [OF v(4)]) (use t(4) p3 in auto)
  have "fixed_ok q" using f t(3) p3 by (auto simp: fixed_ok_def kept_def split: option.splits)
  moreover have "tcp_ok q" using validateTCPRoute_ok(1) [OF v(5)] t(3) by (simp add: tcp_ok_def kept_def)
  moreover have "p_domain_prefix p2 \<noteq> '''' \<Longrightarrow> p_tcp_prefix p3 \<noteq> Some (p_domain_prefix p2)"
    by (rule validateTCPRoute_ok(3) [OF v(5)])
  ultimately show ?thesis using v(1-3) t p3 p2
    by (auto simp: project_ok_def kept_def validateIcon_def split: if_splits)
qed

text \<open>
  C30: What \<open>validateProject\<close> accepts is well formed whatever the request was: the name is not blank,
  the icon harmless, the prefix a free DNS label, the fixed port and node and the TCP prefix and port
  come in pairs and in range, and the fields of the project's type are complete while those of the
  other types are empty. Identity, name, owner and fixed port are those of the request, and an
  explicit prefix is kept.
\<close>

theorem validateProject_wellformed:
  assumes "validateProject p = Inr q"
  shows "project_ok q \<and> p_id q = p_id p \<and> p_name q = p_name p \<and> p_owner q = p_owner p
    \<and> p_fixed_port q = p_fixed_port p \<and> p_fixed_node q = p_fixed_node p
    \<and> (p_domain_prefix p = '''' \<or> p_domain_prefix q = p_domain_prefix p)"
  using validateProject_ok [OF assms] by blast

lemma project_update_same:
  "p_git_url p = x1 \<Longrightarrow> p\<lparr>p_git_url := x1\<rparr> = p" "p_git_branch p = x1 \<Longrightarrow> p\<lparr>p_git_branch := x1\<rparr> = p"
  "p_git_source p = x2 \<Longrightarrow> p\<lparr>p_git_source := x2\<rparr> = p" "p_dockerfile_path p = x1 \<Longrightarrow> p\<lparr>p_dockerfile_path := x1\<rparr> = p"
  "p_container_port p = x3 \<Longrightarrow> p\<lparr>p_container_port := x3\<rparr> = p" "p_memory_limit p = x1 \<Longrightarrow> p\<lparr>p_memory_limit := x1\<rparr> = p"
  "p_volume_mount_path p = x1 \<Longrightarrow> p\<lparr>p_volume_mount_path := x1\<rparr> = p"
  "p_compose_file_path p = x1 \<Longrightarrow> p\<lparr>p_compose_file_path := x1\<rparr> = p"
  "p_expose_service p = x1 \<Longrightarrow> p\<lparr>p_expose_service := x1\<rparr> = p" "p_expose_port p = x3 \<Longrightarrow> p\<lparr>p_expose_port := x3\<rparr> = p"
  "p_tcp_prefix p = x4 \<Longrightarrow> p\<lparr>p_tcp_prefix := x4\<rparr> = p" "p_tcp_port p = x5 \<Longrightarrow> p\<lparr>p_tcp_port := x5\<rparr> = p"
  by auto

lemma prefix_ok_nonempty: "prefix_ok s \<Longrightarrow> s \<noteq> []"
  by (simp add: prefix_ok_def validDomainPrefix_def)

lemma prefix_ok_valid: "prefix_ok s \<Longrightarrow> validateDomainPrefix s = Inr ()"
  by (simp add: validateDomainPrefix_iff)

lemma prefix_ok_trim: "prefix_ok s \<Longrightarrow> TrimSpace s = s"
proof (rule TrimSpace_fixed)
  assume p: "prefix_ok s"
  have "is_lower_alnum c \<Longrightarrow> \<not> is_space c" for c
    by (auto simp: is_lower_alnum_def is_space_def less_eq_char_def)
  then show "\<not> is_space (hd s) \<and> \<not> is_space (last s)" using p
    by (auto simp: prefix_ok_def validDomainPrefix_def)
qed

lemma resolve_prefix_fixed: "prefix_ok (p_domain_prefix q) \<Longrightarrow> resolve_prefix q = Inr q"
  by (simp add: resolve_prefix_iff prefix_ok_nonempty)

lemma validate_by_type_fixed:
  assumes "type_ok q" "prefix_ok (p_domain_prefix q)" "fixed_ok q"
  shows "validate_by_type q = Inr q"
proof (cases "p_type q")
  case PT_Deployment
  then show ?thesis using assms
    by (auto simp: validate_by_type_def validate_deployment_def type_ok_def source_ok_def default_source_def
        default_branch_def default_dockerfile_def resolve_prefix_fixed)
next
  case PT_DomainOnly
  then show ?thesis using assms
    by (auto simp: validate_by_type_def validate_domain_only_def type_ok_def no_git_def project_update_same
        prefix_ok_valid prefix_ok_nonempty)
next
  case PT_Compose
  then show ?thesis using assms
    by (auto simp: validate_by_type_def validate_compose_def type_ok_def source_ok_def url_ok_def port_ok_def
        default_source_def default_branch_def resolve_prefix_fixed project_update_same)
next
  case PT_Image
  then show ?thesis using assms
    by (auto simp: validate_by_type_def validate_image_def type_ok_def no_git_def port_ok_def resolve_prefix_fixed
        project_update_same)
next
  case PT_Build
  then have "p_fixed_port q = None \<and> p_fixed_node q = None" using assms(3)
    by (auto simp: fixed_ok_def split: option.splits)
  then show ?thesis using assms PT_Build
    by (auto simp: validate_by_type_def validate_build_def type_ok_def source_ok_def url_ok_def default_source_def
        default_branch_def default_dockerfile_def resolve_prefix_fixed project_update_same)
qed (use assms in \<open>simp add: type_ok_def\<close>)

lemma validateFixedPort_fixed: "fixed_ok q \<Longrightarrow> validateFixedPort q = Inr ()"
  by (auto simp: validateFixedPort_def fixed_ok_def split: option.splits)

lemma validateTCPRoute_fixed:
  assumes "tcp_ok q" "p_domain_prefix q \<noteq> ''''"
  shows "validateTCPRoute q = (if p_tcp_prefix q = Some (p_domain_prefix q) then Inl (TCPSelfCollision (p_domain_prefix q)) else Inr q)"
proof (cases "p_tcp_prefix q")
  case None
  then have "p_tcp_port q = None" using assms(1) by (simp add: tcp_ok_def split: option.splits)
  then show ?thesis using None by (simp add: validateTCPRoute_def project_update_same)
next
  case (Some pfx)
  then obtain port where p: "p_tcp_port q = Some port" "prefix_ok pfx" "1 \<le> port" "port \<le> 65535"
    using assms(1) by (auto simp: tcp_ok_def split: option.splits)
  then show ?thesis using Some assms(2) prefix_ok_nonempty [OF p(2)]
    by (simp add: validateTCPRoute_def prefix_ok_trim prefix_ok_valid project_update_same)
qed

lemma default_fixed: "project_ok q \<Longrightarrow> default_access (default_type q) = q"
  by (auto simp: default_access_def default_type_def project_ok_def type_ok_def)

lemma validateProject_of_ok:
  assumes "project_ok q"
  shows "validateProject q = (if p_tcp_prefix q = Some (p_domain_prefix q) then Inl (TCPSelfCollision (p_domain_prefix q)) else Inr q)"
proof -
  have ok: "fixed_ok q" "tcp_ok q" "type_ok q" "prefix_ok (p_domain_prefix q)" "validateIcon (p_icon q) = Inr ()"
      "TrimSpace (p_name q) \<noteq> []" "p_access_mode q = ''public'' \<or> p_access_mode q = ''private''"
    using assms by (auto simp: project_ok_def validateIcon_def)
  show ?thesis
    using ok validate_by_type_fixed [OF ok(3,4,1)] validateFixedPort_fixed [OF ok(1)]
      validateTCPRoute_fixed [OF ok(2)] prefix_ok_nonempty [OF ok(4)] default_fixed [OF assms]
    by (auto simp: validateProject_def)
qed


text \<open>
  Validating an accepted project again changes nothing, as every later update does, with one
  exception, and only for a request without a prefix of its own: the check that a TCP prefix is not
  the project's own runs before the prefix is taken from the name, so a project can be accepted
  whose TCP router takes its own host, and no later update of it is.
\<close>

theorem validateProject_again:
  assumes "validateProject p = Inr q"
  shows "validateProject q = (if p_tcp_prefix q = Some (p_domain_prefix q)
      then Inl (TCPSelfCollision (p_domain_prefix q)) else Inr q)
    \<and> (p_domain_prefix p = '''' \<or> p_tcp_prefix q \<noteq> Some (p_domain_prefix q))"
  using validateProject_of_ok validateProject_ok [OF assms] by blast

section \<open>Comma-separated lists\<close>

text \<open>A token as the parsers of both lists read it.\<close>

definition token :: "string \<Rightarrow> string" where
  "token tok = ToLower (TrimSpace tok)"

definition clean_token :: "string \<Rightarrow> bool" where
  "clean_token n \<longleftrightarrow> n \<noteq> [] \<and> token n = n \<and> CHR '','' \<notin> set n"

lemma TrimSpace_subset: "set (TrimSpace s) \<subseteq> set s"
  by (auto simp: TrimSpace_def dest!: set_dropWhileD)

lemma lower_comma [simp]: "lower_char c = CHR '','' \<longleftrightarrow> c = CHR '',''"
proof (cases "65 \<le> (of_char c :: nat) \<and> (of_char c :: nat) \<le> 90")
  case True
  then have "97 \<le> (of_char (lower_char c) :: nat)" by (simp add: lower_char_cases)
  then show ?thesis using True by auto
next
  case False
  then have "lower_char c = c" by (simp only: lower_char_cases if_False)
  then show ?thesis by simp
qed

lemma token_clean: "token tok \<noteq> [] \<Longrightarrow> CHR '','' \<notin> set tok \<Longrightarrow> clean_token (token tok)"
  using TrimSpace_subset [of tok]
  by (auto simp: clean_token_def token_def TrimSpace_ToLower) (auto simp: ToLower_def dest!: sym [of "CHR '',''"])

lemma clean_edges: "clean_token n \<Longrightarrow> \<not> is_space (hd n) \<and> \<not> is_space (last n)"
proof -
  assume c: "clean_token n"
  then have "TrimSpace n = n" unfolding clean_token_def token_def
    by (metis TrimSpace_ToLower TrimSpace_idem)
  then show ?thesis using TrimSpace_edges [of n] c by (simp add: clean_token_def)
qed

lemma Join_edges:
  "names \<noteq> [] \<Longrightarrow> \<forall>n \<in> set names. clean_token n \<Longrightarrow>
   Join names '','' \<noteq> [] \<and> hd (Join names '','') = hd (hd names) \<and> last (Join names '','') = last (last names)"
proof (induction names)
  case (Cons n names)
  then show ?case by (cases "names = []") (auto simp: clean_token_def Join_Cons)
qed simp

lemma Join_trimmed:
  assumes "names \<noteq> []" "\<forall>n \<in> set names. clean_token n"
  shows "TrimSpace (Join names '','') = Join names '',''" "Join names '','' \<noteq> []"
  using Join_edges [OF assms] clean_edges assms by (auto intro!: TrimSpace_fixed)

lemma Join_split:
  "names \<noteq> [] \<Longrightarrow> \<forall>n \<in> set names. clean_token n \<Longrightarrow> Split (CHR '','') (Join names '','') = names"
  by (rule Split_Join) (auto simp: clean_token_def)

lemma Join_lower: "\<forall>n \<in> set names. clean_token n \<Longrightarrow> ToLower (Join names '','') = Join names '',''"
proof (induction names)
  case (Cons n names)
  then have "ToLower n = n" unfolding clean_token_def token_def by (metis ToLower_idem list.set_intros(1))
  then show ?case using Cons by (cases "names = []") (auto simp: ToLower_def lower_char_def Join_Cons)
qed (simp add: ToLower_def)

section \<open>Sign-in providers\<close>

definition requested :: "string \<Rightarrow> string set" where
  "requested raw = {n. n \<noteq> [] \<and> n \<in> token ` set (Split (CHR '','') raw)}"

lemma provider_loop_Inr:
  "provider_loop known toks ns = Inr r \<Longrightarrow> distinct ns \<Longrightarrow>
   distinct r \<and> set r = set ns \<union> {n. n \<noteq> [] \<and> n \<in> token ` set toks} \<and> set r \<subseteq> set ns \<union> set known"
proof (induction known toks ns rule: provider_loop.induct)
  case (2 known tok toks ns)
  then show ?case by (simp add: Let_def token_def split: if_splits) (fastforce simp: token_def)+
qed auto

lemma provider_loop_clean:
  "\<forall>n \<in> set toks. clean_token n \<Longrightarrow> set toks \<subseteq> set known \<Longrightarrow> distinct (ns @ toks) \<Longrightarrow>
   provider_loop known toks ns = Inr (ns @ toks)"
proof (induction toks arbitrary: ns)
  case (Cons t toks)
  then have "ToLower (TrimSpace t) = t" "t \<noteq> []" by (simp_all add: clean_token_def token_def)
  then show ?case using Cons by simp
qed simp

text \<open>
  \<open>normaliseEnabledProviders\<close> yields nothing, the word \<open>none\<close>, or the requested providers, each
  once, in order and all of them known; and what it yields it leaves alone when it is saved again.
\<close>

theorem normaliseEnabledProviders_canonical:
  assumes "normaliseEnabledProviders raw known = Inr v"
  shows "(v = '''' \<or> v = EnabledProvidersNone \<or> (\<exists>names. v = Join names '','' \<and> sorted names \<and> distinct names
      \<and> set names = requested raw \<and> requested raw \<subseteq> set known))
    \<and> normaliseEnabledProviders v known = Inr v"
proof -
  have "v = '''' \<or> v = EnabledProvidersNone \<or> (\<exists>names. provider_loop known (Split (CHR '','') raw) [] = Inr names
      \<and> v = Join (sort names) '','')"
    using assms by (auto simp: normaliseEnabledProviders_def split: if_splits sum.splits)
  then consider "v = ''''" | "v = EnabledProvidersNone"
    | names where "provider_loop known (Split (CHR '','') raw) [] = Inr names" "v = Join (sort names) '',''" by blast
  then show ?thesis
  proof cases
    case 1
    moreover have "TrimSpace '''' = ''''" by code_simp
    ultimately show ?thesis by (simp add: normaliseEnabledProviders_def)
  next
    case 2
    moreover have "TrimSpace EnabledProvidersNone = EnabledProvidersNone" "EnabledProvidersNone \<noteq> ''''" by code_simp+
    ultimately show ?thesis by (simp add: normaliseEnabledProviders_def EqualFold_def)
  next
    case 3
    have l: "distinct names" "set names = requested raw" "set names \<subseteq> set known"
      using provider_loop_Inr [OF 3(1)] by (auto simp: requested_def)
    have c: "\<forall>n \<in> set names. clean_token n"
      using l(2) Split_no_sep [of _ "CHR '',''" raw] by (auto simp: requested_def intro: token_clean)
    have "normaliseEnabledProviders v known = Inr v"
    proof (cases "names = []")
      case True
      moreover have "TrimSpace '''' = ''''" by code_simp
      ultimately show ?thesis using 3(2) by (simp add: normaliseEnabledProviders_def)
    next
      case False
      let ?s = "sort names"
      have s: "?s \<noteq> []" "\<forall>n \<in> set ?s. clean_token n" using False c by (metis set_empty set_sort, simp)
      show ?thesis
      proof (cases "EqualFold v EnabledProvidersNone")
        case True
        moreover have "ToLower EnabledProvidersNone = EnabledProvidersNone" by code_simp
        ultimately have "v = EnabledProvidersNone" using Join_lower [OF s(2)] 3(2) by (simp add: EqualFold_def)
        then show ?thesis using True Join_trimmed [OF s] 3(2) by (simp add: normaliseEnabledProviders_def)
      next
        case False
        have "provider_loop known ?s [] = Inr ([] @ ?s)" by (rule provider_loop_clean) (use s l in auto)
        then show ?thesis using False Join_trimmed [OF s] Join_split [OF s] 3(2)
          by (simp add: normaliseEnabledProviders_def sorted_sort_id)
      qed
    qed
    moreover have "sorted (sort names) \<and> distinct (sort names) \<and> set (sort names) = requested raw"
      using l by simp
    ultimately show ?thesis using l 3(2) by metis
  qed
qed

section \<open>Project types\<close>

lemma type_names [simp]:
  "IsKnownProjectType t \<Longrightarrow> type_of_name (type_name t) = t"
  "IsKnownProjectType t \<Longrightarrow> clean_token (type_name t)"
proof -
  have "list_all (\<lambda>t. type_of_name (type_name t) = t \<and> clean_token (type_name t)) AllProjectTypes" by code_simp
  then show "IsKnownProjectType t \<Longrightarrow> type_of_name (type_name t) = t"
    and "IsKnownProjectType t \<Longrightarrow> clean_token (type_name t)"
    by (auto simp: IsKnownProjectType_def list_all_iff)
qed

lemma type_loop_Inr:
  "type_loop toks seen = Inr r \<Longrightarrow>
   set r = set seen \<union> type_of_name ` {n. n \<noteq> [] \<and> n \<in> token ` set toks}
   \<and> (\<forall>n \<in> {n. n \<noteq> [] \<and> n \<in> token ` set toks}. IsKnownProjectType (type_of_name n))"
proof (induction toks seen rule: type_loop.induct)
  case (2 tok toks seen)
  let ?n = "token tok"
  show ?case
  proof (cases "?n = []")
    case True
    then have "{n. n \<noteq> [] \<and> n \<in> token ` set (tok # toks)} = {n. n \<noteq> [] \<and> n \<in> token ` set toks}" by auto
    then show ?thesis using 2 True by (simp add: Let_def token_def)
  next
    case False
    then have e: "{n. n \<noteq> [] \<and> n \<in> token ` set (tok # toks)} = insert ?n {n. n \<noteq> [] \<and> n \<in> token ` set toks}" by auto
    have "IsKnownProjectType (type_of_name ?n)" "type_loop toks (type_of_name ?n # seen) = Inr r"
      using 2(3) False by (auto simp: Let_def token_def split: if_splits)
    then show ?thesis using 2(2) False unfolding e by (simp add: token_def)
  qed
qed auto

lemma type_loop_names:
  "\<forall>t \<in> set ts. IsKnownProjectType t \<Longrightarrow> type_loop (map type_name ts) seen = Inr (rev ts @ seen)"
proof (induction ts arbitrary: seen)
  case (Cons t ts)
  then have "clean_token (type_name t)" by simp
  then have "ToLower (TrimSpace (type_name t)) = type_name t" "type_name t \<noteq> []"
    by (simp_all add: clean_token_def token_def)
  then show ?case using Cons by simp
qed simp

definition named_types :: "string \<Rightarrow> project_type list" where
  "named_types raw = filter (\<lambda>t. type_name t \<in> requested raw) AllProjectTypes"

lemma known_name: "IsKnownProjectType t \<Longrightarrow> type_of_name n = t \<Longrightarrow> type_name t = n"
  by (auto simp: IsKnownProjectType_def AllProjectTypes_def type_of_name_def type_name_def split: if_splits)

lemma parse_named:
  "parseEnabledProjectTypes raw = (if named_types raw = [] then AllProjectTypes else named_types raw)"
proof -
  let ?toks = "map (\<lambda>tok. type_of_name (ToLower (TrimSpace tok))) (Split (CHR '','') raw)"
  let ?seen = "filter IsKnownProjectType ?toks"
  have ne: "type_name t \<noteq> []" if "IsKnownProjectType t" for t
    using type_names(2) [OF that] by (simp add: clean_token_def)
  have seen: "t \<in> set ?seen \<longleftrightarrow> type_name t \<in> requested raw" if "t \<in> set AllProjectTypes" for t
  proof -
    have k: "IsKnownProjectType t" using that by (simp add: IsKnownProjectType_def)
    have "t \<in> set ?seen \<longleftrightarrow> type_name t \<in> token ` set (Split (CHR '','') raw)"
      using k known_name [OF k] by (auto simp: token_def image_iff) (metis type_names(1))+
    then show ?thesis using ne [OF k] by (auto simp: requested_def)
  qed
  have f: "filter (\<lambda>t. t \<in> set ?seen) AllProjectTypes = named_types raw"
    unfolding named_types_def by (rule filter_cong) (use seen in auto)
  have "named_types raw = [] \<longleftrightarrow> ?seen = []"
  proof -
    have "set ?seen \<subseteq> set AllProjectTypes" by (auto simp: IsKnownProjectType_def)
    then show ?thesis unfolding f [symmetric] by (cases ?seen) (auto simp: filter_empty_conv)
  qed
  then show ?thesis using f by (simp add: parseEnabledProjectTypes_def Let_def)
qed

text \<open>
  The whitelist that \<open>normaliseEnabledProjectTypes\<close> stores means what the administrator wrote:
  reading it back yields the named types and only them, or every type when the input was blank, and
  storing it again changes nothing.
\<close>

theorem project_types_roundtrip:
  assumes "normaliseEnabledProjectTypes raw = Inr v"
  shows "parseEnabledProjectTypes v = (if TrimSpace raw = '''' then AllProjectTypes else named_types raw)
    \<and> (TrimSpace raw = '''' \<or> named_types raw \<noteq> []) \<and> normaliseEnabledProjectTypes v = Inr v"
proof (cases "TrimSpace raw = ''''")
  case True
  then have "v = ''''" using assms by (simp add: normaliseEnabledProjectTypes_def)
  moreover have "parseEnabledProjectTypes '''' = AllProjectTypes" "normaliseEnabledProjectTypes '''' = Inr ''''" by code_simp+
  ultimately show ?thesis using True by simp
next
  case False
  then obtain seen where s: "type_loop (Split (CHR '','') raw) [] = Inr seen" "seen \<noteq> []"
      "v = Join (projectTypeNames (filter (\<lambda>t. t \<in> set seen) AllProjectTypes)) '','' "
    using assms by (auto simp: normaliseEnabledProjectTypes_def split: sum.splits if_splits)
  have seen: "set seen = {t. \<exists>n \<in> requested raw. t = type_of_name n}"
      "\<forall>n \<in> requested raw. IsKnownProjectType (type_of_name n)"
    using type_loop_Inr [OF s(1)] by (auto simp: requested_def)
  have mem: "t \<in> set seen \<longleftrightarrow> type_name t \<in> requested raw" if "t \<in> set AllProjectTypes" for t
  proof -
    have k: "IsKnownProjectType t" using that by (simp add: IsKnownProjectType_def)
    show ?thesis using k known_name [OF k] unfolding seen(1) by (auto intro: bexI [of _ "type_name t"])
  qed
  have f: "filter (\<lambda>t. t \<in> set seen) AllProjectTypes = named_types raw"
    unfolding named_types_def by (rule filter_cong) (use mem in auto)
  have "set seen \<subseteq> set AllProjectTypes" using seen by (auto simp: IsKnownProjectType_def)
  then have ne: "named_types raw \<noteq> []" unfolding f [symmetric] using s(2)
    by (cases seen) (auto simp: filter_empty_conv)
  let ?ts = "named_types raw"
  have k: "\<forall>t \<in> set ?ts. IsKnownProjectType t" by (auto simp: named_types_def IsKnownProjectType_def)
  have c: "map type_name ?ts \<noteq> []" "\<forall>n \<in> set (map type_name ?ts). clean_token n" using ne k by auto
  have v: "v = Join (map type_name ?ts) '',''" using s(3) f by (simp add: projectTypeNames_def)
  have sp: "Split (CHR '','') v = map type_name ?ts" unfolding v by (rule Join_split [OF c])
  have "requested v = type_name ` set ?ts"
    unfolding requested_def sp using c(2) by (auto simp: clean_token_def image_iff)
  then have again: "named_types v = ?ts"
  proof -
    assume r: "requested v = type_name ` set ?ts"
    have "type_name t \<in> requested v \<longleftrightarrow> type_name t \<in> requested raw" if "t \<in> set AllProjectTypes" for t
      using that known_name k unfolding r named_types_def
      by (auto simp: image_iff IsKnownProjectType_def)
    then show ?thesis unfolding named_types_def by (intro filter_cong) auto
  qed
  have "normaliseEnabledProjectTypes v = Inr v"
  proof -
    have "type_loop (Split (CHR '','') v) [] = Inr (rev ?ts)" using type_loop_names [OF k] sp by simp
    moreover have "filter (\<lambda>t. t \<in> set (rev ?ts)) AllProjectTypes = ?ts"
      by (auto simp: named_types_def intro!: filter_cong)
    ultimately show ?thesis using Join_trimmed [OF c] ne v
      by (simp add: normaliseEnabledProjectTypes_def projectTypeNames_def)
  qed
  then show ?thesis using False ne again by (simp add: parse_named)
qed

end
