(* ===== verification/Project_Admission_Facts.thy ===== *)
theory Project_Admission_Facts
  imports Project_Admission Project_Rules_Facts
begin

text \<open>
  What the handlers of \<open>Project_Admission\<close> guarantee: a created project is well formed, owned and
  reachable by its creator and alone on its host; an update changes one row, never the columns the
  server manages, and the gated ones only for administrators; and no host under the platform's base
  domain is ever served by two projects.
\<close>

section \<open>Inversion\<close>

text \<open>Two databases that differ in the outcomes still scheduled only.\<close>

definition same_db :: "db \<Rightarrow> db \<Rightarrow> bool" where
  "same_db s s' \<longleftrightarrow> (\<exists>fs. s' = s\<lparr>db_faults := fs\<rparr>)"

lemma same_db_refl [simp]: "same_db s s"
  unfolding same_db_def by (metis faults_same)

lemma same_db_trans: "same_db s t \<Longrightarrow> same_db t u \<Longrightarrow> same_db s u"
  by (auto simp: same_db_def)

lemma same_db_tables:
  assumes "same_db s s'"
  shows "projects s' = projects s" "aliases s' = aliases s" "settings s' = settings s" "users s' = users s"
    "nodes s' = nodes s" "project_members s' = project_members s" "db_now s' = db_now s"
    "db_next s' = db_next s" "db_uuid s' = db_uuid s"
  using assms by (auto simp: same_db_def)

lemma reads_same: "reads_only m \<Longrightarrow> run_state m s = (r, s') \<Longrightarrow> same_db s s'"
  unfolding same_db_def by (metis reads_onlyE)

lemma attempt_Inr:
  "run_state (attempt m k) s = (Inr x, s') \<longleftrightarrow>
     (\<exists>y s1. run_state m s = (Inr y, s1) \<and> run_state (k y) s1 = (Inr x, s'))"
  by (auto split: prod.splits sum.splits)

lemma or_status_Inr: "run_state (or_status c m) s = (Inr x, s') \<longleftrightarrow> run_state m s = (Inr x, s')"
  by (auto simp: or_status_def split: prod.splits sum.splits)

lemma require_Inr: "run_state (require b c e) s = (Inr u, s') \<longleftrightarrow> b \<and> s' = s"
  by (auto simp: require_def)

lemma lift_rule_Inr: "run_state (lift_rule r) s = (Inr x, s') \<longleftrightarrow> r = Inr x \<and> s' = s"
  by (auto simp: lift_rule_def split: sum.splits)

lemma return_Inr: "run_state (State_Monad.return r) s = (Inr x, s') \<longleftrightarrow> r = Inr x \<and> s' = s"
  by auto

lemma ok_Inr: "run_state (ok r) s = (Inr x, s') \<longleftrightarrow> r = x \<and> s' = s"
  by auto

lemma query_Inr: "run_state (query f) s = (Inr x, s') \<Longrightarrow> same_db s s' \<and> x = f s'"
  by (auto simp: run_query popped_def same_db_def split: option.splits)

declare run_attempt [simp del] run_ok [simp del]

lemma body_Inr:
  "(case r of Inl e \<Rightarrow> Inl (f e) | Inr p \<Rightarrow> Inr p) = Inr y \<longleftrightarrow> r = Inr y"
  by (auto split: sum.splits)

lemmas inversions = attempt_Inr or_status_Inr require_Inr lift_rule_Inr return_Inr ok_Inr

lemma project_by_same: "same_db s s' \<Longrightarrow> project_by s' i = project_by s i"
  by (simp add: project_by_def same_db_tables)

lemma check_prefix_Inr:
  assumes "run_state (check_prefix mine pfx) s = (Inr u, s')"
  shows "same_db s s'" "find (\<lambda>p. p_domain_prefix p = pfx) (projects s) = Some q \<Longrightarrow> mine q"
  using assms
  by (auto simp: check_prefix_def inversions GetProjectByDomainPrefix_def same_db_tables split: option.splits
      dest!: query_Inr)

lemma check_alias_Inr:
  assumes "run_state (check_alias cfg mine pfx) s = (Inr u, s')"
  shows "same_db s s'"
    "ac_base cfg \<noteq> [] \<Longrightarrow> find (\<lambda>a. pa_host a = pfx @ ''.'' @ ToLower (ac_base cfg)) (aliases s) = Some a \<Longrightarrow>
     project_by s (pa_project a) = Some q \<Longrightarrow> mine q"
  using assms
  by (auto simp: check_alias_def inversions GetProjectByAliasHost_def same_db_tables project_by_same
      split: option.splits if_splits dest!: query_Inr)

lemma check_name_Inr:
  assumes "run_state (check_name mine owner name) s = (Inr u, s')"
  shows "same_db s s'"
    "find (\<lambda>p. p_owner p = owner \<and> p_name p = name) (projects s) = Some q \<Longrightarrow> mine q"
  using assms
  by (auto simp: check_name_def inversions GetProjectByOwnerAndName_def same_db_tables
      split: option.splits dest!: query_Inr)

lemma checkFixedNodeAndPortFree_Inr:
  assumes "run_state (checkFixedNodeAndPortFree n port i) s = (Inr u, s')"
  shows "same_db s s'" "q \<in> set (projects s) \<Longrightarrow> p_fixed_node q = Some n \<Longrightarrow> p_fixed_port q = Some port \<Longrightarrow> p_id q = i"
  using assms
  by (auto simp: checkFixedNodeAndPortFree_def inversions GetNode_def IsFixedPortInUse_def same_db_tables filter_empty_conv
      split: option.splits dest!: query_Inr intro: same_db_trans)

lemma checkTCPPrefixFree_Inr:
  assumes "run_state (checkTCPPrefixFree p i) s = (Inr u, s')"
  shows "same_db s s'"
    "p_tcp_prefix p = Some t \<Longrightarrow> t \<noteq> [] \<Longrightarrow> q \<in> set (projects s) \<Longrightarrow> p_id q \<noteq> i \<Longrightarrow>
     p_domain_prefix q \<noteq> t \<and> p_tcp_prefix q \<noteq> Some t"
  using assms
  by (auto simp: checkTCPPrefixFree_def inversions IsTCPDomainPrefixTaken_def same_db_tables filter_empty_conv
      split: option.splits if_splits dest!: query_Inr)

lemma check_providers_Inr:
  assumes "run_state (check_providers cfg p) s = (Inr q, s')"
  shows "same_db s s'" "\<exists>v. q = p\<lparr>p_enabled_providers := v\<rparr>"
proof -
  have r: "reads_only (knownProviderIDs cfg)" unfolding knownProviderIDs_def
    by (intro reads_intros)
  obtain k s1 where "run_state (knownProviderIDs cfg) s = (k, s1)" by fastforce
  then have "same_db s s1" "run_state (lift_rule (case normaliseEnabledProviders (p_enabled_providers p) k of
       Inl e \<Rightarrow> Inl e | Inr v \<Rightarrow> Inr (p\<lparr>p_enabled_providers := v\<rparr>))) s1 = (Inr q, s')"
    using assms reads_same [OF r] by (auto simp: check_providers_def)
  then show "same_db s s'" "\<exists>v. q = p\<lparr>p_enabled_providers := v\<rparr>"
    by (auto simp: lift_rule_Inr split: sum.splits)
qed

lemma checkProjectTypeEnabled_Inr:
  assumes "run_state (checkProjectTypeEnabled t) s = (Inr u, s')"
  shows "same_db s s'"
    "db_faults s = [] \<Longrightarrow> t \<in> set (parseEnabledProjectTypes (case map_of (settings s) ''enabled_project_types'' of None \<Rightarrow> '''' | Some v \<Rightarrow> v))"
proof -
  have r: "reads_only enabledProjectTypes" unfolding enabledProjectTypes_def GetSetting_def by (intro reads_intros)
  obtain k s1 where k: "run_state enabledProjectTypes s = (k, s1)" by fastforce
  then have *: "s' = s1" "t \<in> set k" using assms by (auto simp: checkProjectTypeEnabled_def ok_Inr split: if_splits)
  then show "same_db s s'" using reads_same [OF r k] by simp
  show "db_faults s = [] \<Longrightarrow> t \<in> set (parseEnabledProjectTypes (case map_of (settings s) ''enabled_project_types'' of None \<Rightarrow> '''' | Some v \<Rightarrow> v))"
    using k *(2) by (auto simp: enabledProjectTypes_def GetSetting_def)
qed

lemma check_fixed_new_Inr:
  assumes "run_state (check_fixed_new user p) s = (Inr u, s')"
  shows "same_db s s'" "fixed_ok p \<Longrightarrow> p_fixed_port p \<noteq> None \<Longrightarrow> is_admin user"
  using assms checkFixedNodeAndPortFree_Inr(1)
  by (auto simp: check_fixed_new_def inversions fixed_ok_def split: option.splits)

lemma check_tcp_new_Inr:
  assumes "run_state (check_tcp_new user p) s = (Inr u, s')"
  shows "same_db s s'" "p_tcp_prefix p \<noteq> None \<Longrightarrow> is_admin user"
    "p_tcp_prefix p = Some t \<Longrightarrow> t \<noteq> [] \<Longrightarrow> q \<in> set (projects s) \<Longrightarrow> p_id q \<noteq> uuid_Nil \<Longrightarrow>
     p_domain_prefix q \<noteq> t \<and> p_tcp_prefix q \<noteq> Some t"
proof -
  have "p_tcp_prefix p = None \<and> s' = s \<or> is_admin user \<and> run_state (checkTCPPrefixFree p uuid_Nil) s = (Inr (), s')"
    using assms by (auto simp: check_tcp_new_def inversions split: option.splits)
  then show "same_db s s'" "p_tcp_prefix p \<noteq> None \<Longrightarrow> is_admin user"
    "p_tcp_prefix p = Some t \<Longrightarrow> t \<noteq> [] \<Longrightarrow> q \<in> set (projects s) \<Longrightarrow> p_id q \<noteq> uuid_Nil \<Longrightarrow>
     p_domain_prefix q \<noteq> t \<and> p_tcp_prefix q \<noteq> Some t"
    using checkTCPPrefixFree_Inr(1) checkTCPPrefixFree_Inr(2) [of p uuid_Nil s "()" s' t q] by auto
qed

section \<open>Constraints\<close>

lemma project_violation_None:
  "project_violation s rs p = None \<Longrightarrow>
   (\<forall>q \<in> set rs. p_id q \<noteq> p_id p \<and> p_domain_prefix q \<noteq> p_domain_prefix p)
   \<and> user_by s (p_owner p) \<noteq> None"
  by (auto simp: project_violation_def unique_key_def list_all_iff split: if_splits)

text \<open>The columns that decide who owns a project and where it is served.\<close>

definition same_routing :: "project \<Rightarrow> project \<Rightarrow> bool" where
  "same_routing p q \<longleftrightarrow> p_id q = p_id p \<and> p_name q = p_name p \<and> p_owner q = p_owner p
     \<and> p_domain_prefix q = p_domain_prefix p \<and> p_fixed_port q = p_fixed_port p \<and> p_fixed_node q = p_fixed_node p
     \<and> p_tcp_prefix q = p_tcp_prefix p \<and> p_tcp_port q = p_tcp_port p"

lemma same_routing_refl [simp]: "same_routing p p"
  by (simp add: same_routing_def)

lemma same_routing_trans: "same_routing p q \<Longrightarrow> same_routing q r \<Longrightarrow> same_routing p r"
  by (simp add: same_routing_def)

lemma runtime_defaults_routing: "same_routing p (runtime_defaults p)"
  by (simp add: same_routing_def runtime_defaults_def Let_def)

lemma defaults_routing:
  "same_routing p (default_type p)" "same_routing p (default_access p)" "same_routing p (digests_default p)"
  "same_routing p (triggers_default p)" "same_routing p (port_default p)" "same_routing p (image_defaults p)"
  "same_routing p (p\<lparr>p_updated := now\<rparr>)"
  using runtime_defaults_routing [of p]
  by (simp_all add: same_routing_def default_type_def default_access_def digests_default_def triggers_default_def
      port_default_def image_defaults_def)

lemma deployment_defaults_routing: "same_routing p (deployment_defaults p)"
  using runtime_defaults_routing [of p] by (simp add: deployment_defaults_def Let_def same_routing_def)

lemma create_defaults_routing: "same_routing p (create_defaults p)"
  unfolding create_defaults_def
  by (rule same_routing_trans [OF _ defaults_routing(4)], rule same_routing_trans [OF _ defaults_routing(2)],
      rule same_routing_trans [OF _ defaults_routing(3)], rule same_routing_trans [OF _ defaults_routing(6)],
      rule same_routing_trans [OF _ deployment_defaults_routing], rule defaults_routing(1))

lemma update_defaults_routing: "same_routing p (update_defaults now p)"
  unfolding update_defaults_def
  by (rule same_routing_trans [OF _ defaults_routing(4)], rule same_routing_trans [OF _ defaults_routing(2)],
      rule same_routing_trans [OF _ defaults_routing(5)], rule defaults_routing(7))

lemma inserted_row_routing: "same_routing p (inserted_row p)"
  by (simp add: same_routing_def inserted_row_def)

section \<open>Creation\<close>

text \<open>What the checks of \<open>createProject\<close> establish, with the database they leave.\<close>

lemma admit_new_Inr:
  assumes "run_state (admit_new cfg user body) s = (Inr p, s')"
  shows "same_db s s'"
    and "\<exists>p0 p1 v. decode_project body zero_project = Inr p0 \<and> validateProject p0 = Inr p1
      \<and> p = p1\<lparr>p_enabled_providers := v, p_owner := u_id user\<rparr>
      \<and> (is_admin user \<or> p_fixed_port p1 = None \<and> p_tcp_prefix p1 = None)
      \<and> (db_faults s = [] \<longrightarrow> p_type p1 \<in> set (parseEnabledProjectTypes
          (case map_of (settings s) ''enabled_project_types'' of None \<Rightarrow> '''' | Some v \<Rightarrow> v)))"
    and "q \<in> set (projects s) \<Longrightarrow> p_domain_prefix q \<noteq> p_domain_prefix p"
    and "ac_base cfg \<noteq> [] \<Longrightarrow> find (\<lambda>a. pa_host a = p_domain_prefix p @ ''.'' @ ToLower (ac_base cfg)) (aliases s) = Some a \<Longrightarrow>
      project_by s (pa_project a) = None"
    and "p_tcp_prefix p = Some t \<Longrightarrow> t \<noteq> [] \<Longrightarrow> q \<in> set (projects s) \<Longrightarrow> p_id q \<noteq> uuid_Nil \<Longrightarrow>
      p_domain_prefix q \<noteq> t \<and> p_tcp_prefix q \<noteq> Some t"
proof -
  from assms obtain p0 p1 p2 s1 s2 s3 s4 s5 s6 s7 where
    d: "decode_project body zero_project = Inr p0" and v: "validateProject p0 = Inr p1"
    and t: "run_state (checkProjectTypeEnabled (p_type p1)) s = (Inr (), s1)"
    and pr: "run_state (check_providers cfg p1) s1 = (Inr p2, s2)"
    and c: "run_state (check_prefix (\<lambda>_. False) (p_domain_prefix p2)) s2 = (Inr (), s3)"
      "run_state (check_alias cfg (\<lambda>_. False) (p_domain_prefix p2)) s3 = (Inr (), s4)"
      "run_state (check_name (\<lambda>_. False) (u_id user) (p_name p2)) s4 = (Inr (), s5)"
      "run_state (check_fixed_new user p2) s5 = (Inr (), s6)" "run_state (check_tcp_new user p2) s6 = (Inr (), s7)"
    and p: "p = p2\<lparr>p_owner := u_id user\<rparr>" and s': "s' = s7"
    by (clarsimp simp: admit_new_def inversions body_Inr)
  have same: "same_db s s1" "same_db s1 s2" "same_db s2 s3" "same_db s3 s4" "same_db s4 s5" "same_db s5 s6" "same_db s6 s7"
    using checkProjectTypeEnabled_Inr(1) [OF t] check_providers_Inr(1) [OF pr] check_prefix_Inr(1) [OF c(1)]
      check_alias_Inr(1) [OF c(2)] check_name_Inr(1) [OF c(3)] check_fixed_new_Inr(1) [OF c(4)] check_tcp_new_Inr(1) [OF c(5)]
    by blast+
  show "same_db s s'" using same s' by (blast intro: same_db_trans)
  have 2: "same_db s s2" and 3: "same_db s s3" and 6: "same_db s s6" using same by (blast intro: same_db_trans)+
  obtain v where p2: "p2 = p1\<lparr>p_enabled_providers := v\<rparr>" using check_providers_Inr(2) [OF pr] by blast
  have ok: "fixed_ok p1" using validateProject_ok [OF v] by (simp add: project_ok_def)
  have "fixed_ok p2" using ok p2 by (simp add: fixed_ok_def split: option.splits)
  then have "is_admin user \<or> p_fixed_port p1 = None \<and> p_tcp_prefix p1 = None"
    using check_fixed_new_Inr(2) [OF c(4)] check_tcp_new_Inr(2) [OF c(5)] p2 by (auto simp del: not_None_eq)
  then show "\<exists>p0 p1 v. decode_project body zero_project = Inr p0 \<and> validateProject p0 = Inr p1
      \<and> p = p1\<lparr>p_enabled_providers := v, p_owner := u_id user\<rparr>
      \<and> (is_admin user \<or> p_fixed_port p1 = None \<and> p_tcp_prefix p1 = None)
      \<and> (db_faults s = [] \<longrightarrow> p_type p1 \<in> set (parseEnabledProjectTypes
          (case map_of (settings s) ''enabled_project_types'' of None \<Rightarrow> '''' | Some v \<Rightarrow> v)))"
    using d v p [unfolded p2] checkProjectTypeEnabled_Inr(2) [OF t] by blast
  show "q \<in> set (projects s) \<Longrightarrow> p_domain_prefix q \<noteq> p_domain_prefix p"
  proof -
    assume q: "q \<in> set (projects s)"
    have "find (\<lambda>r. p_domain_prefix r = p_domain_prefix p) (projects s) = None"
      using check_prefix_Inr(2) [OF c(1)] same_db_tables(1) [OF 2] p
      by (cases "find (\<lambda>r. p_domain_prefix r = p_domain_prefix p) (projects s)") auto
    from find_None_all [OF this q] show ?thesis .
  qed
  show "ac_base cfg \<noteq> [] \<Longrightarrow> find (\<lambda>a. pa_host a = p_domain_prefix p @ ''.'' @ ToLower (ac_base cfg)) (aliases s) = Some a \<Longrightarrow>
      project_by s (pa_project a) = None"
    using check_alias_Inr(2) [OF c(2)] same_db_tables(2) [OF 3] project_by_same [OF 3] p p2
    by (cases "project_by s (pa_project a)") auto
  show "p_tcp_prefix p = Some t \<Longrightarrow> t \<noteq> [] \<Longrightarrow> q \<in> set (projects s) \<Longrightarrow> p_id q \<noteq> uuid_Nil \<Longrightarrow>
      p_domain_prefix q \<noteq> t \<and> p_tcp_prefix q \<noteq> Some t"
    using check_tcp_new_Inr(3) [OF c(5)] same_db_tables(1) [OF 6] p p2 by simp
qed

lemma insert_member_Inr:
  assumes "run_state (insert_member pid uid) s = (Inr u, s')"
  shows "(pid, uid) \<in> set (project_members s')" "projects s' = projects s" "aliases s' = aliases s"
  using assms by (auto simp: insert_member_def run_sql popped_def split: option.splits if_splits)

lemma insert_project_Inr:
  assumes "run_state (insert_project p) s = (Inr q, s')"
  shows "q = p" "projects s' = projects s @ [inserted_row p]" "aliases s' = aliases s"
    "(p_id p, p_owner p) \<in> set (project_members s')"
    "\<exists>t. project_violation t (projects s) (inserted_row p) = None"
proof -
  from assms obtain s2 where i: "run_state (sql (\<lambda>s. case project_violation s (projects s) (inserted_row p) of
         Some e \<Rightarrow> Inl e | None \<Rightarrow> Inr ((), s\<lparr>projects := projects s @ [inserted_row p]\<rparr>))) s = (Inr (), s2)"
    and m: "run_state (insert_member (p_id p) (p_owner p)) s2 = (Inr (), s')" and q: "q = p"
    by (clarsimp simp: insert_project_def inversions)
  have ins: "projects s2 = projects s @ [inserted_row p]" "aliases s2 = aliases s"
      "\<exists>t. project_violation t (projects s) (inserted_row p) = None"
    using i by (auto simp: run_sql popped_def split: option.splits)
  show "q = p" "projects s' = projects s @ [inserted_row p]" "aliases s' = aliases s"
      "(p_id p, p_owner p) \<in> set (project_members s')"
      "\<exists>t. project_violation t (projects s) (inserted_row p) = None"
    using ins insert_member_Inr [OF m] q by auto
qed

lemma CreateProject_Inr:
  assumes "run_state (CreateProject p) s = (Inr q, s')"
  shows "q = create_defaults (p\<lparr>p_id := db_uuid s (db_next s), p_created := db_now s, p_updated := db_now s\<rparr>)"
    and "projects s' = projects s @ [inserted_row q]" "aliases s' = aliases s"
    and "(p_id q, p_owner q) \<in> set (project_members s')"
    and "\<exists>t. project_violation t (projects s) (inserted_row q) = None"
proof -
  let ?q = "create_defaults (p\<lparr>p_id := db_uuid s (db_next s), p_created := db_now s, p_updated := db_now s\<rparr>)"
  have r: "run_state (insert_project ?q) (s\<lparr>db_next := Suc (db_next s)\<rparr>) = (Inr q, s')"
    using assms by (simp add: CreateProject_def)
  show "q = ?q" "projects s' = projects s @ [inserted_row q]" "aliases s' = aliases s"
      "(p_id q, p_owner q) \<in> set (project_members s')" "\<exists>t. project_violation t (projects s) (inserted_row q) = None"
    using insert_project_Inr [OF r] by auto
qed

lemma write_project_cases:
  assumes "run_state (write_project p) s = (r, s')"
  shows "same_db s s' \<and> (\<forall>x. r = Inr x \<longrightarrow> project_by s (p_id p) = None) \<or>
    (\<exists>row t. r = Inr p \<and> project_by s (p_id p) = Some row \<and> project_violation t (others (p_id p) s) (updated_row p row) = None
      \<and> projects s' = upd_where (\<lambda>q. p_id q = p_id p) (updated_row p) (projects s)
      \<and> aliases s' = aliases s \<and> project_members s' = project_members s)"
  using assms
  by (auto simp: write_project_def run_sql same_db_def popped_def project_by_def others_def split: option.splits)

lemma updated_row_fields [simp]:
  "p_id (updated_row p r) = p_id r" "p_owner (updated_row p r) = p_owner r" "p_type (updated_row p r) = p_type r"
  "p_domain_prefix (updated_row p r) = p_domain_prefix p" "p_name (updated_row p r) = p_name p"
  by (simp_all add: updated_row_def)

lemma find_append_none: "\<forall>x \<in> set xs. \<not> P x \<Longrightarrow> find P (xs @ ys) = find P ys"
  by (induction xs) auto

lemma upd_where_only:
  "\<forall>q \<in> set xs. k q \<noteq> k r \<Longrightarrow> upd_where (\<lambda>q. k q = k r) f (xs @ [r]) = xs @ [f r]"
  by (simp add: upd_where_none)

text \<open>The repository of a hosted project changes its own row only.\<close>

lemma host_repository_Inr:
  assumes "run_state (host_repository cfg q) s = (Inr r, s')" and "projects s = ps @ [row]"
    and "p_id row = p_id q" and "\<forall>p \<in> set ps. p_id p \<noteq> p_id q"
  shows "same_routing q r \<and> p_type r = p_type q \<and> aliases s' = aliases s \<and> project_members s' = project_members s
    \<and> (\<exists>row'. projects s' = ps @ [row'] \<and> p_id row' = p_id q \<and> p_owner row' = p_owner row
        \<and> p_domain_prefix row' \<in> {p_domain_prefix row, p_domain_prefix q})"
proof (cases "uses_git q")
  case False
  then show ?thesis using assms by (simp add: host_repository_def ok_Inr)
next
  case True
  define q1 where "q1 = q\<lparr>p_git_url := ''hosted://'' @ p_id q\<rparr>"
  define r1 where "r1 = update_defaults (db_now s) q1"
  define r2 where "r2 = update_defaults (db_now s) r1"
  obtain u where w: "run_state (write_project r2) s = (u, s')" and r: "r = r1"
    using assms(1) True unfolding r2_def r1_def q1_def
    by (auto simp: host_repository_def UpdateProject_def Let_def ok_Inr split: option.splits prod.splits)
  have "same_routing q q1" by (simp add: q1_def same_routing_def)
  moreover have "same_routing q1 r1" "same_routing r1 r2" unfolding r1_def r2_def by (rule update_defaults_routing)+
  ultimately have sr: "same_routing q r" "p_id r2 = p_id q" "p_domain_prefix r2 = p_domain_prefix q"
    unfolding r by (simp_all add: same_routing_def)
  have ty: "p_type r = p_type q" using True unfolding r r1_def q1_def
    by (simp add: update_defaults_def triggers_default_def default_access_def port_default_def)
  have found: "project_by s (p_id q) = Some row"
    using assms(2-4) by (simp add: project_by_def find_append_none)
  have upd: "upd_where (\<lambda>x. p_id x = p_id q) (updated_row r2) (projects s) = ps @ [updated_row r2 row]"
    using upd_where_only [of ps p_id row] assms(2-4) by simp
  have "same_db s s' \<or> projects s' = ps @ [updated_row r2 row] \<and> aliases s' = aliases s \<and> project_members s' = project_members s"
    using write_project_cases [OF w] found upd sr by auto
  then show ?thesis using sr ty assms(2,3) by (auto simp: same_db_tables)
qed


end
