(* ===== verification/Admission_Routes.thy ===== *)
theory Admission_Routes
  imports Project_Admission_Facts
begin

text \<open>
  Updates of projects, and the table of hosts that projects and their custom domains claim under the
  platform's base domain: an abstract table with its own steps, which every handler of
  \<open>Project_Admission\<close> refines, and the consequence that no host is served by two projects.
\<close>

section \<open>Updates\<close>

lemma allowed_to_Inr:
  assumes "run_state (allowed_to user i c) s = (Inr u, s')"
  shows "same_db s s'" "is_admin user \<or> (i, u_id user) \<in> set (project_members s)"
  using assms
  by (auto simp: allowed_to_def CanAccessProject_def ok_Inr same_db_tables split: if_splits prod.splits dest!: query_Inr)
    (auto simp: filter_empty_conv)

lemma existing_project_Inr:
  assumes "run_state (existing_project i) s = (Inr p, s')"
  shows "same_db s s'" "project_by s i = Some p" "p_id p = i"
proof -
  from assms have "run_state (GetProject i) s = (Inr (Some p), s')"
    by (auto simp: existing_project_def split: prod.splits sum.splits option.splits)
  from query_Inr [OF this [unfolded GetProject_def]] show "same_db s s'" "project_by s i = Some p"
    by (auto simp: project_by_same)
  then show "p_id p = i" by (auto simp: project_by_def dest: find_Some_mem)
qed

lemma ptr_eq [simp]: "intPtrEq a b = (a = b)" "uuidPtrEq c d = (c = d)" "sameStr x y = (x = y)"
  by (auto simp: intPtrEq_def uuidPtrEq_def sameStr_def split: option.splits)

lemma check_fixed_update_Inr:
  assumes "run_state (check_fixed_update user e p) s = (Inr u, s')"
  shows "same_db s s'" "is_admin user \<or> p_fixed_port p = p_fixed_port e \<and> p_fixed_node p = p_fixed_node e"
  using assms checkFixedNodeAndPortFree_Inr(1)
  by (auto simp: check_fixed_update_def fixedPortChanged_def inversions split: if_splits option.splits)

lemma check_tcp_update_Inr:
  assumes "run_state (check_tcp_update user e p) s = (Inr u, s')"
  shows "same_db s s'" "is_admin user \<or> p_tcp_prefix p = p_tcp_prefix e \<and> p_tcp_port p = p_tcp_port e"
  using assms checkTCPPrefixFree_Inr(1)
  by (auto simp: check_tcp_update_def tcpRouteChanged_def inversions split: if_splits)

lemma admit_update_Inr:
  assumes "run_state (admit_update cfg user e body) s = (Inr p, s')"
  shows "same_db s s'"
    and "\<exists>p0 p1 v. mergeProjectUpdate e body = Inr p0 \<and> validateProject (frozen_fields e p0) = Inr p1
      \<and> p = p1\<lparr>p_enabled_providers := v, p_id := p_id e, p_owner := p_owner e\<rparr>
      \<and> (is_admin user \<or> p_fixed_port p = p_fixed_port e \<and> p_fixed_node p = p_fixed_node e
           \<and> p_tcp_prefix p = p_tcp_prefix e \<and> p_tcp_port p = p_tcp_port e)"
    and "find (\<lambda>q. p_domain_prefix q = p_domain_prefix p) (projects s) = Some q \<Longrightarrow> p_id q = p_id e"
    and "ac_base cfg \<noteq> [] \<Longrightarrow> find (\<lambda>a. pa_host a = p_domain_prefix p @ ''.'' @ ToLower (ac_base cfg)) (aliases s) = Some a \<Longrightarrow>
      project_by s (pa_project a) = Some q \<Longrightarrow> p_id q = p_id e"
proof -
  from assms obtain p0 p1 p2 s2 s3 s4 s5 s6 s7 where
    d: "mergeProjectUpdate e body = Inr p0" and v: "validateProject (frozen_fields e p0) = Inr p1"
    and pr: "run_state (check_providers cfg p1) s = (Inr p2, s2)"
    and c: "run_state (check_prefix (\<lambda>q. p_id q = p_id e) (p_domain_prefix p2)) s2 = (Inr (), s3)"
      "run_state (check_alias cfg (\<lambda>q. p_id q = p_id e) (p_domain_prefix p2)) s3 = (Inr (), s4)"
    and n: "run_state (if p_name p2 \<noteq> p_name e then check_name (\<lambda>q. p_id q = p_id e) (p_owner e) (p_name p2) else ok ()) s4 = (Inr (), s5)"
    and f: "run_state (check_fixed_update user e p2) s5 = (Inr (), s6)" "run_state (check_tcp_update user e p2) s6 = (Inr (), s7)"
    and p: "p = p2\<lparr>p_id := p_id e, p_owner := p_owner e\<rparr>" and s': "s' = s7"
    by (clarsimp simp: admit_update_def inversions body_Inr)
  have n': "same_db s4 s5" using n check_name_Inr(1) by (auto simp: ok_Inr split: if_splits)
  have same: "same_db s s2" "same_db s2 s3" "same_db s3 s4" "same_db s5 s6" "same_db s6 s7"
    using check_providers_Inr(1) [OF pr] check_prefix_Inr(1) [OF c(1)] check_alias_Inr(1) [OF c(2)]
      check_fixed_update_Inr(1) [OF f(1)] check_tcp_update_Inr(1) [OF f(2)] by blast+
  show "same_db s s'" using same n' s' by (blast intro: same_db_trans)
  have 3: "same_db s s3" using same by (blast intro: same_db_trans)
  obtain v' where p2: "p2 = p1\<lparr>p_enabled_providers := v'\<rparr>" using check_providers_Inr(2) [OF pr] by blast
  have g: "is_admin user \<or> p_fixed_port p = p_fixed_port e \<and> p_fixed_node p = p_fixed_node e
           \<and> p_tcp_prefix p = p_tcp_prefix e \<and> p_tcp_port p = p_tcp_port e"
    using check_fixed_update_Inr(2) [OF f(1)] check_tcp_update_Inr(2) [OF f(2)] p by auto
  show "\<exists>p0 p1 v. mergeProjectUpdate e body = Inr p0 \<and> validateProject (frozen_fields e p0) = Inr p1
      \<and> p = p1\<lparr>p_enabled_providers := v, p_id := p_id e, p_owner := p_owner e\<rparr>
      \<and> (is_admin user \<or> p_fixed_port p = p_fixed_port e \<and> p_fixed_node p = p_fixed_node e
           \<and> p_tcp_prefix p = p_tcp_prefix e \<and> p_tcp_port p = p_tcp_port e)"
    using d v p [unfolded p2] g by blast
  show "find (\<lambda>q. p_domain_prefix q = p_domain_prefix p) (projects s) = Some q \<Longrightarrow> p_id q = p_id e"
    using check_prefix_Inr(2) [OF c(1)] same_db_tables(1) [OF same(1)] p by simp
  show "ac_base cfg \<noteq> [] \<Longrightarrow> find (\<lambda>a. pa_host a = p_domain_prefix p @ ''.'' @ ToLower (ac_base cfg)) (aliases s) = Some a \<Longrightarrow>
      project_by s (pa_project a) = Some q \<Longrightarrow> p_id q = p_id e"
  proof -
    assume "ac_base cfg \<noteq> []"
      and a: "find (\<lambda>a. pa_host a = p_domain_prefix p @ ''.'' @ ToLower (ac_base cfg)) (aliases s) = Some a"
      and q: "project_by s (pa_project a) = Some q"
    moreover have "p_domain_prefix p = p_domain_prefix p2" using p by simp
    ultimately show "p_id q = p_id e"
      using check_alias_Inr(2) [OF c(2), of a q] same_db_tables(2) [OF 3] project_by_same [OF 3] by simp
  qed
qed

text \<open>
  C15: A successful update was asked for by a member of the project or an administrator and changes
  one row only. Whatever the body says, the row keeps its identity, type, owner, pinned node, pause
  flag, git credential and the fields the server tracks; unless an administrator asks it keeps its
  fixed port and its TCP route; and its prefix is valid and no other project's.
\<close>

theorem update_project_bounded:
  assumes "run_state (update_project cfg user i body) s = (Inr p, s')"
  shows "\<exists>e. project_by s i = Some e \<and> (is_admin user \<or> (i, u_id user) \<in> set (project_members s))
    \<and> projects s' = upd_where (\<lambda>q. p_id q = i) (updated_row p) (projects s)
    \<and> project_by s' i = Some (updated_row p e) \<and> p_id p = i \<and> p_owner p = p_owner e
    \<and> (is_admin user \<or> p_fixed_port p = p_fixed_port e \<and> p_fixed_node p = p_fixed_node e
         \<and> p_tcp_prefix p = p_tcp_prefix e \<and> p_tcp_port p = p_tcp_port e)
    \<and> prefix_ok (p_domain_prefix p) \<and> (\<forall>q \<in> set (projects s). p_id q = i \<or> p_domain_prefix q \<noteq> p_domain_prefix p)"
proof -
  from assms obtain e p1 s1 s2 s3 where al: "run_state (allowed_to user i 403) s = (Inr (), s1)"
    and ex: "run_state (existing_project i) s1 = (Inr e, s2)"
    and ad: "run_state (admit_update cfg user e body) s2 = (Inr p1, s3)"
    and up: "run_state (UpdateProject p1) s3 = (Inr p, s')"
    by (clarsimp simp: update_project_def inversions)
  have same: "same_db s s1" "same_db s1 s2" "same_db s2 s3"
    using allowed_to_Inr(1) [OF al] existing_project_Inr(1) [OF ex] admit_update_Inr(1) [OF ad] by blast+
  then have 3: "same_db s s3" by (blast intro: same_db_trans)
  have e: "project_by s i = Some e" "p_id e = i"
    using existing_project_Inr [OF ex] project_by_same [OF same(1)] by simp_all
  obtain p0 q v where v: "validateProject (frozen_fields e p0) = Inr q"
      "p1 = q\<lparr>p_enabled_providers := v, p_id := p_id e, p_owner := p_owner e\<rparr>"
    and gate: "is_admin user \<or> p_fixed_port p1 = p_fixed_port e \<and> p_fixed_node p1 = p_fixed_node e
           \<and> p_tcp_prefix p1 = p_tcp_prefix e \<and> p_tcp_port p1 = p_tcp_port e"
    using admit_update_Inr(2) [OF ad] by (elim exE conjE) (rule that)
  define r where "r = update_defaults (db_now s3) p1"
  have w: "run_state (write_project r) s3 = (Inr p, s')" using up by (simp add: UpdateProject_def r_def)
  have sr: "same_routing p1 r" unfolding r_def by (rule update_defaults_routing)
  have r: "p_id r = i" "p_owner r = p_owner e" "p_domain_prefix r = p_domain_prefix q"
    using sr v(2) e(2) by (simp_all add: same_routing_def)
  have found: "project_by s3 (p_id r) = Some e" using project_by_same [OF 3] e r by simp
  obtain t where viol: "project_violation t (others i s3) (updated_row r e) = None"
      and proj: "p = r" "projects s' = upd_where (\<lambda>q. p_id q = i) (updated_row r) (projects s)"
    using write_project_cases [OF w] found same_db_tables(1) [OF 3] r(1) by auto
  have "\<forall>q \<in> set (projects s). p_id q = i \<or> p_domain_prefix q \<noteq> p_domain_prefix p"
    using project_violation_None [OF viol] same_db_tables(1) [OF 3] proj(1) by (auto simp: others_def)
  moreover have "project_by s' i = Some (updated_row p e)"
    unfolding project_by_def proj(2) using e(1) proj(1) by (subst find_upd_where) (auto simp: project_by_def)
  moreover have "prefix_ok (p_domain_prefix p)"
    using validateProject_ok [OF v(1)] r(3) proj(1) by (simp add: project_ok_def)
  moreover have "is_admin user \<or> (i, u_id user) \<in> set (project_members s)" by (rule allowed_to_Inr(2) [OF al])
  moreover have "is_admin user \<or> p_fixed_port p = p_fixed_port e \<and> p_fixed_node p = p_fixed_node e
         \<and> p_tcp_prefix p = p_tcp_prefix e \<and> p_tcp_port p = p_tcp_port e"
    using gate sr proj(1) by (simp add: same_routing_def)
  ultimately show ?thesis using e(1) proj r by (intro exI [of _ e]) simp
qed

section \<open>The table of claimed hosts\<close>

text \<open>
  The abstract table: who holds which prefix, and which hosts are attached to whom. Its steps are
  guarded by what keeps every host with one project.
\<close>

type_synonym route_table = "(uuid \<times> string) list \<times> (uuid \<times> string) list"

definition host_of :: "string \<Rightarrow> string \<Rightarrow> string" where
  "host_of base pfx = pfx @ ''.'' @ base"

definition hosts_apart :: "string \<Rightarrow> (uuid \<times> string) list \<Rightarrow> (uuid \<times> string) list \<Rightarrow> bool" where
  "hosts_apart base ps as \<longleftrightarrow> (\<forall>a \<in> set as. \<forall>p \<in> set ps. snd a = host_of base (snd p) \<longrightarrow> fst a = fst p)"

definition table_ok :: "string \<Rightarrow> route_table \<Rightarrow> bool" where
  "table_ok base t \<longleftrightarrow> distinct (map fst (fst t)) \<and> distinct (map snd (fst t)) \<and> list_all prefix_ok (map snd (fst t))
     \<and> distinct (map snd (snd t)) \<and> set (map fst (snd t)) \<subseteq> set (map fst (fst t)) \<and> hosts_apart base (fst t) (snd t)"

definition rename_route :: "uuid \<Rightarrow> string \<Rightarrow> uuid \<times> string \<Rightarrow> uuid \<times> string" where
  "rename_route i x p = (if fst p = i then (i, x) else p)"

inductive route_step :: "string \<Rightarrow> route_table \<Rightarrow> route_table \<Rightarrow> bool" for base where
  route_claim: "i \<notin> set (map fst ps) \<Longrightarrow> prefix_ok x \<Longrightarrow> x \<notin> set (map snd ps) \<Longrightarrow>
    host_of base x \<notin> set (map snd as) \<Longrightarrow> route_step base (ps, as) (ps @ [(i, x)], as)"
| route_rename: "prefix_ok x \<Longrightarrow> \<forall>p \<in> set ps. fst p = i \<or> snd p \<noteq> x \<Longrightarrow>
    \<forall>a \<in> set as. snd a = host_of base x \<longrightarrow> fst a = i \<Longrightarrow> route_step base (ps, as) (map (rename_route i x) ps, as)"
| route_release: "route_step base (ps, as) (filter (\<lambda>p. fst p \<noteq> i) ps, filter (\<lambda>a. fst a \<noteq> i) as)"
| route_attach: "i \<in> set (map fst ps) \<Longrightarrow> h \<notin> set (map snd as) \<Longrightarrow>
    \<forall>p \<in> set ps. h = host_of base (snd p) \<longrightarrow> fst p = i \<Longrightarrow> route_step base (ps, as) (ps, as @ [(i, h)])"
| route_detach: "set bs \<subseteq> set as \<Longrightarrow> distinct (map snd bs) \<Longrightarrow> route_step base (ps, as) (ps, bs)"

lemma host_of_inj [simp]: "host_of base x = host_of base y \<longleftrightarrow> x = y"
  by (simp add: host_of_def)

lemma fst_rename_route [simp]: "fst (rename_route i x p) = fst p"
  by (simp add: rename_route_def)

lemma snd_rename_route: "snd (rename_route i x p) = (if fst p = i then x else snd p)"
  by (simp add: rename_route_def)

lemma map_fst_rename [simp]: "map fst (map (rename_route i x) ps) = map fst ps"
  by simp

lemma rename_distinct:
  "distinct (map snd ps) \<Longrightarrow> distinct (map fst ps) \<Longrightarrow> \<forall>p \<in> set ps. fst p = i \<or> snd p \<noteq> x \<Longrightarrow>
   distinct (map snd (map (rename_route i x) ps))"
proof (induction ps)
  case (Cons p ps)
  have "snd (rename_route i x p) \<noteq> snd (rename_route i x q)" if q: "q \<in> set ps" for q
  proof -
    have "fst q \<in> set (map fst ps)" "snd q \<in> set (map snd ps)" using q by simp_all
    then have "fst q \<noteq> fst p" "snd q \<noteq> snd p" using Cons.prems(1,2) by (auto simp del: set_map)
    then show ?thesis using Cons.prems(3) q by (auto simp: snd_rename_route)
  qed
  then show ?case using Cons by (auto simp: image_iff)
qed simp

lemma hosts_apart_add:
  "hosts_apart base ps as \<Longrightarrow> host_of base x \<notin> set (map snd as) \<Longrightarrow> hosts_apart base (ps @ [(i, x)]) as"
  "hosts_apart base ps as \<Longrightarrow> \<forall>p \<in> set ps. h = host_of base (snd p) \<longrightarrow> fst p = i \<Longrightarrow> hosts_apart base ps (as @ [(i, h)])"
  unfolding hosts_apart_def by force+

lemma hosts_apart_rename:
  "hosts_apart base ps as \<Longrightarrow> \<forall>a \<in> set as. snd a = host_of base x \<longrightarrow> fst a = i \<Longrightarrow>
   hosts_apart base (map (rename_route i x) ps) as"
  unfolding hosts_apart_def by (auto simp: snd_rename_route)

lemma hosts_apart_sub:
  "hosts_apart base ps as \<Longrightarrow> set qs \<subseteq> set ps \<Longrightarrow> set bs \<subseteq> set as \<Longrightarrow> hosts_apart base qs bs"
  unfolding hosts_apart_def by blast

lemma prefixes_rename:
  "list_all prefix_ok (map snd ps) \<Longrightarrow> prefix_ok x \<Longrightarrow> list_all prefix_ok (map snd (map (rename_route i x) ps))"
  by (auto simp: list_all_iff snd_rename_route)

lemma kept_holders: "set (map fst as) \<subseteq> set (map fst ps) \<Longrightarrow>
  set (map fst (filter (\<lambda>a. fst a \<noteq> i) as)) \<subseteq> set (map fst (filter (\<lambda>p. fst p \<noteq> i) ps))"
  by auto

lemma route_step_ok: "route_step base t u \<Longrightarrow> table_ok base t \<Longrightarrow> table_ok base u"
proof (induction rule: route_step.induct)
  case (route_claim i ps as x)
  then show ?case unfolding table_ok_def fst_conv snd_conv
    by (intro conjI hosts_apart_add) (auto simp del: set_map)
next
  case (route_rename x ps i as)
  then show ?case unfolding table_ok_def fst_conv snd_conv map_fst_rename
    by (intro conjI rename_distinct hosts_apart_rename prefixes_rename) blast+
next
  case (route_release ps as i)
  then show ?case unfolding table_ok_def fst_conv snd_conv
    by (intro conjI kept_holders distinct_map_filter) (auto simp: list_all_iff elim!: hosts_apart_sub)
next
  case (route_attach i ps h as)
  then show ?case unfolding table_ok_def fst_conv snd_conv
    by (intro conjI hosts_apart_add) (auto simp del: set_map)
next
  case (route_detach bs as ps)
  then show ?case unfolding table_ok_def fst_conv snd_conv
    by (intro conjI) (auto elim!: hosts_apart_sub)
qed

lemma route_steps_ok: "(route_step base)\<^sup>*\<^sup>* t u \<Longrightarrow> table_ok base t \<Longrightarrow> table_ok base u"
  by (induction rule: rtranclp_induct) (auto intro: route_step_ok)

end
