(* ===== verification/Route_Table.thy ===== *)
theory Route_Table
  imports Admission_Routes
begin

text \<open>
  The handlers of \<open>Project_Admission\<close> refine the abstract table of hosts of \<open>Admission_Routes\<close>:
  whatever a request does and wherever it fails, what it leaves in the tables is what some steps of
  the abstract table leave. So no host under the platform's base domain ever belongs to two projects.
\<close>

section \<open>Steps of the handlers\<close>

definition route_view :: "db \<Rightarrow> route_table" where
  "route_view s = (map (\<lambda>p. (p_id p, p_domain_prefix p)) (projects s), map (\<lambda>a. (pa_project a, pa_host a)) (aliases s))"

text \<open>One request to the handlers of projects and custom domains, or anything that leaves both tables alone.\<close>

inductive admission_step :: "admission_cfg \<Rightarrow> db \<Rightarrow> db \<Rightarrow> bool" for cfg where
  step_create: "run_state (create_project cfg user body) s = (r, s') \<Longrightarrow> admission_step cfg s s'"
| step_update: "run_state (update_project cfg user i body) s = (r, s') \<Longrightarrow> admission_step cfg s s'"
| step_owner: "run_state (changeProjectOwner i owner) s = (r2, s') \<Longrightarrow> admission_step cfg s s'"
| step_delete: "run_state (DeleteProject i) s = (r3, s') \<Longrightarrow> admission_step cfg s s'"
| step_alias: "run_state (createProjectAlias cfg user i host) s = (r4, s') \<Longrightarrow> admission_step cfg s s'"
| step_unalias: "run_state (deleteProjectAlias user i a) s = (r5, s') \<Longrightarrow> admission_step cfg s s'"
| step_else: "projects s' = projects s \<Longrightarrow> aliases s' = aliases s \<Longrightarrow> admission_step cfg s s'"

section \<open>Views of the statements\<close>

lemma view_same: "same_db s s' \<Longrightarrow> route_view s' = route_view s"
  by (simp add: route_view_def same_db_tables)

lemma view_reads: "reads_only m \<Longrightarrow> run_state m s = (r, s') \<Longrightarrow> route_view s' = route_view s"
  by (rule view_same [OF reads_same])

lemma attempt_cases:
  assumes "run_state (attempt m k) s = (r, s')"
  obtains (failed) e where "run_state m s = (Inl e, s')"
  | (went) x s1 where "run_state m s = (Inr x, s1)" "run_state (k x) s1 = (r, s')"
  using assms by (cases "run_state m s") (auto simp: run_attempt split: sum.splits)

lemma attempt_assoc: "attempt (attempt m f) g = attempt m (\<lambda>x. attempt (f x) g)"
  by (rule state.expand) (auto simp: fun_eq_iff run_attempt split: prod.splits sum.splits)

lemma or_status_run: "run_state (or_status c m) s = (r, s') \<Longrightarrow> \<exists>r0. run_state m s = (r0, s')"
  by (auto simp: or_status_def split: prod.splits)

lemma reads_only_require [reads_intros]: "reads_only (require b c e)"
  unfolding require_def by (intro reads_intros)

lemma reads_only_or_status [reads_intros]: "reads_only m \<Longrightarrow> reads_only (or_status c m)"
  unfolding or_status_def by (intro reads_intros)

lemma reads_only_lift_rule [reads_intros]: "reads_only (lift_rule r)"
  unfolding lift_rule_def by (intro reads_intros)

lemma reads_only_queries [reads_intros]:
  "reads_only (GetProjectByDomainPrefix p)" "reads_only (GetProjectByAliasHost h)" "reads_only (GetSetting k)"
  "reads_only (GetProjectByOwnerAndName o1 n)" "reads_only (GetNode nid)" "reads_only (IsFixedPortInUse nid port ex)"
  "reads_only (IsTCPDomainPrefixTaken p ex)" "reads_only (GetUserByID i)" "reads_only (GetProjectAlias i)"
  "reads_only (GetProject i)"
  unfolding GetProjectByDomainPrefix_def GetProjectByAliasHost_def GetSetting_def GetProjectByOwnerAndName_def GetNode_def
    IsFixedPortInUse_def IsTCPDomainPrefixTaken_def GetUserByID_def GetProjectAlias_def GetProject_def
  by (intro reads_intros)+

lemma reads_only_CanAccessProject [reads_intros]: "reads_only (CanAccessProject u i b)"
  unfolding CanAccessProject_def by (intro reads_intros)

lemma reads_only_checks [reads_intros]:
  "reads_only (check_prefix mine pfx)" "reads_only (check_alias cfg mine pfx)" "reads_only (check_name mine o1 n)"
  "reads_only (checkFixedNodeAndPortFree nid port ex)" "reads_only (checkTCPPrefixFree p ex)"
  unfolding check_prefix_def check_alias_def check_name_def checkFixedNodeAndPortFree_def checkTCPPrefixFree_def
  by (intro reads_intros)+

lemma reads_only_settings [reads_intros]:
  "reads_only (check_providers cfg p)" "reads_only (checkProjectTypeEnabled t)"
  unfolding check_providers_def knownProviderIDs_def checkProjectTypeEnabled_def enabledProjectTypes_def
  by (intro reads_intros)+

lemma reads_only_gates [reads_intros]:
  "reads_only (check_fixed_new user p)" "reads_only (check_tcp_new user p)"
  "reads_only (check_fixed_update user e p)" "reads_only (check_tcp_update user e p)"
  unfolding check_fixed_new_def check_tcp_new_def check_fixed_update_def check_tcp_update_def
  by (auto intro!: reads_intros split: option.splits)

lemma reads_only_admit [reads_intros]: "reads_only (admit_new cfg user body)" "reads_only (admit_update cfg user e body)"
  unfolding admit_new_def admit_update_def by (intro reads_intros)+

lemma reads_only_access [reads_intros]:
  "reads_only (allowed_to user i c)" "reads_only (existing_project i)" "reads_only (owner_or_admin user p)"
  unfolding allowed_to_def existing_project_def owner_or_admin_def by (intro reads_intros)+

lemma view_delete:
  "run_state (DeleteProject i) s = (r, s') \<Longrightarrow> route_view s' = route_view s \<or>
   route_view s' = (filter (\<lambda>p. fst p \<noteq> i) (fst (route_view s)), filter (\<lambda>a. fst a \<noteq> i) (snd (route_view s)))"
  by (auto simp: DeleteProject_def run_exec popped_def route_view_def delete_project_def Let_def filter_map o_def
      split: option.splits)

lemma view_upd_where:
  assumes "projects s' = upd_where (\<lambda>q. p_id q = i) (updated_row p) (projects s)" "aliases s' = aliases s"
  shows "route_view s' = (map (rename_route i (p_domain_prefix p)) (fst (route_view s)), snd (route_view s))"
  using assms by (simp add: route_view_def upd_where_def rename_route_def o_def)

lemma view_write:
  assumes "run_state (write_project p) s = (r, s')"
  shows "route_view s' = route_view s \<or>
    (route_view s' = (map (rename_route (p_id p) (p_domain_prefix p)) (fst (route_view s)), snd (route_view s))
     \<and> (\<exists>t row. project_by s (p_id p) = Some row \<and> project_violation t (others (p_id p) s) (updated_row p row) = None))"
  using write_project_cases [OF assms] view_same view_upd_where by blast

lemma view_insert_member: "run_state (insert_member pid uid) s = (r, s') \<Longrightarrow> route_view s' = route_view s"
  by (auto simp: insert_member_def run_sql popped_def route_view_def split: option.splits if_splits)

lemma insert_project_any:
  assumes "run_state (insert_project p) s = (r, s')"
  shows "route_view s' = route_view s \<or>
    (route_view s' = (fst (route_view s) @ [(p_id p, p_domain_prefix p)], snd (route_view s))
     \<and> (\<exists>t. project_violation t (projects s) (inserted_row p) = None))"
proof -
  let ?ins = "sql (\<lambda>s. case project_violation s (projects s) (inserted_row p) of
         Some e \<Rightarrow> Inl e | None \<Rightarrow> Inr ((), s\<lparr>projects := projects s @ [inserted_row p]\<rparr>))"
  from assms have "run_state (attempt ?ins (\<lambda>_. attempt (insert_member (p_id p) (p_owner p)) (\<lambda>_. ok p))) s = (r, s')"
    by (simp add: insert_project_def)
  then show ?thesis
  proof (cases rule: attempt_cases)
    case (failed e)
    then show ?thesis by (auto simp: run_sql popped_def route_view_def split: option.splits)
  next
    case (went x s1)
    have "route_view s' = route_view s1" using went(2)
      by (cases rule: attempt_cases) (auto simp: ok_def dest: view_insert_member)
    then show ?thesis using went(1)
      by (auto simp: run_sql popped_def route_view_def inserted_row_def split: option.splits)
  qed
qed

section \<open>Creation and deletion\<close>

lemma rename_same: "\<forall>p \<in> set ps. fst p = i \<longrightarrow> snd p = x \<Longrightarrow> map (rename_route i x) ps = ps"
  by (rule map_idI) (auto simp: rename_route_def prod_eq_iff)

lemma host_repository_view:
  assumes "run_state (host_repository cfg q) s = (r, s')" "route_view s = (ps @ [(p_id q, p_domain_prefix q)], as)"
    "p_id q \<notin> set (map fst ps)"
  shows "route_view s' = route_view s \<or>
    route_view s' = (filter (\<lambda>p. fst p \<noteq> p_id q) (fst (route_view s)), filter (\<lambda>a. fst a \<noteq> p_id q) (snd (route_view s)))"
proof (cases "uses_git q")
  case False
  then show ?thesis using assms by (simp add: host_repository_def ok_def)
next
  case True
  show ?thesis
  proof (cases "ac_init_repo cfg (p_id q)")
    case (Some e)
    then obtain r0 where "run_state (DeleteProject (p_id q)) s = (r0, s')"
      using True assms(1) by (auto simp: host_repository_def split: prod.splits)
    then show ?thesis by (rule view_delete)
  next
    case None
    define q1 where "q1 = q\<lparr>p_git_url := ''hosted://'' @ p_id q\<rparr>"
    define r2 where "r2 = update_defaults (db_now s) (update_defaults (db_now s) q1)"
    obtain u where w: "run_state (write_project r2) s = (u, s')"
      using True None assms(1) unfolding r2_def q1_def
      by (auto simp: host_repository_def UpdateProject_def Let_def ok_def split: prod.splits)
    have "same_routing q q1" by (simp add: q1_def same_routing_def)
    then have r2: "p_id r2 = p_id q" "p_domain_prefix r2 = p_domain_prefix q"
      using update_defaults_routing [of q1 "db_now s"] update_defaults_routing [of "update_defaults (db_now s) q1" "db_now s"]
      unfolding r2_def by (simp_all add: same_routing_def)
    have "map (rename_route (p_id q) (p_domain_prefix q)) (fst (route_view s)) = fst (route_view s)"
      using assms(2,3) by (intro rename_same) (force simp: image_iff)
    then show ?thesis using view_write [OF w] r2 by auto
  qed
qed

lemma table_keys:
  assumes "table_ok base (route_view s)"
  shows "q \<in> set (projects s) \<Longrightarrow> prefix_ok (p_domain_prefix q)"
    and "a \<in> set (aliases s) \<Longrightarrow> project_by s (pa_project a) \<noteq> None"
    and "distinct (map pa_host (aliases s))" and "distinct (map p_id (projects s))"
proof -
  have fk: "pa_project ` set (aliases s) \<subseteq> p_id ` set (projects s)"
    using assms by (simp add: table_ok_def route_view_def image_image)
  show "project_by s (pa_project a) \<noteq> None" if a: "a \<in> set (aliases s)"
  proof -
    have "pa_project a \<in> p_id ` set (projects s)" using fk a by blast
    then obtain p where "p \<in> set (projects s)" "p_id p = pa_project a" by (metis imageE)
    then show ?thesis using find_None_all [of "\<lambda>q. p_id q = pa_project a" "projects s" p] by (auto simp: project_by_def)
  qed
  show "q \<in> set (projects s) \<Longrightarrow> prefix_ok (p_domain_prefix q)"
    using assms by (simp add: table_ok_def route_view_def list_all_iff)
  show "distinct (map pa_host (aliases s))" "distinct (map p_id (projects s))"
    using assms by (simp_all add: table_ok_def route_view_def o_def)
qed
lemma find_by_key: "distinct (map k xs) \<Longrightarrow> a \<in> set xs \<Longrightarrow> find (\<lambda>x. k x = k a) xs = Some a"
  by (induction xs) auto

lemma no_alias_host:
  assumes "table_ok base (route_view s)"
    and free: "\<And>a. find (\<lambda>a. pa_host a = h) (aliases s) = Some a \<Longrightarrow> project_by s (pa_project a) = None"
  shows "h \<notin> set (map snd (snd (route_view s)))"
proof -
  have "find (\<lambda>a. pa_host a = h) (aliases s) = None"
  proof (cases "find (\<lambda>a. pa_host a = h) (aliases s)")
    case (Some a)
    then have "a \<in> set (aliases s)" by (auto dest: find_Some_mem)
    then show ?thesis using free [OF Some] table_keys(2) [OF assms(1)] by blast
  qed
  then show ?thesis by (auto simp: route_view_def find_None_iff)
qed

lemma create_refines:
  assumes run: "run_state (create_project cfg user body) s = (r, s')" and ok: "table_ok (ac_base cfg) (route_view s)"
    and base: "ac_base cfg \<noteq> []" "ToLower (ac_base cfg) = ac_base cfg"
  shows "(route_step (ac_base cfg))\<^sup>*\<^sup>* (route_view s) (route_view s')"
proof -
  let ?b = "ac_base cfg"
  from run have "run_state (attempt (admit_new cfg user body) (\<lambda>p.
     attempt (or_status 500 (CreateProject p)) (\<lambda>created. host_repository cfg created))) s = (r, s')"
    by (simp only: create_project_def)
  then show ?thesis
  proof (cases rule: attempt_cases)
    case (failed e)
    then show ?thesis using view_reads [OF reads_only_admit(1)] by simp
  next
    case (went p s1)
    define q where "q = create_defaults (p\<lparr>p_id := db_uuid s1 (db_next s1), p_created := db_now s1, p_updated := db_now s1\<rparr>)"
    define s1' where "s1' = s1\<lparr>db_next := Suc (db_next s1)\<rparr>"
    have same: "same_db s s1" by (rule admit_new_Inr(1) [OF went(1)])
    have v1: "route_view s1' = route_view s" "projects s1' = projects s"
      using view_same [OF same] same_db_tables(1) [OF same] by (simp_all add: s1'_def route_view_def)
    have q: "p_domain_prefix q = p_domain_prefix p"
      using create_defaults_routing unfolding q_def by (simp add: same_routing_def)
    obtain p1 v where p1: "validateProject (p1 :: project) = Inr v" "p_domain_prefix p = p_domain_prefix v"
      using admit_new_Inr(2) [OF went(1)] by auto
    have pok: "prefix_ok (p_domain_prefix q)" using validateProject_ok [OF p1(1)] p1(2) q by (simp add: project_ok_def)
    have host: "host_of ?b (p_domain_prefix q) \<notin> set (map snd (snd (route_view s)))"
      using no_alias_host [OF ok] admit_new_Inr(4) [OF went(1) base(1)] base(2) q unfolding host_of_def by simp
    have create: "run_state (CreateProject p) s1 = run_state (insert_project q) s1'"
      by (simp add: CreateProject_def q_def s1'_def)
    let ?claimed = "(fst (route_view s) @ [(p_id q, p_domain_prefix q)], snd (route_view s))"
    have claim: "route_step ?b (route_view s) ?claimed \<and> p_id q \<notin> set (map fst (fst (route_view s)))"
      if viol: "project_violation t (projects s) (inserted_row q) = None" for t
    proof -
      have "\<forall>x \<in> set (projects s). p_id x \<noteq> p_id q \<and> p_domain_prefix x \<noteq> p_domain_prefix q"
        using project_violation_None [OF viol] inserted_row_routing [of q] by (simp add: same_routing_def)
      then have new: "p_id q \<notin> set (map fst (fst (route_view s)))" "p_domain_prefix q \<notin> set (map snd (fst (route_view s)))"
        by (auto simp: route_view_def)
      show ?thesis using route_claim [OF new(1) pok new(2) host] new(1) by (simp add: prod_eq_iff)
    qed
    from went(2) show ?thesis
    proof (cases rule: attempt_cases)
      case (failed e)
      then obtain r0 where "run_state (insert_project q) s1' = (r0, s')" using or_status_run create by metis
      from insert_project_any [OF this] show ?thesis using v1 claim by (auto intro: r_into_rtranclp)
    next
      case (went c s2)
      then have c: "run_state (insert_project q) s1' = (Inr c, s2)" using create by (simp add: or_status_Inr)
      have "c = q" "projects s2 = projects s @ [inserted_row q]" "aliases s2 = aliases s1'"
        "\<exists>t. project_violation t (projects s) (inserted_row q) = None"
        using insert_project_Inr [OF c] v1 by auto
      then have v2: "route_view s2 = ?claimed" and st: "route_step ?b (route_view s) ?claimed"
          "p_id q \<notin> set (map fst (fst (route_view s)))"
        using claim inserted_row_routing [of q] v1(1) by (auto simp: route_view_def same_routing_def)
      have "(route_step ?b)\<^sup>*\<^sup>* (route_view s2) (route_view s')"
        using host_repository_view [OF went(2) [unfolded \<open>c = q\<close>] v2 st(2)]
          route_release [of ?b "fst (route_view s2)" "snd (route_view s2)" "p_id q"]
        by (auto simp del: fst_conv snd_conv intro: r_into_rtranclp)
      then show ?thesis using st(1) v2 by (simp add: converse_rtranclp_into_rtranclp)
    qed
  qed
qed

section \<open>Updates\<close>

lemma update_refines:
  assumes run: "run_state (update_project cfg user i body) s = (r, s')" and ok: "table_ok (ac_base cfg) (route_view s)"
    and base: "ac_base cfg \<noteq> []" "ToLower (ac_base cfg) = ac_base cfg"
  shows "(route_step (ac_base cfg))\<^sup>*\<^sup>* (route_view s) (route_view s')"
proof -
  let ?b = "ac_base cfg"
  from run have "run_state (attempt (allowed_to user i 403) (\<lambda>_. attempt (existing_project i) (\<lambda>existing.
     attempt (admit_update cfg user existing body) (\<lambda>p. or_status 500 (UpdateProject p))))) s = (r, s')"
    by (simp only: update_project_def)
  then show ?thesis
  proof (cases rule: attempt_cases)
    case (failed e)
    then show ?thesis using view_reads [OF reads_only_access(1)] by simp
  next
    case (went u s1)
    note al = went(1)
    from went(2) show ?thesis
    proof (cases rule: attempt_cases)
      case (failed e)
      then show ?thesis using view_reads [OF reads_only_access(1) al] view_reads [OF reads_only_access(2)] by simp
    next
      case (went e s2)
      note ex = went(1)
      have 2: "same_db s s2"
        using allowed_to_Inr(1) [OF al] existing_project_Inr(1) [OF ex] by (rule same_db_trans)
      from went(2) show ?thesis
      proof (cases rule: attempt_cases)
        case (failed e)
        then show ?thesis using view_same [OF 2] view_reads [OF reads_only_admit(2)] by simp
      next
        case (went p s3)
        have 3: "same_db s2 s3" "same_db s s3"
          using admit_update_Inr(1) [OF went(1)] 2 by (blast intro: same_db_trans)+
        define q where "q = update_defaults (db_now s3) p"
        obtain r0 where w: "run_state (write_project q) s3 = (r0, s')"
          using or_status_run [OF went(2)] by (auto simp: UpdateProject_def q_def)
        obtain p0 v pr where v: "validateProject (frozen_fields e p0) = Inr v"
            "p = v\<lparr>p_enabled_providers := pr, p_id := p_id e, p_owner := p_owner e\<rparr>"
          using admit_update_Inr(2) [OF went(1)] by (elim exE conjE) (rule that)
        have "same_routing p q" unfolding q_def by (rule update_defaults_routing)
        then have q: "p_id q = i" "p_domain_prefix q = p_domain_prefix p" "p_domain_prefix p = p_domain_prefix v"
          using v(2) existing_project_Inr(3) [OF ex] by (simp_all add: same_routing_def)
        have pok: "prefix_ok (p_domain_prefix q)" using validateProject_ok [OF v(1)] q by (simp add: project_ok_def)
        have s3: "route_view s3 = route_view s" "projects s3 = projects s" "aliases s2 = aliases s" "project_by s2 = project_by s"
          using view_same [OF 3(2)] same_db_tables [OF 3(2)] same_db_tables [OF 2] project_by_same [OF 2] by auto
        have alias_mine: "pa_project a = i" if a: "a \<in> set (aliases s)" and h: "pa_host a = host_of ?b (p_domain_prefix q)" for a
        proof -
          have "find (\<lambda>x. pa_host x = pa_host a) (aliases s) = Some a"
            using table_keys(3) [OF ok] a by (rule find_by_key)
          moreover obtain x where "project_by s (pa_project a) = Some x" using table_keys(2) [OF ok a] by blast
          ultimately show ?thesis
            using admit_update_Inr(4) [OF went(1) base(1), of a x] s3 h q(2) base(2) existing_project_Inr(3) [OF ex]
            by (auto simp: host_of_def project_by_def dest: find_Some_mem)
        qed
        have "route_step ?b (route_view s) (map (rename_route i (p_domain_prefix q)) (fst (route_view s)), snd (route_view s))"
          if viol: "project_violation t (others i s) (updated_row q row) = None" for t row
        proof -
          have "\<forall>p \<in> set (fst (route_view s)). fst p = i \<or> snd p \<noteq> p_domain_prefix q"
            using project_violation_None [OF viol] by (auto simp: route_view_def others_def)
          moreover have "\<forall>a \<in> set (snd (route_view s)). snd a = host_of ?b (p_domain_prefix q) \<longrightarrow> fst a = i"
            using alias_mine by (auto simp: route_view_def)
          ultimately show ?thesis using route_rename [OF pok] by (metis prod.collapse)
        qed
        moreover have "others i s3 = others i s" using s3(2) by (simp add: others_def)
        ultimately show ?thesis using view_write [OF w] s3(1) q(1) by (auto intro: r_into_rtranclp)
      qed
    qed
  qed
qed

section \<open>Owners and custom domains\<close>

interpretation views: store_predicate "\<lambda>s. route_view s = v"
  by unfold_locales (simp_all add: route_view_def)

lemma owner_view:
  assumes "run_state (changeProjectOwner i owner) s = (r, s')"
  shows "route_view s' = route_view s"
proof -
  have set: "keeps (\<lambda>s. route_view s = v) (set_owner pid now uid)" for v pid now uid
    unfolding set_owner_def
    by (rule views.keeps_sql) (auto simp: route_view_def upd_where_def split: option.splits)
  have ins: "keeps (\<lambda>s. route_view s = v) (insert_member pid uid)" for v pid uid
    by (rule keepsI) (metis prod.collapse view_insert_member)
  have own: "keeps (\<lambda>s. route_view s = v) (UpdateProjectOwner pid uid)" for v pid uid
    unfolding UpdateProjectOwner_def
    by (intro views.keeps_transaction keeps_bind keeps_attempt views.keeps_time_Now set ins)
  have os: "keeps (\<lambda>s. route_view s = v) (or_status c (UpdateProjectOwner pid uid))" for v c pid uid
    unfolding or_status_def by (intro keeps_bind keeps_return own)
  have last: "keeps (\<lambda>s. route_view s = v) (do { r \<leftarrow> GetProject i; State_Monad.return (g r) })" for v and g :: "_ \<Rightarrow> (nat \<times> api_error) + project"
    by (rule views.keeps_reads_only) (intro reads_intros)
  have seen: "keeps (\<lambda>s. route_view s = v) (attempt m k)"
    if "reads_only m" "\<And>x. keeps (\<lambda>s. route_view s = v) (k x)" for v and m :: "'x handler" and k :: "'x \<Rightarrow> project handler"
    by (rule keeps_attempt, rule views.keeps_reads_only, rule that(1), rule that(2))
  have "keeps (\<lambda>x. route_view x = route_view s) (changeProjectOwner i owner)"
    unfolding changeProjectOwner_def
    by (rule seen, rule reads_only_require, rule seen, rule reads_only_access, rule keeps_if, rule keeps_ok,
        rule seen, rule reads_only_or_status, rule reads_only_queries, rule seen, rule reads_only_require,
        rule seen, rule reads_only_or_status, rule reads_only_queries, rule seen, intro reads_intros,
        rule keeps_attempt, rule os, rule last)
  from keepsE [OF this refl assms] show ?thesis .
qed

lemma unalias_refines:
  assumes run: "run_state (deleteProjectAlias user i a) s = (r, s')" and ok: "table_ok base (route_view s)"
  shows "(route_step base)\<^sup>*\<^sup>* (route_view s) (route_view s')"
proof -
  let ?checks = "attempt (existing_project i) (\<lambda>proj. attempt (owner_or_admin user proj) (\<lambda>_.
     attempt (or_status 500 (GetProjectAlias a)) (\<lambda>alias. case alias of None \<Rightarrow> fail (404, AE_AliasNotFound)
              | Some x \<Rightarrow> require (pa_project x = i) 404 AE_AliasNotFound)))"
  have "run_state (attempt ?checks (\<lambda>_. or_status 500 (RemoveProjectAlias a))) s = (r, s')"
    using run by (simp only: deleteProjectAlias_def attempt_assoc)
  then show ?thesis
  proof (cases rule: attempt_cases)
    case (failed e)
    then have "route_view s' = route_view s" by (rule view_reads [rotated]) (intro reads_intros)
    then show ?thesis by simp
  next
    case (went u s1)
    have "route_view s1 = route_view s" by (rule view_reads [OF _ went(1)]) (intro reads_intros)
    moreover obtain r0 where "run_state (RemoveProjectAlias a) s1 = (r0, s')" using or_status_run [OF went(2)] by blast
    then have "route_view s' = route_view s1 \<or> route_view s' = (fst (route_view s1),
        map (\<lambda>a. (pa_project a, pa_host a)) (filter (\<lambda>x. pa_id x \<noteq> a) (aliases s1)))"
      by (auto simp: RemoveProjectAlias_def run_exec popped_def route_view_def split: option.splits)
    moreover have "route_step base (route_view s1) (fst (route_view s1),
        map (\<lambda>a. (pa_project a, pa_host a)) (filter (\<lambda>x. pa_id x \<noteq> a) (aliases s1)))"
    proof -
      have d: "distinct (map pa_host (aliases s1))"
        using table_keys(3) [of base s1] ok \<open>route_view s1 = route_view s\<close> by simp
      show ?thesis
        unfolding route_view_def fst_conv by (rule route_detach) (use d in \<open>auto simp: o_def distinct_map_filter\<close>)
    qed
    ultimately show ?thesis by (auto intro: r_into_rtranclp)
  qed
qed

lemma under_base:
  assumes x: "prefix_ok x" and base: "base \<noteq> []" "ToLower base = base" "TrimSpace base = base"
    and h: "ToLower (TrimSpace h) = host_of base x"
  shows "baseSubPrefix (normalizeAliasHost h) base = Some x"
proof -
  have "normalizeAliasHost h = host_of base x" using h by (simp add: normalizeAliasHost_def)
  moreover have "ToLower (TrimSpace (host_of base x)) = host_of base x"
    by (metis TrimSpace_ToLower TrimSpace_idem ToLower_idem h)
  moreover have "CHR ''.'' \<notin> set x" using x by (auto simp: prefix_ok_def validDomainPrefix_def list_all_iff is_lower_alnum_def)
  moreover have "x \<noteq> []" using x by (rule prefix_ok_nonempty)
  moreover have "HasSuffix (host_of base x) (''.'' @ base)" unfolding host_of_def HasSuffix_iff by blast
  moreover have "TrimSuffix (host_of base x) (''.'' @ base) = x" unfolding host_of_def by (rule TrimSuffix_append)
  ultimately show ?thesis using base by (simp add: baseSubPrefix_def)
qed

lemma insert_alias_view:
  assumes "run_state (insert_alias pid h) s = (r, s')"
  shows "route_view s' = route_view s \<or>
    (route_view s' = (fst (route_view s), snd (route_view s) @ [(pid, h)]) \<and> project_by s pid \<noteq> None
     \<and> h \<notin> set (map snd (snd (route_view s))))"
proof -
  obtain r0 where "run_state (AddProjectAlias pid h) s = (r0, s')"
    using assms by (auto simp: insert_alias_def split: prod.splits)
  then show ?thesis
    by (auto simp: AddProjectAlias_def run_sql popped_def Let_def route_view_def unique_key_def list_all_iff project_by_def
        split: option.splits if_splits)
qed

lemma alias_refines:
  assumes run: "run_state (createProjectAlias cfg user i body) s = (r, s')" and ok: "table_ok (ac_base cfg) (route_view s)"
    and base: "ac_base cfg \<noteq> []" "ToLower (ac_base cfg) = ac_base cfg" "TrimSpace (ac_base cfg) = ac_base cfg"
  shows "(route_step (ac_base cfg))\<^sup>*\<^sup>* (route_view s) (route_view s')"
proof -
  let ?b = "ac_base cfg"
  define free where "free h = (case baseSubPrefix h ?b of None \<Rightarrow> ok ()
       | Some label \<Rightarrow> attempt (or_status 500 (GetProjectByDomainPrefix label)) (\<lambda>owner. case owner of
             None \<Rightarrow> ok () | Some q \<Rightarrow> fail (409, AE_HostServed h (p_domain_prefix q))))" for h
  let ?pre = "attempt (existing_project i) (\<lambda>proj. attempt (owner_or_admin user proj) (\<lambda>_.
     attempt (State_Monad.return (case body of Inl e \<Rightarrow> Inl (400, AE_Body e) | Inr h \<Rightarrow> Inr h)) (\<lambda>raw.
     attempt (State_Monad.return (case validateAliasHost raw ?b of Inl e \<Rightarrow> Inl (400, AE_AliasHost e) | Inr _ \<Rightarrow> Inr ())) (\<lambda>_.
     attempt (free (normalizeAliasHost raw)) (\<lambda>_. ok (normalizeAliasHost raw))))))"
  have reads: "reads_only (free h)" for h
    unfolding free_def by (intro reads_intros)
  then have pre: "reads_only ?pre" by (intro reads_intros) (auto intro: reads_intros)
  have ok_attempt: "attempt (ok x) k = k x" for x and k :: "string \<Rightarrow> project_alias handler"
    by (rule state.expand) (simp add: fun_eq_iff run_attempt run_ok)
  have "createProjectAlias cfg user i body = attempt ?pre (insert_alias i)"
    by (simp only: createProjectAlias_def attempt_assoc ok_attempt free_def Let_def)
  then have "run_state (attempt ?pre (insert_alias i)) s = (r, s')" using run by simp
  then show ?thesis
  proof (cases rule: attempt_cases)
    case (failed e)
    then show ?thesis using view_reads [OF pre] by simp
  next
    case (went h s1)
    have v1: "route_view s1 = route_view s" by (rule view_reads [OF pre went(1)])
    obtain raw s2 where raw: "h = normalizeAliasHost raw" "run_state (free h) s2 = (Inr (), s1)"
      using went(1) by (auto simp: inversions)
    have f2: "same_db s2 s1" by (rule reads_same [OF reads raw(2)])
    have "h \<noteq> host_of ?b (p_domain_prefix q)" if q: "q \<in> set (projects s1)" for q
    proof
      assume h: "h = host_of ?b (p_domain_prefix q)"
      have "prefix_ok (p_domain_prefix q)" using table_keys(1) [of ?b s1 q] ok v1 q by simp
      from under_base [OF this base] have "baseSubPrefix h ?b = Some (p_domain_prefix q)"
        using h raw(1) by (simp add: normalizeAliasHost_def)
      then have "find (\<lambda>p. p_domain_prefix p = p_domain_prefix q) (projects s1) = None"
        using raw(2) by (auto simp: free_def inversions GetProjectByDomainPrefix_def split: option.splits dest!: query_Inr)
      then show False using q by (auto simp: find_None_iff)
    qed
    then have "\<forall>p \<in> set (fst (route_view s1)). h = host_of ?b (snd p) \<longrightarrow> fst p = i"
      by (auto simp: route_view_def)
    moreover have "project_by s1 i \<noteq> None \<Longrightarrow> i \<in> set (map fst (fst (route_view s1)))"
      by (auto simp: project_by_def route_view_def dest!: find_Some_mem)
    ultimately have "route_view s' = route_view s1 \<or> route_step ?b (route_view s1) (route_view s')"
      using insert_alias_view [OF went(2)] route_attach [of i "fst (route_view s1)" h "snd (route_view s1)" ?b] by auto
    then show ?thesis using v1 by (auto intro: r_into_rtranclp)
  qed
qed

section \<open>Refinement\<close>

lemma step_refines:
  assumes "admission_step cfg s s'" and "table_ok (ac_base cfg) (route_view s)"
    and "ac_base cfg \<noteq> ''''" "ToLower (ac_base cfg) = ac_base cfg" "TrimSpace (ac_base cfg) = ac_base cfg"
  shows "(route_step (ac_base cfg))\<^sup>*\<^sup>* (route_view s) (route_view s')"
  using assms
proof (cases rule: admission_step.cases)
  case (step_delete i r3)
  then show ?thesis using view_delete [OF step_delete] route_release [of "ac_base cfg" "fst (route_view s)" "snd (route_view s)" i]
    by (auto intro: r_into_rtranclp)
next
  case step_else
  then have "route_view s' = route_view s" by (simp add: route_view_def)
  then show ?thesis by simp
qed (use assms in \<open>auto dest: owner_view intro: create_refines update_refines alias_refines unalias_refines\<close>)

text \<open>
  C4: Whatever a request to the handlers of projects and custom domains does, and wherever it fails,
  the tables it leaves are what steps of the abstract table of hosts leave, if the server's base
  domain is as it is configured, trimmed and in lower case.
\<close>

theorem admission_refines_routes:
  assumes "admission_step cfg s s'" and "table_ok (ac_base cfg) (route_view s)"
    and "ac_base cfg \<noteq> ''''" "ToLower (ac_base cfg) = ac_base cfg" "TrimSpace (ac_base cfg) = ac_base cfg"
  shows "(route_step (ac_base cfg))\<^sup>*\<^sup>* (route_view s) (route_view s')"
  using step_refines [OF assms] .

lemma table_ok_unique:
  assumes "table_ok base t"
  shows "(i, x) \<in> set (fst t) \<Longrightarrow> (j, x) \<in> set (fst t) \<Longrightarrow> i = j"
    and "(i, x) \<in> set (fst t) \<Longrightarrow> (j, host_of base x) \<in> set (snd t) \<Longrightarrow> i = j"
    and "(i, h) \<in> set (snd t) \<Longrightarrow> (j, h) \<in> set (snd t) \<Longrightarrow> i = j"
  using assms unfolding table_ok_def hosts_apart_def
  by (auto simp: distinct_map inj_on_def) force+

definition serves :: "string \<Rightarrow> db \<Rightarrow> string \<Rightarrow> uuid \<Rightarrow> bool" where
  "serves base s h i \<longleftrightarrow> (i, h) \<in> (\<lambda>p. (fst p, host_of base (snd p))) ` set (fst (route_view s)) \<or> (i, h) \<in> set (snd (route_view s))"

lemma admission_steps_ok:
  assumes "(admission_step cfg)\<^sup>*\<^sup>* s s'" and "table_ok (ac_base cfg) (route_view s)"
    and base: "ac_base cfg \<noteq> ''''" "ToLower (ac_base cfg) = ac_base cfg" "TrimSpace (ac_base cfg) = ac_base cfg"
  shows "table_ok (ac_base cfg) (route_view s')"
  using assms(1,2)
proof (induction rule: rtranclp_induct)
  case (step t u)
  then show ?case using route_steps_ok [OF step_refines [OF step(2) _ base]] by blast
qed


end
