(* ===== verification/Admission_Runs.thy ===== *)
theory Admission_Runs
  imports Sample Route_Table
begin

text \<open>
  Requests to the project handlers, evaluated: a project that takes its prefix from its name, an
  administrator's TCP route, an update by a member, and the two gaps of the handlers that the
  theorems of \<open>Project_Admission_Facts\<close> leave open.
\<close>

definition demo_cfg :: admission_cfg where
  "demo_cfg = \<lparr>ac_base = ''muvee.dev'', ac_env_providers = [''google''], ac_repo_path = '''', ac_init_repo = (\<lambda>_. None)\<rparr>"

definition demo_user :: "uuid \<Rightarrow> user_role \<Rightarrow> user" where
  "demo_user i role = (sample_user role)\<lparr>u_id := i\<rparr>"

definition demo_db :: db where
  "demo_db = (sample_db 0 [] [] [])\<lparr>users := [demo_user ''o'' RoleMember, demo_user ''m'' RoleMember],
     project_members := [(''p'', ''o'')]\<rparr>"

section \<open>Rules\<close>

definition demo_request :: project where
  "demo_request = zero_project\<lparr>p_name := ''web'', p_git_url := ''https://git.example/web''\<rparr>"

definition demo_valid :: project where
  "demo_valid = demo_request\<lparr>p_type := PT_Deployment, p_git_source := GS_External, p_git_branch := ''main'',
     p_dockerfile_path := ''Dockerfile'', p_access_mode := ''public'', p_domain_prefix := ''web''\<rparr>"

lemma demo_validates: "validateProject demo_request = Inr demo_valid"
  by code_simp

lemma validateProject_wellformed_witness: "project_ok demo_valid"
  using validateProject_wellformed [OF demo_validates] by blast

text \<open>The prefix comes from the name after the TCP prefix was compared, so the result is refused when sent back.\<close>

definition demo_collides :: project where
  "demo_collides = demo_valid\<lparr>p_tcp_prefix := Some ''web'', p_tcp_port := Some 5432\<rparr>"

lemma demo_collision: "validateProject (demo_request\<lparr>p_tcp_prefix := Some ''web'', p_tcp_port := Some 5432\<rparr>) = Inr demo_collides"
  by code_simp

lemma validateProject_again_witness: "validateProject demo_collides = Inl (TCPSelfCollision ''web'')"
  using validateProject_again [OF demo_collision] by (simp add: demo_collides_def demo_valid_def)

lemma demo_providers: "normaliseEnabledProviders '' Google,discord ,google'' [''google'', ''discord''] = Inr ''discord,google''"
  by code_simp

lemma normaliseEnabledProviders_canonical_witness:
  "normaliseEnabledProviders ''discord,google'' [''google'', ''discord''] = Inr ''discord,google''"
  using normaliseEnabledProviders_canonical [OF demo_providers] by (rule conjunct2)

lemma demo_types: "normaliseEnabledProjectTypes ''build, Deployment'' = Inr ''deployment,build''"
  by code_simp

lemma project_types_roundtrip_witness: "normaliseEnabledProjectTypes ''deployment,build'' = Inr ''deployment,build''"
  using project_types_roundtrip [OF demo_types] by (rule conjunct2 [OF conjunct2])

section \<open>Handlers\<close>

definition demo_body :: json_body where
  "demo_body = Inr [F_name ''web'', F_git_url ''https://git.example/web'']"

text \<open>Evaluation in stages: the checks first, which only read, then the statements that write.\<close>

lemma run_of_reads:
  assumes "reads_only m" "fst (run_state m s) = r" "db_faults (snd (run_state m s)) = fs"
  shows "run_state m s = (r, s\<lparr>db_faults := fs\<rparr>)"
proof -
  obtain x s' where m: "run_state m s = (x, s')" by fastforce
  then obtain gs where "s' = s\<lparr>db_faults := gs\<rparr>" using reads_onlyE [OF assms(1)] by metis
  then show ?thesis using assms(2,3) m by simp
qed

definition demo_admitted :: project where
  "demo_admitted = demo_valid\<lparr>p_owner := ''m''\<rparr>"

lemma demo_admits:
  "run_state (admit_new demo_cfg (demo_user ''m'' RoleMember) demo_body) demo_db = (Inr demo_admitted, demo_db\<lparr>db_faults := []\<rparr>)"
proof (rule run_of_reads [OF reads_only_admit(1)])
  show "fst (run_state (admit_new demo_cfg (demo_user ''m'' RoleMember) demo_body) demo_db) = Inr demo_admitted" by code_simp
  show "db_faults (snd (run_state (admit_new demo_cfg (demo_user ''m'' RoleMember) demo_body) demo_db)) = []" by code_simp
qed

definition demo_created :: project where
  "demo_created = create_defaults (demo_admitted\<lparr>p_id := ''#0'', p_created := 0, p_updated := 0\<rparr>)"

definition demo_end :: db where
  "demo_end = snd (run_state (CreateProject demo_admitted) (demo_db\<lparr>db_faults := []\<rparr>))"

lemma demo_inserts: "run_state (CreateProject demo_admitted) (demo_db\<lparr>db_faults := []\<rparr>) = (Inr demo_created, demo_end)"
proof (rule prod_eqI)
  show "fst (run_state (CreateProject demo_admitted) (demo_db\<lparr>db_faults := []\<rparr>)) = fst (Inr demo_created, demo_end)"
    unfolding fst_conv by code_simp
qed (simp add: demo_end_def)

lemma demo_not_hosted: "host_repository demo_cfg demo_created = ok demo_created"
proof -
  have "uses_git demo_created = False" by code_simp
  then show ?thesis by (simp add: host_repository_def)
qed

lemma demo_create:
  "run_state (create_project demo_cfg (demo_user ''m'' RoleMember) demo_body) demo_db = (Inr demo_created, demo_end)"
  unfolding create_project_def by (simp add: run_attempt demo_admits or_status_def demo_inserts demo_not_hosted run_ok)


lemma demo_table: "table_ok (ac_base demo_cfg) (route_view demo_db)"
proof -
  have v: "route_view demo_db = ([(''p'', ''app'')], [])"
    by (simp add: route_view_def demo_db_def sample_db_def sample_project_def)
  have "prefix_ok ''app''" by code_simp
  then show ?thesis unfolding v by (simp add: table_ok_def hosts_apart_def)
qed

lemma demo_base: "ac_base demo_cfg \<noteq> ''''" "ToLower (ac_base demo_cfg) = ac_base demo_cfg" "TrimSpace (ac_base demo_cfg) = ac_base demo_cfg"
  by code_simp+

lemma demo_step: "admission_step demo_cfg demo_db demo_end"
  by (rule step_create [OF demo_create])

lemma admission_refines_routes_witness:
  "(route_step ''muvee.dev'')\<^sup>*\<^sup>* (route_view demo_db) (route_view demo_end)"
  using admission_refines_routes [OF demo_step demo_table demo_base] by (simp add: demo_cfg_def)

lemma demo_served: "serves (ac_base demo_cfg) demo_end ''web.muvee.dev'' ''#0''"
proof -
  have "fst (route_view demo_end) = [(''p'', ''app''), (''#0'', ''web'')]" by code_simp
  then show ?thesis by (simp add: serves_def host_of_def demo_cfg_def)
qed


definition rename_body :: json_body where
  "rename_body = Inr [F_domain_prefix ''shop'', F_owner_id ''m'']"

definition renamed :: project where
  "renamed = sample_project\<lparr>p_domain_prefix := ''shop'', p_git_source := GS_External\<rparr>"

definition renamed_row :: project where
  "renamed_row = update_defaults 0 renamed"

definition rename_end :: db where
  "rename_end = snd (run_state (UpdateProject renamed) (demo_db\<lparr>db_faults := []\<rparr>))"

lemma rename_admits:
  "run_state (admit_update demo_cfg (demo_user ''o'' RoleMember) sample_project rename_body) (demo_db\<lparr>db_faults := []\<rparr>)
     = (Inr renamed, demo_db\<lparr>db_faults := []\<rparr>)"
proof -
  let ?m = "run_state (admit_update demo_cfg (demo_user ''o'' RoleMember) sample_project rename_body) (demo_db\<lparr>db_faults := []\<rparr>)"
  have "fst ?m = Inr renamed" "db_faults (snd ?m) = []" by code_simp+
  from run_of_reads [OF reads_only_admit(2) this] show ?thesis by simp
qed

lemma rename_opens:
  "run_state (allowed_to (demo_user ''o'' RoleMember) ''p'' 403) demo_db = (Inr (), demo_db\<lparr>db_faults := []\<rparr>)"
  "run_state (existing_project ''p'') (demo_db\<lparr>db_faults := []\<rparr>) = (Inr sample_project, demo_db\<lparr>db_faults := []\<rparr>)"
proof -
  let ?a = "run_state (allowed_to (demo_user ''o'' RoleMember) ''p'' 403) demo_db"
    and ?e = "run_state (existing_project ''p'') (demo_db\<lparr>db_faults := []\<rparr>)"
  have "fst ?a = Inr ()" "db_faults (snd ?a) = []" "fst ?e = Inr sample_project" "db_faults (snd ?e) = []" by code_simp+
  from run_of_reads [OF reads_only_access(1) this(1,2)] run_of_reads [OF reads_only_access(2) this(3,4)]
  show "?a = (Inr (), demo_db\<lparr>db_faults := []\<rparr>)" "?e = (Inr sample_project, demo_db\<lparr>db_faults := []\<rparr>)" by simp_all
qed

lemma rename_writes: "run_state (UpdateProject renamed) (demo_db\<lparr>db_faults := []\<rparr>) = (Inr renamed_row, rename_end)"
proof (rule prod_eqI)
  show "fst (run_state (UpdateProject renamed) (demo_db\<lparr>db_faults := []\<rparr>)) = fst (Inr renamed_row, rename_end)"
    unfolding fst_conv by code_simp
qed (simp add: rename_end_def)

lemma demo_rename:
  "run_state (update_project demo_cfg (demo_user ''o'' RoleMember) ''p'' rename_body) demo_db = (Inr renamed_row, rename_end)"
  unfolding update_project_def by (simp add: run_attempt rename_opens rename_admits or_status_def rename_writes)

lemma update_project_bounded_witness: "p_owner renamed_row = ''o''"
  using update_project_bounded [OF demo_rename]
  by (auto simp: demo_db_def sample_db_def project_by_def sample_project_def)

section \<open>Gaps\<close>

text \<open>
  A member may take, as the subdomain of a new project, the name that another project's TCP
  route already answers to: creating a TCP route checks the subdomains of the others, creating a
  subdomain does not check their TCP routes.
\<close>

theorem domain_prefix_under_tcp_route:
  "\<exists>s p. (\<exists>q \<in> set (projects s). p_tcp_prefix q = Some ''web'' \<and> p_owner q = ''o'')
    \<and> fst (run_state (create_project demo_cfg (demo_user ''m'' RoleMember) demo_body) s) = Inr p \<and> p_domain_prefix p = ''web''"
proof (intro exI conjI bexI)
  let ?q = "sample_project\<lparr>p_tcp_prefix := Some ''web'', p_tcp_port := Some 5432\<rparr>"
  let ?s = "demo_db\<lparr>projects := [?q]\<rparr>"
  let ?a = "run_state (admit_new demo_cfg (demo_user ''m'' RoleMember) demo_body) ?s"
  have a: "fst ?a = Inr demo_admitted" "db_faults (snd ?a) = []" by code_simp+
  have c: "fst (run_state (CreateProject demo_admitted) (?s\<lparr>db_faults := []\<rparr>)) = Inr demo_created" by code_simp
  then obtain s2 where c2: "run_state (CreateProject demo_admitted) (?s\<lparr>db_faults := []\<rparr>) = (Inr demo_created, s2)"
    by (metis prod.collapse)
  show "fst (run_state (create_project demo_cfg (demo_user ''m'' RoleMember) demo_body) ?s) = Inr demo_created"
    unfolding create_project_def
    by (simp add: run_attempt run_of_reads [OF reads_only_admit(1) a] or_status_def c2 [simplified] demo_not_hosted run_ok)
  show "?q \<in> set (projects ?s)" by simp
  show "p_tcp_prefix ?q = Some ''web''" by simp
  show "p_owner ?q = ''o''" by (simp add: sample_project_def)
  show "p_domain_prefix demo_created = ''web''" by code_simp
qed

text \<open>
  Creating a project is two statements without a transaction: when the second fails, the request
  reports an error although the project exists, owned by a user who is no member of it.
\<close>

theorem create_half_created:
  "\<exists>s s'. run_state (create_project demo_cfg (demo_user ''m'' RoleMember) demo_body) s = (Inl (500, AE_Store ''connection reset''), s')
    \<and> map (\<lambda>p. (p_id p, p_owner p)) (projects s') = [(''p'', ''o''), (''#0'', ''m'')] \<and> project_members s' = [(''p'', ''o'')]"
proof (intro exI conjI)
  let ?fs = "[None, Some ''connection reset'']"
  let ?s = "demo_db\<lparr>db_faults := replicate 5 None @ ?fs\<rparr>"
  let ?a = "run_state (admit_new demo_cfg (demo_user ''m'' RoleMember) demo_body) ?s"
  let ?t = "demo_db\<lparr>db_faults := ?fs\<rparr>"
  let ?c = "run_state (CreateProject demo_admitted) ?t"
  have a: "fst ?a = Inr demo_admitted" "db_faults (snd ?a) = ?fs" by code_simp+
  have c: "fst ?c = Inl ''connection reset''" by code_simp
  have a': "?a = (Inr demo_admitted, ?t)" using run_of_reads [OF reads_only_admit(1) a] by simp
  define s2 where "s2 = snd ?c"
  have c': "?c = (Inl ''connection reset'', s2)" using c by (simp add: prod_eq_iff s2_def)
  show "run_state (create_project demo_cfg (demo_user ''m'' RoleMember) demo_body) ?s = (Inl (500, AE_Store ''connection reset''), s2)"
    unfolding create_project_def by (simp only: run_attempt a' or_status_def run_state_bind c' prod.case sum.case run_state_return)
  show "map (\<lambda>p. (p_id p, p_owner p)) (projects s2) = [(''p'', ''o''), (''#0'', ''m'')]" unfolding s2_def by code_simp
  show "project_members s2 = [(''p'', ''o'')]" unfolding s2_def by code_simp
qed

end
