(* ===== verification/Access_Store.thy ===== *)
theory Access_Store
  imports Project_Admission
begin

text \<open>
  Accounts and access in the store (internal/store/store.go): users and the identities of providers,
  the members of the admin plane, the allow-list and the request inbox of a private project, visit
  counters, requests for the platform, invitations by address and by link. A statement that inserts
  or updates a row checks the keys of its table; a list is returned in the order its query asks for.
\<close>

section \<open>Users\<close>

text \<open>\<open>COALESCE(email, '')\<close>.\<close>

definition email_of :: "user \<Rightarrow> string" where
  "email_of u = opt_or '''' (u_email u)"

definition refresh_profile :: "string \<Rightarrow> string \<Rightarrow> user \<Rightarrow> user" where
  "refresh_profile name avatar u = u\<lparr>u_name := (if u_name_overridden u then u_name u else name),
     u_avatar := (if u_avatar_overridden u then u_avatar u else avatar)\<rparr>"

definition new_user :: "uuid \<Rightarrow> string option \<Rightarrow> string \<Rightarrow> string \<Rightarrow> bool \<Rightarrow> time \<Rightarrow> user" where
  "new_user i email name avatar authorized now = \<lparr>u_id = i, u_email = email, u_name = name, u_avatar = avatar,
     u_role = RoleMember, u_authorized = authorized, u_created = now, u_name_overridden = False, u_avatar_overridden = False\<rparr>"

definition user_pkey :: go_error where
  "user_pkey = ''duplicate key value users_pkey (SQLSTATE 23505)''"

definition UpsertUser :: "string \<Rightarrow> string \<Rightarrow> string \<Rightarrow> bool \<Rightarrow> (user \<times> bool) store" where
  "UpsertUser email name avatarURL authorizedOnInsert = do {
     i \<leftarrow> uuid_New;
     sql (\<lambda>s. case find (\<lambda>u. u_email u = Some email) (users s) of
         Some u \<Rightarrow> Inr ((refresh_profile name avatarURL u, False),
                      s\<lparr>users := upd_where (\<lambda>u. u_email u = Some email) (refresh_profile name avatarURL) (users s)\<rparr>)
       | None \<Rightarrow> if user_by s i \<noteq> None then Inl user_pkey
                else (let u = new_user i (Some email) name avatarURL authorizedOnInsert (db_now s)
                      in Inr ((u, True), s\<lparr>users := users s @ [u]\<rparr>))) }"

text \<open>The body of the transaction: the user's identity, and whether it was created.\<close>

definition oauth_tx :: "string \<Rightarrow> string \<Rightarrow> string \<Rightarrow> string \<Rightarrow> (uuid \<times> bool) store" where
  "oauth_tx provider sub name avatarURL =
     attempt (query (\<lambda>s. find (\<lambda>a. oa_provider a = provider \<and> oa_subject a = sub) (oauth_accounts s))) (\<lambda>r. case r of
       None \<Rightarrow> do {
         i \<leftarrow> uuid_New;
         attempt (sql (\<lambda>s. if user_by s i \<noteq> None then Inl user_pkey
             else Inr ((), s\<lparr>users := users s @ [new_user i None name avatarURL True (db_now s)]\<rparr>))) (\<lambda>_.
         attempt (exec (\<lambda>s. s\<lparr>oauth_accounts := oauth_accounts s @ [\<lparr>oa_provider = provider, oa_subject = sub, oa_user = i\<rparr>]\<rparr>)) (\<lambda>_.
         ok (i, True))) }
     | Some a \<Rightarrow>
         attempt (exec (\<lambda>s. s\<lparr>users := upd_where (\<lambda>u. u_id u = oa_user a) (refresh_profile name avatarURL) (users s)\<rparr>)) (\<lambda>_.
         ok (oa_user a, False)))"

definition EnsureUserByOAuth :: "string \<Rightarrow> string \<Rightarrow> string \<Rightarrow> string \<Rightarrow> (user option \<times> bool) store" where
  "EnsureUserByOAuth provider providerUserID name avatarURL =
     (if provider = '''' \<or> providerUserID = '''' then fail ''provider and providerUserID required''
      else attempt (transaction (oauth_tx provider providerUserID name avatarURL)) (\<lambda>(i, created).
           attempt (GetUserByID i) (\<lambda>u. ok (u, created))))"

definition GetUserByEmail :: "string \<Rightarrow> user option store" where
  "GetUserByEmail email = query (\<lambda>s. find (\<lambda>u. u_email u = Some email) (users s))"

definition ListUsers :: "user list store" where
  "ListUsers = query (\<lambda>s. sort_key u_created (users s))"

definition SetUserRole :: "uuid \<Rightarrow> user_role \<Rightarrow> unit store" where
  "SetUserRole i role = exec (\<lambda>s. s\<lparr>users := upd_where (\<lambda>u. u_id u = i) (\<lambda>u. u\<lparr>u_role := role\<rparr>) (users s)\<rparr>)"

definition SetUserAuthorized :: "uuid \<Rightarrow> bool \<Rightarrow> unit store" where
  "SetUserAuthorized i authorized =
     exec (\<lambda>s. s\<lparr>users := upd_where (\<lambda>u. u_id u = i) (\<lambda>u. u\<lparr>u_authorized := authorized\<rparr>) (users s)\<rparr>)"

definition override_profile :: "string option \<Rightarrow> string option \<Rightarrow> user \<Rightarrow> user" where
  "override_profile name avatarURL u =
     (let u = (case name of None \<Rightarrow> u | Some n \<Rightarrow> u\<lparr>u_name := n, u_name_overridden := True\<rparr>)
      in case avatarURL of None \<Rightarrow> u | Some a \<Rightarrow> u\<lparr>u_avatar := a, u_avatar_overridden := True\<rparr>)"

definition no_rows :: go_error where
  "no_rows = ''no rows in result set''"

definition UpdateUserProfile :: "uuid \<Rightarrow> string option \<Rightarrow> string option \<Rightarrow> user option store" where
  "UpdateUserProfile userID name avatarURL =
     (if name = None \<and> avatarURL = None then GetUserByID userID
      else sql (\<lambda>s. case user_by s userID of
          None \<Rightarrow> Inl no_rows
        | Some u \<Rightarrow> Inr (Some (override_profile name avatarURL u),
            s\<lparr>users := upd_where (\<lambda>u. u_id u = userID) (override_profile name avatarURL) (users s)\<rparr>)))"

section \<open>Members of the admin plane\<close>

definition member_by :: "db \<Rightarrow> uuid \<Rightarrow> platform_member option" where
  "member_by s i = find (\<lambda>m. pm_user m = i) (platform_members s)"

definition GetPlatformMember :: "uuid \<Rightarrow> platform_member option store" where
  "GetPlatformMember userID = query (\<lambda>s. member_by s userID)"

definition member_fkey :: go_error where
  "member_fkey = ''violates foreign key constraint platform_members_user_id_fkey''"

definition UpsertPlatformMember :: "uuid \<Rightarrow> user_role \<Rightarrow> bool \<Rightarrow> (platform_member \<times> bool) store" where
  "UpsertPlatformMember userID role authorizedOnInsert = sql (\<lambda>s. case member_by s userID of
       Some m \<Rightarrow> Inr ((m, False), s)
     | None \<Rightarrow> if user_by s userID = None then Inl member_fkey
              else (let m = \<lparr>pm_user = userID, pm_role = role, pm_authorized = authorizedOnInsert, pm_created = db_now s\<rparr>
                    in Inr ((m, True), s\<lparr>platform_members := platform_members s @ [m]\<rparr>)))"

definition SetPlatformMemberRole :: "uuid \<Rightarrow> user_role \<Rightarrow> unit store" where
  "SetPlatformMemberRole userID role = exec (\<lambda>s. s\<lparr>platform_members :=
     upd_where (\<lambda>m. pm_user m = userID) (\<lambda>m. m\<lparr>pm_role := role\<rparr>) (platform_members s)\<rparr>)"

definition SetPlatformMemberAuthorized :: "uuid \<Rightarrow> bool \<Rightarrow> unit store" where
  "SetPlatformMemberAuthorized userID authorized = exec (\<lambda>s. s\<lparr>platform_members :=
     upd_where (\<lambda>m. pm_user m = userID) (\<lambda>m. m\<lparr>pm_authorized := authorized\<rparr>) (platform_members s)\<rparr>)"

definition IsPlatformAdmin :: "uuid \<Rightarrow> bool store" where
  "IsPlatformAdmin userID = query (\<lambda>s. list_ex (\<lambda>m. pm_user m = userID \<and> pm_role m = RoleAdmin) (platform_members s))"

definition ListPlatformMemberUsers :: "string \<Rightarrow> (user \<times> platform_member option) list store" where
  "ListPlatformMemberUsers scope = query (\<lambda>s.
     let rows = map (\<lambda>u. (u, member_by s (u_id u))) (sort_key u_created (users s))
     in if scope = ''platform'' then filter (\<lambda>(u, m). m \<noteq> None) rows else rows)"

section \<open>Access to a project's service\<close>

definition access_listed :: "db \<Rightarrow> uuid \<Rightarrow> uuid \<Rightarrow> bool" where
  "access_listed s pid uid \<longleftrightarrow> list_ex (\<lambda>a. au_project a = pid \<and> au_user a = uid) (access_users s)"

definition joined_user :: "db \<Rightarrow> uuid \<Rightarrow> 'r \<Rightarrow> ('r \<times> user) list" where
  "joined_user s i r = (case user_by s i of None \<Rightarrow> [] | Some u \<Rightarrow> [(r, u)])"

definition ListProjectAccessUsers :: "uuid \<Rightarrow> (access_user \<times> user) list store" where
  "ListProjectAccessUsers pid = query (\<lambda>s. concat (map (\<lambda>a. joined_user s (au_user a) a)
     (sort_key (\<lambda>a. - au_added a) (filter (\<lambda>a. au_project a = pid) (access_users s)))))"

definition exists_user :: "db \<Rightarrow> uuid option \<Rightarrow> bool" where
  "exists_user s i = (case i of None \<Rightarrow> True | Some u \<Rightarrow> user_by s u \<noteq> None)"

text \<open>\<open>INSERT .. ON CONFLICT DO NOTHING\<close>.\<close>

definition insert_access :: "uuid \<Rightarrow> uuid \<Rightarrow> uuid option \<Rightarrow> unit store" where
  "insert_access pid uid addedBy = sql (\<lambda>s.
     if access_listed s pid uid then Inr ((), s)
     else if project_by s pid = None \<or> user_by s uid = None \<or> \<not> exists_user s addedBy
       then Inl ''violates foreign key constraint project_access_users''
     else Inr ((), s\<lparr>access_users := access_users s @
                 [\<lparr>au_project = pid, au_user = uid, au_added_by = addedBy, au_added = db_now s\<rparr>]\<rparr>))"

definition AddProjectAccessUser :: "uuid \<Rightarrow> uuid \<Rightarrow> uuid option \<Rightarrow> unit store" where
  "AddProjectAccessUser pid uid addedBy = insert_access pid uid addedBy"

definition RemoveProjectAccessUser :: "uuid \<Rightarrow> uuid \<Rightarrow> unit store" where
  "RemoveProjectAccessUser pid uid =
     exec (\<lambda>s. s\<lparr>access_users := filter (\<lambda>a. \<not> (au_project a = pid \<and> au_user a = uid)) (access_users s)\<rparr>)"

record access_check =
  ck_allowed :: bool
  ck_mode :: string
  ck_user :: uuid
  ck_admin :: bool

definition no_check :: access_check where
  "no_check = \<lparr>ck_allowed = False, ck_mode = '''', ck_user = uuid_Nil, ck_admin = False\<rparr>"

definition projectAccessForUser :: "uuid \<Rightarrow> user_role \<Rightarrow> uuid \<Rightarrow> access_check store" where
  "projectAccessForUser userID role projectID =
     (let res = no_check\<lparr>ck_user := userID, ck_admin := (role = RoleAdmin)\<rparr> in
      if ck_admin res then ok (res\<lparr>ck_allowed := True\<rparr>)
      else attempt (query (\<lambda>s. project_by s projectID)) (\<lambda>r. case r of
          None \<Rightarrow> ok res
        | Some p \<Rightarrow>
            (let res = res\<lparr>ck_mode := p_access_mode p\<rparr> in
             if ck_mode res = ''public'' then ok (res\<lparr>ck_allowed := True\<rparr>)
             else if p_owner p = ck_user res then ok (res\<lparr>ck_allowed := True\<rparr>)
             else attempt (query (\<lambda>s. length (filter (\<lambda>a. au_project a = projectID \<and> au_user a = ck_user res) (access_users s))))
                    (\<lambda>n. ok (res\<lparr>ck_allowed := (0 < n)\<rparr>)))))"

definition IsProjectAccessAllowedByEmail :: "string \<Rightarrow> uuid \<Rightarrow> access_check store" where
  "IsProjectAccessAllowedByEmail email projectID =
     attempt (query (\<lambda>s. find (\<lambda>u. u_email u = Some email) (users s))) (\<lambda>r. case r of
       None \<Rightarrow> ok no_check | Some u \<Rightarrow> projectAccessForUser (u_id u) (u_role u) projectID)"

definition IsProjectAccessAllowedByUserID :: "uuid \<Rightarrow> uuid \<Rightarrow> access_check store" where
  "IsProjectAccessAllowedByUserID userID projectID =
     attempt (query (\<lambda>s. user_by s userID)) (\<lambda>r. case r of
       None \<Rightarrow> ok no_check | Some u \<Rightarrow> projectAccessForUser (u_id u) (u_role u) projectID)"

section \<open>Visits\<close>

definition visit_key :: "project_visit \<Rightarrow> uuid \<times> uuid" where
  "visit_key v = (pv_project v, pv_user v)"

text \<open>One row of the batch; a new row takes its \<open>first_seen_at\<close> from the default.\<close>

definition upsert_visit :: "time \<Rightarrow> project_visit \<Rightarrow> project_visit list \<Rightarrow> project_visit list" where
  "upsert_visit now v rows =
     (let incr = (if pv_count v \<le> 0 then 1 else pv_count v) in
      if list_ex (\<lambda>r. visit_key r = visit_key v) rows
      then upd_where (\<lambda>r. visit_key r = visit_key v)
             (\<lambda>r. r\<lparr>pv_last_seen := max (pv_last_seen r) (pv_last_seen v), pv_count := pv_count r + incr\<rparr>) rows
      else rows @ [\<lparr>pv_project = pv_project v, pv_user = pv_user v, pv_first_seen = now,
                    pv_last_seen = pv_last_seen v, pv_count = incr\<rparr>])"

definition visit_dangles :: "db \<Rightarrow> project_visit \<Rightarrow> bool" where
  "visit_dangles s v \<longleftrightarrow> project_by s (pv_project v) = None \<or> user_by s (pv_user v) = None"

text \<open>A multi-row upsert may not touch a row twice, and is refused whole when one row dangles.\<close>

definition RecordProjectVisitsBatch :: "project_visit list \<Rightarrow> unit store" where
  "RecordProjectVisitsBatch items =
     (if items = [] then ok ()
      else sql (\<lambda>s.
        if \<not> distinct (map visit_key items) then Inl ''ON CONFLICT DO UPDATE command cannot affect row a second time''
        else if list_ex (visit_dangles s) items then Inl ''violates foreign key constraint project_visits''
        else Inr ((), s\<lparr>visits := fold (upsert_visit (db_now s)) items (visits s)\<rparr>)))"

definition ListProjectVisits :: "uuid \<Rightarrow> int \<Rightarrow> ((project_visit \<times> bool) \<times> user) list store" where
  "ListProjectVisits pid limit = query (\<lambda>s.
     let n = (if limit \<le> 0 \<or> limit > 500 then 100 else limit) in
     take (nat n) (concat (map (\<lambda>v. joined_user s (pv_user v) (v, access_listed s pid (pv_user v)))
       (sort_key (\<lambda>v. - pv_last_seen v) (filter (\<lambda>v. pv_project v = pid) (visits s))))))"

section \<open>Requests for access to a project\<close>

datatype request_error = AlreadyApproved | RQ_Error go_error

type_synonym 'a request_store = "(db, request_error + 'a) state"

definition or_request :: "'a store \<Rightarrow> 'a request_store" where
  "or_request m = do { r \<leftarrow> m; State_Monad.return (case r of Inl e \<Rightarrow> Inl (RQ_Error e) | Inr x \<Rightarrow> Inr x) }"

definition request_by :: "db \<Rightarrow> uuid \<Rightarrow> access_request option" where
  "request_by s i = find (\<lambda>r. ar_id r = i) (access_requests s)"

text \<open>The request joined with the user who made it.\<close>

definition GetAccessRequest :: "uuid \<Rightarrow> access_request option store" where
  "GetAccessRequest i = query (\<lambda>s. case request_by s i of
       None \<Rightarrow> None | Some r \<Rightarrow> if user_by s (ar_user r) = None then None else Some r)"

definition pending_request :: "uuid \<Rightarrow> uuid \<Rightarrow> access_request \<Rightarrow> bool" where
  "pending_request pid uid r \<longleftrightarrow> ar_project r = pid \<and> ar_user r = uid \<and> ar_status r = RQ_Pending"

definition new_request :: "uuid \<Rightarrow> uuid \<Rightarrow> uuid \<Rightarrow> string \<Rightarrow> time \<Rightarrow> access_request" where
  "new_request i pid uid reason now = \<lparr>ar_id = i, ar_project = pid, ar_user = uid, ar_reason = reason,
     ar_status = RQ_Pending, ar_requested = now, ar_decided = None, ar_decided_by = None\<rparr>"

definition insert_request :: "uuid \<Rightarrow> uuid \<Rightarrow> string \<Rightarrow> access_request store" where
  "insert_request pid uid reason = do {
     i \<leftarrow> uuid_New;
     sql (\<lambda>s. if request_by s i \<noteq> None then Inl ''duplicate key value project_access_requests_pkey (SQLSTATE 23505)''
       else if list_ex (pending_request pid uid) (access_requests s)
         then Inl ''duplicate key value uniq_project_access_requests_pending (SQLSTATE 23505)''
       else if project_by s pid = None \<or> user_by s uid = None then Inl ''violates foreign key constraint project_access_requests''
       else (let r = new_request i pid uid reason (db_now s) in Inr (r, s\<lparr>access_requests := access_requests s @ [r]\<rparr>))) }"

text \<open>An earlier request that is still open is kept, with the new reason if there is one.\<close>

definition reuse_request :: "uuid \<Rightarrow> string \<Rightarrow> access_request option store" where
  "reuse_request i reason =
     attempt (if TrimSpace reason = '''' then ok ()
       else exec (\<lambda>s. s\<lparr>access_requests := upd_where (\<lambda>r. ar_id r = i)
              (\<lambda>r. r\<lparr>ar_reason := reason, ar_requested := db_now s\<rparr>) (access_requests s)\<rparr>))
       (\<lambda>_. GetAccessRequest i)"

definition CreateAccessRequest :: "uuid \<Rightarrow> uuid \<Rightarrow> string \<Rightarrow> access_request option request_store" where
  "CreateAccessRequest pid uid reason =
     attempt (or_request (query (\<lambda>s. access_listed s pid uid))) (\<lambda>alreadyAllowed.
     if alreadyAllowed then fail AlreadyApproved
     else attempt (or_request (sql (\<lambda>s. case project_by s pid of None \<Rightarrow> Inl no_rows | Some p \<Rightarrow> Inr (p_owner p, s)))) (\<lambda>ownerID.
     if ownerID = uid then fail AlreadyApproved
     else attempt (or_request (query (\<lambda>s. find (pending_request pid uid) (access_requests s)))) (\<lambda>existing. case existing of
       Some r \<Rightarrow> or_request (reuse_request (ar_id r) reason)
     | None \<Rightarrow> or_request (attempt (insert_request pid uid reason) (\<lambda>r. ok (Some r))))))"

definition with_requester :: "db \<Rightarrow> access_request list \<Rightarrow> (access_request \<times> user) list" where
  "with_requester s rs = concat (map (\<lambda>r. joined_user s (ar_user r) r) (sort_key (\<lambda>r. - ar_requested r) rs))"

definition request_status_of :: "string \<Rightarrow> request_status" where
  "request_status_of t = (if t = ''pending'' then RQ_Pending else if t = ''approved'' then RQ_Approved
     else if t = ''denied'' then RQ_Denied else RQ_Other t)"

definition ListAccessRequests :: "uuid \<Rightarrow> string \<Rightarrow> (access_request \<times> user) list store" where
  "ListAccessRequests pid statusFilter = query (\<lambda>s. with_requester s
     (filter (\<lambda>r. ar_project r = pid \<and> (statusFilter = '''' \<or> ar_status r = request_status_of statusFilter)) (access_requests s)))"

definition ListPendingRequestsForOwner :: "uuid \<Rightarrow> (access_request \<times> user) list store" where
  "ListPendingRequestsForOwner ownerID = query (\<lambda>s. with_requester s
     (filter (\<lambda>r. ar_status r = RQ_Pending
                \<and> (case project_by s (ar_project r) of None \<Rightarrow> False | Some p \<Rightarrow> p_owner p = ownerID)) (access_requests s)))"

text \<open>
  A transaction whose body may also return early: \<open>Inl\<close> leaves the function before the commit, so the
  deferred rollback undoes it; \<open>Inr\<close> commits.
\<close>

definition transaction_early :: "('a + 'b) store \<Rightarrow> ('a + 'b) store" where
  "transaction_early body = State (\<lambda>s0. case run_state (query (\<lambda>_. ())) s0 of
       (Inl e, s1) \<Rightarrow> (Inl e, s1)
     | (Inr _, s1) \<Rightarrow> (case run_state body s1 of
          (Inl e, s2) \<Rightarrow> (Inl e, restore s1 s2)
        | (Inr (Inl x), s2) \<Rightarrow> (Inr (Inl x), restore s1 s2)
        | (Inr (Inr y), s2) \<Rightarrow> (case run_state (query (\<lambda>_. ())) s2 of
             (Inl e, s3) \<Rightarrow> (Inl e, restore s1 s3)
           | (Inr _, s3) \<Rightarrow> (Inr (Inr y), s3))))"

definition set_decision :: "uuid \<Rightarrow> request_status \<Rightarrow> uuid \<Rightarrow> unit store" where
  "set_decision i status decidedBy = sql (\<lambda>s.
     if user_by s decidedBy = None then Inl ''violates foreign key constraint project_access_requests_decided_by_fkey''
     else Inr ((), s\<lparr>access_requests := upd_where (\<lambda>r. ar_id r = i)
            (\<lambda>r. r\<lparr>ar_status := status, ar_decided := Some (db_now s), ar_decided_by := Some decidedBy\<rparr>) (access_requests s)\<rparr>))"

text \<open>\<open>Inl False\<close>: no such request; \<open>Inl True\<close>: decided before.\<close>

definition decide_tx :: "uuid \<Rightarrow> request_status \<Rightarrow> uuid \<Rightarrow> (bool + unit) store" where
  "decide_tx requestID status decidedBy =
     attempt (query (\<lambda>s. request_by s requestID)) (\<lambda>r. case r of
       None \<Rightarrow> ok (Inl False)
     | Some a \<Rightarrow>
        if ar_status a \<noteq> RQ_Pending then ok (Inl True)
        else attempt (set_decision requestID status decidedBy) (\<lambda>_.
             attempt (if status = RQ_Approved then insert_access (ar_project a) (ar_user a) (Some decidedBy) else ok ()) (\<lambda>_.
             ok (Inr ()))))"

definition DecideAccessRequest :: "uuid \<Rightarrow> request_status \<Rightarrow> uuid \<Rightarrow> access_request option store" where
  "DecideAccessRequest requestID status decidedBy =
     (if status \<noteq> RQ_Approved \<and> status \<noteq> RQ_Denied then fail ''invalid decision status''
      else attempt (transaction_early (decide_tx requestID status decidedBy)) (\<lambda>r. case r of
          Inl False \<Rightarrow> ok None
        | Inl True \<Rightarrow> GetAccessRequest requestID
        | Inr _ \<Rightarrow> GetAccessRequest requestID))"

section \<open>Requests for the platform\<close>

definition auth_request_by :: "db \<Rightarrow> uuid \<Rightarrow> auth_request option" where
  "auth_request_by s i = find (\<lambda>r. aq_id r = i) (auth_requests s)"

text \<open>The error of the \<open>DELETE\<close> that makes room is dropped.\<close>

definition CreateAuthorizationRequest :: "uuid \<Rightarrow> auth_request store" where
  "CreateAuthorizationRequest userID = do {
     _ \<leftarrow> exec (\<lambda>s. s\<lparr>auth_requests := filter (\<lambda>r. \<not> (aq_user r = userID \<and> aq_status r = AQ_Rejected)) (auth_requests s)\<rparr>);
     i \<leftarrow> uuid_New;
     sql (\<lambda>s. if auth_request_by s i \<noteq> None then Inl ''duplicate key value authorization_requests_pkey (SQLSTATE 23505)''
       else if user_by s userID = None then Inl ''violates foreign key constraint authorization_requests_user_id_fkey''
       else (let r = \<lparr>aq_id = i, aq_user = userID, aq_status = AQ_Pending, aq_reviewed_by = None, aq_created = db_now s\<rparr>
             in Inr (r, s\<lparr>auth_requests := auth_requests s @ [r]\<rparr>))) }"

definition GetAuthorizationRequestByUser :: "uuid \<Rightarrow> auth_request option store" where
  "GetAuthorizationRequestByUser userID = query (\<lambda>s.
     case sort_key (\<lambda>r. - aq_created r) (filter (\<lambda>r. aq_user r = userID) (auth_requests s)) of
       [] \<Rightarrow> None | r # _ \<Rightarrow> Some r)"

definition ListPendingAuthorizationRequests :: "(auth_request \<times> user) list store" where
  "ListPendingAuthorizationRequests = query (\<lambda>s. concat (map (\<lambda>r. joined_user s (aq_user r) r)
     (sort_key aq_created (filter (\<lambda>r. aq_status r = AQ_Pending) (auth_requests s)))))"

definition review_request :: "uuid \<Rightarrow> auth_request_status \<Rightarrow> uuid \<Rightarrow> db \<Rightarrow> db" where
  "review_request i status adminID s = s\<lparr>auth_requests :=
     upd_where (\<lambda>r. aq_id r = i \<and> aq_status r = AQ_Pending) (\<lambda>r. r\<lparr>aq_status := status, aq_reviewed_by := Some adminID\<rparr>)
       (auth_requests s)\<rparr>"

definition open_request :: "db \<Rightarrow> uuid \<Rightarrow> auth_request option" where
  "open_request s i = find (\<lambda>r. aq_id r = i \<and> aq_status r = AQ_Pending) (auth_requests s)"

definition authorize_member :: "uuid \<Rightarrow> unit store" where
  "authorize_member userID = sql (\<lambda>s. case member_by s userID of
       Some _ \<Rightarrow> Inr ((), s\<lparr>platform_members :=
         upd_where (\<lambda>m. pm_user m = userID) (\<lambda>m. m\<lparr>pm_authorized := True\<rparr>) (platform_members s)\<rparr>)
     | None \<Rightarrow> if user_by s userID = None then Inl member_fkey
              else Inr ((), s\<lparr>platform_members := platform_members s @
                     [\<lparr>pm_user = userID, pm_role = RoleMember, pm_authorized = True, pm_created = db_now s\<rparr>]\<rparr>))"

definition ApproveAuthorizationRequest :: "uuid \<Rightarrow> uuid \<Rightarrow> unit store" where
  "ApproveAuthorizationRequest requestID adminID = transaction (
     attempt (wrap_err ''request not found or already processed: '' (sql (\<lambda>s. case open_request s requestID of
         None \<Rightarrow> Inl no_rows
       | Some r \<Rightarrow> if user_by s adminID = None then Inl ''violates foreign key constraint authorization_requests_reviewed_by_fkey''
                   else Inr (aq_user r, review_request requestID AQ_Approved adminID s)))) (\<lambda>userID.
     attempt (authorize_member userID) (\<lambda>_. SetUserAuthorized userID True)))"

definition RejectAuthorizationRequest :: "uuid \<Rightarrow> uuid \<Rightarrow> unit store" where
  "RejectAuthorizationRequest requestID adminID = sql (\<lambda>s.
     if open_request s requestID \<noteq> None \<and> user_by s adminID = None
     then Inl ''violates foreign key constraint authorization_requests_reviewed_by_fkey''
     else Inr ((), review_request requestID AQ_Rejected adminID s))"

definition ClearPendingAuthorizationRequests :: "unit store" where
  "ClearPendingAuthorizationRequests = exec (\<lambda>s. s\<lparr>auth_requests := filter (\<lambda>r. aq_status r \<noteq> AQ_Pending) (auth_requests s)\<rparr>)"

section \<open>Invitations\<close>

definition normalizeEmail :: "string \<Rightarrow> string" where
  "normalizeEmail email = ToLower (TrimSpace email)"

definition CreateInvitation :: "string \<Rightarrow> uuid \<Rightarrow> invitation store" where
  "CreateInvitation rawEmail invitedBy =
     (let email = normalizeEmail rawEmail in
      if email = '''' then fail ''email required''
      else do {
        i \<leftarrow> uuid_New;
        sql (\<lambda>s. if user_by s invitedBy = None then Inl ''violates foreign key constraint invitations_invited_by_fkey''
          else (case find (\<lambda>v. iv_email v = email) (invitations s) of
            Some v \<Rightarrow> Inr (v\<lparr>iv_invited_by := invitedBy\<rparr>,
                s\<lparr>invitations := upd_where (\<lambda>v. iv_email v = email) (\<lambda>v. v\<lparr>iv_invited_by := invitedBy\<rparr>) (invitations s)\<rparr>)
          | None \<Rightarrow> if list_ex (\<lambda>v. iv_id v = i) (invitations s) then Inl ''duplicate key value invitations_pkey (SQLSTATE 23505)''
                   else (let v = \<lparr>iv_id = i, iv_email = email, iv_invited_by = invitedBy, iv_created = db_now s\<rparr>
                         in Inr (v, s\<lparr>invitations := invitations s @ [v]\<rparr>)))) })"

definition IsEmailInvited :: "string \<Rightarrow> bool store" where
  "IsEmailInvited rawEmail =
     (let email = normalizeEmail rawEmail in
      if email = '''' then ok False else query (\<lambda>s. list_ex (\<lambda>v. iv_email v = email) (invitations s)))"

definition ListInvitations :: "(invitation \<times> user option) list store" where
  "ListInvitations = query (\<lambda>s. map (\<lambda>v. (v, user_by s (iv_invited_by v))) (sort_key (\<lambda>v. - iv_created v) (invitations s)))"

definition DeleteInvitation :: "uuid \<Rightarrow> unit store" where
  "DeleteInvitation i = exec (\<lambda>s. s\<lparr>invitations := filter (\<lambda>v. iv_id v \<noteq> i) (invitations s)\<rparr>)"

section \<open>Invitation links\<close>

definition new_link :: "uuid \<Rightarrow> string \<Rightarrow> uuid \<Rightarrow> uuid option \<Rightarrow> int option \<Rightarrow> time option \<Rightarrow> time \<Rightarrow> invitation_link" where
  "new_link i tokenHash invitedBy pid maxUses expiresAt now = \<lparr>il_id = i, il_token_hash = tokenHash,
     il_invited_by = Some invitedBy, il_project = pid, il_max_uses = maxUses, il_expires = expiresAt,
     il_used_at = None, il_used_by = None, il_created = now\<rparr>"

definition insert_link :: "string \<Rightarrow> uuid \<Rightarrow> uuid option \<Rightarrow> int option \<Rightarrow> time option \<Rightarrow> invitation_link store" where
  "insert_link tokenHash invitedBy pid maxUses expiresAt = do {
     i \<leftarrow> uuid_New;
     sql (\<lambda>s. if list_ex (\<lambda>l. il_id l = i \<or> il_token_hash l = tokenHash) (invitation_links s)
         then Inl ''duplicate key value invitation_links (SQLSTATE 23505)''
       else if user_by s invitedBy = None \<or> (case pid of None \<Rightarrow> False | Some p \<Rightarrow> project_by s p = None)
         then Inl ''violates foreign key constraint invitation_links''
       else if \<not> in_range (- (2 ^ 31)) (2 ^ 31 - 1) maxUses then Inl ''is greater than maximum value for int4''
       else (let l = new_link i tokenHash invitedBy pid maxUses expiresAt (db_now s)
             in Inr (l, s\<lparr>invitation_links := invitation_links s @ [l]\<rparr>))) }"

definition CreateInvitationLink :: "uuid \<Rightarrow> string \<Rightarrow> time option \<Rightarrow> invitation_link store" where
  "CreateInvitationLink invitedBy tokenHash expiresAt = insert_link tokenHash invitedBy None None expiresAt"

definition CreateProjectInvitationLink ::
  "uuid \<Rightarrow> uuid \<Rightarrow> string \<Rightarrow> int option \<Rightarrow> time option \<Rightarrow> invitation_link store" where
  "CreateProjectInvitationLink pid invitedBy tokenHash maxUses expiresAt = insert_link tokenHash invitedBy (Some pid) maxUses expiresAt"

definition use_count :: "db \<Rightarrow> uuid \<Rightarrow> nat" where
  "use_count s i = length (filter (\<lambda>u. lu_link u = i) (link_uses s))"

definition link_usable :: "db \<Rightarrow> time \<Rightarrow> invitation_link \<Rightarrow> bool" where
  "link_usable s now l \<longleftrightarrow>
     (case il_expires l of None \<Rightarrow> True | Some t \<Rightarrow> t > now)
     \<and> (case il_project l of
          None \<Rightarrow> il_used_at l = None
        | Some _ \<Rightarrow> (case il_max_uses l of None \<Rightarrow> True | Some m \<Rightarrow> int (use_count s (il_id l)) < m))"

definition GetValidInvitationLinkByHash :: "string \<Rightarrow> time \<Rightarrow> (invitation_link \<times> nat) option store" where
  "GetValidInvitationLinkByHash tokenHash now = query (\<lambda>s.
     map_option (\<lambda>l. (l, use_count s (il_id l)))
       (find (\<lambda>l. il_token_hash l = tokenHash \<and> link_usable s now l) (invitation_links s)))"

definition unused_platform_link :: "uuid \<Rightarrow> invitation_link \<Rightarrow> bool" where
  "unused_platform_link i l \<longleftrightarrow> il_id l = i \<and> il_used_at l = None \<and> il_project l = None"

definition ConsumeInvitationLink :: "uuid \<Rightarrow> uuid \<Rightarrow> unit store" where
  "ConsumeInvitationLink linkID userID =
     attempt (sql (\<lambda>s.
       if list_ex (unused_platform_link linkID) (invitation_links s) \<and> user_by s userID = None
       then Inl ''violates foreign key constraint invitation_links_used_by_fkey''
       else Inr (length (filter (unused_platform_link linkID) (invitation_links s)),
         s\<lparr>invitation_links := upd_where (unused_platform_link linkID)
             (\<lambda>l. l\<lparr>il_used_at := Some (db_now s), il_used_by := Some userID\<rparr>) (invitation_links s)\<rparr>)))
       (\<lambda>n. if n = 0 then fail ''invitation link already consumed'' else ok ())"

definition RecordInvitationLinkUse :: "uuid \<Rightarrow> uuid \<Rightarrow> unit store" where
  "RecordInvitationLinkUse linkID userID = do {
     i \<leftarrow> uuid_New;
     sql (\<lambda>s. if list_ex (\<lambda>u. lu_link u = linkID \<and> lu_user u = userID) (link_uses s) then Inr ((), s)
       else if list_ex (\<lambda>u. lu_id u = i) (link_uses s) then Inl ''duplicate key value invitation_link_uses_pkey (SQLSTATE 23505)''
       else if \<not> list_ex (\<lambda>l. il_id l = linkID) (invitation_links s) \<or> user_by s userID = None
         then Inl ''violates foreign key constraint invitation_link_uses''
       else Inr ((), s\<lparr>link_uses := link_uses s @ [\<lparr>lu_id = i, lu_link = linkID, lu_user = userID, lu_at = db_now s\<rparr>]\<rparr>)) }"

definition link_owner :: "db \<Rightarrow> uuid option \<Rightarrow> user option" where
  "link_owner s i = (case i of None \<Rightarrow> None | Some u \<Rightarrow> user_by s u)"

definition ListInvitationLinks :: "(invitation_link \<times> user option \<times> user option) list store" where
  "ListInvitationLinks = query (\<lambda>s. map (\<lambda>l. (l, link_owner s (il_invited_by l), link_owner s (il_used_by l)))
     (sort_key (\<lambda>l. - il_created l) (filter (\<lambda>l. il_project l = None) (invitation_links s))))"

definition ListProjectInvitationLinks :: "uuid \<Rightarrow> (invitation_link \<times> user option \<times> nat) list store" where
  "ListProjectInvitationLinks pid = query (\<lambda>s. map (\<lambda>l. (l, link_owner s (il_invited_by l), use_count s (il_id l)))
     (sort_key (\<lambda>l. - il_created l) (filter (\<lambda>l. il_project l = Some pid) (invitation_links s))))"

definition ListInvitationLinkUses :: "uuid \<Rightarrow> (link_use \<times> user option) list store" where
  "ListInvitationLinkUses linkID = query (\<lambda>s. map (\<lambda>u. (u, user_by s (lu_user u)))
     (sort_key (\<lambda>u. - lu_at u) (filter (\<lambda>u. lu_link u = linkID) (link_uses s))))"

definition GetInvitationLink :: "uuid \<Rightarrow> invitation_link option store" where
  "GetInvitationLink i = query (\<lambda>s. find (\<lambda>l. il_id l = i) (invitation_links s))"

definition DeleteInvitationLink :: "uuid \<Rightarrow> unit store" where
  "DeleteInvitationLink i = exec (\<lambda>s. s\<lparr>invitation_links := filter (\<lambda>l. il_id l \<noteq> i) (invitation_links s),
     link_uses := filter (\<lambda>u. lu_link u \<noteq> i) (link_uses s)\<rparr>)"

end
