(* ===== verification/Access.thy ===== *)
theory Access
  imports Access_Store
begin

text \<open>
  Who gets in: the identities and members that a sign-in writes (internal/auth/auth.go), the
  invitation links of the platform and of a project (internal/api/invitations.go,
  internal/api/project_invitations.go), the inbox and allow-list handlers and the access check behind
  forward auth (internal/api/server.go). Hashing a token, drawing a random one and storing an inlined
  avatar are parameters.
\<close>

section \<open>Configuration\<close>

datatype access_mode = ModeOpen | ModeInvite | ModeRequest

record auth_cfg =
  au_providers :: "(string \<times> bool) list"
  au_allowed_domains :: "string list"
  au_admin_emails :: "string list"
  au_materialize :: "string \<Rightarrow> string"
  au_hash :: "string \<Rightarrow> string"

datatype auth_error = NotInvited | NotProjectScoped | AuthError go_error

type_synonym 'a auth = "(db, auth_error + 'a) state"

definition or_auth :: "string \<Rightarrow> 'a store \<Rightarrow> 'a auth" where
  "or_auth p m = do { r \<leftarrow> m; State_Monad.return (case r of Inl e \<Rightarrow> Inl (AuthError (p @ e)) | Inr x \<Rightarrow> Inr x) }"

definition access_mode_of :: "string \<Rightarrow> access_mode" where
  "access_mode_of v = (if v = ''invite'' then ModeInvite else if v = ''request'' then ModeRequest else ModeOpen)"

definition accessMode :: "(db, access_mode) state" where
  "accessMode = do {
     r \<leftarrow> GetSetting ''access_mode'';
     State_Monad.return (case r of Inl _ \<Rightarrow> ModeOpen | Inr v \<Rightarrow> access_mode_of v) }"

definition isOrgScopedProvider :: "(string \<times> bool) list \<Rightarrow> string \<Rightarrow> bool" where
  "isOrgScopedProvider providers name = (case map_of providers name of
       Some scoped \<Rightarrow> scoped
     | None \<Rightarrow> name \<in> {''feishu'', ''wecom'', ''dingtalk'', ''phone''})"

text \<open>\<open>strings.SplitN(email, "@", 2)\<close>.\<close>

definition checkDomain :: "string list \<Rightarrow> string \<Rightarrow> auth_error + unit" where
  "checkDomain allowed email =
     (if length allowed = 0 then Inr ()
      else case IndexByte email (CHR ''@'') of
          None \<Rightarrow> Inl (AuthError ''invalid email'')
        | Some i \<Rightarrow> (let domain = drop (Suc i) email in
            if domain \<in> set allowed then Inr () else Inl (AuthError (''email domain not allowed: '' @ domain))))"

section \<open>Identities\<close>

definition materializeAvatar :: "auth_cfg \<Rightarrow> string \<Rightarrow> string" where
  "materializeAvatar cfg avatarURL = (if avatarURL = '''' then avatarURL else au_materialize cfg avatarURL)"

definition EnsureIdentity :: "auth_cfg \<Rightarrow> string \<Rightarrow> string \<Rightarrow> string \<Rightarrow> user auth" where
  "EnsureIdentity cfg email name avatarURL =
     attempt (or_auth ''upsert user: '' (UpsertUser email name (materializeAvatar cfg avatarURL) True)) (\<lambda>(u, _). ok u)"

definition EnsureIdentityFromOAuth :: "auth_cfg \<Rightarrow> string \<Rightarrow> string \<Rightarrow> string \<Rightarrow> string \<Rightarrow> user option auth" where
  "EnsureIdentityFromOAuth cfg provider sub name avatarURL =
     attempt (or_auth ''ensure user by oauth: '' (EnsureUserByOAuth provider sub name (materializeAvatar cfg avatarURL)))
       (\<lambda>(u, _). ok u)"

section \<open>Invitations and members\<close>

definition find_link :: "auth_cfg \<Rightarrow> string \<Rightarrow> invitation_link option auth" where
  "find_link cfg token =
     (if token = '''' then ok None
      else do {
        now \<leftarrow> time_Now;
        attempt (or_auth ''check invite link: '' (GetValidInvitationLinkByHash (au_hash cfg token) now))
          (\<lambda>r. ok (map_option fst r)) })"

definition grantProjectInvite :: "invitation_link \<Rightarrow> uuid \<Rightarrow> uuid \<Rightarrow> unit auth" where
  "grantProjectInvite link projectID userID =
     attempt (or_auth ''record invitation link use: '' (RecordInvitationLinkUse (il_id link) userID)) (\<lambda>_.
     or_auth ''add project access user: '' (AddProjectAccessUser projectID userID (il_invited_by link)))"

definition ConsumeProjectInviteForUserID :: "auth_cfg \<Rightarrow> uuid \<Rightarrow> string \<Rightarrow> bool auth" where
  "ConsumeProjectInviteForUserID cfg userID inviteToken =
     attempt (find_link cfg inviteToken) (\<lambda>r. case r of
       None \<Rightarrow> ok False
     | Some link \<Rightarrow> (case il_project link of
           None \<Rightarrow> fail NotProjectScoped
         | Some pid \<Rightarrow> attempt (grantProjectInvite link pid userID) (\<lambda>_. ok True)))"

text \<open>
  The invite gate: whether the address is on the white-list; an address that is neither on it nor
  carries a link passes only when it belongs to a member already.
\<close>

definition check_invited :: "string \<Rightarrow> bool \<Rightarrow> bool auth" where
  "check_invited email hasLink =
     attempt (or_auth ''check invitation: '' (IsEmailInvited email)) (\<lambda>invited.
     if invited \<or> hasLink then ok invited
     else attempt (or_auth ''lookup user: '' (GetUserByEmail email)) (\<lambda>existing. case existing of
         None \<Rightarrow> fail NotInvited
       | Some u \<Rightarrow> attempt (or_auth ''lookup platform member: '' (GetPlatformMember (u_id u))) (\<lambda>pm. case pm of
             None \<Rightarrow> fail NotInvited | Some _ \<Rightarrow> ok invited)))"

definition promote_admin :: "bool \<Rightarrow> uuid \<Rightarrow> platform_member \<Rightarrow> platform_member auth" where
  "promote_admin isAdmin userID pm =
     (if isAdmin \<and> pm_role pm \<noteq> RoleAdmin
      then attempt (or_auth ''promote admin: '' (SetPlatformMemberRole userID RoleAdmin)) (\<lambda>_. ok (pm\<lparr>pm_role := RoleAdmin\<rparr>))
      else ok pm)"

definition authorize_invited :: "bool \<Rightarrow> uuid \<Rightarrow> platform_member \<Rightarrow> platform_member auth" where
  "authorize_invited welcome userID pm =
     (if welcome \<and> \<not> pm_authorized pm
      then attempt (or_auth ''authorize platform member: '' (SetPlatformMemberAuthorized userID True)) (\<lambda>_. ok (pm\<lparr>pm_authorized := True\<rparr>))
      else ok pm)"

text \<open>The error of \<open>ConsumeInvitationLink\<close> is dropped.\<close>

definition consume_link :: "invitation_link option \<Rightarrow> uuid \<Rightarrow> unit auth" where
  "consume_link link userID = (case link of
       None \<Rightarrow> ok ()
     | Some l \<Rightarrow> do { _ \<leftarrow> ConsumeInvitationLink (il_id l) userID; ok () })"

text \<open>What follows once the gates are passed: the rows of the user and of the member.\<close>

definition write_member :: "auth_cfg \<Rightarrow> access_mode \<Rightarrow> bool \<Rightarrow> bool \<Rightarrow> invitation_link option
    \<Rightarrow> string \<Rightarrow> string \<Rightarrow> string \<Rightarrow> (user \<times> platform_member) auth" where
  "write_member cfg mode isAdmin emailInvited link email name avatarURL =
     attempt (EnsureIdentity cfg email name avatarURL) (\<lambda>user.
     attempt (or_auth ''upsert platform member: ''
         (UpsertPlatformMember (u_id user) (if isAdmin then RoleAdmin else RoleMember) (\<not> (mode = ModeRequest \<and> \<not> isAdmin)))) (\<lambda>(pm, _).
     attempt (promote_admin isAdmin (u_id user) pm) (\<lambda>pm.
     attempt (authorize_invited (mode = ModeInvite \<and> (emailInvited \<or> link \<noteq> None)) (u_id user) pm) (\<lambda>pm.
     attempt (consume_link link (u_id user)) (\<lambda>_.
     ok (user\<lparr>u_role := pm_role pm, u_authorized := pm_authorized pm\<rparr>, pm))))))"

definition enter_platform :: "auth_cfg \<Rightarrow> string \<Rightarrow> string \<Rightarrow> string \<Rightarrow> string \<Rightarrow> invitation_link option
    \<Rightarrow> (user \<times> platform_member option) auth" where
  "enter_platform cfg provider email name avatarURL link =
     attempt (State_Monad.return (if isOrgScopedProvider (au_providers cfg) provider then Inr () else checkDomain (au_allowed_domains cfg) email)) (\<lambda>_.
     do {
       mode \<leftarrow> accessMode;
       let isAdmin = email \<in> set (au_admin_emails cfg);
       attempt (if mode = ModeInvite \<and> \<not> isAdmin then check_invited email (link \<noteq> None) else ok False) (\<lambda>emailInvited.
       attempt (write_member cfg mode isAdmin emailInvited link email name avatarURL) (\<lambda>(user, pm).
       ok (user, Some pm))) })"

definition EnsurePlatformMember :: "auth_cfg \<Rightarrow> string \<Rightarrow> string \<Rightarrow> string \<Rightarrow> string \<Rightarrow> string
    \<Rightarrow> (user \<times> platform_member option) auth" where
  "EnsurePlatformMember cfg provider email name avatarURL inviteToken =
     attempt (find_link cfg inviteToken) (\<lambda>link.
     case (case link of None \<Rightarrow> None | Some l \<Rightarrow> map_option (Pair l) (il_project l)) of
       Some (l, pid) \<Rightarrow>
         attempt (EnsureIdentity cfg email name avatarURL) (\<lambda>user.
         attempt (grantProjectInvite l pid (u_id user)) (\<lambda>_. ok (user, None)))
     | None \<Rightarrow> enter_platform cfg provider email name avatarURL link)"

definition EnsureUser :: "auth_cfg \<Rightarrow> string \<Rightarrow> string \<Rightarrow> string \<Rightarrow> string \<Rightarrow> string \<Rightarrow> user auth" where
  "EnsureUser cfg provider email name avatarURL inviteToken =
     attempt (EnsurePlatformMember cfg provider email name avatarURL inviteToken) (\<lambda>(user, _). ok user)"

definition SyntheticPhoneEmail :: "string \<Rightarrow> string" where
  "SyntheticPhoneEmail e164 = TrimPrefix e164 ''+'' @ ''@phone.invalid''"

text \<open>The signed session is the user it is signed for.\<close>

definition HandlePhoneLogin :: "auth_cfg \<Rightarrow> string \<Rightarrow> user auth" where
  "HandlePhoneLogin cfg e164 =
     attempt (EnsurePlatformMember cfg ''phone'' (SyntheticPhoneEmail e164) e164 '''' '''') (\<lambda>(user, _). ok user)"

text \<open>\<open>info\<close> is what the registered provider's \<open>UserInfo\<close> returns: address, name, avatar.\<close>

definition HandleCallback :: "auth_cfg \<Rightarrow> string \<Rightarrow> go_error + (string \<times> string \<times> string) \<Rightarrow> string \<Rightarrow> user auth" where
  "HandleCallback cfg provider info inviteToken =
     (if map_of (au_providers cfg) provider = None then fail (AuthError ''unknown provider'')
      else case info of
          Inl e \<Rightarrow> fail (AuthError (''user info: '' @ e))
        | Inr (email, name, avatarURL) \<Rightarrow>
            attempt (EnsurePlatformMember cfg provider email name avatarURL inviteToken) (\<lambda>(user, _). ok user))"

section \<open>Callers\<close>

text \<open>
  What \<open>Middleware\<close> puts into the request: the user as the rest of the server sees it, and its row
  on the admin plane. A read that fails counts as no row.
\<close>

definition caller_of :: "user \<Rightarrow> (db, user \<times> platform_member option) state" where
  "caller_of user = do {
     r \<leftarrow> GetPlatformMember (u_id user);
     State_Monad.return (case r of
         Inr (Some pm) \<Rightarrow> (user\<lparr>u_role := pm_role pm, u_authorized := pm_authorized pm\<rparr>, Some pm)
       | _ \<Rightarrow> (user\<lparr>u_role := RoleMember, u_authorized := False\<rparr>, None)) }"

definition PlatformRoleFromCtx :: "platform_member option \<Rightarrow> user_role option" where
  "PlatformRoleFromCtx pm = map_option pm_role pm"

definition PlatformAuthorizedFromCtx :: "platform_member option \<Rightarrow> bool" where
  "PlatformAuthorizedFromCtx pm = (case pm of None \<Rightarrow> False | Some m \<Rightarrow> pm_role m = RoleAdmin \<or> pm_authorized m)"

definition isUserAuthorized :: "platform_member option \<Rightarrow> (db, bool) state" where
  "isUserAuthorized pm = (case PlatformRoleFromCtx pm of
       Some RoleAdmin \<Rightarrow> State_Monad.return True
     | None \<Rightarrow> State_Monad.return False
     | Some RoleMember \<Rightarrow> do {
         mode \<leftarrow> accessMode;
         State_Monad.return (if mode = ModeOpen then True else PlatformAuthorizedFromCtx pm) })"

definition setUserRole :: "uuid \<Rightarrow> user_role option \<Rightarrow> unit handler" where
  "setUserRole i body = (case body of
       None \<Rightarrow> fail (400, AE_Body ''role must be admin or member'')
     | Some role \<Rightarrow>
         attempt (or_status 500 (UpsertPlatformMember i role True)) (\<lambda>_.
         or_status 500 (SetPlatformMemberRole i role)))"

end
