(* ===== verification/Access_Handlers.thy ===== *)
theory Access_Handlers
  imports Access
begin

text \<open>
  The handlers of accounts and access (internal/api/server.go, internal/api/invitations.go,
  internal/api/project_invitations.go, internal/api/visit_recorder.go): the internal endpoints that
  muvee-authservice calls, the allow-list and the inboxes, the invitation links and the buffered
  visit counter. A handler returns its status and error, or what it writes; the caller of a handler
  behind \<open>Middleware\<close> is the user that \<open>caller_of\<close> gives; \<open>uuid.Parse\<close> is a parameter.
\<close>

section \<open>Internal endpoints\<close>

text \<open>\<open>subtle.ConstantTimeCompare\<close> with the hash of the shared secret.\<close>

definition internal_key :: "string \<Rightarrow> string \<Rightarrow> unit handler" where
  "internal_key expected got = require (expected \<noteq> '''' \<and> got = expected) 401 AE_None"

definition parse_id :: "(string \<Rightarrow> go_error + uuid) \<Rightarrow> string \<Rightarrow> string \<Rightarrow> uuid handler" where
  "parse_id parse what t = State_Monad.return (case parse t of Inl _ \<Rightarrow> Inl (400, AE_Body what) | Inr i \<Rightarrow> Inr i)"

text \<open>The answer, and the visit it pushes.\<close>

definition handleInternalAccessCheck :: "(string \<Rightarrow> go_error + uuid) \<Rightarrow> string \<Rightarrow> string \<Rightarrow> string \<Rightarrow> string \<Rightarrow> string
    \<Rightarrow> (access_check \<times> (uuid \<times> uuid) option) handler" where
  "handleInternalAccessCheck parse expected got projectIDStr rawEmail rawUserID =
     (let email = TrimSpace (ToLower rawEmail); userIDStr = TrimSpace rawUserID in
      attempt (internal_key expected got) (\<lambda>_.
      attempt (require (\<not> (projectIDStr = '''' \<or> (email = '''' \<and> userIDStr = ''''))) 400
        (AE_Body ''project_id and one of email or user_id are required'')) (\<lambda>_.
      attempt (parse_id parse ''invalid project_id'' projectIDStr) (\<lambda>projectID.
      attempt (if email \<noteq> '''' then or_status 500 (IsProjectAccessAllowedByEmail email projectID)
               else attempt (parse_id parse ''invalid user_id'' userIDStr) (\<lambda>userID.
                    or_status 500 (IsProjectAccessAllowedByUserID userID projectID))) (\<lambda>res.
      ok (res, if ck_allowed res \<and> \<not> ck_admin res \<and> ck_user res \<noteq> uuid_Nil then Some (projectID, ck_user res) else None))))))"

text \<open>The project behind a host: by its prefix or an alias under the base domain, else by an alias.\<close>

definition handleInternalProjectByHost :: "string \<Rightarrow> string \<Rightarrow> string \<Rightarrow> string \<Rightarrow> project handler" where
  "handleInternalProjectByHost baseDomain expected got rawHost =
     (let host = ToLower (TrimSpace rawHost); base = ToLower baseDomain in
      attempt (internal_key expected got) (\<lambda>_.
      attempt (require (host \<noteq> '''') 400 (AE_Body ''host param required'')) (\<lambda>_.
      attempt (if base \<noteq> '''' \<and> HasSuffix host (''.'' @ base)
               then attempt (or_status 500 (GetProjectByDomainPrefix (TrimSuffix host (''.'' @ base)))) (\<lambda>p. case p of
                      Some q \<Rightarrow> ok (Some q)
                    | None \<Rightarrow> or_status 500 (GetProjectByAliasHost host))
               else if host = base then fail (404, AE_Body ''apex host carries no project'')
               else or_status 500 (GetProjectByAliasHost host)) (\<lambda>p. case p of
         None \<Rightarrow> fail (404, AE_None)
       | Some q \<Rightarrow> ok q))))"

definition handleInternalProjectInfo :: "(string \<Rightarrow> go_error + uuid) \<Rightarrow> string \<Rightarrow> string \<Rightarrow> string \<Rightarrow> project handler" where
  "handleInternalProjectInfo parse expected got idStr =
     attempt (internal_key expected got) (\<lambda>_.
     attempt (parse_id parse ''invalid id'' idStr) (\<lambda>i.
     attempt (or_status 500 (GetProject i)) (\<lambda>p. case p of
       None \<Rightarrow> fail (404, AE_None) | Some q \<Rightarrow> ok q)))"

text \<open>\<open>reason[:1000]\<close> after trimming.\<close>

definition clip_reason :: "string \<Rightarrow> string" where
  "clip_reason reason = take 1000 (TrimSpace reason)"

text \<open>\<open>None\<close> is \<open>already_allowed\<close>.\<close>

definition submit_request :: "uuid \<Rightarrow> uuid \<Rightarrow> string \<Rightarrow> (nat \<times> api_error) \<Rightarrow> access_request option option handler" where
  "submit_request pid uid reason already = do {
     r \<leftarrow> CreateAccessRequest pid uid (clip_reason reason);
     State_Monad.return (case r of
       Inl AlreadyApproved \<Rightarrow> if fst already = 200 then Inr None else Inl already
     | Inl (RQ_Error e) \<Rightarrow> Inl (500, AE_Store e)
     | Inr q \<Rightarrow> Inr (Some q)) }"

definition handleInternalSubmitAccessRequest :: "(string \<Rightarrow> go_error + uuid) \<Rightarrow> string \<Rightarrow> string
    \<Rightarrow> go_error + (string \<times> string \<times> string \<times> string) \<Rightarrow> access_request option option handler" where
  "handleInternalSubmitAccessRequest parse expected got body =
     attempt (internal_key expected got) (\<lambda>_. case body of
       Inl e \<Rightarrow> fail (400, AE_Body e)
     | Inr (projectIDStr, rawEmail, rawUserID, reason) \<Rightarrow>
        (let email = TrimSpace (ToLower rawEmail); userIDStr = TrimSpace rawUserID in
         attempt (require (\<not> (projectIDStr = '''' \<or> (email = '''' \<and> userIDStr = ''''))) 400
           (AE_Body ''project_id and one of email or user_id are required'')) (\<lambda>_.
         attempt (parse_id parse ''invalid project_id'' projectIDStr) (\<lambda>projectID.
         attempt (if email \<noteq> '''' then or_status 500 (GetUserByEmail email)
                  else attempt (parse_id parse ''invalid user_id'' userIDStr) (\<lambda>userID. or_status 500 (GetUserByID userID))) (\<lambda>user.
         case user of None \<Rightarrow> fail (404, AE_UserNotFound)
         | Some u \<Rightarrow> submit_request projectID (u_id u) reason (200, AE_None))))))"

definition auth_status :: "'a auth \<Rightarrow> 'a handler" where
  "auth_status m = do { r \<leftarrow> m; State_Monad.return (case r of
       Inl NotInvited \<Rightarrow> Inl (403, AE_Body ''not_invited'')
     | Inl NotProjectScoped \<Rightarrow> Inl (400, AE_Body ''invitation link is not project-scoped'')
     | Inl (AuthError e) \<Rightarrow> Inl (500, AE_Store e)
     | Inr x \<Rightarrow> Inr x) }"

definition handleInternalAuthUpsert :: "auth_cfg \<Rightarrow> string \<Rightarrow> string
    \<Rightarrow> go_error + (string \<times> string \<times> string \<times> string \<times> string) \<Rightarrow> user handler" where
  "handleInternalAuthUpsert cfg expected got body =
     attempt (internal_key expected got) (\<lambda>_. case body of
       Inl e \<Rightarrow> fail (400, AE_Body e)
     | Inr (rawEmail, name, avatarURL, rawProvider, inviteToken) \<Rightarrow>
        (let email = TrimSpace (ToLower rawEmail); provider = TrimSpace rawProvider in
         attempt (require (email \<noteq> '''' \<and> provider \<noteq> '''') 400 (AE_Body ''email and provider are required'')) (\<lambda>_.
         auth_status (EnsureUser cfg provider email name avatarURL inviteToken))))"

definition handleInternalAuthIdentityUpsert :: "auth_cfg \<Rightarrow> string \<Rightarrow> string
    \<Rightarrow> go_error + (string \<times> string \<times> string \<times> string \<times> string) \<Rightarrow> user option handler" where
  "handleInternalAuthIdentityUpsert cfg expected got body =
     attempt (internal_key expected got) (\<lambda>_. case body of
       Inl e \<Rightarrow> fail (400, AE_Body e)
     | Inr (rawEmail, name, avatarURL, rawProvider, rawSubject) \<Rightarrow>
        (let email = TrimSpace (ToLower rawEmail); provider = TrimSpace rawProvider; sub = TrimSpace rawSubject;
             subjectKeyed = (provider \<noteq> '''' \<and> sub \<noteq> '''') in
         attempt (require (\<not> (email = '''' \<and> \<not> subjectKeyed)) 400
           (AE_Body ''email, or both provider and provider_user_id, are required'')) (\<lambda>_.
         auth_status (if email \<noteq> '''' then attempt (EnsureIdentity cfg email name avatarURL) (\<lambda>u. ok (Some u))
                      else EnsureIdentityFromOAuth cfg provider sub name avatarURL))))"

definition handleInternalAuthProjectInvite :: "auth_cfg \<Rightarrow> (string \<Rightarrow> go_error + uuid) \<Rightarrow> string \<Rightarrow> string
    \<Rightarrow> go_error + (string \<times> string) \<Rightarrow> bool handler" where
  "handleInternalAuthProjectInvite cfg parse expected got body =
     attempt (internal_key expected got) (\<lambda>_. case body of
       Inl e \<Rightarrow> fail (400, AE_Body e)
     | Inr (rawUserID, rawToken) \<Rightarrow>
        (let userIDStr = TrimSpace rawUserID; token = TrimSpace rawToken in
         attempt (require (userIDStr \<noteq> '''' \<and> token \<noteq> '''') 400 (AE_Body ''user_id and invite_token are required'')) (\<lambda>_.
         attempt (parse_id parse ''invalid user_id'' userIDStr) (\<lambda>userID.
         auth_status (ConsumeProjectInviteForUserID cfg userID token)))))"

section \<open>Allow-list and inbox of a project\<close>

definition listProjectAccessUsers :: "user \<Rightarrow> uuid \<Rightarrow> (access_user \<times> user) list handler" where
  "listProjectAccessUsers caller i =
     attempt (allowed_to caller i 404) (\<lambda>_. or_status 500 (ListProjectAccessUsers i))"

definition addProjectAccessUser :: "user \<Rightarrow> uuid \<Rightarrow> go_error + string \<Rightarrow> (access_user \<times> user) list handler" where
  "addProjectAccessUser caller i body =
     attempt (existing_project i) (\<lambda>proj.
     attempt (owner_or_admin caller proj) (\<lambda>_. case body of
       Inl e \<Rightarrow> fail (400, AE_Body e)
     | Inr rawEmail \<Rightarrow>
        (let email = TrimSpace (ToLower rawEmail) in
         attempt (require (email \<noteq> '''') 400 (AE_Body ''email is required'')) (\<lambda>_.
         attempt (or_status 500 (GetUserByEmail email)) (\<lambda>target. case target of
           None \<Rightarrow> fail (404, AE_UserNotFound)
         | Some t \<Rightarrow>
            attempt (require (u_id t \<noteq> p_owner proj) 400 (AE_Body ''project owner already has access'')) (\<lambda>_.
            attempt (or_status 500 (AddProjectAccessUser i (u_id t) (Some (u_id caller)))) (\<lambda>_.
            or_status 500 (ListProjectAccessUsers i))))))))"

definition removeProjectAccessUser :: "user \<Rightarrow> uuid \<Rightarrow> uuid \<Rightarrow> unit handler" where
  "removeProjectAccessUser caller i userID =
     attempt (existing_project i) (\<lambda>proj.
     attempt (owner_or_admin caller proj) (\<lambda>_.
     or_status 500 (RemoveProjectAccessUser i userID)))"

text \<open>\<open>limit\<close> is the query parameter if it is a number.\<close>

definition listProjectVisits :: "user \<Rightarrow> uuid \<Rightarrow> int option \<Rightarrow> ((project_visit \<times> bool) \<times> user) list handler" where
  "listProjectVisits caller i limit =
     attempt (allowed_to caller i 404) (\<lambda>_.
     or_status 500 (ListProjectVisits i (case limit of Some n \<Rightarrow> if n > 0 then n else 100 | None \<Rightarrow> 100)))"

definition listProjectAccessRequests :: "user \<Rightarrow> uuid \<Rightarrow> string \<Rightarrow> (access_request \<times> user) list handler" where
  "listProjectAccessRequests caller i rawFilter =
     (let status = (if TrimSpace rawFilter = '''' then ''pending'' else TrimSpace rawFilter) in
      attempt (existing_project i) (\<lambda>proj.
      attempt (owner_or_admin caller proj) (\<lambda>_.
      attempt (require (status \<in> {''pending'', ''approved'', ''denied'', ''all''}) 400 (AE_Body ''invalid status filter'')) (\<lambda>_.
      or_status 500 (ListAccessRequests i (if status = ''all'' then '''' else status))))))"

definition createAccessRequest :: "user option \<Rightarrow> uuid \<Rightarrow> go_error + string \<Rightarrow> access_request option option handler" where
  "createAccessRequest caller i body = (case caller of
       None \<Rightarrow> fail (401, AE_None)
     | Some c \<Rightarrow>
        attempt (existing_project i) (\<lambda>proj. case body of
          Inl e \<Rightarrow> fail (400, AE_Body e)
        | Inr reason \<Rightarrow> submit_request i (u_id c) reason (400, AE_Body ''user already has access to this project'')))"

definition listPendingAccessRequestsForOwner :: "user option \<Rightarrow> (access_request \<times> user) list handler" where
  "listPendingAccessRequestsForOwner caller = (case caller of
       None \<Rightarrow> fail (401, AE_None) | Some c \<Rightarrow> or_status 500 (ListPendingRequestsForOwner (u_id c)))"

definition decideAccessRequest :: "user \<Rightarrow> uuid \<Rightarrow> request_status \<Rightarrow> access_request handler" where
  "decideAccessRequest caller requestID decision =
     attempt (or_status 500 (GetAccessRequest requestID)) (\<lambda>existing. case existing of
       None \<Rightarrow> fail (404, AE_None)
     | Some q \<Rightarrow>
        attempt (existing_project (ar_project q)) (\<lambda>proj.
        attempt (owner_or_admin caller proj) (\<lambda>_.
        attempt (or_status 500 (DecideAccessRequest requestID decision (u_id caller))) (\<lambda>updated. case updated of
          None \<Rightarrow> fail (404, AE_None) | Some r \<Rightarrow> ok r))))"

definition approveAccessRequest :: "user \<Rightarrow> uuid \<Rightarrow> access_request handler" where
  "approveAccessRequest caller requestID = decideAccessRequest caller requestID RQ_Approved"

definition denyAccessRequest :: "user \<Rightarrow> uuid \<Rightarrow> access_request handler" where
  "denyAccessRequest caller requestID = decideAccessRequest caller requestID RQ_Denied"

section \<open>Requests for the platform\<close>

definition handleAuthorizationStatus :: "user \<Rightarrow> platform_member option \<Rightarrow> (db, access_mode \<times> bool \<times> auth_request option) state" where
  "handleAuthorizationStatus user pm = do {
     mode \<leftarrow> accessMode;
     authorized \<leftarrow> isUserAuthorized pm;
     if mode = ModeRequest \<and> PlatformRoleFromCtx pm \<noteq> Some RoleAdmin
     then do { r \<leftarrow> GetAuthorizationRequestByUser (u_id user);
               State_Monad.return (mode, authorized, case r of Inl _ \<Rightarrow> None | Inr q \<Rightarrow> q) }
     else State_Monad.return (mode, authorized, None) }"

definition handleCreateAuthorizationRequest :: "user \<Rightarrow> platform_member option \<Rightarrow> auth_request handler" where
  "handleCreateAuthorizationRequest user pm =
     attempt (require (PlatformRoleFromCtx pm \<noteq> Some RoleAdmin) 400 (AE_Body ''admins are always authorized'')) (\<lambda>_.
     do {
       mode \<leftarrow> accessMode;
       attempt (require (mode = ModeRequest) 400 (AE_Body ''requesting access is only available in request mode'')) (\<lambda>_.
       attempt (require (\<not> PlatformAuthorizedFromCtx pm) 400 (AE_Body ''already authorized'')) (\<lambda>_.
       do {
         existing \<leftarrow> GetAuthorizationRequestByUser (u_id user);
         attempt (require (case existing of Inr (Some q) \<Rightarrow> aq_status q \<noteq> AQ_Pending | _ \<Rightarrow> True) 409
           (AE_Body ''request already pending'')) (\<lambda>_.
         or_status 500 (CreateAuthorizationRequest (u_id user))) })) })"

definition handleApproveAuthorizationRequest :: "user \<Rightarrow> uuid \<Rightarrow> unit handler" where
  "handleApproveAuthorizationRequest admin i = or_status 500 (ApproveAuthorizationRequest i (u_id admin))"

definition handleRejectAuthorizationRequest :: "user \<Rightarrow> uuid \<Rightarrow> unit handler" where
  "handleRejectAuthorizationRequest admin i = or_status 500 (RejectAuthorizationRequest i (u_id admin))"

definition handleListAuthorizationRequests :: "(auth_request \<times> user) list handler" where
  "handleListAuthorizationRequests = or_status 500 ListPendingAuthorizationRequests"

section \<open>Invitations\<close>

text \<open>\<open>time.Duration(days) * 24 * time.Hour\<close> in 64 bits; the request's number fits a 64-bit int.\<close>

definition wrap64 :: "int \<Rightarrow> int" where
  "wrap64 x = (x + 2 ^ 63) mod 2 ^ 64 - 2 ^ 63"

definition link_expiry :: "time \<Rightarrow> int \<Rightarrow> time option" where
  "link_expiry now days = (if days > 0 then Some (now + wrap64 (days * hours 24)) else None)"

definition handleCreateInvitation :: "user \<Rightarrow> go_error + string \<Rightarrow> invitation handler" where
  "handleCreateInvitation admin body = (case body of
       Inl e \<Rightarrow> fail (400, AE_Body e)
     | Inr email \<Rightarrow> or_status 400 (CreateInvitation email (u_id admin)))"

definition handleDeleteInvitation :: "uuid \<Rightarrow> unit handler" where
  "handleDeleteInvitation i = or_status 500 (DeleteInvitation i)"

definition handleListInvitations :: "(invitation \<times> user option) list handler" where
  "handleListInvitations = or_status 500 ListInvitations"

text \<open>\<open>raw\<close> is the hexadecimal text of the random bytes; the answer carries the token.\<close>

definition handleCreateInvitationLink :: "auth_cfg \<Rightarrow> user \<Rightarrow> string \<Rightarrow> int \<Rightarrow> (invitation_link \<times> string) handler" where
  "handleCreateInvitationLink cfg admin raw days = do {
     now \<leftarrow> time_Now;
     let token = ''mli_'' @ raw;
     attempt (or_status 500 (CreateInvitationLink (u_id admin) (au_hash cfg token) (link_expiry now days))) (\<lambda>l. ok (l, token)) }"

definition handleDeleteInvitationLink :: "uuid \<Rightarrow> unit handler" where
  "handleDeleteInvitationLink i = or_status 500 (DeleteInvitationLink i)"

definition handleListInvitationLinks :: "(invitation_link \<times> user option \<times> user option) list handler" where
  "handleListInvitationLinks = or_status 500 ListInvitationLinks"

definition listProjectInvitationLinks :: "user \<Rightarrow> uuid \<Rightarrow> (invitation_link \<times> user option \<times> nat) list handler" where
  "listProjectInvitationLinks caller projectID =
     attempt (existing_project projectID) (\<lambda>proj.
     attempt (owner_or_admin caller proj) (\<lambda>_.
     or_status 500 (ListProjectInvitationLinks projectID)))"

definition createProjectInvitationLink :: "auth_cfg \<Rightarrow> user \<Rightarrow> uuid \<Rightarrow> string \<Rightarrow> int \<Rightarrow> int \<Rightarrow> (invitation_link \<times> string) handler" where
  "createProjectInvitationLink cfg caller projectID raw days maxUses =
     attempt (existing_project projectID) (\<lambda>proj.
     attempt (owner_or_admin caller proj) (\<lambda>_. do {
       now \<leftarrow> time_Now;
       let token = ''mli_'' @ raw;
       attempt (or_status 500 (CreateProjectInvitationLink projectID (u_id caller) (au_hash cfg token)
         (if maxUses > 0 then Some maxUses else None) (link_expiry now days))) (\<lambda>l. ok (l, token)) }))"

definition project_link :: "uuid \<Rightarrow> uuid \<Rightarrow> unit handler" where
  "project_link projectID linkID =
     attempt (or_status 500 (GetInvitationLink linkID)) (\<lambda>link.
     require (case link of None \<Rightarrow> False | Some l \<Rightarrow> il_project l = Some projectID) 404
       (AE_Body ''invitation link not found in this project''))"

definition deleteProjectInvitationLink :: "user \<Rightarrow> uuid \<Rightarrow> uuid \<Rightarrow> unit handler" where
  "deleteProjectInvitationLink caller projectID linkID =
     attempt (existing_project projectID) (\<lambda>proj.
     attempt (owner_or_admin caller proj) (\<lambda>_.
     attempt (project_link projectID linkID) (\<lambda>_.
     or_status 500 (DeleteInvitationLink linkID))))"

definition listProjectInvitationLinkUses :: "user \<Rightarrow> uuid \<Rightarrow> uuid \<Rightarrow> (link_use \<times> user option) list handler" where
  "listProjectInvitationLinkUses caller projectID linkID =
     attempt (existing_project projectID) (\<lambda>proj.
     attempt (owner_or_admin caller proj) (\<lambda>_.
     attempt (project_link projectID linkID) (\<lambda>_.
     or_status 500 (ListInvitationLinkUses linkID))))"

section \<open>The visit recorder\<close>

text \<open>
  The channel's events, the aggregate of the flushing goroutine in the order its keys came in, and
  the number of events dropped by a full channel and of visits lost with a failed flush.
\<close>

record visit_event =
  ve_project :: uuid
  ve_user :: uuid
  ve_seen :: time

record visit_recorder =
  vr_ch :: "visit_event list"
  vr_pending :: "project_visit list"
  vr_dropped :: nat
  vr_lost :: int

definition visitChannelBuffer :: nat where "visitChannelBuffer = 1024"

definition visitFlushBatch :: nat where "visitFlushBatch = 200"

definition visit_Push :: "uuid \<Rightarrow> uuid \<Rightarrow> time \<Rightarrow> visit_recorder \<Rightarrow> visit_recorder" where
  "visit_Push projectID userID now r =
     (if length (vr_ch r) < visitChannelBuffer
      then r\<lparr>vr_ch := vr_ch r @ [\<lparr>ve_project = projectID, ve_user = userID, ve_seen = now\<rparr>]\<rparr>
      else r\<lparr>vr_dropped := vr_dropped r + 1\<rparr>)"

definition accumulateVisit :: "project_visit list \<Rightarrow> visit_event \<Rightarrow> project_visit list" where
  "accumulateVisit m ev =
     (let key = (ve_project ev, ve_user ev) in
      if list_ex (\<lambda>v. visit_key v = key) m
      then upd_where (\<lambda>v. visit_key v = key)
             (\<lambda>v. v\<lparr>pv_count := pv_count v + 1,
                    pv_last_seen := (if ve_seen ev > pv_last_seen v then ve_seen ev else pv_last_seen v)\<rparr>) m
      else m @ [\<lparr>pv_project = ve_project ev, pv_user = ve_user ev, pv_first_seen = 0,
                 pv_last_seen = ve_seen ev, pv_count = 1\<rparr>])"

definition flush_visits :: "visit_recorder \<Rightarrow> (db, visit_recorder) state" where
  "flush_visits r =
     (if vr_pending r = [] then State_Monad.return r
      else do {
        e \<leftarrow> RecordProjectVisitsBatch (vr_pending r);
        State_Monad.return (r\<lparr>vr_pending := [],
          vr_lost := (case e of Inl _ \<Rightarrow> vr_lost r + sum_list (map pv_count (vr_pending r)) | Inr _ \<Rightarrow> vr_lost r)\<rparr>) })"

text \<open>One turn of the loop in \<open>Run\<close>: an event is taken from the channel, or the ticker fires.\<close>

definition visit_receive :: "visit_recorder \<Rightarrow> (db, visit_recorder) state" where
  "visit_receive r = (case vr_ch r of
       [] \<Rightarrow> State_Monad.return r
     | ev # evs \<Rightarrow>
        (let r = r\<lparr>vr_ch := evs, vr_pending := accumulateVisit (vr_pending r) ev\<rparr> in
         if visitFlushBatch \<le> length (vr_pending r) then flush_visits r else State_Monad.return r))"

text \<open>Shutdown: the channel is drained, then one last flush.\<close>

definition visit_shutdown :: "visit_recorder \<Rightarrow> (db, visit_recorder) state" where
  "visit_shutdown r = flush_visits (r\<lparr>vr_ch := [], vr_pending := foldl accumulateVisit (vr_pending r) (vr_ch r)\<rparr>)"

text \<open>What happens to a recorder, one thing at a time.\<close>

datatype visit_input = VisitPush uuid uuid | VisitReceive | VisitTick | VisitShutdown

fun visit_step :: "visit_input \<Rightarrow> visit_recorder \<Rightarrow> (db, visit_recorder) state" where
  "visit_step (VisitPush p u) r = do { now \<leftarrow> time_Now; State_Monad.return (visit_Push p u now r) }"
| "visit_step VisitReceive r = visit_receive r"
| "visit_step VisitTick r = flush_visits r"
| "visit_step VisitShutdown r = visit_shutdown r"

end
