(* ===== verification/Sign_In.thy ===== *)
theory Sign_In
  imports Access_Facts
begin

text \<open>
  What a sign-in writes (\<open>EnsurePlatformMember\<close>): the gates of the platform, the row of the member,
  and the project-scoped link that opens one project and leaves the platform alone.
\<close>

section \<open>Statements\<close>

lemma find_upd_key:
  "(\<And>r. k (f r) = k r) \<Longrightarrow> find (\<lambda>r. k r = i) (upd_where (\<lambda>r. k r = j) f rs) =
     (if i = j then map_option f (find (\<lambda>r. k r = i) rs) else find (\<lambda>r. k r = i) rs)"
  by (induction rs) auto

lemma find_snoc: "find P (xs @ [x]) = (case find P xs of None \<Rightarrow> if P x then Some x else None | Some y \<Rightarrow> Some y)"
  by (induction xs) auto

text \<open>All tables but the users' are as before.\<close>

definition same_but_users :: "db \<Rightarrow> db \<Rightarrow> bool" where
  "same_but_users s t \<longleftrightarrow> platform_members t = platform_members s \<and> access_users t = access_users s
     \<and> invitation_links t = invitation_links s \<and> link_uses t = link_uses s \<and> projects t = projects s \<and> settings t = settings s
     \<and> invitations t = invitations s \<and> access_requests t = access_requests s \<and> db_now t = db_now s"

lemma same_db_users: "same_db s t \<Longrightarrow> same_but_users s t"
  by (auto simp: same_db_def same_but_users_def)

lemma same_but_users_trans: "same_but_users s t \<Longrightarrow> same_but_users t u \<Longrightarrow> same_but_users s u"
  by (simp add: same_but_users_def)

lemma UpsertUser_frame:
  "run_state (UpsertUser email name av b) s = (r, s') \<Longrightarrow> same_but_users s s' \<and> length (db_faults s') \<le> length (db_faults s)"
  by (auto simp: UpsertUser_def run_sql popped_def Let_def same_but_users_def split: option.splits if_splits)

lemma UpsertUser_Inr:
  assumes "run_state (UpsertUser email name av b) s = (Inr (u, ins), s')"
  shows "u_email u = Some email" "find (\<lambda>u. u_email u = Some email) (users s) = Some v \<Longrightarrow> u_id u = u_id v"
    "find (\<lambda>u. u_email u = Some email) (users s) = None \<Longrightarrow> user_by s (u_id u) = None"
  using assms
  by (auto simp: UpsertUser_def run_sql popped_def Let_def new_user_def refresh_profile_def user_by_def
      split: option.splits if_splits dest: find_Some_mem)

lemma EnsureIdentity_run:
  assumes "run_state (EnsureIdentity cfg email name av) s = (r, s')"
  shows "same_but_users s s' \<and> length (db_faults s') \<le> length (db_faults s)
    \<and> (\<forall>u. r = Inr u \<longrightarrow> u_email u = Some email \<and> (\<forall>v. find (\<lambda>u. u_email u = Some email) (users s) = Some v \<longrightarrow> u_id u = u_id v)
        \<and> (find (\<lambda>u. u_email u = Some email) (users s) = None \<longrightarrow> user_by s (u_id u) = None))"
proof -
  obtain r0 s0 where up: "run_state (UpsertUser email name (materializeAvatar cfg av) True) s = (r0, s0)" by fastforce
  then have "s' = s0" "\<And>u. r = Inr u \<Longrightarrow> \<exists>b. r0 = Inr (u, b)"
    using assms by (auto simp: EnsureIdentity_def run_attempt or_auth_def run_ok split: sum.splits prod.splits)
  then show ?thesis using UpsertUser_frame [OF up] UpsertUser_Inr up by metis
qed

lemma UpsertPlatformMember_Inr:
  assumes "run_state (UpsertPlatformMember i role b) s = (Inr (pm, ins), s')"
  shows "member_by s' i = Some pm" "member_by s i = Some pm \<or> (member_by s i = None \<and> pm_role pm = role \<and> pm_authorized pm = b)"
    "j \<noteq> i \<Longrightarrow> member_by s' j = member_by s j" "pm_user pm = i"
  using assms
  by (auto simp: UpsertPlatformMember_def run_sql popped_def Let_def member_by_def find_snoc
      split: option.splits if_splits dest: find_Some_mem)

definition same_but_members :: "db \<Rightarrow> db \<Rightarrow> bool" where
  "same_but_members s t \<longleftrightarrow> users t = users s \<and> access_users t = access_users s
     \<and> invitation_links t = invitation_links s \<and> link_uses t = link_uses s \<and> projects t = projects s \<and> settings t = settings s
     \<and> invitations t = invitations s \<and> access_requests t = access_requests s \<and> db_now t = db_now s"

lemma same_but_members_trans: "same_but_members s t \<Longrightarrow> same_but_members t u \<Longrightarrow> same_but_members s u"
  by (simp add: same_but_members_def)

lemma member_statements_frame:
  "run_state (UpsertPlatformMember i role b) s = (r1, s') \<Longrightarrow> same_but_members s s'"
  "run_state (SetPlatformMemberRole i role) s = (r2, s') \<Longrightarrow> same_but_members s s'"
  "run_state (SetPlatformMemberAuthorized i b) s = (r2, s') \<Longrightarrow> same_but_members s s'"
  by (auto simp: UpsertPlatformMember_def SetPlatformMemberRole_def SetPlatformMemberAuthorized_def run_sql run_exec popped_def
      Let_def same_but_members_def split: option.splits if_splits)

lemma member_statements_faults:
  "run_state (UpsertPlatformMember i role b) s = (r1, s') \<Longrightarrow> length (db_faults s') \<le> length (db_faults s)"
  "run_state (SetPlatformMemberRole i role) s = (r2, s') \<Longrightarrow> length (db_faults s') \<le> length (db_faults s)"
  "run_state (SetPlatformMemberAuthorized i b) s = (r2, s') \<Longrightarrow> length (db_faults s') \<le> length (db_faults s)"
  by (auto simp: UpsertPlatformMember_def SetPlatformMemberRole_def SetPlatformMemberAuthorized_def run_sql run_exec popped_def
      Let_def split: option.splits if_splits)

lemma promote_admin_Inr:
  assumes "run_state (promote_admin b i pm) s = (Inr q, s')" "member_by s i = Some pm"
  shows "member_by s' i = Some q" "j \<noteq> i \<Longrightarrow> member_by s' j = member_by s j"
    "pm_role q = (if b then RoleAdmin else pm_role pm)" "pm_authorized q = pm_authorized pm" "same_but_members s s'"
proof -
  have "(\<not> (b \<and> pm_role pm \<noteq> RoleAdmin) \<and> q = pm \<and> s' = s) \<or>
      (b \<and> pm_role pm \<noteq> RoleAdmin \<and> q = pm\<lparr>pm_role := RoleAdmin\<rparr> \<and> run_state (SetPlatformMemberRole i RoleAdmin) s = (Inr (), s'))"
    using assms(1) by (auto simp: promote_admin_def inversions or_auth_Inr split: if_splits)
  then show "member_by s' i = Some q" "j \<noteq> i \<Longrightarrow> member_by s' j = member_by s j"
    "pm_role q = (if b then RoleAdmin else pm_role pm)" "pm_authorized q = pm_authorized pm" "same_but_members s s'"
    using assms(2) member_statements_frame(2) [of i RoleAdmin s "Inr ()" s']
    by (auto simp: SetPlatformMemberRole_def run_exec popped_def member_by_def find_upd_key same_but_members_def
        split: option.splits if_splits)
qed

lemma authorize_invited_Inr:
  assumes "run_state (authorize_invited b i pm) s = (Inr q, s')" "member_by s i = Some pm"
  shows "member_by s' i = Some q" "j \<noteq> i \<Longrightarrow> member_by s' j = member_by s j"
    "pm_authorized q = (b \<or> pm_authorized pm)" "pm_role q = pm_role pm" "same_but_members s s'"
proof -
  have "(\<not> (b \<and> \<not> pm_authorized pm) \<and> q = pm \<and> s' = s) \<or>
      (b \<and> \<not> pm_authorized pm \<and> q = pm\<lparr>pm_authorized := True\<rparr> \<and> run_state (SetPlatformMemberAuthorized i True) s = (Inr (), s'))"
    using assms(1) by (auto simp: authorize_invited_def inversions or_auth_Inr split: if_splits)
  then show "member_by s' i = Some q" "j \<noteq> i \<Longrightarrow> member_by s' j = member_by s j"
    "pm_authorized q = (b \<or> pm_authorized pm)" "pm_role q = pm_role pm" "same_but_members s s'"
    using assms(2) member_statements_frame(3) [of i True s "Inr ()" s']
    by (auto simp: SetPlatformMemberAuthorized_def run_exec popped_def member_by_def find_upd_key same_but_members_def
        split: option.splits if_splits)
qed

lemma consume_link_frame:
  assumes "run_state (consume_link l i) s = (r, s')"
  shows "platform_members s' = platform_members s" "access_users s' = access_users s" "users s' = users s" "projects s' = projects s"
  using assms
  by (auto simp: consume_link_def ConsumeInvitationLink_def run_attempt run_ok run_sql popped_def
      split: option.splits if_splits sum.splits prod.splits)

section \<open>The member of the platform\<close>

lemma member_by_frame: "platform_members t = platform_members s \<Longrightarrow> member_by t i = member_by s i"
  by (simp add: member_by_def)

lemma write_member_Inr:
  assumes "run_state (write_member cfg mode isAdmin invited link email name av) s = (Inr (u, pm), s')"
  shows "u_email u = Some email \<and> member_by s' (u_id u) = Some pm \<and> (\<forall>j. j \<noteq> u_id u \<longrightarrow> member_by s' j = member_by s j)
    \<and> access_users s' = access_users s
    \<and> (pm_role pm = RoleAdmin \<longleftrightarrow> isAdmin \<or> (\<exists>m. member_by s (u_id u) = Some m \<and> pm_role m = RoleAdmin))
    \<and> (pm_authorized pm \<longleftrightarrow> (mode = ModeInvite \<and> (invited \<or> link \<noteq> None))
        \<or> (case member_by s (u_id u) of Some m \<Rightarrow> pm_authorized m | None \<Rightarrow> \<not> (mode = ModeRequest \<and> \<not> isAdmin)))
    \<and> (\<forall>v. find (\<lambda>u. u_email u = Some email) (users s) = Some v \<longrightarrow> u_id u = u_id v)
    \<and> (find (\<lambda>u. u_email u = Some email) (users s) = None \<longrightarrow> user_by s (u_id u) = None)"
proof -
  define role where "role = (if isAdmin then RoleAdmin else RoleMember)"
  define auth where "auth = (\<not> (mode = ModeRequest \<and> \<not> isAdmin))"
  obtain w s1 where a: "run_state (EnsureIdentity cfg email name av) s = (Inr w, s1)"
    and k1: "run_state (attempt (or_auth ''upsert platform member: '' (UpsertPlatformMember (u_id w) role auth)) (\<lambda>(pm, _).
      attempt (promote_admin isAdmin (u_id w) pm) (\<lambda>pm.
      attempt (authorize_invited (mode = ModeInvite \<and> (invited \<or> link \<noteq> None)) (u_id w) pm) (\<lambda>pm.
      attempt (consume_link link (u_id w)) (\<lambda>_.
      ok (w\<lparr>u_role := pm_role pm, u_authorized := pm_authorized pm\<rparr>, pm)))))) s1 = (Inr (u, pm), s')"
    using assms unfolding write_member_def role_def auth_def by (rule attempt_InrE)
  obtain x s2 where b0: "run_state (or_auth ''upsert platform member: '' (UpsertPlatformMember (u_id w) role auth)) s1 = (Inr x, s2)"
    and k2: "run_state ((\<lambda>(pm, _).
      attempt (promote_admin isAdmin (u_id w) pm) (\<lambda>pm.
      attempt (authorize_invited (mode = ModeInvite \<and> (invited \<or> link \<noteq> None)) (u_id w) pm) (\<lambda>pm.
      attempt (consume_link link (u_id w)) (\<lambda>_.
      ok (w\<lparr>u_role := pm_role pm, u_authorized := pm_authorized pm\<rparr>, pm))))) x) s2 = (Inr (u, pm), s')"
    using k1 by (rule attempt_InrE)
  obtain p0 ins where x: "x = (p0, ins)" by (cases x)
  have b: "run_state (UpsertPlatformMember (u_id w) role auth) s1 = (Inr (p0, ins), s2)"
    using b0 x by (simp only: or_auth_Inr)
  obtain p1 s3 where c: "run_state (promote_admin isAdmin (u_id w) p0) s2 = (Inr p1, s3)"
    and k3: "run_state (attempt (authorize_invited (mode = ModeInvite \<and> (invited \<or> link \<noteq> None)) (u_id w) p1) (\<lambda>pm.
      attempt (consume_link link (u_id w)) (\<lambda>_.
      ok (w\<lparr>u_role := pm_role pm, u_authorized := pm_authorized pm\<rparr>, pm)))) s3 = (Inr (u, pm), s')"
    using k2 unfolding x prod.case by (rule attempt_InrE)
  obtain p2 s4 where d0: "run_state (authorize_invited (mode = ModeInvite \<and> (invited \<or> link \<noteq> None)) (u_id w) p1) s3 = (Inr p2, s4)"
    and k4: "run_state (attempt (consume_link link (u_id w)) (\<lambda>_.
      ok (w\<lparr>u_role := pm_role p2, u_authorized := pm_authorized p2\<rparr>, p2))) s4 = (Inr (u, pm), s')"
    using k3 by (rule attempt_InrE)
  obtain y s5 where e0: "run_state (consume_link link (u_id w)) s4 = (Inr y, s5)"
    and k5: "run_state (ok (w\<lparr>u_role := pm_role p2, u_authorized := pm_authorized p2\<rparr>, p2) :: (user \<times> platform_member) auth) s5 = (Inr (u, pm), s')"
    using k4 unfolding attempt_Inr by blast
  have fin: "u = w\<lparr>u_role := pm_role pm, u_authorized := pm_authorized pm\<rparr>" "p2 = pm" "s5 = s'"
    using k5 by (auto simp: ok_Inr)
  note d = d0 [unfolded fin(2)] and e = e0 [unfolded fin(3)] and u = fin(1)
  have s1: "same_but_users s s1" "u_email w = Some email"
      "\<And>v. find (\<lambda>u. u_email u = Some email) (users s) = Some v \<Longrightarrow> u_id w = u_id v"
      "find (\<lambda>u. u_email u = Some email) (users s) = None \<Longrightarrow> user_by s (u_id w) = None"
    using EnsureIdentity_run [OF a] by (metis)+
  have m1: "\<And>j. member_by s1 j = member_by s j" using s1(1) by (simp add: same_but_users_def member_by_def)
  note b' = UpsertPlatformMember_Inr [OF b]
  note c' = promote_admin_Inr [OF c b'(1)]
  note d' = authorize_invited_Inr [OF d c'(1)]
  have m': "\<And>j. member_by s' j = member_by s4 j" using consume_link_frame(1) [OF e] by (simp add: member_by_def)
  have others: "\<forall>j. j \<noteq> u_id u \<longrightarrow> member_by s' j = member_by s j" using m' d'(2) c'(2) b'(3) m1 u by simp
  have au: "access_users s' = access_users s"
    using consume_link_frame(2) [OF e] d'(5) c'(5) member_statements_frame(1) [OF b] s1(1)
    by (simp add: same_but_members_def same_but_users_def)
  have role: "pm_role pm = RoleAdmin \<longleftrightarrow> isAdmin \<or> (\<exists>m. member_by s (u_id u) = Some m \<and> pm_role m = RoleAdmin)"
    using d'(4) c'(3) b'(2) m1 u by (auto simp: role_def)
  have authd: "pm_authorized pm \<longleftrightarrow> (mode = ModeInvite \<and> (invited \<or> link \<noteq> None))
        \<or> (case member_by s (u_id u) of Some m \<Rightarrow> pm_authorized m | None \<Rightarrow> \<not> (mode = ModeRequest \<and> \<not> isAdmin))"
    using d'(3) c'(4) b'(2) m1 u by (auto simp: auth_def)
  have eu: "u_id u = u_id w" "u_email u = u_email w" using u by simp_all
  have mem: "member_by s' (u_id u) = Some pm" using m' d'(1) eu by simp
  show ?thesis unfolding eu using others au role authd mem s1(2-4) unfolding eu by blast
qed

definition invited_email :: "db \<Rightarrow> string \<Rightarrow> bool" where
  "invited_email s email \<longleftrightarrow> normalizeEmail email \<noteq> '''' \<and> list_ex (\<lambda>v. iv_email v = normalizeEmail email) (invitations s)"

definition presented_link :: "auth_cfg \<Rightarrow> string \<Rightarrow> db \<Rightarrow> invitation_link option" where
  "presented_link cfg tok s = (if tok = '''' then None
     else find (\<lambda>l. il_token_hash l = au_hash cfg tok \<and> link_usable s (db_now s) l) (invitation_links s))"

definition access_mode_in :: "db \<Rightarrow> access_mode" where
  "access_mode_in s = access_mode_of (case map_of (settings s) ''access_mode'' of None \<Rightarrow> '''' | Some v \<Rightarrow> v)"

lemma gates_nofault:
  assumes "db_faults s = []"
  shows "run_state (find_link cfg tok) s = (Inr (presented_link cfg tok s), s)"
    "run_state accessMode s = (access_mode_in s, s)"
    "run_state (IsEmailInvited email) s = (Inr (invited_email s email), s)"
  using assms
  by (auto simp: find_link_def presented_link_def run_attempt run_ok or_auth_def GetValidInvitationLinkByHash_def accessMode_def
      GetSetting_def access_mode_in_def IsEmailInvited_def invited_email_def Let_def option.map_comp o_def option.map_ident)

definition member_of_email :: "db \<Rightarrow> string \<Rightarrow> bool" where
  "member_of_email s email \<longleftrightarrow> (\<exists>u. find (\<lambda>u. u_email u = Some email) (users s) = Some u \<and> member_by s (u_id u) \<noteq> None)"

lemma check_invited_nofault:
  assumes "db_faults s = []"
  shows "run_state (check_invited email hasLink) s =
    (if invited_email s email \<or> hasLink \<or> member_of_email s email then Inr (invited_email s email) else Inl NotInvited, s)"
  using assms gates_nofault(3) [OF assms, of email]
  by (auto simp: check_invited_def run_attempt run_ok or_auth_def GetUserByEmail_def GetPlatformMember_def member_of_email_def
      split: option.splits)

lemma enter_platform_steps:
  assumes "run_state (enter_platform cfg provider email name av link) s = (Inr (u, p), s')" and "db_faults s = []"
  obtains w pm where "isOrgScopedProvider (au_providers cfg) provider \<or> checkDomain (au_allowed_domains cfg) email = Inr ()"
    "run_state (if access_mode_in s = ModeInvite \<and> email \<notin> set (au_admin_emails cfg) then check_invited email (link \<noteq> None) else ok False) s = (Inr w, s)"
    "run_state (write_member cfg (access_mode_in s) (email \<in> set (au_admin_emails cfg)) w link email name av) s = (Inr (u, pm), s')"
    "p = Some pm"
proof -
  let ?m = "if access_mode_in s = ModeInvite \<and> email \<notin> set (au_admin_emails cfg) then check_invited email (link \<noteq> None) else ok False"
  obtain y s0 where ret: "run_state (State_Monad.return (if isOrgScopedProvider (au_providers cfg) provider then Inr ()
      else checkDomain (au_allowed_domains cfg) email)) s = (Inr y, s0)"
    and k: "run_state (do {
       mode \<leftarrow> accessMode;
       let isAdmin = email \<in> set (au_admin_emails cfg);
       attempt (if mode = ModeInvite \<and> \<not> isAdmin then check_invited email (link \<noteq> None) else ok False) (\<lambda>emailInvited.
       attempt (write_member cfg mode isAdmin emailInvited link email name av) (\<lambda>(user, pm).
       ok (user, Some pm))) }) s0 = (Inr (u, p), s')"
    using assms(1) unfolding enter_platform_def by (rule attempt_InrE)
  have 1: "isOrgScopedProvider (au_providers cfg) provider \<or> checkDomain (au_allowed_domains cfg) email = Inr ()" "s0 = s"
    using ret by (auto simp: return_Inr split: if_splits)
  have k': "run_state (attempt ?m (\<lambda>emailInvited.
       attempt (write_member cfg (access_mode_in s) (email \<in> set (au_admin_emails cfg)) emailInvited link email name av) (\<lambda>(user, pm).
       ok (user, Some pm)))) s = (Inr (u, p), s')"
    using k gates_nofault(2) [OF assms(2)] unfolding 1(2) by (simp add: Let_def)
  obtain w s1 where g: "run_state ?m s = (Inr w, s1)"
    and k2: "run_state (attempt (write_member cfg (access_mode_in s) (email \<in> set (au_admin_emails cfg)) w link email name av) (\<lambda>(user, pm).
       ok (user, Some pm))) s1 = (Inr (u, p), s')"
    using k' by (rule attempt_InrE)
  have "s1 = s" using g check_invited_nofault [OF assms(2), of email "link \<noteq> None"] by (auto simp: ok_Inr split: if_splits)
  moreover obtain z s2 where "run_state (write_member cfg (access_mode_in s) (email \<in> set (au_admin_emails cfg)) w link email name av) s1 = (Inr z, s2)"
    "run_state ((\<lambda>(user, pm). ok (user, Some pm) :: (user \<times> platform_member option) auth) z) s2 = (Inr (u, p), s')"
    using k2 unfolding attempt_Inr by blast
  ultimately show ?thesis using 1(1) g that [of w "snd z"] by (auto simp: ok_Inr split: prod.splits)
qed

lemma project_branch_no_member:
  assumes "run_state (case (case l of None \<Rightarrow> None | Some l \<Rightarrow> map_option (Pair l) (il_project l)) of
       Some (l, pid) \<Rightarrow> attempt (EnsureIdentity cfg email name av) (\<lambda>user.
         attempt (grantProjectInvite l pid (u_id user)) (\<lambda>_. ok (user, None)))
     | None \<Rightarrow> enter_platform cfg provider email name av l) s = (Inr (u, Some pm), s')"
  shows "run_state (enter_platform cfg provider email name av l) s = (Inr (u, Some pm), s')"
proof (cases "case l of None \<Rightarrow> None | Some l \<Rightarrow> map_option (Pair l) (il_project l)")
  case None
  with assms show ?thesis by (simp only: option.case)
next
  case (Some lp)
  obtain l0 pid where "lp = (l0, pid)" by (cases lp)
  with assms Some show ?thesis by (auto simp: inversions)
qed



section \<open>Project links\<close>

lemma access_listed_snoc:
  "access_users t = access_users s @ [\<lparr>au_project = pid, au_user = uid, au_added_by = by, au_added = now\<rparr>] \<Longrightarrow>
   access_listed t p i \<longleftrightarrow> access_listed s p i \<or> (p = pid \<and> i = uid)"
  by (auto simp: access_listed_def)

lemma insert_access_run:
  assumes "run_state (insert_access pid uid by) s = (r, s')"
  shows "platform_members s' = platform_members s \<and> users s' = users s \<and> invitation_links s' = invitation_links s \<and> link_uses s' = link_uses s"
    "r = Inr () \<Longrightarrow> access_listed s' p i \<longleftrightarrow> access_listed s p i \<or> (p = pid \<and> i = uid)"
    "access_listed s' p i \<longrightarrow> access_listed s p i \<or> (p = pid \<and> i = uid)"
  using assms
  by (auto simp: insert_access_def run_sql popped_def access_listed_def split: option.splits if_splits)

lemma RecordInvitationLinkUse_run:
  assumes "run_state (RecordInvitationLinkUse l uid) s = (r, s')"
  shows "platform_members s' = platform_members s \<and> users s' = users s \<and> access_users s' = access_users s \<and> invitation_links s' = invitation_links s"
    "link_uses s' = link_uses s \<or> (list_ex (\<lambda>k. il_id k = l) (invitation_links s)
       \<and> (\<exists>i now. link_uses s' = link_uses s @ [\<lparr>lu_id = i, lu_link = l, lu_user = uid, lu_at = now\<rparr>]))"
  using assms
  by (auto simp: RecordInvitationLinkUse_def run_sql popped_def split: option.splits if_splits)

lemma find_link_Some:
  assumes f: "run_state (find_link cfg tok) s = (Inr (Some l), s1)"
  shows "same_db s s1 \<and> l \<in> set (invitation_links s) \<and> il_token_hash l = au_hash cfg tok \<and> link_usable s (db_now s) l"
proof -
  have "tok \<noteq> ''''" using f by (auto simp: find_link_def ok_Inr)
  then obtain x where x: "run_state (GetValidInvitationLinkByHash (au_hash cfg tok) (db_now s)) s = (Inr x, s1)" "Some l = map_option fst x"
    using f by (auto simp: find_link_def inversions or_auth_Inr)
  have same: "same_db s s1" and "x = map_option (\<lambda>l. (l, use_count s1 (il_id l)))
       (find (\<lambda>l. il_token_hash l = au_hash cfg tok \<and> link_usable s1 (db_now s) l) (invitation_links s1))"
    using query_Inr [OF x(1) [unfolded GetValidInvitationLinkByHash_def]] by auto
  moreover have "use_count s1 = use_count s" "invitation_links s1 = invitation_links s"
    using same by (auto simp: same_db_def use_count_def fun_eq_iff)
  then have "link_usable s1 = link_usable s" "invitation_links s1 = invitation_links s"
    by - (intro ext, simp add: link_usable_def split: option.split)
  ultimately have "find (\<lambda>l. il_token_hash l = au_hash cfg tok \<and> link_usable s (db_now s) l) (invitation_links s) = Some l"
    using x(2) by (simp add: map_option_case split: option.splits)
  then show ?thesis using same by (auto dest: find_Some_mem)
qed

text \<open>
  C23: A sign-in with a project's link enters that project and no other door: the address gets an
  account, the account is on the allow-list of the link's project, no other pair is added to any
  allow-list, and the platform's members are as they were. The link was valid and not used up.
\<close>

theorem project_link_confined:
  assumes "run_state (EnsurePlatformMember cfg provider email name av tok) s = (Inr (u, None), s')"
  shows "\<exists>l pid. l \<in> set (invitation_links s) \<and> il_token_hash l = au_hash cfg tok \<and> link_usable s (db_now s) l \<and> il_project l = Some pid
    \<and> u_email u = Some email \<and> platform_members s' = platform_members s
    \<and> (\<forall>p i. access_listed s' p i \<longleftrightarrow> access_listed s p i \<or> (p = pid \<and> i = u_id u))"
proof -
  obtain link s1 where f: "run_state (find_link cfg tok) s = (Inr link, s1)"
    and k: "run_state (case (case link of None \<Rightarrow> None | Some l \<Rightarrow> map_option (Pair l) (il_project l)) of
       Some (l, pid) \<Rightarrow> attempt (EnsureIdentity cfg email name av) (\<lambda>user.
         attempt (grantProjectInvite l pid (u_id user)) (\<lambda>_. ok (user, None)))
     | None \<Rightarrow> enter_platform cfg provider email name av link) s1 = (Inr (u, None), s')"
    using assms unfolding EnsurePlatformMember_def attempt_Inr by blast
  have no: "run_state (enter_platform cfg provider email name av link) s1 \<noteq> (Inr (u, None), s')"
    by (auto simp: enter_platform_def inversions Let_def split: prod.splits)
  obtain l pid where l: "link = Some l" "il_project l = Some pid"
    using k no by (cases link; cases "il_project (the link)") simp_all
  have g: "run_state (attempt (EnsureIdentity cfg email name av) (\<lambda>user.
         attempt (grantProjectInvite l pid (u_id user)) (\<lambda>_. ok (user, None)))) s1 = (Inr (u, None :: platform_member option), s')"
    using k unfolding l(1) by (simp add: l(2))
  note found = find_link_Some [OF f [unfolded l(1)]]
  have same: "same_db s s1" and valid: "l \<in> set (invitation_links s)" "il_token_hash l = au_hash cfg tok" "link_usable s (db_now s) l"
    using found by blast+
  obtain s2 s3 where i: "run_state (EnsureIdentity cfg email name av) s1 = (Inr u, s2)"
    and r: "run_state (RecordInvitationLinkUse (il_id l) (u_id u)) s2 = (Inr (), s3)"
    and a: "run_state (insert_access pid (u_id u) (il_invited_by l)) s3 = (Inr (), s')"
    using g by (auto simp: inversions grantProjectInvite_def or_auth_Inr AddProjectAccessUser_def)
  have 2: "same_but_users s s2" "u_email u = Some email"
    using EnsureIdentity_run [OF i] same_but_users_trans [OF same_db_users [OF same]] by auto
  have "platform_members s' = platform_members s" "access_users s3 = access_users s"
    using 2 RecordInvitationLinkUse_run(1) [OF r] insert_access_run(1) [OF a] by (simp_all add: same_but_users_def)
  then show ?thesis using valid l(2) 2(2) insert_access_run(2) [OF a refl]
    by (intro exI [of _ l] exI [of _ pid]) (auto simp: access_listed_def)
qed

end
