(* ===== verification/Access_Links.thy ===== *)
theory Access_Links
  imports Sign_In
begin

text \<open>
  The budget of an invitation link over every operation that touches links or their uses, the decision
  of an access request, and the events of the visit recorder.
\<close>

section \<open>The budget of a link\<close>

definition links_ok :: "db \<Rightarrow> bool" where
  "links_ok s \<longleftrightarrow> distinct (map il_id (invitation_links s))
     \<and> lu_link ` set (link_uses s) \<subseteq> il_id ` set (invitation_links s)
     \<and> (\<forall>l \<in> set (invitation_links s). \<forall>m. il_project l \<noteq> None \<and> il_max_uses l = Some m \<longrightarrow> int (use_count s (il_id l)) \<le> m)"

definition same_links :: "db \<Rightarrow> db \<Rightarrow> bool" where
  "same_links s t \<longleftrightarrow> invitation_links t = invitation_links s \<and> link_uses t = link_uses s"

lemma links_ok_same: "same_links s t \<Longrightarrow> links_ok t = links_ok s"
  by (simp add: same_links_def links_ok_def use_count_def)

lemma links_okD:
  "links_ok s \<Longrightarrow> l \<in> set (invitation_links s) \<Longrightarrow> il_project l \<noteq> None \<Longrightarrow> il_max_uses l = Some m \<Longrightarrow> int (use_count s (il_id l)) \<le> m"
  unfolding links_ok_def by blast

lemma links_okI:
  assumes "distinct (map il_id (invitation_links s))" "lu_link ` set (link_uses s) \<subseteq> il_id ` set (invitation_links s)"
    and "\<And>l m. l \<in> set (invitation_links s) \<Longrightarrow> il_project l \<noteq> None \<Longrightarrow> il_max_uses l = Some m \<Longrightarrow> int (use_count s (il_id l)) \<le> m"
  shows "links_ok s"
  using assms unfolding links_ok_def by blast

interpretation links: store_predicate links_ok
  by unfold_locales (simp_all add: links_ok_def use_count_def)

lemma keeps_links_same:
  "(\<And>s r s'. run_state m s = (r, s') \<Longrightarrow> same_links s s') \<Longrightarrow> keeps links_ok m"
  by (rule keepsI) (metis links_ok_same prod.collapse)

lemma keeps_or_status: "keeps I m \<Longrightarrow> keeps I (or_status c m)"
  unfolding or_status_def by (intro keeps_bind keeps_return)

lemma keeps_or_auth: "keeps I m \<Longrightarrow> keeps I (or_auth p m)"
  unfolding or_auth_def by (intro keeps_bind keeps_return)

lemma use_count_fresh: "links_ok s \<Longrightarrow> i \<notin> il_id ` set (invitation_links s) \<Longrightarrow> use_count s i = 0"
  by (auto simp: links_ok_def use_count_def filter_empty_conv)

lemma insert_link_keeps: "(\<And>m. maxUses = Some m \<Longrightarrow> 0 \<le> m) \<Longrightarrow> keeps links_ok (insert_link h by pid maxUses e)"
proof -
  assume pos: "\<And>m. maxUses = Some m \<Longrightarrow> 0 \<le> m"
  have grow: "links_ok (s\<lparr>invitation_links := invitation_links s @ [new_link i h by pid maxUses e now]\<rparr>)"
    if ok: "links_ok s" and new: "\<not> list_ex (\<lambda>l. il_id l = i \<or> il_token_hash l = h) (invitation_links s)" for s i now
  proof -
    have i: "i \<notin> il_id ` set (invitation_links s)" using new by (auto simp: list_ex_iff)
    have c: "use_count (s\<lparr>invitation_links := ls\<rparr>) = use_count s" for ls by (simp add: use_count_def fun_eq_iff)
    show ?thesis using ok i pos use_count_fresh [OF ok i] unfolding links_ok_def c by (auto simp: new_link_def)
  qed
  show ?thesis unfolding insert_link_def
    by (intro keeps_bind links.keeps_uuid_New links.keeps_sql) (auto simp: Let_def grow split: if_splits)
qed

lemma CreateInvitationLink_keeps: "keeps links_ok (CreateInvitationLink by h e)"
  unfolding CreateInvitationLink_def by (rule insert_link_keeps) simp

lemma createProjectInvitationLink_keeps: "keeps links_ok (createProjectInvitationLink cfg caller pid raw maxUses days)"
  unfolding createProjectInvitationLink_def CreateProjectInvitationLink_def existing_project_def owner_or_admin_def Let_def
  by (intro keeps_intros keeps_or_status insert_link_keeps links.keeps_time_Now links.keeps_reads_only reads_intros)
    (auto split: if_splits)

lemma use_count_filter: "use_count (s\<lparr>invitation_links := ls, link_uses := filter (\<lambda>u. lu_link u \<noteq> i) (link_uses s)\<rparr>) j
    = (if j = i then 0 else use_count s j)"
  by (auto simp: use_count_def filter_empty_conv intro!: arg_cong [of _ _ length] filter_cong)

lemma DeleteInvitationLink_keeps: "keeps links_ok (DeleteInvitationLink i)"
  unfolding DeleteInvitationLink_def
proof (rule links.keeps_exec)
  fix s assume ok: "links_ok s"
  let ?t = "s\<lparr>invitation_links := filter (\<lambda>l. il_id l \<noteq> i) (invitation_links s), link_uses := filter (\<lambda>u. lu_link u \<noteq> i) (link_uses s)\<rparr>"
  show "links_ok ?t"
  proof (rule links_okI)
    show "distinct (map il_id (invitation_links ?t))" using ok by (simp add: links_ok_def distinct_map_filter)
    show "lu_link ` set (link_uses ?t) \<subseteq> il_id ` set (invitation_links ?t)"
    proof
      fix x assume "x \<in> lu_link ` set (link_uses ?t)"
      then obtain u where "u \<in> set (link_uses s)" "x = lu_link u" "lu_link u \<noteq> i" by auto
      moreover from this ok obtain l where "l \<in> set (invitation_links s)" "il_id l = lu_link u"
        unfolding links_ok_def by (metis imageE image_subset_iff)
      ultimately show "x \<in> il_id ` set (invitation_links ?t)" by (auto intro!: image_eqI [of _ _ l])
    qed
    fix l m assume "l \<in> set (invitation_links ?t)" "il_project l \<noteq> None" "il_max_uses l = Some m"
    then show "int (use_count ?t (il_id l)) \<le> m"
      using links_okD [OF ok, of l m] by (simp add: use_count_filter)
  qed
qed

lemma ConsumeInvitationLink_keeps: "keeps links_ok (ConsumeInvitationLink i u)"
proof -
  have mark: "links_ok (s\<lparr>invitation_links := upd_where P (\<lambda>l. l\<lparr>il_used_at := a, il_used_by := b\<rparr>) (invitation_links s)\<rparr>)"
    if "links_ok s" for s P a b
  proof -
    let ?f = "\<lambda>l. if P l then l\<lparr>il_used_at := a, il_used_by := b\<rparr> else l"
    have m: "map il_id (upd_where P (\<lambda>l. l\<lparr>il_used_at := a, il_used_by := b\<rparr>) ls) = map il_id ls" for ls
      by (simp add: upd_where_def)
    have ids: "il_id ` set (upd_where P (\<lambda>l. l\<lparr>il_used_at := a, il_used_by := b\<rparr>) ls) = il_id ` set ls" for ls
      using arg_cong [OF m [of ls], of set] by simp
    have c: "use_count (s\<lparr>invitation_links := ls\<rparr>) = use_count s" for ls by (simp add: use_count_def fun_eq_iff)
    have "\<exists>k \<in> set (invitation_links s). il_project l = il_project k \<and> il_max_uses l = il_max_uses k \<and> il_id l = il_id k"
      if "l \<in> set (upd_where P (\<lambda>l. l\<lparr>il_used_at := a, il_used_by := b\<rparr>) (invitation_links s))" for l
      using that by (auto simp: upd_where_def)
    then show ?thesis using \<open>links_ok s\<close> unfolding links_ok_def c m ids by (simp add: m ids) metis
  qed
  show ?thesis unfolding ConsumeInvitationLink_def
    by (intro keeps_intros links.keeps_sql) (auto simp: mark split: if_splits)
qed

text \<open>A use is recorded on a link that has room; elsewhere the statement keeps the budget as well when
  the user has used the link before.\<close>

lemma RecordInvitationLinkUse_keeps:
  assumes "run_state (RecordInvitationLinkUse (il_id l) u) s = (r, s')" and "links_ok s"
    and "l \<in> set (invitation_links s)" and "\<And>m. il_project l \<noteq> None \<Longrightarrow> il_max_uses l = Some m \<Longrightarrow> int (use_count s (il_id l)) < m"
  shows "links_ok s'"
proof -
  have inv: "invitation_links s' = invitation_links s" using RecordInvitationLinkUse_run(1) [OF assms(1)] by blast
  from RecordInvitationLinkUse_run(2) [OF assms(1)] show ?thesis
  proof (elim disjE conjE exE)
    assume "link_uses s' = link_uses s"
    then show ?thesis using inv assms(2) links_ok_same [of s s'] by (simp add: same_links_def)
  next
    fix i now
    assume e: "list_ex (\<lambda>k. il_id k = il_id l) (invitation_links s)"
      and new: "link_uses s' = link_uses s @ [\<lparr>lu_id = i, lu_link = il_id l, lu_user = u, lu_at = now\<rparr>]"
    have c: "use_count s' j = use_count s j + (if j = il_id l then 1 else 0)" for j
      by (simp add: use_count_def new)
    have one: "k = l" if "k \<in> set (invitation_links s)" "il_id k = il_id l" for k
      using inj_onD [of il_id "set (invitation_links s)", OF _ that(2) that(1) assms(3)] assms(2)
      by (simp add: links_ok_def distinct_map)
    have "int (use_count s' (il_id k)) \<le> m"
      if "k \<in> set (invitation_links s)" "il_project k \<noteq> None" "il_max_uses k = Some m" for k m
    proof (cases "il_id k = il_id l")
      case True
      then have "k = l" using that(1) one by blast
      then show ?thesis using assms(4) [of m] that(2,3) by (simp add: c)
    next
      case False
      then show ?thesis using links_okD [OF assms(2) that] by (simp add: c)
    qed
    moreover have "lu_link ` set (link_uses s') \<subseteq> il_id ` set (invitation_links s)"
      using assms(2,3) unfolding new links_ok_def by auto
    ultimately show ?thesis using assms(2) unfolding links_ok_def inv by blast
  qed
qed

lemma statements_same_links:
  "run_state (UpsertUser e n av b) s = (r1, t) \<Longrightarrow> same_links s t"
  "run_state (EnsureIdentity cfg e n av) s = (r2, t) \<Longrightarrow> same_links s t"
  "run_state (UpsertPlatformMember i role b) s = (r3, t) \<Longrightarrow> same_links s t"
  "run_state (SetPlatformMemberRole i role) s = (r4, t) \<Longrightarrow> same_links s t"
  "run_state (SetPlatformMemberAuthorized i b) s = (r4, t) \<Longrightarrow> same_links s t"
  "run_state (insert_access pid i who) s = (r4, t) \<Longrightarrow> same_links s t"
  using UpsertUser_frame [of e n av b s r1 t] EnsureIdentity_run [of cfg e n av s r2 t]
    member_statements_frame(1) [of i role b s r3 t] member_statements_frame(2) [of i role s r4 t]
    member_statements_frame(3) [of i b s r4 t] insert_access_run(1) [of pid i who s r4 t]
  by (auto simp: same_but_users_def same_but_members_def same_links_def)

lemma statement_keeps:
  "keeps links_ok (EnsureIdentity cfg e n av)"
  "keeps links_ok (UpsertPlatformMember i role b)"
  "keeps links_ok (SetPlatformMemberRole i role)"
  "keeps links_ok (SetPlatformMemberAuthorized i b)"
  "keeps links_ok (insert_access pid i who)"
  by (rule keeps_links_same, erule statements_same_links)+

lemma consume_link_keeps: "keeps links_ok (consume_link link u)"
  unfolding consume_link_def by (intro keeps_intros ConsumeInvitationLink_keeps)

lemma enter_platform_keeps: "keeps links_ok (enter_platform cfg provider email name av link)"
  unfolding enter_platform_def write_member_def check_invited_def promote_admin_def authorize_invited_def Let_def
  by (intro keeps_intros keeps_or_auth statement_keeps consume_link_keeps links.keeps_reads_only reads_intros)

lemma room: "link_usable s now l \<Longrightarrow> il_project l \<noteq> None \<Longrightarrow> il_max_uses l = Some m \<Longrightarrow> int (use_count s (il_id l)) < m"
  by (auto simp: link_usable_def)

lemma grantProjectInvite_keeps:
  assumes "run_state (grantProjectInvite l pid u) s = (r, s')" and "links_ok s" and "l \<in> set (invitation_links s)"
    and "\<And>m. il_project l \<noteq> None \<Longrightarrow> il_max_uses l = Some m \<Longrightarrow> int (use_count s (il_id l)) < m"
  shows "links_ok s'"
proof -
  obtain q s1 where rec: "run_state (RecordInvitationLinkUse (il_id l) u) s = (q, s1)" by fastforce
  have 1: "links_ok s1" by (rule RecordInvitationLinkUse_keeps [OF rec assms(2-4)])
  have a: "keeps links_ok (or_auth ''add project access user: '' (AddProjectAccessUser pid u (il_invited_by l)))"
    unfolding AddProjectAccessUser_def by (intro keeps_or_auth statement_keeps)
  have g: "grantProjectInvite l pid u = attempt (or_auth ''record invitation link use: '' (RecordInvitationLinkUse (il_id l) u)) (\<lambda>_.
       or_auth ''add project access user: '' (AddProjectAccessUser pid u (il_invited_by l)))"
    by (simp add: grantProjectInvite_def)
  from assms(1) [unfolded g] show ?thesis
  proof (cases rule: attempt_cases)
    case (failed e)
    then show ?thesis using 1 rec by (auto dest!: or_auth_run)
  next
    case (went x s2)
    then have "s2 = s1" using rec by (auto simp: or_auth_Inr)
    then show ?thesis using keepsE [OF a 1] went(2) by simp
  qed
qed

lemma same_db_links: "same_db s t \<Longrightarrow> same_links s t"
  by (auto simp: same_db_def same_links_def)

lemma room_same: "same_links s t \<Longrightarrow> use_count t i = use_count s i"
  by (simp add: same_links_def use_count_def)

lemma ConsumeProjectInvite_keeps:
  assumes "run_state (ConsumeProjectInviteForUserID cfg u tok) s = (r, s')" and "links_ok s"
  shows "links_ok s'"
  using assms(1) unfolding ConsumeProjectInviteForUserID_def
proof (cases rule: attempt_cases)
  case (failed e)
  then show ?thesis using reads_same [OF reads_only_find_link failed] assms(2) links_ok_same [OF same_db_links] by blast
next
  case (went x s1)
  have same: "same_links s s1" using reads_same [OF reads_only_find_link went(1)] by (rule same_db_links)
  show ?thesis
  proof (cases "\<exists>l pid. x = Some l \<and> il_project l = Some pid")
    case False
    then have "s' = s1" using went(2) by (auto simp: run_ok split: option.splits)
    then show ?thesis using links_ok_same [OF same] assms(2) by simp
  next
    case True
    then obtain l pid where x: "x = Some l" "il_project l = Some pid" by blast
    obtain q where g: "run_state (grantProjectInvite l pid u) s1 = (q, s')"
      using went(2) x by (auto simp: run_attempt run_ok split: prod.splits sum.splits)
    note found = find_link_Some [OF went(1) [unfolded x(1)]]
    show ?thesis
      by (rule grantProjectInvite_keeps [OF g])
        (use found assms(2) same links_ok_same [OF same] room [of s "db_now s" l] room_same [OF same] in \<open>auto simp: same_links_def\<close>)
  qed
qed

lemma EnsurePlatformMember_keeps:
  assumes "run_state (EnsurePlatformMember cfg provider email name av tok) s = (r, s')" and "links_ok s"
  shows "links_ok s'"
  using assms(1) unfolding EnsurePlatformMember_def
proof (cases rule: attempt_cases)
  case (failed e)
  then show ?thesis using reads_same [OF reads_only_find_link failed] assms(2) links_ok_same [OF same_db_links] by blast
next
  case (went x s1)
  have same: "same_links s s1" using reads_same [OF reads_only_find_link went(1)] by (rule same_db_links)
  show ?thesis
  proof (cases "\<exists>l pid. x = Some l \<and> il_project l = Some pid")
    case False
    then have "run_state (enter_platform cfg provider email name av x) s1 = (r, s')" using went(2) by (auto split: option.splits)
    then show ?thesis using keepsE [OF enter_platform_keeps] links_ok_same [OF same] assms(2) by blast
  next
    case True
    then obtain l pid where x: "x = Some l" "il_project l = Some pid" by blast
    note found = find_link_Some [OF went(1) [unfolded x(1)]]
    have w: "run_state (attempt (EnsureIdentity cfg email name av) (\<lambda>user.
         attempt (grantProjectInvite l pid (u_id user)) (\<lambda>_. ok (user, None)))) s1 = (r, s')"
      using went(2) x by simp
    then show ?thesis
    proof (cases rule: attempt_cases)
      case (failed e)
      then show ?thesis using statements_same_links(2) [OF failed] links_ok_same same assms(2) by metis
    next
      case (went u s2)
      have same2: "same_links s s2" using statements_same_links(2) [OF went(1)] same by (simp add: same_links_def)
      obtain q where g: "run_state (grantProjectInvite l pid (u_id u)) s2 = (q, s')"
        using went(2) by (auto simp: run_attempt run_ok split: prod.splits sum.splits)
      show ?thesis
        by (rule grantProjectInvite_keeps [OF g])
          (use found assms(2) same2 links_ok_same [OF same2] room [of s "db_now s" l] room_same [OF same2] in \<open>auto simp: same_links_def\<close>)
    qed
  qed
qed

text \<open>One call that touches links, or anything that leaves the two tables alone.\<close>

inductive link_step :: "auth_cfg \<Rightarrow> db \<Rightarrow> db \<Rightarrow> bool" for cfg where
  sign_in: "run_state (EnsurePlatformMember cfg provider email name av tok) s = (r, t) \<Longrightarrow> link_step cfg s t"
| join: "run_state (ConsumeProjectInviteForUserID cfg u tok) s = (b, t) \<Longrightarrow> link_step cfg s t"
| create: "run_state (handleCreateInvitationLink cfg admin raw days) s = (c, t) \<Longrightarrow> link_step cfg s t"
| create_project: "run_state (createProjectInvitationLink cfg caller pid raw maxUses days) s = (c, t) \<Longrightarrow> link_step cfg s t"
| delete: "run_state (handleDeleteInvitationLink i) s = (d, t) \<Longrightarrow> link_step cfg s t"
| delete_project: "run_state (deleteProjectInvitationLink caller pid i) s = (d, t) \<Longrightarrow> link_step cfg s t"
| elsewhere: "same_links s t \<Longrightarrow> link_step cfg s t"

lemma link_handlers_keep:
  "keeps links_ok (handleCreateInvitationLink cfg admin raw days)"
  "keeps links_ok (handleDeleteInvitationLink i)"
  "keeps links_ok (deleteProjectInvitationLink caller pid i)"
  unfolding handleCreateInvitationLink_def handleDeleteInvitationLink_def deleteProjectInvitationLink_def Let_def
    existing_project_def owner_or_admin_def project_link_def GetInvitationLink_def
  by (intro keeps_intros keeps_or_status CreateInvitationLink_keeps DeleteInvitationLink_keeps links.keeps_time_Now
      links.keeps_reads_only reads_intros)+

lemma link_step_keeps: "link_step cfg s t \<Longrightarrow> links_ok s \<Longrightarrow> links_ok t"
proof (induction rule: link_step.cases)
qed (auto dest: EnsurePlatformMember_keeps ConsumeProjectInvite_keeps links_ok_same
    keepsE [OF link_handlers_keep(1)] keepsE [OF link_handlers_keep(2)] keepsE [OF link_handlers_keep(3)]
    keepsE [OF createProjectInvitationLink_keeps])

text \<open>
  C21: Whatever sequence of sign-ins, link creations and deletions a database goes through, one call at
  a time, no project link is used by more accounts than its budget allows.
\<close>

theorem link_budget_kept:
  assumes "rtranclp (link_step cfg) s t" and "links_ok s"
    and "l \<in> set (invitation_links t)" "il_project l \<noteq> None" "il_max_uses l = Some m"
  shows "int (use_count t (il_id l)) \<le> m"
proof -
  from assms(1,2) have "links_ok t" by (induction rule: rtranclp_induct) (auto intro: link_step_keeps)
  then show ?thesis using assms(3-5) by (rule links_okD)
qed

end
