(* ===== verification/Access_Inbox.thy ===== *)
theory Access_Inbox
  imports Access_Links
begin

text \<open>
  The decision of an access request is all or nothing, the expiry of a link at the edge of int64, and
  what becomes of the events of the visit recorder.
\<close>

section \<open>The decision of an access request\<close>

definition same_rows :: "db \<Rightarrow> db \<Rightarrow> bool" where
  "same_rows s t \<longleftrightarrow> access_requests t = access_requests s \<and> access_users t = access_users s \<and> db_now t = db_now s
     \<and> users t = users s \<and> projects t = projects s"

lemma same_rows_popped [simp]: "same_rows s (popped s)" "same_rows (popped s) t = same_rows s t" "same_rows s (popped t) = same_rows s t"
  by (simp_all add: same_rows_def)

lemma same_rows_restore: "same_rows s (restore s t)"
  by (simp add: same_rows_def restore_def)

lemma transaction_early_cases:
  assumes "run_state (transaction_early body) s = (r, t)"
  shows "same_rows s t \<or> (\<exists>y s2. r = Inr (Inr y) \<and> run_state body (popped s) = (Inr (Inr y), s2) \<and> same_rows s2 t)"
proof -
  obtain b s2 where b: "run_state body (popped s) = (b, s2)" by fastforce
  have r: "same_rows s (restore (popped s) x)" for x using same_rows_restore [of "popped s" x] by simp
  show ?thesis
    using assms b by (auto simp: transaction_early_def run_query r split: option.splits sum.splits)
qed

definition decided :: "request_status \<Rightarrow> uuid \<Rightarrow> time \<Rightarrow> access_request \<Rightarrow> access_request" where
  "decided status who now a = a\<lparr>ar_status := status, ar_decided := Some now, ar_decided_by := Some who\<rparr>"

lemma request_by_upd:
  "request_by (s\<lparr>access_requests := upd_where (\<lambda>r. ar_id r = i) (decided st who now) (access_requests s)\<rparr>) j
     = (if j = i then map_option (decided st who now) (request_by s i) else request_by s j)"
  by (simp add: request_by_def find_upd_key decided_def)

lemma set_decision_Inr:
  "run_state (set_decision i st who) s = (Inr (), t) \<Longrightarrow>
     access_requests t = upd_where (\<lambda>r. ar_id r = i) (decided st who (db_now s)) (access_requests s) \<and> access_users t = access_users s"
  by (auto simp: set_decision_def run_sql decided_def [abs_def] popped_def split: option.splits if_splits)

lemma decide_tx_commits:
  assumes "run_state (decide_tx rid st who) s = (Inr (Inr y), t)"
  shows "\<exists>a. request_by s rid = Some a \<and> ar_status a = RQ_Pending
     \<and> (\<forall>j. request_by t j = (if j = rid then Some (decided st who (db_now s) a) else request_by s j))
     \<and> (\<forall>p i. access_listed t p i \<longleftrightarrow> access_listed s p i \<or> st = RQ_Approved \<and> p = ar_project a \<and> i = ar_user a)"
proof -
  obtain q s1 where q: "run_state (query (\<lambda>s. request_by s rid)) s = (Inr q, s1)"
    and k: "run_state (case q of None \<Rightarrow> ok (Inl False) | Some a \<Rightarrow>
        if ar_status a \<noteq> RQ_Pending then ok (Inl True)
        else attempt (set_decision rid st who) (\<lambda>_.
             attempt (if st = RQ_Approved then insert_access (ar_project a) (ar_user a) (Some who) else ok ()) (\<lambda>_.
             ok (Inr ())))) s1 = (Inr (Inr y), t)"
    using assms unfolding decide_tx_def by (rule attempt_InrE)
  have 1: "same_db s s1" "q = request_by s1 rid" using query_Inr [OF q] by blast+
  have rows: "access_requests s1 = access_requests s" "access_users s1 = access_users s" "db_now s1 = db_now s"
    using 1(1) by (auto simp: same_db_def)
  then have q': "q = request_by s rid" using 1(2) by (simp add: request_by_def)
  obtain a where a: "q = Some a" "ar_status a = RQ_Pending"
    using k by (cases q) (auto simp: ok_Inr split: if_splits)
  obtain s2 where d: "run_state (set_decision rid st who) s1 = (Inr (), s2)"
    and i: "run_state (if st = RQ_Approved then insert_access (ar_project a) (ar_user a) (Some who) else ok ()) s2 = (Inr (), t)"
    using k a by (auto simp: inversions)
  note d' = set_decision_Inr [OF d]
  have t: "access_requests t = access_requests s2"
    using i by (auto simp: ok_Inr insert_access_def run_sql popped_def split: if_splits option.splits)
  have req: "request_by t j = (if j = rid then Some (decided st who (db_now s) a) else request_by s j)" for j
    using d' t rows request_by_upd [where s = s and i = rid and st = st and who = who and now = "db_now s" and j = j] a(1) q' by (simp add: request_by_def)
  have "access_listed t p j \<longleftrightarrow> access_listed s2 p j \<or> st = RQ_Approved \<and> p = ar_project a \<and> j = ar_user a" for p j
  proof (cases "st = RQ_Approved")
    case True
    with i have "run_state (insert_access (ar_project a) (ar_user a) (Some who)) s2 = (Inr (), t)" by simp
    from insert_access_run(2) [OF this refl] True show ?thesis by blast
  next
    case False
    with i show ?thesis by (simp add: ok_Inr)
  qed
  moreover have "access_listed s2 p j = access_listed s p j" for p j using d' rows by (simp add: access_listed_def)
  ultimately have "access_listed t p i \<longleftrightarrow> access_listed s p i \<or> st = RQ_Approved \<and> p = ar_project a \<and> i = ar_user a" for p i
    by simp
  moreover have "request_by s rid = Some a" using a q' by simp
  ultimately show ?thesis using a(2) req by (intro exI [of _ a]) simp
qed

text \<open>
  Deciding an access request is all or nothing and happens once: whatever the database answers, the
  requests and the allow-lists are untouched, or the request was pending, carries the decision, and
  exactly an approval lists its requester, and nobody else, for its project.
\<close>

theorem decision_atomic:
  "case run_state (DecideAccessRequest rid st who) s of (r, t) \<Rightarrow>
     (access_requests t = access_requests s \<and> access_users t = access_users s)
   \<or> (st \<in> {RQ_Approved, RQ_Denied} \<and> (\<exists>a. request_by s rid = Some a \<and> ar_status a = RQ_Pending
       \<and> (\<forall>j. request_by t j = (if j = rid then Some (decided st who (db_now s) a) else request_by s j))
       \<and> (\<forall>p i. access_listed t p i \<longleftrightarrow> access_listed s p i \<or> st = RQ_Approved \<and> p = ar_project a \<and> i = ar_user a)))"
proof -
  obtain r t where run: "run_state (DecideAccessRequest rid st who) s = (r, t)" by fastforce
  show ?thesis
  proof (cases "st \<in> {RQ_Approved, RQ_Denied}")
    case False
    then show ?thesis using run by (simp add: DecideAccessRequest_def run_fail)
  next
    case True
    then obtain x s1 where x: "run_state (transaction_early (decide_tx rid st who)) s = (x, s1)" and same: "same_rows s1 t"
      using run
      by (cases "run_state (transaction_early (decide_tx rid st who)) s")
        (auto simp: DecideAccessRequest_def run_attempt run_ok GetAccessRequest_def run_query same_rows_def
          split: sum.splits option.splits bool.splits)
    have tab: "access_requests t = access_requests s1" "access_users t = access_users s1" using same by (simp_all add: same_rows_def)
    from transaction_early_cases [OF x] show ?thesis
    proof (elim disjE exE conjE)
      assume "same_rows s s1"
      then show ?thesis using run tab by (simp add: same_rows_def)
    next
      fix y s2
      assume c: "run_state (decide_tx rid st who) (popped s) = (Inr (Inr y), s2)" and "same_rows s2 s1"
      then have t2: "access_requests t = access_requests s2" "access_users t = access_users s2" using tab by (simp_all add: same_rows_def)
      have p: "request_by (popped s) = request_by s" "access_listed (popped s) = access_listed s"
        by (simp_all add: request_by_def access_listed_def fun_eq_iff)
      show ?thesis using decide_tx_commits [OF c] True run t2 unfolding p by (auto simp: request_by_def access_listed_def)
    qed
  qed
qed

section \<open>The expiry of a link\<close>

text \<open>
  The expiry of a link is exact for up to 106751 days; a request for one more day overflows the
  64-bit duration, and the link is made with an expiry 292 years in the past.
\<close>

theorem link_expiry_bounds:
  "link_expiry now (int n) = (if n = 0 then None else if n \<le> 106751 then Some (now + int n * hours 24) else link_expiry now (int n))
   \<and> link_expiry now 106752 = Some (now - 9223371273709551616)"
proof -
  have "wrap64 (int n * hours 24) = int n * hours 24" if "n \<le> 106751"
  proof -
    have "0 \<le> int n * hours 24 + 2 ^ 63" "int n * hours 24 + 2 ^ 63 < 2 ^ 64" using that by (simp_all add: hours_def)
    then show ?thesis unfolding wrap64_def by simp
  qed
  moreover have "wrap64 (106752 * hours 24) = - 9223371273709551616" by (simp add: wrap64_def hours_def)
  ultimately show ?thesis by (auto simp: link_expiry_def)
qed

section \<open>The visit recorder\<close>

definition visits_in :: "project_visit list \<Rightarrow> int" where
  "visits_in vs = sum_list (map pv_count vs)"

text \<open>Where the pushed events are: counted in the table, aggregated, in the channel, dropped, lost.\<close>

definition visits_total :: "db \<Rightarrow> visit_recorder \<Rightarrow> int" where
  "visits_total s r = visits_in (visits s) + visits_in (vr_pending r) + int (length (vr_ch r)) + int (vr_dropped r) + vr_lost r"

definition visits_ok :: "db \<Rightarrow> visit_recorder \<Rightarrow> bool" where
  "visits_ok s r \<longleftrightarrow> distinct (map visit_key (visits s)) \<and> distinct (map visit_key (vr_pending r))
     \<and> list_all (\<lambda>v. 1 \<le> pv_count v) (vr_pending r) \<and> length (vr_ch r) \<le> visitChannelBuffer"

lemma keys_upd: "(\<And>v. visit_key (f v) = visit_key v) \<Longrightarrow> map visit_key (upd_where P f vs) = map visit_key vs"
  by (simp add: upd_where_def)

lemma visits_in_upd:
  assumes "distinct (map visit_key vs)" and "list_ex (\<lambda>v. visit_key v = k) vs" and "\<And>v. pv_count (f v) = pv_count v + n"
  shows "visits_in (upd_where (\<lambda>v. visit_key v = k) f vs) = visits_in vs + n"
  using assms
proof (induction vs)
  case (Cons v vs)
  show ?case
  proof (cases "visit_key v = k")
    case True
    then have "upd_where (\<lambda>v. visit_key v = k) f vs = vs"
      using Cons.prems(1) by (auto simp: upd_where_def image_iff intro!: map_idI)
    then show ?thesis using True Cons.prems(3) by (simp add: visits_in_def upd_where_def)
  next
    case False
    then show ?thesis using Cons by (simp add: visits_in_def upd_where_def)
  qed
qed (simp add: list_ex_iff)

lemma accumulateVisit_keeps:
  assumes "distinct (map visit_key vs)" "list_all (\<lambda>v. 1 \<le> pv_count v) vs"
  shows "distinct (map visit_key (accumulateVisit vs ev))" "list_all (\<lambda>v. 1 \<le> pv_count v) (accumulateVisit vs ev)"
    "visits_in (accumulateVisit vs ev) = visits_in vs + 1"
proof -
  let ?k = "(ve_project ev, ve_user ev)"
  let ?f = "\<lambda>v. v\<lparr>pv_count := pv_count v + 1, pv_last_seen := (if ve_seen ev > pv_last_seen v then ve_seen ev else pv_last_seen v)\<rparr>"
  have k: "visit_key (?f v) = visit_key v" for v by (simp add: visit_key_def)
  have "distinct (map visit_key (accumulateVisit vs ev)) \<and> list_all (\<lambda>v. 1 \<le> pv_count v) (accumulateVisit vs ev)
    \<and> visits_in (accumulateVisit vs ev) = visits_in vs + 1"
  proof (cases "list_ex (\<lambda>v. visit_key v = ?k) vs")
    case True
    have a: "accumulateVisit vs ev = upd_where (\<lambda>v. visit_key v = ?k) ?f vs" using True by (simp add: accumulateVisit_def Let_def)
    have "list_all (\<lambda>v. 1 \<le> pv_count v) (upd_where (\<lambda>v. visit_key v = ?k) ?f vs)"
      using assms(2) by (fastforce simp: upd_where_def list_all_iff)
    then show ?thesis unfolding a using assms(1) visits_in_upd [OF assms(1) True, of ?f 1] keys_upd [of ?f, OF k] by simp
  next
    case False
    then have "accumulateVisit vs ev = vs @ [\<lparr>pv_project = ve_project ev, pv_user = ve_user ev, pv_first_seen = 0,
        pv_last_seen = ve_seen ev, pv_count = 1\<rparr>]" by (simp add: accumulateVisit_def Let_def)
    then show ?thesis using assms False by (auto simp: visits_in_def visit_key_def list_ex_iff)
  qed
  then show "distinct (map visit_key (accumulateVisit vs ev))" "list_all (\<lambda>v. 1 \<le> pv_count v) (accumulateVisit vs ev)"
    "visits_in (accumulateVisit vs ev) = visits_in vs + 1" by blast+
qed

lemma upsert_visit_keeps:
  assumes "distinct (map visit_key rows)" "1 \<le> pv_count v"
  shows "distinct (map visit_key (upsert_visit now v rows)) \<and> visits_in (upsert_visit now v rows) = visits_in rows + pv_count v"
proof (cases "list_ex (\<lambda>r. visit_key r = visit_key v) rows")
  case True
  let ?f = "\<lambda>r. r\<lparr>pv_last_seen := max (pv_last_seen r) (pv_last_seen v), pv_count := pv_count r + pv_count v\<rparr>"
  have k: "visit_key (?f r) = visit_key r" for r by (simp add: visit_key_def)
  have "upsert_visit now v rows = upd_where (\<lambda>r. visit_key r = visit_key v) ?f rows"
    using True assms(2) by (simp add: upsert_visit_def Let_def)
  then show ?thesis using assms(1) visits_in_upd [OF assms(1) True, of ?f "pv_count v"] keys_upd [of ?f, OF k] by simp
next
  case False
  then show ?thesis using assms by (auto simp: upsert_visit_def Let_def visits_in_def visit_key_def list_ex_iff)
qed

lemma upsert_all:
  assumes "distinct (map visit_key rows)" "list_all (\<lambda>v. 1 \<le> pv_count v) vs"
  shows "distinct (map visit_key (fold (upsert_visit now) vs rows)) \<and> visits_in (fold (upsert_visit now) vs rows) = visits_in rows + visits_in vs"
  using assms
proof (induction vs arbitrary: rows)
  case (Cons v vs)
  then have "1 \<le> pv_count v" by simp
  note u = upsert_visit_keeps [OF Cons.prems(1) this, of now]
  then show ?case using Cons.IH [of "upsert_visit now v rows"] Cons.prems(2) by (simp add: visits_in_def)
qed (simp add: visits_in_def)

lemma flush_visits_conserves:
  assumes "run_state (flush_visits r) s = (r', s')" and "visits_ok s r"
  shows "visits_ok s' r' \<and> visits_total s' r' = visits_total s r"
proof (cases "vr_pending r = []")
  case True
  then show ?thesis using assms by (simp add: flush_visits_def)
next
  case False
  obtain e t where b: "run_state (RecordProjectVisitsBatch (vr_pending r)) s = (e, t)" by fastforce
  have r': "s' = t" "r' = r\<lparr>vr_pending := [], vr_lost := (case e of Inl _ \<Rightarrow> vr_lost r + visits_in (vr_pending r) | Inr _ \<Rightarrow> vr_lost r)\<rparr>"
    using assms(1) False b by (auto simp: flush_visits_def visits_in_def [abs_def] split: sum.split)
  have "(\<exists>g. e = Inl g \<and> visits t = visits s) \<or> (e = Inr () \<and> visits t = fold (upsert_visit (db_now s)) (vr_pending r) (visits s))"
    using b False by (auto simp: RecordProjectVisitsBatch_def run_sql popped_def split: option.splits if_splits)
  then show ?thesis
    using assms(2) upsert_all [of "visits s" "vr_pending r" "db_now s"] r'
    by (auto simp: visits_ok_def visits_total_def visits_in_def)
qed

definition pushes :: "visit_input \<Rightarrow> int" where
  "pushes i = (case i of VisitPush _ _ \<Rightarrow> 1 | _ \<Rightarrow> 0)"

lemma drain_keeps:
  assumes "distinct (map visit_key vs)" "list_all (\<lambda>v. 1 \<le> pv_count v) vs"
  shows "distinct (map visit_key (foldl accumulateVisit vs evs)) \<and> list_all (\<lambda>v. 1 \<le> pv_count v) (foldl accumulateVisit vs evs)
    \<and> visits_in (foldl accumulateVisit vs evs) = visits_in vs + int (length evs)"
  using assms
proof (induction evs arbitrary: vs)
  case (Cons e evs)
  note a = accumulateVisit_keeps [OF Cons.prems, of e]
  show ?case using Cons.IH [OF a(1,2)] a(3) by simp
qed simp

lemma visit_step_conserves:
  assumes "run_state (visit_step i r) s = (r', s')" and "visits_ok s r"
  shows "visits_ok s' r' \<and> visits_total s' r' = visits_total s r + pushes i"
proof (cases i)
  case (VisitPush p u)
  then show ?thesis using assms by (auto simp: visit_Push_def visits_ok_def visits_total_def pushes_def split: if_splits)
next
  case VisitReceive
  show ?thesis
  proof (cases "vr_ch r")
    case Nil
    then show ?thesis using assms VisitReceive by (simp add: visit_receive_def pushes_def)
  next
    case (Cons ev evs)
    define q where "q = r\<lparr>vr_ch := evs, vr_pending := accumulateVisit (vr_pending r) ev\<rparr>"
    have q: "visits_ok s q" "visits_total s q = visits_total s r"
      using assms(2) accumulateVisit_keeps [of "vr_pending r" ev] Cons by (auto simp: visits_ok_def visits_total_def q_def)
    have "run_state (if visitFlushBatch \<le> length (vr_pending q) then flush_visits q else State_Monad.return q) s = (r', s')"
      using assms(1) VisitReceive Cons by (simp add: visit_receive_def Let_def q_def split: if_splits)
    then show ?thesis using q flush_visits_conserves [of q s r' s'] VisitReceive by (auto simp: pushes_def split: if_splits)
  qed
next
  case VisitTick
  then show ?thesis using assms flush_visits_conserves by (simp add: pushes_def)
next
  case VisitShutdown
  let ?q = "r\<lparr>vr_ch := [], vr_pending := foldl accumulateVisit (vr_pending r) (vr_ch r)\<rparr>"
  have "visits_ok s ?q" "visits_total s ?q = visits_total s r"
    using assms(2) drain_keeps [of "vr_pending r" "vr_ch r"] by (auto simp: visits_ok_def visits_total_def)
  then show ?thesis using assms(1) VisitShutdown flush_visits_conserves [of ?q s r' s'] by (simp add: visit_shutdown_def pushes_def)
qed

fun visit_run :: "visit_input list \<Rightarrow> visit_recorder \<Rightarrow> (db, visit_recorder) state" where
  "visit_run [] r = State_Monad.return r"
| "visit_run (i # is) r = do { r \<leftarrow> visit_step i r; visit_run is r }"

text \<open>
  No visit vanishes and none is counted twice: after any run of the recorder every event that was
  pushed is counted in the table, waits in the aggregate or the channel, was dropped by a full channel,
  or was in a batch whose statement failed; the aggregate never holds a pair twice.
\<close>

theorem visits_conserved:
  assumes "run_state (visit_run inputs r) s = (r', s')" and "visits_ok s r"
  shows "visits_ok s' r' \<and> visits_total s' r' = visits_total s r + sum_list (map pushes inputs)"
  using assms
proof (induction inputs arbitrary: r s)
  case (Cons i inputs)
  obtain q t where step: "run_state (visit_step i r) s = (q, t)" by fastforce
  then have "run_state (visit_run inputs q) t = (r', s')" using Cons.prems(1) by simp
  then show ?case using Cons.IH visit_step_conserves [OF step Cons.prems(2)] by fastforce
qed simp

text \<open>
  One dangling pair takes the whole batch with it: when a visited project or a visitor was deleted
  between the visit and the flush, the statement fails, nothing of the batch is counted, and every
  visit of it, those to other projects included, is gone.
\<close>

theorem batch_lost_together:
  assumes "list_ex (visit_dangles s) (vr_pending r)" and "db_faults s = []"
  shows "run_state (flush_visits r) s = (r\<lparr>vr_pending := [], vr_lost := vr_lost r + visits_in (vr_pending r)\<rparr>, s)"
  using assms by (auto simp: flush_visits_def RecordProjectVisitsBatch_def visits_in_def list_ex_iff)

end
