(* ===== verification/Access_Runs.thy ===== *)
theory Access_Runs
  imports Admission_Runs Access_Inbox
begin

text \<open>
  Sign-ins, access checks, links and visits, evaluated: the theorems of \<open>Access_Facts\<close>, \<open>Sign_In\<close>,
  \<open>Access_Links\<close> and \<open>Access_Inbox\<close> at concrete databases, and two gaps between operations.
\<close>

declare run_attempt [simp del] run_ok [simp del]

section \<open>Sign-in\<close>

definition door_cfg :: auth_cfg where
  "door_cfg = \<lparr>au_providers = [(''google'', False)], au_allowed_domains = [], au_admin_emails = [''root@x.dev''],
     au_materialize = (\<lambda>x. x), au_hash = (\<lambda>x. x)\<rparr>"

definition door_user :: "uuid \<Rightarrow> string \<Rightarrow> user" where
  "door_user i email = (demo_user i RoleMember)\<lparr>u_email := Some email\<rparr>"

definition door_link :: invitation_link where
  "door_link = (new_link ''l'' ''mli_k'' ''o'' (Some ''p'') (Some 1) None 0)"

text \<open>A platform on invitation, with one project link for one account.\<close>

definition door_db :: db where
  "door_db = demo_db\<lparr>users := [door_user ''o'' ''o@x.dev'', door_user ''m'' ''m@x.dev''], settings := [(''access_mode'', ''invite'')],
     invitation_links := [door_link]\<rparr>"

definition root_end :: db where
  "root_end = snd (run_state (EnsurePlatformMember door_cfg ''google'' ''root@x.dev'' ''root'' '''' '''') door_db)"

definition root_user :: user where
  "root_user = (new_user ''#0'' (Some ''root@x.dev'') ''root'' '''' True 0)\<lparr>u_role := RoleAdmin, u_authorized := True\<rparr>"

definition root_member :: platform_member where
  "root_member = \<lparr>pm_user = ''#0'', pm_role = RoleAdmin, pm_authorized = True, pm_created = 0\<rparr>"

lemma root_signs_in:
  "run_state (EnsurePlatformMember door_cfg ''google'' ''root@x.dev'' ''root'' '''' '''') door_db = (Inr (root_user, Some root_member), root_end)"
proof (rule prod_eqI)
  show "fst (run_state (EnsurePlatformMember door_cfg ''google'' ''root@x.dev'' ''root'' '''' '''') door_db)
    = fst (Inr (root_user, Some root_member), root_end)"
    unfolding fst_conv by code_simp
qed (simp add: root_end_def)

lemma door_faults: "db_faults door_db = []"
  by (simp add: door_db_def demo_db_def sample_db_def)



definition guest_end :: db where
  "guest_end = snd (run_state (EnsurePlatformMember door_cfg ''google'' ''eve@x.dev'' ''eve'' '''' ''mli_k'') door_db)"

definition guest :: user where
  "guest = new_user ''#0'' (Some ''eve@x.dev'') ''eve'' '''' True 0"

lemma guest_signs_in:
  "run_state (EnsurePlatformMember door_cfg ''google'' ''eve@x.dev'' ''eve'' '''' ''mli_k'') door_db = (Inr (guest, None), guest_end)"
proof (rule prod_eqI)
  show "fst (run_state (EnsurePlatformMember door_cfg ''google'' ''eve@x.dev'' ''eve'' '''' ''mli_k'') door_db) = fst (Inr (guest, None), guest_end)"
    unfolding fst_conv by code_simp
qed (simp add: guest_end_def)

lemma project_link_confined_witness: "access_listed guest_end ''p'' ''#0'' \<and> platform_members guest_end = []"
proof -
  obtain l pid where "l \<in> set (invitation_links door_db)" "il_project l = Some pid" "platform_members guest_end = platform_members door_db"
    "access_listed guest_end pid (u_id guest)"
    using project_link_confined [OF guest_signs_in] by blast
  then show ?thesis by (simp add: door_db_def demo_db_def sample_db_def door_link_def new_link_def guest_def new_user_def)
qed

section \<open>Links\<close>

lemma door_links: "links_ok door_db"
  by (rule links_okI) (auto simp: door_db_def demo_db_def sample_db_def door_link_def new_link_def use_count_def)

lemma link_budget_kept_witness: "use_count guest_end ''l'' = 1 \<and> int (use_count guest_end ''l'') \<le> 1"
proof -
  have l: "door_link \<in> set (invitation_links guest_end)" and c: "use_count guest_end ''l'' = 1" by code_simp+
  have "il_project door_link \<noteq> None" "il_max_uses door_link = Some 1" "il_id door_link = ''l''"
    by (simp_all add: door_link_def new_link_def)
  then show ?thesis
    using link_budget_kept [OF r_into_rtranclp [of "link_step door_cfg", OF link_step.sign_in [OF guest_signs_in]] door_links l, of 1] c
    by simp
qed

lemma presented_door: "presented_link door_cfg ''mli_k'' door_db = Some door_link"
  by code_simp

text \<open>
  Between two sign-ins the budget is not kept: both validate the link while it has room, then both
  record their use, and a link for one account has opened the project to two.
\<close>

theorem link_overused:
  "run_state (find_link door_cfg ''mli_k'') door_db = (Inr (Some door_link), door_db)
   \<and> (let s1 = snd (run_state (grantProjectInvite door_link ''p'' ''o'') door_db);
          s2 = snd (run_state (grantProjectInvite door_link ''p'' ''m'') s1)
      in il_max_uses door_link = Some 1 \<and> use_count s2 ''l'' = 2 \<and> access_listed s2 ''p'' ''o'' \<and> access_listed s2 ''p'' ''m'')"
proof
  show "run_state (find_link door_cfg ''mli_k'') door_db = (Inr (Some door_link), door_db)"
    using gates_nofault(1) [OF door_faults] presented_door by simp
  show "let s1 = snd (run_state (grantProjectInvite door_link ''p'' ''o'') door_db);
          s2 = snd (run_state (grantProjectInvite door_link ''p'' ''m'') s1)
      in il_max_uses door_link = Some 1 \<and> use_count s2 ''l'' = 2 \<and> access_listed s2 ''p'' ''o'' \<and> access_listed s2 ''p'' ''m''"
    unfolding Let_def by (intro conjI) code_simp+
qed

section \<open>Checks\<close>

definition check_o :: access_check where
  "check_o = \<lparr>ck_allowed = True, ck_mode = ''private'', ck_user = ''o'', ck_admin = False\<rparr>"

lemma check_runs: "run_state (IsProjectAccessAllowedByEmail ''o@x.dev'' ''p'') door_db = (Inr check_o, door_db\<lparr>db_faults := []\<rparr>)"
proof (rule run_of_reads)
  show "reads_only (IsProjectAccessAllowedByEmail ''o@x.dev'' ''p'')"
    unfolding IsProjectAccessAllowedByEmail_def by (intro reads_intros)
  show "fst (run_state (IsProjectAccessAllowedByEmail ''o@x.dev'' ''p'') door_db) = Inr check_o" by code_simp
  show "db_faults (snd (run_state (IsProjectAccessAllowedByEmail ''o@x.dev'' ''p'') door_db)) = []" by code_simp
qed


lemma access_check_by_either_key_witness:
  "run_state (IsProjectAccessAllowedByEmail ''m@x.dev'' ''p'') door_db = run_state (IsProjectAccessAllowedByUserID ''m'' ''p'') door_db"
proof -
  have "find (\<lambda>u. u_email u = Some ''m@x.dev'') (users door_db) = Some (door_user ''m'' ''m@x.dev'')" "distinct (map u_id (users door_db))"
    "u_id (door_user ''m'' ''m@x.dev'') = ''m''"
    by (simp_all add: door_db_def door_user_def demo_user_def)
  with access_check_by_either_key [OF this(1,2)] show ?thesis by simp
qed

definition promoted_end :: db where
  "promoted_end = snd (run_state (setUserRole ''m'' (Some RoleAdmin)) door_db)"

lemma promoted: "run_state (setUserRole ''m'' (Some RoleAdmin)) door_db = (fst (run_state (setUserRole ''m'' (Some RoleAdmin)) door_db), promoted_end)"
  by (simp add: promoted_end_def)

lemma role_change_not_seen_witness:
  "fst (run_state (IsProjectAccessAllowedByEmail ''m@x.dev'' ''p'') (promoted_end\<lparr>db_faults := db_faults door_db\<rparr>))
   = fst (run_state (IsProjectAccessAllowedByEmail ''m@x.dev'' ''p'') door_db)
   \<and> member_by promoted_end ''m'' = Some \<lparr>pm_user = ''m'', pm_role = RoleAdmin, pm_authorized = True, pm_created = 0\<rparr>"
proof
  show "fst (run_state (IsProjectAccessAllowedByEmail ''m@x.dev'' ''p'') (promoted_end\<lparr>db_faults := db_faults door_db\<rparr>))
   = fst (run_state (IsProjectAccessAllowedByEmail ''m@x.dev'' ''p'') door_db)"
    by (rule role_change_not_seen [OF promoted])
  show "member_by promoted_end ''m'' = Some \<lparr>pm_user = ''m'', pm_role = RoleAdmin, pm_authorized = True, pm_created = 0\<rparr>" by code_simp
qed

definition capital_db :: db where
  "capital_db = door_db\<lparr>users := [door_user ''o'' ''Root@x.dev'']\<rparr>"

lemma capital_checks:
  "fst (run_state (IsProjectAccessAllowedByEmail ''root@x.dev'' ''p'') capital_db) = Inr no_check"
  "fst (run_state (IsProjectAccessAllowedByUserID ''o'' ''p'') capital_db) = Inr check_o"
  by code_simp+

lemma capital_folds: "TrimSpace (ToLower ''Root@x.dev'') = ''root@x.dev''" "TrimSpace (ToLower '''') = ''''" "TrimSpace '''' = ''''" "TrimSpace ''o'' = ''o''"
  by code_simp+

lemma demo_request_simps: "attempt (require True c e) k = k ()" "attempt (State_Monad.return (Inr x)) g = g x"
  by (auto simp: require_def attempt_def ok_def)

lemma fst_attempt_status: "fst (run_state m s) = Inr x \<Longrightarrow>
    fst (run_state (attempt (or_status c m) (\<lambda>y. ok (f y))) s) = Inr (f x)"
  by (auto simp: run_attempt or_status_def run_ok split: prod.splits sum.splits)

text \<open>
  An owner whose address the provider writes with a capital is locked out of the own private
  project: the sign-in keeps the address as it came, the access check folds it first and finds no
  account, though the check by the same account's identifier lets it in.
\<close>

theorem mixed_case_locked_out:
  "map_option u_email (find (\<lambda>u. u_id u = ''#0'') (users (snd (run_state
      (HandleCallback door_cfg ''google'' (Inr (''Root@x.dev'', ''r'', '''')) '''') (door_db\<lparr>settings := []\<rparr>))))) = Some (Some ''Root@x.dev'')
   \<and> fst (run_state (handleInternalAccessCheck Inr ''k'' ''k'' ''p'' ''Root@x.dev'' '''') capital_db) = Inr (no_check, None)
   \<and> fst (run_state (handleInternalAccessCheck Inr ''k'' ''k'' ''p'' '''' ''o'') capital_db) = Inr (check_o, Some (''p'', ''o''))"
proof (intro conjI)
  show "map_option u_email (find (\<lambda>u. u_id u = ''#0'') (users (snd (run_state
      (HandleCallback door_cfg ''google'' (Inr (''Root@x.dev'', ''r'', '''')) '''') (door_db\<lparr>settings := []\<rparr>))))) = Some (Some ''Root@x.dev'')"
    by code_simp
  show "fst (run_state (handleInternalAccessCheck Inr ''k'' ''k'' ''p'' ''Root@x.dev'' '''') capital_db) = Inr (no_check, None)"
    using fst_attempt_status [OF capital_checks(1), of 500
        "\<lambda>res. (res, if ck_allowed res \<and> \<not> ck_admin res \<and> ck_user res \<noteq> uuid_Nil then Some (''p'', ck_user res) else None)"]
    by (simp add: handleInternalAccessCheck_def internal_key_def parse_id_def capital_folds demo_request_simps no_check_def)
  show "fst (run_state (handleInternalAccessCheck Inr ''k'' ''k'' ''p'' '''' ''o'') capital_db) = Inr (check_o, Some (''p'', ''o''))"
    using fst_attempt_status [OF capital_checks(2), of 500
        "\<lambda>res. (res, if ck_allowed res \<and> \<not> ck_admin res \<and> ck_user res \<noteq> uuid_Nil then Some (''p'', ck_user res) else None)"]
    by (simp add: handleInternalAccessCheck_def internal_key_def parse_id_def capital_folds demo_request_simps check_o_def uuid_Nil_def)
qed

section \<open>Visits\<close>

definition idle_recorder :: visit_recorder where
  "idle_recorder = \<lparr>vr_ch = [], vr_pending = [], vr_dropped = 0, vr_lost = 0\<rparr>"

definition visit_day :: "visit_input list" where
  "visit_day = [VisitPush ''p'' ''m'', VisitPush ''p'' ''m'', VisitReceive, VisitReceive, VisitPush ''p'' ''gone'', VisitTick, VisitShutdown]"

definition visit_end :: "visit_recorder \<times> db" where
  "visit_end = run_state (visit_run visit_day idle_recorder) door_db"

lemma visits_conserved_witness: "visits_total (snd visit_end) (fst visit_end) = 3 \<and> vr_lost (fst visit_end) = 1"
proof
  have ok: "visits_ok door_db idle_recorder" by (simp add: visits_ok_def idle_recorder_def door_db_def demo_db_def sample_db_def)
  have run: "run_state (visit_run visit_day idle_recorder) door_db = (fst visit_end, snd visit_end)" by (simp add: visit_end_def)
  have "visits_total door_db idle_recorder = 0" "sum_list (map pushes visit_day) = 3" by code_simp+
  then show "visits_total (snd visit_end) (fst visit_end) = 3" using visits_conserved [OF run ok] by simp
  show "vr_lost (fst visit_end) = 1" by code_simp
qed

definition loaded_recorder :: visit_recorder where
  "loaded_recorder = idle_recorder\<lparr>vr_pending :=
     [\<lparr>pv_project = ''p'', pv_user = ''m'', pv_first_seen = 0, pv_last_seen = 5, pv_count = 2\<rparr>,
      \<lparr>pv_project = ''deleted'', pv_user = ''m'', pv_first_seen = 0, pv_last_seen = 5, pv_count = 1\<rparr>]\<rparr>"

lemma batch_lost_together_witness:
  "run_state (flush_visits loaded_recorder) door_db = (loaded_recorder\<lparr>vr_pending := [], vr_lost := 3\<rparr>, door_db)"
proof -
  have "list_ex (visit_dangles door_db) (vr_pending loaded_recorder)" by code_simp
  moreover have "vr_lost loaded_recorder + visits_in (vr_pending loaded_recorder) = 3" by code_simp
  ultimately show ?thesis using batch_lost_together [OF _ door_faults, of loaded_recorder] by simp
qed

end
