(* ===== verification/Forward_Web.thy ===== *)
theory Forward_Web
  imports Domains Access_Handlers
begin

text \<open>
  What the forward-auth service (cmd/muvee/authservice.go) reads from a request and writes into an
  answer: query strings as \<open>net/url\<close> parses and escapes them, header values, cookies, the base domain
  a host belongs to, and the detection of navigations. A header or cookie is looked up by its
  canonical name; the location of a redirect is the argument of \<open>http.Redirect\<close>.
\<close>

section \<open>Query strings\<close>

definition hex_val :: "char \<Rightarrow> nat option" where
  "hex_val c = (let n = of_char c :: nat in
     if 48 \<le> n \<and> n \<le> 57 then Some (n - 48) else if 97 \<le> n \<and> n \<le> 102 then Some (n - 87)
     else if 65 \<le> n \<and> n \<le> 70 then Some (n - 55) else None)"

fun QueryUnescape :: "string \<Rightarrow> string option" where
  "QueryUnescape [] = Some []"
| "QueryUnescape (c # cs) =
     (if c = CHR ''%'' then (case cs of
          a # b # ds \<Rightarrow> (case (hex_val a, hex_val b) of
              (Some x, Some y) \<Rightarrow> map_option (\<lambda>t. char_of (16 * x + y) # t) (QueryUnescape ds)
            | _ \<Rightarrow> None)
        | _ \<Rightarrow> None)
      else map_option (\<lambda>t. (if c = CHR ''+'' then CHR '' '' else c) # t) (QueryUnescape cs))"

definition upper_hex :: "nat \<Rightarrow> char" where
  "upper_hex n = char_of (if n < 10 then n + 48 else n + 55)"

definition percent :: "char \<Rightarrow> string" where
  "percent c = (let n = of_char c :: nat in [CHR ''%'', upper_hex (n div 16), upper_hex (n mod 16)])"

definition unreserved :: "char \<Rightarrow> bool" where
  "unreserved c \<longleftrightarrow> (let n = of_char c :: nat in
     (97 \<le> n \<and> n \<le> 122) \<or> (65 \<le> n \<and> n \<le> 90) \<or> (48 \<le> n \<and> n \<le> 57) \<or> c \<in> {CHR ''-'', CHR ''_'', CHR ''.'', CHR ''~''})"

definition QueryEscape :: "string \<Rightarrow> string" where
  "QueryEscape s = concat (map (\<lambda>c. if unreserved c then [c] else if c = CHR '' '' then ''+'' else percent c) s)"

text \<open>\<open>strings.Cut\<close> at the first separator.\<close>

fun Cut :: "char \<Rightarrow> string \<Rightarrow> string \<times> string" where
  "Cut sep [] = ([], [])"
| "Cut sep (c # cs) = (if c = sep then ([], cs) else (let (a, b) = Cut sep cs in (c # a, b)))"

text \<open>One \<open>key=value\<close>; \<open>None\<close> for a malformed one, which \<open>Query()\<close> skips and \<open>ParseQuery\<close> reports.\<close>

definition parse_pair :: "string \<Rightarrow> (string \<times> string) option" where
  "parse_pair t = (if CHR '';'' \<in> set t then None
     else (let (k, v) = Cut (CHR ''='') t in
       case (QueryUnescape k, QueryUnescape v) of (Some k, Some v) \<Rightarrow> Some (k, v) | _ \<Rightarrow> None))"

definition query_parts :: "string \<Rightarrow> (string \<times> string) option list" where
  "query_parts q = map parse_pair (filter (\<lambda>t. t \<noteq> '''') (Split (CHR ''&'') q))"

definition ParseQuery :: "string \<Rightarrow> (string \<times> string) list option" where
  "ParseQuery q = (if None \<in> set (query_parts q) then None else Some (map the (query_parts q)))"

definition url_Query :: "string \<Rightarrow> (string \<times> string) list" where
  "url_Query q = map the (filter (\<lambda>x. x \<noteq> None) (query_parts q))"

definition values_Get :: "(string \<times> string) list \<Rightarrow> string \<Rightarrow> string" where
  "values_Get vs k = opt_or '''' (map_of vs k)"

section \<open>Header values\<close>

definition non_ascii :: "char \<Rightarrow> bool" where
  "non_ascii c \<longleftrightarrow> (of_char c :: nat) > 127"

definition ASCIIHeaderValue :: "string \<Rightarrow> string" where
  "ASCIIHeaderValue v = (if \<not> list_ex non_ascii v then v
     else concat (map (\<lambda>c. if non_ascii c \<or> c = CHR ''%'' then percent c else [c]) v))"

section \<open>Requests and answers\<close>

record http_request =
  hq_query :: "(string \<times> string) list"
  hq_headers :: "(string \<times> string) list"
  hq_cookies :: "(string \<times> string) list"
  hq_form :: "go_error + (string \<times> string) list"
  hq_host :: string
  hq_tls :: bool

definition query_get :: "http_request \<Rightarrow> string \<Rightarrow> string" where
  "query_get r k = values_Get (hq_query r) k"

definition header_get :: "http_request \<Rightarrow> string \<Rightarrow> string" where
  "header_get r k = values_Get (hq_headers r) k"

definition cookie_get :: "http_request \<Rightarrow> string \<Rightarrow> string option" where
  "cookie_get r k = map_of (hq_cookies r) k"

text \<open>The path of every cookie is \<open>/\<close>; an age of -1 deletes it.\<close>

record set_cookie =
  sc_name :: string
  sc_value :: string
  sc_max_age :: int
  sc_domain :: string
  sc_secure :: bool

datatype page =
    PlainText string
  | LoginRequired string
  | LoginPage "string list" bool bool string
  | JsonUser "(string \<times> string) list"
  | JsonProviders "(string \<times> string) list"
  | RequestAccessPage "(string \<times> string) list"
  | JsonError string
  | AccessToken string int
  | DeviceCode string string string
  | DeviceAuthorized
  | DevicePage string "string list"
  | LoginComplete
  | TokenStatus string "(string \<times> string) list"
  | LoginTokenCreated string string
  | Relayed nat
  | NoBody

record http_reply =
  rp_status :: nat
  rp_location :: string
  rp_headers :: "(string \<times> string) list"
  rp_cookies :: "set_cookie list"
  rp_page :: page

definition http_answer :: "nat \<Rightarrow> page \<Rightarrow> http_reply" where
  "http_answer code pg = \<lparr>rp_status = code, rp_location = '''', rp_headers = [], rp_cookies = [], rp_page = pg\<rparr>"

definition http_error :: "nat \<Rightarrow> string \<Rightarrow> http_reply" where
  "http_error code msg = http_answer code (PlainText msg)"

definition redirect_to :: "nat \<Rightarrow> string \<Rightarrow> http_reply" where
  "redirect_to code loc = (http_answer code NoBody)\<lparr>rp_location := loc\<rparr>"

definition with_cookies :: "set_cookie list \<Rightarrow> http_reply \<Rightarrow> http_reply" where
  "with_cookies cs rp = rp\<lparr>rp_cookies := cs @ rp_cookies rp\<rparr>"

definition with_headers :: "(string \<times> string) list \<Rightarrow> http_reply \<Rightarrow> http_reply" where
  "with_headers hs rp = rp\<lparr>rp_headers := hs @ rp_headers rp\<rparr>"

section \<open>Hosts\<close>

text \<open>
  The claims of a forward-auth session, with the expiry of the registered claims; the service's
  configuration. Parsing a token with its signature and expiry (\<open>jwt.ParseWithClaims\<close>) and signing one
  are parameters, as are the transport to muvee-server (\<open>fc_up\<close>: whether the call for a path gets an
  answer), \<open>url.Parse\<close> and the providers' own exchanges.
\<close>

record fwd_claims =
  cl_email :: string
  cl_user :: string
  cl_name :: string
  cl_avatar :: string
  cl_provider :: string
  cl_project :: string
  cl_expires :: "time option"

record fwd_provider =
  fp_name :: string
  fp_display :: string
  fp_auth_url :: "string \<Rightarrow> string \<Rightarrow> string"
  fp_info :: "string \<Rightarrow> string \<Rightarrow> string \<Rightarrow> go_error + (string \<times> string \<times> string \<times> string)"

record fwd_cfg =
  fc_domain :: string
  fc_bases :: "string list"
  fc_auth_base :: string
  fc_admins :: "string list"
  fc_key :: string
  fc_server_key :: string
  fc_up :: "string \<Rightarrow> bool"
  fc_parse :: "time \<Rightarrow> string \<Rightarrow> fwd_claims option"
  fc_sign :: "fwd_claims \<Rightarrow> string"
  fc_providers :: "(string \<times> fwd_provider) list"
  fc_url :: url_api
  fc_uuid :: "string \<Rightarrow> go_error + uuid"
  fc_auth :: auth_cfg

definition inboundHost :: "http_request \<Rightarrow> string" where
  "inboundHost r = (let h = header_get r ''X-Forwarded-Host'' in
     if h \<noteq> '''' then ToLower (TrimSpace h) else ToLower (TrimSpace (hq_host r)))"

definition cookieDomainForHost :: "fwd_cfg \<Rightarrow> string \<Rightarrow> string" where
  "cookieDomainForHost c host = (case Match host (fc_bases c) of Some b \<Rightarrow> b | None \<Rightarrow> fc_domain c)"

definition cookieDomainForRequest :: "fwd_cfg \<Rightarrow> http_request \<Rightarrow> string" where
  "cookieDomainForRequest c r = cookieDomainForHost c (inboundHost r)"

definition forwardAuthBaseForHost :: "fwd_cfg \<Rightarrow> string \<Rightarrow> string" where
  "forwardAuthBaseForHost c host = RebaseHost (fc_url c) (fc_auth_base c) (fc_bases c) (cookieDomainForHost c host)"

definition oauthRedirectForHost :: "fwd_cfg \<Rightarrow> string \<Rightarrow> string \<Rightarrow> string" where
  "oauthRedirectForHost c host providerName = forwardAuthBaseForHost c host @ ''/_oauth/'' @ providerName"

text \<open>What follows the first \<open>://\<close>; \<open>None\<close> when there is none.\<close>

fun after_scheme :: "string \<Rightarrow> string option" where
  "after_scheme [] = None"
| "after_scheme (c # cs) = (if HasPrefix (c # cs) ''://'' then Some (drop 3 (c # cs)) else after_scheme cs)"

definition originMatchesBaseDomain :: "string \<Rightarrow> string \<Rightarrow> bool" where
  "originMatchesBaseDomain origin base = (case after_scheme origin of
       None \<Rightarrow> False
     | Some host \<Rightarrow>
        (let host = fst (Cut (CHR ''/'') host); host = fst (Cut (CHR '':'') host)
         in host = base \<or> HasSuffix host (''.'' @ base)))"

definition originMatchesAnyBaseDomain :: "fwd_cfg \<Rightarrow> string \<Rightarrow> bool" where
  "originMatchesAnyBaseDomain c origin =
     (let bases = (if fc_bases c = [] then [fc_domain c] else fc_bases c)
      in list_ex (\<lambda>b. b \<noteq> '''' \<and> originMatchesBaseDomain origin b) bases)"

definition applyUserInfoCORS :: "fwd_cfg \<Rightarrow> http_request \<Rightarrow> (string \<times> string) list" where
  "applyUserInfoCORS c r = (let origin = header_get r ''Origin'' in
     if origin = '''' then []
     else if \<not> originMatchesAnyBaseDomain c origin then []
     else [(''Access-Control-Allow-Origin'', origin), (''Access-Control-Allow-Credentials'', ''true''), (''Vary'', ''Origin'')])"

text \<open>\<open>strings.SplitN(email, "@", 2)\<close>.\<close>

definition emailMatchesDomains :: "string \<Rightarrow> string \<Rightarrow> bool" where
  "emailMatchesDomains email allowedDomains = (case IndexByte email (CHR ''@'') of
       None \<Rightarrow> False
     | Some i \<Rightarrow> list_ex (\<lambda>d. TrimSpace d = drop (Suc i) email) (Split (CHR '','') allowedDomains))"

section \<open>Navigations\<close>

definition isNavigationRequest :: "http_request \<Rightarrow> bool" where
  "isNavigationRequest r = (let dest = header_get r ''Sec-Fetch-Dest'' in
     if dest \<in> {''document'', ''iframe'', ''frame'', ''nested-document''} then True
     else if dest \<noteq> '''' then False
     else (let accept = header_get r ''Accept'' in if accept \<noteq> '''' then Contains accept ''text/html'' else True))"

definition isAPIRequest :: "http_request \<Rightarrow> bool" where
  "isAPIRequest r = (let dest = header_get r ''Sec-Fetch-Dest'' in
     if dest = ''empty'' then True else if dest = '''' then \<not> isNavigationRequest r else False)"

definition drop_cookie :: "fwd_cfg \<Rightarrow> http_request \<Rightarrow> string \<Rightarrow> set_cookie" where
  "drop_cookie c r name = \<lparr>sc_name = name, sc_value = '''', sc_max_age = -1, sc_domain = cookieDomainForRequest c r, sc_secure = False\<rparr>"

definition short_cookie :: "fwd_cfg \<Rightarrow> http_request \<Rightarrow> string \<Rightarrow> string \<Rightarrow> set_cookie" where
  "short_cookie c r name v = \<lparr>sc_name = name, sc_value = v, sc_max_age = 300, sc_domain = cookieDomainForRequest c r, sc_secure = True\<rparr>"

definition session_cookie :: "fwd_cfg \<Rightarrow> http_request \<Rightarrow> string \<Rightarrow> set_cookie" where
  "session_cookie c r v = \<lparr>sc_name = ''muvee_fwd_session'', sc_value = v, sc_max_age = 7 * 24 * 3600,
     sc_domain = cookieDomainForRequest c r, sc_secure = False\<rparr>"

definition inviteTokenCookieName :: string where
  "inviteTokenCookieName = ''muvee_invite_token''"

definition extractInviteTokenFromForwardedURI :: "http_request \<Rightarrow> string" where
  "extractInviteTokenFromForwardedURI r = (let uri = header_get r ''X-Forwarded-Uri'' in
     case IndexByte uri (CHR ''?'') of
       None \<Rightarrow> ''''
     | Some q \<Rightarrow> (case ParseQuery (drop (Suc q) uri) of
           None \<Rightarrow> '''' | Some vals \<Rightarrow> TrimSpace (values_Get vals ''invite_token'')))"

definition setInviteTokenCookie :: "fwd_cfg \<Rightarrow> http_request \<Rightarrow> string \<Rightarrow> set_cookie" where
  "setInviteTokenCookie c r token = short_cookie c r inviteTokenCookieName token"

definition clearInviteTokenCookie :: "fwd_cfg \<Rightarrow> http_request \<Rightarrow> set_cookie" where
  "clearInviteTokenCookie c r = drop_cookie c r inviteTokenCookieName"

definition redirectToLogin :: "fwd_cfg \<Rightarrow> http_request \<Rightarrow> http_reply" where
  "redirectToLogin c r =
     (let host = header_get r ''X-Forwarded-Host''; proto = header_get r ''X-Forwarded-Proto'';
          uri = header_get r ''X-Forwarded-Uri'';
          proto = (if proto = '''' then ''https'' else proto);
          originalURL = (if host \<noteq> '''' then proto @ ''://'' @ host @ uri else uri);
          originalURL = (if originalURL = '''' then ''/'' else originalURL);
          cookies = (if isNavigationRequest r then [short_cookie c r ''fwd_oauth_redirect'' originalURL] else []);
          loginBase = (if host \<noteq> '''' then proto @ ''://'' @ host else fc_auth_base c);
          loginURL = loginBase @ ''/_oauth/login''
      in with_cookies cookies
          (if isAPIRequest r
           then with_headers [(''X-Muvee-Auth'', ''login-required'')] (http_answer 401 (LoginRequired loginURL))
           else redirect_to 302 loginURL))"

definition requestAccessRedirectURL :: "http_request \<Rightarrow> string \<Rightarrow> string" where
  "requestAccessRedirectURL r projectID =
     (let host = header_get r ''X-Forwarded-Host''; proto = header_get r ''X-Forwarded-Proto'' in
      if host = '''' then ''''
      else (if proto = '''' then ''https'' else proto) @ ''://'' @ host @ ''/_oauth/request-access?project='' @ QueryEscape projectID)"

definition acceptLang :: "http_request \<Rightarrow> string" where
  "acceptLang r = (let al = ToLower (header_get r ''Accept-Language'');
       al = fst (Cut (CHR '';'') (fst (Cut (CHR '','') al)))
     in if HasPrefix (TrimSpace al) ''en'' then ''en'' else ''zh'')"

end
