(* ===== verification/Demo_Accounts.thy ===== *)
theory Demo_Accounts
  imports Forward_Web
begin

text \<open>
  The sign-ins of a project's own site that muvee-server decides: password accounts
  (internal/api/password_accounts.go), one-time codes by SMS (internal/api/sms_login.go,
  internal/api/platform_sms_login.go, internal/sms/phone.go), and the configuration a host's login page is
  built from (internal/api/server.go). Hashing a password, \<open>mail.ParseAddress\<close> and the SMS provider are
  parameters.
\<close>

section \<open>State\<close>

record password_account =
  pa_id :: uuid
  pa_project_id :: uuid
  pa_username :: string
  pa_email :: string
  pa_hash :: string
  pa_display :: string
  pa_disabled :: bool
  pa_created :: time

text \<open>A row of the send ledger.\<close>

record sms_send =
  ss_phone :: string
  ss_project :: "uuid option"
  ss_created :: time

record device_entry =
  de_user_code :: string
  de_email :: string
  de_user :: string
  de_name :: string
  de_avatar :: string
  de_provider :: string
  de_expires :: time
  de_completed :: bool

datatype token_status = TokenPending | TokenSuccess | TokenError string

record login_entry =
  le_provider :: string
  le_project :: string
  le_status :: token_status
  le_email :: string
  le_user :: string
  le_name :: string
  le_avatar :: string
  le_provider_name :: string
  le_expires :: time

text \<open>
  The database, the tables only these flows use, the maps of the authentication service (device codes
  and user codes, pending OAuth states, login tokens), the random texts drawn so far, and, for the
  properties, the codes that the SMS provider has sent.
\<close>

record fwd_world =
  w_db :: db
  w_accounts :: "password_account list"
  w_ledger :: "sms_send list"
  w_devices :: "(string \<times> device_entry) list"
  w_by_user :: "(string \<times> string) list"
  w_pending :: "(string \<times> string) list"
  w_tokens :: "(string \<times> login_entry) list"
  w_random :: "nat \<Rightarrow> nat \<Rightarrow> string"
  w_drawn :: nat
  w_sent :: "(string \<times> time) list"

type_synonym 'a wstore = "(fwd_world, go_error + 'a) state"
type_synonym 'a whandler = "(fwd_world, (nat \<times> api_error) + 'a) state"

definition on_db :: "(db, 'a) state \<Rightarrow> (fwd_world, 'a) state" where
  "on_db m = State (\<lambda>w. case run_state m (w_db w) of (x, s) \<Rightarrow> (x, w\<lparr>w_db := s\<rparr>))"

text \<open>A statement on the other tables takes its outcome from the same schedule.\<close>

definition wsql :: "(fwd_world \<Rightarrow> go_error + ('a \<times> fwd_world)) \<Rightarrow> 'a wstore" where
  "wsql f = State (\<lambda>w. case run_state (query (\<lambda>_. ())) (w_db w) of
       (Inl e, s) \<Rightarrow> (Inl e, w\<lparr>w_db := s\<rparr>)
     | (Inr _, s) \<Rightarrow> (let w' = w\<lparr>w_db := s\<rparr> in
          case f w' of Inl e \<Rightarrow> (Inl e, w') | Inr (x, w'') \<Rightarrow> (Inr x, w'')))"

definition w_status :: "nat \<Rightarrow> 'a wstore \<Rightarrow> 'a whandler" where
  "w_status code m = do { r \<leftarrow> m; State_Monad.return (case r of Inl e \<Rightarrow> Inl (code, AE_Store e) | Inr x \<Rightarrow> Inr x) }"

definition w_require :: "bool \<Rightarrow> nat \<Rightarrow> api_error \<Rightarrow> unit whandler" where
  "w_require b code e = (if b then ok () else fail (code, e))"

definition draw :: "nat \<Rightarrow> (fwd_world, string) state" where
  "draw n = State (\<lambda>w. (w_random w n (w_drawn w), w\<lparr>w_drawn := Suc (w_drawn w)\<rparr>))"

section \<open>Password accounts: the store\<close>

definition CreateProjectPasswordAccount :: "uuid \<Rightarrow> string \<Rightarrow> string \<Rightarrow> string \<Rightarrow> string \<Rightarrow> password_account wstore" where
  "CreateProjectPasswordAccount projectID username email hash display = do {
     i \<leftarrow> on_db uuid_New;
     wsql (\<lambda>w. if list_ex (\<lambda>a. pa_id a = i) (w_accounts w) then Inl ''duplicate key value project_password_accounts_pkey (SQLSTATE 23505)''
       else if list_ex (\<lambda>a. pa_project_id a = projectID \<and> pa_username a = username) (w_accounts w)
         then Inl ''duplicate key value project_password_accounts_project_id_username_key (SQLSTATE 23505)''
       else if project_by (w_db w) projectID = None then Inl ''violates foreign key constraint project_password_accounts''
       else (let a = \<lparr>pa_id = i, pa_project_id = projectID, pa_username = username, pa_email = email, pa_hash = hash,
                      pa_display = display, pa_disabled = False, pa_created = db_now (w_db w)\<rparr>
             in Inr (a, w\<lparr>w_accounts := w_accounts w @ [a]\<rparr>))) }"

definition ListProjectPasswordAccounts :: "uuid \<Rightarrow> password_account list wstore" where
  "ListProjectPasswordAccounts projectID = wsql (\<lambda>w. Inr (sort_key pa_created
     (filter (\<lambda>a. pa_project_id a = projectID) (w_accounts w)), w))"

definition CountEnabledProjectPasswordAccounts :: "uuid \<Rightarrow> nat wstore" where
  "CountEnabledProjectPasswordAccounts projectID = wsql (\<lambda>w. Inr (length
     (filter (\<lambda>a. pa_project_id a = projectID \<and> \<not> pa_disabled a) (w_accounts w)), w))"

definition GetProjectPasswordAccountByUsername :: "uuid \<Rightarrow> string \<Rightarrow> password_account option wstore" where
  "GetProjectPasswordAccountByUsername projectID username = wsql (\<lambda>w. Inr
     (find (\<lambda>a. pa_project_id a = projectID \<and> pa_username a = username) (w_accounts w), w))"

definition changed_account :: "string option \<Rightarrow> string option \<Rightarrow> string option \<Rightarrow> bool option \<Rightarrow> password_account \<Rightarrow> password_account" where
  "changed_account email hash display disabled a = a\<lparr>pa_email := opt_or (pa_email a) email, pa_hash := opt_or (pa_hash a) hash,
     pa_display := opt_or (pa_display a) display, pa_disabled := opt_or (pa_disabled a) disabled\<rparr>"

definition UpdateProjectPasswordAccount :: "uuid \<Rightarrow> uuid \<Rightarrow> string option \<Rightarrow> string option \<Rightarrow> string option \<Rightarrow> bool option
    \<Rightarrow> password_account option wstore" where
  "UpdateProjectPasswordAccount projectID i email hash display disabled = wsql (\<lambda>w.
     let hit = (\<lambda>a. pa_id a = i \<and> pa_project_id a = projectID); f = changed_account email hash display disabled
     in Inr (map_option f (find hit (w_accounts w)), w\<lparr>w_accounts := upd_where hit f (w_accounts w)\<rparr>))"

definition DeleteProjectPasswordAccount :: "uuid \<Rightarrow> uuid \<Rightarrow> unit wstore" where
  "DeleteProjectPasswordAccount projectID i = wsql (\<lambda>w. Inr ((), w\<lparr>w_accounts :=
     filter (\<lambda>a. \<not> (pa_id a = i \<and> pa_project_id a = projectID)) (w_accounts w)\<rparr>))"

section \<open>Password accounts: the handlers\<close>

record account_cfg =
  kc_mail_ok :: "string \<Rightarrow> bool"
  kc_hash :: "string \<Rightarrow> go_error + string"
  kc_compare :: "string \<Rightarrow> string \<Rightarrow> bool"
  kc_parse :: "string \<Rightarrow> go_error + uuid"
  kc_key :: string
  kc_auth :: auth_cfg

definition lower_alnum :: "char \<Rightarrow> bool" where
  "lower_alnum c \<longleftrightarrow> (CHR ''a'' \<le> c \<and> c \<le> CHR ''z'') \<or> (CHR ''0'' \<le> c \<and> c \<le> CHR ''9'')"

text \<open>The pattern \<open>demoUsernameRe\<close>.\<close>

definition demoUsername :: "string \<Rightarrow> bool" where
  "demoUsername u \<longleftrightarrow> u \<noteq> [] \<and> length u \<le> 64 \<and> lower_alnum (hd u) \<and> lower_alnum (last u)
     \<and> list_all (\<lambda>c. lower_alnum c \<or> c \<in> {CHR ''.'', CHR ''_'', CHR ''-''}) u"

definition validateDemoUsername :: "string \<Rightarrow> go_error + unit" where
  "validateDemoUsername u = (if u = '''' then Inl ''username is required''
     else if \<not> demoUsername u then Inl ''username must be 1-64 lowercase letters, digits, dot, underscore or hyphen'' else Inr ())"

definition validateDemoPassword :: "string \<Rightarrow> go_error + unit" where
  "validateDemoPassword p = (if length p < 8 then Inl ''password must be at least 8 characters''
     else if 72 < length p then Inl ''password must be at most 72 bytes'' else Inr ())"

definition normalizeDemoUsername :: "string \<Rightarrow> string" where
  "normalizeDemoUsername u = ToLower (TrimSpace u)"

definition normalizeDemoEmail :: "string \<Rightarrow> string" where
  "normalizeDemoEmail e = ToLower (TrimSpace e)"

definition validateDemoEmail :: "account_cfg \<Rightarrow> string \<Rightarrow> go_error + unit" where
  "validateDemoEmail k e = (if e = '''' then Inl ''email is required''
     else if 254 < length e then Inl ''email must be at most 254 characters''
     else if \<not> kc_mail_ok k e then Inl ''email must be a valid address'' else Inr ())"

definition rule400 :: "go_error + 'a \<Rightarrow> 'a whandler" where
  "rule400 r = State_Monad.return (case r of Inl e \<Rightarrow> Inl (400, AE_Body e) | Inr x \<Rightarrow> Inr x)"

definition loadProjectForOwner :: "user \<Rightarrow> uuid \<Rightarrow> project whandler" where
  "loadProjectForOwner caller i = on_db (
     attempt (existing_project i) (\<lambda>proj. attempt (owner_or_admin caller proj) (\<lambda>_. ok proj)))"

definition listProjectPasswordAccounts :: "user \<Rightarrow> uuid \<Rightarrow> password_account list whandler" where
  "listProjectPasswordAccounts caller i = attempt (loadProjectForOwner caller i) (\<lambda>proj.
     w_status 500 (ListProjectPasswordAccounts (p_id proj)))"

definition unique_violation :: "go_error \<Rightarrow> bool" where
  "unique_violation e \<longleftrightarrow> Contains e ''SQLSTATE 23505''"

text \<open>The body is username, address, password and display name.\<close>

definition createProjectPasswordAccount :: "account_cfg \<Rightarrow> user \<Rightarrow> uuid
    \<Rightarrow> go_error + (string \<times> string \<times> string \<times> string) \<Rightarrow> password_account whandler" where
  "createProjectPasswordAccount k caller i body =
     attempt (loadProjectForOwner caller i) (\<lambda>proj.
     attempt (rule400 body) (\<lambda>(rawUser, rawEmail, password, display).
     let username = normalizeDemoUsername rawUser; email = normalizeDemoEmail rawEmail in
     attempt (rule400 (validateDemoUsername username)) (\<lambda>_.
     attempt (rule400 (validateDemoEmail k email)) (\<lambda>_.
     attempt (rule400 (validateDemoPassword password)) (\<lambda>_.
     attempt (State_Monad.return (case kc_hash k password of Inl e \<Rightarrow> Inl (500, AE_Store e) | Inr h \<Rightarrow> Inr h)) (\<lambda>hash. do {
       r \<leftarrow> CreateProjectPasswordAccount (p_id proj) username email hash (TrimSpace display);
       State_Monad.return (case r of
           Inl e \<Rightarrow> if unique_violation e then Inl (409, AE_NameTaken username) else Inl (500, AE_Store e)
         | Inr a \<Rightarrow> Inr a) }))))))"

definition on_some :: "('a \<Rightarrow> 'b whandler) \<Rightarrow> 'a option \<Rightarrow> 'b option whandler" where
  "on_some f x = (case x of None \<Rightarrow> ok None | Some y \<Rightarrow> attempt (f y) (\<lambda>z. ok (Some z)))"

definition updateProjectPasswordAccount :: "account_cfg \<Rightarrow> user \<Rightarrow> uuid \<Rightarrow> uuid
    \<Rightarrow> go_error + (string option \<times> string option \<times> string option \<times> bool option) \<Rightarrow> password_account whandler" where
  "updateProjectPasswordAccount k caller i accountID body =
     attempt (loadProjectForOwner caller i) (\<lambda>proj.
     attempt (rule400 body) (\<lambda>(rawEmail, password, display, disabled).
     attempt (on_some (\<lambda>e. attempt (rule400 (validateDemoEmail k (normalizeDemoEmail e))) (\<lambda>_. ok (normalizeDemoEmail e))) rawEmail) (\<lambda>email.
     attempt (on_some (\<lambda>p. attempt (rule400 (validateDemoPassword p)) (\<lambda>_.
         State_Monad.return (case kc_hash k p of Inl e \<Rightarrow> Inl (500, AE_Store e) | Inr h \<Rightarrow> Inr h))) password) (\<lambda>hash.
     attempt (w_status 500 (UpdateProjectPasswordAccount (p_id proj) accountID email hash (map_option TrimSpace display) disabled)) (\<lambda>a.
     case a of None \<Rightarrow> fail (404, AE_Body ''account not found in this project'') | Some x \<Rightarrow> ok x)))))"

definition deleteProjectPasswordAccount :: "user \<Rightarrow> uuid \<Rightarrow> uuid \<Rightarrow> unit whandler" where
  "deleteProjectPasswordAccount caller i accountID =
     attempt (loadProjectForOwner caller i) (\<lambda>proj.
     w_status 500 (DeleteProjectPasswordAccount (p_id proj) accountID))"

text \<open>The answer: user id, username, address, name. A comparison against the dummy hash only takes time.\<close>

definition answer_password :: "account_cfg \<Rightarrow> string \<Rightarrow> password_account option \<Rightarrow> (uuid \<times> string \<times> string \<times> string) whandler" where
  "answer_password k password r = (case r of
       None \<Rightarrow> fail (401, AE_Body ''invalid credentials'')
     | Some a \<Rightarrow>
        if pa_disabled a then fail (401, AE_Body ''invalid credentials'')
        else if \<not> kc_compare k (pa_hash a) password then fail (401, AE_Body ''invalid credentials'')
        else (let name = (if pa_display a = '''' then pa_username a else pa_display a) in
          attempt (on_db (auth_status (EnsureIdentityFromOAuth (kc_auth k) ''password'' (pa_id a) name ''''))) (\<lambda>u. case u of
            None \<Rightarrow> fail (500, AE_None)
          | Some user \<Rightarrow> ok (u_id user, pa_username a, pa_email a, name))))"

definition handleInternalAuthPasswordLogin :: "account_cfg \<Rightarrow> string \<Rightarrow> go_error + (string \<times> string \<times> string)
    \<Rightarrow> (uuid \<times> string \<times> string \<times> string) whandler" where
  "handleInternalAuthPasswordLogin k got body =
     attempt (on_db (internal_key (kc_key k) got)) (\<lambda>_.
     attempt (rule400 body) (\<lambda>(projectIDStr, rawUser, password).
     attempt (on_db (parse_id (kc_parse k) ''invalid project_id'' projectIDStr)) (\<lambda>projectID.
     let username = normalizeDemoUsername rawUser in
     attempt (w_require (\<not> (username = '''' \<or> password = '''')) 400 (AE_Body ''username and password are required'')) (\<lambda>_.
     attempt (w_status 500 (GetProjectPasswordAccountByUsername projectID username)) (answer_password k password)))))"

section \<open>Phone numbers\<close>

definition digit :: "char \<Rightarrow> bool" where
  "digit c \<longleftrightarrow> CHR ''0'' \<le> c \<and> c \<le> CHR ''9''"

definition isDigits :: "string \<Rightarrow> bool" where
  "isDigits s \<longleftrightarrow> s \<noteq> '''' \<and> list_all digit s"

definition cnMobile :: "string \<Rightarrow> bool" where
  "cnMobile s \<longleftrightarrow> length s = 11 \<and> list_all digit s \<and> hd s = CHR ''1'' \<and> CHR ''3'' \<le> s ! 1"

text \<open>\<open>None\<close> for \<open>ErrInvalidPhone\<close>.\<close>

definition NormalizePhone :: "string \<Rightarrow> string option" where
  "NormalizePhone raw =
     (let s = filter (\<lambda>c. c \<notin> {CHR '' '', CHR ''-'', CHR ''('', CHR '')''}) (TrimSpace raw) in
      if s = '''' then None
      else if HasPrefix s ''+'' then
        (let digits = drop 1 s in
         if \<not> isDigits digits \<or> length digits < 8 \<or> length digits > 15 then None
         else if HasPrefix digits ''86'' then (if cnMobile (drop 2 digits) then Some (''+86'' @ drop 2 digits) else None)
         else Some (''+'' @ digits))
      else
        (let s = TrimPrefix s ''0086''; s = (if length s = 13 \<and> HasPrefix s ''86'' then drop 2 s else s) in
         if cnMobile s then Some (''+86'' @ s) else None))"

section \<open>Codes by SMS\<close>

text \<open>The provider: whether it accepts to send to a phone at a time, and whether a code is right.\<close>

record sms_cfg =
  sm_send :: "string \<Rightarrow> time \<Rightarrow> go_error + unit"
  sm_check :: "string \<Rightarrow> string \<Rightarrow> time \<Rightarrow> go_error + bool"

definition smsResendInterval :: time where "smsResendInterval = seconds 60"

definition smsDailySendCap :: nat where "smsDailySendCap = 10"

definition RecordSMSSend :: "uuid option \<Rightarrow> string \<Rightarrow> unit wstore" where
  "RecordSMSSend pid phone = do {
     _ \<leftarrow> on_db uuid_New;
     wsql (\<lambda>w. Inr ((), w\<lparr>w_ledger := w_ledger w @ [\<lparr>ss_phone = phone, ss_project = pid, ss_created = db_now (w_db w)\<rparr>]\<rparr>)) }"

definition CountSMSCodesSince :: "string \<Rightarrow> time \<Rightarrow> nat wstore" where
  "CountSMSCodesSince phone since = wsql (\<lambda>w. Inr (length (filter (\<lambda>x. ss_phone x = phone \<and> ss_created x \<ge> since) (w_ledger w)), w))"

definition smsRateLimited :: "string \<Rightarrow> unit whandler" where
  "smsRateLimited phone = do {
     now \<leftarrow> on_db time_Now;
     attempt (w_status 500 (CountSMSCodesSince phone (now - smsResendInterval))) (\<lambda>recent.
     attempt (w_require (recent = 0) 429 (AE_Body ''retry after 60'')) (\<lambda>_.
     attempt (w_status 500 (CountSMSCodesSince phone (now - hours 24))) (\<lambda>daily.
     w_require (daily < smsDailySendCap) 429 (AE_Body ''retry after 86400'')))) }"

text \<open>The code that leaves is recorded for the properties; the failure of \<open>RecordSMSSend\<close> comes after it.\<close>

definition SendCode :: "sms_cfg \<Rightarrow> string \<Rightarrow> unit wstore" where
  "SendCode m phone = do {
     now \<leftarrow> on_db time_Now;
     case sm_send m phone now of
       Inl e \<Rightarrow> fail e
     | Inr _ \<Rightarrow> State (\<lambda>w. (Inr (), w\<lparr>w_sent := w_sent w @ [(phone, now)]\<rparr>)) }"

definition send_code :: "sms_cfg \<Rightarrow> uuid option \<Rightarrow> string \<Rightarrow> unit whandler" where
  "send_code m pid phone =
     attempt (smsRateLimited phone) (\<lambda>_.
     attempt (w_status 502 (SendCode m phone)) (\<lambda>_.
     w_status 500 (RecordSMSSend pid phone)))"

definition phone400 :: "string \<Rightarrow> string whandler" where
  "phone400 raw = State_Monad.return (case NormalizePhone raw of
     None \<Rightarrow> Inl (400, AE_Body ''invalid phone number'') | Some p \<Rightarrow> Inr p)"

definition handleInternalAuthSMSSendCode :: "account_cfg \<Rightarrow> sms_cfg \<Rightarrow> string \<Rightarrow> go_error + (string \<times> string) \<Rightarrow> unit whandler" where
  "handleInternalAuthSMSSendCode k m got body =
     attempt (on_db (internal_key (kc_key k) got)) (\<lambda>_.
     attempt (rule400 body) (\<lambda>(projectIDStr, rawPhone).
     attempt (on_db (parse_id (kc_parse k) ''invalid project_id'' projectIDStr)) (\<lambda>projectID.
     attempt (phone400 rawPhone) (\<lambda>phone.
     attempt (on_db (or_status 500 (GetProject projectID))) (\<lambda>r. case r of
       None \<Rightarrow> fail (404, AE_Body ''project not found'')
     | Some proj \<Rightarrow>
        attempt (w_require (p_sms_login proj) 403 (AE_Body ''sms login is not enabled for this project'')) (\<lambda>_.
        send_code m (Some projectID) phone))))))"

definition handleInternalAuthSMSVerify :: "account_cfg \<Rightarrow> sms_cfg \<Rightarrow> string \<Rightarrow> go_error + (string \<times> string \<times> string)
    \<Rightarrow> (uuid \<times> string) whandler" where
  "handleInternalAuthSMSVerify k m got body =
     attempt (on_db (internal_key (kc_key k) got)) (\<lambda>_.
     attempt (rule400 body) (\<lambda>(projectIDStr, rawPhone, code).
     attempt (on_db (parse_id (kc_parse k) ''invalid project_id'' projectIDStr)) (\<lambda>_.
     attempt (phone400 rawPhone) (\<lambda>phone.
     attempt (w_require (code \<noteq> '''') 400 (AE_Body ''code is required'')) (\<lambda>_. do {
       now \<leftarrow> on_db time_Now;
       attempt (State_Monad.return (case sm_check m phone code now of Inl e \<Rightarrow> Inl (502, AE_Store e) | Inr b \<Rightarrow> Inr b)) (\<lambda>good.
       attempt (w_require good 401 (AE_Body ''invalid or expired code'')) (\<lambda>_.
       attempt (on_db (auth_status (EnsureIdentityFromOAuth (kc_auth k) ''phone'' phone phone ''''))) (\<lambda>u. case u of
         None \<Rightarrow> fail (500, AE_None) | Some user \<Rightarrow> ok (u_id user, phone)))) })))))"

definition platformPhoneLoginEnabled :: "string \<Rightarrow> (db, bool) state" where
  "platformPhoneLoginEnabled env = do {
     r \<leftarrow> GetSetting ''platform_phone_login_enabled'';
     State_Monad.return (case r of
         Inr v \<Rightarrow> if TrimSpace v \<noteq> '''' then v = ''true'' else env \<in> {''1'', ''true'', ''TRUE'', ''yes'', ''on''}
       | Inl _ \<Rightarrow> env \<in> {''1'', ''true'', ''TRUE'', ''yes'', ''on''}) }"

definition handlePlatformSMSSendCode :: "string \<Rightarrow> sms_cfg \<Rightarrow> go_error + string \<Rightarrow> unit whandler" where
  "handlePlatformSMSSendCode env m body = do {
     enabled \<leftarrow> on_db (platformPhoneLoginEnabled env);
     if \<not> enabled then fail (404, AE_Body ''phone login is not enabled'')
     else attempt (rule400 body) (\<lambda>rawPhone. attempt (phone400 rawPhone) (\<lambda>phone. send_code m None phone)) }"

text \<open>\<open>Inr None\<close> is the answer \<open>not_invited\<close>; the cookie of the session is for the user returned.\<close>

definition handlePlatformSMSVerify :: "string \<Rightarrow> auth_cfg \<Rightarrow> sms_cfg \<Rightarrow> go_error + (string \<times> string) \<Rightarrow> user option whandler" where
  "handlePlatformSMSVerify env cfg m body = do {
     enabled \<leftarrow> on_db (platformPhoneLoginEnabled env);
     if \<not> enabled then fail (404, AE_Body ''phone login is not enabled'')
     else attempt (rule400 body) (\<lambda>(rawPhone, code).
       attempt (phone400 rawPhone) (\<lambda>phone.
       attempt (w_require (code \<noteq> '''') 400 (AE_Body ''code is required'')) (\<lambda>_. do {
         now \<leftarrow> on_db time_Now;
         attempt (State_Monad.return (case sm_check m phone code now of Inl e \<Rightarrow> Inl (502, AE_Store e) | Inr b \<Rightarrow> Inr b)) (\<lambda>good.
         attempt (w_require good 401 (AE_Body ''invalid or expired code'')) (\<lambda>_. do {
           r \<leftarrow> on_db (HandlePhoneLogin cfg phone);
           State_Monad.return (case r of
               Inl NotInvited \<Rightarrow> Inr None
             | Inl NotProjectScoped \<Rightarrow> Inl (500, AE_None)
             | Inl (AuthError e) \<Rightarrow> Inl (500, AE_Store e)
             | Inr u \<Rightarrow> Inr (Some u)) })) }))) }"

section \<open>The configuration of a host\<close>

record project_auth_config =
  ac_project :: uuid
  ac_project_name :: string
  ac_prefix :: string
  ac_enabled :: string
  ac_auth_required :: bool
  ac_mode :: string
  ac_password :: bool
  ac_sms :: bool
  ac_site_name :: string

text \<open>
  What \<open>handleInternalProjectByHost\<close> answers once it has the project: three settings of the platform,
  whose errors are dropped, and the number of enabled accounts. Branding columns are left out.
\<close>

definition project_config :: "project \<Rightarrow> project_auth_config whandler" where
  "project_config p = do {
     name \<leftarrow> on_db (GetSetting ''site_name'');
     _ \<leftarrow> on_db (GetSetting ''logo_url'');
     _ \<leftarrow> on_db (GetSetting ''favicon_url'');
     attempt (w_status 500 (CountEnabledProjectPasswordAccounts (p_id p))) (\<lambda>n.
       ok \<lparr>ac_project = p_id p, ac_project_name = p_name p, ac_prefix = p_domain_prefix p, ac_enabled = p_enabled_providers p,
           ac_auth_required = p_auth_required p, ac_mode = p_access_mode p, ac_password = (0 < n), ac_sms = p_sms_login p,
           ac_site_name = (case name of Inl _ \<Rightarrow> '''' | Inr v \<Rightarrow> v)\<rparr>) }"

definition handleInternalProjectByHost_config :: "string \<Rightarrow> string \<Rightarrow> string \<Rightarrow> string \<Rightarrow> project_auth_config whandler" where
  "handleInternalProjectByHost_config baseDomain expected got rawHost =
     attempt (on_db (handleInternalProjectByHost baseDomain expected got rawHost)) project_config"

end
