(* ===== verification/Forward_Auth.thy ===== *)
theory Forward_Auth
  imports Demo_Accounts
begin

text \<open>
  The decisions of the forward-auth service (cmd/muvee/authservice.go): sessions and their renewal, the
  endpoints Traefik asks (\<open>/verify\<close>, \<open>/verify-admin\<close>), the calls to muvee-server behind them, the login
  and request-access pages. The server's answers are those of its handlers on the same database; a call
  fails when the transport does or when the status is not 200.
\<close>

section \<open>Sessions\<close>

definition sessionLifetime :: time where "sessionLifetime = hours (7 * 24)"

definition sessionRenewAfter :: time where "sessionRenewAfter = hours 24"

text \<open>\<open>jwt.NewNumericDate\<close> keeps whole seconds.\<close>

definition NewNumericDate :: "time \<Rightarrow> time" where
  "NewNumericDate t = t - t mod seconds 1"

definition maxCookieAvatarBytes :: nat where "maxCookieAvatarBytes = 2048"

definition cookieSafeAvatar :: "string \<Rightarrow> string" where
  "cookieSafeAvatar avatarURL = (if length avatarURL \<le> maxCookieAvatarBytes then avatarURL else '''')"

definition forward_claims :: "string \<Rightarrow> string \<Rightarrow> string \<Rightarrow> string \<Rightarrow> string \<Rightarrow> time \<Rightarrow> time \<Rightarrow> fwd_claims" where
  "forward_claims userID email name avatarURL provider expiry now = \<lparr>cl_email = email, cl_user = userID, cl_name = name,
     cl_avatar = cookieSafeAvatar avatarURL, cl_provider = provider, cl_project = '''', cl_expires = Some (NewNumericDate (now + expiry))\<rparr>"

definition signForwardJWTWithExpiry :: "fwd_cfg \<Rightarrow> string \<Rightarrow> string \<Rightarrow> string \<Rightarrow> string \<Rightarrow> string \<Rightarrow> time \<Rightarrow> time \<Rightarrow> string" where
  "signForwardJWTWithExpiry c userID email name avatarURL provider expiry now =
     fc_sign c (forward_claims userID email name avatarURL provider expiry now)"

definition signForwardJWT :: "fwd_cfg \<Rightarrow> string \<Rightarrow> string \<Rightarrow> string \<Rightarrow> string \<Rightarrow> string \<Rightarrow> time \<Rightarrow> string" where
  "signForwardJWT c userID email name avatarURL provider now =
     signForwardJWTWithExpiry c userID email name avatarURL provider (hours (7 * 24)) now"

definition signForwardProjectJWT :: "fwd_cfg \<Rightarrow> string \<Rightarrow> string \<Rightarrow> string \<Rightarrow> string \<Rightarrow> string \<Rightarrow> time \<Rightarrow> string" where
  "signForwardProjectJWT c email name avatarURL provider projectID now = fc_sign c \<lparr>cl_email = email, cl_user = '''', cl_name = name,
     cl_avatar = cookieSafeAvatar avatarURL, cl_provider = provider, cl_project = projectID,
     cl_expires = Some (NewNumericDate (now + hours (7 * 24)))\<rparr>"

definition signForwardPasswordJWT :: "fwd_cfg \<Rightarrow> string \<Rightarrow> string \<Rightarrow> string \<Rightarrow> string \<Rightarrow> time \<Rightarrow> string" where
  "signForwardPasswordJWT c email name avatarURL projectID now = signForwardProjectJWT c email name avatarURL ''password'' projectID now"

definition resolveAuthClaims :: "fwd_cfg \<Rightarrow> time \<Rightarrow> http_request \<Rightarrow> fwd_claims option" where
  "resolveAuthClaims c now r =
     (case Option.bind (cookie_get r ''muvee_fwd_session'') (fc_parse c now) of
        Some cl \<Rightarrow> Some cl
      | None \<Rightarrow> (let bearer = header_get r ''Authorization'' in
          if HasPrefix bearer ''Bearer '' then fc_parse c now (TrimPrefix bearer ''Bearer '') else None))"

definition renewSessionCookie :: "fwd_cfg \<Rightarrow> time \<Rightarrow> http_request \<Rightarrow> set_cookie list" where
  "renewSessionCookie c now r = (case cookie_get r ''muvee_fwd_session'' of
       None \<Rightarrow> []
     | Some v \<Rightarrow> (case fc_parse c now v of
           None \<Rightarrow> []
         | Some cl \<Rightarrow> (case cl_expires cl of
               None \<Rightarrow> []
             | Some expiry \<Rightarrow>
                 if cl_project cl \<noteq> '''' then []
                 else if expiry - now > sessionLifetime - sessionRenewAfter then []
                 else [session_cookie c r (fc_sign c (cl\<lparr>cl_expires := Some (NewNumericDate (now + sessionLifetime))\<rparr>))])))"

definition setUserHeaders :: "fwd_claims \<Rightarrow> (string \<times> string) list" where
  "setUserHeaders cl =
     [(''X-Forwarded-User'', ASCIIHeaderValue (if cl_email cl \<noteq> '''' then cl_email cl else cl_user cl))]
     @ (if cl_user cl \<noteq> '''' then [(''X-Forwarded-User-Id'', ASCIIHeaderValue (cl_user cl))] else [])
     @ (if cl_name cl \<noteq> '''' then [(''X-Forwarded-User-Name'', ASCIIHeaderValue (cl_name cl))] else [])
     @ (if cl_avatar cl \<noteq> '''' then [(''X-Forwarded-User-Avatar'', ASCIIHeaderValue (cl_avatar cl))] else [])
     @ (if cl_provider cl \<noteq> '''' then [(''X-Forwarded-User-Provider'', ASCIIHeaderValue (cl_provider cl))] else [])"

definition claimsAccountLabel :: "fwd_claims \<Rightarrow> string" where
  "claimsAccountLabel cl = (if cl_email cl \<noteq> '''' then cl_email cl else if cl_name cl \<noteq> '''' then cl_name cl else cl_user cl)"

section \<open>Calls to muvee-server\<close>

text \<open>A call: no answer, a status that is not 200, or the body.\<close>

definition upstream :: "fwd_cfg \<Rightarrow> string \<Rightarrow> (fwd_world, (nat \<times> api_error) + 'a) state \<Rightarrow> (fwd_world, (nat + go_error) + 'a) state" where
  "upstream c path m = (if fc_up c path then do {
       r \<leftarrow> m;
       State_Monad.return (case r of Inl (code, _) \<Rightarrow> Inl (Inl code) | Inr x \<Rightarrow> Inr x) }
     else fail (Inr ''connection refused''))"

type_synonym 'a fwd = "(fwd_world, (nat + go_error) + 'a) state"

definition identity_of :: "user option \<Rightarrow> (string \<times> string) fwd" where
  "identity_of u = (case u of None \<Rightarrow> fail (Inr ''unexpected EOF'') | Some x \<Rightarrow> ok (u_id x, u_avatar x))"

definition upsertUserUpstream :: "fwd_cfg \<Rightarrow> string \<Rightarrow> string \<Rightarrow> string \<Rightarrow> string \<Rightarrow> string \<Rightarrow> (string \<times> string) fwd" where
  "upsertUserUpstream c providerName sub email name avatarURL =
     attempt (upstream c ''/api/internal/auth/identity-upsert''
       (on_db (handleInternalAuthIdentityUpsert (fc_auth c) (fc_server_key c) (fc_key c) (Inr (email, name, avatarURL, providerName, sub)))))
       identity_of"

definition consumeInviteUpstream :: "fwd_cfg \<Rightarrow> string \<Rightarrow> string \<Rightarrow> string \<Rightarrow> string \<Rightarrow> string \<Rightarrow> (string \<times> string) fwd" where
  "consumeInviteUpstream c providerName email name avatarURL inviteToken =
     attempt (upstream c ''/api/internal/auth/upsert''
       (on_db (handleInternalAuthUpsert (fc_auth c) (fc_server_key c) (fc_key c) (Inr (email, name, avatarURL, providerName, inviteToken)))))
       (\<lambda>u. identity_of (Some u))"

definition consumeProjectInviteUpstream :: "fwd_cfg \<Rightarrow> string \<Rightarrow> string \<Rightarrow> unit fwd" where
  "consumeProjectInviteUpstream c userID inviteToken =
     attempt (upstream c ''/api/internal/auth/project-invite''
       (on_db (handleInternalAuthProjectInvite (fc_auth c) (fc_uuid c) (fc_server_key c) (fc_key c) (Inr (userID, inviteToken)))))
       (\<lambda>_. ok ())"

text \<open>\<open>Allowed\<close> of the answer.\<close>

definition checkProjectAccess :: "fwd_cfg \<Rightarrow> string \<Rightarrow> string \<Rightarrow> string \<Rightarrow> bool fwd" where
  "checkProjectAccess c projectID email userID =
     attempt (upstream c ''/api/internal/access/check''
       (on_db (handleInternalAccessCheck (fc_uuid c) (fc_server_key c) (fc_key c) projectID
          email (if email \<noteq> '''' then '''' else userID))))
       (\<lambda>(res, _). ok (ck_allowed res))"

text \<open>\<open>None\<close> for a 404.\<close>

definition not_found_none :: "'a fwd \<Rightarrow> 'a option fwd" where
  "not_found_none m = do {
     r \<leftarrow> m;
     State_Monad.return (case r of Inl (Inl code) \<Rightarrow> if code = 404 then Inr None else Inl (Inl code)
       | Inl (Inr e) \<Rightarrow> Inl (Inr e) | Inr x \<Rightarrow> Inr (Some x)) }"

definition fetchProjectInfoInternal :: "fwd_cfg \<Rightarrow> string \<Rightarrow> project option fwd" where
  "fetchProjectInfoInternal c projectID = not_found_none (upstream c ''/api/internal/projects/''
     (on_db (handleInternalProjectInfo (fc_uuid c) (fc_server_key c) (fc_key c) projectID)))"

definition fetchProjectAuthConfigByHost :: "fwd_cfg \<Rightarrow> string \<Rightarrow> string \<Rightarrow> project_auth_config option fwd" where
  "fetchProjectAuthConfigByHost c base host = not_found_none (upstream c ''/api/internal/projects/by-host''
     (handleInternalProjectByHost_config base (fc_server_key c) (fc_key c) host))"

definition submitAccessRequestInternal :: "fwd_cfg \<Rightarrow> string \<Rightarrow> string \<Rightarrow> string \<Rightarrow> string \<Rightarrow> bool fwd" where
  "submitAccessRequestInternal c projectID email userID reason =
     attempt (upstream c ''/api/internal/access/submit-request''
       (on_db (handleInternalSubmitAccessRequest (fc_uuid c) (fc_server_key c) (fc_key c) (Inr (projectID, email, userID, reason)))))
       (\<lambda>req. ok (req = None))"

section \<open>The endpoints of Traefik\<close>

text \<open>An invite token that arrives with a session is used on the spot; whatever comes of it is dropped.\<close>

definition consume_in_place :: "fwd_cfg \<Rightarrow> fwd_claims \<Rightarrow> string \<Rightarrow> (fwd_world, unit) state" where
  "consume_in_place c cl inviteToken =
     (if inviteToken = '''' then State_Monad.return ()
      else if cl_email cl \<noteq> '''' then ignore (consumeInviteUpstream c (cl_provider cl) (cl_email cl) (cl_name cl) (cl_avatar cl) inviteToken)
      else if cl_user cl \<noteq> '''' then ignore (consumeProjectInviteUpstream c (cl_user cl) inviteToken)
      else State_Monad.return ())"

definition admit :: "fwd_cfg \<Rightarrow> time \<Rightarrow> http_request \<Rightarrow> fwd_claims \<Rightarrow> http_reply" where
  "admit c now r cl = with_cookies (renewSessionCookie c now r) (with_headers (setUserHeaders cl) (http_answer 200 NoBody))"

definition verify_roaming :: "fwd_cfg \<Rightarrow> time \<Rightarrow> http_request \<Rightarrow> fwd_claims \<Rightarrow> (fwd_world, http_reply) state" where
  "verify_roaming c now r cl =
     (if cl_email cl = '''' \<and> cl_user cl = '''' then State_Monad.return (redirectToLogin c r)
      else if query_get r ''domains'' \<noteq> '''' \<and> cl_email cl \<noteq> '''' \<and> \<not> emailMatchesDomains (cl_email cl) (query_get r ''domains'')
      then State_Monad.return (http_error 403 ''access denied: email domain not permitted'')
      else if query_get r ''project_id'' = '''' then State_Monad.return (admit c now r cl)
      else do {
        check \<leftarrow> checkProjectAccess c (query_get r ''project_id'') (cl_email cl) (cl_user cl);
        State_Monad.return (case check of
            Inl _ \<Rightarrow> http_error 502 ''access check failed''
          | Inr True \<Rightarrow> admit c now r cl
          | Inr False \<Rightarrow> (let loc = requestAccessRedirectURL r (query_get r ''project_id'') in
              if loc \<noteq> '''' then redirect_to 302 loc else http_error 403 ''access denied: not a member of this project'')) })"

definition handleVerify :: "fwd_cfg \<Rightarrow> http_request \<Rightarrow> (fwd_world, http_reply) state" where
  "handleVerify c r = do {
     now \<leftarrow> on_db time_Now;
     let inviteToken = extractInviteTokenFromForwardedURI r;
     case resolveAuthClaims c now r of
       None \<Rightarrow> State_Monad.return (with_cookies (if inviteToken \<noteq> '''' then [setInviteTokenCookie c r inviteToken] else []) (redirectToLogin c r))
     | Some cl \<Rightarrow>
         if cl_provider cl = ''password'' \<or> cl_provider cl = ''phone'' then
           State_Monad.return (if query_get r ''project_id'' \<noteq> '''' \<and> query_get r ''project_id'' = cl_project cl
             then with_headers (setUserHeaders cl) (http_answer 200 NoBody) else redirectToLogin c r)
         else do {
           _ \<leftarrow> consume_in_place c cl inviteToken;
           rp \<leftarrow> verify_roaming c now r cl;
           State_Monad.return (if inviteToken \<noteq> '''' then with_cookies [clearInviteTokenCookie c r] rp else rp) } }"

definition handleVerifyAdmin :: "fwd_cfg \<Rightarrow> time \<Rightarrow> http_request \<Rightarrow> http_reply" where
  "handleVerifyAdmin c now r = (case resolveAuthClaims c now r of
       None \<Rightarrow> redirectToLogin c r
     | Some cl \<Rightarrow> if cl_email cl \<notin> set (fc_admins c) then http_error 403 ''access denied: admin only''
                 else with_headers (setUserHeaders cl) (http_answer 200 NoBody))"

definition handleUserInfo :: "fwd_cfg \<Rightarrow> time \<Rightarrow> http_request \<Rightarrow> http_reply" where
  "handleUserInfo c now r = with_headers (applyUserInfoCORS c r) (case resolveAuthClaims c now r of
       None \<Rightarrow> http_error 401 ''unauthorized''
     | Some cl \<Rightarrow> http_answer 200 (JsonUser [(''email'', cl_email cl), (''user_id'', cl_user cl), (''name'', cl_name cl),
         (''avatar_url'', cl_avatar cl), (''provider'', cl_provider cl)]))"

definition handleFwdLogout :: "fwd_cfg \<Rightarrow> http_request \<Rightarrow> http_reply" where
  "handleFwdLogout c r = (let target = query_get r ''redirect'' in
     with_cookies [drop_cookie c r ''muvee_fwd_session''] (redirect_to 302 (if target = '''' then ''/'' else target)))"

definition handleInternalBaseURL :: "fwd_cfg \<Rightarrow> http_request \<Rightarrow> http_reply" where
  "handleInternalBaseURL c r = (if fc_key c = '''' \<or> header_get r ''X-Muvee-Internal-Key'' \<noteq> fc_key c then http_error 401 ''unauthorized''
     else http_answer 200 (PlainText (fc_auth_base c)))"

section \<open>Providers and pages\<close>

definition canonical_order :: "string list" where
  "canonical_order = [''google'', ''feishu'', ''wecom'', ''dingtalk'']"

text \<open>The rest of the map comes in the order of the configuration, where Go's is unspecified.\<close>

definition projectEnabledFwdProviders :: "fwd_cfg \<Rightarrow> string \<Rightarrow> fwd_provider list" where
  "projectEnabledFwdProviders c enabledProviders =
     (if ToLower (TrimSpace enabledProviders) = ''none'' then []
      else (let allow = (\<lambda>n. TrimSpace enabledProviders = ''''
                  \<or> (n \<noteq> '''' \<and> n \<in> set (map (\<lambda>t. ToLower (TrimSpace t)) (Split (CHR '','') enabledProviders))))
            in map (\<lambda>n. the (map_of (fc_providers c) n))
                 (filter (\<lambda>n. map_of (fc_providers c) n \<noteq> None \<and> allow n) canonical_order)
               @ map snd (filter (\<lambda>(n, p). n \<notin> set canonical_order \<and> allow n) (fc_providers c))))"

definition allowedProvidersFromConfig :: "fwd_cfg \<Rightarrow> project_auth_config option \<Rightarrow> (string \<times> fwd_provider) list" where
  "allowedProvidersFromConfig c cfg = (case cfg of
       None \<Rightarrow> fc_providers c
     | Some ac \<Rightarrow> map (\<lambda>p. (fp_name p, p)) (projectEnabledFwdProviders c (ac_enabled ac)))"

text \<open>An error of the lookup counts as no project.\<close>

definition config_or_none :: "(nat + go_error) + project_auth_config option \<Rightarrow> project_auth_config option" where
  "config_or_none r = (case r of Inl _ \<Rightarrow> None | Inr x \<Rightarrow> x)"

definition handleLoginPage :: "fwd_cfg \<Rightarrow> string \<Rightarrow> http_request \<Rightarrow> (fwd_world, http_reply) state" where
  "handleLoginPage c base r = do {
     found \<leftarrow> fetchProjectAuthConfigByHost c base (inboundHost r);
     now \<leftarrow> on_db time_Now;
     let cfg = config_or_none found;
     let allowed = allowedProvidersFromConfig c cfg;
     let providerName = query_get r ''provider'';
     let password = (case cfg of None \<Rightarrow> False | Some ac \<Rightarrow> ac_password ac);
     let phone = (case cfg of None \<Rightarrow> False | Some ac \<Rightarrow> ac_sms ac);
     let err = query_get r ''error'';
     State_Monad.return (
       if providerName \<noteq> '''' then (case map_of allowed providerName of
           None \<Rightarrow> http_error 400 ''unknown or disabled provider''
         | Some p \<Rightarrow> (let st = show_int now in with_cookies [short_cookie c r ''fwd_oauth_state'' st]
             (redirect_to 302 (fp_auth_url p st (oauthRedirectForHost c (inboundHost r) providerName)))))
       else if length allowed = 1 \<and> \<not> password \<and> \<not> phone
       then redirect_to 302 (''/_oauth/login?provider='' @ fst (hd allowed))
       else http_answer 200 (LoginPage (map fst allowed) password phone
         (if err \<in> {''invalid_credentials'', ''invalid_code''} then err else ''''))) }"

definition handleProviders :: "fwd_cfg \<Rightarrow> string \<Rightarrow> http_request \<Rightarrow> (fwd_world, http_reply) state" where
  "handleProviders c base r = (let host = inboundHost r in
     if host = '''' then State_Monad.return (with_headers (applyUserInfoCORS c r) (http_error 400 ''missing host''))
     else do {
       found \<leftarrow> fetchProjectAuthConfigByHost c base host;
       State_Monad.return (with_headers (applyUserInfoCORS c r) (case found of
           Inl _ \<Rightarrow> http_error 502 ''providers lookup failed''
         | Inr None \<Rightarrow> http_error 404 ''no project for host''
         | Inr (Some ac) \<Rightarrow> http_answer 200 (JsonProviders (map (\<lambda>p. (fp_name p, fp_display p)) (projectEnabledFwdProviders c (ac_enabled ac)))))) })"

definition request_page :: "nat \<Rightarrow> (string \<times> string) list \<Rightarrow> http_reply" where
  "request_page code data = http_answer code (RequestAccessPage data)"

definition handleRequestAccessPage :: "fwd_cfg \<Rightarrow> http_request \<Rightarrow> (fwd_world, http_reply) state" where
  "handleRequestAccessPage c r = do {
     now \<leftarrow> on_db time_Now;
     let projectID = TrimSpace (query_get r ''project'');
     if projectID = '''' then State_Monad.return (request_page 400 [(''Phase'', ''error''), (''Error'', ''Missing ?project=<id> in the URL.'')])
     else case resolveAuthClaims c now r of
       None \<Rightarrow> (let xfp = header_get r ''X-Forwarded-Proto''; xfh = header_get r ''X-Forwarded-Host'';
           proto = (if xfp \<noteq> '''' then xfp else if hq_tls r then ''https'' else ''http'');
           host = (if xfh \<noteq> '''' then xfh else hq_host r)
         in State_Monad.return (with_cookies [short_cookie c r ''fwd_oauth_redirect''
              (proto @ ''://'' @ host @ ''/_oauth/request-access?project='' @ QueryEscape projectID)] (redirect_to 302 ''/_oauth/login'')))
     | Some cl \<Rightarrow> do {
         info \<leftarrow> fetchProjectInfoInternal c projectID;
         State_Monad.return (case info of
             Inl _ \<Rightarrow> request_page 502 [(''Phase'', ''error''), (''Error'', ''Cannot reach muvee-server. Try again in a moment.'')]
           | Inr None \<Rightarrow> request_page 404 [(''Phase'', ''error''), (''Error'', ''Project not found.'')]
           | Inr (Some p) \<Rightarrow> request_page 200 [(''Phase'', ''form''), (''ProjectID'', p_id p), (''ProjectName'', p_name p),
               (''Account'', claimsAccountLabel cl)]) } }"

definition handleRequestAccessSubmit :: "fwd_cfg \<Rightarrow> http_request \<Rightarrow> (fwd_world, http_reply) state" where
  "handleRequestAccessSubmit c r = do {
     now \<leftarrow> on_db time_Now;
     case resolveAuthClaims c now r of
       None \<Rightarrow> State_Monad.return (redirect_to 302 ''/_oauth/login'')
     | Some cl \<Rightarrow> (case hq_form r of
         Inl _ \<Rightarrow> State_Monad.return (request_page 400 [(''Phase'', ''error''), (''Error'', ''Invalid form submission.'')])
       | Inr form \<Rightarrow>
         (let projectID = TrimSpace (values_Get form ''project_id''); reason = TrimSpace (values_Get form ''reason'') in
          if projectID = '''' then State_Monad.return (request_page 400 [(''Phase'', ''error''), (''Error'', ''Missing project id.'')])
          else do {
            info \<leftarrow> fetchProjectInfoInternal c projectID;
            case info of
              Inr (Some p) \<Rightarrow> do {
                res \<leftarrow> submitAccessRequestInternal c projectID (cl_email cl) (cl_user cl) reason;
                State_Monad.return (case res of
                    Inl _ \<Rightarrow> request_page 502 [(''Phase'', ''error''), (''Error'', ''Could not submit your request. Try again in a moment.'')]
                  | Inr already \<Rightarrow> request_page 200 [(''Phase'', if already then ''already-allowed'' else ''submitted''),
                      (''ProjectID'', p_id p), (''ProjectName'', p_name p), (''Account'', claimsAccountLabel cl)]) }
            | _ \<Rightarrow> State_Monad.return (request_page 502 [(''Phase'', ''error''), (''Error'', ''Cannot reach muvee-server. Try again in a moment.'')]) })) }"

end
