(* ===== verification/Forward_Flows.thy ===== *)
theory Forward_Flows
  imports Forward_Auth
begin

text \<open>
  The sign-ins of the forward-auth service (cmd/muvee/authservice.go, cmd/muvee/login_token.go,
  cmd/muvee/oauth_state.go): password and SMS forms, the OAuth callback, the device flow of command-line
  clients and the login tokens of the SDK. A goroutine that deletes an entry after its expiry is a step
  of its own. The encoding and the MAC of the structured OAuth state are parameters.
\<close>

definition w_get :: "(fwd_world \<Rightarrow> 'a) \<Rightarrow> (fwd_world, 'a) state" where
  "w_get f = State (\<lambda>w. (f w, w))"

definition w_mod :: "(fwd_world \<Rightarrow> fwd_world) \<Rightarrow> (fwd_world, unit) state" where
  "w_mod f = State (\<lambda>w. ((), f w))"

section \<open>Forms\<close>

definition login_done :: "fwd_cfg \<Rightarrow> http_request \<Rightarrow> nat \<Rightarrow> string \<Rightarrow> http_reply" where
  "login_done c r code signed =
     (let target = (case cookie_get r ''fwd_oauth_redirect'' of None \<Rightarrow> ''/'' | Some v \<Rightarrow> if v = '''' then ''/'' else v)
      in with_cookies [session_cookie c r signed, drop_cookie c r ''fwd_oauth_redirect''] (redirect_to code target))"

text \<open>\<open>Inr None\<close> is the 401 of bad credentials.\<close>

definition verifyPasswordUpstream :: "fwd_cfg \<Rightarrow> account_cfg \<Rightarrow> string \<Rightarrow> string \<Rightarrow> string
    \<Rightarrow> (uuid \<times> string \<times> string \<times> string) option fwd" where
  "verifyPasswordUpstream c k projectID username password = do {
     r \<leftarrow> upstream c ''/api/internal/auth/password-login'' (handleInternalAuthPasswordLogin k (fc_key c) (Inr (projectID, username, password)));
     State_Monad.return (case r of Inl (Inl code) \<Rightarrow> if code = 401 then Inr None else Inl (Inl code)
       | Inl (Inr e) \<Rightarrow> Inl (Inr e) | Inr x \<Rightarrow> Inr (Some x)) }"

definition handlePasswordLogin :: "fwd_cfg \<Rightarrow> account_cfg \<Rightarrow> string \<Rightarrow> http_request \<Rightarrow> (fwd_world, http_reply) state" where
  "handlePasswordLogin c k base r = do {
     found \<leftarrow> fetchProjectAuthConfigByHost c base (inboundHost r);
     case found of
       Inl _ \<Rightarrow> State_Monad.return (http_error 502 ''login failed'')
     | Inr None \<Rightarrow> State_Monad.return (http_error 404 ''password login is not enabled for this site'')
     | Inr (Some ac) \<Rightarrow>
        if \<not> ac_password ac then State_Monad.return (http_error 404 ''password login is not enabled for this site'')
        else (case hq_form r of
            Inl _ \<Rightarrow> State_Monad.return (http_error 400 ''invalid form'')
          | Inr form \<Rightarrow> do {
              res \<leftarrow> verifyPasswordUpstream c k (ac_project ac) (ToLower (TrimSpace (values_Get form ''username''))) (values_Get form ''password'');
              now \<leftarrow> on_db time_Now;
              State_Monad.return (case res of
                  Inl _ \<Rightarrow> http_error 502 ''login failed''
                | Inr None \<Rightarrow> redirect_to 303 ''/_oauth/login?error=invalid_credentials''
                | Inr (Some (userID, username, email, name)) \<Rightarrow>
                    login_done c r 303 (signForwardPasswordJWT c email name '''' (ac_project ac) now)) }) }"

definition handleSMSSend :: "fwd_cfg \<Rightarrow> account_cfg \<Rightarrow> sms_cfg \<Rightarrow> string \<Rightarrow> http_request \<Rightarrow> (fwd_world, http_reply) state" where
  "handleSMSSend c k m base r = do {
     found \<leftarrow> fetchProjectAuthConfigByHost c base (inboundHost r);
     case found of
       Inl _ \<Rightarrow> State_Monad.return (http_error 502 ''send failed'')
     | Inr None \<Rightarrow> State_Monad.return (http_error 404 ''sms login is not enabled for this site'')
     | Inr (Some ac) \<Rightarrow>
        if \<not> ac_sms ac then State_Monad.return (http_error 404 ''sms login is not enabled for this site'')
        else (case hq_form r of
            Inl _ \<Rightarrow> State_Monad.return (http_error 400 ''invalid form'')
          | Inr form \<Rightarrow>
             if \<not> fc_up c ''/api/internal/auth/sms/send-code'' then State_Monad.return (http_error 502 ''send failed'')
             else do {
               res \<leftarrow> handleInternalAuthSMSSendCode k m (fc_key c) (Inr (ac_project ac, TrimSpace (values_Get form ''phone'')));
               State_Monad.return (case res of Inl (code, _) \<Rightarrow> http_answer code (Relayed code) | Inr _ \<Rightarrow> http_answer 200 (Relayed 200)) }) }"

definition verifySMSUpstream :: "fwd_cfg \<Rightarrow> account_cfg \<Rightarrow> sms_cfg \<Rightarrow> string \<Rightarrow> string \<Rightarrow> string \<Rightarrow> (uuid \<times> string) option fwd" where
  "verifySMSUpstream c k m projectID phone code = do {
     r \<leftarrow> upstream c ''/api/internal/auth/sms/verify'' (handleInternalAuthSMSVerify k m (fc_key c) (Inr (projectID, phone, code)));
     State_Monad.return (case r of Inl (Inl code) \<Rightarrow> if code = 401 \<or> code = 429 then Inr None else Inl (Inl code)
       | Inl (Inr e) \<Rightarrow> Inl (Inr e) | Inr x \<Rightarrow> Inr (Some x)) }"

definition handleSMSVerify :: "fwd_cfg \<Rightarrow> account_cfg \<Rightarrow> sms_cfg \<Rightarrow> string \<Rightarrow> http_request \<Rightarrow> (fwd_world, http_reply) state" where
  "handleSMSVerify c k m base r = do {
     found \<leftarrow> fetchProjectAuthConfigByHost c base (inboundHost r);
     case found of
       Inl _ \<Rightarrow> State_Monad.return (http_error 502 ''login failed'')
     | Inr None \<Rightarrow> State_Monad.return (http_error 404 ''sms login is not enabled for this site'')
     | Inr (Some ac) \<Rightarrow>
        if \<not> ac_sms ac then State_Monad.return (http_error 404 ''sms login is not enabled for this site'')
        else (case hq_form r of
            Inl _ \<Rightarrow> State_Monad.return (http_error 400 ''invalid form'')
          | Inr form \<Rightarrow> do {
              res \<leftarrow> verifySMSUpstream c k m (ac_project ac) (TrimSpace (values_Get form ''phone'')) (TrimSpace (values_Get form ''code''));
              now \<leftarrow> on_db time_Now;
              State_Monad.return (case res of
                  Inl _ \<Rightarrow> http_error 502 ''login failed''
                | Inr None \<Rightarrow> redirect_to 303 ''/_oauth/login?error=invalid_code''
                | Inr (Some (userID, phone)) \<Rightarrow>
                    login_done c r 303 (signForwardProjectJWT c phone phone '''' ''phone'' (ac_project ac) now)) }) }"

section \<open>The structured OAuth state\<close>

record state_claims =
  sl_mode :: string
  sl_token :: string
  sl_nonce :: string
  sl_issued :: int

record state_codec =
  so_encode :: "state_claims \<Rightarrow> string"
  so_decode :: "string \<Rightarrow> state_claims option"
  so_mac :: "string \<Rightarrow> string"

definition stateMaxAge :: int where "stateMaxAge = 10 * 60"

definition Unix :: "time \<Rightarrow> int" where
  "Unix t = t div seconds 1"

definition signState :: "state_codec \<Rightarrow> state_claims \<Rightarrow> (fwd_world, string) state" where
  "signState e c0 = do {
     nonce \<leftarrow> (if sl_nonce c0 = '''' then draw 16 else State_Monad.return (sl_nonce c0));
     now \<leftarrow> on_db time_Now;
     let c1 = c0\<lparr>sl_nonce := nonce, sl_issued := (if sl_issued c0 = 0 then Unix now else sl_issued c0)\<rparr>;
     let p = so_encode e c1;
     State_Monad.return (p @ ''.'' @ so_mac e p) }"

text \<open>Split at the first dot; the claims are returned when the signature, the encoding and the age are right.\<close>

definition verifyState :: "state_codec \<Rightarrow> time \<Rightarrow> string \<Rightarrow> state_claims option" where
  "verifyState e now s = (case IndexByte s (CHR ''.'') of
       None \<Rightarrow> None
     | Some i \<Rightarrow>
        (let p = take i s; sig = drop (Suc i) s in
         if so_mac e p \<noteq> sig then None
         else (case so_decode e p of
             None \<Rightarrow> None
           | Some cl \<Rightarrow> if sl_issued cl + stateMaxAge < Unix now then None else Some cl)))"

section \<open>Login tokens\<close>

definition loginTokenExpiry :: time where "loginTokenExpiry = minutes 10"

definition put_token :: "string \<Rightarrow> login_entry \<Rightarrow> fwd_world \<Rightarrow> fwd_world" where
  "put_token token e w = w\<lparr>w_tokens := AList.update token e (w_tokens w)\<rparr>"

definition drop_token :: "string \<Rightarrow> fwd_world \<Rightarrow> fwd_world" where
  "drop_token token w = w\<lparr>w_tokens := AList.delete token (w_tokens w)\<rparr>"

definition change_token :: "string \<Rightarrow> (login_entry \<Rightarrow> login_entry) \<Rightarrow> fwd_world \<Rightarrow> fwd_world" where
  "change_token token f w = (case map_of (w_tokens w) token of None \<Rightarrow> w | Some e \<Rightarrow> put_token token (f e) w)"

definition mint_token :: "fwd_cfg \<Rightarrow> state_codec \<Rightarrow> string \<Rightarrow> string \<Rightarrow> fwd_provider \<Rightarrow> uuid \<Rightarrow> (fwd_world, http_reply) state" where
  "mint_token c e host providerName p projectID = do {
     token \<leftarrow> draw 32;
     now \<leftarrow> on_db time_Now;
     _ \<leftarrow> w_mod (put_token token \<lparr>le_provider = providerName, le_project = projectID, le_status = TokenPending, le_email = '''',
       le_user = '''', le_name = '''', le_avatar = '''', le_provider_name = '''', le_expires = now + loginTokenExpiry\<rparr>);
     st \<leftarrow> signState e \<lparr>sl_mode = ''login-token'', sl_token = token, sl_nonce = '''', sl_issued = 0\<rparr>;
     State_Monad.return (http_answer 200 (LoginTokenCreated token (fp_auth_url p st (oauthRedirectForHost c host providerName)))) }"

definition handleLoginTokenCreate :: "fwd_cfg \<Rightarrow> state_codec \<Rightarrow> string \<Rightarrow> go_error + string \<Rightarrow> http_request \<Rightarrow> (fwd_world, http_reply) state" where
  "handleLoginTokenCreate c e base body r = (case body of
       Inl _ \<Rightarrow> State_Monad.return (http_error 400 ''invalid json'')
     | Inr raw \<Rightarrow>
        (let providerName = ToLower (TrimSpace raw); host = inboundHost r in
         if providerName = '''' then State_Monad.return (http_error 400 ''provider required'')
         else case map_of (fc_providers c) providerName of
           None \<Rightarrow> State_Monad.return (http_error 400 ''unknown provider'')
         | Some p \<Rightarrow>
            if host = '''' then State_Monad.return (http_error 400 ''missing host'')
            else do {
              found \<leftarrow> fetchProjectAuthConfigByHost c base host;
              case found of
                Inl _ \<Rightarrow> State_Monad.return (http_error 502 ''project lookup failed'')
              | Inr None \<Rightarrow> State_Monad.return (http_error 404 ''no project for host'')
              | Inr (Some ac) \<Rightarrow>
                 if \<not> list_ex (\<lambda>q. fp_name q = providerName) (projectEnabledFwdProviders c (ac_enabled ac))
                 then State_Monad.return (http_error 403 ''provider not enabled for this project'')
                 else mint_token c e host providerName p (ac_project ac) }))"

definition handleLoginTokenPoll :: "go_error + string \<Rightarrow> (fwd_world, http_reply) state" where
  "handleLoginTokenPoll body = (case body of
       Inl _ \<Rightarrow> State_Monad.return (http_error 400 ''invalid json'')
     | Inr raw \<Rightarrow>
        (let token = TrimSpace raw in
         if token = '''' then State_Monad.return (http_error 400 ''login_token required'')
         else do {
           entry \<leftarrow> w_get (\<lambda>w. map_of (w_tokens w) token);
           now \<leftarrow> on_db time_Now;
           case entry of
             None \<Rightarrow> State_Monad.return (http_answer 200 (TokenStatus ''expired'' []))
           | Some e \<Rightarrow>
              if now > le_expires e then do { _ \<leftarrow> w_mod (drop_token token); State_Monad.return (http_answer 200 (TokenStatus ''expired'' [])) }
              else (case le_status e of
                  TokenSuccess \<Rightarrow> do { _ \<leftarrow> w_mod (drop_token token);
                    State_Monad.return (http_answer 200 (TokenStatus ''success'' [(''email'', le_email e), (''user_id'', le_user e),
                      (''name'', le_name e), (''avatar_url'', le_avatar e), (''provider'', le_provider_name e)])) }
                | TokenError msg \<Rightarrow> do { _ \<leftarrow> w_mod (drop_token token); State_Monad.return (http_answer 200 (TokenStatus ''error'' [(''error'', msg)])) }
                | TokenPending \<Rightarrow> State_Monad.return (http_answer 200 (TokenStatus ''pending'' []))) }))"

definition markLoginTokenError :: "string \<Rightarrow> string \<Rightarrow> (fwd_world, unit) state" where
  "markLoginTokenError token msg = w_mod (change_token token (\<lambda>e. e\<lparr>le_status := TokenError msg\<rparr>))"

definition oauth_code :: "http_request \<Rightarrow> string" where
  "oauth_code r = (if query_get r ''code'' = '''' then query_get r ''authCode'' else query_get r ''code'')"

definition handleLoginTokenCallback :: "fwd_cfg \<Rightarrow> http_request \<Rightarrow> fwd_provider \<Rightarrow> string \<Rightarrow> string \<Rightarrow> (fwd_world, http_reply) state" where
  "handleLoginTokenCallback c r p providerName loginToken = do {
     entry \<leftarrow> w_get (\<lambda>w. map_of (w_tokens w) loginToken);
     now \<leftarrow> on_db time_Now;
     case entry of
       None \<Rightarrow> State_Monad.return (http_error 410 ''login session expired'')
     | Some e \<Rightarrow>
        if now > le_expires e then do { _ \<leftarrow> w_mod (drop_token loginToken); State_Monad.return (http_error 410 ''login session expired'') }
        else if oauth_code r = '''' then do { _ \<leftarrow> markLoginTokenError loginToken ''missing authorization code''; State_Monad.return (http_error 400 ''missing code'') }
        else case fp_info p (oauth_code r) (query_get r ''state'') (oauthRedirectForHost c (inboundHost r) providerName) of
          Inl _ \<Rightarrow> do { _ \<leftarrow> markLoginTokenError loginToken ''authentication failed''; State_Monad.return (http_error 500 ''authentication failed'') }
        | Inr (sub, email, name, avatar) \<Rightarrow> do {
            up \<leftarrow> upsertUserUpstream c providerName sub email name avatar;
            case up of
              Inl _ \<Rightarrow> do { _ \<leftarrow> markLoginTokenError loginToken ''identity sync failed''; State_Monad.return (http_error 500 ''authentication failed'') }
            | Inr (userID, stored) \<Rightarrow>
               (let av = (if stored \<noteq> '''' then stored else avatar) in do {
                _ \<leftarrow> w_mod (change_token loginToken (\<lambda>e. e\<lparr>le_email := email, le_user := userID, le_name := name, le_avatar := av,
                       le_provider_name := providerName, le_status := TokenSuccess\<rparr>));
                State_Monad.return (with_cookies [session_cookie c r (signForwardJWT c userID email name av providerName now)]
                  (http_answer 200 LoginComplete)) }) } }"

text \<open>The goroutine of \<open>handleLoginTokenCreate\<close>, a minute after the token's expiry.\<close>

definition collect_token :: "string \<Rightarrow> (fwd_world, unit) state" where
  "collect_token token = w_mod (drop_token token)"

section \<open>The device flow\<close>

definition deviceCodeExpiry :: time where "deviceCodeExpiry = minutes 10"

definition cliTokenExpiry :: time where "cliTokenExpiry = hours (90 * 24)"

definition handleDeviceCode :: "fwd_cfg \<Rightarrow> (fwd_world, http_reply) state" where
  "handleDeviceCode c = do {
     deviceCode \<leftarrow> draw 32;
     userCode \<leftarrow> draw 8;
     now \<leftarrow> on_db time_Now;
     _ \<leftarrow> w_mod (\<lambda>w. w\<lparr>w_devices := AList.update deviceCode \<lparr>de_user_code = userCode, de_email = '''', de_user = '''', de_name = '''',
           de_avatar = '''', de_provider = '''', de_expires = now + deviceCodeExpiry, de_completed = False\<rparr> (w_devices w),
         w_by_user := AList.update userCode deviceCode (w_by_user w)\<rparr>);
     State_Monad.return (http_answer 200 (DeviceCode deviceCode (take 4 userCode @ ''-'' @ drop 4 userCode) (fc_auth_base c @ ''/_oauth/device/activate''))) }"

definition forget_device :: "string \<Rightarrow> string \<Rightarrow> fwd_world \<Rightarrow> fwd_world" where
  "forget_device deviceCode userCode w = w\<lparr>w_devices := AList.delete deviceCode (w_devices w), w_by_user := AList.delete userCode (w_by_user w)\<rparr>"

text \<open>The goroutine of \<open>handleDeviceCode\<close>.\<close>

definition collect_device :: "string \<Rightarrow> string \<Rightarrow> (fwd_world, unit) state" where
  "collect_device deviceCode userCode = w_mod (forget_device deviceCode userCode)"

definition startDeviceOAuth :: "fwd_cfg \<Rightarrow> http_request \<Rightarrow> string \<Rightarrow> string \<Rightarrow> (fwd_world, http_reply) state" where
  "startDeviceOAuth c r userCode name0 = do {
     known \<leftarrow> w_get (\<lambda>w. map_of (w_by_user w) userCode);
     now \<leftarrow> on_db time_Now;
     let providerName = (if name0 = '''' then (case fc_providers c of [] \<Rightarrow> '''' | (n, _) # _ \<Rightarrow> n) else name0);
     if known = None then State_Monad.return (http_error 400 ''invalid or expired code'')
     else case map_of (fc_providers c) providerName of
       None \<Rightarrow> State_Monad.return (http_error 400 ''unknown provider'')
     | Some p \<Rightarrow>
        (let st = ''device-'' @ show_int now in do {
           _ \<leftarrow> w_mod (\<lambda>w. w\<lparr>w_pending := AList.update st userCode (w_pending w)\<rparr>);
           State_Monad.return (with_cookies [short_cookie c r ''fwd_oauth_state'' st]
             (redirect_to 302 (fp_auth_url p st (oauthRedirectForHost c (inboundHost r) providerName)))) }) }"

definition upper_char :: "char \<Rightarrow> char" where
  "upper_char c = (if CHR ''a'' \<le> c \<and> c \<le> CHR ''z'' then char_of ((of_char c :: nat) - 32) else c)"

definition handleDeviceActivate :: "fwd_cfg \<Rightarrow> http_request \<Rightarrow> (fwd_world, http_reply) state" where
  "handleDeviceActivate c r =
     (let code = filter (\<lambda>x. x \<noteq> CHR ''-'') (map upper_char (query_get r ''code'')); name = query_get r ''provider'' in do {
      known \<leftarrow> w_get (\<lambda>w. map_of (w_by_user w) code);
      if code \<noteq> '''' \<and> known \<noteq> None \<and> (name \<noteq> '''' \<or> length (fc_providers c) = 1) then startDeviceOAuth c r code name
      else State_Monad.return (http_answer 200 (DevicePage (if length code = 8 then take 4 code @ ''-'' @ drop 4 code else '''')
        (map fst (fc_providers c)))) })"

definition device_code_of :: "http_request \<Rightarrow> go_error + string \<Rightarrow> string" where
  "device_code_of r json = (if HasPrefix (header_get r ''Content-Type'') ''application/x-www-form-urlencoded''
     then (case hq_form r of Inl _ \<Rightarrow> '''' | Inr form \<Rightarrow> values_Get form ''device_code'')
     else (case json of Inl _ \<Rightarrow> '''' | Inr d \<Rightarrow> d))"

definition handleDeviceToken :: "fwd_cfg \<Rightarrow> http_request \<Rightarrow> go_error + string \<Rightarrow> (fwd_world, http_reply) state" where
  "handleDeviceToken c r json =
     (let deviceCode = device_code_of r json in
      if deviceCode = '''' then State_Monad.return (http_answer 400 (JsonError ''invalid_request''))
      else do {
        entry \<leftarrow> w_get (\<lambda>w. map_of (w_devices w) deviceCode);
        now \<leftarrow> on_db time_Now;
        case entry of
          None \<Rightarrow> State_Monad.return (http_answer 400 (JsonError ''expired_token''))
        | Some e \<Rightarrow>
           if now > de_expires e then do { _ \<leftarrow> w_mod (forget_device deviceCode (de_user_code e)); State_Monad.return (http_answer 400 (JsonError ''expired_token'')) }
           else if \<not> de_completed e then State_Monad.return (http_answer 200 (JsonError ''authorization_pending''))
           else do {
             _ \<leftarrow> w_mod (forget_device deviceCode (de_user_code e));
             State_Monad.return (http_answer 200 (AccessToken
               (signForwardJWTWithExpiry c (de_user e) (de_email e) (de_name e) (de_avatar e) (de_provider e) cliTokenExpiry now)
               (cliTokenExpiry div seconds 1))) } })"

section \<open>The OAuth callback\<close>

text \<open>
  The identity that the callback signs: with an invite token and an address through the invite
  endpoint, falling back to the identity upsert; otherwise the identity upsert, and the link after it.
\<close>

definition sync_identity :: "fwd_cfg \<Rightarrow> string \<Rightarrow> string \<Rightarrow> string \<Rightarrow> string \<Rightarrow> string \<Rightarrow> string \<Rightarrow> (string \<times> string) fwd" where
  "sync_identity c inviteToken providerName sub email name avatar =
     (if inviteToken \<noteq> '''' \<and> email \<noteq> '''' then do {
        r \<leftarrow> consumeInviteUpstream c providerName email name avatar inviteToken;
        case r of Inr x \<Rightarrow> ok x | Inl _ \<Rightarrow> upsertUserUpstream c providerName sub email name avatar }
      else attempt (upsertUserUpstream c providerName sub email name avatar) (\<lambda>(userID, stored). do {
        _ \<leftarrow> (if inviteToken \<noteq> '''' then ignore (consumeProjectInviteUpstream c userID inviteToken) else State_Monad.return ());
        ok (userID, stored) }))"

definition complete_device :: "string \<Rightarrow> (device_entry \<Rightarrow> device_entry) \<Rightarrow> fwd_world \<Rightarrow> fwd_world" where
  "complete_device userCode f w = (case map_of (w_by_user w) userCode of
       None \<Rightarrow> w
     | Some dc \<Rightarrow> (case map_of (w_devices w) dc of
           None \<Rightarrow> w | Some e \<Rightarrow> w\<lparr>w_devices := AList.update dc (f e) (w_devices w)\<rparr>))"

definition finish_callback :: "fwd_cfg \<Rightarrow> http_request \<Rightarrow> string \<Rightarrow> set_cookie list \<Rightarrow> string \<Rightarrow> string \<Rightarrow> string \<Rightarrow> string \<Rightarrow> string
    \<Rightarrow> (fwd_world, http_reply) state" where
  "finish_callback c r st cookies userID email name avatar providerName = do {
     pending \<leftarrow> w_get (\<lambda>w. map_of (w_pending w) st);
     now \<leftarrow> on_db time_Now;
     case pending of
       Some userCode \<Rightarrow> do {
         _ \<leftarrow> w_mod (\<lambda>w. w\<lparr>w_pending := AList.delete st (w_pending w)\<rparr>);
         _ \<leftarrow> w_mod (complete_device userCode (\<lambda>e. e\<lparr>de_email := email, de_user := userID, de_name := name, de_avatar := avatar,
                de_provider := providerName, de_completed := True\<rparr>));
         State_Monad.return (with_cookies cookies (http_answer 200 DeviceAuthorized)) }
     | None \<Rightarrow> State_Monad.return (with_cookies cookies (login_done c r 302 (signForwardJWT c userID email name avatar providerName now))) }"

definition oauth_callback :: "fwd_cfg \<Rightarrow> http_request \<Rightarrow> fwd_provider \<Rightarrow> string \<Rightarrow> (fwd_world, http_reply) state" where
  "oauth_callback c r p providerName = (case cookie_get r ''fwd_oauth_state'' of
       None \<Rightarrow> State_Monad.return (http_error 400 ''invalid state'')
     | Some st \<Rightarrow>
        if st \<noteq> query_get r ''state'' then State_Monad.return (http_error 400 ''invalid state'')
        else (let dropState = drop_cookie c r ''fwd_oauth_state'' in
          case fp_info p (oauth_code r) st (oauthRedirectForHost c (inboundHost r) providerName) of
            Inl _ \<Rightarrow> State_Monad.return (with_cookies [dropState] (http_error 500 ''authentication failed''))
          | Inr (sub, email, name, avatar) \<Rightarrow>
             (let inviteToken = opt_or '''' (cookie_get r inviteTokenCookieName) in do {
              res \<leftarrow> sync_identity c inviteToken providerName sub email name avatar;
              case res of
                Inl _ \<Rightarrow> State_Monad.return (with_cookies (dropState # (if inviteToken \<noteq> '''' \<and> email \<noteq> '''' then [clearInviteTokenCookie c r] else []))
                          (http_error 500 ''authentication failed''))
              | Inr (userID, stored) \<Rightarrow> finish_callback c r st (dropState # (if inviteToken \<noteq> '''' then [clearInviteTokenCookie c r] else []))
                  userID email name (if stored \<noteq> '''' then stored else avatar) providerName })))"

definition handleOAuthCallback :: "fwd_cfg \<Rightarrow> state_codec \<Rightarrow> string \<Rightarrow> http_request \<Rightarrow> (fwd_world, http_reply) state" where
  "handleOAuthCallback c e providerName r = (case map_of (fc_providers c) providerName of
       None \<Rightarrow> State_Monad.return (http_error 400 ''unknown provider'')
     | Some p \<Rightarrow> do {
         now \<leftarrow> on_db time_Now;
         case verifyState e now (query_get r ''state'') of
           Some sc \<Rightarrow> if sl_mode sc = ''login-token'' then handleLoginTokenCallback c r p providerName (sl_token sc)
                     else oauth_callback c r p providerName
         | None \<Rightarrow> oauth_callback c r p providerName })"

end
