(* ===== verification/Forward_Calculus.thy ===== *)
theory Forward_Calculus
  imports Forward_Flows Access_Facts Handlers_Inv
begin

text \<open>
  How the computations of the forward-auth service run and what their results tell: the database part
  of the world, statements on its other tables, calls to muvee-server, and the rules of inversion for
  the checks that its handlers are made of.
\<close>

declare run_attempt [simp del] run_ok [simp del]

section \<open>Runs\<close>

lemma on_db_runs: "run_state (on_db m) w = (fst (run_state m (w_db w)), w\<lparr>w_db := snd (run_state m (w_db w))\<rparr>)"
  by (simp add: on_db_def split: prod.splits)

lemma on_db_run: "run_state (on_db m) w = (x, w') \<longleftrightarrow> (\<exists>s. run_state m (w_db w) = (x, s) \<and> w' = w\<lparr>w_db := s\<rparr>)"
  by (auto simp: on_db_def split: prod.splits)

lemma on_db_now: "run_state (on_db time_Now) w = (db_now (w_db w), w)"
  by (simp add: on_db_run)

lemma wsql_nofault:
  "db_faults (w_db w) = [] \<Longrightarrow> run_state (wsql f) w = (case f w of Inl e \<Rightarrow> (Inl e, w) | Inr (x, w') \<Rightarrow> (Inr x, w'))"
  by (simp add: wsql_def split: sum.splits)

section \<open>Inversion\<close>

lemma wsql_read_Inr: "run_state (wsql (\<lambda>w. Inr (g w, w))) w = (Inr x, w') \<Longrightarrow> \<exists>s. w' = w\<lparr>w_db := s\<rparr> \<and> x = g w'"
  by (auto simp: wsql_def Let_def split: prod.splits sum.splits)

lemma w_status_Inr: "run_state (w_status code m) w = (Inr x, w') \<longleftrightarrow> run_state m w = (Inr x, w')"
  by (auto simp: w_status_def split: prod.splits sum.splits)

lemma w_require_Inr: "run_state (w_require b code e) w = (Inr u, w') \<longleftrightarrow> b \<and> w' = w"
  by (auto simp: w_require_def run_ok)

lemma rule400_Inr: "run_state (rule400 r) w = (Inr x, w') \<longleftrightarrow> r = Inr x \<and> w' = w"
  by (auto simp: rule400_def split: sum.splits)

lemma phone400_Inr: "run_state (phone400 raw) w = (Inr p, w') \<longleftrightarrow> NormalizePhone raw = Some p \<and> w' = w"
  by (auto simp: phone400_def split: option.splits)

lemma parse_id_Inr: "run_state (parse_id parse what t) s = (Inr i, s') \<longleftrightarrow> parse t = Inr i \<and> s' = s"
  by (auto simp: parse_id_def split: sum.splits)

lemma internal_key_Inr: "run_state (internal_key e g) s = (Inr x, s') \<longleftrightarrow> e \<noteq> '''' \<and> g = e \<and> s' = s"
  by (auto simp: internal_key_def require_Inr)

lemma upstream_Inr: "run_state (upstream c path m) w = (Inr x, w') \<longleftrightarrow> fc_up c path \<and> run_state m w = (Inr x, w')"
  by (auto simp: upstream_def split: prod.splits sum.splits)

lemmas w_inversions = attempt_Inr on_db_run w_status_Inr w_require_Inr rule400_Inr phone400_Inr parse_id_Inr internal_key_Inr
  upstream_Inr return_Inr ok_Inr

section \<open>Preserved predicates\<close>

lemma keeps_w_basic [keeps_intros]: "keeps I (w_require b c e)" "keeps I (rule400 x)" "keeps I (phone400 t)"
  "keeps J (internal_key e1 g)" "keeps J (parse_id p t2 u)"
  by (simp_all add: keeps_def w_require_def rule400_def phone400_def internal_key_def require_def parse_id_def run_ok)

lemma keeps_status_code [keeps_intros]: "keeps I m \<Longrightarrow> keeps I (or_status c m)"
  unfolding or_status_def by (intro keeps_intros)

lemma keeps_w_status [keeps_intros]: "keeps I m \<Longrightarrow> keeps I (w_status code m)"
  unfolding w_status_def by (intro keeps_intros)

lemma keeps_upstream [keeps_intros]: "keeps I m \<Longrightarrow> keeps I (upstream c path m)"
  unfolding upstream_def by (intro keeps_intros)

lemma keeps_w_get [keeps_intros]: "keeps I (w_get f)"
  by (simp add: keeps_def w_get_def)

lemma valid_keeps_result:
  "keeps P h \<Longrightarrow> (\<And>s r s'. P s \<Longrightarrow> run_state h s = (r, s') \<Longrightarrow> R r) \<Longrightarrow> valid P h (\<lambda>r s. P s \<and> R r)"
  by (auto simp: valid_def dest: keepsE)

end
