(* ===== verification/Forward_Facts.thy ===== *)
theory Forward_Facts
  imports Forward_Calculus Traefik
begin

text \<open>
  What the forward-auth service guarantees to the services behind it: whom \<open>/verify\<close> lets through, that
  the address Traefik calls carries the project and the domain rule, that a session slides without
  changing, and how phone numbers, the send ledger and login tokens behave.
\<close>

section \<open>The access check behind /verify\<close>

lemma user_by_same: "same_db s s' \<Longrightarrow> user_by s' i = user_by s i"
  by (auto simp: same_db_def user_by_def)

lemma user_check:
  assumes "run_state (IsProjectAccessAllowedByUserID i pid) s = (Inr r, s')"
  shows "same_db s s' \<and> (ck_allowed r \<longleftrightarrow> (\<exists>u. user_by s i = Some u \<and> may_reach s u pid))"
proof -
  obtain v s1 where q: "run_state (query (\<lambda>s. user_by s i)) s = (Inr v, s1)"
    and k: "run_state (case v of None \<Rightarrow> ok no_check | Some u \<Rightarrow> projectAccessForUser (u_id u) (u_role u) pid) s1 = (Inr r, s')"
    using assms by (auto simp: IsProjectAccessAllowedByUserID_def inversions)
  have 1: "same_db s s1" "v = user_by s i"
    using query_Inr [OF q] user_by_same by auto
  show ?thesis
  proof (cases v)
    case None
    then show ?thesis using k 1 by (auto simp: ok_Inr no_check_def)
  next
    case (Some u)
    then have "same_db s1 s' \<and> ck_allowed r = may_reach s1 u pid"
      using projectAccessForUser_Inr [of u pid s1 r s'] k by simp
    then show ?thesis using Some 1 may_reach_same [OF 1(1)] by (auto intro: same_db_trans)
  qed
qed

text \<open>The account a session stands for: by its address, or by its user id when it has none.\<close>

definition session_account :: "fwd_cfg \<Rightarrow> db \<Rightarrow> fwd_claims \<Rightarrow> user \<Rightarrow> bool" where
  "session_account c s cl u \<longleftrightarrow>
     (if TrimSpace (ToLower (cl_email cl)) \<noteq> ''''
      then find (\<lambda>u. u_email u = Some (TrimSpace (ToLower (cl_email cl)))) (users s) = Some u
      else cl_email cl = '''' \<and> (\<exists>i. fc_uuid c (TrimSpace (cl_user cl)) = Inr i \<and> user_by s i = Some u))"

lemma TrimSpace_Nil [simp]: "TrimSpace [] = []"
  by code_simp

lemma access_endpoint:
  assumes "run_state (handleInternalAccessCheck parse e g idStr email (if email \<noteq> '''' then '''' else uid)) s = (Inr (res, v), s')"
    and "ck_allowed res"
  shows "\<exists>pid u. parse idStr = Inr pid \<and> same_db s s' \<and> may_reach s u pid
    \<and> (if TrimSpace (ToLower email) \<noteq> '''' then find (\<lambda>u. u_email u = Some (TrimSpace (ToLower email))) (users s) = Some u
       else email = '''' \<and> (\<exists>i. parse (TrimSpace uid) = Inr i \<and> user_by s i = Some u))"
proof (cases "TrimSpace (ToLower email) = ''''")
  case True
  then obtain pid i where p: "parse idStr = Inr pid" "parse (TrimSpace uid) = Inr i" "email = ''''"
    and r: "run_state (IsProjectAccessAllowedByUserID i pid) s = (Inr res, s')"
    using assms(1) by (auto simp: handleInternalAccessCheck_def Let_def inversions internal_key_Inr parse_id_Inr split: if_splits)
  with user_check [OF r] assms(2) True show ?thesis by auto
next
  case False
  then obtain pid where p: "parse idStr = Inr pid"
    and r: "run_state (IsProjectAccessAllowedByEmail (TrimSpace (ToLower email)) pid) s = (Inr res, s')"
    using assms(1) by (auto simp: handleInternalAccessCheck_def Let_def inversions internal_key_Inr parse_id_Inr split: if_splits)
  with email_check [OF r] assms(2) False show ?thesis by auto
qed

lemma checkProjectAccess_allows:
  assumes "run_state (checkProjectAccess c pid (cl_email cl) (cl_user cl)) w = (Inr True, w')"
  shows "\<exists>p u. fc_uuid c pid = Inr p \<and> session_account c (w_db w') cl u \<and> may_reach (w_db w') u p"
proof -
  obtain res v s' where run: "run_state (handleInternalAccessCheck (fc_uuid c) (fc_server_key c) (fc_key c) pid (cl_email cl)
      (if cl_email cl \<noteq> '''' then '''' else cl_user cl)) (w_db w) = (Inr (res, v), s')" and a: "ck_allowed res" and w': "w' = w\<lparr>w_db := s'\<rparr>"
    using assms by (auto simp: checkProjectAccess_def attempt_Inr upstream_Inr on_db_run ok_Inr)
  from access_endpoint [OF run a] obtain p u where p: "fc_uuid c pid = Inr p" "may_reach (w_db w) u p" "same_db (w_db w) s'"
    and u: "session_account c (w_db w) cl u"
    unfolding session_account_def by blast
  from u have "session_account c s' cl u"
    unfolding session_account_def using same_db_tables(4) [OF p(3)] user_by_same [OF p(3)] by simp
  then show ?thesis using p may_reach_same [OF p(3)] w' by auto
qed

lemma redirectToLogin_status: "rp_status (redirectToLogin c r) \<noteq> 200"
  by (simp add: redirectToLogin_def Let_def with_cookies_def with_headers_def http_answer_def redirect_to_def)

lemma rp_simps [simp]:
  "rp_status (with_cookies cs rp) = rp_status rp" "rp_headers (with_cookies cs rp) = rp_headers rp"
  "rp_status (with_headers hs rp) = rp_status rp" "rp_headers (with_headers hs rp) = hs @ rp_headers rp"
  "rp_cookies (with_cookies cs rp) = cs @ rp_cookies rp" "rp_cookies (with_headers hs rp) = rp_cookies rp"
  "rp_status (http_answer code pg) = code" "rp_headers (http_answer code pg) = []" "rp_cookies (http_answer code pg) = []" "rp_page (http_answer code pg) = pg"
  "rp_status (http_error code msg) = code" "rp_status (redirect_to code loc) = code" "rp_headers (http_error code msg) = []"
  by (simp_all add: with_cookies_def with_headers_def http_answer_def http_error_def redirect_to_def)

definition is_project_session :: "fwd_claims \<Rightarrow> bool" where
  "is_project_session cl \<longleftrightarrow> cl_provider cl = ''password'' \<or> cl_provider cl = ''phone''"

definition domain_rule :: "http_request \<Rightarrow> fwd_claims \<Rightarrow> bool" where
  "domain_rule r cl \<longleftrightarrow> query_get r ''domains'' = '''' \<or> cl_email cl = '''' \<or> emailMatchesDomains (cl_email cl) (query_get r ''domains'')"

lemma verify_roaming_admits:
  assumes "run_state (verify_roaming c now r cl) w = (rp, w')" "rp_status rp = 200"
  shows "domain_rule r cl \<and> set (setUserHeaders cl) \<subseteq> set (rp_headers rp) \<and> (cl_email cl \<noteq> '''' \<or> cl_user cl \<noteq> '''')
    \<and> (query_get r ''project_id'' \<noteq> '''' \<longrightarrow> (\<exists>p u. fc_uuid c (query_get r ''project_id'') = Inr p
         \<and> session_account c (w_db w') cl u \<and> may_reach (w_db w') u p))"
  using assms checkProjectAccess_allows [of c "query_get r ''project_id''" cl w]
  by (auto simp: verify_roaming_def redirectToLogin_status domain_rule_def Let_def admit_def
      split: if_splits prod.splits sum.splits bool.splits)

text \<open>
  C6: A request reaches a protected project only with a session that resolves, and the service behind
  sees the identity of that session: a password or SMS session signed for this very project, or a
  roaming one that satisfies the project's domain rule and stands for an account that may reach it,
  judged on the database the check ran on.
\<close>

theorem verify_admits:
  assumes "run_state (handleVerify c r) w = (rp, w')" and "rp_status rp = 200" and "query_get r ''project_id'' \<noteq> ''''"
  shows "\<exists>cl. resolveAuthClaims c (db_now (w_db w)) r = Some cl \<and> set (setUserHeaders cl) \<subseteq> set (rp_headers rp)
    \<and> (if is_project_session cl then cl_project cl = query_get r ''project_id'' \<and> w' = w
       else domain_rule r cl \<and> (\<exists>p u. fc_uuid c (query_get r ''project_id'') = Inr p
         \<and> session_account c (w_db w') cl u \<and> may_reach (w_db w') u p))"
proof -
  obtain cl where cl: "resolveAuthClaims c (db_now (w_db w)) r = Some cl"
    using assms(1,2) by (auto simp: handleVerify_def on_db_now redirectToLogin_status Let_def split: option.splits)
  show ?thesis
  proof (cases "is_project_session cl")
    case True
    then show ?thesis
      using assms cl by (auto simp: handleVerify_def on_db_now redirectToLogin_status Let_def is_project_session_def split: if_splits)
  next
    case False
    then obtain w1 rp1 where v: "run_state (verify_roaming c (db_now (w_db w)) r cl) w1 = (rp1, w')"
      and rp: "rp_status rp1 = 200" "set (rp_headers rp1) \<subseteq> set (rp_headers rp)"
      using assms cl by (auto simp: handleVerify_def on_db_now Let_def is_project_session_def split: if_splits prod.splits)
    from verify_roaming_admits [OF v rp(1)] rp(2) assms(3) cl False show ?thesis by auto
  qed
qed

section \<open>The address that Traefik calls\<close>

lemma Split_single: "sep \<notin> set s \<Longrightarrow> Split sep s = [s]"
  by (induction s) auto

lemma Split_more: "sep \<notin> set q \<Longrightarrow> Split sep (q @ sep # r) = q # Split sep r"
  by (induction q) auto

lemma Cut_at: "sep \<notin> set a \<Longrightarrow> Cut sep (a @ sep # b) = (a, b)"
  by (induction a) auto

lemma QueryUnescape_plain: "CHR ''%'' \<notin> set s \<Longrightarrow> CHR ''+'' \<notin> set s \<Longrightarrow> QueryUnescape s = Some s"
  by (induction s) auto

text \<open>A text that a query carries as it is.\<close>

definition query_plain :: "string \<Rightarrow> bool" where
  "query_plain s \<longleftrightarrow> set s \<inter> {CHR ''&'', CHR '';'', CHR ''%'', CHR ''+''} = {}"

lemma parse_pair_plain:
  assumes "query_plain k" "CHR ''='' \<notin> set k" "query_plain v"
  shows "parse_pair (k @ CHR ''='' # v) = Some (k, v)"
  using assms by (auto simp: parse_pair_def query_plain_def Cut_at QueryUnescape_plain)

lemma query_plain_keys [simp]:
  "query_plain ''project_id''" "query_plain ''domains''" "CHR ''='' \<notin> set ''project_id''" "CHR ''='' \<notin> set ''domains''"
  by (simp_all add: query_plain_def)

lemma project_id_first:
  assumes "query_plain pid" "rest = [] \<or> hd rest = CHR ''&''"
  shows "query_parts (''project_id='' @ pid @ rest) = Some (''project_id'', pid) # query_parts (drop 1 rest)"
proof -
  have pair: "parse_pair (''project_id='' @ pid) = Some (''project_id'', pid)"
    using parse_pair_plain [of "''project_id''" pid] assms(1) by simp
  have amp: "CHR ''&'' \<notin> set (''project_id='' @ pid)"
    using assms(1) by (auto simp: query_plain_def)
  show ?thesis
  proof (cases rest)
    case Nil
    then show ?thesis using Split_single [OF amp] pair by (simp add: query_parts_def)
  next
    case (Cons x xs)
    then have "Split (CHR ''&'') (''project_id='' @ pid @ rest) = (''project_id='' @ pid) # Split (CHR ''&'') xs"
      using Split_more [OF amp, of xs] assms(2) by simp
    then show ?thesis using Cons pair by (simp add: query_parts_def)
  qed
qed

lemma url_Query_cons: "query_parts q = Some kv # query_parts q' \<Longrightarrow> url_Query q = kv # url_Query q'"
  by (simp add: url_Query_def)

lemma domains_pair:
  "CHR ''&'' \<notin> set allowed \<Longrightarrow> query_parts (''domains='' @ allowed) = [parse_pair (''domains='' @ allowed)]"
  using Split_single [of "CHR ''&''" "''domains='' @ allowed"] by (simp add: query_parts_def)

text \<open>
  The address that Traefik calls for a project is read back by \<open>/verify\<close> as it was meant: the project
  id is that project's, whatever its owner wrote as the allowed domains, and the domain rule is the
  owner's list when it has no character that a query treats specially. A list with a semicolon is not
  read at all: the project then runs without a domain rule.
\<close>

theorem verify_url_read:
  assumes "CHR ''?'' \<notin> set (rc_auth_url s)" and "query_plain pid"
  shows "(let q = url_Query (snd (Cut (CHR ''?'') (project_verify_url s pid allowed))) in
     values_Get q ''project_id'' = pid
     \<and> (query_plain allowed \<longrightarrow> values_Get q ''domains'' = allowed)
     \<and> (CHR '';'' \<in> set allowed \<and> CHR ''&'' \<notin> set allowed \<longrightarrow> values_Get q ''domains'' = ''''))"
proof -
  let ?q = "''project_id='' @ pid @ domains_param allowed"
  have cut: "snd (Cut (CHR ''?'') (project_verify_url s pid allowed)) = ?q"
  proof -
    have "CHR ''?'' \<notin> set (rc_auth_url s @ ''/verify'')" using assms(1) by simp
    from Cut_at [OF this, of ?q] show ?thesis by (simp add: project_verify_url_def)
  qed
  have q: "url_Query ?q = (''project_id'', pid) # url_Query (drop 1 (domains_param allowed))"
    by (rule url_Query_cons, rule project_id_first) (auto simp: domains_param_def assms(2))
  have dom: "url_Query (drop 1 (domains_param allowed)) =
      (if allowed = '''' then [] else case parse_pair (''domains='' @ allowed) of None \<Rightarrow> [] | Some kv \<Rightarrow> [kv])"
    if "CHR ''&'' \<notin> set allowed"
    using domains_pair [OF that] by (auto simp: url_Query_def domains_param_def query_parts_def split: option.splits)
  have plain: "parse_pair (''domains='' @ allowed) = Some (''domains'', allowed)" if "query_plain allowed"
    using parse_pair_plain [of "''domains''" allowed] that by simp
  have semi: "parse_pair (''domains='' @ allowed) = None" if "CHR '';'' \<in> set allowed"
    using that by (simp add: parse_pair_def)
  show ?thesis
    unfolding Let_def cut q using dom plain semi by (auto simp: values_Get_def query_plain_def)
qed

section \<open>Sessions\<close>

text \<open>
  C34: A session slides without changing: a renewed cookie, read back within its seven days, carries the
  claims of the cookie presented but for a later expiry; sessions of one project are never
  renewed, and no renewal happens within a day of the last.
\<close>

theorem session_slides:
  assumes "v \<in> set (renewSessionCookie c now r)"
    and "\<And>cl t. fc_parse c t (fc_sign c cl) = (case cl_expires cl of Some e \<Rightarrow> if t < e then Some cl else None | None \<Rightarrow> Some cl)"
  shows "\<exists>cl e e'. Option.bind (cookie_get r ''muvee_fwd_session'') (fc_parse c now) = Some cl \<and> cl_project cl = ''''
     \<and> cl_expires cl = Some e \<and> e \<le> now + hours (6 * 24) \<and> e' > now + hours (7 * 24) - seconds 1 \<and> e' \<le> now + hours (7 * 24) \<and> e < e'
     \<and> (\<forall>t < e'. fc_parse c t (sc_value v) = Some (cl\<lparr>cl_expires := Some e'\<rparr>)) \<and> fc_parse c e' (sc_value v) = None"
proof -
  let ?e' = "NewNumericDate (now + sessionLifetime)"
  obtain tok where a: "cookie_get r ''muvee_fwd_session'' = Some tok"
    using assms(1) by (cases "cookie_get r ''muvee_fwd_session''") (auto simp: renewSessionCookie_def)
  obtain cl where b: "fc_parse c now tok = Some cl"
    using assms(1) a by (cases "fc_parse c now tok") (auto simp: renewSessionCookie_def)
  obtain e where d: "cl_expires cl = Some e"
    using assms(1) a b by (cases "cl_expires cl") (auto simp: renewSessionCookie_def)
  have 1: "cookie_get r ''muvee_fwd_session'' = Some tok" "fc_parse c now tok = Some cl" "cl_expires cl = Some e"
    "cl_project cl = ''''" "\<not> e - now > sessionLifetime - sessionRenewAfter" "sc_value v = fc_sign c (cl\<lparr>cl_expires := Some ?e'\<rparr>)"
    using assms(1) a b d by (auto simp: renewSessionCookie_def session_cookie_def split: if_splits)
  have r: "now + hours (7 * 24) - seconds 1 < ?e'" "?e' \<le> now + hours (7 * 24)"
    unfolding NewNumericDate_def sessionLifetime_def duration_defs
    using pos_mod_bound [of 1000000000 "now + 604800000000000"] pos_mod_sign [of 1000000000 "now + 604800000000000"] by auto
  have e: "e \<le> now + hours (6 * 24)"
    using 1(5) by (simp add: sessionLifetime_def sessionRenewAfter_def duration_defs)
  then have "e < ?e'" using r(1) by (simp add: duration_defs)
  moreover have "\<forall>t < ?e'. fc_parse c t (sc_value v) = Some (cl\<lparr>cl_expires := Some ?e'\<rparr>)" "fc_parse c ?e' (sc_value v) = None"
    using 1(6) assms(2) by simp_all
  ultimately show ?thesis using 1(1-4) e r by (intro exI [of _ cl] exI [of _ e] exI [of _ ?e']) simp
qed

section \<open>The structured OAuth state\<close>

lemma IndexByte_at: "c \<notin> set p \<Longrightarrow> IndexByte (p @ c # s) c = Some (length p)"
  by (induction p) auto

lemma IndexByte_split: "IndexByte s c = Some i \<Longrightarrow> s = take i s @ c # drop (Suc i) s"
  by (induction s c arbitrary: i rule: IndexByte.induct) (auto split: if_splits)

text \<open>
  C36: A structured OAuth state is read back as it was signed, with the login token it carries, for ten
  minutes - but anybody can read it, without the key; and whatever the callback accepts carries the service's own MAC and is no older.
\<close>

theorem signed_state_roundtrip:
  assumes "\<And>cl. so_decode e (so_encode e cl) = Some cl" and "\<And>cl. CHR ''.'' \<notin> set (so_encode e cl)"
    and "run_state (signState e c0) w = (s, w')" and "sl_issued c0 = 0" and "now \<le> db_now (w_db w) + minutes 10"
  shows "\<exists>cl. verifyState e now s = Some cl \<and> sl_mode cl = sl_mode c0 \<and> sl_token cl = sl_token c0
     \<and> so_decode e (fst (Cut (CHR ''.'') s)) = Some cl
     \<and> (\<forall>s' now' cl'. verifyState e now' s' = Some cl' \<longrightarrow>
          (\<exists>p. s' = p @ ''.'' @ so_mac e p \<and> so_decode e p = Some cl' \<and> Unix now' \<le> sl_issued cl' + 600))"
proof -
  define nonce where "nonce = (if sl_nonce c0 = '''' then w_random w 16 (w_drawn w) else sl_nonce c0)"
  let ?cl = "c0\<lparr>sl_nonce := nonce, sl_issued := Unix (db_now (w_db w))\<rparr>"
  have t: "s = so_encode e ?cl @ CHR ''.'' # so_mac e (so_encode e ?cl)"
  proof (cases "sl_nonce c0 = ''''")
    case True
    then show ?thesis using assms(3,4) by (auto simp: signState_def Let_def draw_def on_db_now nonce_def on_db_run)
  next
    case False
    then have "sl_nonce c0 = nonce" "run_state (signState e c0) w = (so_encode e ?cl @ CHR ''.'' # so_mac e (so_encode e ?cl), w)"
      using assms(4) by (simp_all add: signState_def Let_def on_db_now nonce_def)
    then show ?thesis using assms(3) by simp
  qed
  have "Unix now \<le> Unix (db_now (w_db w)) + 600"
    using zdiv_mono1 [OF assms(5), of "seconds 1"] by (simp add: Unix_def duration_defs)
  then have 1: "verifyState e now s = Some (?cl)"
    unfolding t verifyState_def IndexByte_at [OF assms(2)] by (simp add: Let_def assms(1) stateMaxAge_def)
  have 2: "\<exists>p. s' = p @ ''.'' @ so_mac e p \<and> so_decode e p = Some cl' \<and> Unix now' \<le> sl_issued cl' + 600"
    if v: "verifyState e now' s' = Some cl'" for s' now' cl'
  proof -
    obtain i where i: "IndexByte s' (CHR ''.'') = Some i"
      using v by (cases "IndexByte s' (CHR ''.'')") (auto simp: verifyState_def)
    then have "so_mac e (take i s') = drop (Suc i) s'" "so_decode e (take i s') = Some cl'" "Unix now' \<le> sl_issued cl' + 600"
      using v by (auto simp: verifyState_def Let_def stateMaxAge_def split: option.splits if_splits)
    then show ?thesis using IndexByte_split [OF i] by (intro exI [of _ "take i s'"]) simp
  qed
  show ?thesis by (intro exI [of _ "?cl"] conjI allI impI 1 2)
    (simp_all add: t Cut_at assms(1,2))
qed

section \<open>Secondary base domains\<close>

text \<open>
  A site served under a secondary base domain loses its own login configuration: muvee-server
  recognises prefixes under its first base domain only, so the login page of such a host offers every
  configured provider and neither password nor phone, whatever the project allows.
\<close>

theorem secondary_base_unrecognised:
  assumes "db_faults (w_db w) = []" and "inboundHost r \<noteq> ''''" and "\<not> HasSuffix (inboundHost r) (''.'' @ ToLower base)"
    and "\<forall>a \<in> set (aliases (w_db w)). pa_host a \<noteq> inboundHost r" and "query_get r ''provider'' = ''''" and "length (fc_providers c) \<noteq> 1"
  shows "\<exists>rp w'. run_state (handleLoginPage c base r) w = (rp, w')
    \<and> (\<exists>err. rp_page rp = LoginPage (map fst (fc_providers c)) False False err)"
proof -
  have fold: "ToLower (TrimSpace (inboundHost r)) = inboundHost r"
    by (simp add: inboundHost_def Let_def TrimSpace_ToLower [symmetric])
  have none: "find (\<lambda>a. pa_host a = inboundHost r) (aliases (w_db w)) = None"
    using assms(4) by (auto simp: find_None_iff)
  have "\<exists>k e. run_state (handleInternalProjectByHost base (fc_server_key c) (fc_key c) (inboundHost r)) (w_db w) = (Inl (k, e), w_db w)"
    using assms(1-3) by (auto simp: handleInternalProjectByHost_def Let_def fold run_attempt internal_key_def require_def or_status_def
        GetProjectByAliasHost_def none run_ok)
  then have "config_or_none (fst (run_state (fetchProjectAuthConfigByHost c base (inboundHost r)) w)) = None"
    by (auto simp: fetchProjectAuthConfigByHost_def not_found_none_def upstream_def handleInternalProjectByHost_config_def
        run_attempt on_db_runs config_or_none_def)
  then obtain found w1 where f: "run_state (fetchProjectAuthConfigByHost c base (inboundHost r)) w = (found, w1)" "config_or_none found = None"
    by (metis prod.collapse)
  show ?thesis
    using assms(5,6) f by (auto simp: handleLoginPage_def Let_def on_db_now allowedProvidersFromConfig_def)
qed

end
