(* ===== verification/Demo_Facts.thy ===== *)
theory Demo_Facts
  imports Forward_Calculus
begin

text \<open>
  What the project-site sign-ins guarantee: a phone number has one canonical spelling, and no phone is
  sent more codes than the limits allow as long as the database answers.
\<close>

declare run_attempt [simp] run_ok [simp]

section \<open>Phone numbers\<close>

definition canonical_phone :: "string \<Rightarrow> bool" where
  "canonical_phone p \<longleftrightarrow> HasPrefix p ''+'' \<and> isDigits (drop 1 p) \<and> 8 \<le> length (drop 1 p) \<and> length (drop 1 p) \<le> 15
     \<and> (HasPrefix (drop 1 p) ''86'' \<longrightarrow> cnMobile (drop 3 p))"

lemma digit_not_space: "digit c \<Longrightarrow> \<not> is_space c \<and> c \<notin> {CHR '' '', CHR ''-'', CHR ''('', CHR '')''}"
  by (auto simp: digit_def is_space_def less_eq_char_def)

lemma cnMobile_digits: "cnMobile s \<Longrightarrow> isDigits s \<and> length s = 11"
  by (auto simp: cnMobile_def isDigits_def)

lemma canonical_fixed:
  assumes "canonical_phone p"
  shows "NormalizePhone p = Some p"
proof -
  obtain ds where p: "p = CHR ''+'' # ds" using assms by (cases p) (auto simp: canonical_phone_def HasPrefix_def)
  have d: "ds \<noteq> []" "\<forall>c \<in> set ds. digit c" "8 \<le> length ds" "length ds \<le> 15" "HasPrefix ds ''86'' \<Longrightarrow> cnMobile (drop 2 ds)"
    using assms p by (auto simp: canonical_phone_def isDigits_def list_all_iff)
  have "TrimSpace p = p"
    using p d(1,2) digit_not_space last_in_set [OF d(1)] by (intro TrimSpace_fixed) (auto simp: is_space_def)
  moreover have "filter (\<lambda>c. c \<notin> {CHR '' '', CHR ''-'', CHR ''('', CHR '')''}) p = p"
    using p d(2) digit_not_space by (auto intro!: filter_True)
  moreover have "''86'' @ drop 2 ds = ds" if "HasPrefix ds ''86''"
    using that by (metis HasPrefix_iff TrimPrefix_append append_eq_conv_conj length_Cons list.size(3) numeral_2_eq_2)
  ultimately show ?thesis
    using d unfolding NormalizePhone_def Let_def by (auto simp: p HasPrefix_def isDigits_def list_all_iff)
qed

lemma mobile_canonical: "cnMobile s \<Longrightarrow> canonical_phone (''+86'' @ s)"
  by (auto simp: canonical_phone_def HasPrefix_def cnMobile_def isDigits_def digit_def less_eq_char_def)

text \<open>
  Whatever a person types, an accepted phone number is in the canonical form - a plus sign and eight
  to fifteen digits, with an eleven-digit mobile number after the Chinese country code - and
  normalising it again changes nothing.
\<close>

theorem NormalizePhone_canonical:
  assumes "NormalizePhone raw = Some p"
  shows "canonical_phone p \<and> NormalizePhone p = Some p"
proof -
  let ?s = "filter (\<lambda>c. c \<notin> {CHR '' '', CHR ''-'', CHR ''('', CHR '')''}) (TrimSpace raw)"
  have "canonical_phone p"
  proof (cases "HasPrefix ?s ''+''")
    case True
    let ?d = "drop 1 ?s"
    have d: "isDigits ?d" "8 \<le> length ?d" "length ?d \<le> 15"
      using assms True by (auto simp: NormalizePhone_def Let_def split: if_splits)
    show ?thesis
    proof (cases "HasPrefix ?d ''86''")
      case cn: True
      then have "cnMobile (drop 2 ?d)" "p = ''+86'' @ drop 2 ?d"
        using assms True by (auto simp: NormalizePhone_def Let_def split: if_splits)
      then show ?thesis using mobile_canonical by blast
    next
      case False
      then have "p = CHR ''+'' # ?d"
        using assms True by (auto simp: NormalizePhone_def Let_def split: if_splits)
      then show ?thesis using d False by (simp add: canonical_phone_def HasPrefix_def)
    qed
  next
    case False
    then obtain s where "cnMobile s" "p = ''+86'' @ s"
      using assms by (simp add: NormalizePhone_def Let_def split: if_splits)
    then show ?thesis using mobile_canonical by blast
  qed
  then show ?thesis using canonical_fixed by blast
qed

section \<open>The limits on codes\<close>

text \<open>At most \<open>n\<close> of the codes of one phone in any window of length \<open>d\<close>.\<close>

definition budget :: "time \<Rightarrow> nat \<Rightarrow> (string \<times> time) list \<Rightarrow> bool" where
  "budget d n sent \<longleftrightarrow> (\<forall>phone t. length (filter (\<lambda>(q, u). q = phone \<and> t \<le> u \<and> u \<le> t + d) sent) \<le> n)"

lemma budget_Nil: "budget d n []"
  by (simp add: budget_def)

lemma length_filter_mono: "(\<And>x. P x \<Longrightarrow> Q x) \<Longrightarrow> length (filter P xs) \<le> length (filter Q xs)"
  by (induction xs) auto

lemma budget_snoc:
  assumes "budget d n sent" and "length (filter (\<lambda>(q, u). q = p \<and> now - d \<le> u) sent) < n"
  shows "budget d n (sent @ [(p, now)])"
  unfolding budget_def
proof (intro allI)
  fix phone :: string and t
  let ?in = "\<lambda>(q, u). q = phone \<and> t \<le> u \<and> u \<le> t + d"
  have old: "length (filter ?in sent) \<le> n" using assms(1) by (simp add: budget_def)
  show "length (filter ?in (sent @ [(p, now)])) \<le> n"
  proof (cases "phone = p \<and> t \<le> now \<and> now \<le> t + d")
    case True
    then have "length (filter ?in sent) \<le> length (filter (\<lambda>(q, u). q = p \<and> now - d \<le> u) sent)"
      by (intro length_filter_mono) auto
    then show ?thesis using assms(2) True by simp
  next
    case False
    then show ?thesis using old by auto
  qed
qed

definition sent_ok :: "fwd_world \<Rightarrow> bool" where
  "sent_ok w \<longleftrightarrow> db_faults (w_db w) = [] \<and> w_sent w = map (\<lambda>x. (ss_phone x, ss_created x)) (w_ledger w)
     \<and> budget smsResendInterval 1 (w_sent w) \<and> budget (hours 24) smsDailySendCap (w_sent w)"

text \<open>What happens to codes while the database answers: a send of a project's site or of the platform, or anything else.\<close>

inductive sms_step :: "account_cfg \<Rightarrow> sms_cfg \<Rightarrow> string \<Rightarrow> fwd_world \<Rightarrow> fwd_world \<Rightarrow> bool" for k m env where
  site: "run_state (handleInternalAuthSMSSendCode k m got body) w = (r, w') \<Longrightarrow> sms_step k m env w w'"
| platform: "run_state (handlePlatformSMSSendCode env m raw) w = (r', w') \<Longrightarrow> sms_step k m env w w'"
| elsewhere: "w_ledger w' = w_ledger w \<Longrightarrow> w_sent w' = w_sent w \<Longrightarrow> db_faults (w_db w') = [] \<Longrightarrow> sms_step k m env w w'"

lemma keeps_send_code: "keeps sent_ok (send_code m pid phone)"
proof (rule keepsI)
  fix w assume I: "sent_ok w"
  then have f: "db_faults (w_db w) = []" by (simp add: sent_ok_def)
  let ?now = "db_now (w_db w)"
  let ?n = "\<lambda>d. length (filter (\<lambda>x. ss_phone x = phone \<and> ?now - d \<le> ss_created x) (w_ledger w))"
  have cnt: "run_state (CountSMSCodesSince phone (?now - d)) w = (Inr (?n d), w)" for d
    by (simp add: CountSMSCodesSince_def wsql_nofault f)
  have w: "w_sent w = map (\<lambda>x. (ss_phone x, ss_created x)) (w_ledger w)" using I by (simp add: sent_ok_def)
  have lim: "budget d n (w_sent w) \<Longrightarrow> ?n d < n \<Longrightarrow> budget d n (w_sent w @ [(phone, ?now)])" for d n
    by (rule budget_snoc) (simp_all add: w filter_map o_def)
  show "sent_ok (snd (run_state (send_code m pid phone) w))"
  proof (cases "?n smsResendInterval = 0 \<and> ?n (hours 24) < smsDailySendCap")
    case True
    let ?x = "\<lparr>ss_phone = phone, ss_project = pid, ss_created = ?now\<rparr>"
    have lim1: "run_state (smsRateLimited phone) w = (Inr (), w)"
      using True by (simp add: smsRateLimited_def on_db_runs w_status_def w_require_def cnt)
    show ?thesis
    proof (cases "sm_send m phone ?now")
      case (Inl e)
      then show ?thesis using I lim1 by (simp add: send_code_def w_status_def SendCode_def on_db_runs)
    next
      case (Inr u)
      let ?w1 = "w\<lparr>w_sent := w_sent w @ [(phone, ?now)]\<rparr>"
      let ?fin = "snd (run_state (w_status 500 (RecordSMSSend pid phone)) ?w1)"
      have "run_state (w_status 502 (SendCode m phone)) w = (Inr (), ?w1)"
        using Inr by (simp add: w_status_def SendCode_def on_db_runs)
      then have run: "snd (run_state (send_code m pid phone) w) = ?fin"
        by (simp add: send_code_def run_attempt lim1)
      have e: "w_ledger ?fin = w_ledger w @ [?x]" "w_sent ?fin = w_sent w @ [(phone, ?now)]" "db_faults (w_db ?fin) = []"
        by (simp_all add: w_status_def RecordSMSSend_def on_db_runs wsql_nofault f run_attempt)
      have b: "budget smsResendInterval 1 (w_sent w @ [(phone, ?now)])" "budget (hours 24) smsDailySendCap (w_sent w @ [(phone, ?now)])"
      proof -
        have "budget smsResendInterval 1 (w_sent w)" "budget (hours 24) smsDailySendCap (w_sent w)" using I unfolding sent_ok_def by blast+
        moreover have "?n smsResendInterval < 1" "?n (hours 24) < smsDailySendCap" using True by simp_all
        ultimately show "budget smsResendInterval 1 (w_sent w @ [(phone, ?now)])" "budget (hours 24) smsDailySendCap (w_sent w @ [(phone, ?now)])"
          by (blast intro: lim)+
      qed
      have m: "w_sent w @ [(phone, ?now)] = map (\<lambda>x. (ss_phone x, ss_created x)) (w_ledger w @ [?x])"
        by (simp add: w)
      show ?thesis unfolding sent_ok_def run e using b m by blast
    qed
  next
    case False
    then have "snd (run_state (smsRateLimited phone) w) = w" "\<exists>e. fst (run_state (smsRateLimited phone) w) = Inl e"
      by (auto simp: smsRateLimited_def on_db_runs w_status_def w_require_def cnt)
    then show ?thesis using I by (cases "run_state (smsRateLimited phone) w") (auto simp: send_code_def)
  qed
qed

lemma keeps_on_db_sent [keeps_intros]: "keeps (\<lambda>s. db_faults s = []) m \<Longrightarrow> keeps sent_ok (on_db m)"
  by (auto simp: keeps_def on_db_runs sent_ok_def)

lemma keeps_faults [keeps_intros]:
  "keeps (\<lambda>s. db_faults s = []) (query f)" "keeps (\<lambda>s. db_faults s = []) time_Now"
  by (simp_all add: keeps_def)

lemma sms_step_keeps:
  assumes "sms_step k m env w w'" "sent_ok w"
  shows "sent_ok w'"
  using assms
proof (cases rule: sms_step.cases)
  case (site got body r)
  have "keeps sent_ok (handleInternalAuthSMSSendCode k m got body)"
    unfolding handleInternalAuthSMSSendCode_def GetProject_def by (intro keeps_intros keeps_send_code)
  from keepsE [OF this assms(2) site] show ?thesis .
next
  case (platform raw r')
  have "keeps sent_ok (handlePlatformSMSSendCode env m raw)"
    unfolding handlePlatformSMSSendCode_def platformPhoneLoginEnabled_def GetSetting_def by (intro keeps_intros keeps_send_code)
  from keepsE [OF this assms(2) platform] show ?thesis .
next
  case elsewhere
  show ?thesis using assms(2) elsewhere(3) unfolding sent_ok_def elsewhere(1,2) by blast
qed


end
