(* ===== verification/Flow_Facts.thy ===== *)
theory Flow_Facts
  imports Demo_Facts
begin

text \<open>
  What the sign-in flows of the forward-auth service sign: every session and every command-line token
  goes back to an identity that a configured provider, a password account or an SMS code has proved,
  over any interleaving of the flows; and the structured OAuth state is read back as it was signed.
\<close>

declare run_attempt [simp del] run_ok [simp del]

section \<open>Reachable worlds\<close>

definition vouched :: "fwd_cfg \<Rightarrow> string \<Rightarrow> string \<Rightarrow> string \<Rightarrow> bool" where
  "vouched c prov email name \<longleftrightarrow> (\<exists>p code st redir sub avatar. map_of (fc_providers c) prov = Some p
     \<and> fp_info p code st redir = Inr (sub, email, name, avatar))"

definition flows_ok :: "fwd_cfg \<Rightarrow> fwd_world \<Rightarrow> bool" where
  "flows_ok c w \<longleftrightarrow> (\<forall>e \<in> snd ` set (w_devices w). de_completed e \<longrightarrow> vouched c (de_provider e) (de_email e) (de_name e))
     \<and> (\<forall>e \<in> snd ` set (w_tokens w). le_status e = TokenSuccess \<longrightarrow> vouched c (le_provider_name e) (le_email e) (le_name e))"

text \<open>The claims of a signed text, and who stands behind them: a provider, an account or a code.\<close>

definition account_behind :: "account_cfg \<Rightarrow> password_account list \<Rightarrow> fwd_claims \<Rightarrow> bool" where
  "account_behind k accs cl \<longleftrightarrow> cl_provider cl = ''password'' \<and> (\<exists>a \<in> set accs. kc_parse k (cl_project cl) = Inr (pa_project_id a)
     \<and> \<not> pa_disabled a \<and> pa_email a = cl_email cl \<and> (\<exists>pw. kc_compare k (pa_hash a) pw))"

definition code_behind :: "sms_cfg \<Rightarrow> fwd_claims \<Rightarrow> bool" where
  "code_behind m cl \<longleftrightarrow> cl_provider cl = ''phone'' \<and> (\<exists>code now. sm_check m (cl_email cl) code now = Inr True)"

definition signed_ok :: "fwd_cfg \<Rightarrow> account_cfg \<Rightarrow> sms_cfg \<Rightarrow> password_account list \<Rightarrow> string \<Rightarrow> bool" where
  "signed_ok c k m accs tok \<longleftrightarrow> (\<exists>cl. tok = fc_sign c cl \<and>
     (cl_project cl = '''' \<and> vouched c (cl_provider cl) (cl_email cl) (cl_name cl) \<or> account_behind k accs cl \<or> code_behind m cl))"

definition issued_ok :: "fwd_cfg \<Rightarrow> account_cfg \<Rightarrow> sms_cfg \<Rightarrow> password_account list \<Rightarrow> http_reply \<Rightarrow> bool" where
  "issued_ok c k m accs rp \<longleftrightarrow>
     (\<forall>v \<in> set (rp_cookies rp). sc_name v = ''muvee_fwd_session'' \<longrightarrow> signed_ok c k m accs (sc_value v))
     \<and> (case rp_page rp of AccessToken tok _ \<Rightarrow> signed_ok c k m accs tok | _ \<Rightarrow> True)"

inductive flow_step :: "fwd_cfg \<Rightarrow> account_cfg \<Rightarrow> sms_cfg \<Rightarrow> state_codec \<Rightarrow> string \<Rightarrow> fwd_world \<Rightarrow> http_reply \<Rightarrow> fwd_world \<Rightarrow> bool"
  for c k m e base where
  password: "run_state (handlePasswordLogin c k base r) w = (rp, w') \<Longrightarrow> flow_step c k m e base w rp w'"
| sms_send: "run_state (handleSMSSend c k m base r) w = (rp, w') \<Longrightarrow> flow_step c k m e base w rp w'"
| sms_verify: "run_state (handleSMSVerify c k m base r) w = (rp, w') \<Longrightarrow> flow_step c k m e base w rp w'"
| token_create: "run_state (handleLoginTokenCreate c e base body r) w = (rp, w') \<Longrightarrow> flow_step c k m e base w rp w'"
| token_poll: "run_state (handleLoginTokenPoll body) w = (rp, w') \<Longrightarrow> flow_step c k m e base w rp w'"
| device_code: "run_state (handleDeviceCode c) w = (rp, w') \<Longrightarrow> flow_step c k m e base w rp w'"
| device_activate: "run_state (handleDeviceActivate c r) w = (rp, w') \<Longrightarrow> flow_step c k m e base w rp w'"
| device_token: "run_state (handleDeviceToken c r json) w = (rp, w') \<Longrightarrow> flow_step c k m e base w rp w'"
| callback: "run_state (handleOAuthCallback c e provider r) w = (rp, w') \<Longrightarrow> flow_step c k m e base w rp w'"
| token_expiry: "run_state (collect_token t) w = (u, w') \<Longrightarrow> flow_step c k m e base w (http_answer 200 NoBody) w'"
| device_expiry: "run_state (collect_device dc uc) w = (u, w') \<Longrightarrow> flow_step c k m e base w (http_answer 200 NoBody) w'"
| elsewhere: "w_devices w' = w_devices w \<Longrightarrow> w_tokens w' = w_tokens w \<Longrightarrow> flow_step c k m e base w (http_answer 200 NoBody) w'"

inductive flow_reach :: "fwd_cfg \<Rightarrow> account_cfg \<Rightarrow> sms_cfg \<Rightarrow> state_codec \<Rightarrow> string \<Rightarrow> fwd_world \<Rightarrow> bool" for c k m e base where
  start: "w_devices w = [] \<Longrightarrow> w_tokens w = [] \<Longrightarrow> flow_reach c k m e base w"
| step: "flow_reach c k m e base w \<Longrightarrow> flow_step c k m e base w rp w' \<Longrightarrow> flow_reach c k m e base w'"

section \<open>Frames\<close>

definition flow_inv :: "fwd_cfg \<Rightarrow> password_account list \<Rightarrow> fwd_world \<Rightarrow> bool" where
  "flow_inv c accs w \<longleftrightarrow> flows_ok c w \<and> w_accounts w = accs"

lemma flow_inv_frame:
  "w_devices w' = w_devices w \<Longrightarrow> w_tokens w' = w_tokens w \<Longrightarrow> w_accounts w' = w_accounts w \<Longrightarrow> flow_inv c accs w' = flow_inv c accs w"
  by (simp add: flow_inv_def flows_ok_def)

lemma keeps_on_db_flow [keeps_intros]: "keeps (flow_inv c accs) (on_db m)"
  by (auto simp: keeps_def on_db_runs flow_inv_def flows_ok_def)

lemma keeps_wsql_read: "keeps (flow_inv c accs) (wsql (\<lambda>w. Inr (g w, w)))"
  by (auto simp: keeps_def wsql_def Let_def flow_inv_def flows_ok_def split: prod.splits sum.splits)

lemma keeps_draw [keeps_intros]: "keeps (flow_inv c accs) (draw n)"
  by (simp add: keeps_def draw_def flow_inv_def flows_ok_def)

lemma keeps_not_found [keeps_intros]: "keeps I m \<Longrightarrow> keeps I (not_found_none m)"
  unfolding not_found_none_def by (intro keeps_intros)

lemma keeps_identity_of [keeps_intros]: "keeps I (identity_of u)"
  unfolding identity_of_def by (intro keeps_intros)

lemma keeps_fetch_config [keeps_intros]: "keeps (flow_inv c accs) (fetchProjectAuthConfigByHost cfg base host)"
  unfolding fetchProjectAuthConfigByHost_def handleInternalProjectByHost_config_def project_config_def CountEnabledProjectPasswordAccounts_def
  by (intro keeps_intros keeps_wsql_read)

lemma keeps_calls [keeps_intros]:
  "keeps (flow_inv c accs) (upsertUserUpstream cfg p s email n a)"
  "keeps (flow_inv c accs) (consumeInviteUpstream cfg p email n a t)"
  "keeps (flow_inv c accs) (consumeProjectInviteUpstream cfg uid t)"
  unfolding upsertUserUpstream_def consumeInviteUpstream_def consumeProjectInviteUpstream_def
  by (intro keeps_intros)+

lemma keeps_sync_identity [keeps_intros]: "keeps (flow_inv c accs) (sync_identity cfg it p s email n a)"
  unfolding sync_identity_def by (intro keeps_intros)

section \<open>Updates of the maps\<close>

lemma snd_update: "snd ` set (AList.update k v al) \<subseteq> insert v (snd ` set al)"
  by (induction al) auto

lemma snd_delete: "snd ` set (AList.delete k al) \<subseteq> snd ` set al"
  by (auto simp: AList.delete_eq)

lemma keeps_put_token:
  "(le_status x = TokenSuccess \<Longrightarrow> vouched c (le_provider_name x) (le_email x) (le_name x)) \<Longrightarrow> keeps (flow_inv c accs) (w_mod (put_token t x))"
  using snd_update [of t x] by (fastforce simp: keeps_def w_mod_def put_token_def flow_inv_def flows_ok_def)

lemma keeps_drop_token [keeps_intros]: "keeps (flow_inv c accs) (w_mod (drop_token t))"
  using snd_delete by (fastforce simp: keeps_def w_mod_def drop_token_def flow_inv_def flows_ok_def)

lemma keeps_change_token:
  "(\<And>x. le_status (f x) = TokenSuccess \<Longrightarrow> vouched c (le_provider_name (f x)) (le_email (f x)) (le_name (f x))) \<Longrightarrow>
   keeps (flow_inv c accs) (w_mod (change_token t f))"
  using snd_update [of t] by (fastforce simp: keeps_def w_mod_def change_token_def put_token_def flow_inv_def flows_ok_def split: option.split)

lemma keeps_mark_error [keeps_intros]: "keeps (flow_inv c accs) (markLoginTokenError t msg)"
  unfolding markLoginTokenError_def by (rule keeps_change_token) simp

lemma keeps_devices:
  "(\<And>w. w_tokens (f w) = w_tokens w \<and> w_accounts (f w) = w_accounts w
      \<and> (\<forall>x \<in> snd ` set (w_devices (f w)). x \<in> snd ` set (w_devices w) \<or> (de_completed x \<longrightarrow> vouched c (de_provider x) (de_email x) (de_name x))))
   \<Longrightarrow> keeps (flow_inv c accs) (w_mod f)"
  unfolding keeps_def w_mod_def flow_inv_def flows_ok_def by fastforce

lemma keeps_forget_device [keeps_intros]: "keeps (flow_inv c accs) (w_mod (forget_device dc uc))"
proof (rule keeps_devices, intro conjI ballI disjI1)
  fix w x assume "x \<in> snd ` set (w_devices (forget_device dc uc w))"
  then show "x \<in> snd ` set (w_devices w)" using snd_delete [of dc "w_devices w"] by (auto simp: forget_device_def)
qed (simp_all add: forget_device_def)

section \<open>Replies\<close>

lemma issued_plain [simp]:
  "issued_ok c k m accs (http_error code msg)" "issued_ok c k m accs (redirect_to code loc)"
  "issued_ok c k m accs (http_answer code pg) = (case pg of AccessToken tok _ \<Rightarrow> signed_ok c k m accs tok | _ \<Rightarrow> True)"
  by (simp_all add: issued_ok_def http_error_def redirect_to_def http_answer_def)

lemma issued_with_cookies [simp]:
  "issued_ok c k m accs (with_cookies cs rp) \<longleftrightarrow>
     (\<forall>v \<in> set cs. sc_name v = ''muvee_fwd_session'' \<longrightarrow> signed_ok c k m accs (sc_value v)) \<and> issued_ok c k m accs rp"
  by (auto simp: issued_ok_def with_cookies_def)

section \<open>Handlers\<close>

definition flow_good :: "fwd_cfg \<Rightarrow> account_cfg \<Rightarrow> sms_cfg \<Rightarrow> password_account list \<Rightarrow> (fwd_world, http_reply) state \<Rightarrow> bool" where
  "flow_good c k m accs h \<longleftrightarrow> valid (flow_inv c accs) h (\<lambda>rp w. flow_inv c accs w \<and> issued_ok c k m accs rp)"

lemma good_return: "issued_ok c k m accs rp \<Longrightarrow> flow_good c k m accs (State_Monad.return rp)"
  unfolding flow_good_def by (rule valid_return) simp

lemma good_bind: "keeps (flow_inv c accs) h \<Longrightarrow> (\<And>x. flow_good c k m accs (f x)) \<Longrightarrow> flow_good c k m accs (State_Monad.bind h f)"
  unfolding flow_good_def by (rule valid_bind_keeps)

lemma good_bind_result:
  "valid (flow_inv c accs) h (\<lambda>x w. flow_inv c accs w \<and> R x) \<Longrightarrow> (\<And>x. R x \<Longrightarrow> flow_good c k m accs (f x))
   \<Longrightarrow> flow_good c k m accs (State_Monad.bind h f)"
  unfolding flow_good_def by (rule valid_bind, assumption, rule valid_assume [where A = "R x" for x]) (auto elim: valid_pre)

lemma good_if: "(b \<Longrightarrow> flow_good c k m accs x) \<Longrightarrow> (\<not> b \<Longrightarrow> flow_good c k m accs y) \<Longrightarrow> flow_good c k m accs (if b then x else y)"
  by simp

lemma good_option:
  "(x = None \<Longrightarrow> flow_good c k m accs f) \<Longrightarrow> (\<And>y. x = Some y \<Longrightarrow> flow_good c k m accs (g y)) \<Longrightarrow>
   flow_good c k m accs (case x of None \<Rightarrow> f | Some y \<Rightarrow> g y)"
  by (cases x) auto

lemma good_sum:
  "(\<And>y. x = Inl y \<Longrightarrow> flow_good c k m accs (f y)) \<Longrightarrow> (\<And>y. x = Inr y \<Longrightarrow> flow_good c k m accs (g y)) \<Longrightarrow>
   flow_good c k m accs (case x of Inl y \<Rightarrow> f y | Inr y \<Rightarrow> g y)"
  by (cases x) auto

lemma good_prod: "(\<And>a b. x = (a, b) \<Longrightarrow> flow_good c k m accs (f a b)) \<Longrightarrow> flow_good c k m accs (case x of (a, b) \<Rightarrow> f a b)"
  by (cases x) auto

lemma good_token_status:
  "flow_good c k m accs a \<Longrightarrow> flow_good c k m accs b \<Longrightarrow> (\<And>x. flow_good c k m accs (f x)) \<Longrightarrow>
   flow_good c k m accs (case st of TokenPending \<Rightarrow> a | TokenSuccess \<Rightarrow> b | TokenError x \<Rightarrow> f x)"
  by (cases st) auto

lemmas good_intros = good_bind good_if good_option good_sum good_prod good_return

lemma session_cookie_ok [simp]: "sc_value (session_cookie c r v) = v" "sc_name (drop_cookie c r n) = n" "sc_name (short_cookie c r n v) = n"
  by (simp_all add: session_cookie_def drop_cookie_def short_cookie_def)

lemma issued_login_done [simp]: "issued_ok c k m accs (login_done cfg r code tok) \<longleftrightarrow> signed_ok c k m accs tok"
  by (auto simp: login_done_def session_cookie_def Let_def)

lemma vouched_signed:
  "vouched c prov email name \<Longrightarrow> signed_ok c k m accs (signForwardJWTWithExpiry c u email name av prov ex now)"
  "vouched c prov email name \<Longrightarrow> signed_ok c k m accs (signForwardJWT c u email name av prov now)"
  by (auto simp: signed_ok_def signForwardJWT_def signForwardJWTWithExpiry_def forward_claims_def
      intro!: exI [of _ "forward_claims u email name av prov ex now" for ex])

lemma good_device_code: "flow_good c k m accs (handleDeviceCode cfg)"
  unfolding handleDeviceCode_def
proof (intro good_intros keeps_intros)
  fix dc uc now
  show "keeps (flow_inv c accs) (w_mod (\<lambda>w. w\<lparr>w_devices := AList.update dc \<lparr>de_user_code = uc, de_email = '''', de_user = '''', de_name = '''',
      de_avatar = '''', de_provider = '''', de_expires = now + deviceCodeExpiry, de_completed = False\<rparr> (w_devices w),
      w_by_user := AList.update uc dc (w_by_user w)\<rparr>))"
  proof (rule keeps_devices, intro conjI ballI)
    fix w x
    let ?e = "\<lparr>de_user_code = uc, de_email = '''', de_user = '''', de_name = '''', de_avatar = '''', de_provider = '''',
      de_expires = now + deviceCodeExpiry, de_completed = False\<rparr>"
    assume "x \<in> snd ` set (w_devices (w\<lparr>w_devices := AList.update dc ?e (w_devices w), w_by_user := AList.update uc dc (w_by_user w)\<rparr>))"
    then show "x \<in> snd ` set (w_devices w) \<or> (de_completed x \<longrightarrow> vouched c (de_provider x) (de_email x) (de_name x))"
      using snd_update [of dc ?e "w_devices w"] by auto
  qed simp_all
qed simp

lemma good_token_create: "flow_good c k m accs (handleLoginTokenCreate cfg e base body r)"
  unfolding handleLoginTokenCreate_def mint_token_def signState_def Let_def
  by (intro good_intros keeps_intros keeps_put_token) (simp_all add: project_auth_config.splits)

lemma good_token_poll: "flow_good c k m accs (handleLoginTokenPoll body)"
  unfolding handleLoginTokenPoll_def Let_def
  by (intro good_intros keeps_intros good_token_status) simp_all

section \<open>Codes and passwords\<close>

lemma keeps_wsql_frame:
  "(\<And>w x w'. f w = Inr (x, w') \<Longrightarrow> w_devices w' = w_devices w \<and> w_tokens w' = w_tokens w \<and> w_accounts w' = w_accounts w) \<Longrightarrow>
   keeps (flow_inv c accs) (wsql f)"
  by (fastforce simp: keeps_def wsql_def Let_def flow_inv_def flows_ok_def split: prod.splits sum.splits)

lemma keeps_sms_send: "keeps (flow_inv c accs) (handleInternalAuthSMSSendCode k' m' key body)"
proof -
  have "keeps (flow_inv c accs) (SendCode m' phone)" for phone
    unfolding SendCode_def by (intro keeps_intros) (simp add: keeps_def flow_inv_def flows_ok_def)
  moreover have "keeps (flow_inv c accs) (RecordSMSSend pid phone)" for pid phone
    unfolding RecordSMSSend_def by (intro keeps_intros keeps_wsql_frame) auto
  moreover have "keeps (flow_inv c accs) (smsRateLimited phone)" for phone
    unfolding smsRateLimited_def CountSMSCodesSince_def by (intro keeps_intros keeps_wsql_read)
  ultimately show ?thesis
    unfolding handleInternalAuthSMSSendCode_def send_code_def by (intro keeps_intros)
qed

lemma good_sms_send: "flow_good c k m accs (handleSMSSend cfg k' m' base r)"
  unfolding handleSMSSend_def by (intro good_intros keeps_intros keeps_sms_send) (simp_all split: sum.split)

lemma code_checked:
  assumes "run_state (verifySMSUpstream cfg k m pid phone code) w = (Inr (Some (uid, p)), w')"
  shows "\<exists>code now. sm_check m p code now = Inr True"
proof -
  obtain w1 where "run_state (handleInternalAuthSMSVerify k m (fc_key cfg) (Inr (pid, phone, code))) w = (Inr (uid, p), w1)"
    using assms by (auto simp: verifySMSUpstream_def upstream_def split: prod.splits sum.splits if_splits)
  then show ?thesis
    unfolding handleInternalAuthSMSVerify_def
    by (auto simp: w_inversions on_db_now split: option.split_asm sum.split_asm)
qed

lemma keeps_sms_verify: "keeps (flow_inv c accs) (verifySMSUpstream cfg k m pid phone code)"
  unfolding verifySMSUpstream_def handleInternalAuthSMSVerify_def by (intro keeps_intros)

lemma code_signed:
  "sm_check m p code now' = Inr True \<Longrightarrow> signed_ok c k m accs (signForwardProjectJWT c p p '''' ''phone'' pid now)"
  unfolding signed_ok_def signForwardProjectJWT_def code_behind_def
  by (intro exI conjI, rule refl) auto

lemma good_sms_tail:
  "flow_good c k m accs (do {
      res \<leftarrow> verifySMSUpstream c k m pid phone code;
      now \<leftarrow> on_db time_Now;
      State_Monad.return (case res of
          Inl _ \<Rightarrow> http_error 502 ''login failed''
        | Inr None \<Rightarrow> redirect_to 303 ''/_oauth/login?error=invalid_code''
        | Inr (Some (userID, phone)) \<Rightarrow> login_done c r 303 (signForwardProjectJWT c phone phone '''' ''phone'' pid now)) })"
proof (rule good_bind_result)
  show "valid (flow_inv c accs) (verifySMSUpstream c k m pid phone code)
      (\<lambda>x w. flow_inv c accs w \<and> (\<forall>uid p. x = Inr (Some (uid, p)) \<longrightarrow> (\<exists>code now. sm_check m p code now = Inr True)))"
    by (rule valid_keeps_result [OF keeps_sms_verify]) (auto dest: code_checked)
qed (intro good_intros keeps_intros, auto split: sum.split option.split intro: code_signed)

lemma good_sms_verify: "flow_good c k m accs (handleSMSVerify c k m base r)"
  unfolding handleSMSVerify_def by (intro good_sms_tail good_intros keeps_intros) simp_all

lemma answered_Inr:
  assumes "run_state (answer_password k pw v) w = (Inr (uid, username, email, name), w')"
  shows "\<exists>a. v = Some a \<and> \<not> pa_disabled a \<and> kc_compare k (pa_hash a) pw \<and> pa_email a = email"
  using assms by (auto simp: answer_password_def w_inversions Let_def split: option.split_asm if_split_asm)

lemma password_checked:
  assumes "run_state (verifyPasswordUpstream cfg k pid user pw) w = (Inr (Some (uid, username, email, name)), w')"
  shows "\<exists>a \<in> set (w_accounts w). kc_parse k pid = Inr (pa_project_id a) \<and> \<not> pa_disabled a \<and> pa_email a = email \<and> kc_compare k (pa_hash a) pw"
proof -
  obtain w1 where "run_state (handleInternalAuthPasswordLogin k (fc_key cfg) (Inr (pid, user, pw))) w = (Inr (uid, username, email, name), w1)"
    using assms by (auto simp: verifyPasswordUpstream_def upstream_def split: prod.splits sum.splits if_splits)
  then obtain i v w2 where i: "kc_parse k pid = Inr i"
    and q: "run_state (wsql (\<lambda>w. Inr (find (\<lambda>a. pa_project_id a = i \<and> pa_username a = normalizeDemoUsername user) (w_accounts w), w))) w = (Inr v, w2)"
    and v: "run_state (answer_password k pw v) w2 = (Inr (uid, username, email, name), w1)"
    unfolding handleInternalAuthPasswordLogin_def GetProjectPasswordAccountByUsername_def
    by (auto simp: w_inversions Let_def)
  from wsql_read_Inr [OF q] obtain a where a: "v = Some a" "find (\<lambda>a. pa_project_id a = i \<and> pa_username a = normalizeDemoUsername user) (w_accounts w) = Some a"
    using answered_Inr [OF v] by auto
  then show ?thesis using find_Some_mem [OF a(2)] i answered_Inr [OF v] by auto
qed

lemma keeps_verify_password: "keeps (flow_inv c accs) (verifyPasswordUpstream cfg k pid user pw)"
  unfolding verifyPasswordUpstream_def handleInternalAuthPasswordLogin_def GetProjectPasswordAccountByUsername_def answer_password_def
  by (intro keeps_intros keeps_wsql_read)

lemma password_signed:
  "a \<in> set accs \<Longrightarrow> kc_parse k pid = Inr (pa_project_id a) \<Longrightarrow> \<not> pa_disabled a \<Longrightarrow> pa_email a = email \<Longrightarrow> kc_compare k (pa_hash a) pw
   \<Longrightarrow> signed_ok c k m accs (signForwardPasswordJWT c email name av pid now)"
  unfolding signed_ok_def signForwardPasswordJWT_def signForwardProjectJWT_def account_behind_def
  by (intro exI conjI, rule refl) auto

lemma good_password_tail:
  "flow_good c k m accs (do {
      res \<leftarrow> verifyPasswordUpstream c k pid user pw;
      now \<leftarrow> on_db time_Now;
      State_Monad.return (case res of
          Inl _ \<Rightarrow> http_error 502 ''login failed''
        | Inr None \<Rightarrow> redirect_to 303 ''/_oauth/login?error=invalid_credentials''
        | Inr (Some (userID, username, email, name)) \<Rightarrow> login_done c r 303 (signForwardPasswordJWT c email name '''' pid now)) })"
proof (rule good_bind_result)
  show "valid (flow_inv c accs) (verifyPasswordUpstream c k pid user pw) (\<lambda>x w. flow_inv c accs w \<and> (\<forall>uid un email name.
      x = Inr (Some (uid, un, email, name)) \<longrightarrow> (\<exists>a \<in> set accs. kc_parse k pid = Inr (pa_project_id a) \<and> \<not> pa_disabled a
        \<and> pa_email a = email \<and> kc_compare k (pa_hash a) pw)))"
    by (rule valid_keeps_result [OF keeps_verify_password]) (use password_checked in \<open>fastforce simp: flow_inv_def\<close>)
qed (intro good_intros keeps_intros, auto split: sum.split option.split intro: password_signed)

lemma good_password: "flow_good c k m accs (handlePasswordLogin c k base r)"
  unfolding handlePasswordLogin_def by (intro good_password_tail good_intros keeps_intros) simp_all

section \<open>Callbacks\<close>

lemma good_device_token: "flow_good c k m accs (handleDeviceToken c r json)"
proof -
  have entry: "valid (flow_inv c accs) (w_get (\<lambda>w. map_of (w_devices w) dc)) (\<lambda>x w. flow_inv c accs w
      \<and> (\<forall>e. x = Some e \<and> de_completed e \<longrightarrow> vouched c (de_provider e) (de_email e) (de_name e)))" for dc
    by (rule valid_keeps_result [OF keeps_w_get]) (force simp: w_get_def flow_inv_def flows_ok_def dest: map_of_SomeD)
  show ?thesis
    unfolding handleDeviceToken_def Let_def
    by (rule good_if, (intro good_return, simp), rule good_bind_result [OF entry])
      (intro good_intros keeps_intros, auto intro: vouched_signed)
qed

lemma good_start_device: "flow_good c k m accs (startDeviceOAuth cfg r uc name)"
  unfolding startDeviceOAuth_def Let_def
  by (intro good_intros keeps_intros keeps_devices) simp_all

lemma good_device_activate: "flow_good c k m accs (handleDeviceActivate cfg r)"
  unfolding handleDeviceActivate_def Let_def
  by (intro good_start_device good_intros keeps_intros) simp_all

lemma vouchI: "map_of (fc_providers c) prov = Some p \<Longrightarrow> fp_info p code st redir = Inr (sub, email, name, av) \<Longrightarrow> vouched c prov email name"
  unfolding vouched_def by blast

lemma keeps_complete_device:
  assumes "vouched c prov email name"
  shows "keeps (flow_inv c accs) (w_mod (complete_device uc (\<lambda>e. e\<lparr>de_email := email, de_user := uid, de_name := name, de_avatar := av,
    de_provider := prov, de_completed := True\<rparr>)))"
proof (rule keeps_devices, intro conjI ballI)
  fix w x
  let ?f = "\<lambda>e. e\<lparr>de_email := email, de_user := uid, de_name := name, de_avatar := av, de_provider := prov, de_completed := True\<rparr>"
  assume x: "x \<in> snd ` set (w_devices (complete_device uc ?f w))"
  have "x \<in> snd ` set (w_devices w) \<or> (\<exists>e. x = ?f e)"
  proof (cases "map_of (w_by_user w) uc")
    case None
    then show ?thesis using x by (simp add: complete_device_def)
  next
    case (Some dc)
    show ?thesis
    proof (cases "map_of (w_devices w) dc")
      case None
      then show ?thesis using x Some by (simp add: complete_device_def)
    next
      case e: (Some e)
      then have "x \<in> snd ` set (AList.update dc (?f e) (w_devices w))" using x Some by (simp add: complete_device_def)
      then show ?thesis using snd_update [of dc "?f e" "w_devices w"] by blast
    qed
  qed
  then show "x \<in> snd ` set (w_devices w) \<or> (de_completed x \<longrightarrow> vouched c (de_provider x) (de_email x) (de_name x))"
    using assms by auto
qed (simp_all add: complete_device_def split: option.split)

lemma good_finish:
  assumes "vouched c prov email name" "\<forall>v \<in> set cs. sc_name v \<noteq> ''muvee_fwd_session''"
  shows "flow_good c k m accs (finish_callback c r st cs uid email name av prov)"
  unfolding finish_callback_def
  by (intro good_intros keeps_intros keeps_complete_device keeps_devices) (use assms in \<open>auto intro: vouched_signed\<close>)

lemma good_token_callback:
  assumes "map_of (fc_providers c) prov = Some p"
  shows "flow_good c k m accs (handleLoginTokenCallback c r p prov t)"
  unfolding handleLoginTokenCallback_def Let_def
  by (intro good_intros keeps_intros) (use assms in \<open>auto intro!: keeps_change_token vouched_signed intro: vouchI\<close>)

lemma good_oauth_callback:
  assumes "map_of (fc_providers c) prov = Some p"
  shows "flow_good c k m accs (oauth_callback c r p prov)"
  unfolding oauth_callback_def Let_def
  by (intro good_finish good_intros keeps_intros)
    (use assms in \<open>auto intro: vouchI simp: clearInviteTokenCookie_def inviteTokenCookieName_def\<close>)

lemma good_callback: "flow_good c k m accs (handleOAuthCallback c e prov r)"
  unfolding handleOAuthCallback_def
  by (intro good_token_callback good_oauth_callback good_intros keeps_intros) (auto intro: good_token_callback good_oauth_callback)

section \<open>Every signature has somebody behind it\<close>

lemma good_step: "flow_good c k m (w_accounts w) h \<Longrightarrow> flows_ok c w \<Longrightarrow> run_state h w = (rp, w') \<Longrightarrow>
  flows_ok c w' \<and> issued_ok c k m (w_accounts w) rp"
  by (auto simp: flow_good_def flow_inv_def dest: validD)

lemma flow_step_ok:
  assumes "flow_step c k m e base w rp w'" "flows_ok c w"
  shows "flows_ok c w' \<and> issued_ok c k m (w_accounts w) rp"
  using assms(1)
proof (cases rule: flow_step.cases)
  case (token_expiry t u)
  have "keeps (flow_inv c (w_accounts w)) (collect_token t)" unfolding collect_token_def by (rule keeps_drop_token)
  from keepsE [OF this _ token_expiry(2)] assms(2) show ?thesis by (simp add: token_expiry(1) flow_inv_def)
next
  case (device_expiry dc uc u)
  have "keeps (flow_inv c (w_accounts w)) (collect_device dc uc)" unfolding collect_device_def by (rule keeps_forget_device)
  from keepsE [OF this _ device_expiry(2)] assms(2) show ?thesis by (simp add: device_expiry(1) flow_inv_def)
next
  case elsewhere
  then show ?thesis using assms(2) by (simp add: flows_ok_def)
qed (erule good_step [OF good_password assms(2)] good_step [OF good_sms_send assms(2)] good_step [OF good_sms_verify assms(2)]
    good_step [OF good_token_create assms(2)] good_step [OF good_token_poll assms(2)] good_step [OF good_device_code assms(2)]
    good_step [OF good_device_activate assms(2)] good_step [OF good_device_token assms(2)] good_step [OF good_callback assms(2)])+

text \<open>
  C7: Whatever the order of sign-ins, device flows, login tokens and expiries, every session cookie and
  every command-line token that the forward-auth service signs names an identity that somebody proved:
  a configured provider vouched for address and name, or an enabled password account of that project
  matched, or the SMS provider accepted a code for that phone.
\<close>

theorem signatures_vouched:
  assumes "flow_reach c k m e base w" and "flow_step c k m e base w rp w'"
  shows "issued_ok c k m (w_accounts w) rp"
proof -
  have "flows_ok c w"
    using assms(1)
  proof induction
    case (start w)
    then show ?case by (simp add: flows_ok_def)
  next
    case (step w rp w')
    then show ?case using flow_step_ok by blast
  qed
  with assms(2) show ?thesis using flow_step_ok by blast
qed

end
