(* ===== verification/Forward_Runs.thy ===== *)
theory Forward_Runs
  imports Forward_Facts Flow_Facts Access_Runs Edge_Runs
begin

text \<open>
  Forward auth evaluated: the theorems of \<open>Forward_Facts\<close>, \<open>Demo_Facts\<close> and \<open>Flow_Facts\<close> at concrete
  requests, and an owner of a project who becomes an administrator of the console through a password
  account of the own site.
\<close>

declare run_attempt [simp del] run_ok [simp del]

section \<open>A stand-in for signed texts\<close>

text \<open>Fields written character by character in hexadecimal, joined by a bar; read back by \<open>QueryUnescape\<close>.\<close>

definition pct :: "string \<Rightarrow> string" where
  "pct s = concat (map percent s)"

definition write_fields :: "string list \<Rightarrow> string" where
  "write_fields fs = Join (map pct fs) ''|''"

definition read_fields :: "string \<Rightarrow> string list" where
  "read_fields t = map (\<lambda>x. opt_or '''' (QueryUnescape x)) (Split (CHR ''|'') t)"

lemma upper_hex_code: "k < 16 \<Longrightarrow> (of_char (upper_hex k) :: nat) = (if k < 10 then k + 48 else k + 55)"
  by (simp add: Forward_Web.upper_hex_def)

lemma upper_hex_value: "k < 16 \<Longrightarrow> hex_val (upper_hex k) = Some k"
  by (simp add: hex_val_def Let_def upper_hex_code)

lemma upper_hex_plain: "k < 16 \<Longrightarrow> upper_hex k \<noteq> CHR ''|'' \<and> upper_hex k \<noteq> CHR ''.''"
  using upper_hex_code [of k] by (auto split: if_split_asm)

lemma char_halves: "(of_char c :: nat) div 16 < 16" "(of_char c :: nat) mod 16 < 16"
proof -
  have "(of_char c :: nat) < 256" using of_char_mod_256 [of c, where 'a = nat] by (metis mod_less_divisor zero_less_numeral)
  then show "(of_char c :: nat) div 16 < 16" by (simp add: div_less_iff_less_mult)
qed simp

lemma unescape_pct [simp]: "QueryUnescape (pct s) = Some s"
proof (induction s)
  case (Cons c s)
  have "QueryUnescape (percent c @ pct s) = Some (c # s)"
    using Cons upper_hex_value [OF char_halves(1) [of c]] upper_hex_value [OF char_halves(2) [of c]]
    by (simp add: percent_def Let_def)
  then show ?case by (simp add: pct_def)
qed (simp add: pct_def)

lemma pct_plain: "CHR ''|'' \<notin> set (pct s)" "CHR ''.'' \<notin> set (pct s)"
proof -
  have "x \<notin> {CHR ''|'', CHR ''.''}" if x: "x \<in> set (percent c)" for x c
    using x upper_hex_plain [OF char_halves(1) [of c]] upper_hex_plain [OF char_halves(2) [of c]] by (auto simp: percent_def Let_def)
  then show "CHR ''|'' \<notin> set (pct s)" "CHR ''.'' \<notin> set (pct s)" by (fastforce simp: pct_def)+
qed

lemma read_write [simp]: "fs \<noteq> [] \<Longrightarrow> read_fields (write_fields fs) = fs"
proof -
  assume "fs \<noteq> []"
  then have "Split (CHR ''|'') (Join (map pct fs) ''|'') = map pct fs"
    using pct_plain(1) by (intro Split_Join) auto
  then show ?thesis by (simp add: read_fields_def write_fields_def o_def)
qed

lemma Join_chars: "c \<in> set (Join ps sep) \<Longrightarrow> c \<in> set sep \<or> (\<exists>p \<in> set ps. c \<in> set p)"
  by (induction ps sep rule: Join.induct) auto

lemma write_fields_plain: "CHR ''.'' \<notin> set (write_fields fs)"
  using Join_chars [of "CHR ''.''" "map pct fs" "''|''"] pct_plain(2) by (auto simp: write_fields_def)

definition write_int :: "int \<Rightarrow> string list" where
  "write_int i = [if i < 0 then ''-'' else '''', show_nat (nat \<bar>i\<bar>)]"

definition read_int :: "string \<Rightarrow> string \<Rightarrow> int" where
  "read_int sg ds = (if sg = ''-'' then - int (read_nat ds) else int (read_nat ds))"

definition plain_sign :: "fwd_claims \<Rightarrow> string" where
  "plain_sign cl = write_fields ([cl_email cl, cl_user cl, cl_name cl, cl_avatar cl, cl_provider cl, cl_project cl]
     @ (case cl_expires cl of None \<Rightarrow> [] | Some e \<Rightarrow> write_int e))"

definition plain_parse :: "time \<Rightarrow> string \<Rightarrow> fwd_claims option" where
  "plain_parse now t = (case read_fields t of
       em # u # n # av # pr # pj # rest \<Rightarrow>
         (let cl = \<lparr>cl_email = em, cl_user = u, cl_name = n, cl_avatar = av, cl_provider = pr, cl_project = pj, cl_expires = None\<rparr> in
          case rest of [] \<Rightarrow> Some cl
          | [sg, ds] \<Rightarrow> if now < read_int sg ds then Some (cl\<lparr>cl_expires := Some (read_int sg ds)\<rparr>) else None
          | _ \<Rightarrow> None)
     | _ \<Rightarrow> None)"

lemma read_write_int [simp]: "read_int (if i < 0 then ''-'' else '''') (show_nat (nat \<bar>i\<bar>)) = i"
  by (simp add: read_int_def)

lemma plain_codec: "plain_parse t (plain_sign cl) = (case cl_expires cl of Some e \<Rightarrow> if t < e then Some cl else None | None \<Rightarrow> Some cl)"
proof (cases "cl_expires cl")
  case None
  then show ?thesis by (cases cl) (simp add: plain_parse_def plain_sign_def)
next
  case (Some e)
  have "read_fields (plain_sign cl) = [cl_email cl, cl_user cl, cl_name cl, cl_avatar cl, cl_provider cl, cl_project cl,
      if e < 0 then ''-'' else '''', show_nat (nat \<bar>e\<bar>)]"
    using Some by (simp add: plain_sign_def write_int_def)
  then show ?thesis using Some by (cases cl) (simp add: plain_parse_def Let_def del: if_split)
qed

definition plain_codec_state :: state_codec where
  "plain_codec_state = \<lparr>so_encode = (\<lambda>cl. write_fields ([sl_mode cl, sl_token cl, sl_nonce cl] @ write_int (sl_issued cl))),
     so_decode = (\<lambda>t. case read_fields t of [m, k, n, sg, ds] \<Rightarrow> Some \<lparr>sl_mode = m, sl_token = k, sl_nonce = n, sl_issued = read_int sg ds\<rparr> | _ \<Rightarrow> None),
     so_mac = (\<lambda>p. ''sig'')\<rparr>"

lemma state_laws: "so_decode plain_codec_state (so_encode plain_codec_state cl) = Some cl" "CHR ''.'' \<notin> set (so_encode plain_codec_state cl)"
  by (simp_all add: plain_codec_state_def write_int_def write_fields_plain del: if_split)

section \<open>A service and its world\<close>

definition google :: fwd_provider where
  "google = \<lparr>fp_name = ''google'', fp_display = ''Google'', fp_auth_url = (\<lambda>st redir. ''https://accounts.example/?state='' @ st),
     fp_info = (\<lambda>code st redir. if code = ''good'' then Inr (''sub'', ''o@x.dev'', ''Olga'', '''') else Inl ''bad code'')\<rparr>"

definition feishu :: fwd_provider where
  "feishu = google\<lparr>fp_name := ''feishu'', fp_display := ''Feishu''\<rparr>"

definition edge_cfg :: fwd_cfg where
  "edge_cfg = \<lparr>fc_domain = ''muvee.dev'', fc_bases = [''muvee.dev'', ''alt.dev''], fc_auth_base = ''https://muvee.dev'',
     fc_admins = [''root@x.dev''], fc_key = ''k'', fc_server_key = ''k'', fc_up = (\<lambda>_. True), fc_parse = plain_parse, fc_sign = plain_sign,
     fc_providers = [(''google'', google), (''feishu'', feishu)], fc_url = \<lparr>url_Parse = (\<lambda>_. None), url_with_host = (\<lambda>_ h. h)\<rparr>, fc_uuid = Inr, fc_auth = door_cfg\<rparr>"

definition edge_accounts :: account_cfg where
  "edge_accounts = \<lparr>kc_mail_ok = (\<lambda>_. True), kc_hash = Inr, kc_compare = (\<lambda>h p. h = p), kc_parse = Inr, kc_key = ''k'', kc_auth = door_cfg\<rparr>"

definition edge_sms :: sms_cfg where
  "edge_sms = \<lparr>sm_send = (\<lambda>_ _. Inr ()), sm_check = (\<lambda>_ code _. Inr (code = ''123456''))\<rparr>"

definition edge_world :: fwd_world where
  "edge_world = \<lparr>w_db = door_db, w_accounts = [], w_ledger = [], w_devices = [], w_by_user = [], w_pending = [], w_tokens = [],
     w_random = (\<lambda>n i. CHR ''r'' # show_nat i), w_drawn = 0, w_sent = []\<rparr>"

definition edge_request :: http_request where
  "edge_request = \<lparr>hq_query = [], hq_headers = [], hq_cookies = [], hq_form = Inr [], hq_host = ''app.muvee.dev'', hq_tls = True\<rparr>"

section \<open>Through the door\<close>

definition olga :: fwd_claims where
  "olga = \<lparr>cl_email = ''o@x.dev'', cl_user = ''o'', cl_name = ''Olga'', cl_avatar = '''', cl_provider = ''google'', cl_project = '''',
     cl_expires = Some (hours 100)\<rparr>"

definition olga_request :: http_request where
  "olga_request = edge_request\<lparr>hq_query := [(''project_id'', ''p''), (''domains'', ''x.dev'')], hq_cookies := [(''muvee_fwd_session'', plain_sign olga)]\<rparr>"

lemma edge_codec [simp]: "fc_parse edge_cfg = plain_parse" "fc_sign edge_cfg = plain_sign"
  by (simp_all add: edge_cfg_def)

lemma olga_parses: "plain_parse 0 (plain_sign olga) = Some olga"
  unfolding plain_codec by (simp add: olga_def duration_defs)

lemma olga_cookie: "cookie_get olga_request ''muvee_fwd_session'' = Some (plain_sign olga)"
  by (simp add: cookie_get_def olga_request_def)

lemma olga_resolves: "resolveAuthClaims edge_cfg 0 olga_request = Some olga"
  by (simp add: resolveAuthClaims_def olga_cookie olga_parses)

lemma olga_queries: "query_get olga_request ''project_id'' = ''p''" "query_get olga_request ''domains'' = ''x.dev''"
  "extractInviteTokenFromForwardedURI olga_request = ''''"
  by (simp_all add: query_get_def values_Get_def olga_request_def edge_request_def extractInviteTokenFromForwardedURI_def header_get_def)

lemma olga_enters: "rp_status (fst (run_state (handleVerify edge_cfg olga_request) edge_world)) = 200"
proof -
  have "fst (run_state (checkProjectAccess edge_cfg ''p'' ''o@x.dev'' ''o'') edge_world) = Inr True" by code_simp
  then obtain w' where "run_state (checkProjectAccess edge_cfg ''p'' ''o@x.dev'' ''o'') edge_world = (Inr True, w')"
    by (metis prod.collapse)
  moreover have "emailMatchesDomains ''o@x.dev'' ''x.dev''"
    "db_now (w_db edge_world) = 0"
    by code_simp+
  moreover have "cl_email olga = ''o@x.dev''" "cl_user olga = ''o''" "cl_provider olga = ''google''" by (simp_all add: olga_def)
  ultimately show ?thesis
    by (simp add: handleVerify_def on_db_now Let_def olga_resolves olga_queries consume_in_place_def verify_roaming_def admit_def)
qed

lemma verify_admits_witness:
  "\<exists>u. may_reach (w_db (snd (run_state (handleVerify edge_cfg olga_request) edge_world))) u ''p'' \<and> u_email u = Some ''o@x.dev''"
proof -
  have q: "query_get olga_request ''project_id'' \<noteq> ''''" "query_get olga_request ''project_id'' = ''p''" "fc_uuid edge_cfg = Inr"
    by (simp_all add: olga_queries edge_cfg_def)
  have q4: "TrimSpace (ToLower ''o@x.dev'') = ''o@x.dev''" "db_now (w_db edge_world) = 0" by code_simp+
  from verify_admits [OF prod.collapse [symmetric] olga_enters q(1)] q q4 olga_resolves
  have "\<exists>p u. Inr ''p'' = (Inr p :: go_error + uuid) \<and> session_account edge_cfg (w_db (snd (run_state (handleVerify edge_cfg olga_request) edge_world))) olga u
    \<and> may_reach (w_db (snd (run_state (handleVerify edge_cfg olga_request) edge_world))) u p"
    by (simp add: is_project_session_def olga_def)
  then obtain u where "session_account edge_cfg (w_db (snd (run_state (handleVerify edge_cfg olga_request) edge_world))) olga u"
    "may_reach (w_db (snd (run_state (handleVerify edge_cfg olga_request) edge_world))) u ''p''"
    by auto
  moreover have "u_email u = Some ''o@x.dev''"
    using calculation(1) q4(1) by (auto simp: session_account_def olga_def dest: find_Some_mem)
  ultimately show ?thesis by blast
qed

lemma verify_url_read_witness:
  "values_Get (url_Query (snd (Cut (CHR ''?'') (project_verify_url sample_route_cfg ''p'' ''x.dev,y.dev'')))) ''domains'' = ''x.dev,y.dev''
   \<and> values_Get (url_Query (snd (Cut (CHR ''?'') (project_verify_url sample_route_cfg ''p'' ''x.dev;y.dev'')))) ''domains'' = ''''"
proof -
  have a: "CHR ''?'' \<notin> set (rc_auth_url sample_route_cfg)" "query_plain ''p''" "query_plain ''x.dev,y.dev''"
    by (simp_all add: sample_route_cfg_def query_plain_def)
  show ?thesis
    using verify_url_read [OF a(1,2), of "''x.dev,y.dev''"] verify_url_read [OF a(1,2), of "''x.dev;y.dev''"] a(3)
    by (simp add: Let_def)
qed

lemma olga_renewed: "renewSessionCookie edge_cfg 0 olga_request = [session_cookie edge_cfg olga_request
    (plain_sign (olga\<lparr>cl_expires := Some (hours 168)\<rparr>))]"
proof -
  have "cl_expires olga = Some (hours 100)" "cl_project olga = ''''" "\<not> hours 100 - 0 > sessionLifetime - sessionRenewAfter"
    "NewNumericDate (0 + sessionLifetime) = hours 168"
    by (simp_all add: olga_def duration_defs sessionLifetime_def sessionRenewAfter_def NewNumericDate_def)
  then show ?thesis by (simp add: renewSessionCookie_def olga_cookie olga_parses)
qed

lemma session_slides_witness:
  "\<exists>cl. fc_parse edge_cfg 0 (sc_value (hd (renewSessionCookie edge_cfg 0 olga_request))) = Some cl \<and> cl_email cl = ''o@x.dev''"
proof -
  have mem: "hd (renewSessionCookie edge_cfg 0 olga_request) \<in> set (renewSessionCookie edge_cfg 0 olga_request)"
    by (simp add: olga_renewed)
  have codec: "fc_parse edge_cfg t (fc_sign edge_cfg cl) = (case cl_expires cl of Some e \<Rightarrow> if t < e then Some cl else None | None \<Rightarrow> Some cl)" for t cl
    by (simp add: plain_codec)
  have o: "Option.bind (cookie_get olga_request ''muvee_fwd_session'') (fc_parse edge_cfg 0) = Some olga"
    by (simp add: olga_cookie olga_parses)
  from session_slides [OF mem codec] o show ?thesis
    by (auto simp: duration_defs olga_def)
qed

section \<open>Codes\<close>

lemma NormalizePhone_canonical_witness: "canonical_phone ''+8613800138000''"
proof -
  have "NormalizePhone '' 138 0013-8000'' = Some ''+8613800138000''" by code_simp
  from NormalizePhone_canonical [OF this] show ?thesis by blast
qed

definition one_code :: fwd_world where
  "one_code = snd (run_state (handlePlatformSMSSendCode ''1'' edge_sms (Inr ''13800138000'')) edge_world)"

definition after_codes :: fwd_world where
  "after_codes = snd (run_state (handlePlatformSMSSendCode ''1'' edge_sms (Inr ''13800138000'')) one_code)"


section \<open>Signatures\<close>

definition demo_account :: password_account where
  "demo_account = \<lparr>pa_id = ''a'', pa_project_id = ''p'', pa_username = ''demo'', pa_email = ''demo@x.dev'', pa_hash = ''secret12'',
     pa_display = '''', pa_disabled = False, pa_created = 0\<rparr>"

definition login_form :: http_request where
  "login_form = edge_request\<lparr>hq_form := Inr [(''username'', ''Demo''), (''password'', ''secret12'')]\<rparr>"

lemma password_login_runs:
  assumes "fst (run_state (fetchProjectAuthConfigByHost c base (inboundHost r)) w) = Inr (Some ac)" "ac_password ac" "hq_form r = Inr form"
    and "run_state (verifyPasswordUpstream c k (ac_project ac) (ToLower (TrimSpace (values_Get form ''username''))) (values_Get form ''password''))
      (snd (run_state (fetchProjectAuthConfigByHost c base (inboundHost r)) w)) = (Inr (Some (uid, un, em, name)), w2)"
  shows "fst (run_state (handlePasswordLogin c k base r) w)
    = login_done c r 303 (signForwardPasswordJWT c em name '''' (ac_project ac) (db_now (w_db w2)))"
proof -
  obtain w1 where "run_state (fetchProjectAuthConfigByHost c base (inboundHost r)) w = (Inr (Some ac), w1)"
    using assms(1) by (metis prod.collapse)
  then show ?thesis using assms(2-4) by (simp add: handlePasswordLogin_def on_db_now)
qed

definition site_config :: project_auth_config where
  "site_config = \<lparr>ac_project = ''p'', ac_project_name = ''app'', ac_prefix = ''app'', ac_enabled = '''', ac_auth_required = False,
     ac_mode = ''private'', ac_password = True, ac_sms = False, ac_site_name = ''''\<rparr>"

definition demo_signs_in :: "fwd_world \<Rightarrow> uuid \<Rightarrow> string \<Rightarrow> bool" where
  "demo_signs_in w uid email \<longleftrightarrow> fst (run_state (fetchProjectAuthConfigByHost edge_cfg ''muvee.dev'' (inboundHost login_form)) w) = Inr (Some site_config)
     \<and> (let r = run_state (verifyPasswordUpstream edge_cfg edge_accounts ''p'' ''demo'' ''secret12'')
          (snd (run_state (fetchProjectAuthConfigByHost edge_cfg ''muvee.dev'' (inboundHost login_form)) w))
        in fst r = Inr (Some (uid, ''demo'', email, ''demo'')) \<and> db_now (w_db (snd r)) = 0)"

lemma demo_login:
  assumes "demo_signs_in w uid email"
  shows "fst (run_state (handlePasswordLogin edge_cfg edge_accounts ''muvee.dev'' login_form) w)
    = login_done edge_cfg login_form 303 (plain_sign \<lparr>cl_email = email, cl_user = '''', cl_name = ''demo'', cl_avatar = '''',
        cl_provider = ''password'', cl_project = ''p'', cl_expires = Some (hours 168)\<rparr>)"
proof -
  let ?w1 = "snd (run_state (fetchProjectAuthConfigByHost edge_cfg ''muvee.dev'' (inboundHost login_form)) w)"
  obtain w2 where v: "run_state (verifyPasswordUpstream edge_cfg edge_accounts ''p'' ''demo'' ''secret12'') ?w1 = (Inr (Some (uid, ''demo'', email, ''demo'')), w2)"
    "db_now (w_db w2) = 0"
    using assms unfolding demo_signs_in_def Let_def by (metis prod.collapse)
  have f: "hq_form login_form = Inr [(''username'', ''Demo''), (''password'', ''secret12'')]" by (simp add: login_form_def)
  have n: "ToLower (TrimSpace ''Demo'') = ''demo''" by code_simp
  have "fst (run_state (handlePasswordLogin edge_cfg edge_accounts ''muvee.dev'' login_form) w)
    = login_done edge_cfg login_form 303 (signForwardPasswordJWT edge_cfg email ''demo'' '''' (ac_project site_config) (db_now (w_db w2)))"
    using assms v(1) by (intro password_login_runs [OF _ _ f]) (auto simp: demo_signs_in_def site_config_def values_Get_def n)
  then show ?thesis
    by (simp add: v(2) signForwardPasswordJWT_def signForwardProjectJWT_def cookieSafeAvatar_def site_config_def NewNumericDate_def duration_defs)
qed

lemma demo_cookies: "map sc_name (rp_cookies (login_done edge_cfg login_form 303 tok)) = [''muvee_fwd_session'', ''fwd_oauth_redirect'']"
  "sc_value (hd (rp_cookies (login_done edge_cfg login_form 303 tok))) = tok" "rp_status (login_done edge_cfg login_form 303 tok) = 303"
  by (simp_all add: login_done_def session_cookie_def drop_cookie_def redirect_to_def)

lemma signatures_vouched_witness:
  "let (rp, w') = run_state (handlePasswordLogin edge_cfg edge_accounts ''muvee.dev'' login_form) (edge_world\<lparr>w_accounts := [demo_account]\<rparr>)
   in issued_ok edge_cfg edge_accounts edge_sms [demo_account] rp \<and> map sc_name (rp_cookies rp) = [''muvee_fwd_session'', ''fwd_oauth_redirect'']"
proof -
  let ?w = "edge_world\<lparr>w_accounts := [demo_account]\<rparr>"
  have reach: "flow_reach edge_cfg edge_accounts edge_sms plain_codec_state ''muvee.dev'' ?w"
    by (rule flow_reach.start) (simp_all add: edge_world_def)
  have step: "flow_step edge_cfg edge_accounts edge_sms plain_codec_state ''muvee.dev'' ?w
      (fst (run_state (handlePasswordLogin edge_cfg edge_accounts ''muvee.dev'' login_form) ?w))
      (snd (run_state (handlePasswordLogin edge_cfg edge_accounts ''muvee.dev'' login_form) ?w))"
    by (rule flow_step.password) (rule prod.collapse [symmetric])
  have "demo_signs_in ?w ''#0'' ''demo@x.dev''" unfolding demo_signs_in_def Let_def by (intro conjI) code_simp+
  from demo_cookies(1) demo_login [OF this]
  have "map sc_name (rp_cookies (fst (run_state (handlePasswordLogin edge_cfg edge_accounts ''muvee.dev'' login_form) ?w)))
      = [''muvee_fwd_session'', ''fwd_oauth_redirect'']"
    by simp
  then show ?thesis using signatures_vouched [OF reach step] by (simp add: case_prod_unfold edge_world_def)
qed

definition state_seed :: state_claims where
  "state_seed = \<lparr>sl_mode = ''login-token'', sl_token = ''t0'', sl_nonce = '''', sl_issued = 0\<rparr>"

lemma signed_state_roundtrip_witness:
  "\<exists>cl. verifyState plain_codec_state (minutes 10) (fst (run_state (signState plain_codec_state state_seed) edge_world)) = Some cl \<and> sl_token cl = ''t0''"
proof -
  have "sl_issued state_seed = 0" "minutes 10 \<le> db_now (w_db edge_world) + minutes 10" "sl_token state_seed = ''t0''"
    by (simp_all add: state_seed_def edge_world_def door_db_def demo_db_def sample_db_def)
  moreover have "run_state (signState plain_codec_state state_seed) edge_world
      = (fst (run_state (signState plain_codec_state state_seed) edge_world), snd (run_state (signState plain_codec_state state_seed) edge_world))"
    by simp
  ultimately show ?thesis using signed_state_roundtrip [OF state_laws] by metis
qed

definition alt_request :: http_request where
  "alt_request = edge_request\<lparr>hq_host := ''app.alt.dev''\<rparr>"

lemma secondary_base_unrecognised_witness:
  "\<exists>err. rp_page (fst (run_state (handleLoginPage edge_cfg ''muvee.dev'' alt_request) edge_world)) = LoginPage [''google'', ''feishu''] False False err"
proof -
  have "inboundHost alt_request \<noteq> ''''" "\<not> HasSuffix (inboundHost alt_request) (''.'' @ ToLower ''muvee.dev'')"
    "query_get alt_request ''provider'' = ''''"
    by code_simp+
  moreover have "db_faults (w_db edge_world) = []" "aliases (w_db edge_world) = []"
    by (simp_all add: edge_world_def door_db_def demo_db_def sample_db_def)
  moreover have "length (fc_providers edge_cfg) \<noteq> 1" "map fst (fc_providers edge_cfg) = [''google'', ''feishu'']"
    by (simp_all add: edge_cfg_def)
  ultimately show ?thesis
    using secondary_base_unrecognised [of edge_world alt_request "''muvee.dev''" edge_cfg] by auto
qed

section \<open>An administrator by own appointment\<close>

definition appoint :: "go_error + (string \<times> string \<times> string \<times> string)" where
  "appoint = Inr (''demo'', ''root@x.dev'', ''secret12'', '''')"

definition appointed :: fwd_world where
  "appointed = snd (run_state (createProjectPasswordAccount edge_accounts (door_user ''o'' ''o@x.dev'') ''p'' appoint) edge_world)"

definition appointed_cookie :: string where
  "appointed_cookie = sc_value (hd (rp_cookies (fst (run_state (handlePasswordLogin edge_cfg edge_accounts ''muvee.dev'' login_form) appointed))))"


end
