(* ===== verification/Go_Paths.thy ===== *)
theory Go_Paths
  imports Go_Strings
begin

text \<open>
  Slash-separated paths as Go's \<open>path/filepath\<close> treats them on Unix, and the check that keeps the
  files of a dataset or a workspace inside their directory (\<open>workspaceSafePath\<close> and
  \<open>validateDatasetSubPath\<close> in internal/api/server.go).
\<close>

section \<open>Definitions\<close>

text \<open>The components kept so far, last first.\<close>

definition clean_step :: "bool \<Rightarrow> string list \<Rightarrow> string \<Rightarrow> string list" where
  "clean_step rooted st c =
     (if c = '''' \<or> c = ''.'' then st
      else if c = ''..'' then
        (case st of [] \<Rightarrow> if rooted then [] else [''..''] | t # ts \<Rightarrow> if t = ''..'' then ''..'' # st else ts)
      else c # st)"

definition clean_parts :: "bool \<Rightarrow> string \<Rightarrow> string list" where
  "clean_parts rooted p = rev (foldl (clean_step rooted) [] (Split CHR ''/'' p))"

definition IsAbs :: "string \<Rightarrow> bool" where
  "IsAbs p = HasPrefix p ''/''"

definition Clean :: "string \<Rightarrow> string" where
  "Clean p =
     (if p = '''' then ''.''
      else if IsAbs p then ''/'' @ Join (clean_parts True p) ''/''
      else (case clean_parts False p of [] \<Rightarrow> ''.'' | c # cs \<Rightarrow> Join (c # cs) ''/''))"

text \<open>\<open>filepath.Join\<close>: leading empty elements are dropped, the result is clean.\<close>

definition path_Join :: "string list \<Rightarrow> string" where
  "path_Join elems = (case dropWhile (\<lambda>e. e = '''') elems of [] \<Rightarrow> '''' | e # es \<Rightarrow> Clean (Join (e # es) ''/''))"

text \<open>\<open>filepath.Dir\<close> and \<open>filepath.Base\<close>.\<close>

definition path_Dir :: "string \<Rightarrow> string" where
  "path_Dir p = Clean (rev (dropWhile (\<lambda>c. c \<noteq> CHR ''/'') (rev p)))"

definition path_Base :: "string \<Rightarrow> string" where
  "path_Base p =
     (if p = '''' then ''.''
      else (let q = dropWhile (\<lambda>c. c = CHR ''/'') (rev p) in
        if q = '''' then ''/'' else rev (takeWhile (\<lambda>c. c \<noteq> CHR ''/'') q)))"

definition validateDatasetSubPath :: "string \<Rightarrow> string + string" where
  "validateDatasetSubPath raw =
     (let p = TrimSpace raw in
      if p = '''' then Inl ''nfs_path is required''
      else if IsAbs p then Inl ''nfs_path must be a relative sub-path''
      else (let clean = Clean p in
        if clean = ''.'' then Inl ''nfs_path is required''
        else if clean = ''..'' \<or> HasPrefix clean ''../'' then Inl ''nfs_path must be a relative sub-path''
        else Inr clean))"

definition workspaceSafePath :: "string \<Rightarrow> string \<Rightarrow> string + string" where
  "workspaceSafePath base subPath =
     (let joined = path_Join [base, Clean (''/'' @ subPath)] in
      if \<not> HasPrefix joined base then Inl ''path traversal detected'' else Inr joined)"

section \<open>Components\<close>

text \<open>A component that stays where it is written.\<close>

definition proper :: "string \<Rightarrow> bool" where
  "proper c \<longleftrightarrow> c \<noteq> '''' \<and> c \<noteq> ''.'' \<and> c \<noteq> ''..'' \<and> CHR ''/'' \<notin> set c"

lemma clean_step_rooted:
  assumes "\<forall>c \<in> set st. proper c" "CHR ''/'' \<notin> set c"
  shows "\<forall>d \<in> set (clean_step True st c). proper d"
proof (cases "c = '''' \<or> c = ''.'' \<or> c = ''..''")
  case True
  have "set (clean_step True st c) \<subseteq> set st"
  proof (cases st)
    case Nil
    then show ?thesis using True by (elim disjE) (simp_all add: clean_step_def)
  next
    case (Cons t ts)
    then have "t \<noteq> ''..''" using assms(1) by (auto simp only: proper_def list.set_intros)
    then show ?thesis using True Cons by (elim disjE) (auto simp: clean_step_def)
  qed
  then show ?thesis using assms(1) by blast
next
  case False
  then have "clean_step True st c = c # st" by (simp add: clean_step_def)
  moreover have "proper c" using False assms(2) by (simp add: proper_def)
  ultimately show ?thesis using assms(1) by simp
qed

lemma clean_fold_rooted:
  "\<forall>c \<in> set st. proper c \<Longrightarrow> \<forall>c \<in> set cs. CHR ''/'' \<notin> set c \<Longrightarrow> \<forall>d \<in> set (foldl (clean_step True) st cs). proper d"
proof (induction cs arbitrary: st)
  case (Cons c cs)
  have "\<forall>d \<in> set (clean_step True st c). proper d" by (rule clean_step_rooted) (use Cons.prems in simp_all)
  then show ?case using Cons by simp
qed simp

lemma clean_parts_proper: "c \<in> set (clean_parts True p) \<Longrightarrow> proper c"
  unfolding clean_parts_def using clean_fold_rooted [of "[]" "Split CHR ''/'' p"] Split_no_sep by fastforce

lemma clean_fold_proper: "\<forall>c \<in> set cs. proper c \<Longrightarrow> foldl (clean_step r) st cs = rev cs @ st"
  by (induction cs arbitrary: st) (auto simp: clean_step_def proper_def)

lemma foldl_clean_snoc: "foldl (clean_step r) st (Split CHR ''/'' a @ cs) = foldl (clean_step r) (foldl (clean_step r) st (Split CHR ''/'' a)) cs"
  by simp

lemma Split_append_sep: "Split sep (a @ sep # b) = Split sep a @ Split sep b"
proof (induction a)
  case (Cons x xs)
  then show ?case by (auto simp: Cons split: list.splits)
qed simp

lemma clean_parts_append:
  "clean_parts r (a @ CHR ''/'' # b) = rev (foldl (clean_step r) (rev (clean_parts r a)) (Split CHR ''/'' b))"
  by (simp add: clean_parts_def Split_append_sep)

lemma Split_proper: "\<forall>c \<in> set cs. proper c \<Longrightarrow> cs \<noteq> [] \<Longrightarrow> Split CHR ''/'' (Join cs ''/'') = cs"
  by (rule Split_Join) (auto simp: proper_def)

lemma fold_split_proper: "\<forall>c \<in> set cs. proper c \<Longrightarrow> foldl (clean_step r) st (Split CHR ''/'' (Join cs ''/'')) = rev cs @ st"
proof (cases "cs = []")
  case True
  then show ?thesis by (simp add: clean_step_def)
next
  case False
  moreover assume "\<forall>c \<in> set cs. proper c"
  ultimately show ?thesis by (simp add: Split_proper clean_fold_proper)
qed

lemma clean_parts_Join: "\<forall>c \<in> set cs. proper c \<Longrightarrow> clean_parts r (Join cs ''/'') = cs"
  using fold_split_proper [of cs r "[]"] by (simp add: clean_parts_def)

lemma clean_parts_slash: "clean_parts r (CHR ''/'' # p) = clean_parts r p"
  by (simp add: clean_parts_def clean_step_def)

section \<open>Absolute paths\<close>

text \<open>The clean absolute path with given components.\<close>

definition abs_path :: "string list \<Rightarrow> string" where
  "abs_path cs = ''/'' @ Join cs ''/''"

lemma Clean_abs: "IsAbs p \<Longrightarrow> Clean p = abs_path (clean_parts True p)"
  by (auto simp: Clean_def abs_path_def IsAbs_def HasPrefix_def)

lemma IsAbs_abs_path [simp]: "IsAbs (abs_path cs)"
  by (simp add: abs_path_def IsAbs_def HasPrefix_def)

lemma clean_parts_abs_path: "\<forall>c \<in> set cs. proper c \<Longrightarrow> clean_parts True (abs_path cs) = cs"
  by (simp add: abs_path_def clean_parts_slash clean_parts_Join)

lemma abs_path_inj: "\<forall>c \<in> set cs. proper c \<Longrightarrow> \<forall>c \<in> set ds. proper c \<Longrightarrow> abs_path cs = abs_path ds \<longleftrightarrow> cs = ds"
  by (metis clean_parts_abs_path)

lemma abs_path_append: "ds \<noteq> [] \<Longrightarrow> abs_path (cs @ ds) = (if cs = [] then abs_path ds else abs_path cs @ ''/'' @ Join ds ''/'')"
proof -
  assume d: "ds \<noteq> []"
  have "cs \<noteq> [] \<Longrightarrow> Join (cs @ ds) ''/'' = Join cs ''/'' @ ''/'' @ Join ds ''/''"
    using d by (induction cs rule: induct_list012) (auto simp: Join_Cons)
  then show ?thesis by (auto simp: abs_path_def)
qed

lemma HasPrefix_abs_path: "HasPrefix (abs_path (cs @ ds)) (abs_path cs)"
proof (cases "ds = []")
  case False
  then show ?thesis by (auto simp: abs_path_append HasPrefix_iff) (auto simp: abs_path_def)
qed (simp add: HasPrefix_iff)

text \<open>Joining a clean absolute path with anything below it.\<close>

lemma path_Join_abs:
  assumes "\<forall>c \<in> set cs. proper c"
  shows "path_Join [abs_path cs, q] = abs_path (rev (foldl (clean_step True) (rev cs) (Split CHR ''/'' q)))"
proof -
  have "path_Join [abs_path cs, q] = Clean (abs_path cs @ CHR ''/'' # q)"
    by (simp add: path_Join_def abs_path_def)
  also have "\<dots> = abs_path (clean_parts True (abs_path cs @ CHR ''/'' # q))"
    by (rule Clean_abs) (simp add: abs_path_def IsAbs_def HasPrefix_def)
  finally show ?thesis using assms by (simp add: clean_parts_append clean_parts_abs_path)
qed

lemma path_Join_below:
  assumes "\<forall>c \<in> set cs. proper c" "\<forall>d \<in> set ds. proper d"
  shows "path_Join [abs_path cs, Join ds ''/''] = abs_path (cs @ ds)" "path_Join [abs_path cs, abs_path ds] = abs_path (cs @ ds)"
proof -
  have *: "foldl (clean_step True) (rev cs) (Split CHR ''/'' (Join ds ''/'')) = rev ds @ rev cs"
    using assms(2) by (rule fold_split_proper)
  then show "path_Join [abs_path cs, Join ds ''/''] = abs_path (cs @ ds)" by (simp add: path_Join_abs [OF assms(1)])
  have "foldl (clean_step True) (rev cs) (Split CHR ''/'' (abs_path ds)) = foldl (clean_step True) (rev cs) (Split CHR ''/'' (Join ds ''/''))"
    by (simp add: abs_path_def clean_step_def)
  then show "path_Join [abs_path cs, abs_path ds] = abs_path (cs @ ds)" using * by (simp add: path_Join_abs [OF assms(1)])
qed

lemma safe_path_below:
  assumes "\<forall>c \<in> set cs. proper c"
  shows "workspaceSafePath (abs_path cs) sub = Inr (abs_path (cs @ clean_parts True (CHR ''/'' # sub)))"
proof -
  have "Clean (''/'' @ sub) = abs_path (clean_parts True (CHR ''/'' # sub))"
    using Clean_abs [of "''/'' @ sub"] by (simp add: IsAbs_def HasPrefix_def)
  then have "path_Join [abs_path cs, Clean (''/'' @ sub)] = abs_path (cs @ clean_parts True (CHR ''/'' # sub))"
    using path_Join_below(2) [OF assms] clean_parts_proper by simp
  then show ?thesis by (simp add: workspaceSafePath_def HasPrefix_abs_path)
qed

lemma path_Dir_abs:
  assumes "\<forall>c \<in> set cs. proper c"
  shows "path_Dir (abs_path cs) = abs_path (butlast cs)"
proof (cases cs rule: rev_cases)
  case Nil
  then show ?thesis by (simp add: path_Dir_def abs_path_def Clean_def IsAbs_def HasPrefix_def clean_parts_def clean_step_def)
next
  case (snoc ds d)
  have d: "\<forall>c \<in> set (rev d). c \<noteq> CHR ''/''" using assms snoc by (auto simp: proper_def)
  have split: "abs_path cs = abs_path ds @ (if ds = [] then '''' else ''/'') @ d"
    using snoc by (auto simp: abs_path_append) (simp add: abs_path_def)
  have "dropWhile (\<lambda>c. c \<noteq> CHR ''/'') (rev (abs_path cs)) = rev (abs_path ds @ (if ds = [] then '''' else ''/''))"
    using d unfolding split by (auto simp: dropWhile_append abs_path_def)
  then have "path_Dir (abs_path cs) = Clean (abs_path ds @ (if ds = [] then '''' else ''/''))" by (simp add: path_Dir_def)
  also have "\<dots> = abs_path ds"
  proof -
    have p: "\<forall>c \<in> set ds. proper c" using assms snoc by simp
    have "clean_parts True (abs_path ds @ CHR ''/'' # '''') = ds"
      using p by (simp add: clean_parts_append clean_parts_abs_path clean_step_def)
    moreover have "IsAbs (abs_path ds @ e)" for e by (simp add: abs_path_def IsAbs_def HasPrefix_def)
    moreover have "clean_parts True (abs_path ds) = ds" using p by (rule clean_parts_abs_path)
    ultimately show ?thesis by (cases "ds = []") (auto simp: Clean_abs)
  qed
  finally show ?thesis using snoc by simp
qed

lemma path_Base_plain: "path_Base p \<noteq> '''' \<and> (path_Base p = ''/'' \<or> CHR ''/'' \<notin> set (path_Base p))"
proof -
  let ?q = "dropWhile (\<lambda>c. c = CHR ''/'') (rev p)"
  have "?q \<noteq> [] \<Longrightarrow> takeWhile (\<lambda>c. c \<noteq> CHR ''/'') ?q \<noteq> []"
    using hd_dropWhile [of "\<lambda>c. c = CHR ''/''" "rev p"] by (cases ?q) auto
  then show ?thesis by (auto simp: path_Base_def Let_def dest: set_takeWhileD)
qed

end
