(* ===== verification/Volumes.thy ===== *)
theory Volumes
  imports Project_Admission Go_Paths
begin

text \<open>
  Datasets and workspaces: the rows of datasets, their members, snapshots and file history
  (internal/store/store.go), the shared file system the control plane sees, and the file operations of
  the API on it (internal/api/server.go). The file system is a table from absolute paths, as lists
  of components, to directories and files; it has no symbolic links, owners or times. An operating-system
  call may fail as the schedule \<open>v_io\<close> says.
\<close>

section \<open>State\<close>

datatype fs_node = Dir | File string

type_synonym fs_path = "string list"
type_synonym fs = "(fs_path \<times> fs_node) list"

text \<open>
  What \<open>os\<close> reports; a fault of the device (\<open>IOFault\<close>) comes with how far the call had got: how many
  directories or bytes it had written, or which entries it had removed.
\<close>

datatype io_error = NotExist | NotDir | IsDir | AlreadyExists | InvalidMove | IOFault string
datatype io_fault = IO_Fault string nat "fs_path list"

datatype file_event_type = FileAdded | FileModified | FileDeleted

record snapshot =
  sn_id :: uuid
  sn_dataset :: uuid
  sn_scanned :: time
  sn_files :: int
  sn_size :: int
  sn_version :: int

record file_event =
  fe_id :: uuid
  fe_dataset :: uuid
  fe_path :: string
  fe_type :: file_event_type
  fe_old_size :: int
  fe_new_size :: int
  fe_old_sum :: string
  fe_new_sum :: string
  fe_snapshot :: uuid
  fe_at :: time

record vol_world =
  v_db :: db
  v_members :: "(uuid \<times> uuid) list"
  v_snapshots :: "snapshot list"
  v_history :: "file_event list"
  v_fs :: fs
  v_io :: "io_fault option list"

text \<open>
  \<open>DATASET_NFS_BASE_PATH\<close>, \<open>VOLUME_NFS_BASE_PATH\<close>, the working directory of the process, xxHash
  of a file's bytes, and the size the file system shows for a directory.
\<close>

record vol_cfg =
  vc_datasets :: string
  vc_volumes :: string
  vc_cwd :: string
  vc_hash :: "string \<Rightarrow> string"
  vc_dir_size :: int

type_synonym 'a vstore = "(vol_world, go_error + 'a) state"
type_synonym 'a io = "(vol_world, io_error + 'a) state"

datatype vol_error = VE_None | VE_Msg string | VE_Store go_error | VE_IO io_error

type_synonym 'a vhandler = "(vol_world, (nat \<times> vol_error) + 'a) state"

definition on_store :: "(db, 'a) state \<Rightarrow> (vol_world, 'a) state" where
  "on_store m = State (\<lambda>w. case run_state m (v_db w) of (x, s) \<Rightarrow> (x, w\<lparr>v_db := s\<rparr>))"

text \<open>A statement on the other tables takes its outcome from the same schedule.\<close>

definition vsql :: "(vol_world \<Rightarrow> go_error + ('a \<times> vol_world)) \<Rightarrow> 'a vstore" where
  "vsql f = State (\<lambda>w. case run_state (query (\<lambda>_. ())) (v_db w) of
       (Inl e, s) \<Rightarrow> (Inl e, w\<lparr>v_db := s\<rparr>)
     | (Inr _, s) \<Rightarrow> (let w' = w\<lparr>v_db := s\<rparr> in
          case f w' of Inl e \<Rightarrow> (Inl e, w') | Inr (x, w'') \<Rightarrow> (Inr x, w'')))"

definition v_status :: "nat \<Rightarrow> 'a vstore \<Rightarrow> 'a vhandler" where
  "v_status code m = do { r \<leftarrow> m; State_Monad.return (case r of Inl e \<Rightarrow> Inl (code, VE_Store e) | Inr x \<Rightarrow> Inr x) }"

definition io_status :: "nat \<Rightarrow> 'a io \<Rightarrow> 'a vhandler" where
  "io_status code m = do { r \<leftarrow> m; State_Monad.return (case r of Inl e \<Rightarrow> Inl (code, VE_IO e) | Inr x \<Rightarrow> Inr x) }"

definition v_require :: "bool \<Rightarrow> nat \<Rightarrow> vol_error \<Rightarrow> unit vhandler" where
  "v_require b code e = (if b then ok () else fail (code, e))"

section \<open>Datasets in the store\<close>

definition dataset_by :: "db \<Rightarrow> uuid \<Rightarrow> dataset option" where
  "dataset_by s i = find (\<lambda>ds. ds_id ds = i) (datasets s)"

definition CreateDataset :: "dataset \<Rightarrow> dataset vstore" where
  "CreateDataset d0 = do {
     i \<leftarrow> on_store uuid_New;
     now \<leftarrow> on_store time_Now;
     let d = d0\<lparr>ds_id := i, ds_version := 1, ds_created := now, ds_updated := now\<rparr>;
     attempt (on_store (sql (\<lambda>s. if dataset_by s i \<noteq> None then Inl ''duplicate key value datasets_pkey''
         else if user_by s (ds_owner d) = None then Inl ''violates foreign key constraint datasets_owner_id_fkey''
         else Inr ((), s\<lparr>datasets := datasets s @ [d]\<rparr>)))) (\<lambda>_.
     attempt (vsql (\<lambda>w. if user_by (v_db w) (ds_owner d) = None \<or> dataset_by (v_db w) i = None
           then Inl ''violates foreign key constraint dataset_members''
         else Inr ((), w\<lparr>v_members := List.insert (i, ds_owner d) (v_members w)\<rparr>))) (\<lambda>_. ok d)) }"

definition ListDatasetsForUser :: "uuid \<Rightarrow> bool \<Rightarrow> dataset list vstore" where
  "ListDatasetsForUser userID isAdmin = vsql (\<lambda>w. Inr (sort_key (\<lambda>d. - ds_created d)
     (filter (\<lambda>d. isAdmin \<or> (ds_id d, userID) \<in> set (v_members w)) (datasets (v_db w))), w))"

definition updated_dataset :: "dataset \<Rightarrow> time \<Rightarrow> dataset \<Rightarrow> dataset" where
  "updated_dataset d now r = r\<lparr>ds_name := ds_name d, ds_nfs_path := ds_nfs_path d, ds_size := ds_size d,
     ds_checksum := ds_checksum d, ds_version := ds_version d, ds_updated := now\<rparr>"

definition UpdateDataset :: "dataset \<Rightarrow> unit store" where
  "UpdateDataset d = do {
     now \<leftarrow> time_Now;
     exec (\<lambda>s. s\<lparr>datasets := upd_where (\<lambda>r. ds_id r = ds_id d) (updated_dataset d now) (datasets s)\<rparr>) }"

text \<open>\<open>UPDATE .. RETURNING version\<close>; no row is \<open>pgx.ErrNoRows\<close>.\<close>

definition IncrementDatasetVersion :: "uuid \<Rightarrow> int store" where
  "IncrementDatasetVersion i = sql (\<lambda>s. case dataset_by s i of
       None \<Rightarrow> Inl ''no rows in result set''
     | Some d \<Rightarrow> Inr (ds_version d + 1, s\<lparr>datasets := upd_where (\<lambda>r. ds_id r = i)
         (\<lambda>r. r\<lparr>ds_version := ds_version r + 1, ds_updated := db_now s\<rparr>) (datasets s)\<rparr>))"

text \<open>The row goes with everything that refers to it.\<close>

definition DeleteDataset :: "uuid \<Rightarrow> unit vstore" where
  "DeleteDataset i = vsql (\<lambda>w. Inr ((), w\<lparr>
     v_db := (v_db w)\<lparr>datasets := filter (\<lambda>d. ds_id d \<noteq> i) (datasets (v_db w)),
       project_datasets := filter (\<lambda>pd. pd_dataset pd \<noteq> i) (project_datasets (v_db w)),
       node_datasets := filter (\<lambda>nd. nd_dataset nd \<noteq> i) (node_datasets (v_db w))\<rparr>,
     v_members := filter (\<lambda>m. fst m \<noteq> i) (v_members w),
     v_snapshots := filter (\<lambda>sn. sn_dataset sn \<noteq> i) (v_snapshots w),
     v_history := filter (\<lambda>h. fe_dataset h \<noteq> i) (v_history w)\<rparr>))"

definition CanAccessDataset :: "uuid \<Rightarrow> uuid \<Rightarrow> bool \<Rightarrow> bool vstore" where
  "CanAccessDataset userID datasetID isAdmin =
     (if isAdmin then ok True
      else vsql (\<lambda>w. Inr (0 < length (filter (\<lambda>m. m = (datasetID, userID)) (v_members w)), w)))"

text \<open>A mount mode as a request spells it; the column has a \<open>CHECK\<close>.\<close>

definition mount_mode_of :: "string \<Rightarrow> mount_mode option" where
  "mount_mode_of m = (if m = ''dependency'' then Some MountDependency
     else if m = ''readwrite'' then Some MountReadWrite else None)"

definition insert_project_dataset :: "uuid \<Rightarrow> uuid \<times> string \<Rightarrow> unit store" where
  "insert_project_dataset pid item = sql (\<lambda>s. case mount_mode_of (snd item) of
       None \<Rightarrow> Inl ''violates check constraint project_datasets_mount_mode_check''
     | Some mode \<Rightarrow>
         if list_ex (\<lambda>pd. pd_project pd = pid \<and> pd_dataset pd = fst item) (project_datasets s)
           then Inl ''duplicate key value project_datasets_pkey''
         else if project_by s pid = None \<or> dataset_by s (fst item) = None
           then Inl ''violates foreign key constraint project_datasets''
         else Inr ((), s\<lparr>project_datasets := project_datasets s
                @ [\<lparr>pd_project = pid, pd_dataset = fst item, pd_mode = mode\<rparr>]\<rparr>))"

definition SetProjectDatasets :: "uuid \<Rightarrow> (uuid \<times> string) list \<Rightarrow> unit store" where
  "SetProjectDatasets pid items = transaction
     (attempt (exec (\<lambda>s. s\<lparr>project_datasets := filter (\<lambda>pd. pd_project pd \<noteq> pid) (project_datasets s)\<rparr>)) (\<lambda>_.
      for_each_try items (insert_project_dataset pid)))"

section \<open>Snapshots and file history in the store\<close>

definition CreateDatasetSnapshot :: "snapshot \<Rightarrow> snapshot vstore" where
  "CreateDatasetSnapshot sn0 = do {
     i \<leftarrow> on_store uuid_New;
     now \<leftarrow> on_store time_Now;
     let sn = sn0\<lparr>sn_id := i, sn_scanned := now\<rparr>;
     vsql (\<lambda>w. if list_ex (\<lambda>s. sn_id s = i) (v_snapshots w) then Inl ''duplicate key value dataset_snapshots_pkey''
       else if dataset_by (v_db w) (sn_dataset sn) = None then Inl ''violates foreign key constraint dataset_snapshots''
       else Inr (sn, w\<lparr>v_snapshots := v_snapshots w @ [sn]\<rparr>)) }"

text \<open>\<open>LIMIT n\<close>.\<close>

fun limit_rows :: "int \<Rightarrow> 'a list \<Rightarrow> 'a list" where
  "limit_rows n [] = []"
| "limit_rows n (x # xs) = (if n \<le> 0 then [] else x # limit_rows (n - 1) xs)"

definition snapshots_of :: "vol_world \<Rightarrow> uuid \<Rightarrow> snapshot list" where
  "snapshots_of w i = sort_key (\<lambda>s. - sn_scanned s) (filter (\<lambda>s. sn_dataset s = i) (v_snapshots w))"

definition GetLatestSnapshot :: "uuid \<Rightarrow> snapshot option vstore" where
  "GetLatestSnapshot i = vsql (\<lambda>w. Inr (case snapshots_of w i of [] \<Rightarrow> None | s # _ \<Rightarrow> Some s, w))"

definition ListSnapshotsForDataset :: "uuid \<Rightarrow> snapshot list vstore" where
  "ListSnapshotsForDataset i = vsql (\<lambda>w. Inr (limit_rows 100 (snapshots_of w i), w))"

text \<open>
  One \<open>INSERT\<close> of all rows, ten parameters each. PostgreSQL's protocol counts a statement's parameters
  in 16 bits; \<open>pgx\<close> refuses more.
\<close>

definition max_parameters :: int where
  "max_parameters = 65535"

fun stamp_events :: "file_event list \<Rightarrow> (vol_world, file_event list) state" where
  "stamp_events [] = State_Monad.return []"
| "stamp_events (h # hs) = do {
     i \<leftarrow> on_store uuid_New;
     now \<leftarrow> on_store time_Now;
     rest \<leftarrow> stamp_events hs;
     State_Monad.return (h\<lparr>fe_id := i, fe_at := now\<rparr> # rest) }"

definition BulkInsertFileHistory :: "file_event list \<Rightarrow> unit vstore" where
  "BulkInsertFileHistory items =
     (if items = [] then ok ()
      else do {
        rows \<leftarrow> stamp_events items;
        if max_parameters < 10 * int (length rows) then fail ''extended protocol limited to 65535 parameters''
        else vsql (\<lambda>w. if list_ex (\<lambda>h. h \<in> fe_id ` set (v_history w)) (map fe_id rows) \<or> \<not> distinct (map fe_id rows)
              then Inl ''duplicate key value dataset_file_history_pkey''
            else if list_ex (\<lambda>h. dataset_by (v_db w) (fe_dataset h) = None \<or>
                       \<not> list_ex (\<lambda>s. sn_id s = fe_snapshot h) (v_snapshots w)) rows
              then Inl ''violates foreign key constraint dataset_file_history''
            else Inr ((), w\<lparr>v_history := v_history w @ rows\<rparr>)) })"

definition ListFileHistory :: "uuid \<Rightarrow> string \<Rightarrow> int \<Rightarrow> file_event list vstore" where
  "ListFileHistory i filePath limit = vsql (\<lambda>w. Inr (limit_rows limit (sort_key (\<lambda>h. - fe_at h)
     (filter (\<lambda>h. fe_dataset h = i \<and> (filePath = '''' \<or> fe_path h = filePath)) (v_history w))), w))"

definition PruneFileHistory :: "uuid \<Rightarrow> time \<Rightarrow> unit vstore" where
  "PruneFileHistory i before = vsql (\<lambda>w. Inr ((), w\<lparr>v_history :=
     filter (\<lambda>h. \<not> (fe_dataset h = i \<and> fe_at h < before)) (v_history w)\<rparr>))"

section \<open>The file system\<close>

definition fs_get :: "fs \<Rightarrow> fs_path \<Rightarrow> fs_node option" where
  "fs_get fs p = (if p = [] then Some Dir else map_of fs p)"

text \<open>The kernel's walk from a directory that exists.\<close>

fun fs_walk :: "fs \<Rightarrow> fs_path \<Rightarrow> fs_path \<Rightarrow> io_error + fs_node" where
  "fs_walk fs pre [] = (case fs_get fs pre of None \<Rightarrow> Inl NotExist | Some n \<Rightarrow> Inr n)"
| "fs_walk fs pre (c # cs) = (case fs_get fs pre of
       None \<Rightarrow> Inl NotExist | Some (File _) \<Rightarrow> Inl NotDir | Some Dir \<Rightarrow> fs_walk fs (pre @ [c]) cs)"

definition fs_stat :: "fs \<Rightarrow> fs_path \<Rightarrow> io_error + fs_node" where
  "fs_stat fs p = fs_walk fs [] p"

definition fs_put :: "fs_path \<Rightarrow> fs_node \<Rightarrow> fs \<Rightarrow> fs" where
  "fs_put p n fs = AList.update p n fs"

fun fs_mkdirs :: "fs \<Rightarrow> fs_path \<Rightarrow> fs_path \<Rightarrow> io_error + (unit \<times> fs)" where
  "fs_mkdirs fs pre [] = Inr ((), fs)"
| "fs_mkdirs fs pre (c # cs) = (case fs_get fs (pre @ [c]) of
       None \<Rightarrow> fs_mkdirs (fs_put (pre @ [c]) Dir fs) (pre @ [c]) cs
     | Some Dir \<Rightarrow> fs_mkdirs fs (pre @ [c]) cs
     | Some (File _) \<Rightarrow> Inl NotDir)"

definition fs_create :: "fs_path \<Rightarrow> fs \<Rightarrow> io_error + (unit \<times> fs)" where
  "fs_create p fs = (case fs_stat fs p of
       Inr Dir \<Rightarrow> Inl IsDir
     | Inr (File _) \<Rightarrow> Inr ((), fs_put p (File '''') fs)
     | Inl NotExist \<Rightarrow> (case fs_stat fs (butlast p) of
          Inr Dir \<Rightarrow> Inr ((), fs_put p (File '''') fs) | Inr (File _) \<Rightarrow> Inl NotDir | Inl e \<Rightarrow> Inl e)
     | Inl e \<Rightarrow> Inl e)"

definition fs_bytes :: "fs \<Rightarrow> fs_path \<Rightarrow> string" where
  "fs_bytes fs p = (case fs_get fs p of Some (File c) \<Rightarrow> c | _ \<Rightarrow> '''')"

text \<open>\<open>os.ReadDir\<close>: the entries by name.\<close>

definition fs_children :: "fs \<Rightarrow> fs_path \<Rightarrow> (string \<times> fs_node) list" where
  "fs_children fs p = sort_key fst (map (\<lambda>(q, n). (last q, n)) (filter (\<lambda>(q, n). q \<noteq> [] \<and> butlast q = p) fs))"

text \<open>
  \<open>os.Rename\<close>: Go refuses a target that is a directory before it asks the kernel, and prefers to
  report a bad source.
\<close>

definition fs_rename :: "fs_path \<Rightarrow> fs_path \<Rightarrow> fs \<Rightarrow> io_error + (unit \<times> fs)" where
  "fs_rename src dst fs = (case fs_stat fs src of
       Inl e \<Rightarrow> Inl e
     | Inr n \<Rightarrow> (case fs_stat fs dst of
          Inr Dir \<Rightarrow> Inl AlreadyExists
        | Inl NotDir \<Rightarrow> Inl NotDir
        | d \<Rightarrow>
           if src = dst then Inr ((), fs)
           else if n = Dir \<and> prefix src dst then Inl InvalidMove
           else if n = Dir \<and> d \<noteq> Inl NotExist then Inl NotDir
           else (case fs_stat fs (butlast dst) of
               Inl e \<Rightarrow> Inl e
             | Inr _ \<Rightarrow> Inr ((), map (\<lambda>(q, m). (if prefix src q then dst @ drop (length src) q else q, m))
                 (filter (\<lambda>(q, m). q \<noteq> dst) fs)))))"

definition fs_remove_all :: "fs_path \<Rightarrow> fs \<Rightarrow> io_error + (unit \<times> fs)" where
  "fs_remove_all p fs = (case fs_stat fs p of
       Inl NotExist \<Rightarrow> Inr ((), fs)
     | Inl e \<Rightarrow> Inl e
     | Inr _ \<Rightarrow> Inr ((), filter (\<lambda>(q, n). \<not> prefix p q) fs))"

section \<open>Operating-system calls\<close>

text \<open>The call \<open>f\<close>, and what a fault leaves of it.\<close>

definition os_call :: "(nat \<Rightarrow> fs_path list \<Rightarrow> fs \<Rightarrow> fs) \<Rightarrow> (fs \<Rightarrow> io_error + ('a \<times> fs)) \<Rightarrow> 'a io" where
  "os_call part f = State (\<lambda>w. let w' = w\<lparr>v_io := tl (v_io w)\<rparr> in
     case (case v_io w of [] \<Rightarrow> None | x # _ \<Rightarrow> x) of
       Some (IO_Fault e n ps) \<Rightarrow> (Inl (IOFault e), w'\<lparr>v_fs := part n ps (v_fs w)\<rparr>)
     | None \<Rightarrow> (case f (v_fs w) of Inl e \<Rightarrow> (Inl e, w') | Inr (x, fs') \<Rightarrow> (Inr x, w'\<lparr>v_fs := fs'\<rparr>)))"

definition os_read :: "(fs \<Rightarrow> io_error + 'a) \<Rightarrow> 'a io" where
  "os_read f = os_call (\<lambda>_ _ fs. fs) (\<lambda>fs. case f fs of Inl e \<Rightarrow> Inl e | Inr x \<Rightarrow> Inr (x, fs))"

text \<open>The components of a path that a call is given.\<close>

definition os_parts :: "vol_cfg \<Rightarrow> string \<Rightarrow> fs_path" where
  "os_parts c p = clean_parts True (if IsAbs p then p else vc_cwd c @ ''/'' @ p)"

definition os_ReadDir :: "vol_cfg \<Rightarrow> string \<Rightarrow> (string \<times> fs_node) list io" where
  "os_ReadDir c p = os_read (\<lambda>fs. case fs_stat fs (os_parts c p) of
     Inl e \<Rightarrow> Inl e | Inr (File _) \<Rightarrow> Inl NotDir | Inr Dir \<Rightarrow> Inr (fs_children fs (os_parts c p)))"

definition os_Open :: "vol_cfg \<Rightarrow> string \<Rightarrow> fs_node io" where
  "os_Open c p = os_read (\<lambda>fs. fs_stat fs (os_parts c p))"

definition os_MkdirAll :: "vol_cfg \<Rightarrow> string \<Rightarrow> unit io" where
  "os_MkdirAll c p = os_call
     (\<lambda>n _ fs. case fs_mkdirs fs [] (take n (os_parts c p)) of Inl _ \<Rightarrow> fs | Inr (_, fs') \<Rightarrow> fs')
     (\<lambda>fs. fs_mkdirs fs [] (os_parts c p))"

definition os_Create :: "vol_cfg \<Rightarrow> string \<Rightarrow> unit io" where
  "os_Create c p = os_call (\<lambda>_ _ fs. fs) (fs_create (os_parts c p))"

definition os_Rename :: "vol_cfg \<Rightarrow> string \<Rightarrow> string \<Rightarrow> unit io" where
  "os_Rename c src dst = os_call (\<lambda>_ _ fs. fs) (fs_rename (os_parts c src) (os_parts c dst))"

definition os_RemoveAll :: "vol_cfg \<Rightarrow> string \<Rightarrow> unit io" where
  "os_RemoveAll c p = os_call
     (\<lambda>_ ps fs. filter (\<lambda>(q, n). \<not> (prefix (os_parts c p) q \<and> q \<in> set ps)) fs)
     (fs_remove_all (os_parts c p))"

text \<open>\<open>io.Copy\<close> into a file just created, from bytes at hand or from an open file.\<close>

definition io_Copy :: "vol_cfg \<Rightarrow> string \<Rightarrow> string \<Rightarrow> unit io" where
  "io_Copy c p bytes = os_call (\<lambda>n _ fs. fs_put (os_parts c p) (File (take n bytes)) fs)
     (\<lambda>fs. Inr ((), fs_put (os_parts c p) (File bytes) fs))"

definition io_Copy_file :: "vol_cfg \<Rightarrow> string \<Rightarrow> string \<Rightarrow> unit io" where
  "io_Copy_file c dst src = os_call
     (\<lambda>n _ fs. fs_put (os_parts c dst) (File (take n (fs_bytes fs (os_parts c src)))) fs)
     (\<lambda>fs. Inr ((), fs_put (os_parts c dst) (File (fs_bytes fs (os_parts c src))) fs))"

text \<open>\<open>_, _ = io.Copy(w, f)\<close>: a fault cuts the answer short.\<close>

definition send_file :: "vol_cfg \<Rightarrow> string \<Rightarrow> (vol_world, string) state" where
  "send_file c p = State (\<lambda>w. (let bytes = fs_bytes (v_fs w) (os_parts c p) in
     case v_io w of Some (IO_Fault e n ps) # _ \<Rightarrow> take n bytes | _ \<Rightarrow> bytes, w\<lparr>v_io := tl (v_io w)\<rparr>))"

end
