(* ===== verification/Volume_Files.thy ===== *)
theory Volume_Files
  imports Volumes Access_Handlers
begin

text \<open>
  The handlers of datasets, of their files and of the workspaces of projects (internal/api/server.go).
  The tails that the code repeats for datasets and workspaces are one definition each; the body of a
  request and its multipart form are what decoding them gave.
\<close>

section \<open>Datasets\<close>

definition listDatasets :: "user \<Rightarrow> dataset list vhandler" where
  "listDatasets caller = v_status 500 (ListDatasetsForUser (u_id caller) (is_admin caller))"

definition no_dataset_base :: string where
  "no_dataset_base = ''DATASET_NFS_BASE_PATH is not configured''"

definition sub_path400 :: "string \<Rightarrow> string vhandler" where
  "sub_path400 p = State_Monad.return (case validateDatasetSubPath p of Inl e \<Rightarrow> Inl (400, VE_Msg e) | Inr s \<Rightarrow> Inr s)"

definition body400 :: "go_error + 'a \<Rightarrow> 'a vhandler" where
  "body400 b = State_Monad.return (case b of Inl e \<Rightarrow> Inl (400, VE_Msg e) | Inr x \<Rightarrow> Inr x)"

definition createDataset :: "vol_cfg \<Rightarrow> user \<Rightarrow> go_error + dataset \<Rightarrow> dataset vhandler" where
  "createDataset c caller body =
     attempt (v_require (vc_datasets c \<noteq> '''') 503 (VE_Msg no_dataset_base)) (\<lambda>_.
     attempt (body400 body) (\<lambda>d.
     attempt (sub_path400 (ds_nfs_path d)) (\<lambda>subPath.
     v_status 500 (CreateDataset (d\<lparr>ds_nfs_path := subPath, ds_owner := u_id caller\<rparr>)))))"

text \<open>\<open>allowed, _ := CanAccessDataset(..)\<close>: an error counts as no.\<close>

definition dataset_allowed :: "user \<Rightarrow> uuid \<Rightarrow> nat \<Rightarrow> unit vhandler" where
  "dataset_allowed caller i code = do {
     r \<leftarrow> CanAccessDataset (u_id caller) i (is_admin caller);
     if r = Inr True then ok () else fail (code, VE_None) }"

definition existing_dataset :: "uuid \<Rightarrow> dataset vhandler" where
  "existing_dataset i = do {
     r \<leftarrow> on_store (GetDataset i);
     State_Monad.return (case r of
       Inl e \<Rightarrow> Inl (404, VE_Store e) | Inr None \<Rightarrow> Inl (404, VE_None) | Inr (Some d) \<Rightarrow> Inr d) }"

definition getDataset :: "user \<Rightarrow> uuid \<Rightarrow> dataset vhandler" where
  "getDataset caller i = attempt (dataset_allowed caller i 404) (\<lambda>_. existing_dataset i)"

definition updateDataset :: "vol_cfg \<Rightarrow> user \<Rightarrow> uuid \<Rightarrow> go_error + dataset \<Rightarrow> dataset vhandler" where
  "updateDataset c caller i body =
     attempt (v_require (vc_datasets c \<noteq> '''') 503 (VE_Msg no_dataset_base)) (\<lambda>_.
     attempt (dataset_allowed caller i 403) (\<lambda>_.
     attempt (body400 body) (\<lambda>d.
     attempt (sub_path400 (ds_nfs_path d)) (\<lambda>subPath.
     let d' = d\<lparr>ds_nfs_path := subPath, ds_id := i\<rparr> in
     attempt (v_status 500 (on_store (UpdateDataset d'))) (\<lambda>_. ok d')))))"

definition deleteDataset :: "user \<Rightarrow> uuid \<Rightarrow> unit vhandler" where
  "deleteDataset caller i =
     attempt (dataset_allowed caller i 403) (\<lambda>_. do { ignore (DeleteDataset i); ok () })"

definition listSnapshots :: "uuid \<Rightarrow> snapshot list vhandler" where
  "listSnapshots i = v_status 500 (ListSnapshotsForDataset i)"

definition listFileHistory :: "uuid \<Rightarrow> string \<Rightarrow> file_event list vhandler" where
  "listFileHistory i filePath = v_status 500 (ListFileHistory i filePath 500)"

definition getProjectDatasets :: "uuid \<Rightarrow> project_dataset list vhandler" where
  "getProjectDatasets i = v_status 500 (on_store (GetProjectDatasets i))"

definition project_allowed :: "user \<Rightarrow> uuid \<Rightarrow> nat \<Rightarrow> unit vhandler" where
  "project_allowed caller i code = do {
     r \<leftarrow> on_store (CanAccessProject (u_id caller) i (is_admin caller));
     if r = Inr True then ok () else fail (code, VE_None) }"

definition setProjectDatasets :: "user \<Rightarrow> uuid \<Rightarrow> go_error + (uuid \<times> string) list \<Rightarrow> (uuid \<times> string) list vhandler" where
  "setProjectDatasets caller i body =
     attempt (project_allowed caller i 403) (\<lambda>_.
     attempt (body400 body) (\<lambda>items.
     attempt (for_each_try items (\<lambda>item. dataset_allowed caller (fst item) 403)) (\<lambda>_.
     attempt (v_status 500 (on_store (SetProjectDatasets i items))) (\<lambda>_. ok items))))"

section \<open>Directories\<close>

definition datasetDir :: "vol_cfg \<Rightarrow> uuid \<Rightarrow> uuid \<Rightarrow> bool \<Rightarrow> string vstore" where
  "datasetDir c datasetID userID isAdmin =
     (if vc_datasets c = '''' then fail no_dataset_base
      else do {
        r \<leftarrow> CanAccessDataset userID datasetID isAdmin;
        if r \<noteq> Inr True then fail ''not found''
        else do {
          d \<leftarrow> on_store (GetDataset datasetID);
          case d of
            Inr (Some ds) \<Rightarrow> ok (path_Join [vc_datasets c, ds_nfs_path ds])
          | _ \<Rightarrow> fail ''dataset not found'' } })"

definition dataset_base :: "vol_cfg \<Rightarrow> user \<Rightarrow> uuid \<Rightarrow> string vhandler" where
  "dataset_base c caller i = do {
     r \<leftarrow> datasetDir c i (u_id caller) (is_admin caller);
     State_Monad.return (case r of
       Inl e \<Rightarrow> Inl (if e = ''not found'' \<or> e = ''dataset not found'' then 404 else 503, VE_Msg e)
     | Inr base \<Rightarrow> Inr base) }"

definition workspaceDir :: "vol_cfg \<Rightarrow> uuid \<Rightarrow> go_error + string" where
  "workspaceDir c projectID =
     (if vc_volumes c = '''' then Inl ''VOLUME_NFS_BASE_PATH is not configured on this server''
      else Inr (path_Join [vc_volumes c, projectID]))"

definition workspace_base :: "vol_cfg \<Rightarrow> user \<Rightarrow> uuid \<Rightarrow> nat \<Rightarrow> string vhandler" where
  "workspace_base c caller i code =
     attempt (project_allowed caller i code) (\<lambda>_.
     State_Monad.return (case workspaceDir c i of Inl e \<Rightarrow> Inl (503, VE_Msg e) | Inr base \<Rightarrow> Inr base))"

definition safe_path400 :: "string \<Rightarrow> string \<Rightarrow> string vhandler" where
  "safe_path400 base sub =
     State_Monad.return (case workspaceSafePath base sub of Inl e \<Rightarrow> Inl (400, VE_Msg e) | Inr p \<Rightarrow> Inr p)"

section \<open>Tails of the file handlers\<close>

record workspaceEntry =
  we_name :: string
  we_size :: int
  we_is_dir :: bool

definition entry_of :: "vol_cfg \<Rightarrow> string \<times> fs_node \<Rightarrow> workspaceEntry" where
  "entry_of c e = (case e of
     (n, Dir) \<Rightarrow> \<lparr>we_name = n, we_size = vc_dir_size c, we_is_dir = True\<rparr>
   | (n, File b) \<Rightarrow> \<lparr>we_name = n, we_size = int (length b), we_is_dir = False\<rparr>)"

definition list_files :: "vol_cfg \<Rightarrow> string \<Rightarrow> string \<Rightarrow> workspaceEntry list vhandler" where
  "list_files c base sub =
     attempt (safe_path400 base sub) (\<lambda>dir. do {
       r \<leftarrow> os_ReadDir c dir;
       case r of
         Inl e \<Rightarrow> if e = NotExist then ok [] else fail (500, VE_IO e)
       | Inr entries \<Rightarrow> ok (map (entry_of c) entries) })"

text \<open>The file's name and its bytes.\<close>

definition download_file :: "vol_cfg \<Rightarrow> string \<Rightarrow> string \<Rightarrow> (string \<times> string) vhandler" where
  "download_file c base sub =
     attempt (v_require (sub \<noteq> '''') 400 (VE_Msg ''path is required'')) (\<lambda>_.
     attempt (safe_path400 base sub) (\<lambda>filePath. do {
       r \<leftarrow> os_Open c filePath;
       case r of
         Inl e \<Rightarrow> if e = NotExist then fail (404, VE_Msg ''file not found'') else fail (500, VE_IO e)
       | Inr Dir \<Rightarrow> fail (400, VE_Msg ''path is a directory'')
       | Inr (File _) \<Rightarrow> do { bytes \<leftarrow> send_file c filePath; ok (path_Base filePath, bytes) } }))"

text \<open>The form's file: its name and its bytes. The answer is the path below the base.\<close>

definition upload_file :: "vol_cfg \<Rightarrow> string \<Rightarrow> string \<Rightarrow> go_error + (string \<times> string) \<Rightarrow> string vhandler" where
  "upload_file c base sub form =
     attempt (body400 form) (\<lambda>(filename, bytes).
     attempt (safe_path400 base sub) (\<lambda>destDir.
     attempt (io_status 500 (os_MkdirAll c destDir)) (\<lambda>_.
     let destPath = path_Join [destDir, path_Base filename] in
     attempt (io_status 500 (os_Create c destPath)) (\<lambda>_.
     attempt (io_status 500 (io_Copy c destPath bytes)) (\<lambda>_.
     ok (TrimPrefix destPath base))))))"

definition delete_file :: "vol_cfg \<Rightarrow> string \<Rightarrow> string \<Rightarrow> string \<Rightarrow> unit vhandler" where
  "delete_file c base sub root_message =
     attempt (v_require (sub \<noteq> '''') 400 (VE_Msg ''path is required'')) (\<lambda>_.
     attempt (safe_path400 base sub) (\<lambda>target.
     attempt (v_require (target \<noteq> base) 400 (VE_Msg root_message)) (\<lambda>_.
     io_status 500 (os_RemoveAll c target))))"

section \<open>Files of a dataset\<close>

definition datasetFileList :: "vol_cfg \<Rightarrow> user \<Rightarrow> uuid \<Rightarrow> string \<Rightarrow> workspaceEntry list vhandler" where
  "datasetFileList c caller i sub = attempt (dataset_base c caller i) (\<lambda>base. list_files c base sub)"

definition datasetFileDownload :: "vol_cfg \<Rightarrow> user \<Rightarrow> uuid \<Rightarrow> string \<Rightarrow> (string \<times> string) vhandler" where
  "datasetFileDownload c caller i sub = attempt (dataset_base c caller i) (\<lambda>base. download_file c base sub)"

definition datasetFileUpload :: "vol_cfg \<Rightarrow> user \<Rightarrow> uuid \<Rightarrow> string \<Rightarrow> go_error + (string \<times> string) \<Rightarrow> string vhandler" where
  "datasetFileUpload c caller i sub form = attempt (dataset_base c caller i) (\<lambda>base. upload_file c base sub form)"

definition datasetFileDelete :: "vol_cfg \<Rightarrow> user \<Rightarrow> uuid \<Rightarrow> string \<Rightarrow> unit vhandler" where
  "datasetFileDelete c caller i sub =
     attempt (dataset_base c caller i) (\<lambda>base. delete_file c base sub ''cannot delete the dataset root'')"

definition datasetFileMkdir :: "vol_cfg \<Rightarrow> user \<Rightarrow> uuid \<Rightarrow> go_error + string \<Rightarrow> string vhandler" where
  "datasetFileMkdir c caller i body =
     attempt (dataset_base c caller i) (\<lambda>base.
     attempt (body400 body) (\<lambda>path.
     attempt (v_require (path \<noteq> '''') 400 (VE_Msg ''path is required'')) (\<lambda>_.
     attempt (safe_path400 base path) (\<lambda>target.
     attempt (io_status 500 (os_MkdirAll c target)) (\<lambda>_. ok path)))))"

definition datasetFileMove :: "vol_cfg \<Rightarrow> user \<Rightarrow> uuid \<Rightarrow> go_error + (string \<times> string) \<Rightarrow> unit vhandler" where
  "datasetFileMove c caller i body =
     attempt (dataset_base c caller i) (\<lambda>base.
     attempt (body400 body) (\<lambda>(src, dst).
     attempt (v_require (src \<noteq> '''' \<and> dst \<noteq> '''') 400 (VE_Msg ''src and dst are required'')) (\<lambda>_.
     attempt (safe_path400 base src) (\<lambda>srcPath.
     attempt (safe_path400 base dst) (\<lambda>dstPath.
     attempt (io_status 500 (os_MkdirAll c (path_Dir dstPath))) (\<lambda>_.
     io_status 500 (os_Rename c srcPath dstPath)))))))"

definition open_source :: "vol_cfg \<Rightarrow> string \<Rightarrow> unit vhandler" where
  "open_source c srcPath = do {
     r \<leftarrow> os_Open c srcPath;
     case r of
       Inl e \<Rightarrow> if e = NotExist then fail (404, VE_Msg ''source file not found'') else fail (500, VE_IO e)
     | Inr Dir \<Rightarrow> fail (400, VE_Msg ''cannot copy a directory; use mkdir + individual file copies'')
     | Inr (File _) \<Rightarrow> ok () }"

definition datasetFileCopy :: "vol_cfg \<Rightarrow> user \<Rightarrow> uuid \<Rightarrow> go_error + (string \<times> string) \<Rightarrow> unit vhandler" where
  "datasetFileCopy c caller i body =
     attempt (dataset_base c caller i) (\<lambda>base.
     attempt (body400 body) (\<lambda>(src, dst).
     attempt (v_require (src \<noteq> '''' \<and> dst \<noteq> '''') 400 (VE_Msg ''src and dst are required'')) (\<lambda>_.
     attempt (safe_path400 base src) (\<lambda>srcPath.
     attempt (safe_path400 base dst) (\<lambda>dstPath.
     attempt (open_source c srcPath) (\<lambda>_.
     attempt (io_status 500 (os_MkdirAll c (path_Dir dstPath))) (\<lambda>_.
     attempt (io_status 500 (os_Create c dstPath)) (\<lambda>_.
     io_status 500 (io_Copy_file c dstPath srcPath)))))))))"

section \<open>Workspaces\<close>

definition workspaceList :: "vol_cfg \<Rightarrow> user \<Rightarrow> uuid \<Rightarrow> string \<Rightarrow> workspaceEntry list vhandler" where
  "workspaceList c caller i sub = attempt (workspace_base c caller i 404) (\<lambda>base. list_files c base sub)"

definition workspaceDownload :: "vol_cfg \<Rightarrow> user \<Rightarrow> uuid \<Rightarrow> string \<Rightarrow> (string \<times> string) vhandler" where
  "workspaceDownload c caller i sub = attempt (workspace_base c caller i 404) (\<lambda>base. download_file c base sub)"

definition workspaceUpload :: "vol_cfg \<Rightarrow> user \<Rightarrow> uuid \<Rightarrow> string \<Rightarrow> go_error + (string \<times> string) \<Rightarrow> string vhandler" where
  "workspaceUpload c caller i sub form = attempt (workspace_base c caller i 403) (\<lambda>base. upload_file c base sub form)"

definition workspaceDelete :: "vol_cfg \<Rightarrow> user \<Rightarrow> uuid \<Rightarrow> string \<Rightarrow> unit vhandler" where
  "workspaceDelete c caller i sub =
     attempt (workspace_base c caller i 403) (\<lambda>base. delete_file c base sub ''cannot delete the workspace root'')"

text \<open>The routes on files: one request each.\<close>

datatype file_request =
  FileList string | FileDownload string | FileUpload string "go_error + (string \<times> string)" | FileDelete string
| FileMkdir "go_error + string" | FileMove "go_error + (string \<times> string)" | FileCopy "go_error + (string \<times> string)"

text \<open>\<open>pm\<close>: the row of the caller on the admin plane, as the middleware read it.\<close>

definition requireAuthorized :: "platform_member option \<Rightarrow> 'a vhandler \<Rightarrow> 'a vhandler" where
  "requireAuthorized pm h = do {
     a \<leftarrow> on_store (isUserAuthorized pm);
     if \<not> a then fail (403, VE_Msg ''publishing authorization required'') else h }"

definition done_with :: "'a vhandler \<Rightarrow> unit vhandler" where
  "done_with m = attempt m (\<lambda>_. ok ())"

fun dataset_files :: "vol_cfg \<Rightarrow> user \<Rightarrow> platform_member option \<Rightarrow> uuid \<Rightarrow> file_request \<Rightarrow> unit vhandler" where
  "dataset_files c u pm i (FileList sub) = done_with (datasetFileList c u i sub)"
| "dataset_files c u pm i (FileDownload sub) = done_with (datasetFileDownload c u i sub)"
| "dataset_files c u pm i (FileUpload sub form) = requireAuthorized pm (done_with (datasetFileUpload c u i sub form))"
| "dataset_files c u pm i (FileDelete sub) = requireAuthorized pm (datasetFileDelete c u i sub)"
| "dataset_files c u pm i (FileMkdir body) = requireAuthorized pm (done_with (datasetFileMkdir c u i body))"
| "dataset_files c u pm i (FileMove body) = requireAuthorized pm (datasetFileMove c u i body)"
| "dataset_files c u pm i (FileCopy body) = requireAuthorized pm (datasetFileCopy c u i body)"

text \<open>\<open>None\<close>: a workspace has no such route.\<close>

fun workspace_files :: "vol_cfg \<Rightarrow> user \<Rightarrow> platform_member option \<Rightarrow> uuid \<Rightarrow> file_request \<Rightarrow> unit vhandler option" where
  "workspace_files c u pm i (FileList sub) = Some (done_with (workspaceList c u i sub))"
| "workspace_files c u pm i (FileDownload sub) = Some (done_with (workspaceDownload c u i sub))"
| "workspace_files c u pm i (FileUpload sub form) = Some (requireAuthorized pm (done_with (workspaceUpload c u i sub form)))"
| "workspace_files c u pm i (FileDelete sub) = Some (requireAuthorized pm (workspaceDelete c u i sub))"
| "workspace_files c u pm i _ = None"

end
