(* ===== verification/Monitor.thy ===== *)
theory Monitor
  imports Volume_Files
begin

text \<open>
  The monitor of datasets (internal/monitor/monitor.go): a scan reads the files of a dataset, compares
  their checksums with the file history, and records a snapshot and an event per change; and the handler
  that starts a scan (internal/api/server.go). The workers that read files deliver their results in
  some order, \<open>arrival\<close>.
\<close>

record file_entry =
  en_path :: string
  en_size :: int
  en_sum :: string

section \<open>Walking a directory\<close>

text \<open>\<open>filepath.Walk\<close>: the files at or below \<open>root\<close>, in lexical order; an entry that cannot be read is skipped.\<close>

definition is_file :: "io_error + fs_node \<Rightarrow> bool" where
  "is_file r = (case r of Inr (File _) \<Rightarrow> True | _ \<Rightarrow> False)"

definition walk_files :: "fs \<Rightarrow> fs_path \<Rightarrow> fs_path list" where
  "walk_files fs root = sort (filter (\<lambda>q. prefix root q \<and> is_file (fs_stat fs q)) (remdups (map fst fs)))"

text \<open>\<open>filepath.Rel\<close> of a path below \<open>root\<close>.\<close>

definition path_Rel :: "fs_path \<Rightarrow> fs_path \<Rightarrow> string" where
  "path_Rel root q = (if q = root then ''.'' else Join (drop (length root) q) ''/'')"

text \<open>\<open>processFile\<close>.\<close>

definition processFile :: "vol_cfg \<Rightarrow> fs_path \<Rightarrow> fs_path \<Rightarrow> file_entry io" where
  "processFile c root q = os_read (\<lambda>fs. case fs_stat fs q of
     Inl e \<Rightarrow> Inl e
   | Inr n \<Rightarrow> Inr \<lparr>en_path = path_Rel root q, en_size = int (length (fs_bytes fs q)), en_sum = vc_hash c (fs_bytes fs q)\<rparr>)"

fun process_files :: "vol_cfg \<Rightarrow> fs_path \<Rightarrow> fs_path list \<Rightarrow> (vol_world, file_entry list) state" where
  "process_files c root [] = State_Monad.return []"
| "process_files c root (q # qs) = do {
     r \<leftarrow> processFile c root q;
     rest \<leftarrow> process_files c root qs;
     State_Monad.return (case r of Inl _ \<Rightarrow> rest | Inr e \<Rightarrow> e # rest) }"

definition walkDir :: "vol_cfg \<Rightarrow> (file_entry list \<Rightarrow> file_entry list) \<Rightarrow> string \<Rightarrow> (vol_world, file_entry list) state" where
  "walkDir c arrival root = do {
     fs \<leftarrow> State (\<lambda>w. (v_fs w, w));
     es \<leftarrow> process_files c (os_parts c root) (walk_files fs (os_parts c root));
     State_Monad.return (arrival es) }"

section \<open>Comparing\<close>

text \<open>The loop over the history, in the order \<open>ListFileHistory\<close> returns it.\<close>

definition replay_step :: "(string \<times> file_event) list \<Rightarrow> file_event \<Rightarrow> (string \<times> file_event) list" where
  "replay_step m h = (if fe_type h = FileDeleted then AList.delete (fe_path h) m else AList.update (fe_path h) h m)"

definition replay :: "file_event list \<Rightarrow> (string \<times> file_event) list" where
  "replay hs = foldl replay_step [] hs"

definition event_of :: "uuid \<Rightarrow> uuid \<Rightarrow> string \<Rightarrow> file_event_type \<Rightarrow> int \<times> string \<Rightarrow> int \<times> string \<Rightarrow> file_event" where
  "event_of ds snap path ty old new = \<lparr>fe_id = uuid_Nil, fe_dataset = ds, fe_path = path, fe_type = ty,
     fe_old_size = fst old, fe_new_size = fst new, fe_old_sum = snd old, fe_new_sum = snd new, fe_snapshot = snap, fe_at = 0\<rparr>"

definition found_event :: "uuid \<Rightarrow> uuid \<Rightarrow> (string \<times> file_event) list \<Rightarrow> file_entry \<Rightarrow> file_event list" where
  "found_event ds snap prev f = (case map_of prev (en_path f) of
       None \<Rightarrow> [event_of ds snap (en_path f) FileAdded (0, '''') (en_size f, en_sum f)]
     | Some h \<Rightarrow> if fe_new_sum h \<noteq> en_sum f
         then [event_of ds snap (en_path f) FileModified (fe_new_size h, fe_new_sum h) (en_size f, en_sum f)] else [])"

definition gone_event :: "uuid \<Rightarrow> uuid \<Rightarrow> file_entry list \<Rightarrow> string \<times> file_event \<Rightarrow> file_event list" where
  "gone_event ds snap current ph = (if fst ph \<in> en_path ` set current then []
     else [event_of ds snap (fst ph) FileDeleted (fe_new_size (snd ph), fe_new_sum (snd ph)) (0, '''')])"

definition scan_events :: "uuid \<Rightarrow> uuid \<Rightarrow> (string \<times> file_event) list \<Rightarrow> file_entry list \<Rightarrow> file_event list" where
  "scan_events ds snap prev current =
     concat (map (found_event ds snap prev) current) @ concat (map (gone_event ds snap current) prev)"

section \<open>Scanning\<close>

definition history_limit :: int where
  "history_limit = 100000"

definition known_files :: "uuid \<Rightarrow> snapshot option \<Rightarrow> (string \<times> file_event) list vstore" where
  "known_files i prevSnap = (case prevSnap of
       None \<Rightarrow> ok []
     | Some _ \<Rightarrow> attempt (ListFileHistory i '''' history_limit) (\<lambda>history. ok (replay history)))"

definition record_changes :: "dataset \<Rightarrow> file_event list \<Rightarrow> unit vstore" where
  "record_changes ds events =
     (if events = [] then ok ()
      else attempt (BulkInsertFileHistory events) (\<lambda>_.
           attempt (on_store (IncrementDatasetVersion (ds_id ds))) (\<lambda>_. ok ())))"

definition total_size :: "file_entry list \<Rightarrow> int" where
  "total_size current = sum_list (map en_size current)"

definition scan_root :: "vol_cfg \<Rightarrow> dataset \<Rightarrow> string" where
  "scan_root c ds = (if IsAbs (ds_nfs_path ds) then ds_nfs_path ds else path_Join [vc_datasets c, ds_nfs_path ds])"

definition compare_and_record :: "dataset \<Rightarrow> file_entry list \<Rightarrow> unit vstore" where
  "compare_and_record ds current =
     attempt (GetLatestSnapshot (ds_id ds)) (\<lambda>prevSnap.
     attempt (known_files (ds_id ds) prevSnap) (\<lambda>prevFiles.
     attempt (CreateDatasetSnapshot \<lparr>sn_id = uuid_Nil, sn_dataset = ds_id ds, sn_scanned = 0,
        sn_files = int (length current), sn_size = total_size current, sn_version = ds_version ds\<rparr>) (\<lambda>snap.
     attempt (record_changes ds (scan_events (ds_id ds) (sn_id snap) prevFiles current)) (\<lambda>_.
     on_store (UpdateDataset (ds\<lparr>ds_size := total_size current\<rparr>))))))"

definition ScanDataset :: "vol_cfg \<Rightarrow> (file_entry list \<Rightarrow> file_entry list) \<Rightarrow> dataset \<Rightarrow> unit vstore" where
  "ScanDataset c arrival ds =
     (if vc_datasets c = '''' then ok ()
      else do {
        current \<leftarrow> walkDir c arrival (scan_root c ds);
        compare_and_record ds current })"

definition ScanAll :: "vol_cfg \<Rightarrow> (file_entry list \<Rightarrow> file_entry list) \<Rightarrow> (vol_world, unit) state" where
  "ScanAll c arrival =
     (if vc_datasets c = '''' then State_Monad.return ()
      else do {
        r \<leftarrow> ListDatasetsForUser uuid_Nil True;
        case r of Inl _ \<Rightarrow> State_Monad.return ()
        | Inr ds \<Rightarrow> for_each ds (\<lambda>d. ignore (ScanDataset c arrival d)) })"

text \<open>The handler answers before the scan that it starts; the goroutine scans what the handler read.\<close>

definition scanDataset :: "user \<Rightarrow> uuid \<Rightarrow> dataset vhandler" where
  "scanDataset caller i = attempt (dataset_allowed caller i 403) (\<lambda>_. existing_dataset i)"

end
