(* ===== verification/Volume_Facts.thy ===== *)
theory Volume_Facts
  imports Volume_Files Access_Facts
begin

text \<open>
  What the file handlers of datasets and workspaces guarantee: whatever path a request names, files change
  below the directory of the dataset or project only, and only for those who may use it; and where the
  handlers fall short.
\<close>

section \<open>Confinement\<close>

text \<open>
  Nothing outside the directory \<open>bs\<close> is changed; its missing ancestors may have been made.
\<close>

definition confined :: "fs_path \<Rightarrow> fs \<Rightarrow> fs \<Rightarrow> bool" where
  "confined bs fs fs' \<longleftrightarrow> (\<forall>q. \<not> prefix bs q \<longrightarrow>
     fs_get fs' q = fs_get fs q \<or> (fs_get fs q = None \<and> fs_get fs' q = Some Dir \<and> strict_prefix q bs))"

lemma confined_refl [intro, simp]: "confined bs fs fs"
  by (simp add: confined_def)

lemma confined_trans: "confined bs fs1 fs2 \<Longrightarrow> confined bs fs2 fs3 \<Longrightarrow> confined bs fs1 fs3"
  unfolding confined_def by metis

lemma fs_get_put: "p \<noteq> [] \<Longrightarrow> fs_get (fs_put p n fs) q = (if q = p then Some n else fs_get fs q)"
  by (auto simp: fs_get_def fs_put_def update_conv)

lemma fs_get_put_Nil: "q \<noteq> p \<Longrightarrow> fs_get (fs_put p n fs) q = fs_get fs q"
  by (auto simp: fs_get_def fs_put_def update_conv)

lemma confined_put: "prefix bs p \<Longrightarrow> confined bs fs (fs_put p n fs)"
  unfolding confined_def by (metis fs_get_put_Nil)

lemma confined_put_ancestor:
  "strict_prefix p bs \<Longrightarrow> fs_get fs p = None \<Longrightarrow> confined bs fs (fs_put p Dir fs)"
  by (auto simp: confined_def fs_get_put fs_get_def [of fs p] split: if_splits)

lemma confined_mkdirs:
  assumes "fs_mkdirs fs pre cs = Inr (u, fs')" "prefix (pre @ cs) bs \<or> prefix bs (pre @ cs)"
  shows "confined bs fs fs'"
  using assms
proof (induction cs arbitrary: fs pre)
  case (Cons c cs)
  let ?p = "pre @ [c]"
  have cmp: "prefix (?p @ cs) bs \<or> prefix bs (?p @ cs)" using Cons.prems(2) by simp
  have "prefix ?p bs \<or> prefix bs ?p"
    using Cons.prems(2) prefix_same_cases [of ?p "pre @ c # cs" bs] by (auto simp: prefix_def)
  then have put: "fs_get fs ?p = None \<Longrightarrow> confined bs fs (fs_put ?p Dir fs)"
    using confined_put confined_put_ancestor by (metis prefix_order.le_less prefix_order.refl)
  show ?case
  proof (cases "fs_get fs ?p")
    case None
    then have "fs_mkdirs (fs_put ?p Dir fs) ?p cs = Inr (u, fs')" using Cons.prems(1) by simp
    then show ?thesis using Cons.IH [OF _ cmp] put [OF None] confined_trans by blast
  next
    case (Some n)
    then have "fs_mkdirs fs ?p cs = Inr (u, fs')" using Cons.prems(1) by (cases n) auto
    then show ?thesis using Cons.IH [OF _ cmp] by blast
  qed
qed simp

lemma fs_get_filter:
  "q \<noteq> [] \<Longrightarrow> P q \<Longrightarrow> fs_get (filter (\<lambda>(p, n). P p) fs) q = fs_get fs q"
  unfolding fs_get_def by (induction fs) auto

lemma confined_filter: "(\<And>q. \<not> prefix bs q \<Longrightarrow> P q) \<Longrightarrow> confined bs fs (filter (\<lambda>(q, n). P q) fs)"
  unfolding confined_def by (metis fs_get_def fs_get_filter)

lemma confined_rename:
  assumes "fs_rename src dst fs = Inr (u, fs')" "prefix bs src" "prefix bs dst"
  shows "confined bs fs fs'"
proof -
  let ?mv = "\<lambda>(q, m). (if prefix src q then dst @ drop (length src) q else q, m)"
  have g: "fs_get (map ?mv (filter (\<lambda>(q, m). q \<noteq> dst) fs)) q = fs_get fs q" if q: "\<not> prefix bs q" for q
  proof -
    have d: "\<forall>r. q \<noteq> dst @ r" "q \<noteq> dst" using q assms(3) by (auto simp: prefix_def)
    have s: "\<not> prefix src q" using q assms(2) prefix_order.trans by blast
    have "map_of (map ?mv (filter (\<lambda>(q, m). q \<noteq> dst) fs)) q = map_of fs q"
      using d s by (induction fs) auto
    then show ?thesis by (simp add: fs_get_def)
  qed
  have "fs' = fs \<or> fs' = map ?mv (filter (\<lambda>(q, m). q \<noteq> dst) fs)"
    using assms(1) by (auto simp: fs_rename_def split: sum.splits io_error.splits fs_node.splits if_splits)
  then show ?thesis using g by (auto simp: confined_def)
qed

lemma confined_create:
  assumes "fs_create p fs = Inr (u, fs')" "prefix bs p"
  shows "confined bs fs fs'"
proof -
  have "fs' = fs_put p (File '''') fs"
    using assms(1) by (auto simp: fs_create_def split: sum.splits io_error.splits fs_node.splits)
  then show ?thesis using confined_put [OF assms(2)] by simp
qed

lemma confined_remove: "fs_remove_all p fs = Inr (u, fs') \<Longrightarrow> prefix bs p \<Longrightarrow> confined bs fs fs'"
  by (auto simp: fs_remove_all_def split: sum.splits io_error.splits intro!: confined_filter dest: prefix_order.trans)

section \<open>Directories made\<close>

definition dirs :: "fs \<Rightarrow> fs_path \<Rightarrow> bool" where
  "dirs fs p \<longleftrightarrow> (\<forall>q. prefix q p \<longrightarrow> fs_get fs q = Some Dir)"

lemma walk_dirs: "dirs fs (pre @ cs) \<Longrightarrow> fs_walk fs pre cs = Inr Dir"
  by (induction cs arbitrary: pre) (auto simp: dirs_def)

lemma stat_dirs: "dirs fs p \<Longrightarrow> prefix q p \<Longrightarrow> fs_stat fs q = Inr Dir"
  unfolding fs_stat_def by (intro walk_dirs) (auto simp: dirs_def dest: prefix_order.trans)

lemma dirs_snoc: "dirs fs (p @ [c]) \<longleftrightarrow> dirs fs p \<and> fs_get fs (p @ [c]) = Some Dir"
  by (auto simp: dirs_def)

lemma mkdirs_dirs: "fs_mkdirs fs pre cs = Inr (u, fs') \<Longrightarrow> dirs fs pre \<Longrightarrow> dirs fs' (pre @ cs)"
proof (induction cs arbitrary: fs pre)
  case (Cons c cs)
  have step: "fs_mkdirs fs1 (pre @ [c]) cs = Inr (u, fs') \<Longrightarrow> dirs fs1 (pre @ [c]) \<Longrightarrow> dirs fs' (pre @ c # cs)" for fs1
    using Cons.IH [of fs1 "pre @ [c]"] by simp
  show ?case
  proof (cases "fs_get fs (pre @ [c])")
    case None
    then have "dirs (fs_put (pre @ [c]) Dir fs) (pre @ [c])"
      using Cons.prems(2) by (auto simp: dirs_def fs_get_put)
    then show ?thesis using step None Cons.prems(1) by simp
  next
    case (Some n)
    then show ?thesis using step Cons.prems by (cases n) (auto simp: dirs_snoc)
  qed
qed simp

lemma dirs_Nil [simp]: "dirs fs []"
  by (simp add: dirs_def fs_get_def)

lemma create_dir_fails: "dirs fs p \<Longrightarrow> prefix q p \<Longrightarrow> fs_create q fs = Inl IsDir"
  by (simp add: fs_create_def stat_dirs)

section \<open>Calls\<close>

definition on_fs :: "(fs \<Rightarrow> bool) \<Rightarrow> vol_world \<Rightarrow> bool" where
  "on_fs P w \<longleftrightarrow> P (v_fs w)"

text \<open>The world whose files are those of \<open>fs0\<close> but for the directory \<open>bs\<close>.\<close>

abbreviation inside :: "fs_path \<Rightarrow> fs \<Rightarrow> vol_world \<Rightarrow> bool" where
  "inside bs fs0 \<equiv> on_fs (confined bs fs0)"

lemma keeps_os_call:
  assumes "\<And>n ps fs. confined bs fs (part n ps fs)" "\<And>fs x fs'. f fs = Inr (x, fs') \<Longrightarrow> confined bs fs fs'"
  shows "keeps (inside bs fs0) (os_call part f)"
proof (rule keepsI)
  fix w assume I: "inside bs fs0 w"
  show "inside bs fs0 (snd (run_state (os_call part f) w))"
    using I confined_trans [OF _ assms(1)] confined_trans [OF _ assms(2)]
    by (fastforce simp: on_fs_def os_call_def Let_def split: option.splits io_fault.splits sum.splits list.splits)
qed

lemma keeps_on_store [keeps_intros]: "keeps (on_fs P) (on_store m)"
  by (auto simp: keeps_def on_fs_def on_store_def split: prod.splits)

lemma keeps_os_read [keeps_intros]: "keeps (on_fs P) (os_read f)"
  by (auto simp: keeps_def on_fs_def os_read_def os_call_def Let_def split: option.splits io_fault.splits sum.splits)

lemma keeps_send_file [keeps_intros]: "keeps (on_fs P) (send_file c p)"
  by (auto simp: keeps_def on_fs_def send_file_def)

lemma keeps_io_status [keeps_intros]: "keeps I m \<Longrightarrow> keeps I (io_status code m)"
  unfolding io_status_def by (intro keeps_intros)

lemma keeps_v_basic [keeps_intros]: "keeps I (v_require b code e)" "keeps I (body400 x)" "keeps I (sub_path400 p)"
  "keeps I (safe_path400 base sub)"
  by (simp_all add: keeps_def v_require_def body400_def sub_path400_def safe_path400_def)

lemma os_parts_abs: "\<forall>x \<in> set ps. proper x \<Longrightarrow> os_parts c (abs_path ps) = ps"
  by (simp add: os_parts_def clean_parts_abs_path)

lemma safe_path400_runs:
  assumes "\<forall>x \<in> set bs. proper x"
  obtains ds where "\<forall>x \<in> set (bs @ ds). proper x"
    and "safe_path400 (abs_path bs) sub = State_Monad.return (Inr (abs_path (bs @ ds)))"
  using that [of "clean_parts True (CHR ''/'' # sub)"] assms safe_path_below [OF assms, of sub] clean_parts_proper
  by (auto simp: safe_path400_def)

text \<open>A path below the base goes on as a list of components.\<close>

lemma keeps_safe_path:
  assumes "\<forall>x \<in> set bs. proper x"
    and "\<And>ds. \<forall>x \<in> set (bs @ ds). proper x \<Longrightarrow> keeps I (k (abs_path (bs @ ds)))"
  shows "keeps I (attempt (safe_path400 (abs_path bs) sub) k)"
proof -
  obtain ds where "\<forall>x \<in> set (bs @ ds). proper x"
    and "safe_path400 (abs_path bs) sub = State_Monad.return (Inr (abs_path (bs @ ds)))"
    using safe_path400_runs [OF assms(1)] .
  then show ?thesis using assms(2) [of ds] by (auto simp: keeps_def)
qed

lemma keeps_mkdir_below:
  assumes "\<forall>x \<in> set ps. proper x" "prefix ps bs \<or> prefix bs ps"
  shows "keeps (inside bs fs0) (os_MkdirAll c (abs_path ps))"
  unfolding os_MkdirAll_def os_parts_abs [OF assms(1)]
proof (rule keeps_os_call)
  fix n :: nat and qs :: "fs_path list" and fs :: fs
  have "prefix (take n ps) bs \<or> prefix bs (take n ps)"
    using assms(2) take_is_prefix [of n ps] prefix_order.trans prefix_same_cases by metis
  then show "confined bs fs (case fs_mkdirs fs [] (take n ps) of Inl _ \<Rightarrow> fs | Inr (_, fs') \<Rightarrow> fs')"
    using confined_mkdirs [of fs "[]" "take n ps"] by (auto split: sum.splits)
qed (use assms(2) confined_mkdirs [of _ "[]" ps] in auto)

lemma keeps_create_below:
  assumes "\<forall>x \<in> set (bs @ ds). proper x"
  shows "keeps (inside bs fs0) (os_Create c (abs_path (bs @ ds)))"
    "keeps (inside bs fs0) (io_Copy c (abs_path (bs @ ds)) bytes)"
    "keeps (inside bs fs0) (io_Copy_file c (abs_path (bs @ ds)) src)"
    "keeps (inside bs fs0) (os_RemoveAll c (abs_path (bs @ ds)))"
  unfolding os_Create_def io_Copy_def io_Copy_file_def os_RemoveAll_def os_parts_abs [OF assms]
  by (rule keeps_os_call; auto intro!: confined_put confined_filter intro: prefixI dest: confined_create confined_remove
      append_prefixD)+

lemma keeps_rename_below:
  assumes "\<forall>x \<in> set (bs @ ds). proper x" "\<forall>x \<in> set (bs @ es). proper x"
  shows "keeps (inside bs fs0) (os_Rename c (abs_path (bs @ ds)) (abs_path (bs @ es)))"
  unfolding os_Rename_def os_parts_abs [OF assms(1)] os_parts_abs [OF assms(2)]
  by (rule keeps_os_call) (auto intro: confined_rename prefixI)

section \<open>Handlers\<close>

lemma path_Join_clean:
  assumes "IsAbs r"
  obtains bs where "path_Join [r, x] = abs_path bs" and "\<forall>y \<in> set bs. proper y"
    and "bs = clean_parts True (r @ CHR ''/'' # x)"
proof -
  have r: "r \<noteq> ''''" "IsAbs (r @ CHR ''/'' # x)" using assms by (auto simp: IsAbs_def HasPrefix_iff)
  have "path_Join [r, x] = abs_path (clean_parts True (r @ CHR ''/'' # x))"
    using r by (simp add: path_Join_def Clean_abs)
  then show thesis using that clean_parts_proper by blast
qed

lemma keeps_done_with [keeps_intros]: "keeps I m \<Longrightarrow> keeps I (done_with m)"
  unfolding done_with_def by (intro keeps_intros)

lemma keeps_list_files:
  assumes "\<forall>x \<in> set bs. proper x"
  shows "keeps (on_fs P) (list_files c (abs_path bs) sub)"
  unfolding list_files_def os_ReadDir_def by (rule keeps_safe_path [OF assms]) (intro keeps_intros)

lemma keeps_case_node [keeps_intros]:
  "keeps I f \<Longrightarrow> (\<And>s. keeps I (g s)) \<Longrightarrow> keeps I (case n of Dir \<Rightarrow> f | File s \<Rightarrow> g s)"
  by (cases n) auto

lemma keeps_download:
  assumes "\<forall>x \<in> set bs. proper x"
  shows "keeps (on_fs P) (download_file c (abs_path bs) sub)"
  unfolding download_file_def os_Open_def by (intro keeps_intros keeps_safe_path [OF assms])

lemma keeps_delete:
  assumes "\<forall>x \<in> set bs. proper x"
  shows "keeps (inside bs fs0) (delete_file c (abs_path bs) sub msg)"
  unfolding delete_file_def
  by (intro keeps_intros keeps_safe_path [OF assms] keeps_create_below)

text \<open>A file name may be \<open>..\<close>: its path is then a directory that has just been made.\<close>

lemma upload_target:
  assumes "\<forall>x \<in> set ps. proper x"
  shows "path_Join [abs_path ps, path_Base f] = abs_path (butlast ps)
    \<or> path_Join [abs_path ps, path_Base f] = abs_path ps
    \<or> (\<exists>b. proper b \<and> path_Join [abs_path ps, path_Base f] = abs_path (ps @ [b]))"
proof -
  let ?b = "path_Base f"
  have no_sep: "CHR ''/'' \<notin> set b \<Longrightarrow> Split CHR ''/'' b = [b]" for b by (induction b) auto
  have *: "path_Join [abs_path ps, ?b] = abs_path (rev (foldl (clean_step True) (rev ps) (Split CHR ''/'' ?b)))"
    by (rule path_Join_abs [OF assms])
  consider "?b = ''/''" | "?b = ''.''" | "?b = ''..''" | "proper ?b"
    using path_Base_plain [of f] by (auto simp: proper_def)
  then show ?thesis
  proof cases
    case 1
    then show ?thesis using * by (simp add: clean_step_def)
  next
    case 2
    then show ?thesis using * by (simp add: clean_step_def)
  next
    case 3
    have "rev (clean_step True (rev ps) ''..'') = butlast ps"
      using assms by (cases ps rule: rev_cases) (auto simp: clean_step_def proper_def)
    then show ?thesis using * 3 by (simp add: no_sep)
  next
    case 4
    then have "Split CHR ''/'' ?b = [?b]" by (intro no_sep) (simp add: proper_def)
    then have "path_Join [abs_path ps, ?b] = abs_path (ps @ [?b])"
      using * 4 clean_fold_proper [of "[?b]" True "rev ps"] by simp
    then show ?thesis using 4 by blast
  qed
qed

lemma os_call_Inr:
  assumes "run_state (os_call part f) w = (Inr x, w')"
  shows "f (v_fs w) = Inr (x, v_fs w')"
  using assms by (auto simp: os_call_def Let_def split: option.splits io_fault.splits sum.splits)

lemma keeps_upload:
  assumes "\<forall>x \<in> set bs. proper x"
  shows "keeps (inside bs fs0) (upload_file c (abs_path bs) sub form)"
proof -
  have tail: "keeps (inside bs fs0) (attempt (io_status 500 (os_MkdirAll c (abs_path ps))) (\<lambda>_.
      let destPath = path_Join [abs_path ps, path_Base f] in
      attempt (io_status 500 (os_Create c destPath)) (\<lambda>_.
      attempt (io_status 500 (io_Copy c destPath bytes)) (\<lambda>_.
      ok (TrimPrefix destPath (abs_path bs))))))"
    if p: "\<forall>x \<in> set (bs @ ds). proper x" and ps: "ps = bs @ ds" for ds ps f bytes
  proof (rule keeps_valid, rule valid_attempt)
    let ?R = "\<lambda>r w. inside bs fs0 w \<and> (\<forall>u. r = Inr u \<longrightarrow> dirs (v_fs w) ps)"
    have k: "keeps (inside bs fs0) (io_status 500 (os_MkdirAll c (abs_path ps)))"
      using p ps by (intro keeps_intros keeps_mkdir_below) auto
    show "valid (inside bs fs0) (io_status 500 (os_MkdirAll c (abs_path ps))) ?R"
    proof (rule validI, intro conjI allI impI)
      fix s r s' assume I: "inside bs fs0 s" and run: "run_state (io_status 500 (os_MkdirAll c (abs_path ps))) s = (r, s')"
      show "inside bs fs0 s'" using keepsE [OF k I run] .
      fix u assume "r = Inr u"
      then have "run_state (os_MkdirAll c (abs_path ps)) s = (Inr u, s')"
        using run by (auto simp: io_status_def split: prod.splits sum.splits)
      then show "dirs (v_fs s') ps"
        using p ps mkdirs_dirs [of "v_fs s" "[]" ps u] by (auto simp: os_MkdirAll_def os_parts_abs dest: os_call_Inr)
    qed
    fix u :: unit
    let ?t = "path_Join [abs_path ps, path_Base f]"
    have psp: "\<forall>x \<in> set ps. proper x" using p ps by simp
    show "valid (?R (Inr u)) (let destPath = ?t in attempt (io_status 500 (os_Create c destPath)) (\<lambda>_.
        attempt (io_status 500 (io_Copy c destPath bytes)) (\<lambda>_. ok (TrimPrefix destPath (abs_path bs))))) (\<lambda>_. inside bs fs0)"
    proof (cases "\<exists>b. proper b \<and> ?t = abs_path (ps @ [b])")
      case True
      then obtain b where b: "proper b" "?t = abs_path (bs @ (ds @ [b]))" using ps by auto
      then have "\<forall>x \<in> set (bs @ (ds @ [b])). proper x" using p by auto
      then have "keeps (inside bs fs0) (let destPath = ?t in attempt (io_status 500 (os_Create c destPath)) (\<lambda>_.
        attempt (io_status 500 (io_Copy c destPath bytes)) (\<lambda>_. ok (TrimPrefix destPath (abs_path bs)))))"
        unfolding Let_def b(2) by (intro keeps_intros keeps_create_below)
      from valid_keeps [OF this] show ?thesis by (rule valid_pre) simp
    next
      case False
      then obtain qs where qs: "?t = abs_path qs" "prefix qs ps" "\<forall>x \<in> set qs. proper x"
        using upload_target [OF psp, of f] psp prefixeq_butlast by (metis in_set_butlastD prefix_order.refl)
      have "\<exists>e s2. run_state (os_Create c (abs_path qs)) s = (Inl e, s2) \<and> v_fs s2 = v_fs s" if "dirs (v_fs s) ps" for s
        using create_dir_fails [OF that qs(2)]
        by (auto simp: os_Create_def os_parts_abs [OF qs(3)] os_call_def Let_def split: option.splits io_fault.splits list.splits)
      then show ?thesis unfolding Let_def qs(1)
        by (fastforce simp: valid_def io_status_def on_fs_def split: prod.splits)
    qed
  qed auto
  then show ?thesis unfolding upload_file_def
    by (intro keeps_attempt keeps_v_basic keeps_case_prod keeps_safe_path [OF assms] tail) auto
qed

section \<open>Who changes which files\<close>

lemma requireAuthorized_run:
  assumes "run_state (requireAuthorized pm h) w = (r, w')"
  obtains "v_fs w' = v_fs w"
  | fs where "fst (run_state (isUserAuthorized pm) (v_db w))"
      and "run_state h (w\<lparr>v_db := (v_db w)\<lparr>db_faults := fs\<rparr>\<rparr>) = (r, w')"
proof -
  have "reads_only (isUserAuthorized pm)"
    unfolding isUserAuthorized_def by (cases "PlatformRoleFromCtx pm") (auto intro!: reads_intros split: user_role.splits)
  then obtain a fs where a: "run_state (isUserAuthorized pm) (v_db w) = (a, (v_db w)\<lparr>db_faults := fs\<rparr>)"
    unfolding reads_only_def by (metis prod.collapse)
  show thesis using assms that a by (cases a) (auto simp: requireAuthorized_def on_store_def)
qed

definition uses_dataset :: "user \<Rightarrow> uuid \<Rightarrow> vol_world \<Rightarrow> bool" where
  "uses_dataset u i w \<longleftrightarrow> is_admin u \<or> (i, u_id u) \<in> set (v_members w)"

definition same_but_faults :: "vol_world \<Rightarrow> vol_world \<Rightarrow> bool" where
  "same_but_faults w w1 \<longleftrightarrow> (\<exists>fs. w1 = w\<lparr>v_db := (v_db w)\<lparr>db_faults := fs\<rparr>\<rparr>)"

lemma same_but_faults_refl [simp]: "same_but_faults w w"
  unfolding same_but_faults_def by (rule exI [of _ "db_faults (v_db w)"]) simp

lemma same_but_faultsD: "same_but_faults w w1 \<Longrightarrow> v_fs w1 = v_fs w \<and> v_members w1 = v_members w
    \<and> dataset_by (v_db w1) i = dataset_by (v_db w) i \<and> project_members (v_db w1) = project_members (v_db w)"
  by (auto simp: same_but_faults_def dataset_by_def)

lemma CanAccessDataset_run:
  assumes "run_state (CanAccessDataset uid i a) w = (r, w1)"
  shows "same_but_faults w w1" and "r = Inr True \<Longrightarrow> a \<or> (i, uid) \<in> set (v_members w)"
proof -
  have "same_but_faults w w1 \<and> (r = Inr True \<longrightarrow> a \<or> (i, uid) \<in> set (v_members w))"
  proof (cases a)
    case True
    then show ?thesis using assms by (auto simp: CanAccessDataset_def ok_def)
  next
    case False
    then show ?thesis using assms
      by (auto simp: CanAccessDataset_def vsql_def run_query popped_def Let_def filter_empty_conv same_but_faults_def
          split: option.splits)
  qed
  then show "same_but_faults w w1" and "r = Inr True \<Longrightarrow> a \<or> (i, uid) \<in> set (v_members w)" by auto
qed

lemma dataset_base_run:
  assumes "run_state (dataset_base c u i) w = (r, w1)"
  shows "v_fs w1 = v_fs w"
    and "r = Inr base \<Longrightarrow> uses_dataset u i w \<and> (\<exists>d. dataset_by (v_db w) i = Some d \<and> base = path_Join [vc_datasets c, ds_nfs_path d])"
proof -
  obtain r0 w0 where can: "run_state (CanAccessDataset (u_id u) i (is_admin u)) w = (r0, w0)" by fastforce
  note w0 = same_but_faultsD [OF CanAccessDataset_run(1) [OF can]]
  have use: "r0 = Inr True \<Longrightarrow> uses_dataset u i w"
    using CanAccessDataset_run(2) [OF can] by (simp add: uses_dataset_def)
  show "v_fs w1 = v_fs w"
    using assms can w0 by (auto simp: dataset_base_def datasetDir_def on_store_def GetDataset_def run_query
        split: if_splits option.splits sum.splits prod.splits)
  show "r = Inr base \<Longrightarrow> uses_dataset u i w \<and> (\<exists>d. dataset_by (v_db w) i = Some d \<and> base = path_Join [vc_datasets c, ds_nfs_path d])"
    using assms can w0 use by (auto simp: dataset_base_def datasetDir_def on_store_def GetDataset_def dataset_by_def run_query
        split: if_splits option.splits sum.splits prod.splits)
qed

definition dataset_dir :: "vol_cfg \<Rightarrow> dataset \<Rightarrow> fs_path" where
  "dataset_dir c d = clean_parts True (vc_datasets c @ ''/'' @ ds_nfs_path d)"

definition dataset_change :: "vol_cfg \<Rightarrow> user \<Rightarrow> uuid \<Rightarrow> vol_world \<Rightarrow> vol_world \<Rightarrow> bool" where
  "dataset_change c u i w w' \<longleftrightarrow> uses_dataset u i w \<and>
     (\<exists>d. dataset_by (v_db w) i = Some d \<and> confined (dataset_dir c d) (v_fs w) (v_fs w'))"

lemma behind_dataset_base:
  assumes "run_state (attempt (dataset_base c u i) k) w = (r, w')" "IsAbs (vc_datasets c)"
    and "\<And>bs. \<forall>x \<in> set bs. proper x \<Longrightarrow> keeps (inside bs (v_fs w)) (k (abs_path bs))"
  shows "v_fs w' = v_fs w \<or> dataset_change c u i w w'"
proof -
  obtain b w1 where b: "run_state (dataset_base c u i) w = (b, w1)" by fastforce
  show ?thesis
  proof (cases b)
    case (Inl e)
    then show ?thesis using assms(1) b dataset_base_run(1) [OF b] by (simp add: run_attempt)
  next
    case (Inr base)
    then obtain d where d: "uses_dataset u i w" "dataset_by (v_db w) i = Some d" "base = path_Join [vc_datasets c, ds_nfs_path d]"
      using dataset_base_run(2) [OF b Inr] by blast
    obtain bs where bs: "base = abs_path bs" "\<forall>y \<in> set bs. proper y" "bs = dataset_dir c d"
      using path_Join_clean [OF assms(2), of "ds_nfs_path d"] d(3) by (auto simp: dataset_dir_def)
    have "run_state (k (abs_path bs)) w1 = (r, w')" using assms(1) b Inr bs(1) by (simp add: run_attempt)
    moreover have "inside bs (v_fs w) w1" using dataset_base_run(1) [OF b] by (simp add: on_fs_def)
    ultimately have "inside bs (v_fs w) w'" using keepsE [OF assms(3) [OF bs(2)]] by blast
    then show ?thesis using d bs(3) by (auto simp: dataset_change_def on_fs_def)
  qed
qed

lemma workspace_base_run:
  assumes "run_state (workspace_base c u i code) w = (r, w1)"
  shows "v_fs w1 = v_fs w"
    and "r = Inr base \<Longrightarrow> (is_admin u \<or> (i, u_id u) \<in> set (project_members (v_db w))) \<and> base = path_Join [vc_volumes c, i]"
proof -
  have "v_fs w1 = v_fs w \<and> (r = Inr base \<longrightarrow> (is_admin u \<or> (i, u_id u) \<in> set (project_members (v_db w))) \<and> base = path_Join [vc_volumes c, i])"
    using assms by (auto simp: workspace_base_def project_allowed_def on_store_def CanAccessProject_def run_query run_attempt
        run_ok ok_def filter_empty_conv workspaceDir_def split: if_splits option.splits sum.splits prod.splits)
  then show "v_fs w1 = v_fs w"
    and "r = Inr base \<Longrightarrow> (is_admin u \<or> (i, u_id u) \<in> set (project_members (v_db w))) \<and> base = path_Join [vc_volumes c, i]"
    by auto
qed

definition workspace_change :: "vol_cfg \<Rightarrow> user \<Rightarrow> uuid \<Rightarrow> vol_world \<Rightarrow> vol_world \<Rightarrow> bool" where
  "workspace_change c u i w w' \<longleftrightarrow> (is_admin u \<or> (i, u_id u) \<in> set (project_members (v_db w)))
     \<and> confined (clean_parts True (vc_volumes c @ ''/'' @ i)) (v_fs w) (v_fs w')"

lemma behind_workspace_base:
  assumes "run_state (attempt (workspace_base c u i code) k) w = (r, w')" "IsAbs (vc_volumes c)"
    and "\<And>bs. \<forall>x \<in> set bs. proper x \<Longrightarrow> keeps (inside bs (v_fs w)) (k (abs_path bs))"
  shows "v_fs w' = v_fs w \<or> workspace_change c u i w w'"
proof -
  obtain b w1 where b: "run_state (workspace_base c u i code) w = (b, w1)" by fastforce
  show ?thesis
  proof (cases b)
    case (Inl e)
    then show ?thesis using assms(1) b workspace_base_run(1) [OF b] by (simp add: run_attempt)
  next
    case (Inr base)
    then have d: "is_admin u \<or> (i, u_id u) \<in> set (project_members (v_db w))" "base = path_Join [vc_volumes c, i]"
      using workspace_base_run(2) [OF b Inr] by blast+
    obtain bs where bs: "base = abs_path bs" "\<forall>y \<in> set bs. proper y" "bs = clean_parts True (vc_volumes c @ CHR ''/'' # i)"
      using path_Join_clean [OF assms(2), of i] d(2) by auto
    have "run_state (k (abs_path bs)) w1 = (r, w')" using assms(1) b Inr bs(1) by (simp add: run_attempt)
    moreover have "inside bs (v_fs w) w1" using workspace_base_run(1) [OF b] by (simp add: on_fs_def)
    ultimately have "inside bs (v_fs w) w'" using keepsE [OF assms(3) [OF bs(2)]] by blast
    then show ?thesis using d bs(3) by (auto simp: workspace_change_def on_fs_def)
  qed
qed

text \<open>The tails of the handlers that write, behind the base.\<close>

lemma keeps_mkdir_tail:
  assumes "\<forall>x \<in> set bs. proper x"
  shows "keeps (inside bs fs0) (attempt (body400 body) (\<lambda>path.
     attempt (v_require (path \<noteq> '''') 400 e) (\<lambda>_.
     attempt (safe_path400 (abs_path bs) path) (\<lambda>target.
     attempt (io_status 500 (os_MkdirAll c target)) (\<lambda>_. ok path)))))"
  by (intro keeps_attempt keeps_v_basic keeps_safe_path [OF assms] keeps_io_status keeps_mkdir_below keeps_ok) auto

lemma keeps_mkdir_parent:
  assumes "\<forall>x \<in> set (bs @ ds). proper x"
  shows "keeps (inside bs fs0) (os_MkdirAll c (path_Dir (abs_path (bs @ ds))))"
proof -
  have "prefix (butlast (bs @ ds)) bs \<or> prefix bs (butlast (bs @ ds))"
    by (cases "ds = []") (auto simp: butlast_append prefixeq_butlast)
  moreover have "\<forall>x \<in> set (butlast (bs @ ds)). proper x" using assms by (meson in_set_butlastD)
  ultimately show ?thesis unfolding path_Dir_abs [OF assms] by (rule keeps_mkdir_below [rotated])
qed

lemma keeps_move_tail:
  assumes "\<forall>x \<in> set bs. proper x"
  shows "keeps (inside bs fs0) (attempt (body400 body) (\<lambda>(src, dst).
     attempt (v_require (src \<noteq> '''' \<and> dst \<noteq> '''') 400 e) (\<lambda>_.
     attempt (safe_path400 (abs_path bs) src) (\<lambda>srcPath.
     attempt (safe_path400 (abs_path bs) dst) (\<lambda>dstPath.
     attempt (io_status 500 (os_MkdirAll c (path_Dir dstPath))) (\<lambda>_.
     io_status 500 (os_Rename c srcPath dstPath)))))))"
  by (intro keeps_attempt keeps_v_basic keeps_case_prod keeps_safe_path [OF assms] keeps_io_status keeps_mkdir_parent
      keeps_rename_below)

lemma keeps_copy_tail:
  assumes "\<forall>x \<in> set bs. proper x"
  shows "keeps (inside bs fs0) (attempt (body400 body) (\<lambda>(src, dst).
     attempt (v_require (src \<noteq> '''' \<and> dst \<noteq> '''') 400 e) (\<lambda>_.
     attempt (safe_path400 (abs_path bs) src) (\<lambda>srcPath.
     attempt (safe_path400 (abs_path bs) dst) (\<lambda>dstPath.
     attempt (open_source c srcPath) (\<lambda>_.
     attempt (io_status 500 (os_MkdirAll c (path_Dir dstPath))) (\<lambda>_.
     attempt (io_status 500 (os_Create c dstPath)) (\<lambda>_.
     io_status 500 (io_Copy_file c dstPath srcPath)))))))))"
proof -
  have "keeps (inside bs fs0) (open_source c p)" for p
    unfolding open_source_def os_Open_def by (intro keeps_intros)
  then show ?thesis
    by (intro keeps_attempt keeps_v_basic keeps_case_prod keeps_safe_path [OF assms] keeps_io_status keeps_mkdir_parent
        keeps_create_below)
qed

lemma done_with_run: "run_state (done_with m) w = (r, w') \<Longrightarrow> \<exists>r0. run_state m w = (r0, w')"
  by (auto simp: done_with_def run_attempt run_ok split: prod.splits sum.splits)

lemma behind_dataset_read:
  assumes "run_state (attempt (dataset_base c u i) k) w = (r, w')" "IsAbs (vc_datasets c)"
    and "\<And>bs P. \<forall>x \<in> set bs. proper x \<Longrightarrow> keeps (on_fs P) (k (abs_path bs))"
  shows "v_fs w' = v_fs w"
proof -
  obtain b w1 where b: "run_state (dataset_base c u i) w = (b, w1)" by fastforce
  show ?thesis
  proof (cases b)
    case (Inl e)
    then show ?thesis using assms(1) b dataset_base_run(1) [OF b] by (simp add: run_attempt)
  next
    case (Inr base)
    then obtain d :: dataset where "base = path_Join [vc_datasets c, ds_nfs_path d]" using dataset_base_run(2) [OF b Inr] by blast
    then obtain bs where bs: "base = abs_path bs" "\<forall>y \<in> set bs. proper y"
      using path_Join_clean [OF assms(2), of "ds_nfs_path d"] by auto
    have "run_state (k (abs_path bs)) w1 = (r, w')" using assms(1) b Inr bs(1) by (simp add: run_attempt)
    moreover have "on_fs (\<lambda>fs. fs = v_fs w) w1" using dataset_base_run(1) [OF b] by (simp add: on_fs_def)
    ultimately have "on_fs (\<lambda>fs. fs = v_fs w) w'" using keepsE [OF assms(3) [OF bs(2)]] by blast
    then show ?thesis by (simp add: on_fs_def)
  qed
qed

lemma files_behind_base:
  assumes "IsAbs (vc_datasets c)"
  shows "run_state (datasetFileUpload c u i sub form) w = (r1, w') \<Longrightarrow> v_fs w' = v_fs w \<or> dataset_change c u i w w'"
    and "run_state (datasetFileDelete c u i sub) w = (r2, w') \<Longrightarrow> v_fs w' = v_fs w \<or> dataset_change c u i w w'"
    and "run_state (datasetFileMkdir c u i body) w = (r1, w') \<Longrightarrow> v_fs w' = v_fs w \<or> dataset_change c u i w w'"
    and "run_state (datasetFileMove c u i body2) w = (r2, w') \<Longrightarrow> v_fs w' = v_fs w \<or> dataset_change c u i w w'"
    and "run_state (datasetFileCopy c u i body2) w = (r2, w') \<Longrightarrow> v_fs w' = v_fs w \<or> dataset_change c u i w w'"
  unfolding datasetFileUpload_def datasetFileDelete_def datasetFileMkdir_def datasetFileMove_def datasetFileCopy_def
  by (erule behind_dataset_base [OF _ assms], rule keeps_upload keeps_delete keeps_mkdir_tail keeps_move_tail keeps_copy_tail,
      assumption)+

lemma authorized_change:
  assumes "run_state (requireAuthorized pm h) w = (r, w')"
    and "\<And>w r. run_state h w = (r, w') \<Longrightarrow> v_fs w' = v_fs w \<or> dataset_change c u i w w'"
  shows "v_fs w' = v_fs w \<or> (fst (run_state (isUserAuthorized pm) (v_db w)) \<and> dataset_change c u i w w')"
  using assms(1)
proof (cases rule: requireAuthorized_run)
  case (2 fs)
  let ?w = "w\<lparr>v_db := (v_db w)\<lparr>db_faults := fs\<rparr>\<rparr>"
  have "v_fs w' = v_fs ?w \<or> dataset_change c u i ?w w'" using assms(2) [OF 2(2)] .
  moreover have "dataset_change c u i ?w w' = dataset_change c u i w w'"
    by (simp add: dataset_change_def uses_dataset_def dataset_by_def)
  ultimately show ?thesis using 2(1) by simp
qed simp

lemma dataset_files_change:
  assumes "run_state (dataset_files c u pm i req) w = (r, w')" and "IsAbs (vc_datasets c)"
  shows "v_fs w' = v_fs w \<or> (fst (run_state (isUserAuthorized pm) (v_db w)) \<and> dataset_change c u i w w')"
proof -
  note behind = files_behind_base [OF assms(2), of u i]
  show ?thesis
  proof (cases req)
    case (FileList sub)
    then obtain r0 where "run_state (datasetFileList c u i sub) w = (r0, w')"
      using assms(1) by (auto dest: done_with_run)
    from behind_dataset_read [OF this [unfolded datasetFileList_def] assms(2)] show ?thesis
      by (simp add: keeps_list_files)
  next
    case (FileDownload sub)
    then obtain r0 where "run_state (datasetFileDownload c u i sub) w = (r0, w')"
      using assms(1) by (auto dest: done_with_run)
    from behind_dataset_read [OF this [unfolded datasetFileDownload_def] assms(2)] show ?thesis
      by (simp add: keeps_download)
  next
    case (FileUpload sub form)
    from assms(1) [unfolded FileUpload dataset_files.simps] show ?thesis
      by (rule authorized_change) (metis behind(1) done_with_run)
  next
    case (FileDelete sub)
    from assms(1) [unfolded FileDelete dataset_files.simps] show ?thesis by (rule authorized_change) (rule behind(2))
  next
    case (FileMkdir body)
    from assms(1) [unfolded FileMkdir dataset_files.simps] show ?thesis
      by (rule authorized_change) (metis behind(3) done_with_run)
  next
    case (FileMove body)
    from assms(1) [unfolded FileMove dataset_files.simps] show ?thesis by (rule authorized_change) (rule behind(4))
  next
    case (FileCopy body)
    from assms(1) [unfolded FileCopy dataset_files.simps] show ?thesis by (rule authorized_change) (rule behind(5))
  qed
qed

text \<open>
  C9: Whatever request on the files of a dataset is served, and whatever paths and file names it carries, the
  file system changes only for an administrator or member of the dataset whom the platform authorises to
  write, and only in the directory of that dataset; all that may appear outside are missing ancestors
  of the directory. The system calls may fail in any way.
\<close>

theorem dataset_files_confined:
  assumes "run_state (dataset_files c u pm i req) w = (r, w')" and "IsAbs (vc_datasets c)"
  shows "v_fs w' = v_fs w \<or> (fst (run_state (isUserAuthorized pm) (v_db w)) \<and> dataset_change c u i w w')"
  using assms by (rule dataset_files_change)

text \<open>
  A request on the workspace of a project changes files only for an administrator or a member of the
  project, and only in the project's own directory under the volumes' base.
\<close>

theorem workspace_files_confined:
  assumes "workspace_files c u pm i req = Some h" and "run_state h w = (r, w')" and "IsAbs (vc_volumes c)"
  shows "v_fs w' = v_fs w \<or> workspace_change c u i w w'"
proof -
  have tails: "run_state (workspaceList c u i sub) w1 = (r1, w') \<Longrightarrow> v_fs w' = v_fs w1 \<or> workspace_change c u i w1 w'"
    "run_state (workspaceDownload c u i sub) w1 = (r2, w') \<Longrightarrow> v_fs w' = v_fs w1 \<or> workspace_change c u i w1 w'"
    "run_state (workspaceUpload c u i sub form) w1 = (r3, w') \<Longrightarrow> v_fs w' = v_fs w1 \<or> workspace_change c u i w1 w'"
    "run_state (workspaceDelete c u i sub) w1 = (r4, w') \<Longrightarrow> v_fs w' = v_fs w1 \<or> workspace_change c u i w1 w'"
    for sub form w1 r1 r2 r3 r4
    unfolding workspaceList_def workspaceDownload_def workspaceUpload_def workspaceDelete_def
    by (erule behind_workspace_base [OF _ assms(3)], rule keeps_list_files keeps_download keeps_upload keeps_delete, assumption)+
  have auth: "v_fs w' = v_fs w \<or> workspace_change c u i w w'"
    if "run_state (requireAuthorized pm h') w = (r, w')"
      and "\<And>w1 r. run_state h' w1 = (r, w') \<Longrightarrow> v_fs w' = v_fs w1 \<or> workspace_change c u i w1 w'" for h'
    using that(1)
  proof (cases rule: requireAuthorized_run)
    case (2 fs)
    from that(2) [OF this(2)] show ?thesis by (simp add: workspace_change_def)
  qed simp
  show ?thesis
  proof (cases req)
    case (FileList sub)
    then show ?thesis using assms(1,2) tails(1) by (auto dest!: done_with_run)
  next
    case (FileDownload sub)
    then show ?thesis using assms(1,2) tails(2) by (auto dest!: done_with_run)
  next
    case (FileUpload sub form)
    then have "run_state (requireAuthorized pm (done_with (workspaceUpload c u i sub form))) w = (r, w')" using assms(1,2) by simp
    then show ?thesis by (rule auth) (metis tails(3) done_with_run)
  next
    case (FileDelete sub)
    then have "run_state (requireAuthorized pm (workspaceDelete c u i sub)) w = (r, w')" using assms(1,2) by simp
    then show ?thesis by (rule auth) (rule tails(4))
  qed (use assms(1) in simp_all)
qed

section \<open>Where a dataset lies\<close>

lemma clean_fold_unrooted:
  assumes "\<forall>c \<in> set cs. CHR ''/'' \<notin> set c" "st = ps @ replicate k ''..''" "\<forall>c \<in> set ps. proper c"
  shows "\<exists>qs l. foldl (clean_step False) st cs = qs @ replicate l ''..'' \<and> (\<forall>c \<in> set qs. proper c)"
  using assms
proof (induction cs arbitrary: st ps k)
  case Nil
  then show ?case by auto
next
  case (Cons c cs)
  have c: "\<forall>c \<in> set cs. CHR ''/'' \<notin> set c" using Cons.prems(1) by simp
  note IH = Cons.IH [OF c]
  consider "c = '''' \<or> c = ''.''" | "c = ''..''" "ps = []" | p qs where "c = ''..''" "ps = p # qs" | "proper c"
    using Cons.prems(1) by (cases ps) (auto simp: proper_def)
  then show ?case
  proof cases
    case 1
    then show ?thesis using IH [OF Cons.prems(2,3)] by (auto simp: clean_step_def)
  next
    case 2
    have "clean_step False st c = [] @ replicate (Suc k) ''..''"
      using 2 Cons.prems(2) by (cases k) (auto simp: clean_step_def)
    then show ?thesis using IH [of "clean_step False st c" "[]" "Suc k"] by simp
  next
    case 3
    then have "clean_step False st c = qs @ replicate k ''..''"
      using Cons.prems(2,3) by (auto simp: clean_step_def proper_def)
    then show ?thesis using IH [of "clean_step False st c" qs k] 3 Cons.prems(3) by simp
  next
    case 4
    then have "clean_step False st c = (c # ps) @ replicate k ''..''"
      using Cons.prems(2) by (auto simp: clean_step_def proper_def)
    then show ?thesis using IH [of "clean_step False st c" "c # ps" k] 4 Cons.prems(3) by simp
  qed
qed

lemma clean_parts_unrooted: "\<exists>l qs. clean_parts False p = replicate l ''..'' @ qs \<and> (\<forall>c \<in> set qs. proper c)"
  using clean_fold_unrooted [of "Split CHR ''/'' p" "[]" "[]" 0] Split_no_sep
  by (fastforce simp: clean_parts_def intro: exI [of _ "rev qs" for qs])

text \<open>
  An accepted sub-path of a dataset names a directory strictly below the configured base, whatever
  dots and slashes the request had.
\<close>

lemma sub_path_below:
  assumes "validateDatasetSubPath raw = Inr p"
  shows "\<exists>ds. ds \<noteq> [] \<and> (\<forall>x \<in> set ds. proper x) \<and> clean_parts True (root @ ''/'' @ p) = clean_parts True root @ ds"
proof -
  let ?t = "TrimSpace raw"
  have t: "?t \<noteq> ''''" "\<not> IsAbs ?t" "p = Clean ?t" "p \<noteq> ''.''" "p \<noteq> ''..''" "\<not> HasPrefix p ''../''"
    using assms by (auto simp: validateDatasetSubPath_def Let_def split: if_splits)
  obtain l qs where c: "clean_parts False ?t = replicate l ''..'' @ qs" "\<forall>c \<in> set qs. proper c"
    using clean_parts_unrooted by blast
  have ne: "replicate l ''..'' @ qs \<noteq> []" and p: "p = Join (replicate l ''..'' @ qs) ''/''"
    using t c(1) by (auto simp: Clean_def split: list.splits if_splits)
  have "l = 0"
  proof (rule ccontr)
    assume "l \<noteq> 0"
    then obtain m where "l = Suc m" by (cases l) auto
    then have "p = Join (''..'' # (replicate m ''..'' @ qs)) ''/''" using p by simp
    then show False using t(5,6) by (cases "replicate m ''..'' @ qs") (auto simp: Join_Cons HasPrefix_def)
  qed
  then have "p = Join qs ''/''" "qs \<noteq> []" using p ne by simp_all
  then have "clean_parts True (root @ ''/'' @ p) = clean_parts True root @ qs"
    using fold_split_proper [OF c(2), of True "rev (clean_parts True root)"] by (simp add: clean_parts_append)
  then show ?thesis using \<open>qs \<noteq> []\<close> c(2) by blast
qed

end
