(* ===== verification/Monitor_Facts.thy ===== *)
theory Monitor_Facts
  imports Monitor Volume_Facts
begin

text \<open>
  What a scan records: the events lead from the files it takes for known to the files it found; which
  files it takes for known; the rows it writes; and how many changes it can write at all.
\<close>

declare run_attempt [simp del] run_ok [simp del]

section \<open>The files taken for known\<close>

lemma replay_snoc: "replay (hs @ [h]) = replay_step (replay hs) h"
  by (simp add: replay_def)

lemma replay_step_lookup: "map_of (replay_step m h) p =
  (if fe_path h = p then (if fe_type h = FileDeleted then None else Some h) else map_of m p)"
  by (auto simp: replay_step_def update_conv' delete_conv')

lemma replay_distinct: "distinct (map fst (replay hs))"
  by (induction hs rule: rev_induct)
    (auto simp: replay_snoc replay_step_def distinct_update distinct_delete, simp add: replay_def)

text \<open>
  The state a scan compares with is, for every file, its \<^emph>\<open>oldest\<close> event within the limit: the history is listed
  newest first and replayed in that order, so that older events overwrite newer ones.
\<close>

lemma replay_oldest:
  "map_of (replay hs) p = (case rev (filter (\<lambda>h. fe_path h = p) hs) of
     [] \<Rightarrow> None | oldest # _ \<Rightarrow> if fe_type oldest = FileDeleted then None else Some oldest)"
proof (induction hs rule: rev_induct)
  case Nil
  then show ?case by (simp add: replay_def)
next
  case (snoc h hs)
  then show ?case by (auto simp: replay_snoc replay_step_lookup)
qed

section \<open>The events of a scan\<close>

definition apply_event :: "(string \<rightharpoonup> string) \<Rightarrow> file_event \<Rightarrow> (string \<rightharpoonup> string)" where
  "apply_event m h = (if fe_type h = FileDeleted then m(fe_path h := None) else m(fe_path h \<mapsto> fe_new_sum h))"

definition known_sum :: "(string \<times> file_event) list \<Rightarrow> string \<rightharpoonup> string" where
  "known_sum prev p = map_option fe_new_sum (map_of prev p)"

definition found_sum :: "file_entry list \<Rightarrow> string \<rightharpoonup> string" where
  "found_sum current = map_of (map (\<lambda>f. (en_path f, en_sum f)) current)"

lemma found_sum_Cons: "found_sum (f # fs) p = (if p = en_path f then Some (en_sum f) else found_sum fs p)"
  by (simp add: found_sum_def)

lemma found_sum_None: "found_sum current p = None \<longleftrightarrow> p \<notin> en_path ` set current"
  by (auto simp: found_sum_def map_of_eq_None_iff image_image)

lemma apply_found:
  assumes "distinct (map en_path current)" "\<And>f. f \<in> set current \<Longrightarrow> m (en_path f) = known_sum prev (en_path f)"
  shows "foldl apply_event m (concat (map (found_event ds snap prev) current)) p =
    (case found_sum current p of None \<Rightarrow> m p | Some s \<Rightarrow> Some s)"
  using assms
proof (induction current arbitrary: m)
  case Nil
  then show ?case by (simp add: found_sum_def)
next
  case (Cons f fs)
  let ?m = "foldl apply_event m (found_event ds snap prev f)"
  have m: "?m = m(en_path f \<mapsto> en_sum f)"
    using Cons.prems(2) [of f] by (auto simp: found_event_def apply_event_def event_of_def known_sum_def split: option.splits)
  have "?m (en_path g) = known_sum prev (en_path g)" if "g \<in> set fs" for g
    using Cons.prems that by (auto simp: m) (metis image_eqI)
  then have "foldl apply_event ?m (concat (map (found_event ds snap prev) fs)) p =
      (case found_sum fs p of None \<Rightarrow> ?m p | Some s \<Rightarrow> Some s)"
    using Cons.IH [of ?m] Cons.prems(1) by simp
  moreover have "found_sum fs (en_path f) = None" using Cons.prems(1) by (simp add: found_sum_None)
  ultimately show ?case by (auto simp: m found_sum_Cons split: option.splits)
qed

lemma apply_gone:
  "foldl apply_event m (concat (map (gone_event ds snap current) prev)) p =
    (if p \<in> fst ` set prev \<and> p \<notin> en_path ` set current then None else m p)"
  by (induction prev arbitrary: m) (auto simp: gone_event_def apply_event_def event_of_def)

lemma found_paths: "map fe_path (concat (map (found_event ds snap prev) fs)) =
    map en_path (filter (\<lambda>f. found_event ds snap prev f \<noteq> []) fs)"
  by (induction fs) (auto simp: found_event_def event_of_def split: option.splits)

lemma gone_paths: "map fe_path (concat (map (gone_event ds snap current) prev)) =
    filter (\<lambda>p. p \<notin> en_path ` set current) (map fst prev)"
  by (induction prev) (auto simp: gone_event_def event_of_def)

lemma found_sum_mem: "distinct (map en_path current) \<Longrightarrow> f \<in> set current \<Longrightarrow> found_sum current (en_path f) = Some (en_sum f)"
  unfolding found_sum_def by (rule map_of_is_SomeI) (auto simp: o_def)

text \<open>
  C24: The events of a scan are exactly what changed: applied one after the other to the checksums of the files
  taken for known they give the checksums of the files found, no file twice, and nothing is reported for
  a file that is as it was known.
\<close>

theorem scan_events_exact:
  assumes "distinct (map en_path current)" and "prev = replay hs"
  shows "foldl apply_event (known_sum prev) (scan_events ds snap prev current) = found_sum current
    \<and> distinct (map fe_path (scan_events ds snap prev current))
    \<and> (\<forall>e \<in> set (scan_events ds snap prev current). known_sum prev (fe_path e) \<noteq> found_sum current (fe_path e))"
proof (intro conjI)
  have dp: "distinct (map fst prev)" using assms(2) replay_distinct by simp
  have known: "known_sum prev p = None \<longleftrightarrow> p \<notin> fst ` set prev" for p by (simp add: known_sum_def map_of_eq_None_iff)
  show "foldl apply_event (known_sum prev) (scan_events ds snap prev current) = found_sum current"
  proof
    fix p
    let ?m = "foldl apply_event (known_sum prev) (concat (map (found_event ds snap prev) current))"
    have "?m p = (case found_sum current p of None \<Rightarrow> known_sum prev p | Some s \<Rightarrow> Some s)"
      by (rule apply_found [OF assms(1)]) simp
    then show "foldl apply_event (known_sum prev) (scan_events ds snap prev current) p = found_sum current p"
      using found_sum_None [of current p] known [of p]
      by (cases "found_sum current p") (auto simp: scan_events_def apply_gone)
  qed
  show "distinct (map fe_path (scan_events ds snap prev current))"
    using assms(1) dp by (auto simp: scan_events_def found_paths gone_paths distinct_map_filter)
  show "\<forall>e \<in> set (scan_events ds snap prev current). known_sum prev (fe_path e) \<noteq> found_sum current (fe_path e)"
  proof
    fix e assume "e \<in> set (scan_events ds snap prev current)"
    then consider f where "f \<in> set current" "e \<in> set (found_event ds snap prev f)"
      | ph where "ph \<in> set prev" "e \<in> set (gone_event ds snap current ph)"
      by (auto simp: scan_events_def)
    then show "known_sum prev (fe_path e) \<noteq> found_sum current (fe_path e)"
    proof cases
      case 1
      then have "fe_path e = en_path f" "map_option fe_new_sum (map_of prev (en_path f)) \<noteq> Some (en_sum f)"
        by (auto simp: found_event_def event_of_def split: option.splits if_splits)
      then show ?thesis using found_sum_mem [OF assms(1) 1(1)] by (simp add: known_sum_def)
    next
      case 2
      then have "fe_path e = fst ph" "fst ph \<notin> en_path ` set current"
        by (auto simp: gone_event_def event_of_def split: if_splits)
      then show ?thesis using 2(1) known [of "fst ph"] found_sum_None [of current "fst ph"] by force
    qed
  qed
qed

section \<open>What a scan writes\<close>

lemma vsql_Inr:
  assumes "run_state (vsql f) w = (Inr x, w')"
  obtains w1 where "same_but_faults w w1" and "f w1 = Inr (x, w')"
  using assms by (auto simp: vsql_def run_query popped_def Let_def same_but_faults_def split: option.splits sum.splits)

lemma on_store_Inr: "run_state (on_store m) w = (x, w') \<longleftrightarrow> (\<exists>s. run_state m (v_db w) = (x, s) \<and> w' = w\<lparr>v_db := s\<rparr>)"
  by (auto simp: on_store_def split: prod.splits)

text \<open>The rows a batch stores: the given events with fresh identities and the time.\<close>

definition bare_event :: "file_event \<Rightarrow> file_event" where
  "bare_event h = h\<lparr>fe_id := uuid_Nil, fe_at := 0\<rparr>"

lemma stamp_events_run:
  "run_state (stamp_events hs) w = (rows, w') \<Longrightarrow>
   (\<exists>n. w' = w\<lparr>v_db := (v_db w)\<lparr>db_next := n\<rparr>\<rparr>) \<and> map bare_event rows = map bare_event hs"
proof (induction hs arbitrary: w rows)
  case Nil
  then show ?case by (auto intro: exI [of _ "db_next (v_db w)"])
next
  case (Cons h hs)
  let ?w = "w\<lparr>v_db := (v_db w)\<lparr>db_next := Suc (db_next (v_db w))\<rparr>\<rparr>"
  obtain rest where r: "run_state (stamp_events hs) ?w = (rest, w')" "rows = h\<lparr>fe_id := db_uuid (v_db w) (db_next (v_db w)), fe_at := db_now (v_db w)\<rparr> # rest"
    using Cons.prems by (auto simp: on_store_def split: prod.splits)
  show ?case using Cons.IH [OF r(1)] r(2) by (auto simp: bare_event_def)
qed

lemma bulk_insert_run:
  assumes "run_state (BulkInsertFileHistory items) w = (Inr u, w')"
  shows "\<exists>rows. v_history w' = v_history w @ rows \<and> map bare_event rows = map bare_event items"
    and "v_snapshots w' = v_snapshots w" "datasets (v_db w') = datasets (v_db w)" "10 * int (length items) \<le> max_parameters"
proof -
  have "(\<exists>rows. v_history w' = v_history w @ rows \<and> map bare_event rows = map bare_event items)
    \<and> v_snapshots w' = v_snapshots w \<and> datasets (v_db w') = datasets (v_db w) \<and> 10 * int (length items) \<le> max_parameters"
  proof (cases "items = []")
    case True
    then show ?thesis using assms by (auto simp: BulkInsertFileHistory_def ok_def max_parameters_def)
  next
    case False
    obtain rows w1 where s: "run_state (stamp_events items) w = (rows, w1)" by fastforce
    then obtain n where w1: "w1 = w\<lparr>v_db := (v_db w)\<lparr>db_next := n\<rparr>\<rparr>" and rows: "map bare_event rows = map bare_event items"
      using stamp_events_run by blast
    have len: "length rows = length items" by (rule map_eq_imp_length_eq [OF rows])
    have le: "\<not> max_parameters < 10 * int (length rows)"
      using assms s False by (auto simp: BulkInsertFileHistory_def fail_def)
    then obtain w2 where "same_but_faults w1 w2" "w' = w2\<lparr>v_history := v_history w2 @ rows\<rparr>"
      using assms s False by (auto simp: BulkInsertFileHistory_def elim!: vsql_Inr split: if_splits)
    then show ?thesis using w1 rows le len by (auto simp: same_but_faults_def)
  qed
  then show "\<exists>rows. v_history w' = v_history w @ rows \<and> map bare_event rows = map bare_event items"
    and "v_snapshots w' = v_snapshots w" "datasets (v_db w') = datasets (v_db w)" "10 * int (length items) \<le> max_parameters"
    by blast+
qed

lemma bare_event_of [simp]: "bare_event (event_of i s p ty old new) = event_of i s p ty old new"
  by (simp add: bare_event_def event_of_def)

lemma bare_found: "map bare_event (found_event i s prev f) = found_event i s prev f"
  by (simp add: found_event_def split: option.splits)

lemma bare_gone: "map bare_event (gone_event i s current ph) = gone_event i s current ph"
  by (simp add: gone_event_def)

lemma bare_events: "map bare_event (scan_events i s prev current) = scan_events i s prev current"
  by (simp add: scan_events_def map_concat o_def bare_found bare_gone)

lemma find_dataset_upd: "(\<And>r. k (f r) = k r) \<Longrightarrow> find (\<lambda>r. k r = i) (upd_where (\<lambda>r. k r = j) f rs) =
    map_option (\<lambda>r. if k r = j then f r else r) (find (\<lambda>r. k r = i) rs)"
  by (induction rs) auto

lemma increment_run:
  assumes "run_state (on_store (IncrementDatasetVersion j)) w = (Inr v, w')"
  shows "v_history w' = v_history w" "v_snapshots w' = v_snapshots w"
    and "dataset_by (v_db w') i = None \<longleftrightarrow> dataset_by (v_db w) i = None"
  using assms by (auto simp: on_store_Inr IncrementDatasetVersion_def run_sql dataset_by_def find_dataset_upd
      split: option.splits)

lemma record_changes_run:
  assumes "run_state (record_changes ds events) w = (Inr u, w')"
  shows "\<exists>rows. v_history w' = v_history w @ rows \<and> map bare_event rows = map bare_event events"
    and "v_snapshots w' = v_snapshots w" "10 * int (length events) \<le> max_parameters"
    and "dataset_by (v_db w') i = None \<longleftrightarrow> dataset_by (v_db w) i = None"
proof -
  have "(\<exists>rows. v_history w' = v_history w @ rows \<and> map bare_event rows = map bare_event events)
    \<and> v_snapshots w' = v_snapshots w \<and> 10 * int (length events) \<le> max_parameters
    \<and> (dataset_by (v_db w') i = None \<longleftrightarrow> dataset_by (v_db w) i = None)"
  proof (cases "events = []")
    case True
    then show ?thesis using assms by (simp add: record_changes_def ok_def max_parameters_def)
  next
    case False
    then obtain u1 w1 v where b: "run_state (BulkInsertFileHistory events) w = (Inr u1, w1)"
      and i: "run_state (on_store (IncrementDatasetVersion (ds_id ds))) w1 = (Inr v, w')"
      using assms by (auto simp: record_changes_def attempt_Inr ok_Inr)
    show ?thesis using bulk_insert_run [OF b] increment_run(1,2) [OF i] increment_run(3) [OF i, of i] by (simp add: dataset_by_def)
  qed
  then show "\<exists>rows. v_history w' = v_history w @ rows \<and> map bare_event rows = map bare_event events"
    and "v_snapshots w' = v_snapshots w" "10 * int (length events) \<le> max_parameters"
    and "dataset_by (v_db w') i = None \<longleftrightarrow> dataset_by (v_db w) i = None" by blast+
qed

lemma snapshot_run:
  assumes "run_state (CreateDatasetSnapshot sn0) w = (Inr sn, w')"
  shows "v_snapshots w' = v_snapshots w @ [sn]" "v_history w' = v_history w"
    and "sn_dataset sn = sn_dataset sn0 \<and> sn_files sn = sn_files sn0 \<and> sn_size sn = sn_size sn0 \<and> sn_version sn = sn_version sn0"
    and "dataset_by (v_db w') i = dataset_by (v_db w) i" "dataset_by (v_db w') (sn_dataset sn0) \<noteq> None"
  using assms by (auto simp: CreateDatasetSnapshot_def Let_def on_store_def same_but_faults_def dataset_by_def
      split: if_splits elim!: vsql_Inr)

text \<open>What the scan takes for known, from the tables.\<close>

definition history_desc :: "vol_world \<Rightarrow> uuid \<Rightarrow> file_event list" where
  "history_desc w i = sort_key (\<lambda>h. - fe_at h) (filter (\<lambda>h. fe_dataset h = i) (v_history w))"

definition baseline :: "vol_world \<Rightarrow> uuid \<Rightarrow> (string \<times> file_event) list" where
  "baseline w i = (if snapshots_of w i = [] then [] else replay (limit_rows history_limit (history_desc w i)))"

lemma known_files_run:
  assumes "run_state (GetLatestSnapshot i) w = (Inr sn, w1)" "run_state (known_files i sn) w1 = (Inr prev, w2)"
  shows "prev = baseline w i" "same_but_faults w w2"
proof -
  obtain v1 where v1: "same_but_faults w v1" "(case snapshots_of v1 i of [] \<Rightarrow> None | s # _ \<Rightarrow> Some s) = sn" "v1 = w1"
    using assms(1) by (auto simp: GetLatestSnapshot_def elim!: vsql_Inr)
  have s1: "snapshots_of w1 i = snapshots_of w i" "history_desc w1 i = history_desc w i"
    using v1 by (auto simp: same_but_faults_def snapshots_of_def history_desc_def)
  have "prev = baseline w i \<and> same_but_faults w w2"
  proof (cases sn)
    case None
    then show ?thesis using assms(2) v1 s1 by (auto simp: known_files_def ok_Inr baseline_def split: list.splits)
  next
    case (Some s)
    then obtain hs where l: "run_state (ListFileHistory i '''' history_limit) w1 = (Inr hs, w2)" "prev = replay hs"
      using assms(2) by (auto simp: known_files_def attempt_Inr ok_Inr)
    then obtain v2 where v2: "same_but_faults w1 v2" "hs = limit_rows history_limit (history_desc v2 i)" "v2 = w2"
      by (auto simp: ListFileHistory_def history_desc_def elim!: vsql_Inr)
    have "history_desc w2 i = history_desc w1 i" using v2 by (auto simp: same_but_faults_def history_desc_def)
    moreover have "same_but_faults w w2" using v1 v2 by (auto simp: same_but_faults_def)
    moreover have "snapshots_of w i \<noteq> []" using v1 s1 Some by (auto split: list.splits)
    ultimately show ?thesis using v2 s1 l(2) by (simp add: baseline_def)
  qed
  then show "prev = baseline w i" "same_but_faults w w2" by auto
qed

lemma update_dataset_run:
  assumes "run_state (on_store (UpdateDataset d)) w = (Inr u, w')" "dataset_by (v_db w) (ds_id d) \<noteq> None"
  shows "v_snapshots w' = v_snapshots w" "v_history w' = v_history w"
    and "\<exists>r. dataset_by (v_db w') (ds_id d) = Some (updated_dataset d (db_now (v_db w)) r)"
proof -
  have "find (\<lambda>r. ds_id r = ds_id d) (upd_where (\<lambda>r. ds_id r = ds_id d) (updated_dataset d n) rs)
      = map_option (updated_dataset d n) (find (\<lambda>r. ds_id r = ds_id d) rs)" for n rs
    by (induction rs) (auto simp: updated_dataset_def)
  then show "v_snapshots w' = v_snapshots w" "v_history w' = v_history w"
    and "\<exists>r. dataset_by (v_db w') (ds_id d) = Some (updated_dataset d (db_now (v_db w)) r)"
    using assms by (auto simp: on_store_Inr UpdateDataset_def run_exec dataset_by_def split: option.splits)
qed

definition dataset_summary :: "dataset \<Rightarrow> string \<times> string \<times> int \<times> string \<times> int" where
  "dataset_summary d = (ds_name d, ds_nfs_path d, ds_size d, ds_checksum d, ds_version d)"

lemma scan_rows:
  assumes "run_state (compare_and_record ds current) w = (Inr u, w')"
  shows "\<exists>sn rows d. v_snapshots w' = v_snapshots w @ [sn] \<and> v_history w' = v_history w @ rows
    \<and> sn_files sn = int (length current) \<and> sn_size sn = total_size current \<and> sn_version sn = ds_version ds
    \<and> map bare_event rows = scan_events (ds_id ds) (sn_id sn) (baseline w (ds_id ds)) current
    \<and> dataset_by (v_db w') (ds_id ds) = Some d
    \<and> dataset_summary d = (ds_name ds, ds_nfs_path ds, total_size current, ds_checksum ds, ds_version ds)"
proof -
  let ?i = "ds_id ds"
  obtain sn0 w1 prev w2 sn w3 u4 w4
    where l: "run_state (GetLatestSnapshot ?i) w = (Inr sn0, w1)" "run_state (known_files ?i sn0) w1 = (Inr prev, w2)"
      and c: "run_state (CreateDatasetSnapshot \<lparr>sn_id = uuid_Nil, sn_dataset = ?i, sn_scanned = 0,
        sn_files = int (length current), sn_size = total_size current, sn_version = ds_version ds\<rparr>) w2 = (Inr sn, w3)"
      and r: "run_state (record_changes ds (scan_events ?i (sn_id sn) prev current)) w3 = (Inr u4, w4)"
      and u: "run_state (on_store (UpdateDataset (ds\<lparr>ds_size := total_size current\<rparr>))) w4 = (Inr u, w')"
    using assms by (auto simp: compare_and_record_def attempt_Inr)
  note k = known_files_run [OF l]
  have k2: "v_snapshots w2 = v_snapshots w" "v_history w2 = v_history w" using k(2) by (auto simp: same_but_faults_def)
  note s = snapshot_run [OF c]
  obtain rows where rows: "v_history w4 = v_history w3 @ rows"
      "map bare_event rows = scan_events ?i (sn_id sn) prev current" "v_snapshots w4 = v_snapshots w3"
    using record_changes_run(1,2) [OF r] by (auto simp: bare_events)
  have "dataset_by (v_db w4) ?i \<noteq> None" using record_changes_run(4) [OF r, of ?i] s(5) by simp
  then have ex: "dataset_by (v_db w4) (ds_id (ds\<lparr>ds_size := total_size current\<rparr>)) \<noteq> None" by simp
  obtain d0 where d: "dataset_by (v_db w') ?i = Some (updated_dataset (ds\<lparr>ds_size := total_size current\<rparr>) (db_now (v_db w4)) d0)"
    using update_dataset_run(3) [OF u ex] by auto
  show ?thesis
    using rows s k k2 d update_dataset_run(1,2) [OF u ex]
    by (auto simp: dataset_summary_def updated_dataset_def intro!: exI [of _ sn] exI [of _ rows])
qed

text \<open>
  C25: A scan that succeeds adds one snapshot with the number and total size of the files found, one row per
  event of the comparison with the replayed history, and then stores the dataset as it was
  read before, but for its size: the version it has just counted up is put back.
\<close>

theorem scan_writes:
  assumes "run_state (compare_and_record ds current) w = (Inr u, w')"
  shows "\<exists>sn rows d. v_snapshots w' = v_snapshots w @ [sn] \<and> v_history w' = v_history w @ rows
    \<and> sn_files sn = int (length current) \<and> sn_size sn = total_size current \<and> sn_version sn = ds_version ds
    \<and> map bare_event rows = scan_events (ds_id ds) (sn_id sn) (baseline w (ds_id ds)) current
    \<and> dataset_by (v_db w') (ds_id ds) = Some d
    \<and> dataset_summary d = (ds_name ds, ds_nfs_path ds, total_size current, ds_checksum ds, ds_version ds)"
  using assms by (rule scan_rows)

lemma history_kept:
  "run_state (GetLatestSnapshot i) w = (r1, w') \<Longrightarrow> v_history w' = v_history w"
  "run_state (known_files i sn0) w = (r2, w') \<Longrightarrow> v_history w' = v_history w"
  "run_state (CreateDatasetSnapshot sn1) w = (r3, w') \<Longrightarrow> v_history w' = v_history w"
  by (auto simp: GetLatestSnapshot_def known_files_def ListFileHistory_def CreateDatasetSnapshot_def vsql_def on_store_def
      run_attempt run_ok ok_def Let_def split: option.splits prod.splits sum.splits if_splits)

lemma record_many:
  assumes "run_state (record_changes ds events) w = (r, w')" "max_parameters < 10 * int (length events)"
  shows "(\<exists>e. r = Inl e) \<and> v_history w' = v_history w"
proof -
  obtain rows w1 where s: "run_state (stamp_events events) w = (rows, w1)" by fastforce
  then have rows: "map bare_event rows = map bare_event events" "v_history w1 = v_history w"
    using stamp_events_run by fastforce+
  have "length rows = length events" by (rule map_eq_imp_length_eq [OF rows(1)])
  moreover have "events \<noteq> []" using assms(2) by (auto simp: max_parameters_def)
  ultimately have "run_state (BulkInsertFileHistory events) w = (Inl ''extended protocol limited to 65535 parameters'', w1)"
    using assms(2) s by (simp add: BulkInsertFileHistory_def fail_def)
  then show ?thesis using assms(1) \<open>events \<noteq> []\<close> rows(2) by (auto simp: record_changes_def run_attempt)
qed


text \<open>
  C39: A scan that finds more than 6553 new files while nothing is known of the dataset fails, and leaves the
  history as it was: the batch has ten parameters a row and PostgreSQL takes 65535. The next scan is in the
  same position, so that a dataset of this size never gets a history.
\<close>

theorem large_scan_fails:
  assumes "run_state (compare_and_record ds current) w = (r, w')"
    and "filter (\<lambda>h. fe_dataset h = ds_id ds) (v_history w) = []" and "6553 < length current"
  shows "(\<exists>e. r = Inl e) \<and> v_history w' = v_history w"
proof -
  have base: "baseline w (ds_id ds) = []" using assms(2) by (simp add: baseline_def history_desc_def replay_def)
  have many: "max_parameters < 10 * int (length (scan_events i s [] current))" for i s
  proof -
    have "length (concat (map (found_event i s []) fs)) = length fs" for fs by (induction fs) (auto simp: found_event_def)
    then show ?thesis using assms(3) by (simp add: scan_events_def max_parameters_def)
  qed
  obtain r1 w1 where l1: "run_state (GetLatestSnapshot (ds_id ds)) w = (r1, w1)" by fastforce
  show ?thesis
  proof (cases r1)
    case (Inl e)
    then show ?thesis using assms(1) l1 history_kept(1) [OF l1] by (auto simp: compare_and_record_def run_attempt)
  next
    case (Inr sn0)
    obtain r2 w2 where l2: "run_state (known_files (ds_id ds) sn0) w1 = (r2, w2)" by fastforce
    show ?thesis
    proof (cases r2)
      case e: (Inl e)
      then show ?thesis using assms(1) l1 l2 Inr history_kept(1) [OF l1] history_kept(2) [OF l2]
        by (auto simp: compare_and_record_def run_attempt)
    next
      case p: (Inr prev)
      have prev: "prev = []" using known_files_run(1) [OF l1 [unfolded Inr] l2 [unfolded p]] base by simp
      obtain r3 w3 where c: "run_state (CreateDatasetSnapshot \<lparr>sn_id = uuid_Nil, sn_dataset = ds_id ds, sn_scanned = 0,
        sn_files = int (length current), sn_size = total_size current, sn_version = ds_version ds\<rparr>) w2 = (r3, w3)" by fastforce
      have h: "v_history w3 = v_history w" using history_kept(1) [OF l1] history_kept(2) [OF l2] history_kept(3) [OF c] by simp
      show ?thesis
      proof (cases r3)
        case (Inl e)
        then show ?thesis using assms(1) l1 l2 c Inr p h \<open>r1 = Inr sn0\<close> by (auto simp: compare_and_record_def run_attempt)
      next
        case s: (Inr sn)
        obtain r4 w4 where r: "run_state (record_changes ds (scan_events (ds_id ds) (sn_id sn) prev current)) w3 = (r4, w4)" by fastforce
        from record_many [OF r] many prev obtain e where "r4 = Inl e" "v_history w4 = v_history w3" by blast
        then show ?thesis using assms(1) l1 l2 c r Inr p s h by (auto simp: compare_and_record_def run_attempt)
      qed
    qed
  qed
qed


end
