(* ===== verification/Dataset_Steps.thy ===== *)
theory Dataset_Steps
  imports Monitor_Facts
begin

text \<open>
  The requests on datasets and the scans as a transition system: every dataset's directory stays
  below the configured base, and so does every change of files. And what a copy of a file onto itself
  does.
\<close>

section \<open>Paths of datasets\<close>

definition paths_ok :: "vol_world \<Rightarrow> bool" where
  "paths_ok w \<longleftrightarrow> (\<forall>d \<in> set (datasets (v_db w)). \<exists>raw. validateDatasetSubPath raw = Inr (ds_nfs_path d))"

definition path_ok :: "dataset \<Rightarrow> bool" where
  "path_ok d \<longleftrightarrow> (\<exists>raw. validateDatasetSubPath raw = Inr (ds_nfs_path d))"

lemma paths_ok_alt: "paths_ok w \<longleftrightarrow> (\<forall>d \<in> set (datasets (v_db w)). path_ok d)"
  by (simp add: paths_ok_def path_ok_def)

text \<open>The files stay and the paths stay fit: what every statement of the store does.\<close>

definition at_rest :: "fs \<Rightarrow> vol_world \<Rightarrow> bool" where
  "at_rest fs w \<longleftrightarrow> v_fs w = fs \<and> paths_ok w"

lemma keeps_vsql:
  assumes "\<And>w x w'. at_rest fs w \<Longrightarrow> f w = Inr (x, w') \<Longrightarrow> at_rest fs w'"
  shows "keeps (at_rest fs) (vsql f)"
proof (rule keepsI)
  fix w assume I: "at_rest fs w"
  obtain r s where q: "run_state (query (\<lambda>_. ())) (v_db w) = (r, s)" by fastforce
  then have "s = popped (v_db w)" using query_faults_only [of "\<lambda>_. ()" "v_db w"] by simp
  then have "at_rest fs (w\<lparr>v_db := s\<rparr>)" using I by (simp add: at_rest_def paths_ok_def)
  then show "at_rest fs (snd (run_state (vsql f) w))"
    using q assms by (auto simp: vsql_def Let_def split: sum.splits)
qed

lemma keeps_rest_on_store:
  assumes "keeps (\<lambda>s. \<forall>d \<in> set (datasets s). path_ok d) m"
  shows "keeps (at_rest fs) (on_store m)"
  using assms by (auto simp: keeps_def at_rest_def paths_ok_alt on_store_def split: prod.splits)

interpretation fit: store_predicate "\<lambda>s. \<forall>d \<in> set (datasets s). path_ok d"
  by unfold_locales simp_all

lemmas rest_store = keeps_rest_on_store [OF fit.keeps_query] keeps_rest_on_store [OF fit.keeps_time_Now]
  keeps_rest_on_store [OF fit.keeps_uuid_New]

lemma keeps_rest_reads: "reads_only m \<Longrightarrow> keeps (at_rest fs) (on_store m)"
  by (intro keeps_rest_on_store fit.keeps_reads_only)

lemma keeps_rest_basic [keeps_intros]: "keeps I m \<Longrightarrow> keeps I (v_status code m)"
  unfolding v_status_def by (intro keeps_intros)

lemma path_ok_more [simp]: "path_ok (d\<lparr>ds_id := i, ds_version := v, ds_created := t1, ds_updated := t2\<rparr>) = path_ok d"
  "path_ok (d\<lparr>ds_version := v, ds_updated := t2\<rparr>) = path_ok d" "path_ok (d\<lparr>ds_size := z\<rparr>) = path_ok d"
  "path_ok (d\<lparr>ds_id := i\<rparr>) = path_ok d" "path_ok (d\<lparr>ds_owner := i\<rparr>) = path_ok d"
  "path_ok (updated_dataset d0 t1 d) = path_ok d0"
  by (simp_all add: path_ok_def updated_dataset_def)

lemma keeps_CreateDataset: "path_ok d \<Longrightarrow> keeps (at_rest fs) (CreateDataset d)"
  unfolding CreateDataset_def Let_def
  by (intro keeps_intros rest_store keeps_rest_on_store fit.keeps_sql keeps_vsql)
    (auto simp: at_rest_def paths_ok_alt split: if_splits)

lemma keeps_UpdateDataset: "path_ok d \<Longrightarrow> keeps (at_rest fs) (on_store (UpdateDataset d))"
  unfolding UpdateDataset_def
  by (intro keeps_rest_on_store keeps_bind fit.keeps_time_Now fit.keeps_exec) (auto simp: table_simps)

lemma keeps_IncrementDatasetVersion: "keeps (at_rest fs) (on_store (IncrementDatasetVersion i))"
  unfolding IncrementDatasetVersion_def
  by (intro keeps_rest_on_store fit.keeps_sql) (auto simp: table_simps split: option.splits)

lemma keeps_rest_reading [keeps_intros]:
  "keeps (at_rest fs) (ListDatasetsForUser u a)" "keeps (at_rest fs) (CanAccessDataset u i a)"
  "keeps (at_rest fs) (GetLatestSnapshot i)" "keeps (at_rest fs) (ListFileHistory i p n)"
  "keeps (at_rest fs) (ListSnapshotsForDataset i)" "keeps (at_rest fs) (on_store (GetDataset i))"
  "keeps (at_rest fs) (on_store (isUserAuthorized pm))" "keeps (at_rest fs) (on_store (CanAccessProject u i a))"
  unfolding ListDatasetsForUser_def CanAccessDataset_def GetLatestSnapshot_def ListFileHistory_def ListSnapshotsForDataset_def
    GetDataset_def isUserAuthorized_def CanAccessProject_def
  by (auto intro!: keeps_intros keeps_vsql keeps_rest_reads reads_intros rest_store split: option.splits user_role.splits)

lemma keeps_DeleteDataset: "keeps (at_rest fs) (DeleteDataset i)"
  unfolding DeleteDataset_def by (rule keeps_vsql) (auto simp: at_rest_def paths_ok_alt)

lemma keeps_CreateDatasetSnapshot: "keeps (at_rest fs) (CreateDatasetSnapshot sn)"
  unfolding CreateDatasetSnapshot_def Let_def
  by (intro keeps_intros rest_store keeps_vsql) (auto simp: at_rest_def paths_ok_alt split: if_splits)

lemma keeps_stamp_events: "keeps (at_rest fs) (stamp_events hs)"
  by (induction hs) (auto intro!: keeps_intros rest_store)

lemma keeps_BulkInsert: "keeps (at_rest fs) (BulkInsertFileHistory hs)"
  unfolding BulkInsertFileHistory_def
  by (intro keeps_intros keeps_stamp_events keeps_vsql) (auto simp: at_rest_def paths_ok_alt split: if_splits)

lemma keeps_SetProjectDatasets: "keeps (at_rest fs) (on_store (SetProjectDatasets i items))"
  unfolding SetProjectDatasets_def insert_project_dataset_def
  by (intro keeps_rest_on_store fit.keeps_transaction keeps_attempt keeps_for_each_try fit.keeps_exec fit.keeps_sql)
    (auto split: option.splits if_splits)

section \<open>Handlers and scans\<close>

lemma sub_path_then:
  assumes "\<And>p. path_ok (d\<lparr>ds_nfs_path := p\<rparr>) \<Longrightarrow> keeps I (k p)"
  shows "keeps I (attempt (sub_path400 raw) k)"
proof (cases "validateDatasetSubPath raw")
  case (Inl e)
  then show ?thesis by (auto simp: keeps_def sub_path400_def run_attempt)
next
  case (Inr p)
  then have "keeps I (k p)" by (intro assms) (auto simp: path_ok_def)
  then show ?thesis using Inr by (auto simp: keeps_def sub_path400_def run_attempt)
qed

lemma keeps_dataset_allowed [keeps_intros]: "keeps (at_rest fs) (dataset_allowed u i code)"
  "keeps (at_rest fs) (project_allowed u i code)" "keeps (at_rest fs) (existing_dataset i)"
  unfolding dataset_allowed_def project_allowed_def existing_dataset_def by (intro keeps_intros)+

lemma keeps_dataset_handlers:
  "keeps (at_rest fs) (createDataset c u body)" "keeps (at_rest fs) (updateDataset c u i body)"
  "keeps (at_rest fs) (deleteDataset u i)" "keeps (at_rest fs) (setProjectDatasets u i items)"
  unfolding createDataset_def updateDataset_def deleteDataset_def setProjectDatasets_def Let_def
  subgoal by (rule keeps_attempt [OF keeps_v_basic(1)], rule keeps_attempt [OF keeps_v_basic(2)], rule sub_path_then,
      intro keeps_intros keeps_CreateDataset) (simp add: path_ok_def)
  subgoal by (rule keeps_attempt [OF keeps_v_basic(1)], rule keeps_attempt [OF keeps_dataset_allowed(1)],
      rule keeps_attempt [OF keeps_v_basic(2)], rule sub_path_then, intro keeps_intros keeps_UpdateDataset)
      (simp add: path_ok_def)
  subgoal by (intro keeps_intros keeps_DeleteDataset)
  subgoal by (intro keeps_intros keeps_SetProjectDatasets)
  done

lemma keeps_rest_os_read: "keeps (at_rest fs) (os_read f)"
  by (auto simp: keeps_def at_rest_def paths_ok_def os_read_def os_call_def Let_def
      split: option.splits io_fault.splits sum.splits)

lemma keeps_walkDir: "keeps (at_rest fs) (walkDir c arrival root)"
proof -
  have "keeps (at_rest fs) (process_files c r qs)" for r qs
    by (induction qs) (auto intro!: keeps_intros keeps_rest_os_read simp: processFile_def)
  then show ?thesis unfolding walkDir_def by (intro keeps_bind keeps_return) (simp_all add: keeps_def)
qed

lemma keeps_ScanDataset: "path_ok d \<Longrightarrow> keeps (at_rest fs) (ScanDataset c arrival d)"
  unfolding ScanDataset_def compare_and_record_def known_files_def record_changes_def
  by (intro keeps_intros keeps_walkDir keeps_CreateDatasetSnapshot keeps_BulkInsert keeps_IncrementDatasetVersion
      keeps_UpdateDataset) simp_all

lemma keeps_ScanAll:
  "keeps (at_rest fs) (ScanAll c arrival)"
proof (rule keepsI)
  fix w assume I: "at_rest fs w"
  obtain r w1 where l: "run_state (ListDatasetsForUser uuid_Nil True) w = (r, w1)" by fastforce
  have I1: "at_rest fs w1" using keepsE [OF keeps_rest_reading(1) I l] .
  show "at_rest fs (snd (run_state (ScanAll c arrival) w))"
  proof (cases "vc_datasets c = '''' \<or> isl r")
    case True
    then show ?thesis using I l I1 by (auto simp: ScanAll_def isl_def)
  next
    case False
    then obtain ds where r: "r = Inr ds" by (cases r) auto
    obtain v where "same_but_faults w v" "ds = sort_key (\<lambda>d. - ds_created d) (datasets (v_db v))"
      using l r by (auto simp: ListDatasetsForUser_def elim!: vsql_Inr)
    then have "\<forall>d \<in> set ds. path_ok d" using I by (auto simp: same_but_faults_def at_rest_def paths_ok_alt)
    then have "keeps (at_rest fs) (for_each ds (\<lambda>d. ignore (ScanDataset c arrival d)))"
      by (intro keeps_intros keeps_ScanDataset) blast
    then show ?thesis using False l r keepsD [of "at_rest fs", OF _ I1] by (simp add: ScanAll_def)
  qed
qed

lemma existing_dataset_ok:
  assumes "run_state (scanDataset u i) w = (Inr d, w1)" "paths_ok w"
  shows "path_ok d"
proof -
  obtain w0 where a: "run_state (dataset_allowed u i 403) w = (Inr (), w0)" "run_state (existing_dataset i) w0 = (Inr d, w1)"
    using assms(1) by (auto simp: scanDataset_def attempt_Inr)
  have "paths_ok w0" using keepsE [OF keeps_dataset_allowed(1) _ a(1), of "v_fs w"] assms(2) by (auto simp: at_rest_def)
  then show ?thesis using a(2)
    by (auto simp: existing_dataset_def on_store_def GetDataset_def run_query paths_ok_alt
        split: option.splits sum.splits prod.splits dest!: find_Some_mem)
qed

text \<open>The requests on files leave the paths of datasets as they are.\<close>

lemma keeps_paths_calls [keeps_intros]: "keeps paths_ok (os_call part f)" "keeps paths_ok (os_read g)" "keeps paths_ok (send_file c p)"
  by (auto simp: keeps_def paths_ok_def os_call_def os_read_def send_file_def Let_def
      split: option.splits io_fault.splits sum.splits)

lemma keeps_paths_of_rest: "(\<And>fs. keeps (at_rest fs) m) \<Longrightarrow> keeps paths_ok m"
  unfolding keeps_def at_rest_def by blast

lemma keeps_paths_base [keeps_intros]: "keeps paths_ok (dataset_base c u i)" "keeps paths_ok (requireAuthorized pm h)"
  if "keeps paths_ok h" for h :: "unit vhandler"
proof -
  show "keeps paths_ok (dataset_base c u i)"
    unfolding dataset_base_def datasetDir_def by (rule keeps_paths_of_rest) (intro keeps_intros)
  show "keeps paths_ok (requireAuthorized pm h)"
    unfolding requireAuthorized_def
    by (intro keeps_bind keeps_paths_of_rest keeps_rest_reading keeps_if keeps_fail that)
qed

lemma keeps_paths_files: "keeps paths_ok (dataset_files c u pm i req)"
proof -
  have base: "keeps paths_ok (dataset_base c u i)" using keeps_paths_base(1) [OF keeps_ok] .
  show ?thesis
    by (cases req)
      (auto intro!: keeps_intros base simp: datasetFileList_def datasetFileDownload_def datasetFileUpload_def
        datasetFileDelete_def datasetFileMkdir_def datasetFileMove_def datasetFileCopy_def list_files_def download_file_def
        upload_file_def delete_file_def open_source_def os_ReadDir_def os_Open_def os_MkdirAll_def os_Create_def os_Rename_def
        os_RemoveAll_def io_Copy_def io_Copy_file_def Let_def)
qed

section \<open>All requests\<close>

text \<open>
  A request on datasets, on their files or on a project's mounts; a scan; and whatever else happens to the
  database that touches neither the datasets nor the files.
\<close>

inductive dataset_step :: "vol_cfg \<Rightarrow> (file_entry list \<Rightarrow> file_entry list) \<Rightarrow> vol_world \<Rightarrow> vol_world \<Rightarrow> bool"
  for c arrival where
  step_create: "run_state (createDataset c u body) w = (r, w') \<Longrightarrow> dataset_step c arrival w w'"
| step_update: "run_state (updateDataset c u i body) w = (r, w') \<Longrightarrow> dataset_step c arrival w w'"
| step_delete: "run_state (deleteDataset u i) w = (r, w') \<Longrightarrow> dataset_step c arrival w w'"
| step_mounts: "run_state (setProjectDatasets u i items) w = (r, w') \<Longrightarrow> dataset_step c arrival w w'"
| step_files: "run_state (dataset_files c u pm i req) w = (r, w') \<Longrightarrow> dataset_step c arrival w w'"
| step_scan: "run_state (scanDataset u i) w = (Inr d, w1) \<Longrightarrow> run_state (ScanDataset c arrival d) w1 = (r, w')
    \<Longrightarrow> dataset_step c arrival w w'"
| step_scan_all: "run_state (ScanAll c arrival) w = (r, w') \<Longrightarrow> dataset_step c arrival w w'"
| step_other: "datasets (v_db w') = datasets (v_db w) \<Longrightarrow> v_fs w' = v_fs w \<Longrightarrow> dataset_step c arrival w w'"

lemma confined_wider: "confined (bs @ ds) fs fs' \<Longrightarrow> confined bs fs fs'"
  unfolding confined_def by (metis append_prefixD prefix_order.less_le prefix_same_cases prefixI strict_prefixI')

lemma at_rest_step:
  assumes "run_state m w = (r, w')" "\<And>fs. keeps (at_rest fs) m" "paths_ok w"
  shows "v_fs w' = v_fs w \<and> paths_ok w'"
  using keepsE [OF assms(2) _ assms(1), of "v_fs w"] assms(3) by (simp add: at_rest_def)

lemma dataset_step_keeps:
  assumes "dataset_step c arrival w w'" "paths_ok w" "IsAbs (vc_datasets c)"
  shows "paths_ok w' \<and> confined (clean_parts True (vc_datasets c)) (v_fs w) (v_fs w')"
  using assms(1)
proof cases
  case (step_create u body r)
  show ?thesis using at_rest_step [OF step_create keeps_dataset_handlers(1) assms(2)] by simp
next
  case (step_update u i body r)
  show ?thesis using at_rest_step [OF step_update keeps_dataset_handlers(2) assms(2)] by simp
next
  case (step_delete u i r)
  show ?thesis using at_rest_step [OF step_delete keeps_dataset_handlers(3) assms(2)] by simp
next
  case (step_mounts u i items r)
  show ?thesis using at_rest_step [OF step_mounts keeps_dataset_handlers(4) assms(2)] by simp
next
  case (step_files u pm i req r)
  have ok: "paths_ok w'" using keepsE [OF keeps_paths_files assms(2) step_files] .
  consider "v_fs w' = v_fs w" | "dataset_change c u i w w'" using dataset_files_change [OF step_files assms(3)] by blast
  then show ?thesis
  proof cases
    case 2
    then obtain d where d: "dataset_by (v_db w) i = Some d" "confined (dataset_dir c d) (v_fs w) (v_fs w')"
      by (auto simp: dataset_change_def)
    then obtain raw where "validateDatasetSubPath raw = Inr (ds_nfs_path d)"
      using assms(2) by (auto simp: paths_ok_def dataset_by_def dest: find_Some_mem)
    from sub_path_below [OF this] obtain ds where "dataset_dir c d = clean_parts True (vc_datasets c) @ ds"
      unfolding dataset_dir_def by blast
    then show ?thesis using ok d(2) confined_wider by metis
  qed (use ok in simp)
next
  case (step_scan u i d w1 r)
  have "v_fs w1 = v_fs w \<and> paths_ok w1"
    using at_rest_step [OF step_scan(1) _ assms(2)] by (auto simp: scanDataset_def intro!: keeps_intros)
  moreover have "v_fs w' = v_fs w1 \<and> paths_ok w'"
    using at_rest_step [OF step_scan(2) keeps_ScanDataset] existing_dataset_ok [OF step_scan(1) assms(2)] calculation by blast
  ultimately show ?thesis by simp
next
  case (step_scan_all r)
  show ?thesis using at_rest_step [OF step_scan_all keeps_ScanAll assms(2)] by simp
next
  case step_other
  then show ?thesis using assms(2) by (simp add: paths_ok_def)
qed

text \<open>
  C8: Over any sequence of requests on datasets and their files, scans and other changes of the database, from
  a database whose datasets were created by the API, no file outside the configured base directory of datasets
  is created, changed or removed.
\<close>

theorem datasets_stay_inside:
  assumes "rtranclp (dataset_step c arrival) w w'" and "paths_ok w" and "IsAbs (vc_datasets c)"
  shows "paths_ok w' \<and> confined (clean_parts True (vc_datasets c)) (v_fs w) (v_fs w')"
  using assms(1)
proof (induction rule: rtranclp_induct)
  case (step y z)
  then show ?case using dataset_step_keeps [OF step.hyps(2) _ assms(3)] confined_trans by blast
qed (simp add: assms(2))

section \<open>Copying a file onto itself\<close>

lemma io_status_Inr: "run_state (io_status code m) w = (Inr x, w') \<longleftrightarrow> run_state m w = (Inr x, w')"
  by (auto simp: io_status_def split: prod.splits sum.splits)

lemma v_require_Inr: "run_state (v_require b code e) w = (Inr u, w') \<longleftrightarrow> b \<and> w' = w"
  by (auto simp: v_require_def ok_Inr)

lemma create_copy_same:
  assumes "run_state (os_Create c p) w = (Inr u, w1)" "run_state (io_Copy_file c p p) w1 = (Inr v, w2)"
  shows "fs_get (v_fs w2) (os_parts c p) = Some (File '''')"
proof -
  let ?q = "os_parts c p"
  have "fs_create ?q (v_fs w) = Inr (u, v_fs w1)" using assms(1) unfolding os_Create_def by (rule os_call_Inr)
  then have q: "?q \<noteq> []" and w1: "v_fs w1 = fs_put ?q (File '''') (v_fs w)"
    by (auto simp: fs_create_def fs_stat_def fs_get_def split: sum.splits io_error.splits fs_node.splits)
  have "v_fs w2 = fs_put ?q (File (fs_bytes (v_fs w1) ?q)) (v_fs w1)"
    using assms(2) unfolding io_Copy_file_def by (auto dest: os_call_Inr)
  then show ?thesis using q w1 by (simp add: fs_bytes_def fs_get_put)
qed

text \<open>
  A copy of a file of a dataset whose source and target are two spellings of one path answers that all is
  well and leaves the file empty.
\<close>

theorem copy_onto_itself:
  assumes "run_state (datasetFileCopy c u i (Inr (src, dst))) w = (Inr x, w')" and "IsAbs (vc_datasets c)"
    and "clean_parts True (CHR ''/'' # src) = clean_parts True (CHR ''/'' # dst)" and "dataset_by (v_db w) i = Some d"
  shows "fs_get (v_fs w') (dataset_dir c d @ clean_parts True (CHR ''/'' # src)) = Some (File '''')"
proof -
  obtain base w0 where b: "run_state (dataset_base c u i) w = (Inr base, w0)"
    using assms(1) by (auto simp: datasetFileCopy_def attempt_Inr)
  obtain bs where bs: "base = abs_path bs" "\<forall>y \<in> set bs. proper y" "bs = dataset_dir c d"
    using dataset_base_run(2) [OF b refl] assms(4) path_Join_clean [OF assms(2), of "ds_nfs_path d"]
    by (auto simp: dataset_dir_def)
  let ?p = "abs_path (bs @ clean_parts True (CHR ''/'' # src))"
  have safe: "workspaceSafePath base src = Inr ?p" "workspaceSafePath base dst = Inr ?p"
    using safe_path_below [OF bs(2)] assms(3) bs(1) by simp_all
  obtain w1 w2 u2 where "run_state (os_Create c ?p) w1 = (Inr u2, w2)" "run_state (io_Copy_file c ?p ?p) w2 = (Inr x, w')"
    using assms(1) b safe
    by (auto simp: datasetFileCopy_def attempt_Inr body400_def safe_path400_def io_status_Inr v_require_Inr)
  then have "fs_get (v_fs w') (os_parts c ?p) = Some (File '''')" by (rule create_copy_same)
  moreover have "\<forall>x \<in> set (bs @ clean_parts True (CHR ''/'' # src)). proper x" using bs(2) clean_parts_proper by auto
  ultimately show ?thesis using bs(3) by (simp add: os_parts_abs)
qed

end
