(* ===== verification/Volume_Runs.thy ===== *)
theory Volume_Runs
  imports Dataset_Steps Access_Runs
begin

text \<open>
  Datasets, files and scans evaluated: the theorems of \<open>Volume_Facts\<close>, \<open>Monitor_Facts\<close> and \<open>Dataset_Steps\<close> at
  concrete worlds, and three runs that show what the handlers leave open: a dataset on somebody else's
  directory, and a scan that reports an unchanged file again.
\<close>

definition vol_sample :: vol_cfg where
  "vol_sample = \<lparr>vc_datasets = ''/srv'', vc_volumes = ''/vol'', vc_cwd = ''/'', vc_hash = (\<lambda>b. b), vc_dir_size = 4096\<rparr>"

definition sample_dataset :: dataset where
  "sample_dataset = \<lparr>ds_id = ''d'', ds_name = ''set'', ds_nfs_path = ''a'', ds_size = 0, ds_checksum = '''', ds_version = 1,
     ds_owner = ''o'', ds_created = 0, ds_updated = 0\<rparr>"

definition sample_world :: "fs \<Rightarrow> vol_world" where
  "sample_world fs = \<lparr>v_db = (sample_db (hours 1) [] [] [])\<lparr>users := [demo_user ''o'' RoleMember, demo_user ''b'' RoleMember],
       datasets := [sample_dataset], project_members := [(''p'', ''o'')]\<rparr>,
     v_members = [(''d'', ''o'')], v_snapshots = [], v_history = [], v_fs = fs, v_io = []\<rparr>"

definition sample_fs :: fs where
  "sample_fs = [([''srv''], Dir), ([''srv'', ''a''], Dir), ([''srv'', ''a'', ''f''], File ''one'')]"

definition sample_member :: "platform_member option" where
  "sample_member = Some \<lparr>pm_user = ''o'', pm_role = RoleMember, pm_authorized = False, pm_created = 0\<rparr>"

section \<open>Files\<close>

definition upload_request :: file_request where
  "upload_request = FileUpload ''../new/'' (Inr (''../../g'', ''two''))"

definition uploaded :: vol_world where
  "uploaded = snd (run_state (dataset_files vol_sample (demo_user ''o'' RoleMember) sample_member ''d'' upload_request) (sample_world sample_fs))"

lemma uploads: "run_state (dataset_files vol_sample (demo_user ''o'' RoleMember) sample_member ''d'' upload_request) (sample_world sample_fs)
    = (fst (run_state (dataset_files vol_sample (demo_user ''o'' RoleMember) sample_member ''d'' upload_request) (sample_world sample_fs)), uploaded)"
  by (simp add: uploaded_def)

lemma uploaded_fs: "v_fs uploaded = sample_fs @ [([''srv'', ''a'', ''new''], Dir), ([''srv'', ''a'', ''new'', ''g''], File ''two'')]"
  by code_simp

lemma vol_sample_abs: "IsAbs (vc_datasets vol_sample)" "IsAbs (vc_volumes vol_sample)"
  by code_simp+

lemma dataset_files_confined_witness:
  "fst (run_state (isUserAuthorized sample_member) (v_db (sample_world sample_fs)))
   \<and> dataset_change vol_sample (demo_user ''o'' RoleMember) ''d'' (sample_world sample_fs) uploaded"
  using dataset_files_confined [OF uploads vol_sample_abs(1)] unfolding uploaded_fs by (simp add: sample_world_def)

definition stored :: vol_world where
  "stored = snd (run_state (the (workspace_files vol_sample (demo_user ''o'' RoleMember) sample_member ''p'' upload_request)) (sample_world sample_fs))"

lemma stored_fs: "v_fs stored = sample_fs @ [([''vol''], Dir), ([''vol'', ''p''], Dir), ([''vol'', ''p'', ''new''], Dir),
    ([''vol'', ''p'', ''new'', ''g''], File ''two'')]"
  by code_simp

lemma workspace_files_confined_witness:
  "workspace_change vol_sample (demo_user ''o'' RoleMember) ''p'' (sample_world sample_fs) stored"
proof -
  have "workspace_files vol_sample (demo_user ''o'' RoleMember) sample_member ''p'' upload_request
      = Some (the (workspace_files vol_sample (demo_user ''o'' RoleMember) sample_member ''p'' upload_request))"
    by (simp add: upload_request_def)
  from workspace_files_confined [OF this _ vol_sample_abs(2)]
  have "v_fs stored = v_fs (sample_world sample_fs) \<or> workspace_change vol_sample (demo_user ''o'' RoleMember) ''p'' (sample_world sample_fs) stored"
    unfolding stored_def by (metis prod.collapse)
  then show ?thesis unfolding stored_fs by (simp add: sample_world_def)
qed

lemma sample_paths: "paths_ok (sample_world fs)"
proof -
  have "validateDatasetSubPath ''a'' = Inr ''a''" by code_simp
  then show ?thesis by (auto simp: paths_ok_def sample_world_def sample_dataset_def)
qed

lemma datasets_stay_inside_witness:
  "paths_ok uploaded \<and> confined (clean_parts True (vc_datasets vol_sample)) (v_fs (sample_world sample_fs)) (v_fs uploaded)"
  by (rule datasets_stay_inside [OF r_into_rtranclp [where r = "dataset_step vol_sample (\<lambda>es. es)", OF step_files [OF uploads]] sample_paths vol_sample_abs(1)])

lemma copy_onto_itself_witness:
  "fs_get (v_fs (snd (run_state (datasetFileCopy vol_sample (demo_user ''o'' RoleMember) ''d'' (Inr (''f'', ''./f''))) (sample_world sample_fs))))
     (dataset_dir vol_sample sample_dataset @ clean_parts True (CHR ''/'' # ''f'')) = Some (File '''')"
proof (rule copy_onto_itself [OF _ vol_sample_abs(1)])
  show "run_state (datasetFileCopy vol_sample (demo_user ''o'' RoleMember) ''d'' (Inr (''f'', ''./f''))) (sample_world sample_fs)
    = (Inr (), snd (run_state (datasetFileCopy vol_sample (demo_user ''o'' RoleMember) ''d'' (Inr (''f'', ''./f''))) (sample_world sample_fs)))"
  proof (rule prod_eqI)
    show "fst (run_state (datasetFileCopy vol_sample (demo_user ''o'' RoleMember) ''d'' (Inr (''f'', ''./f''))) (sample_world sample_fs))
      = fst (Inr (), snd (run_state (datasetFileCopy vol_sample (demo_user ''o'' RoleMember) ''d'' (Inr (''f'', ''./f''))) (sample_world sample_fs)))"
      unfolding fst_conv by code_simp
  qed simp
  show "clean_parts True (CHR ''/'' # ''f'') = clean_parts True (CHR ''/'' # ''./f'')" by code_simp
  show "dataset_by (v_db (sample_world sample_fs)) ''d'' = Some sample_dataset"
    by (simp add: dataset_by_def sample_world_def sample_dataset_def)
qed

text \<open>A dataset of one's own on somebody else's directory.\<close>

definition claimed :: vol_world where
  "claimed = snd (run_state (createDataset vol_sample (demo_user ''b'' RoleMember) (Inr sample_dataset)) (sample_world sample_fs))"

text \<open>
  A user who is no member of a dataset reads its files: nothing stops a request from creating a second dataset
  on the same directory, whose member its creator is.
\<close>

theorem foreign_files_read:
  "fst (run_state (datasetFileDownload vol_sample (demo_user ''b'' RoleMember) ''d'' ''f'') (sample_world sample_fs))
     = Inl (404, VE_Msg ''not found'')
   \<and> fst (run_state (datasetFileDownload vol_sample (demo_user ''b'' RoleMember) ''#0'' ''f'') claimed) = Inr (''f'', ''one'')"
  by code_simp

section \<open>Scans\<close>

definition found_one :: file_entry where
  "found_one = \<lparr>en_path = ''f'', en_size = 3, en_sum = ''two''\<rparr>"

definition past_event :: "uuid \<Rightarrow> file_event_type \<Rightarrow> string \<Rightarrow> string \<Rightarrow> time \<Rightarrow> file_event" where
  "past_event i ty old new now = (event_of ''d'' ''s'' ''f'' ty (3, old) (3, new))\<lparr>fe_id := i, fe_at := now\<rparr>"

text \<open>The file was found, and a later scan has seen and recorded its change.\<close>

definition aged_world :: vol_world where
  "aged_world = (sample_world sample_fs)\<lparr>
     v_snapshots := [\<lparr>sn_id = ''s'', sn_dataset = ''d'', sn_scanned = 0, sn_files = 1, sn_size = 3, sn_version = 1\<rparr>],
     v_history := [past_event ''e'' FileAdded '''' ''one'' 0, past_event ''f'' FileModified ''one'' ''two'' 1]\<rparr>"

definition rescanned :: vol_world where
  "rescanned = snd (run_state (compare_and_record sample_dataset [found_one]) aged_world)"

lemma rescans: "run_state (compare_and_record sample_dataset [found_one]) aged_world = (Inr (), rescanned)"
proof (rule prod_eqI)
  show "fst (run_state (compare_and_record sample_dataset [found_one]) aged_world) = fst (Inr (), rescanned)"
    unfolding fst_conv by code_simp
qed (simp add: rescanned_def)


lemma scan_writes_witness:
  "\<exists>d. dataset_by (v_db rescanned) ''d'' = Some d \<and> ds_version d = 1 \<and> ds_size d = 3"
  using scan_writes [OF rescans]
  by (auto simp: dataset_summary_def sample_dataset_def total_size_def found_one_def)

lemma scan_events_exact_witness:
  "foldl apply_event (known_sum (replay [past_event ''e'' FileAdded '''' ''one'' 0]))
     (scan_events ''d'' ''s'' (replay [past_event ''e'' FileAdded '''' ''one'' 0]) [found_one]) = found_sum [found_one]"
  using scan_events_exact [of "[found_one]" _ "[past_event ''e'' FileAdded '''' ''one'' 0]", OF _ refl] by simp

lemma large_scan_fails_witness:
  "\<exists>e. fst (run_state (compare_and_record sample_dataset (replicate 6554 found_one)) (sample_world sample_fs)) = Inl e"
proof -
  have "filter (\<lambda>h. fe_dataset h = ds_id sample_dataset) (v_history (sample_world sample_fs)) = []"
    by (simp add: sample_world_def)
  moreover have "6553 < length (replicate 6554 found_one)" by simp
  ultimately show ?thesis using large_scan_fails [OF prod.collapse [symmetric]] by blast
qed

end
