(* ===== verification/Auto_Deploy.thy ===== *)
theory Auto_Deploy
  imports Lifecycle Access_Handlers Go_Paths
begin

text \<open>
  Deployments nobody asks for by hand: the poller of remote branches (internal/scheduler/autodeploy.go), the
  watcher of image digests (internal/scheduler/imagewatch.go) and the hook behind a push to a hosted
  repository (\<open>gitPostReceive\<close> in internal/api/server.go). What git, a registry, the JSON and YAML libraries
  and the image reference parser answer are parameters, fixed for the tick at hand.
\<close>

section \<open>What a tick sees\<close>

text \<open>
  \<open>wc_ls_remote\<close>: the output of \<open>git ls-remote\<close> on a remote and a ref, with an SSH key; \<open>wc_clone\<close>: the compose
  file of a shallow clone (\<open>None\<close>: not there); \<open>wc_git\<close>: \<open>git -C\<close> on a hosted repository with some arguments, its
  standard output or an error; \<open>wc_url_user\<close>: \<open>url.Parse\<close> and \<open>URL.String\<close> with a user and password; \<open>wc_services\<close>: the \<open>image\<close>
  of every service of a compose document, in the order of the map; \<open>wc_host\<close>: \<open>name.ParseReference\<close> and the
  reference's registry; \<open>wc_digest\<close>: \<open>crane.Digest\<close> with credentials or none.
\<close>

record watch_cfg =
  wc_sched :: sched_cfg
  wc_ls_remote :: "string \<Rightarrow> string \<Rightarrow> string \<Rightarrow> go_error + string"
  wc_clone :: "string \<Rightarrow> string \<Rightarrow> string \<Rightarrow> string \<Rightarrow> go_error + string option"
  wc_git :: "string \<Rightarrow> string list \<Rightarrow> go_error + string"
  wc_url_user :: "string \<Rightarrow> string \<Rightarrow> string \<Rightarrow> go_error + string"
  wc_services :: "string \<Rightarrow> string list"
  wc_host :: "string \<Rightarrow> go_error + string"
  wc_digest :: "string \<Rightarrow> (string \<times> string) option \<Rightarrow> go_error + string"
  wc_unmarshal :: "string \<Rightarrow> str_map"
  wc_marshal :: "str_map \<Rightarrow> string"
  wc_repo_base :: string
  wc_registry :: string
  wc_registry_user :: string
  wc_registry_password :: string

section \<open>Intervals\<close>

text \<open>\<open>strconv.Atoi\<close>: \<open>None\<close> for a syntax or range error.\<close>

definition digits_only :: "string \<Rightarrow> bool" where
  "digits_only s \<longleftrightarrow> s \<noteq> '''' \<and> list_all (\<lambda>c. CHR ''0'' \<le> c \<and> c \<le> CHR ''9'') s"

definition Atoi :: "string \<Rightarrow> int option" where
  "Atoi s = (case s of
       [] \<Rightarrow> None
     | c # cs \<Rightarrow>
        (let neg = (c = CHR ''-''); ds = (if c = CHR ''-'' \<or> c = CHR ''+'' then cs else s);
             v = (if neg then - int (read_nat ds) else int (read_nat ds)) in
         if digits_only ds \<and> - (2 ^ 63) \<le> v \<and> v < 2 ^ 63 then Some v else None))"

text \<open>\<open>time.Duration(secs) * time.Second\<close> wraps at 64 bits.\<close>

definition interval_of :: "time \<Rightarrow> time \<Rightarrow> string \<Rightarrow> time" where
  "interval_of least usual v = (case Atoi v of
       None \<Rightarrow> usual
     | Some secs \<Rightarrow> if wrap64 (seconds secs) < least then usual else wrap64 (seconds secs))"

definition minAutoDeployPollInterval :: time where "minAutoDeployPollInterval = seconds 10"
definition defaultAutoDeployPollInterval :: time where "defaultAutoDeployPollInterval = seconds 60"
definition minImageWatchInterval :: time where "minImageWatchInterval = seconds 60"
definition defaultImageWatchInterval :: time where "defaultImageWatchInterval = minutes 10"

definition currentAutoDeployInterval :: "(db, time) state" where
  "currentAutoDeployInterval = do {
     v \<leftarrow> or_zero '''' (GetSetting ''auto_deploy_poll_interval_seconds'');
     State_Monad.return (interval_of minAutoDeployPollInterval defaultAutoDeployPollInterval v) }"

definition currentImageWatchInterval :: "(db, time) state" where
  "currentImageWatchInterval = do {
     v \<leftarrow> or_zero '''' (GetSetting ''auto_deploy_image_watch_interval_seconds'');
     State_Monad.return (interval_of minImageWatchInterval defaultImageWatchInterval v) }"

section \<open>The branch poller\<close>

text \<open>\<open>strings.Fields\<close>.\<close>

fun fields_from :: "string \<Rightarrow> string \<Rightarrow> string list" where
  "fields_from cur [] = (if cur = [] then [] else [rev cur])"
| "fields_from cur (c # cs) = (if is_space c then (if cur = [] then fields_from [] cs else rev cur # fields_from [] cs)
     else fields_from (c # cur) cs)"

definition Fields :: "string \<Rightarrow> string list" where
  "Fields s = fields_from [] s"

fun first_ref :: "string list \<Rightarrow> string" where
  "first_ref [] = ''''"
| "first_ref (line # ls) = (case Fields line of
       a # b # _ \<Rightarrow> if HasPrefix b ''refs/'' then a else first_ref ls
     | _ \<Rightarrow> first_ref ls)"

definition parseLsRemoteHead :: "string \<Rightarrow> string" where
  "parseLsRemoteHead out = first_ref (Split (CHR 0x0A) out)"

text \<open>\<open>%q\<close> of plain text.\<close>

definition quoted :: "string \<Rightarrow> string" where
  "quoted s = CHR 0x22 # s @ [CHR 0x22]"

definition or_main :: "string \<Rightarrow> string" where
  "or_main b = (if b = '''' then ''main'' else b)"

text \<open>The remote with the credentials in its URL.\<close>

definition remote_with :: "watch_cfg \<Rightarrow> string \<Rightarrow> string \<Rightarrow> string \<Rightarrow> go_error + string" where
  "remote_with c url u tok =
     (if u \<noteq> '''' \<and> tok \<noteq> '''' \<and> HasPrefix url ''https://'' then
        (case wc_url_user c url u tok of Inl e \<Rightarrow> Inl (''parse git url: '' @ e) | Inr r \<Rightarrow> Inr r)
      else Inr url)"

definition fetchExternalRemoteHead :: "watch_cfg \<Rightarrow> project \<Rightarrow> string \<Rightarrow> string store" where
  "fetchExternalRemoteHead c p branch = do {
     (u, tok, key) \<leftarrow> or_zero ('''', '''', '''') (GetProjectGitCredential (wc_sched c) (p_id p));
     State_Monad.return (case remote_with c (p_git_url p) u tok of
       Inl e \<Rightarrow> Inl e
     | Inr remote \<Rightarrow> (case wc_ls_remote c remote (''refs/heads/'' @ branch) key of
          Inl e \<Rightarrow> Inl e | Inr out \<Rightarrow> Inr (parseLsRemoteHead out))) }"

text \<open>What \<open>checkAndTriggerExternal\<close> does with the head of the branch.\<close>

definition deploy_commit :: "watch_cfg \<Rightarrow> project \<Rightarrow> string \<Rightarrow> string \<Rightarrow> unit store" where
  "deploy_commit c p branch sha =
     (if sha = '''' then fail (''branch '' @ quoted branch @ '' not present on remote'')
      else if sha = p_last_commit p then ok ()
      else attempt (wrap_err ''trigger: '' (TriggerDeployment (wc_sched c) (p_id p))) (\<lambda>_.
           wrap_err ''record sha: '' (SetProjectLastTrackedCommitSHA (p_id p) sha)))"

definition checkAndTriggerExternal :: "watch_cfg \<Rightarrow> project \<Rightarrow> unit store" where
  "checkAndTriggerExternal c p =
     (if p_git_url p = '''' then ok ()
      else let branch = or_main (p_git_branch p) in
        attempt (wrap_err ''ls-remote: '' (fetchExternalRemoteHead c p branch)) (deploy_commit c p branch))"

definition master_off :: "(db, bool) state" where
  "master_off = do {
     v \<leftarrow> or_zero '''' (GetSetting ''auto_deploy_master_enabled'');
     State_Monad.return (v = ''false'') }"

definition tickAutoDeploy :: "watch_cfg \<Rightarrow> (db, unit) state" where
  "tickAutoDeploy c = do {
     off \<leftarrow> master_off;
     if off then State_Monad.return ()
     else do {
       r \<leftarrow> ListAutoDeployProjects (Some GS_External);
       case r of
         Inl _ \<Rightarrow> State_Monad.return ()
       | Inr ps \<Rightarrow> for_each ps (\<lambda>p. ignore (checkAndTriggerExternal c p)) } }"

text \<open>Hosted repositories on disk, as the package gitrepo reads them.\<close>

definition RepoPath :: "string \<Rightarrow> uuid \<Rightarrow> string" where
  "RepoPath base i = path_Join [base, i @ ''.git'']"

definition DefaultBranch :: "watch_cfg \<Rightarrow> string \<Rightarrow> string" where
  "DefaultBranch c repoPath = (case wc_git c repoPath [''symbolic-ref'', ''--short'', ''HEAD''] of
       Inl _ \<Rightarrow> ''main'' | Inr out \<Rightarrow> TrimSpace out)"

definition HeadSHA :: "watch_cfg \<Rightarrow> string \<Rightarrow> string \<Rightarrow> string" where
  "HeadSHA c repoPath branch = (case wc_git c repoPath [''rev-parse'', ''refs/heads/'' @ branch] of
       Inl _ \<Rightarrow> '''' | Inr out \<Rightarrow> TrimSpace out)"

definition ReadBlobAtBranch :: "watch_cfg \<Rightarrow> string \<Rightarrow> string \<Rightarrow> string \<Rightarrow> string option" where
  "ReadBlobAtBranch c repoPath branch path = (case wc_git c repoPath [''show'', ''refs/heads/'' @ branch @ '':'' @ path] of
       Inl _ \<Rightarrow> None | Inr out \<Rightarrow> Some out)"

text \<open>After a push to a hosted repository: errors are logged.\<close>

definition gitPostReceive :: "watch_cfg \<Rightarrow> uuid \<Rightarrow> string \<Rightarrow> (db, unit) state" where
  "gitPostReceive c i repoPath = do {
     off \<leftarrow> master_off;
     if off then State_Monad.return ()
     else do {
       r \<leftarrow> GetProject i;
       case r of
         Inr (Some project) \<Rightarrow>
           if \<not> p_auto_deploy project then State_Monad.return ()
           else let branch = (if p_git_branch project = '''' then DefaultBranch c repoPath else p_git_branch project);
                    sha = HeadSHA c repoPath branch in
             if sha = '''' \<or> sha = p_last_commit project then State_Monad.return ()
             else do {
               t \<leftarrow> TriggerDeployment (wc_sched c) i;
               case t of
                 Inl _ \<Rightarrow> State_Monad.return ()
               | Inr _ \<Rightarrow> ignore (SetProjectLastTrackedCommitSHA i sha) }
       | _ \<Rightarrow> State_Monad.return () } }"

section \<open>Registries\<close>

definition stripPort :: "string \<Rightarrow> string" where
  "stripPort host = (case LastIndexByte host (CHR '':'') of None \<Rightarrow> host | Some i \<Rightarrow> take i host)"

definition hostMatchesRegistryAddr :: "string \<Rightarrow> string \<Rightarrow> bool" where
  "hostMatchesRegistryAddr rawHost rawAddr =
     (let refHost = ToLower (TrimSpace rawHost); configuredAddr = ToLower (TrimSpace rawAddr) in
      if refHost = '''' \<or> configuredAddr = '''' then False
      else if refHost = configuredAddr then True
      else stripPort refHost = stripPort configuredAddr)"

definition imageBelongsToOurRegistry :: "watch_cfg \<Rightarrow> string \<Rightarrow> bool" where
  "imageBelongsToOurRegistry c host = (if wc_registry c = '''' then False else hostMatchesRegistryAddr host (wc_registry c))"

definition normalizeRegistryHost :: "string \<Rightarrow> string" where
  "normalizeRegistryHost h0 = (let h = stripPort (ToLower (TrimSpace h0)) in
     if h = ''index.docker.io'' \<or> h = ''registry-1.docker.io'' then ''docker.io'' else h)"

definition registryHostMatches :: "string \<Rightarrow> string \<Rightarrow> bool" where
  "registryHostMatches refHost secretAddr = (normalizeRegistryHost refHost = normalizeRegistryHost secretAddr)"

text \<open>\<open>None\<close> is \<open>authn.Anonymous\<close>.\<close>

definition authForImage :: "watch_cfg \<Rightarrow> string \<Rightarrow> registry_auth list \<Rightarrow> (string \<times> string) option" where
  "authForImage c host ownerAuths =
     (if imageBelongsToOurRegistry c host \<and> wc_registry_user c \<noteq> '''' \<and> wc_registry_password c \<noteq> ''''
      then Some (wc_registry_user c, wc_registry_password c)
      else map_option (\<lambda>a. (ra_username a, ra_password a))
        (find (\<lambda>a. ra_username a \<noteq> '''' \<and> ra_password a \<noteq> '''' \<and> ra_addr a \<noteq> '''' \<and> registryHostMatches host (ra_addr a)) ownerAuths))"

definition fetchImageDigest :: "watch_cfg \<Rightarrow> string \<Rightarrow> registry_auth list \<Rightarrow> go_error + string" where
  "fetchImageDigest c img ownerAuths = (case wc_host c img of
       Inl e \<Rightarrow> Inl (''parse image: '' @ e)
     | Inr host \<Rightarrow> wc_digest c img (authForImage c host ownerAuths))"

definition ownerRegistryAuths :: "watch_cfg \<Rightarrow> project \<Rightarrow> (db, registry_auth list) state" where
  "ownerRegistryAuths c p = or_zero [] (GetUserRegistrySecretsDecrypted (wc_sched c) (p_owner p))"

section \<open>The image watcher\<close>

text \<open>\<open>strings.ReplaceAll(s, "$$", "")\<close>.\<close>

fun strip_dollars :: "string \<Rightarrow> string" where
  "strip_dollars (a # b # cs) = (if a = CHR ''$'' \<and> b = CHR ''$'' then strip_dollars cs else a # strip_dollars (b # cs))"
| "strip_dollars cs = cs"

definition containsInterpolation :: "string \<Rightarrow> bool" where
  "containsInterpolation s = (if CHR ''$'' \<notin> set s then False else CHR ''$'' \<in> set (strip_dollars s))"

text \<open>The images of the services, once each; those that are watched and those that are skipped.\<close>

fun collect_images :: "string list \<Rightarrow> string list \<Rightarrow> string list \<times> string list" where
  "collect_images seen [] = ([], [])"
| "collect_images seen (raw # rest) =
     (let img = TrimSpace raw in
      if img = '''' \<or> img \<in> set seen then collect_images seen rest
      else (let (images, skipped) = collect_images (img # seen) rest in
        if containsInterpolation img then (images, img # skipped) else (img # images, skipped)))"

definition parseComposeImages :: "watch_cfg \<Rightarrow> string \<Rightarrow> string list \<times> string list" where
  "parseComposeImages c data = collect_images [] (wc_services c data)"

definition sameKeys :: "str_map \<Rightarrow> str_map \<Rightarrow> bool" where
  "sameKeys a b = (if length a \<noteq> length b then False else list_all (\<lambda>kv. map_of b (fst kv) \<noteq> None) a)"

definition persistDigests :: "watch_cfg \<Rightarrow> uuid \<Rightarrow> str_map \<Rightarrow> unit store" where
  "persistDigests c i m = SetProjectLastTrackedImageDigests i (wc_marshal c m)"

definition prior_digests :: "watch_cfg \<Rightarrow> project \<Rightarrow> str_map" where
  "prior_digests c p = (if p_last_digests p \<noteq> '''' then wc_unmarshal c (p_last_digests p) else [])"

definition checkSingleImage :: "watch_cfg \<Rightarrow> project \<Rightarrow> unit store" where
  "checkSingleImage c p =
     (if p_image_ref p = '''' then ok ()
      else if containsInterpolation (p_image_ref p) then ok ()
      else let prior = prior_digests c p in do {
        auths \<leftarrow> ownerRegistryAuths c p;
        case fetchImageDigest c (p_image_ref p) auths of
          Inl e \<Rightarrow> fail (''digest '' @ quoted (p_image_ref p) @ '': '' @ e)
        | Inr digest \<Rightarrow>
            let current = [(p_image_ref p, digest)] in
            if prior = [] then persistDigests c (p_id p) current
            else if map_of prior (p_image_ref p) = Some digest \<and> sameKeys prior current then ok ()
            else attempt (wrap_err ''trigger: '' (TriggerDeployment (wc_sched c) (p_id p))) (\<lambda>_.
                 persistDigests c (p_id p) current) })"

text \<open>The loop over the images: the map of current digests and whether a known digest has moved.\<close>

fun compare_images :: "(string \<Rightarrow> go_error + string) \<Rightarrow> str_map \<Rightarrow> string list \<Rightarrow> str_map \<times> bool" where
  "compare_images look prior [] = ([], False)"
| "compare_images look prior (img # imgs) =
     (let (current, changed) = compare_images look prior imgs in
      case look img of
        Inl _ \<Rightarrow> (case map_of prior img of None \<Rightarrow> (current, changed) | Some prev \<Rightarrow> ((img, prev) # current, changed))
      | Inr digest \<Rightarrow> ((img, digest) # current,
          (case map_of prior img of None \<Rightarrow> changed | Some prev \<Rightarrow> prev \<noteq> digest \<or> changed)))"

definition imageWatchComposeFetchLimit :: int where
  "imageWatchComposeFetchLimit = 1024 * 1024"

definition within_limit :: "string option \<Rightarrow> go_error + string" where
  "within_limit data = (case data of
       None \<Rightarrow> Inr ''''
     | Some d \<Rightarrow> if int (length d) > imageWatchComposeFetchLimit then Inl ''compose file exceeds 1048576 bytes'' else Inr d)"

definition fetchComposeFileExternal :: "watch_cfg \<Rightarrow> project \<Rightarrow> string \<Rightarrow> string \<Rightarrow> string store" where
  "fetchComposeFileExternal c p branch composePath =
     (if p_git_url p = '''' then ok ''''
      else do {
        (u, tok, key) \<leftarrow> or_zero ('''', '''', '''') (GetProjectGitCredential (wc_sched c) (p_id p));
        State_Monad.return (case remote_with c (p_git_url p) u tok of
          Inl e \<Rightarrow> Inl e
        | Inr remote \<Rightarrow> (case wc_clone c remote branch composePath key of Inl e \<Rightarrow> Inl e | Inr data \<Rightarrow> within_limit data)) })"

definition fetchComposeFile :: "watch_cfg \<Rightarrow> project \<Rightarrow> string store" where
  "fetchComposeFile c p =
     (let composePath = (if p_compose_file_path p = '''' then ''docker-compose.yml'' else p_compose_file_path p);
          branch = or_main (p_git_branch p) in
      if p_git_source p = GS_Hosted then
        (if wc_repo_base c = '''' then fail ''hosted compose project but git repo base path is unset''
         else State_Monad.return (within_limit (ReadBlobAtBranch c (RepoPath (wc_repo_base c) (p_id p)) branch composePath)))
      else fetchComposeFileExternal c p branch composePath)"

definition checkComposeImages :: "watch_cfg \<Rightarrow> project \<Rightarrow> unit store" where
  "checkComposeImages c p =
     attempt (wrap_err ''fetch compose: '' (fetchComposeFile c p)) (\<lambda>data.
     if data = '''' then ok ()
     else let images = fst (parseComposeImages c data) in
       if images = [] then ok ()
       else let prior = prior_digests c p in do {
         auths \<leftarrow> ownerRegistryAuths c p;
         let (current, changed) = compare_images (\<lambda>img. fetchImageDigest c img auths) prior images;
         if prior = [] then persistDigests c (p_id p) current
         else if \<not> changed then (if \<not> sameKeys prior current then persistDigests c (p_id p) current else ok ())
         else attempt (wrap_err ''trigger: '' (TriggerDeployment (wc_sched c) (p_id p))) (\<lambda>_.
              persistDigests c (p_id p) current) })"

definition tickImageWatch :: "watch_cfg \<Rightarrow> (db, unit) state" where
  "tickImageWatch c = do {
     off \<leftarrow> master_off;
     if off then State_Monad.return ()
     else do {
       r \<leftarrow> ListAutoDeployProjects None;
       case r of
         Inl _ \<Rightarrow> State_Monad.return ()
       | Inr ps \<Rightarrow> for_each ps (\<lambda>p.
           if p_type p = PT_Compose then ignore (checkComposeImages c p)
           else if p_type p = PT_Image then ignore (checkSingleImage c p)
           else State_Monad.return ()) } }"

end
