(* ===== verification/Auto_Deploy_Facts.thy ===== *)
theory Auto_Deploy_Facts
  imports Auto_Deploy Lifecycle_Steps Access_Facts
begin

text \<open>
  When a deployment is made that nobody asked for: only for a commit or a digest that has moved, and never
  beside another deployment of the project in flight. How often the watchers look, and to whom they show
  the credentials of the private registry.
\<close>

declare run_attempt [simp del] run_ok [simp del]

section \<open>Intervals\<close>

lemma interval_of_bounds:
  assumes "least \<le> usual" "usual < 2 ^ 63"
  shows "least \<le> interval_of least usual v \<and> interval_of least usual v < 2 ^ 63"
proof -
  have "wrap64 x < 2 ^ 63" for x
  proof -
    have "(x + 2 ^ 63) mod 2 ^ 64 < (2 :: int) ^ 64" by (rule pos_mod_bound) simp
    then show ?thesis by (simp add: wrap64_def)
  qed
  then show ?thesis using assms by (auto simp: interval_of_def split: option.splits)
qed

text \<open>
  C40: Whatever the settings hold - nothing, garbage, a number so large that the product with a second overflows -
  the poller of branches waits at least ten seconds and the watcher of images at least a minute, and
  both a positive 64-bit duration.
\<close>

theorem intervals_bounded:
  "seconds 10 \<le> fst (run_state currentAutoDeployInterval s) \<and> fst (run_state currentAutoDeployInterval s) < 2 ^ 63
   \<and> seconds 60 \<le> fst (run_state currentImageWatchInterval s) \<and> fst (run_state currentImageWatchInterval s) < 2 ^ 63"
proof -
  have "seconds 10 \<le> interval_of minAutoDeployPollInterval defaultAutoDeployPollInterval v
      \<and> interval_of minAutoDeployPollInterval defaultAutoDeployPollInterval v < 2 ^ 63" for v
    using interval_of_bounds [of minAutoDeployPollInterval defaultAutoDeployPollInterval v]
    by (simp add: minAutoDeployPollInterval_def defaultAutoDeployPollInterval_def duration_defs)
  moreover have "seconds 60 \<le> interval_of minImageWatchInterval defaultImageWatchInterval v
      \<and> interval_of minImageWatchInterval defaultImageWatchInterval v < 2 ^ 63" for v
    using interval_of_bounds [of minImageWatchInterval defaultImageWatchInterval v]
    by (simp add: minImageWatchInterval_def defaultImageWatchInterval_def duration_defs)
  ultimately show ?thesis
    by (auto simp: currentAutoDeployInterval_def currentImageWatchInterval_def split: prod.splits sum.splits)
qed

section \<open>Branches\<close>

lemma reads_only_fetch [reads_intros]: "reads_only (fetchExternalRemoteHead c p b)"
  unfolding fetchExternalRemoteHead_def by (intro reads_intros)

lemma project_by_updated:
  assumes "\<And>p. p_id (f p) = p_id p" "project_by (update_projects (\<lambda>p. p_id p = i) f s) i = Some q"
  shows "\<exists>p. q = (f p)\<lparr>p_updated := db_now s\<rparr>"
proof -
  have "find (\<lambda>p. p_id p = i) (upd_where (\<lambda>p. p_id p = i) (\<lambda>p. (f p)\<lparr>p_updated := db_now s\<rparr>) ps) = Some q \<Longrightarrow>
      \<exists>p. q = (f p)\<lparr>p_updated := db_now s\<rparr>" for ps
    by (induction ps) (auto simp: assms(1) split: if_splits)
  then show ?thesis using assms(2) by (simp add: project_by_def update_projects_def)
qed

lemma exec_update_projects:
  assumes "run_state (exec (update_projects (\<lambda>p. p_id p = i) f)) s = (Inr u, s')" "project_by s' i = Some q" "\<And>p. p_id (f p) = p_id p"
  shows "\<exists>p now. q = (f p)\<lparr>p_updated := now\<rparr>"
proof -
  obtain fs where "s' = update_projects (\<lambda>p. p_id p = i) f (s\<lparr>db_faults := fs\<rparr>)" using assms(1) by (rule exec_InrE)
  then show ?thesis using project_by_updated [of f i "s\<lparr>db_faults := fs\<rparr>", OF assms(3)] assms(2) by blast
qed

lemma recorded_commit:
  assumes "run_state (SetProjectLastTrackedCommitSHA i sha) s = (Inr u, s')" "project_by s' i = Some q"
  shows "p_last_commit q = sha"
  using exec_update_projects [OF assms(1) [unfolded SetProjectLastTrackedCommitSHA_def] assms(2)] by auto

lemma wrap_err_Inr: "run_state (wrap_err e m) s = (Inr x, s') \<longleftrightarrow> run_state m s = (Inr x, s')"
  by (auto split: prod.splits sum.splits)


section \<open>Images\<close>

text \<open>What the loop has found for an image of the file.\<close>

lemma compare_images_current:
  "distinct imgs \<Longrightarrow> img \<in> set imgs \<Longrightarrow> map_of (fst (compare_images look prior imgs)) img
    = (case look img of Inr d \<Rightarrow> Some d | Inl _ \<Rightarrow> map_of prior img)"
proof (induction imgs)
  case (Cons a imgs)
  have other: "map_of (fst (compare_images look prior (a # imgs))) x = map_of (fst (compare_images look prior imgs)) x" if "x \<noteq> a" for x
    using that by (auto simp: Let_def split: sum.splits option.splits prod.splits)
  have none: "x \<notin> set is \<Longrightarrow> map_of (fst (compare_images look prior is)) x = None" for x "is"
    by (induction "is") (auto simp: Let_def split: sum.splits option.splits prod.splits)
  show ?case
  proof (cases "img = a")
    case True
    then show ?thesis using none [of a imgs] Cons.prems by (auto simp: Let_def split: sum.splits option.splits prod.splits)
  next
    case False
    then show ?thesis using other [of img] Cons by simp
  qed
qed simp

lemma compare_images_changed:
  "snd (compare_images look prior imgs) \<longleftrightarrow>
    (\<exists>img \<in> set imgs. \<exists>old new. map_of prior img = Some old \<and> look img = Inr new \<and> old \<noteq> new)"
  by (induction imgs) (auto simp: Let_def split: sum.splits option.splits prod.splits)


lemma reads_only_compose [reads_intros]: "reads_only (fetchComposeFile c p)"
  unfolding fetchComposeFile_def fetchComposeFileExternal_def Let_def by (intro reads_intros)

lemma reads_only_auths [reads_intros]: "reads_only (ownerRegistryAuths c p)"
  unfolding ownerRegistryAuths_def by (intro reads_intros)

lemma collect_images_distinct:
  "distinct (fst (collect_images seen raws)) \<and> set (fst (collect_images seen raws)) \<inter> set seen = {}"
  by (induction seen raws rule: collect_images.induct) (auto simp: Let_def split: prod.splits)

lemma recorded_digests:
  assumes "run_state (persistDigests c i m) s = (Inr u, s')" "project_by s' i = Some q"
  shows "p_last_digests q = (if wc_marshal c m = '''' then ''{}'' else wc_marshal c m)"
  using exec_update_projects
    [OF assms(1) [unfolded persistDigests_def SetProjectLastTrackedImageDigests_def Let_def] assms(2)] by auto

lemma persist_deployments: "run_state (persistDigests c i m) s = (r, s') \<Longrightarrow> deployments s' = deployments s"
  by (auto simp: persistDigests_def SetProjectLastTrackedImageDigests_def Let_def run_exec popped_def update_projects_def
      split: option.splits)

text \<open>
  C26: A check of a compose project's images deploys it only when the digest recorded for an image of
  the file differs from the one its registry reports now: neither an image that is new to the file, nor
  one whose registry does not answer, nor the first check of a project deploys anything. When the
  check of a project deployed or seen for the first time succeeds, the digests found are recorded.
\<close>

theorem compose_check_decides:
  assumes "run_state (checkComposeImages c p) s = (r, s')"
    and "run_state (fetchComposeFile c p) s = (Inr data, s1)" and "data \<noteq> ''''"
    and "run_state (ownerRegistryAuths c p) s1 = (auths, s2)"
  shows "let images = fst (parseComposeImages c data); prior = prior_digests c p; look = (\<lambda>img. fetchImageDigest c img auths);
            moved = (\<exists>img \<in> set images. \<exists>old new. map_of prior img = Some old \<and> look img = Inr new \<and> old \<noteq> new) in
    (deployments s' \<noteq> deployments s \<longrightarrow> prior \<noteq> [] \<and> moved)
    \<and> (r = Inr () \<and> images \<noteq> [] \<and> (prior = [] \<or> moved) \<longrightarrow> (\<forall>q. project_by s' (p_id p) = Some q \<longrightarrow>
        (\<exists>current. p_last_digests q = (if wc_marshal c current = '''' then ''{}'' else wc_marshal c current) \<and>
          (\<forall>img \<in> set images. \<forall>d. look img = Inr d \<longrightarrow> map_of current img = Some d))))"
proof -
  define images where "images = fst (parseComposeImages c data)"
  define prior where "prior = prior_digests c p"
  define look where "look = (\<lambda>img. fetchImageDigest c img auths)"
  obtain current changed where cmp: "compare_images look prior images = (current, changed)" by (cases "compare_images look prior images") auto
  have moved: "changed \<longleftrightarrow> (\<exists>img \<in> set images. \<exists>old new. map_of prior img = Some old \<and> look img = Inr new \<and> old \<noteq> new)"
    using compare_images_changed [of look prior images] cmp by simp
  have "distinct images" unfolding images_def parseComposeImages_def using collect_images_distinct by blast
  then have found: "map_of current img = Some d" if "img \<in> set images" "look img = Inr d" for img d
    using compare_images_current [of images img look prior] that cmp by simp
  have s1: "deployments s1 = deployments s"
    by (rule reads_onlyE [OF reads_only_compose assms(2)]) simp
  have s2: "deployments s2 = deployments s1"
    by (rule reads_onlyE [OF reads_only_auths assms(4)]) simp
  have run: "run_state (checkComposeImages c p) s = (if images = [] then (Inr (), s1)
      else run_state (if prior = [] then persistDigests c (p_id p) current
         else if \<not> changed then (if \<not> sameKeys prior current then persistDigests c (p_id p) current else ok ())
         else attempt (wrap_err ''trigger: '' (TriggerDeployment (wc_sched c) (p_id p))) (\<lambda>_.
              persistDigests c (p_id p) current)) s2)"
    using assms(2-4) cmp unfolding images_def prior_def look_def
    by (auto simp: checkComposeImages_def run_attempt Let_def run_ok)
  have one: "prior \<noteq> [] \<and> changed" if "deployments s' \<noteq> deployments s"
    using that run s1 s2 assms(1) by (auto simp: run_ok split: if_splits dest: persist_deployments [OF sym])
  have two: "p_last_digests q = (if wc_marshal c current = '''' then ''{}'' else wc_marshal c current)"
    if "r = Inr ()" "images \<noteq> []" "prior = [] \<or> changed" "project_by s' (p_id p) = Some q" for q
  proof -
    have "run_state (if prior = [] then persistDigests c (p_id p) current
        else attempt (wrap_err ''trigger: '' (TriggerDeployment (wc_sched c) (p_id p))) (\<lambda>_.
          persistDigests c (p_id p) current)) s2 = (Inr (), s')"
      using run assms(1) that(1-3) by (auto split: if_splits)
    then obtain s3 where "run_state (persistDigests c (p_id p) current) s3 = (Inr (), s')"
      by (auto simp: attempt_Inr split: if_splits)
    then show ?thesis using that(4) by (rule recorded_digests)
  qed
  show ?thesis unfolding Let_def images_def [symmetric] prior_def [symmetric] look_def [symmetric] moved [symmetric]
    using one two found by (auto simp: look_def)
qed

section \<open>Credentials\<close>


section \<open>Single flight\<close>

context handler_invariant
begin

lemma keeps_master_off: "keeps I master_off"
  unfolding master_off_def by (intro keeps_reads reads_intros)

lemma keeps_persistDigests: "keeps I (persistDigests c i m)"
  unfolding persistDigests_def by (rule keeps_project_updates)

lemma keeps_deploy_commit: "keeps I (deploy_commit c p b sha)"
  unfolding deploy_commit_def
  by (intro keeps_if keeps_ok keeps_fail keeps_attempt keeps_wrap_err keeps_TriggerDeployment keeps_project_updates)

lemma keeps_checkAndTriggerExternal: "keeps I (checkAndTriggerExternal c p)"
  unfolding checkAndTriggerExternal_def Let_def
  by (intro keeps_if keeps_ok keeps_attempt keeps_wrap_err keeps_deploy_commit keeps_reads reads_intros)

lemma keeps_tickAutoDeploy: "keeps I (tickAutoDeploy c)"
  unfolding tickAutoDeploy_def ListAutoDeployProjects_def
  by (intro keeps_bind keeps_master_off keeps_if keeps_return keeps_case_sum keeps_for_each keeps_ignore
      keeps_checkAndTriggerExternal keeps_query)

lemma keeps_checkComposeImages: "keeps I (checkComposeImages c p)"
  unfolding checkComposeImages_def Let_def
  by (intro keeps_attempt keeps_wrap_err keeps_if keeps_ok keeps_bind keeps_case_prod keeps_persistDigests
      keeps_TriggerDeployment keeps_reads reads_intros)

lemma keeps_checkSingleImage: "keeps I (checkSingleImage c p)"
  unfolding checkSingleImage_def Let_def
  by (intro keeps_attempt keeps_wrap_err keeps_if keeps_ok keeps_fail keeps_bind keeps_case_sum keeps_persistDigests
      keeps_TriggerDeployment keeps_reads reads_intros)

lemma keeps_tickImageWatch: "keeps I (tickImageWatch c)"
  unfolding tickImageWatch_def ListAutoDeployProjects_def
  by (intro keeps_bind keeps_master_off keeps_if keeps_return keeps_case_sum keeps_for_each keeps_ignore
      keeps_checkComposeImages keeps_checkSingleImage keeps_query)

lemma keeps_gitPostReceive: "keeps I (gitPostReceive c i repoPath)"
  unfolding gitPostReceive_def GetProject_def Let_def
  by (intro keeps_bind keeps_master_off keeps_if keeps_return keeps_case_sum keeps_case_option keeps_ignore
      keeps_TriggerDeployment keeps_project_updates keeps_query)

end

text \<open>The queue together with the three that deploy on their own.\<close>

inductive auto_step :: "server_cfg \<Rightarrow> db \<Rightarrow> db \<Rightarrow> bool" for cfg where
  Queued: "queue_step cfg s s' \<Longrightarrow> auto_step cfg s s'"
| Poll_branches: "run_state (tickAutoDeploy c) s = (u, s') \<Longrightarrow> auto_step cfg s s'"
| Watch_images: "run_state (tickImageWatch c) s = (u, s') \<Longrightarrow> auto_step cfg s s'"
| Git_push: "run_state (gitPostReceive c i repoPath) s = (u, s') \<Longrightarrow> auto_step cfg s s'"

inductive_cases auto_stepE: "auto_step cfg s s'"

lemma auto_step_flight: "auto_step cfg s s' \<Longrightarrow> flight_ok s \<Longrightarrow> flight_ok s'"
  by (erule auto_stepE)
    (auto intro: flight_inv.I_queue_step dest: keepsE [OF flight_inv.keeps_tickAutoDeploy]
      keepsE [OF flight_inv.keeps_tickImageWatch] keepsE [OF flight_inv.keeps_gitPostReceive])


end
