(* ===== verification/Auto_Deploy_Runs.thy ===== *)
theory Auto_Deploy_Runs
  imports Auto_Deploy_Facts Lifecycle_Runs
begin

text \<open>
  A compose project watched on its branch and on its images, on concrete answers of git and of a registry: the
  theorems of the watchers applied to the runs, and a registry on another port of muvee's own host.
\<close>

definition watched :: project where
  "watched = sample_project\<lparr>p_type := PT_Compose, p_expose_service := ''web'', p_expose_port := 80, p_auto_deploy := True, p_last_commit := ''c0'',
     p_last_digests := ''img=old''\<rparr>"

text \<open>The branch is at commit c1; the compose file names one image, whose digest is new.\<close>

definition watch_sample :: watch_cfg where
  "watch_sample = \<lparr>wc_sched = sample_cfg, wc_ls_remote = (\<lambda>_ ref _. Inr (''c1'' @ [CHR 0x09] @ ref @ [CHR 0x0A])),
     wc_clone = (\<lambda>_ _ _ _. Inr (Some ''img'')), wc_git = (\<lambda>_ _. Inr ''c1''), wc_url_user = (\<lambda>u _ _. Inr u),
     wc_services = (\<lambda>d. [d]), wc_host = (\<lambda>_. Inr ''registry.internal:9''), wc_digest = (\<lambda>_ _. Inr ''new''),
     wc_unmarshal = (\<lambda>_. [(''img'', ''old'')]), wc_marshal = (\<lambda>m. concat (map (\<lambda>(k, v). k @ ''='' @ v) m)),
     wc_repo_base = ''/repos'', wc_registry = ''registry.internal:5000'', wc_registry_user = ''muvee'',
     wc_registry_password = ''pw''\<rparr>"

definition watched_db :: db where
  "watched_db = (sample_db 0 [] [] [sample_node ''n'' RoleDeploy 0])\<lparr>projects := [watched]\<rparr>"


theorem compose_check_decides_witness:
  "\<exists>current. p_last_digests (hd (projects (snd (run_state (checkComposeImages watch_sample watched) watched_db))))
     = (if wc_marshal watch_sample current = '''' then ''{}'' else wc_marshal watch_sample current)
   \<and> map_of current ''img'' = Some ''new''"
proof -
  let ?run = "run_state (checkComposeImages watch_sample watched) watched_db"
  let ?fetch = "run_state (fetchComposeFile watch_sample watched) watched_db"
  let ?auths = "fst (run_state (ownerRegistryAuths watch_sample watched) (snd ?fetch))"
  have facts: "fst ?run = Inr ()" "fst ?fetch = Inr ''img''" "map p_id (projects (snd ?run)) = [''p'']" "p_id watched = ''p''"
    "fst (parseComposeImages watch_sample ''img'') = [''img'']" "prior_digests watch_sample watched = [(''img'', ''old'')]"
    "fetchImageDigest watch_sample ''img'' ?auths = Inr ''new''"
    by code_simp+
  have same: "project_by (snd ?run) (p_id watched) = Some (hd (projects (snd ?run)))"
    using facts(3,4) by (auto simp: project_by_def map_eq_Cons_conv)
  have fetch: "?fetch = (Inr ''img'', snd ?fetch)" using facts(2) by (metis prod.collapse)
  show ?thesis
    using compose_check_decides [OF prod.collapse [symmetric] fetch _ prod.collapse [symmetric]] facts same
    by (simp add: Let_def)
qed



end
