(* ===== verification/Spec2Isabelle.thy ===== *)
theory Spec2Isabelle
  imports Lifecycle_Runs Domains Tunnel_Client Edge_Runs Access_Runs Forward_Runs Volume_Runs Auto_Deploy_Runs
begin

text \<open>
  Verification of muvee, a self-hosted platform that builds and runs the projects of its users.

  \<^bold>\<open>The program.\<close> \<open>muvee-server\<close> is the control plane: an HTTP API (internal/api) over a PostgreSQL store
  (internal/store), a scheduler (internal/scheduler) that turns a deployment into tasks for builder and
  deploy nodes, and the generator of the configuration that Traefik polls. An agent on each node asks for
  tasks and reports their results. \<open>muvee-authservice\<close> (cmd/muvee/authservice.go) stands behind Traefik's
  forward auth: it signs users in and decides whether a request may reach a project, asking muvee-server
  about projects and members. \<open>muveectl\<close> opens tunnels from a developer's machine to the platform's
  domain. The development follows these parts; every definition names in the manifest the lines it
  translates.

  \<^bold>\<open>The database and the computations.\<close> \<open>Prelude\<close> has the monad of a handler: a state transformer on the
  database (\<open>Store_Types\<close>) whose result is an error or a value, with statements that may fail as the
  schedule \<open>db_faults\<close> says, transactions that roll back, errors that are wrapped, ignored or turned into
  an HTTP status. \<open>Store_Types\<close> holds the rows of internal/store/models.go and the tables as lists of rows
  in insertion order; a statement checks the keys and constraints of db/migrations. A handler runs at one
  instant of the database clock \<open>db_now\<close>.

  \<^bold>\<open>The deployment lifecycle.\<close> \<open>Deploy_Store\<close>: the statements of store.go on deployments, nodes, tasks and
  cached datasets. \<open>Deploy_Queue\<close>: \<open>AdvanceDeployQueue\<close> and the failing of orphaned tasks, with the
  abstract queue they refine. \<open>Placement\<close>: \<open>PickDeployNode\<close> and its scores. \<open>Dispatch\<close>: the dispatchers
  and the payload of each task. \<open>Lifecycle\<close>: the scheduler's entry points, the agent endpoints and the
  background loops. \<open>Handlers_Inv\<close> states as a locale what a predicate of the database must survive to be
  kept by every handler, \<open>Lifecycle_Inv\<close> proves it kept by each, and the interpretations give single
  flight, the history of deployments and the rest. \<open>Lifecycle_Steps\<close> is the transition system of all
  handlers with its reachable states. \<open>Sample\<close> and \<open>Lifecycle_Runs\<close> evaluate.

  \<^bold>\<open>The edge.\<close> \<open>Go_Strings\<close>: Go's string functions on ASCII. \<open>Domains\<close>: the base domains
  (internal/domains). \<open>Tunnel_Streams\<close>: the frame protocol, the server's streams and their delivery;
  \<open>Tunnel_Client\<close>: muveectl's end. \<open>Tunnel\<close>: registry, authorisation and routing (internal/api/tunnel.go);
  \<open>Tunnel_Words\<close>: the names muveectl derives. \<open>Traefik\<close>: the generated routers, services and middlewares,
  \<open>Traefik_Facts\<close>: the login in front of what needs it, \<open>Traefik_Split\<close>: the split for domains behind a
  Cloudflare Tunnel (internal/api/cftunnel.go). \<open>Edge_Runs\<close> evaluates.

  \<^bold>\<open>Projects.\<close> \<open>Project_Rules\<close> and \<open>Project_Rules_Facts\<close>: \<open>validateProject\<close> and the normal forms.
  \<open>Project_Admission\<close>: the handlers that create, update, delete and hand over projects and custom domains;
  \<open>Project_Admission_Facts\<close>: what an accepted request means. \<open>Admission_Routes\<close> and \<open>Route_Table\<close>: the
  abstract table of hosts these handlers refine, whence no host is served by two projects.
  \<open>Admission_Runs\<close> evaluates.

  \<^bold>\<open>Accounts and access.\<close> \<open>Access_Store\<close>: users, identities, members, allow-lists, invitations, requests.
  \<open>Access\<close> and \<open>Access_Handlers\<close>: sign-in (internal/auth/auth.go), links, inbox, access check, visit
  recorder. \<open>Access_Facts\<close>, \<open>Sign_In\<close>, \<open>Access_Links\<close>, \<open>Access_Inbox\<close>: who gets in, what a sign-in writes,
  the budget of a link, decisions that happen as a whole. \<open>Access_Runs\<close> evaluates.

  \<^bold>\<open>Forward auth.\<close> \<open>Forward_Web\<close>: query strings, headers, cookies, hosts. \<open>Demo_Accounts\<close>: password
  accounts and SMS codes of a project's own site, which muvee-server decides. \<open>Forward_Auth\<close>: \<open>/verify\<close>,
  \<open>/verify-admin\<close>, sessions and the login page. \<open>Forward_Flows\<close>: the sign-in flows, the device flow and
  the login tokens. \<open>Forward_Calculus\<close> has the rules of inversion for their computations; \<open>Forward_Facts\<close>,
  \<open>Demo_Facts\<close> and \<open>Flow_Facts\<close> show whom \<open>/verify\<close> admits, the limits on codes, and that everything
  signed was vouched for. The calls from the authservice to muvee-server are the modelled handlers of the
  server on the same database, behind a parameter that says whether it answers. \<open>Forward_Runs\<close> evaluates.

  \<^bold>\<open>Datasets and files.\<close> \<open>Go_Paths\<close>: the lexical operations of path/filepath and the check that keeps a
  request's path below a directory. \<open>Volumes\<close>: a world of the database, the tables of snapshots and file
  history, and the file system as a table from lists of path components to files and directories; the
  handlers on datasets. \<open>Volume_Files\<close>: the file operations on datasets and workspaces. \<open>Volume_Facts\<close>
  confines each to its directory and to who may write there, \<open>Dataset_Steps\<close> to the base directory over
  any sequence of steps. \<open>Monitor\<close> and \<open>Monitor_Facts\<close>: the scan of a dataset (internal/monitor), the
  events it records and what later scans make of them. \<open>Volume_Runs\<close> evaluates.

  \<^bold>\<open>Automatic deployments.\<close> \<open>Auto_Deploy\<close>: the poller of branches, the watcher of image digests
  (internal/scheduler) and the hook behind a push. \<open>Auto_Deploy_Facts\<close>: they deploy only what has moved,
  through the same queue and its single flight, and whom they show registry credentials.
  \<open>Auto_Deploy_Runs\<close> evaluates.

  \<^bold>\<open>Interfaces.\<close> The locales state what one component asks of another: the laws of the handlers' calculus,
  the tables' changes a predicate survives, the ordering law of the parameter that sorts nodes (Go's
  \<open>sort.Slice\<close> is not stable), the roles of an allow-list. Each is interpreted on the definitions of the
  component that provides it.

  \<^bold>\<open>Parameters.\<close> Code that is not in the repository, or whose value no theorem depends on, is an argument:
  SHA-256 and token hashes, random texts, AES-GCM, bcrypt, \<open>mail.ParseAddress\<close>, the SMS provider, the
  OAuth exchanges, JWT signing (a session is represented by its claims, and the set of signed claims is
  part of the state), \<open>uuid.Parse\<close>, \<open>url.Parse\<close>, JSON decoding of agents' text, the creation of a hosted
  git repository, the rounding of \<open>float64\<close>, the output of git and the answers of image registries (fixed
  for one tick of a watcher), YAML, xxHash and the order in which a scan's workers deliver. The laws
  assumed of a parameter are premises of the theorem that needs them, and its witness instantiates them.

  \<^bold>\<open>Decisions and bounds.\<close> A \<open>uuid\<close> is its canonical text; strings are lists of 8-bit characters; a Go map
  is an association list, iterated in a given order; a JSON body is the list of fields it assigns. \<open>int64\<close>
  sums that the program cannot make overflow are unbounded; the expiry of a link, where a client can,
  wraps at 64 bits; stream ids are 32-bit words, and completeness of delivery supposes fewer than 2 to the
  32 streams on a connection. Loops over rows and strings are structural recursion; there is no fuel. The
  histories of the tunnel's streams and the list of codes sent are ghost fields. \<open>pgx\<close>'s errors on a row
  scan, columns that only decorate an answer, and relative redirects are left out. A goroutine that
  expires an entry is a step of its own. The file system has no symbolic links, owners or times; a system
  call may fail at any point, having done a part of its work, as the schedule \<open>v_io\<close> says.

  \<^bold>\<open>Not modelled.\<close> The agent's own work and its control channel, builder and deployer (docker, git and
  rsync processes); hosted git repositories; health, logs and metrics; settings, branding, avatars,
  certificates; the providers' OAuth code; the other commands of muveectl; the embed-bridge plugin;
  start-up; the web console and the SDK. The manifest gives the reason for each.
\<close>

end
